(* ===== verification/Prelude.thy ===== *)
theory Prelude
  imports Main "HOL-Library.Word" "HOL-Library.Monad_Syntax"
begin

text \<open>
  What the components share: the machine types of the C code, the two's complement
  reading of a signed 64-bit result, the error numbers the modelled code compares with,
  and generic facts about lists, option values and integer intervals.  The facts are
  declared \<open>[simp]\<close> or put into one of the collections below, so that the
  component theories name a collection instead of a list of lemmas.
\<close>

section \<open>Machine types and constants\<close>

type_synonym u8 = "8 word"
type_synonym u32 = "32 word"
type_synonym u64 = "64 word"

text \<open>
  The C \<open>off_t\<close>, \<open>int\<close> and \<open>int64_t\<close> values are modelled by \<open>int\<close>.
  Where the code adds or subtracts offsets, the result is read back as a signed 64-bit value.
\<close>

definition s64 :: "int \<Rightarrow> int" where
  "s64 x = (x + 9223372036854775808) mod 18446744073709551616 - 9223372036854775808"

abbreviation (input) LLONG_MAX :: int where "LLONG_MAX \<equiv> 9223372036854775807"
abbreviation (input) LLONG_MIN :: int where "LLONG_MIN \<equiv> - 9223372036854775808"

abbreviation (input) ENOENT :: int where "ENOENT \<equiv> 2"
abbreviation (input) EAGAIN :: int where "EAGAIN \<equiv> 11"
abbreviation (input) ENOMEM :: int where "ENOMEM \<equiv> 12"
abbreviation (input) EINVAL :: int where "EINVAL \<equiv> 22"
abbreviation (input) ENOSPC :: int where "ENOSPC \<equiv> 28"
abbreviation (input) ENOLCK :: int where "ENOLCK \<equiv> 37"
abbreviation (input) EREMOTE :: int where "EREMOTE \<equiv> 66"
abbreviation (input) ENOTSUP :: int where "ENOTSUP \<equiv> 95"
abbreviation (input) ENOTCONN :: int where "ENOTCONN \<equiv> 107"
abbreviation (input) ESTALE :: int where "ESTALE \<equiv> 116"

named_theorems lock_simps \<open>unfolding rules of the lock predicates\<close>
named_theorems dht_simps \<open>unfolding rules of the layout operations\<close>
named_theorems gf_simps \<open>laws of the Galois field arithmetic\<close>

section \<open>Signed 64-bit values\<close>

lemma s64_id: "LLONG_MIN \<le> x \<Longrightarrow> x \<le> LLONG_MAX \<Longrightarrow> s64 x = x"
  by (simp add: s64_def)

lemma s64_range: "LLONG_MIN \<le> s64 x \<and> s64 x \<le> LLONG_MAX"
proof -
  have "0 \<le> (x + 9223372036854775808) mod 18446744073709551616"
    and "(x + 9223372036854775808) mod 18446744073709551616 < 18446744073709551616"
    by simp_all
  then show ?thesis unfolding s64_def by linarith
qed

text \<open>
  The overflow test of \<open>pl_lk\<close>: a sum of two non-negative offsets that reads as
  non-negative did not overflow.
\<close>

lemma s64_add_nonneg:
  assumes "0 \<le> a" "a \<le> LLONG_MAX" "0 \<le> b" "b \<le> LLONG_MAX" "0 \<le> s64 (a + b)"
  shows "s64 (a + b) = a + b"
proof (cases "a + b \<le> LLONG_MAX")
  case True
  with assms show ?thesis by (intro s64_id) auto
next
  case False
  let ?y = "a + b + 9223372036854775808 - 18446744073709551616"
  have "(a + b + 9223372036854775808) mod 18446744073709551616 = ?y mod 18446744073709551616"
    by (rule minus_mod_self2 [symmetric])
  also have "\<dots> = ?y" using False assms by (intro mod_pos_pos_trivial) auto
  finally have "s64 (a + b) < 0" unfolding s64_def using assms by linarith
  with assms(5) show ?thesis by simp
qed

section \<open>Lists\<close>

lemma find_remove1_first:
  assumes "find P xs = Some x"
  shows "\<exists>ys zs. xs = ys @ x # zs \<and> (\<forall>y \<in> set ys. \<not> P y) \<and> P x \<and> remove1 x xs = ys @ zs"
  using assms
proof (induction xs)
  case Nil
  then show ?case by simp
next
  case (Cons a xs)
  show ?case
  proof (cases "P a")
    case True
    with Cons.prems show ?thesis by (intro exI [of _ "[]"] exI [of _ xs]) simp
  next
    case False
    with Cons obtain ys zs where
      "xs = ys @ x # zs" "\<forall>y \<in> set ys. \<not> P y" "P x" "remove1 x xs = ys @ zs" by auto
    with False show ?thesis
      by (intro exI [of _ "a # ys"] exI [of _ zs]) auto
  qed
qed

lemma find_Some_set: "find P xs = Some x \<Longrightarrow> x \<in> set xs \<and> P x"
  by (induction xs) (auto split: if_splits)

lemma find_map: "find P (map f xs) = map_option f (find (P \<circ> f) xs)"
  by (induction xs) auto

lemma find_None_all: "find P xs = None \<longleftrightarrow> (\<forall>x \<in> set xs. \<not> P x)"
  by (auto simp: find_None_iff)

lemma filter_split:
  "filter P xs = front @ y # rest \<Longrightarrow> \<exists>us vs. xs = us @ y # vs \<and> front = filter P us \<and> P y"
proof (induction xs arbitrary: front)
  case Nil
  then show ?case by simp
next
  case (Cons x xs)
  show ?case
  proof (cases "P x \<and> front = []")
    case True
    then have "xs = xs \<and> x = y" using Cons.prems by simp
    then have "x # xs = [] @ y # xs \<and> front = filter P [] \<and> P y" using True by simp
    then show ?thesis by blast
  next
    case False
    define front' where "front' = (if P x then tl front else front)"
    have "filter P xs = front' @ y # rest"
      using Cons.prems False by (cases front) (auto simp: front'_def split: if_splits)
    then obtain us vs where u: "xs = us @ y # vs" "front' = filter P us" "P y" using Cons.IH by blast
    have "front = filter P (x # us)"
      using u(2) Cons.prems False by (cases front) (auto simp: front'_def split: if_splits)
    then show ?thesis using u by (metis append_Cons)
  qed
qed

lemma sum_list_split:
  "sum_list (map f (xs @ y # ys)) = (f y :: nat) + sum_list (map f (xs @ ys))"
  by simp

section \<open>Intervals of integers\<close>

lemma interval_hull:
  fixes a b c d :: int
  assumes "a \<le> b" "c \<le> d" "b \<ge> c" "d \<ge> a"
  shows "{min a c .. max b d} = {a..b} \<union> {c..d}"
  using assms by auto

end
