(* ===== verification/Lk_Types.thy ===== *)
theory Lk_Types
  imports Prelude
begin

text \<open>
  The data every lock type of the locks translator shares: the lock types, the owner
  of a lock (\<open>libglusterfs/src/lkowner.h\<close>) and the lock description a client
  sends (\<open>struct gf_flock\<close>).  An owner is a length and a buffer, and two
  owners are the same when the lengths agree and the first \<open>len\<close> bytes do.
\<close>

datatype lk_type = F_RDLCK | F_WRLCK | F_UNLCK

record gf_lkowner =
  lk_len :: nat
  lk_data :: "u8 list"

record gf_flock =
  l_type :: lk_type
  l_whence :: int
  l_start :: int
  l_len :: int
  l_pid :: int
  l_owner :: gf_lkowner

definition is_same_lkowner :: "gf_lkowner \<Rightarrow> gf_lkowner \<Rightarrow> bool" where
  "is_same_lkowner l1 l2 \<longleftrightarrow>
     lk_len l1 = lk_len l2 \<and> take (lk_len l1) (lk_data l1) = take (lk_len l1) (lk_data l2)"

lemma is_same_lkowner_refl [simp]: "is_same_lkowner a a"
  by (simp add: is_same_lkowner_def)

lemma is_same_lkowner_sym: "is_same_lkowner a b \<longleftrightarrow> is_same_lkowner b a"
  by (auto simp: is_same_lkowner_def)

lemma is_same_lkowner_trans: "is_same_lkowner a b \<Longrightarrow> is_same_lkowner b c \<Longrightarrow> is_same_lkowner a c"
  by (auto simp: is_same_lkowner_def)

lemma is_same_lkowner_right_cong: "is_same_lkowner b c \<Longrightarrow> is_same_lkowner a b \<longleftrightarrow> is_same_lkowner a c"
  by (auto simp: is_same_lkowner_def)

end
