(* ===== verification/Posix_Locks.thy ===== *)
theory Posix_Locks
  imports Lk_Types
begin

text \<open>
  The fcntl (byte range) locks of the locks translator:
  \<open>xlators/features/locks/src/common.c\<close> and the callers in \<open>posix.c\<close>.

  All locks of an inode, granted and blocked, are in one list \<open>ext_list\<close>.  A list of C
  structures is a list of records here.  Memory allocation is taken to succeed, so that
  \<open>__copy_lock\<close> is the identity and \<open>__destroy_lock\<close> has no effect of its
  own; the time stamps of a lock are only printed and are left out.

  The recursive merge \<open>__insert_and_merge\<close> is a partial function into \<open>option\<close>,
  since it calls itself on lists that need not be shorter.  It is shown to return on every
  list of well-formed locks: the total number of bytes the locks span decreases.
\<close>

section \<open>Data\<close>

record posix_lock =
  fl_type :: lk_type
  fl_start :: int
  fl_end :: int
  lk_flags :: u32
  blocked :: bool
  user_flock :: gf_flock
  fd_num :: nat
  frame :: "nat option"
  client :: nat
  client_uid :: string
  owner :: gf_lkowner
  client_pid :: int
  blocking :: bool

datatype fop = GF_FOP_READ | GF_FOP_WRITE | GF_FOP_OTHER nat

datatype mlk_mode = MLK_NONE | MLK_FILE_BASED | MLK_FORCED | MLK_OPTIMAL

record pl_rw_req =
  rw_stub :: nat
  rw_fop :: fop
  rw_region :: posix_lock

record pl_inode =
  ext_list :: "posix_lock list"
  rw_list :: "pl_rw_req list"
  metalk_list :: "nat list"
  queued_locks :: "posix_lock list"
  migrated :: bool

text \<open>What a handler tells the rest of the stack: an answer to a lock call, or a resumed
  read or write.\<close>

datatype pl_event =
    Unwind_lk "nat option" int int gf_flock
  | Resume_rw nat

section \<open>Operations\<close>

definition new_posix_lock ::
  "gf_flock \<Rightarrow> nat \<Rightarrow> string \<Rightarrow> int \<Rightarrow> gf_lkowner \<Rightarrow> nat \<Rightarrow> u32 \<Rightarrow> bool \<Rightarrow> posix_lock" where
  "new_posix_lock flock cl cl_uid pid own fd flags blking =
     \<lparr> fl_type = l_type flock,
       fl_start = l_start flock,
       fl_end = (if l_len flock = 0 then LLONG_MAX else s64 (l_start flock + l_len flock - 1)),
       lk_flags = flags,
       blocked = False,
       user_flock = flock,
       fd_num = fd,
       frame = None,
       client = cl,
       client_uid = cl_uid,
       owner = own,
       client_pid = pid,
       blocking = blking \<rparr>"

definition posix_lock_to_flock :: "posix_lock \<Rightarrow> gf_flock \<Rightarrow> gf_flock" where
  "posix_lock_to_flock lock flock =
     flock\<lparr> l_pid := l_pid (user_flock lock),
            l_type := fl_type lock,
            l_start := fl_start lock,
            l_owner := owner lock,
            l_len := (if fl_end lock = LLONG_MAX then 0
                      else s64 (fl_end lock - fl_start lock + 1)) \<rparr>"

text \<open>The idiom \<open>posix_lock_to_flock (l, &l->user_flock)\<close>.\<close>

definition sync_flock :: "posix_lock \<Rightarrow> posix_lock" where
  "sync_flock l = l\<lparr> user_flock := posix_lock_to_flock l (user_flock l) \<rparr>"

definition insert_lock :: "posix_lock list \<Rightarrow> posix_lock \<Rightarrow> posix_lock list" where
  "insert_lock ext lock = ext @ [lock]"

definition locks_overlap :: "posix_lock \<Rightarrow> posix_lock \<Rightarrow> bool" where
  "locks_overlap l1 l2 \<longleftrightarrow> fl_end l1 \<ge> fl_start l2 \<and> fl_end l2 \<ge> fl_start l1"

definition same_owner :: "posix_lock \<Rightarrow> posix_lock \<Rightarrow> bool" where
  "same_owner l1 l2 \<longleftrightarrow> is_same_lkowner (owner l1) (owner l2) \<and> client l1 = client l2"

definition delete_unlck_locks :: "posix_lock list \<Rightarrow> posix_lock list" where
  "delete_unlck_locks ext = filter (\<lambda>l. fl_type l \<noteq> F_UNLCK) ext"

definition add_locks :: "posix_lock \<Rightarrow> posix_lock \<Rightarrow> posix_lock \<Rightarrow> posix_lock" where
  "add_locks l1 l2 dst =
     sync_flock (dst\<lparr> fl_start := min (fl_start l1) (fl_start l2),
                      fl_end := max (fl_end l1) (fl_end l2) \<rparr>)"

text \<open>
  \<open>subtract_locks\<close> returns the array of at most three pieces, here without its NULL
  entries, which the caller skips.  The last branch is the code's unexpected case.
\<close>

definition subtract_locks :: "posix_lock \<Rightarrow> posix_lock \<Rightarrow> posix_lock list" where
  "subtract_locks big small =
     (if fl_start big = fl_start small \<and> fl_end big = fl_end small then
        [big\<lparr> fl_type := fl_type small,
              user_flock := (user_flock big)\<lparr> l_type := fl_type small \<rparr> \<rparr>]
      else if fl_start small > fl_start big \<and> fl_end small < fl_end big then
        [sync_flock (big\<lparr> fl_end := s64 (fl_start small - 1) \<rparr>),
         small,
         sync_flock (big\<lparr> fl_start := s64 (fl_end small + 1) \<rparr>)]
      else if fl_start small = fl_start big then
        [sync_flock (big\<lparr> fl_start := s64 (fl_end small + 1) \<rparr>), small]
      else if fl_end small = fl_end big then
        [sync_flock (big\<lparr> fl_end := s64 (fl_start small - 1) \<rparr>), small]
      else [])"

definition first_conflicting_overlap :: "posix_lock list \<Rightarrow> posix_lock \<Rightarrow> posix_lock option" where
  "first_conflicting_overlap ext lock =
     find (\<lambda>l. \<not> blocked l \<and> locks_overlap l lock \<and> \<not> same_owner l lock \<and>
               (fl_type l = F_WRLCK \<or> fl_type lock = F_WRLCK)) ext"

definition first_overlap :: "posix_lock list \<Rightarrow> posix_lock \<Rightarrow> posix_lock option" where
  "first_overlap ext lock = find (\<lambda>l. \<not> blocked l \<and> locks_overlap l lock) ext"

definition is_lock_grantable :: "posix_lock list \<Rightarrow> posix_lock \<Rightarrow> bool" where
  "is_lock_grantable ext lock \<longleftrightarrow>
     \<not> (\<exists>l \<in> set ext. \<not> blocked l \<and> locks_overlap lock l \<and>
          (fl_type l = F_WRLCK \<or> fl_type lock = F_WRLCK) \<and>
          fl_type lock \<noteq> F_UNLCK \<and> \<not> same_owner l lock)"

text \<open>
  The loop of \<open>__insert_and_merge\<close> over \<open>ext_list\<close> stops at the first lock of the same
  owner that overlaps (\<open>Scan_own\<close>, with the list before and after it), or at the first read
  lock of another owner that overlaps a read request (\<open>Scan_shared\<close>), or runs to the end.
\<close>

datatype scan = Scan_own "posix_lock list" posix_lock "posix_lock list" | Scan_shared | Scan_end

fun merge_scan :: "posix_lock \<Rightarrow> posix_lock list \<Rightarrow> posix_lock list \<Rightarrow> scan" where
  "merge_scan lock pre [] = Scan_end"
| "merge_scan lock pre (conf # rest) =
     (if blocked conf then merge_scan lock (pre @ [conf]) rest
      else if \<not> locks_overlap conf lock then merge_scan lock (pre @ [conf]) rest
      else if same_owner conf lock then Scan_own pre conf rest
      else if fl_type lock = F_UNLCK then merge_scan lock (pre @ [conf]) rest
      else if fl_type conf = F_RDLCK \<and> fl_type lock = F_RDLCK then Scan_shared
      else merge_scan lock (pre @ [conf]) rest)"

partial_function (option) insert_and_merge ::
  "posix_lock list \<Rightarrow> posix_lock \<Rightarrow> posix_lock list option" where
  "insert_and_merge ext lock =
     (case merge_scan lock [] ext of
        Scan_own pre conf rest \<Rightarrow>
          if fl_type conf = fl_type lock \<and> lk_flags conf = lk_flags lock then
            insert_and_merge (pre @ rest) (sync_flock (add_locks lock conf lock))
          else
            (case subtract_locks (add_locks lock conf conf) lock of
               [] \<Rightarrow> Some (delete_unlck_locks (pre @ rest))
             | v0 # vs \<Rightarrow>
                 Option.bind (insert_and_merge (pre @ rest) v0) (\<lambda>e0.
                 case vs of
                   [] \<Rightarrow> Some (delete_unlck_locks e0)
                 | v1 # ws \<Rightarrow>
                     Option.bind (insert_and_merge e0 v1) (\<lambda>e1.
                     case ws of
                       [] \<Rightarrow> Some (delete_unlck_locks e1)
                     | v2 # _ \<Rightarrow>
                         Option.bind (insert_and_merge e1 v2) (\<lambda>e2.
                         Some (delete_unlck_locks e2)))))
      | Scan_shared \<Rightarrow> Some (insert_lock ext lock)
      | Scan_end \<Rightarrow>
          if fl_type lock \<noteq> F_UNLCK then Some (insert_lock ext lock) else Some ext)"

declare insert_and_merge.simps [code]

text \<open>
  \<open>__grant_blocked_locks\<close>.  The first loop takes out of the list the blocked locks that no
  granted lock overlaps; it moves blocked locks only, so \<open>first_overlap\<close> sees the same granted
  locks throughout.  The second loop tries each of them again, in order.  The list of answers
  is built at its head.
\<close>

definition grant_candidate :: "posix_lock list \<Rightarrow> posix_lock \<Rightarrow> bool" where
  "grant_candidate ext l \<longleftrightarrow> blocked l \<and> first_overlap ext l = None"

fun grant_retry ::
  "posix_lock list \<Rightarrow> posix_lock list \<Rightarrow> (nat option \<times> gf_flock) list \<Rightarrow>
     (posix_lock list \<times> (nat option \<times> gf_flock) list) option" where
  "grant_retry ext [] granted = Some (ext, granted)"
| "grant_retry ext (l # ls) granted =
     (if is_lock_grantable ext l then
        Option.bind (insert_and_merge ext (l\<lparr> frame := None \<rparr>)) (\<lambda>ext'.
          grant_retry ext' ls
            ((frame l, posix_lock_to_flock l
                 \<lparr> l_type = F_RDLCK, l_whence = 0, l_start = 0, l_len = 0, l_pid = 0,
                   l_owner = \<lparr> lk_len = 0, lk_data = [] \<rparr> \<rparr>) # granted))
      else grant_retry (insert_lock ext (l\<lparr> blocked := True \<rparr>)) ls granted)"

definition grant_blocked_locks_locked ::
  "posix_lock list \<Rightarrow> (posix_lock list \<times> (nat option \<times> gf_flock) list) option" where
  "grant_blocked_locks_locked ext =
     grant_retry (filter (\<lambda>l. \<not> grant_candidate ext l) ext)
       (map (\<lambda>l. l\<lparr> blocked := False \<rparr>) (filter (grant_candidate ext) ext)) []"

definition unwind_granted :: "(nat option \<times> gf_flock) list \<Rightarrow> pl_event list" where
  "unwind_granted gs = map (\<lambda>(f, fl). Unwind_lk f 0 0 fl) gs"

definition grant_blocked_locks :: "pl_inode \<Rightarrow> (pl_inode \<times> pl_event list) option" where
  "grant_blocked_locks pin =
     Option.bind (grant_blocked_locks_locked (ext_list pin)) (\<lambda>(ext, gs).
       Some (pin\<lparr> ext_list := ext \<rparr>, unwind_granted gs))"

definition pl_send_prelock_unlock ::
  "posix_lock list \<Rightarrow> posix_lock \<Rightarrow> (posix_lock list \<times> pl_event list) option" where
  "pl_send_prelock_unlock ext old =
     (let flock = \<lparr> l_type = F_UNLCK, l_whence = l_whence (user_flock old),
                    l_start = l_start (user_flock old), l_len = l_len (user_flock old),
                    l_pid = l_pid (user_flock old),
                    l_owner = \<lparr> lk_len = 0, lk_data = [] \<rparr> \<rparr>;
          unlock_lock = new_posix_lock flock (client old) (client_uid old) (client_pid old)
                          (owner old) (fd_num old) (lk_flags old) False
      in Option.bind (insert_and_merge ext unlock_lock) (\<lambda>ext1.
         Option.bind (grant_blocked_locks_locked ext1) (\<lambda>(ext2, gs).
         Some (ext2, unwind_granted gs))))"

text \<open>
  \<open>rw_allowable\<close> reads the translator's \<open>mandatory_mode\<close>; \<open>GF_LK_MANDATORY\<close> is the flag
  bit 1 (\<open>libglusterfs/src/glusterfs.h\<close>).
\<close>

definition rw_allowable :: "mlk_mode \<Rightarrow> posix_lock list \<Rightarrow> posix_lock \<Rightarrow> fop \<Rightarrow> bool" where
  "rw_allowable mode ext region op \<longleftrightarrow>
     \<not> (\<exists>l \<in> set ext. \<not> blocked l \<and> locks_overlap l region \<and> \<not> same_owner l region \<and>
          \<not> (op = GF_FOP_READ \<and> fl_type l \<noteq> F_WRLCK) \<and>
          \<not> (mode = MLK_OPTIMAL \<and> \<not> bit (lk_flags l) 0))"

definition do_blocked_rw :: "mlk_mode \<Rightarrow> pl_inode \<Rightarrow> pl_inode \<times> pl_event list" where
  "do_blocked_rw mode pin =
     (let ok = (\<lambda>rw. rw_allowable mode (ext_list pin) (rw_region rw) (rw_fop rw))
      in (pin\<lparr> rw_list := filter (\<lambda>rw. \<not> ok rw) (rw_list pin) \<rparr>,
          map (\<lambda>rw. Resume_rw (rw_stub rw)) (filter ok (rw_list pin))))"

definition pl_metalock_is_active :: "pl_inode \<Rightarrow> bool" where
  "pl_metalock_is_active pin \<longleftrightarrow> metalk_list pin \<noteq> []"

definition pl_queue_lock :: "pl_inode \<Rightarrow> posix_lock \<Rightarrow> pl_inode" where
  "pl_queue_lock pin lock = pin\<lparr> queued_locks := queued_locks pin @ [lock] \<rparr>"

text \<open>
  \<open>pl_setlk\<close> returns its result code, the new state and the events.  The code is 0 for a
  lock that was set, -1 for one that was refused or blocked, -2 for one queued behind a
  meta lock, which returns before any blocked lock is tried again.
\<close>

definition pl_setlk_after ::
  "mlk_mode \<Rightarrow> int \<Rightarrow> pl_event list \<Rightarrow> pl_inode \<Rightarrow> (int \<times> pl_inode \<times> pl_event list) option" where
  "pl_setlk_after mode ret evs pin =
     Option.bind (grant_blocked_locks pin) (\<lambda>(pin1, evs1).
       let (pin2, evs2) = do_blocked_rw mode pin1
       in Some (ret, pin2, evs @ evs1 @ evs2))"

definition pl_setlk ::
  "mlk_mode \<Rightarrow> pl_inode \<Rightarrow> posix_lock \<Rightarrow> bool \<Rightarrow> (int \<times> pl_inode \<times> pl_event list) option" where
  "pl_setlk mode pin lock can_block =
     Option.bind
       (if can_block \<and> \<not> is_lock_grantable (ext_list pin) lock
        then pl_send_prelock_unlock (ext_list pin) lock
        else Some (ext_list pin, [])) (\<lambda>(ext, evs).
       let pin1 = pin\<lparr> ext_list := ext \<rparr> in
       if is_lock_grantable ext lock then
         if pl_metalock_is_active pin1 then Some (-2, pl_queue_lock pin1 lock, evs)
         else Option.bind (insert_and_merge ext lock) (\<lambda>ext'.
                pl_setlk_after mode 0 evs (pin1\<lparr> ext_list := ext' \<rparr>))
       else if can_block then
         if pl_metalock_is_active pin1 then Some (-2, pl_queue_lock pin1 lock, evs)
         else pl_setlk_after mode (-1) evs
                (pin1\<lparr> ext_list := insert_lock ext (lock\<lparr> blocked := True \<rparr>) \<rparr>)
       else pl_setlk_after mode (-1) evs pin1)"

definition pl_getlk :: "pl_inode \<Rightarrow> posix_lock \<Rightarrow> posix_lock" where
  "pl_getlk pin lock =
     (case first_conflicting_overlap (ext_list pin) lock of
        None \<Rightarrow> lock\<lparr> fl_type := F_UNLCK \<rparr>
      | Some conf \<Rightarrow> conf)"

text \<open>The argument checks of \<open>pl_lk\<close> and the lock it builds, before the command is
  looked at.\<close>

definition pl_lk_request ::
  "gf_flock \<Rightarrow> nat \<Rightarrow> string \<Rightarrow> int \<Rightarrow> gf_lkowner \<Rightarrow> nat \<Rightarrow> u32 \<Rightarrow> int + posix_lock" where
  "pl_lk_request flock cl cl_uid pid own fd flags =
     (if l_start flock < 0 \<or> s64 (l_start flock + l_len flock) < 0 then Inl EINVAL
      else
        let flock' = (if l_len flock < 0
                      then flock\<lparr> l_start := s64 (l_start flock + l_len flock),
                                  l_len := s64 (\<bar>l_len flock\<bar>) \<rparr>
                      else flock)
        in Inr (new_posix_lock flock' cl cl_uid pid own fd flags False))"

text \<open>Releasing locks: on the last close of a descriptor, and at a flush by the owner.\<close>

definition delete_locks_of_fd ::
  "mlk_mode \<Rightarrow> pl_inode \<Rightarrow> nat \<Rightarrow> (pl_inode \<times> pl_event list) option" where
  "delete_locks_of_fd mode pin fd =
     (let mine = (\<lambda>l. fd_num l = fd);
          waiting = filter (\<lambda>l. mine l \<and> blocked l) (ext_list pin);
          pin0 = pin\<lparr> ext_list := filter (\<lambda>l. \<not> mine l) (ext_list pin) \<rparr>
      in Option.bind (grant_blocked_locks pin0) (\<lambda>(pin1, evs1).
           let (pin2, evs2) = do_blocked_rw mode pin1
           in Some (pin2, map (\<lambda>l. Unwind_lk (frame l) (-1) EAGAIN (user_flock l)) waiting
                            @ evs1 @ evs2)))"

definition delete_locks_of_owner :: "posix_lock list \<Rightarrow> nat \<Rightarrow> gf_lkowner \<Rightarrow> posix_lock list" where
  "delete_locks_of_owner ext cl own =
     filter (\<lambda>l. blocked l \<or> \<not> (client l = cl \<and> is_same_lkowner (owner l) own)) ext"

text \<open>\<open>pl_flush\<close> answers \<open>EREMOTE\<close> itself on a migrated inode; otherwise it
  drops the locks and winds the call down.\<close>

definition pl_flush ::
  "mlk_mode \<Rightarrow> pl_inode \<Rightarrow> nat \<Rightarrow> nat \<Rightarrow> gf_lkowner \<Rightarrow> (int + pl_inode \<times> pl_event list) option" where
  "pl_flush mode pin fd cl own =
     (if migrated pin then Some (Inl EREMOTE)
      else if lk_len own = 0 then map_option Inr (delete_locks_of_fd mode pin fd)
      else
        let pin0 = pin\<lparr> ext_list := delete_locks_of_owner (ext_list pin) cl own \<rparr>
        in Option.bind (grant_blocked_locks pin0) (\<lambda>(pin1, evs1).
             let (pin2, evs2) = do_blocked_rw mode pin1
             in Some (Inr (pin2, evs1 @ evs2))))"

definition pl_locks_by_fd :: "pl_inode \<Rightarrow> nat \<Rightarrow> bool" where
  "pl_locks_by_fd pin fd \<longleftrightarrow> (\<exists>l \<in> set (ext_list pin). fd_num l = fd)"

section \<open>What the locks of one owner hold\<close>

definition wf_lock :: "posix_lock \<Rightarrow> bool" where
  "wf_lock l \<longleftrightarrow> LLONG_MIN \<le> fl_start l \<and> fl_start l \<le> fl_end l \<and> fl_end l \<le> LLONG_MAX"

definition wf_ext :: "posix_lock list \<Rightarrow> bool" where
  "wf_ext ext \<longleftrightarrow> (\<forall>l \<in> set ext. wf_lock l \<and> fl_type l \<noteq> F_UNLCK)"

definition rng :: "posix_lock \<Rightarrow> int set" where
  "rng l = {fl_start l .. fl_end l}"

definition span :: "posix_lock \<Rightarrow> nat" where
  "span l = nat (fl_end l - fl_start l + 1)"

abbreviation total_span :: "posix_lock list \<Rightarrow> nat" where
  "total_span ext \<equiv> sum_list (map span ext)"

text \<open>\<open>mine q l\<close>: \<open>l\<close> is a granted lock of the owner of \<open>q\<close>.  \<open>held q ext b\<close> is the
  set of lock types that owner holds on byte \<open>b\<close>.\<close>

definition mine :: "posix_lock \<Rightarrow> posix_lock \<Rightarrow> bool" where
  "mine q l \<longleftrightarrow> \<not> blocked l \<and> same_owner l q"

definition held :: "posix_lock \<Rightarrow> posix_lock list \<Rightarrow> int \<Rightarrow> lk_type set" where
  "held q ext b = fl_type ` {l \<in> set ext. mine q l \<and> b \<in> rng l}"

text \<open>\<open>no_other_reader q ext\<close>: a read request finds no granted read lock of another owner.\<close>

definition no_other_reader :: "posix_lock \<Rightarrow> posix_lock list \<Rightarrow> bool" where
  "no_other_reader q ext \<longleftrightarrow>
     (fl_type q = F_RDLCK \<longrightarrow>
        \<not> (\<exists>l \<in> set ext. \<not> blocked l \<and> \<not> same_owner l q \<and> fl_type l = F_RDLCK))"

lemma same_owner_refl [simp]: "same_owner a a"
  by (simp add: same_owner_def)

lemma same_owner_sym: "same_owner a b \<longleftrightarrow> same_owner b a"
  by (auto simp: same_owner_def is_same_lkowner_sym)

lemma same_owner_cong: "same_owner p q \<Longrightarrow> same_owner l p \<longleftrightarrow> same_owner l q"
  unfolding same_owner_def using is_same_lkowner_right_cong by metis

lemma mine_cong: "same_owner p q \<Longrightarrow> mine p = mine q"
  unfolding mine_def using same_owner_cong by blast

lemma held_cong: "same_owner p q \<Longrightarrow> held p = held q"
  unfolding held_def using mine_cong by presburger

lemma overlap_iff_rng:
  "wf_lock a \<Longrightarrow> wf_lock b \<Longrightarrow> locks_overlap a b \<longleftrightarrow> rng a \<inter> rng b \<noteq> {}"
  unfolding locks_overlap_def rng_def wf_lock_def by auto

lemma held_append [simp]: "held q (xs @ ys) b = held q xs b \<union> held q ys b"
  by (auto simp: held_def)

lemma held_Nil [simp]: "held q [] b = {}"
  by (simp add: held_def)

lemma held_Cons [simp]:
  "held q (l # ls) b = (if mine q l \<and> b \<in> rng l then {fl_type l} else {}) \<union> held q ls b"
  by (auto simp: held_def)

lemma wf_ext_append [simp]: "wf_ext (xs @ ys) \<longleftrightarrow> wf_ext xs \<and> wf_ext ys"
  by (auto simp: wf_ext_def)

lemma wf_ext_Cons [simp]: "wf_ext (l # ls) \<longleftrightarrow> wf_lock l \<and> fl_type l \<noteq> F_UNLCK \<and> wf_ext ls"
  by (auto simp: wf_ext_def)

lemma wf_ext_Nil [simp]: "wf_ext []"
  by (simp add: wf_ext_def)

lemma delete_unlck_wf [simp]: "wf_ext ext \<Longrightarrow> delete_unlck_locks ext = ext"
  by (simp add: wf_ext_def delete_unlck_locks_def)

lemma no_other_reader_filter:
  assumes "filter (\<lambda>l. \<not> mine q l) ext = filter (\<lambda>l. \<not> mine q l) ext'"
  shows "no_other_reader q ext \<longleftrightarrow> no_other_reader q ext'"
proof -
  have "\<And>e. no_other_reader q e \<longleftrightarrow> (fl_type q = F_RDLCK \<longrightarrow>
      \<not> (\<exists>l \<in> set (filter (\<lambda>l. \<not> mine q l) e). \<not> blocked l \<and> \<not> same_owner l q \<and> fl_type l = F_RDLCK))"
    by (auto simp: no_other_reader_def mine_def)
  with assms show ?thesis by presburger
qed

section \<open>The loop and the pieces\<close>

lemma merge_scan_own:
  "merge_scan lock pre ext = Scan_own p c r \<Longrightarrow>
     pre @ ext = p @ c # r \<and> mine lock c \<and> locks_overlap c lock"
  by (induction lock pre ext rule: merge_scan.induct) (auto simp: mine_def split: if_splits)

lemma merge_scan_shared:
  "merge_scan lock pre ext = Scan_shared \<Longrightarrow>
     fl_type lock = F_RDLCK \<and> \<not> no_other_reader lock ext"
  by (induction lock pre ext rule: merge_scan.induct)
     (auto simp: no_other_reader_def split: if_splits)

lemma merge_scan_end:
  "merge_scan lock pre ext = Scan_end \<Longrightarrow> c \<in> set ext \<Longrightarrow> mine lock c \<Longrightarrow> \<not> locks_overlap c lock"
  by (induction lock pre ext rule: merge_scan.induct) (auto simp: mine_def split: if_splits)

lemma sync_flock_fields [simp]:
  "fl_type (sync_flock l) = fl_type l" "fl_start (sync_flock l) = fl_start l"
  "fl_end (sync_flock l) = fl_end l" "lk_flags (sync_flock l) = lk_flags l"
  "blocked (sync_flock l) = blocked l" "owner (sync_flock l) = owner l"
  "client (sync_flock l) = client l" "frame (sync_flock l) = frame l"
  by (simp_all add: sync_flock_def)

text \<open>A \<open>piece\<close> is a granted, well-formed lock of the owner of \<open>q\<close> with a given type and
  byte range: all the proofs below need to know of the locks the code builds.\<close>

definition piece :: "posix_lock \<Rightarrow> lk_type \<Rightarrow> int set \<Rightarrow> posix_lock \<Rightarrow> bool" where
  "piece q t R v \<longleftrightarrow> wf_lock v \<and> \<not> blocked v \<and> same_owner v q \<and> fl_type v = t \<and> rng v = R"

lemma piece_refl: "wf_lock q \<Longrightarrow> \<not> blocked q \<Longrightarrow> piece q (fl_type q) (rng q) q"
  by (simp add: piece_def)

lemma mine_overlap_wf:
  assumes "wf_lock lock" "wf_lock conf" "mine lock conf" "locks_overlap conf lock"
  shows "rng conf \<inter> rng lock \<noteq> {}"
  using assms overlap_iff_rng by blast

lemma merged_piece:
  assumes "wf_lock lock" "wf_lock conf" "\<not> blocked lock" "locks_overlap conf lock"
  shows "piece lock (fl_type lock) (rng lock \<union> rng conf) (sync_flock (add_locks lock conf lock))"
  using assms
  by (auto simp: piece_def add_locks_def wf_lock_def rng_def locks_overlap_def same_owner_def)

lemma split_pieces:
  assumes "wf_lock lock" "wf_lock conf" "\<not> blocked lock" "mine lock conf" "locks_overlap conf lock"
  shows "(\<exists>v. subtract_locks (add_locks lock conf conf) lock = [v] \<and>
            piece lock (fl_type lock) (rng lock) v \<and> rng conf \<subseteq> rng lock)
       \<or> (\<exists>v. subtract_locks (add_locks lock conf conf) lock = [v, lock] \<and>
            piece lock (fl_type conf) (rng conf - rng lock) v)
       \<or> (\<exists>v w V W. subtract_locks (add_locks lock conf conf) lock = [v, lock, w] \<and>
            piece lock (fl_type conf) V v \<and> piece lock (fl_type conf) W w \<and>
            V \<inter> W = {} \<and> V \<union> W = rng conf - rng lock)"
proof -
  let ?s = "fl_start lock" and ?e = "fl_end lock" and ?cs = "fl_start conf" and ?ce = "fl_end conf"
  let ?sub = "subtract_locks (add_locks lock conf conf) lock"
  have b: "LLONG_MIN \<le> ?s" "?s \<le> ?e" "?e \<le> LLONG_MAX" "LLONG_MIN \<le> ?cs" "?cs \<le> ?ce"
    "?ce \<le> LLONG_MAX" "?ce \<ge> ?s" "?e \<ge> ?cs" and own: "same_owner conf lock" "\<not> blocked conf"
    using assms by (auto simp: wf_lock_def locks_overlap_def mine_def)
  note defs = subtract_locks_def add_locks_def piece_def wf_lock_def rng_def same_owner_def
  consider "?s \<le> ?cs" "?ce \<le> ?e" | "?s \<le> ?cs" "?e < ?ce" | "?cs < ?s" "?ce \<le> ?e"
    | "?cs < ?s" "?e < ?ce" by linarith
  then show ?thesis
  proof cases
    case 1
    then show ?thesis using b own by (intro disjI1) (auto simp: defs)
  next
    case 2
    then have "s64 (?e + 1) = ?e + 1" using b by (intro s64_id) auto
    with 2 show ?thesis using b own by (intro disjI2 disjI1) (auto simp: defs)
  next
    case 3
    then have "s64 (?s - 1) = ?s - 1" using b by (intro s64_id) auto
    with 3 show ?thesis using b own by (intro disjI2 disjI1) (auto simp: defs)
  next
    case 4
    have w: "s64 (?e + 1) = ?e + 1" "s64 (?s - 1) = ?s - 1" using 4 b by (auto intro!: s64_id)
    have "?sub = [sync_flock ((add_locks lock conf conf)\<lparr> fl_end := ?s - 1 \<rparr>), lock,
                  sync_flock ((add_locks lock conf conf)\<lparr> fl_start := ?e + 1 \<rparr>)]"
      using 4 w by (simp add: subtract_locks_def add_locks_def)
    moreover have "piece lock (fl_type conf) {?cs .. ?s - 1}
        (sync_flock ((add_locks lock conf conf)\<lparr> fl_end := ?s - 1 \<rparr>))"
      and "piece lock (fl_type conf) {?e + 1 .. ?ce}
        (sync_flock ((add_locks lock conf conf)\<lparr> fl_start := ?e + 1 \<rparr>))"
      using 4 b own by (auto simp: defs)
    moreover have "{?cs .. ?s - 1} \<inter> {?e + 1 .. ?ce} = {}"
      and "{?cs .. ?s - 1} \<union> {?e + 1 .. ?ce} = rng conf - rng lock"
      using 4 b by (auto simp: rng_def)
    ultimately show ?thesis by blast
  qed
qed

lemma span_card: "wf_lock l \<Longrightarrow> span l = card (rng l)"
  by (simp add: span_def rng_def wf_lock_def)

lemma finite_rng [simp]: "finite (rng l)"
  by (simp add: rng_def)

section \<open>Inserting a lock\<close>

text \<open>
  The contract of \<open>__insert_and_merge\<close>.  The locks of other owners and the blocked ones keep
  their order and contents.  On the requested range the owner holds something exactly if the
  request is no unlock, elsewhere exactly what was locked stays locked, and no type appears on
  a byte except the old ones and the requested one.  If no other reader can end the loop early,
  the owner holds nothing but the requested type on the range.
\<close>

definition im_spec :: "posix_lock list \<Rightarrow> posix_lock \<Rightarrow> posix_lock list \<Rightarrow> bool" where
  "im_spec ext lock ext' \<longleftrightarrow>
     wf_ext ext' \<and>
     total_span ext' \<le> total_span ext + span lock \<and>
     filter (\<lambda>l. \<not> mine lock l) ext' = filter (\<lambda>l. \<not> mine lock l) ext \<and>
     (\<forall>b. held lock ext' b \<subseteq> held lock ext b \<union> (if b \<in> rng lock then {fl_type lock} else {})) \<and>
     (\<forall>b. held lock ext' b \<noteq> {} \<longleftrightarrow>
        (if b \<in> rng lock then fl_type lock \<noteq> F_UNLCK else held lock ext b \<noteq> {})) \<and>
     (no_other_reader lock ext \<longrightarrow> (\<forall>b \<in> rng lock. held lock ext' b \<subseteq> {fl_type lock}))"

text \<open>The parts of the contract that only mention the owner, range and type of the lock.\<close>

lemma im_spec_piece:
  assumes p: "piece lock t R v" and spec: "im_spec ext v ext'"
  shows "wf_ext ext'" "total_span ext' \<le> total_span ext + card R"
    "filter (\<lambda>l. \<not> mine lock l) ext' = filter (\<lambda>l. \<not> mine lock l) ext"
    "\<And>b. held lock ext' b \<subseteq> held lock ext b \<union> (if b \<in> R then {t} else {})"
    "\<And>b. held lock ext' b \<noteq> {} \<longleftrightarrow> (if b \<in> R then t \<noteq> F_UNLCK else held lock ext b \<noteq> {})"
    "t = fl_type lock \<Longrightarrow> no_other_reader lock ext \<Longrightarrow> b \<in> R \<Longrightarrow> held lock ext' b \<subseteq> {t}"
proof -
  have own: "same_owner v lock" and v: "fl_type v = t" "rng v = R" "span v = card R"
    using p span_card by (auto simp: piece_def)
  have c: "mine v = mine lock" "held v = held lock"
    using mine_cong [OF own] held_cong [OF own] by auto
  have r: "fl_type lock = t \<Longrightarrow> no_other_reader lock ext \<longleftrightarrow> no_other_reader v ext"
    using same_owner_cong [OF own] v(1) by (auto simp: no_other_reader_def)
  note s = spec [unfolded im_spec_def c v]
  show "wf_ext ext'" "total_span ext' \<le> total_span ext + card R"
    "filter (\<lambda>l. \<not> mine lock l) ext' = filter (\<lambda>l. \<not> mine lock l) ext"
    using s by blast+
  show "held lock ext' b \<subseteq> held lock ext b \<union> (if b \<in> R then {t} else {})" for b
    using s by blast
  show "held lock ext' b \<noteq> {} \<longleftrightarrow> (if b \<in> R then t \<noteq> F_UNLCK else held lock ext b \<noteq> {})" for b
    using s by blast
  show "t = fl_type lock \<Longrightarrow> no_other_reader lock ext \<Longrightarrow> b \<in> R \<Longrightarrow> held lock ext' b \<subseteq> {t}"
    using s r by blast
qed

lemma held_remove_conf:
  assumes "mine lock conf"
  shows "held lock (pre @ conf # rest) b =
     held lock (pre @ rest) b \<union> (if b \<in> rng conf then {fl_type conf} else {})"
  using assms by auto

lemma no_other_reader_remove:
  "mine lock conf \<Longrightarrow> no_other_reader lock (pre @ conf # rest) \<longleftrightarrow> no_other_reader lock (pre @ rest)"
  by (auto simp: no_other_reader_def mine_def)

lemma im_spec_keep:
  assumes "wf_ext ext" "wf_lock lock" "fl_type lock = F_UNLCK"
    and "\<And>c. c \<in> set ext \<Longrightarrow> mine lock c \<Longrightarrow> \<not> locks_overlap c lock"
  shows "im_spec ext lock ext"
proof -
  have "held lock ext b = {}" if "b \<in> rng lock" for b
    using assms that overlap_iff_rng unfolding wf_ext_def held_def by blast
  with assms show ?thesis by (auto simp: im_spec_def)
qed

lemma im_spec_append:
  assumes "wf_ext ext" "wf_lock lock" "\<not> blocked lock" "fl_type lock \<noteq> F_UNLCK"
    and "no_other_reader lock ext \<Longrightarrow>
           (\<forall>c \<in> set ext. mine lock c \<longrightarrow> \<not> locks_overlap c lock)"
  shows "im_spec ext lock (insert_lock ext lock)"
proof -
  have m: "mine lock lock" using assms by (simp add: mine_def)
  have "held lock ext b = {}" if "b \<in> rng lock" "no_other_reader lock ext" for b
    using assms that overlap_iff_rng unfolding wf_ext_def held_def by blast
  with assms m show ?thesis by (auto simp: im_spec_def insert_lock_def)
qed

lemma im_spec_merge:
  assumes "mine lock conf" "fl_type conf = fl_type lock" "wf_lock conf" "wf_lock lock"
    and "piece lock (fl_type lock) (rng lock \<union> rng conf) v"
    and "fl_type conf \<noteq> F_UNLCK"
    and "im_spec (pre @ rest) v ext'"
  shows "im_spec (pre @ conf # rest) lock ext'"
proof -
  note p = im_spec_piece [OF assms(5,7)]
  note rem = held_remove_conf [OF assms(1), of pre rest] no_other_reader_remove [OF assms(1), of pre rest]
  have "card (rng lock \<union> rng conf) \<le> span lock + span conf"
    using card_Un_le [of "rng lock" "rng conf"] assms by (simp add: span_card)
  then have "total_span ext' \<le> total_span (pre @ conf # rest) + span lock"
    using p(2) by simp
  moreover have "filter (\<lambda>l. \<not> mine lock l) ext' = filter (\<lambda>l. \<not> mine lock l) (pre @ conf # rest)"
    using p(3) assms(1) by simp
  moreover have "held lock ext' b \<subseteq> held lock (pre @ conf # rest) b
      \<union> (if b \<in> rng lock then {fl_type lock} else {})" for b
    using p(4) [of b] assms(2) unfolding rem by (auto split: if_splits)
  moreover have "held lock ext' b \<noteq> {} \<longleftrightarrow> (if b \<in> rng lock then fl_type lock \<noteq> F_UNLCK
      else held lock (pre @ conf # rest) b \<noteq> {})" for b
    using p(5) [of b] assms(2,6) unfolding rem by (auto split: if_splits)
  moreover have "no_other_reader lock (pre @ conf # rest) \<Longrightarrow> b \<in> rng lock \<Longrightarrow>
      held lock ext' b \<subseteq> {fl_type lock}" for b
    using p(6) unfolding rem by blast
  ultimately show ?thesis using p(1) unfolding im_spec_def by blast
qed

lemma im_spec_cover:
  assumes "mine lock conf" "wf_lock lock"
    and "piece lock (fl_type lock) (rng lock) v" "rng conf \<subseteq> rng lock"
    and "im_spec (pre @ rest) v ext'"
  shows "im_spec (pre @ conf # rest) lock ext'"
proof -
  note p = im_spec_piece [OF assms(3,5)]
  note rem = held_remove_conf [OF assms(1), of pre rest] no_other_reader_remove [OF assms(1), of pre rest]
  have "total_span ext' \<le> total_span (pre @ conf # rest) + span lock"
    using p(2) assms(2) by (simp add: span_card)
  moreover have "filter (\<lambda>l. \<not> mine lock l) ext' = filter (\<lambda>l. \<not> mine lock l) (pre @ conf # rest)"
    using p(3) assms(1) by simp
  moreover have "held lock ext' b \<subseteq> held lock (pre @ conf # rest) b
      \<union> (if b \<in> rng lock then {fl_type lock} else {})" for b
    using p(4) [of b] unfolding rem by (auto split: if_splits)
  moreover have "held lock ext' b \<noteq> {} \<longleftrightarrow> (if b \<in> rng lock then fl_type lock \<noteq> F_UNLCK
      else held lock (pre @ conf # rest) b \<noteq> {})" for b
    using p(5) [of b] assms(4) unfolding rem by (auto split: if_splits)
  moreover have "no_other_reader lock (pre @ conf # rest) \<Longrightarrow> b \<in> rng lock \<Longrightarrow>
      held lock ext' b \<subseteq> {fl_type lock}" for b
    using p(6) unfolding rem by blast
  ultimately show ?thesis using p(1) unfolding im_spec_def by blast
qed

text \<open>The step that puts back the piece of \<open>conf\<close> after the request, or no step at all.\<close>

definition put_back :: "posix_lock \<Rightarrow> lk_type \<Rightarrow> int set \<Rightarrow> posix_lock list \<Rightarrow> posix_lock list \<Rightarrow> bool" where
  "put_back lock t R e e' \<longleftrightarrow>
     wf_ext e' \<and> total_span e' \<le> total_span e + card R \<and>
     filter (\<lambda>l. \<not> mine lock l) e' = filter (\<lambda>l. \<not> mine lock l) e \<and>
     (\<forall>b. held lock e' b \<subseteq> held lock e b \<union> (if b \<in> R then {t} else {})) \<and>
     (\<forall>b. held lock e' b \<noteq> {} \<longleftrightarrow> (if b \<in> R then t \<noteq> F_UNLCK else held lock e b \<noteq> {}))"

lemma put_back_none: "wf_ext e \<Longrightarrow> put_back lock t {} e e"
  by (simp add: put_back_def)

lemma put_back_piece: "piece lock t R v \<Longrightarrow> im_spec e v e' \<Longrightarrow> put_back lock t R e e'"
  unfolding put_back_def by (intro conjI allI) (erule (1) im_spec_piece)+

lemma im_spec_split:
  assumes m: "mine lock conf" and wf: "wf_lock conf" "wf_lock lock" and tc: "fl_type conf \<noteq> F_UNLCK"
    and v: "put_back lock (fl_type conf) V (pre @ rest) e0"
    and l: "im_spec e0 lock e1"
    and w: "put_back lock (fl_type conf) W e1 e2"
    and VW: "V \<inter> W = {}" "V \<union> W = rng conf - rng lock"
  shows "im_spec (pre @ conf # rest) lock e2"
proof -
  note rem = held_remove_conf [OF m, of pre rest] no_other_reader_remove [OF m, of pre rest]
  note v' = v [unfolded put_back_def] and w' = w [unfolded put_back_def] and l' = l [unfolded im_spec_def]
  have "card V + card W = card (rng conf - rng lock)"
    using VW card_Un_disjoint [of V W] finite_subset [of _ "rng conf"]
    by (metis Diff_subset Un_upper1 Un_upper2 finite_rng order_trans)
  then have "card V + card W \<le> span conf"
    using wf by (simp add: span_card card_mono)
  then have "total_span e2 \<le> total_span (pre @ conf # rest) + span lock"
    using v' w' l' by simp
  moreover have "filter (\<lambda>l. \<not> mine lock l) e2 = filter (\<lambda>l. \<not> mine lock l) (pre @ conf # rest)"
    using v' w' l' m by simp
  moreover have "held lock e2 b \<subseteq> held lock (pre @ conf # rest) b
      \<union> (if b \<in> rng lock then {fl_type lock} else {})" for b
  proof -
    have "held lock e0 b \<subseteq> held lock (pre @ rest) b \<union> (if b \<in> V then {fl_type conf} else {})"
      and "held lock e1 b \<subseteq> held lock e0 b \<union> (if b \<in> rng lock then {fl_type lock} else {})"
      and "held lock e2 b \<subseteq> held lock e1 b \<union> (if b \<in> W then {fl_type conf} else {})"
      using v' w' l' by blast+
    then show ?thesis using VW unfolding rem by (auto split: if_splits)
  qed
  moreover have "held lock e2 b \<noteq> {} \<longleftrightarrow> (if b \<in> rng lock then fl_type lock \<noteq> F_UNLCK
      else held lock (pre @ conf # rest) b \<noteq> {})" for b
  proof -
    have "held lock e0 b \<noteq> {} \<longleftrightarrow> (if b \<in> V then fl_type conf \<noteq> F_UNLCK else held lock (pre @ rest) b \<noteq> {})"
      and "held lock e1 b \<noteq> {} \<longleftrightarrow> (if b \<in> rng lock then fl_type lock \<noteq> F_UNLCK else held lock e0 b \<noteq> {})"
      and "held lock e2 b \<noteq> {} \<longleftrightarrow> (if b \<in> W then fl_type conf \<noteq> F_UNLCK else held lock e1 b \<noteq> {})"
      using v' w' l' by blast+
    then show ?thesis using VW tc unfolding rem by (auto split: if_splits)
  qed
  moreover have "held lock e2 b \<subseteq> {fl_type lock}"
    if "no_other_reader lock (pre @ conf # rest)" "b \<in> rng lock" for b
  proof -
    have "no_other_reader lock e0"
      using that(1) v' no_other_reader_filter unfolding rem by metis
    then have "held lock e1 b \<subseteq> {fl_type lock}" using l' that(2) by blast
    moreover have "b \<notin> W" using VW that(2) by blast
    then have "held lock e2 b \<subseteq> held lock e1 b" using w' by (auto split: if_splits)
    ultimately show ?thesis by blast
  qed
  ultimately show ?thesis using w' unfolding im_spec_def by blast
qed

text \<open>\<open>__insert_and_merge\<close> returns on every well-formed list, and meets its contract.\<close>

lemma insert_and_merge_spec:
  assumes "wf_ext ext" "wf_lock lock" "\<not> blocked lock"
  shows "\<exists>ext'. insert_and_merge ext lock = Some ext' \<and> im_spec ext lock ext'"
  using assms
proof (induction "total_span ext + span lock" arbitrary: ext lock rule: less_induct)
  case less
  note wf = less.prems
  show ?case
  proof (cases "merge_scan lock [] ext")
    case Scan_end
    then have n: "\<And>c. c \<in> set ext \<Longrightarrow> mine lock c \<Longrightarrow> \<not> locks_overlap c lock"
      using merge_scan_end by blast
    show ?thesis
      using Scan_end wf n im_spec_keep [of ext lock] im_spec_append [of ext lock]
      by (cases "fl_type lock = F_UNLCK") (simp_all add: insert_and_merge.simps [of ext lock])
  next
    case Scan_shared
    then have "fl_type lock = F_RDLCK" "\<not> no_other_reader lock ext"
      using merge_scan_shared by blast+
    then show ?thesis
      using Scan_shared wf im_spec_append [of ext lock]
      by (simp add: insert_and_merge.simps [of ext lock])
  next
    case (Scan_own pre conf rest)
    from merge_scan_own [OF this]
    have ext: "ext = pre @ conf # rest" and m: "mine lock conf" "locks_overlap conf lock" by simp_all
    have wc: "wf_lock conf" "fl_type conf \<noteq> F_UNLCK" "wf_ext (pre @ rest)" using wf(1) ext by auto
    have meet: "rng conf \<inter> rng lock \<noteq> {}" using mine_overlap_wf wf wc m by blast
    have IH: "\<exists>e'. insert_and_merge e v = Some e' \<and> im_spec e v e'"
      if "total_span e + card R < total_span ext + span lock" "wf_ext e" "piece lock t R v" for e v t R
      using less.hyps [of e v] that by (auto simp: piece_def span_card)
    have tot: "total_span ext = span conf + total_span (pre @ rest)" by (simp add: ext)
    note sp = span_card [OF wc(1)] span_card [OF wf(2)]
    show ?thesis
    proof (cases "fl_type conf = fl_type lock \<and> lk_flags conf = lk_flags lock")
      case True
      let ?v = "sync_flock (add_locks lock conf lock)"
      have v: "piece lock (fl_type lock) (rng lock \<union> rng conf) ?v"
        using merged_piece wf wc m by blast
      have "card (rng lock \<union> rng conf) < span lock + span conf"
        using meet card_Un_Int [of "rng lock" "rng conf"] by (simp add: sp Int_commute card_gt_0_iff)
      then obtain e where e: "insert_and_merge (pre @ rest) ?v = Some e" "im_spec (pre @ rest) ?v e"
        using IH [OF _ wc(3) v] tot by auto
      have "im_spec ext lock e"
        using im_spec_merge [OF m(1) _ wc(1) wf(2) v wc(2) e(2)] True by (simp add: ext)
      with e(1) True Scan_own show ?thesis by (simp add: insert_and_merge.simps [of ext lock])
    next
      case False
      note unfold = insert_and_merge.simps [of ext lock]
      from split_pieces [OF wf(2) wc(1) wf(3) m] show ?thesis
      proof (elim disjE exE conjE)
        fix v assume sub: "subtract_locks (add_locks lock conf conf) lock = [v]"
          and v: "piece lock (fl_type lock) (rng lock) v" and le: "rng conf \<subseteq> rng lock"
        have "0 < span conf" using meet by (auto simp: sp card_gt_0_iff)
        then obtain e where e: "insert_and_merge (pre @ rest) v = Some e" "im_spec (pre @ rest) v e"
          using IH [OF _ wc(3) v] tot sp by auto
        have "im_spec ext lock e" using im_spec_cover [OF m(1) wf(2) v le e(2)] by (simp add: ext)
        moreover have "wf_ext e" using e(2) by (simp add: im_spec_def)
        ultimately show ?thesis using e(1) False Scan_own sub by (auto simp: unfold)
      next
        fix v assume sub: "subtract_locks (add_locks lock conf conf) lock = [v, lock]"
          and v: "piece lock (fl_type conf) (rng conf - rng lock) v"
        have lt: "card (rng conf - rng lock) < span conf"
          using meet by (auto simp: sp intro!: psubset_card_mono)
        then obtain e0 where e0: "insert_and_merge (pre @ rest) v = Some e0" "im_spec (pre @ rest) v e0"
          using IH [OF _ wc(3) v] tot by auto
        note v0 = put_back_piece [OF v e0(2)]
        have "wf_ext e0" "total_span e0 + card (rng lock) < total_span ext + span lock"
          using v0 lt tot sp by (auto simp: put_back_def)
        then obtain e1 where e1: "insert_and_merge e0 lock = Some e1" "im_spec e0 lock e1"
          using IH [OF _ _ piece_refl [OF wf(2,3)]] by blast
        have w1: "wf_ext e1" using e1(2) by (simp add: im_spec_def)
        have "im_spec ext lock e1"
          using im_spec_split [OF m(1) wc(1) wf(2) wc(2) v0 e1(2) put_back_none [OF w1]] by (simp add: ext)
        with e0(1) e1(1) w1 False Scan_own sub show ?thesis by (auto simp: unfold)
      next
        fix v w V W
        assume sub: "subtract_locks (add_locks lock conf conf) lock = [v, lock, w]"
          and v: "piece lock (fl_type conf) V v" and w: "piece lock (fl_type conf) W w"
          and VW: "V \<inter> W = {}" "V \<union> W = rng conf - rng lock"
        have fin: "finite V" "finite W" using VW(2) by (metis finite_Diff finite_Un finite_rng)+
        have lt: "card V + card W < span conf"
          using VW meet psubset_card_mono [of "rng conf" "V \<union> W"] card_Un_disjoint [OF fin VW(1)]
          by (auto simp: sp)
        then obtain e0 where e0: "insert_and_merge (pre @ rest) v = Some e0" "im_spec (pre @ rest) v e0"
          using IH [OF _ wc(3) v] tot by auto
        note v0 = put_back_piece [OF v e0(2)]
        have "wf_ext e0" and t0: "total_span e0 + card W + card (rng lock) < total_span ext + span lock"
          using v0 lt tot sp by (auto simp: put_back_def)
        then obtain e1 where e1: "insert_and_merge e0 lock = Some e1" "im_spec e0 lock e1"
          using IH [OF _ _ piece_refl [OF wf(2,3)], of e0] by auto
        have "wf_ext e1" "total_span e1 + card W < total_span ext + span lock"
          using e1(2) t0 sp by (auto simp: im_spec_def)
        then obtain e2 where e2: "insert_and_merge e1 w = Some e2" "im_spec e1 w e2"
          using IH [OF _ _ w] by blast
        have w2: "wf_ext e2" using e2(2) by (simp add: im_spec_def)
        have "im_spec ext lock e2"
          using im_spec_split [OF m(1) wc(1) wf(2) wc(2) v0 e1(2) put_back_piece [OF w e2(2)] VW]
          by (simp add: ext)
        with e0(1) e1(1) e2(1) w2 False Scan_own sub show ?thesis by (auto simp: unfold)
      qed
    qed
  qed
qed

section \<open>Exclusion\<close>

definition conflict :: "posix_lock \<Rightarrow> posix_lock \<Rightarrow> bool" where
  "conflict a b \<longleftrightarrow> \<not> blocked a \<and> \<not> blocked b \<and> locks_overlap a b \<and> \<not> same_owner a b \<and>
     (fl_type a = F_WRLCK \<or> fl_type b = F_WRLCK)"

definition exclusive :: "posix_lock list \<Rightarrow> bool" where
  "exclusive ext \<longleftrightarrow> (\<forall>a \<in> set ext. \<forall>b \<in> set ext. \<not> conflict a b)"

definition pl_inv :: "posix_lock list \<Rightarrow> bool" where
  "pl_inv ext \<longleftrightarrow> wf_ext ext \<and> exclusive ext"

lemma conflict_sym: "conflict a b \<longleftrightarrow> conflict b a"
  by (auto simp: conflict_def locks_overlap_def same_owner_sym)

lemma pl_inv_mono: "pl_inv ext \<Longrightarrow> set ext' \<subseteq> set ext \<Longrightarrow> pl_inv ext'"
  by (auto simp: pl_inv_def wf_ext_def exclusive_def)

lemma pl_inv_insert_blocked:
  "pl_inv ext \<Longrightarrow> wf_lock l \<Longrightarrow> fl_type l \<noteq> F_UNLCK \<Longrightarrow> blocked l \<Longrightarrow> pl_inv (insert_lock ext l)"
  by (auto simp: pl_inv_def exclusive_def insert_lock_def conflict_def)

lemma mine_not_conflict: "mine q a \<Longrightarrow> mine q b \<Longrightarrow> \<not> conflict a b"
  unfolding mine_def conflict_def using same_owner_cong same_owner_sym by blast

text \<open>A granted request and the old locks of its owner conflict with no other owner.\<close>

lemma insert_keeps_inv:
  assumes inv: "pl_inv ext" and wf: "wf_lock lock" "\<not> blocked lock"
    and g: "is_lock_grantable ext lock" and spec: "im_spec ext lock ext'"
  shows "pl_inv ext'"
proof -
  have wf': "wf_ext ext'" and f: "filter (\<lambda>l. \<not> mine lock l) ext' = filter (\<lambda>l. \<not> mine lock l) ext"
    using spec by (simp_all add: im_spec_def)
  have old: "b \<in> set ext" if "b \<in> set ext'" "\<not> mine lock b" for b
    using arg_cong [OF f, of set] that by auto
  have no: "\<not> conflict a b" if a: "a \<in> set ext'" "mine lock a" and b: "b \<in> set ext'" "\<not> mine lock b" for a b
  proof
    assume c: "conflict a b"
    have "wf_lock a" "wf_lock b" "fl_type a \<noteq> F_UNLCK" using wf' a b by (auto simp: wf_ext_def)
    then obtain x where x: "x \<in> rng a" "x \<in> rng b"
      using c overlap_iff_rng by (auto simp: conflict_def)
    have "fl_type a \<in> held lock ext' x" using a x by (auto simp: held_def)
    then have "fl_type a \<in> held lock ext x \<or> x \<in> rng lock \<and> fl_type a = fl_type lock"
      using spec unfolding im_spec_def by (auto split: if_splits)
    then show False
    proof
      assume "fl_type a \<in> held lock ext x"
      then obtain a' where a': "a' \<in> set ext" "mine lock a'" "x \<in> rng a'" "fl_type a' = fl_type a"
        by (auto simp: held_def)
      have "locks_overlap a' b" using a'(3) x(2) by (auto simp: rng_def locks_overlap_def)
      moreover have "\<not> same_owner a' b"
        using a'(2) b(2) c same_owner_cong same_owner_sym unfolding mine_def conflict_def by blast
      ultimately have "conflict a' b" using c a' by (auto simp: conflict_def mine_def)
      then show False using inv a'(1) old [OF b] by (auto simp: pl_inv_def exclusive_def)
    next
      assume l: "x \<in> rng lock \<and> fl_type a = fl_type lock"
      then have "locks_overlap lock b" using x(2) by (auto simp: rng_def locks_overlap_def)
      moreover have "\<not> same_owner b lock" using b(2) c by (simp add: mine_def conflict_def)
      ultimately show False
        using g c l old [OF b] \<open>fl_type a \<noteq> F_UNLCK\<close> by (auto simp: is_lock_grantable_def conflict_def)
    qed
  qed
  have "exclusive ext'"
    unfolding exclusive_def
  proof (intro ballI)
    fix a b assume ab: "a \<in> set ext'" "b \<in> set ext'"
    show "\<not> conflict a b"
    proof (cases "mine lock a"; cases "mine lock b")
      assume "\<not> mine lock a" "\<not> mine lock b"
      then show ?thesis using ab old inv by (auto simp: pl_inv_def exclusive_def)
    qed (use ab no conflict_sym mine_not_conflict in blast)+
  qed
  with wf' show ?thesis by (simp add: pl_inv_def)
qed

lemma insert_and_merge_inv:
  assumes "pl_inv ext" "wf_lock lock" "\<not> blocked lock" "is_lock_grantable ext lock"
  shows "\<exists>ext'. insert_and_merge ext lock = Some ext' \<and> pl_inv ext'"
proof -
  have "wf_ext ext" using assms(1) by (simp add: pl_inv_def)
  with assms obtain ext' where "insert_and_merge ext lock = Some ext'" "im_spec ext lock ext'"
    using insert_and_merge_spec by blast
  with assms show ?thesis using insert_keeps_inv by blast
qed

lemma wf_lock_upd [simp]:
  "wf_lock (l\<lparr> frame := f \<rparr>) = wf_lock l" "wf_lock (l\<lparr> blocked := c \<rparr>) = wf_lock l"
  by (simp_all add: wf_lock_def)

lemma grantable_upd_frame [simp]: "is_lock_grantable ext (l\<lparr> frame := f \<rparr>) = is_lock_grantable ext l"
  by (simp add: is_lock_grantable_def locks_overlap_def same_owner_def)

lemma grant_retry_inv:
  assumes "pl_inv ext" "\<forall>l \<in> set ls. wf_lock l \<and> fl_type l \<noteq> F_UNLCK \<and> \<not> blocked l"
  shows "\<exists>ext' gs'. grant_retry ext ls gs = Some (ext', gs') \<and> pl_inv ext'"
  using assms
proof (induction ls arbitrary: ext gs)
  case Nil
  then show ?case by simp
next
  case (Cons l ls)
  show ?case
  proof (cases "is_lock_grantable ext l")
    case True
    have "\<exists>e. insert_and_merge ext (l\<lparr> frame := None \<rparr>) = Some e \<and> pl_inv e"
      using Cons.prems True by (intro insert_and_merge_inv) simp_all
    then obtain e where e: "insert_and_merge ext (l\<lparr> frame := None \<rparr>) = Some e" "pl_inv e" by blast
    show ?thesis using True e(1) Cons.IH [OF e(2)] Cons.prems(2) by simp
  next
    case False
    have "pl_inv (insert_lock ext (l\<lparr> blocked := True \<rparr>))"
      using Cons.prems by (intro pl_inv_insert_blocked) simp_all
    from Cons.IH [OF this] show ?thesis using False Cons.prems(2) by simp
  qed
qed

lemma grant_blocked_locks_locked_inv:
  assumes "pl_inv ext"
  shows "\<exists>ext' gs. grant_blocked_locks_locked ext = Some (ext', gs) \<and> pl_inv ext'"
  unfolding grant_blocked_locks_locked_def
proof (rule grant_retry_inv)
  show "pl_inv (filter (\<lambda>l. \<not> grant_candidate ext l) ext)"
    using assms by (rule pl_inv_mono) auto
  show "\<forall>l \<in> set (map (\<lambda>l. l\<lparr> blocked := False \<rparr>) (filter (grant_candidate ext) ext)).
      wf_lock l \<and> fl_type l \<noteq> F_UNLCK \<and> \<not> blocked l"
    using assms by (auto simp: pl_inv_def wf_ext_def)
qed

lemma grant_blocked_locks_inv:
  assumes "pl_inv (ext_list pin)"
  shows "\<exists>pin' evs. grant_blocked_locks pin = Some (pin', evs) \<and> pl_inv (ext_list pin')"
  using grant_blocked_locks_locked_inv [OF assms] by (auto simp: grant_blocked_locks_def)

lemma do_blocked_rw_ext: "do_blocked_rw mode pin = (pin', evs) \<Longrightarrow> ext_list pin' = ext_list pin"
  by (auto simp: do_blocked_rw_def Let_def)

lemma pl_setlk_after_inv:
  assumes "pl_inv (ext_list pin)"
  shows "\<exists>pin' evs'. pl_setlk_after mode ret evs pin = Some (ret, pin', evs') \<and> pl_inv (ext_list pin')"
  using grant_blocked_locks_inv [OF assms]
  by (auto simp: pl_setlk_after_def do_blocked_rw_ext split: prod.splits)

section \<open>Requests\<close>

text \<open>
  A lock as \<open>pl_lk\<close> builds it: well formed, not blocked, with the byte range of the
  description it was built from.
\<close>

definition from_request :: "posix_lock \<Rightarrow> bool" where
  "from_request l \<longleftrightarrow> wf_lock l \<and> \<not> blocked l \<and> fl_start l = l_start (user_flock l) \<and>
     fl_end l = (if l_len (user_flock l) = 0 then LLONG_MAX
                 else s64 (l_start (user_flock l) + l_len (user_flock l) - 1))"

lemma prelock_unlock_inv:
  assumes "pl_inv ext" "from_request lock"
  shows "\<exists>ext' evs. pl_send_prelock_unlock ext lock = Some (ext', evs) \<and> pl_inv ext'"
proof -
  let ?fl = "\<lparr> l_type = F_UNLCK, l_whence = l_whence (user_flock lock),
     l_start = l_start (user_flock lock), l_len = l_len (user_flock lock),
     l_pid = l_pid (user_flock lock), l_owner = \<lparr> lk_len = 0, lk_data = [] \<rparr> \<rparr>"
  let ?u = "new_posix_lock ?fl (client lock) (client_uid lock) (client_pid lock) (owner lock)
     (fd_num lock) (lk_flags lock) False"
  have "wf_lock ?u" "\<not> blocked ?u" "is_lock_grantable ext ?u"
    using assms(2)
    by (auto simp: from_request_def wf_lock_def new_posix_lock_def is_lock_grantable_def)
  then obtain e where e: "insert_and_merge ext ?u = Some e" "pl_inv e"
    using insert_and_merge_inv assms(1) by blast
  from grant_blocked_locks_locked_inv [OF e(2)] e(1) show ?thesis
    by (auto simp: pl_send_prelock_unlock_def Let_def)
qed

lemma pl_setlk_inv:
  assumes inv: "pl_inv (ext_list pin)" and req: "from_request lock"
  shows "\<exists>ret pin' evs. pl_setlk mode pin lock can_block = Some (ret, pin', evs) \<and> pl_inv (ext_list pin')"
proof -
  have "\<exists>ext evs. (if can_block \<and> \<not> is_lock_grantable (ext_list pin) lock
      then pl_send_prelock_unlock (ext_list pin) lock else Some (ext_list pin, [])) = Some (ext, evs) \<and> pl_inv ext"
    using prelock_unlock_inv [OF inv req] inv by auto
  then obtain ext evs where pre: "(if can_block \<and> \<not> is_lock_grantable (ext_list pin) lock
      then pl_send_prelock_unlock (ext_list pin) lock else Some (ext_list pin, [])) = Some (ext, evs)"
    and e: "pl_inv ext" by blast
  have wf: "wf_lock lock" "\<not> blocked lock" using req by (auto simp: from_request_def)
  note unfold = pl_setlk_def Let_def pre pl_queue_lock_def
  show ?thesis
  proof (cases "is_lock_grantable ext lock")
    case True
    then obtain ext' where i: "insert_and_merge ext lock = Some ext'" "pl_inv ext'"
      using insert_and_merge_inv [OF e wf] by blast
    then show ?thesis
      using True e pl_setlk_after_inv [of "pin\<lparr> ext_list := ext' \<rparr>" mode 0 evs]
      by (auto simp: unfold)
  next
    case False
    then have "fl_type lock \<noteq> F_UNLCK" by (auto simp: is_lock_grantable_def)
    then have "pl_inv (insert_lock ext (lock\<lparr> blocked := True \<rparr>))"
      using e wf by (intro pl_inv_insert_blocked) simp_all
    then show ?thesis
      using False e pl_setlk_after_inv [of "pin\<lparr> ext_list := ext \<rparr>" mode "-1" evs]
        pl_setlk_after_inv [of "pin\<lparr> ext_list := insert_lock ext (lock\<lparr> blocked := True \<rparr>) \<rparr>" mode "-1" evs]
      by (auto simp: unfold)
  qed
qed

lemma delete_locks_of_fd_inv:
  assumes "pl_inv (ext_list pin)"
  shows "\<exists>pin' evs. delete_locks_of_fd mode pin fd = Some (pin', evs) \<and> pl_inv (ext_list pin')"
proof -
  have "pl_inv (ext_list (pin\<lparr> ext_list := filter (\<lambda>l. \<not> fd_num l = fd) (ext_list pin) \<rparr>))"
    using pl_inv_mono [OF assms, of "filter (\<lambda>l. \<not> fd_num l = fd) (ext_list pin)"] by auto
  from grant_blocked_locks_inv [OF this] show ?thesis
    by (auto simp: delete_locks_of_fd_def Let_def do_blocked_rw_ext split: prod.splits)
qed

lemma pl_flush_inv:
  assumes "pl_inv (ext_list pin)" "\<not> migrated pin"
  shows "\<exists>pin' evs. pl_flush mode pin fd cl own = Some (Inr (pin', evs)) \<and> pl_inv (ext_list pin')"
proof (cases "lk_len own = 0")
  case True
  with delete_locks_of_fd_inv [OF assms(1)] assms(2) show ?thesis
    by (fastforce simp: pl_flush_def)
next
  case False
  have "pl_inv (ext_list (pin\<lparr> ext_list := delete_locks_of_owner (ext_list pin) cl own \<rparr>))"
    using pl_inv_mono [OF assms(1), of "delete_locks_of_owner (ext_list pin) cl own"]
    by (auto simp: delete_locks_of_owner_def)
  from grant_blocked_locks_inv [OF this] False assms(2) show ?thesis
    by (auto simp: pl_flush_def Let_def do_blocked_rw_ext split: prod.splits)
qed

section \<open>Reachable lock tables\<close>

text \<open>The lock table of an inode over any sequence of lock calls, flushes and closes.\<close>

inductive pl_step :: "mlk_mode \<Rightarrow> pl_inode \<Rightarrow> pl_inode \<Rightarrow> bool" for mode where
  setlk: "from_request lock \<Longrightarrow> pl_setlk mode pin lock can_block = Some (ret, pin', evs) \<Longrightarrow>
     pl_step mode pin pin'"
| flush: "pl_flush mode pin fd cl own = Some (Inr (pin', evs)) \<Longrightarrow> pl_step mode pin pin'"
| close_fd: "delete_locks_of_fd mode pin fd = Some (pin', evs) \<Longrightarrow> pl_step mode pin pin'"

inductive pl_reach :: "mlk_mode \<Rightarrow> pl_inode \<Rightarrow> bool" for mode where
  start: "ext_list pin = [] \<Longrightarrow> pl_reach mode pin"
| step: "pl_reach mode pin \<Longrightarrow> pl_step mode pin pin' \<Longrightarrow> pl_reach mode pin'"

lemma pl_step_inv: "pl_step mode pin pin' \<Longrightarrow> pl_inv (ext_list pin) \<Longrightarrow> pl_inv (ext_list pin')"
proof (induction rule: pl_step.induct)
  case (setlk lock pin can_block ret pin' evs)
  with pl_setlk_inv [of pin lock mode can_block] show ?case by auto
next
  case (flush pin fd cl own pin' evs)
  then have "\<not> migrated pin" by (auto simp: pl_flush_def)
  with flush pl_flush_inv [of pin mode fd cl own] show ?case by auto
next
  case (close_fd pin fd pin' evs)
  with delete_locks_of_fd_inv [of pin mode fd] show ?case by auto
qed

lemma pl_reach_inv: "pl_reach mode pin \<Longrightarrow> pl_inv (ext_list pin)"
proof (induction rule: pl_reach.induct)
  case (start pin)
  then show ?case by (simp add: pl_inv_def exclusive_def)
next
  case (step pin pin')
  then show ?case by (blast intro: pl_step_inv)
qed

lemma locks_overlap_sym: "locks_overlap a b \<longleftrightarrow> locks_overlap b a"
  by (auto simp: locks_overlap_def)

lemma pl_setlk_after_ret: "pl_setlk_after mode r es q = Some (r', q', es') \<Longrightarrow> r' = r"
  by (auto simp: pl_setlk_after_def bind_eq_Some_conv Let_def case_prod_beta)

section \<open>Sample requests\<close>

text \<open>Requests of a client \<open>c\<close> used as concrete inputs below, and a run of several of them.\<close>

definition sample_lock :: "nat \<Rightarrow> lk_type \<Rightarrow> int \<Rightarrow> int \<Rightarrow> u32 \<Rightarrow> posix_lock" where
  "sample_lock c t s n flags =
     new_posix_lock \<lparr> l_type = t, l_whence = 0, l_start = s, l_len = n, l_pid = 1,
       l_owner = \<lparr> lk_len = 1, lk_data = [7] \<rparr> \<rparr> c [] 1 \<lparr> lk_len = 1, lk_data = [7] \<rparr> 3 flags False"

definition sample_inode :: pl_inode where
  "sample_inode = \<lparr> ext_list = [], rw_list = [], metalk_list = [], queued_locks = [], migrated = False \<rparr>"

fun setlks :: "mlk_mode \<Rightarrow> pl_inode \<Rightarrow> (posix_lock \<times> bool) list \<Rightarrow> pl_inode option" where
  "setlks mode pin [] = Some pin"
| "setlks mode pin ((lock, can_block) # ls) =
     Option.bind (pl_setlk mode pin lock can_block) (\<lambda>(ret, pin', evs). setlks mode pin' ls)"

lemma setlks_reach:
  "pl_reach mode pin \<Longrightarrow> list_all (\<lambda>(l, c). from_request l) ls \<Longrightarrow> setlks mode pin ls = Some pin' \<Longrightarrow>
     pl_reach mode pin'"
proof (induction ls arbitrary: pin)
  case Nil
  then show ?case by simp
next
  case (Cons a ls)
  obtain lock c where a: "a = (lock, c)" by (cases a)
  from Cons.prems a obtain ret p evs where
    s: "pl_setlk mode pin lock c = Some (ret, p, evs)" "setlks mode p ls = Some pin'"
    by (auto simp: bind_eq_Some_conv)
  have "pl_reach mode p"
    using Cons.prems a s(1) by (auto intro: pl_reach.step pl_step.setlk)
  with Cons s(2) show ?case by simp
qed

lemma sample_reach:
  "list_all (\<lambda>(l, c). from_request l) ls \<Longrightarrow> setlks mode sample_inode ls = Some pin \<Longrightarrow> pl_reach mode pin"
  by (rule setlks_reach [OF pl_reach.start]) (auto simp: sample_inode_def)

lemma sample_lock_simps [simp]:
  "fl_type (sample_lock c t s n f) = t" "fl_start (sample_lock c t s n f) = s"
  "fl_end (sample_lock c t s n f) = (if n = 0 then LLONG_MAX else s64 (s + n - 1))"
  "blocked (sample_lock c t s n f) = False" "lk_flags (sample_lock c t s n f) = f"
  "same_owner (sample_lock c t s n f) (sample_lock c' t' s' n' f') \<longleftrightarrow> c = c'"
  by (simp_all add: sample_lock_def new_posix_lock_def same_owner_def)

section \<open>Properties\<close>

text \<open>C2: no sequence of lock calls, flushes and closes grants two owners overlapping byte
  ranges of which one is locked for writing.\<close>

theorem posix_exclusion:
  assumes "pl_reach mode pin" "a \<in> set (ext_list pin)" "b \<in> set (ext_list pin)"
    and "\<not> blocked a" "\<not> blocked b" "\<not> same_owner a b" "rng a \<inter> rng b \<noteq> {}"
  shows "fl_type a = F_RDLCK \<and> fl_type b = F_RDLCK"
proof -
  have inv: "pl_inv (ext_list pin)" using assms(1) by (rule pl_reach_inv)
  then have "wf_lock a" "wf_lock b" "fl_type a \<noteq> F_UNLCK" "fl_type b \<noteq> F_UNLCK"
    using assms(2,3) by (auto simp: pl_inv_def wf_ext_def)
  moreover have "\<not> conflict a b" using inv assms(2,3) by (simp add: pl_inv_def exclusive_def)
  ultimately show ?thesis
    using assms(4-7) overlap_iff_rng [of a b] lk_type.exhaust by (metis conflict_def)
qed

theorem posix_exclusion_witness:
  "\<exists>pin a b. pl_reach MLK_NONE pin \<and> a \<in> set (ext_list pin) \<and> b \<in> set (ext_list pin) \<and>
     \<not> same_owner a b \<and> rng a \<inter> rng b \<noteq> {} \<and> fl_type a = F_RDLCK \<and> fl_type b = F_RDLCK"
proof -
  let ?a = "sample_lock 3 F_RDLCK 0 10 0" and ?b = "sample_lock 2 F_RDLCK 5 10 0"
  let ?pin = "sample_inode\<lparr> ext_list := [?a, ?b] \<rparr>"
  have r: "pl_reach MLK_NONE ?pin"
    by (rule sample_reach [where ls = "[(?a, False), (?b, False)]"]) code_simp+
  have o: "rng ?a \<inter> rng ?b \<noteq> {}" by (simp add: rng_def s64_def)
  show ?thesis using posix_exclusion [OF r, of ?a ?b] r o by (intro exI conjI) auto
qed

text \<open>C13: \<open>__insert_and_merge\<close> always returns; it leaves the locks of other owners and the
  waiting ones alone, unlocks exactly the bytes of an unlock request, locks exactly the bytes
  of a lock request, and no byte outside the request is locked or unlocked.\<close>

theorem insert_and_merge_coverage:
  assumes "wf_ext ext" "wf_lock lock" "\<not> blocked lock"
  shows "\<exists>ext'. insert_and_merge ext lock = Some ext' \<and> wf_ext ext' \<and>
     filter (\<lambda>l. \<not> mine lock l) ext' = filter (\<lambda>l. \<not> mine lock l) ext \<and>
     (\<forall>b. held lock ext' b \<noteq> {} \<longleftrightarrow>
        (if b \<in> rng lock then fl_type lock \<noteq> F_UNLCK else held lock ext b \<noteq> {}))"
  using insert_and_merge_spec [OF assms] unfolding im_spec_def by blast

theorem insert_and_merge_coverage_witness:
  "\<exists>ext'. insert_and_merge [sample_lock 3 F_WRLCK 0 10 0] (sample_lock 3 F_UNLCK 3 2 0) = Some ext' \<and>
     held (sample_lock 3 F_UNLCK 3 2 0) ext' 3 = {} \<and> held (sample_lock 3 F_UNLCK 3 2 0) ext' 7 \<noteq> {}"
proof -
  let ?l = "sample_lock 3 F_UNLCK 3 2 0" and ?e = "[sample_lock 3 F_WRLCK 0 10 0]"
  have h: "wf_ext ?e" "wf_lock ?l" "\<not> blocked ?l" by (simp_all add: wf_ext_def wf_lock_def s64_def)
  have r: "rng ?l = {3..4}" by (simp add: rng_def s64_def)
  have e: "held ?l ?e 7 \<noteq> {}" by (simp add: held_def rng_def mine_def s64_def)
  obtain ext' where x: "insert_and_merge ?e ?l = Some ext'"
    "\<forall>b. held ?l ext' b \<noteq> {} \<longleftrightarrow> (if b \<in> rng ?l then fl_type ?l \<noteq> F_UNLCK else held ?l ?e b \<noteq> {})"
    using insert_and_merge_coverage [OF h] by blast
  show ?thesis using x(1) spec [OF x(2), of 3] spec [OF x(2), of 7] e by (simp add: r)
qed



text \<open>C28: the reader condition of the exact effect is needed. After a sequence of granted lock calls an owner
  that downgraded bytes 5-20 to a read lock still holds byte 7 for writing as well: the request
  met another owner's read lock first and was inserted as it is.\<close>

theorem downgrade_keeps_write_lock:
  "\<exists>pin q. pl_reach MLK_NONE pin \<and> fl_type q = F_RDLCK \<and> q \<in> set (ext_list pin) \<and> 7 \<in> rng q \<and>
     held q (ext_list pin) 7 = {F_RDLCK, F_WRLCK}"
proof -
  let ?b = "sample_lock 2 F_RDLCK 15 11 0" and ?w = "sample_lock 3 F_WRLCK 0 11 0"
  let ?q = "sample_lock 3 F_RDLCK 5 16 0"
  have "pl_reach MLK_NONE (sample_inode\<lparr> ext_list := [?b, ?w, ?q] \<rparr>)" (is "pl_reach _ ?pin")
    by (rule sample_reach [where ls = "[(?b, False), (?w, False), (?q, False)]"]) code_simp+
  moreover have "held ?q (ext_list ?pin) 7 = {F_RDLCK, F_WRLCK}" "7 \<in> rng ?q"
    by (simp_all add: rng_def mine_def s64_def insert_commute)
  moreover have "?q \<in> set (ext_list ?pin)" "fl_type ?q = F_RDLCK" by simp_all
  ultimately show ?thesis by blast
qed

text \<open>C29: a lock can wait although nothing granted conflicts with it. The waiting read lock of
  this reachable state is grantable by \<open>__is_lock_grantable\<close>, and \<open>__grant_blocked_locks\<close> leaves
  it waiting, because it asks for no overlap at all with a granted lock.\<close>

theorem grantable_lock_stays_blocked:
  "\<exists>pin l. pl_reach MLK_NONE pin \<and> l \<in> set (ext_list pin) \<and> blocked l \<and>
     is_lock_grantable (ext_list pin) (l\<lparr> blocked := False \<rparr>) \<and>
     grant_blocked_locks pin = Some (pin, [])"
proof -
  let ?a = "sample_lock 2 F_RDLCK 6 5 0" and ?b = "sample_lock 3 F_WRLCK 0 6 0"
  let ?c = "sample_lock 4 F_RDLCK 0 11 0" and ?u = "sample_lock 3 F_UNLCK 0 6 0"
  let ?pin = "sample_inode\<lparr> ext_list := [?a, ?c\<lparr> blocked := True \<rparr>] \<rparr>"
  have "pl_reach MLK_NONE ?pin"
    by (rule sample_reach [where ls = "[(?a, False), (?b, False), (?c, True), (?u, False)]"]) code_simp+
  moreover have "is_lock_grantable (ext_list ?pin) (?c\<lparr> blocked := True, blocked := False \<rparr>)"
    "grant_blocked_locks ?pin = Some (?pin, [])" by code_simp+
  ultimately show ?thesis by (intro exI [of _ ?pin] exI [of _ "?c\<lparr> blocked := True \<rparr>"]) simp
qed

text \<open>C14: the argument checks of \<open>pl_lk\<close>. A description of 64-bit numbers is refused exactly when
  its start, or its start plus its length, is below zero or above the largest offset; otherwise it becomes
  the lock of the bytes POSIX prescribes, a length of zero reaching to the largest offset and a negative
  length covering the bytes before the start.\<close>

theorem pl_lk_request_range:
  assumes "LLONG_MIN \<le> l_start flock" "l_start flock \<le> LLONG_MAX"
    and "LLONG_MIN \<le> l_len flock" "l_len flock \<le> LLONG_MAX"
  shows "case pl_lk_request flock cl uid pid own fd flags of
      Inl e \<Rightarrow> e = EINVAL \<and>
        (l_start flock < 0 \<or> l_start flock + l_len flock < 0 \<or> LLONG_MAX < l_start flock + l_len flock)
    | Inr lock \<Rightarrow> from_request lock \<and> fl_type lock = l_type flock \<and>
        0 \<le> l_start flock \<and> 0 \<le> l_start flock + l_len flock \<and> l_start flock + l_len flock \<le> LLONG_MAX \<and>
        rng lock = (if l_len flock = 0 then {l_start flock .. LLONG_MAX}
                    else if 0 < l_len flock then {l_start flock .. l_start flock + l_len flock - 1}
                    else {l_start flock + l_len flock .. l_start flock - 1})"
proof -
  let ?s = "l_start flock" and ?n = "l_len flock"
  have a: "?s + ?n < 0 \<or> LLONG_MAX < ?s + ?n" if "s64 (?s + ?n) < 0"
    using that s64_id [of "?s + ?n"] assms by linarith
  have b: "s64 (?s + ?n) = ?s + ?n" if "0 \<le> ?s" "\<not> s64 (?s + ?n) < 0"
    using that s64_add_nonneg [of ?s ?n] s64_id [of "?s + ?n"] assms by (cases "0 \<le> ?n") simp_all
  show ?thesis
  proof (cases "?s < 0 \<or> s64 (?s + ?n) < 0")
    case True
    with a show ?thesis by (auto simp: pl_lk_request_def)
  next
    case False
    with b have e: "0 \<le> ?s" "s64 (?s + ?n) = ?s + ?n" "0 \<le> ?s + ?n" by auto
    have "?s + ?n \<le> LLONG_MAX" using s64_range [of "?s + ?n"] e by simp
    then have s: "s64 (?s + ?n - 1) = ?s + ?n - 1" "?n < 0 \<Longrightarrow> s64 (- ?n) = - ?n" "s64 (?s - 1) = ?s - 1"
      using e assms by (auto intro!: s64_id)
    show ?thesis
      using e s assms False \<open>?s + ?n \<le> LLONG_MAX\<close>
      by (auto simp: pl_lk_request_def new_posix_lock_def from_request_def wf_lock_def rng_def Let_def)
  qed
qed

theorem pl_lk_request_range_witness:
  "case pl_lk_request \<lparr> l_type = F_WRLCK, l_whence = 0, l_start = 10, l_len = -4, l_pid = 1,
       l_owner = \<lparr> lk_len = 0, lk_data = [] \<rparr> \<rparr> 2 [] 1 \<lparr> lk_len = 0, lk_data = [] \<rparr> 3 0 of
      Inl e \<Rightarrow> False | Inr lock \<Rightarrow> rng lock = {6..9}"
proof -
  let ?fl = "\<lparr> l_type = F_WRLCK, l_whence = 0, l_start = 10, l_len = -4, l_pid = 1,
       l_owner = \<lparr> lk_len = 0, lk_data = [] \<rparr> \<rparr> :: gf_flock"
  show ?thesis
    using pl_lk_request_range [of ?fl 2 "[]" 1 "\<lparr> lk_len = 0, lk_data = [] \<rparr>" 3 0]
    by (simp split: sum.splits)
qed



text \<open>C15: no read or write is left waiting without reason. When a lock call runs to its end, the
  waiting operations are split into those it resumed and those that some lock of another owner
  still forbids.\<close>

theorem pl_setlk_resumes_rw:
  assumes "pl_setlk mode pin lock can_block = Some (ret, pin', evs)" "ret \<noteq> -2"
  shows "rw_list pin' = filter (\<lambda>rw. \<not> rw_allowable mode (ext_list pin') (rw_region rw) (rw_fop rw)) (rw_list pin) \<and>
    (\<forall>rw \<in> set (rw_list pin). rw_allowable mode (ext_list pin') (rw_region rw) (rw_fop rw) \<longrightarrow>
       Resume_rw (rw_stub rw) \<in> set evs)"
proof -
  have after: "rw_list q' = filter (\<lambda>rw. \<not> rw_allowable mode (ext_list q') (rw_region rw) (rw_fop rw)) (rw_list q) \<and>
    (\<forall>rw \<in> set (rw_list q). rw_allowable mode (ext_list q') (rw_region rw) (rw_fop rw) \<longrightarrow>
       Resume_rw (rw_stub rw) \<in> set es')"
    if "pl_setlk_after mode r es q = Some (r', q', es')" for r es q r' q' es'
    using that
    by (auto simp: pl_setlk_after_def grant_blocked_locks_def do_blocked_rw_def Let_def bind_eq_Some_conv)
  obtain ext es where pre: "(if can_block \<and> \<not> is_lock_grantable (ext_list pin) lock
      then pl_send_prelock_unlock (ext_list pin) lock else Some (ext_list pin, [])) = Some (ext, es)"
    using assms(1) unfolding pl_setlk_def by (fastforce simp: bind_eq_Some_conv)
  have "\<exists>r q. pl_setlk_after mode r es q = Some (ret, pin', evs) \<and> rw_list q = rw_list pin"
    using assms unfolding pl_setlk_def pre
    by (auto simp: Let_def bind_eq_Some_conv split: if_splits) (rule exI, rule exI, rule conjI, assumption, simp)+
  then show ?thesis using after by metis
qed

theorem pl_setlk_resumes_rw_witness:
  "\<exists>pin' evs. pl_setlk MLK_FORCED
       (sample_inode\<lparr> ext_list := [sample_lock 2 F_WRLCK 0 10 0],
          rw_list := [\<lparr> rw_stub = 5, rw_fop = GF_FOP_READ, rw_region = sample_lock 3 F_RDLCK 0 4 0 \<rparr>] \<rparr>)
       (sample_lock 2 F_UNLCK 0 10 0) False = Some (0, pin', evs) \<and>
     rw_list pin' = [] \<and> Resume_rw 5 \<in> set evs"
proof -
  let ?rw = "\<lparr> rw_stub = 5, rw_fop = GF_FOP_READ, rw_region = sample_lock 3 F_RDLCK 0 4 0 \<rparr> :: pl_rw_req"
  let ?pin = "sample_inode\<lparr> ext_list := [sample_lock 2 F_WRLCK 0 10 0], rw_list := [?rw] \<rparr>"
  have "map_option (\<lambda>(r, p, e). (r, ext_list p)) (pl_setlk MLK_FORCED ?pin (sample_lock 2 F_UNLCK 0 10 0) False)
    = Some (0, [])" by code_simp
  then obtain pin' evs where s:
    "pl_setlk MLK_FORCED ?pin (sample_lock 2 F_UNLCK 0 10 0) False = Some (0, pin', evs)" "ext_list pin' = []"
    by auto
  have "rw_allowable MLK_FORCED [] (rw_region ?rw) (rw_fop ?rw)" by (simp add: rw_allowable_def)
  with pl_setlk_resumes_rw [OF s(1)] s show ?thesis by simp
qed

end
