(* ===== verification/Lock_State.thy ===== *)
theory Lock_State
  imports Lk_Types
begin

text \<open>
  The state inode locks and entry locks share: the domains of an inode
  (\<open>xlators/features/locks/src/locks.h\<close>, \<open>get_domain\<close> of \<open>common.c\<close>), the lock structures
  and the lists of locks each client has.

  A pointer is a number, 0 being NULL.  A lock structure is a record with its address
  (\<open>il_id\<close>, \<open>el_id\<close>); a change of the structure is a change of every list entry with that
  address, and the client lists hold the address and the inode of a lock.  The time at which a
  lock was blocked is only printed and left out; the time it was granted is kept.
\<close>

section \<open>Data\<close>

record pl_inode_lock =
  il_id :: nat
  il_ref :: int
  il_type :: lk_type
  il_start :: int
  il_end :: int
  il_volume :: string
  il_user_flock :: gf_flock
  il_frame :: "nat option"
  il_granted_time :: int
  il_client :: nat
  il_owner :: gf_lkowner
  il_client_pid :: int
  il_connection_id :: "string option"

datatype entrylk_type = ENTRYLK_RDLCK | ENTRYLK_WRLCK

datatype entrylk_cmd = ENTRYLK_LOCK | ENTRYLK_UNLOCK | ENTRYLK_LOCK_NB | ENTRYLK_OTHER

record pl_entry_lock =
  el_id :: nat
  el_ref :: int
  el_frame :: "nat option"
  el_volume :: string
  el_basename :: "string option"
  el_type :: entrylk_type
  el_granted_time :: int
  el_client :: nat
  el_owner :: gf_lkowner
  el_client_pid :: int
  el_connection_id :: "string option"

record pl_dom =
  domain :: string
  entrylk_list :: "pl_entry_lock list"
  blocked_entrylks :: "pl_entry_lock list"
  inodelk_list :: "pl_inode_lock list"
  blocked_inodelks :: "pl_inode_lock list"

text \<open>An inode with its domains and the references the locks hold on it.\<close>

record dom_inode =
  dom_list :: "pl_dom list"
  inode_refs :: int

text \<open>The options of the translator these locks read.\<close>

record locks_private =
  revocation_secs :: int
  revocation_clear_all :: bool
  revocation_max_blocked :: u32
  monkey_unlocking :: bool

text \<open>Answers to lock calls, and structures whose last reference is gone.\<close>

datatype lk_event =
    Unwind_inodelk "nat option" int int
  | Unwind_entrylk "nat option" int int
  | Freed_inodelk nat
  | Freed_entrylk nat

text \<open>A locker is an entry of \<open>ctx->inodelk_lockers\<close> or \<open>ctx->entrylk_lockers\<close>: the client
  the list belongs to, the inode of the lock and the address of the lock.\<close>

type_synonym locker = "nat \<times> nat \<times> nat"

record locks_world =
  inodes :: "nat \<Rightarrow> dom_inode"
  inodelk_lockers :: "locker list"
  entrylk_lockers :: "locker list"

section \<open>Domains\<close>

definition allocate_domain :: "string \<Rightarrow> pl_dom" where
  "allocate_domain volume =
     \<lparr> domain = volume, entrylk_list = [], blocked_entrylks = [],
       inodelk_list = [], blocked_inodelks = [] \<rparr>"

text \<open>\<open>get_domain\<close> gives the domain and the list it is linked in afterwards.\<close>

definition get_domain :: "pl_dom list \<Rightarrow> string \<Rightarrow> pl_dom \<times> pl_dom list" where
  "get_domain doms volume =
     (case find (\<lambda>d. domain d = volume) doms of
        Some d \<Rightarrow> (d, doms)
      | None \<Rightarrow> (allocate_domain volume, allocate_domain volume # doms))"

text \<open>What a change made through a domain pointer does to the list.\<close>

definition put_domain :: "pl_dom list \<Rightarrow> pl_dom \<Rightarrow> pl_dom list" where
  "put_domain doms dm = map (\<lambda>d. if domain d = domain dm then dm else d) doms"

text \<open>Unlinking locks of an inode from the client lists.\<close>

definition del_lockers :: "nat \<Rightarrow> nat list \<Rightarrow> locker list \<Rightarrow> locker list" where
  "del_lockers ino is ls = filter (\<lambda>(c, n, j). \<not> (n = ino \<and> j \<in> set is)) ls"

definition lockers_of :: "nat \<Rightarrow> locker list \<Rightarrow> (nat \<times> nat) list" where
  "lockers_of cl ls = map snd (filter (\<lambda>(c, ino, j). c = cl) ls)"

text \<open>The countdown of \<open>revocation_max_blocked\<close> over a list of waiting locks.\<close>

primrec max_blocked_hit :: "u32 \<Rightarrow> 'a list \<Rightarrow> bool" where
  "max_blocked_hit m [] = False"
| "max_blocked_hit m (x # xs) = (m - 1 = 0 \<or> max_blocked_hit (m - 1) xs)"

lemma dom_list_update: "pin\<lparr> dom_list := ds \<rparr> = \<lparr> dom_list = ds, inode_refs = inode_refs pin \<rparr>"
  by (cases pin) simp

lemma put_domain_names [simp]: "map domain (put_domain doms dm) = map domain doms"
  by (simp add: put_domain_def)

lemma get_domain_name [simp]: "domain (fst (get_domain doms v)) = v"
  by (auto simp: get_domain_def allocate_domain_def split: option.splits dest: find_Some_set)

lemma get_domain_mem: "fst (get_domain doms v) \<in> set (snd (get_domain doms v))"
  by (auto simp: get_domain_def split: option.splits dest: find_Some_set)

lemma get_domain_distinct:
  "distinct (map domain doms) \<Longrightarrow> distinct (map domain (snd (get_domain doms v)))"
  by (auto simp: get_domain_def allocate_domain_def find_None_iff split: option.splits)

text \<open>A property of all domains survives looking one up and changing it.\<close>

lemma get_domain_all:
  assumes "\<forall>d \<in> set doms. Q d" "Q (allocate_domain v)"
  shows "\<forall>d \<in> set (snd (get_domain doms v)). Q d"
  using assms by (auto simp: get_domain_def split: option.splits)

lemma put_domain_all:
  assumes "\<forall>d \<in> set doms. Q d" "Q dm"
  shows "\<forall>d \<in> set (put_domain doms dm). Q d"
  using assms by (auto simp: put_domain_def)

text \<open>The countdown is a comparison with the number of waiting locks.\<close>

lemma max_blocked_hit_iff:
  "0 < unat m \<Longrightarrow> max_blocked_hit m xs \<longleftrightarrow> unat m \<le> length xs"
proof (induction xs arbitrary: m)
  case Nil
  then show ?case by simp
next
  case (Cons x xs)
  have m: "unat (m - 1) = unat m - 1"
    using Cons.prems by (simp add: unat_sub word_le_nat_alt)
  show ?case
  proof (cases "m - 1 = 0")
    case True
    then have "unat m = 1" using m Cons.prems by simp
    then show ?thesis using True by simp
  next
    case False
    then have "0 < unat (m - 1)" by (simp add: unat_gt_0)
    with Cons.IH [of "m - 1"] m False show ?thesis by auto
  qed
qed

end
