(* ===== verification/Lock_Domain.thy ===== *)
theory Lock_Domain
  imports Prelude "HOL-Library.Sublist" "HOL-Library.Multiset"
begin

text \<open>
  What a lock domain promises, for any kind of lock.  The abstract state is the list of granted
  locks and the queue of waiting locks; the kind of lock is given by when two locks conflict
  and when they have the same owner.  \<open>lock_order\<close> is the interface the kinds implement; the
  lemmas in it are about the abstract operations, which the inode locks and the entry locks
  refine.
\<close>

section \<open>The abstract operations\<close>

type_synonym 'l dom_spec = "'l list \<times> 'l list"

text \<open>A request is granted when no granted lock of another owner conflicts with it and either
  no waiting lock conflicts with it or its owner already has a lock in the domain.\<close>

definition spec_ok :: "('l \<Rightarrow> 'l \<Rightarrow> bool) \<Rightarrow> ('l \<Rightarrow> 'l \<Rightarrow> bool) \<Rightarrow> 'l \<Rightarrow> 'l dom_spec \<Rightarrow> bool" where
  "spec_ok conf same l s \<longleftrightarrow>
     \<not> (\<exists>g \<in> set (fst s). conf l g \<and> \<not> same l g) \<and>
     (\<not> (\<exists>w \<in> set (snd s). conf l w) \<or> (\<exists>x \<in> set (fst s) \<union> set (snd s). same x l))"

definition spec_lock :: "('l \<Rightarrow> 'l \<Rightarrow> bool) \<Rightarrow> ('l \<Rightarrow> 'l \<Rightarrow> bool) \<Rightarrow> 'l \<Rightarrow> 'l dom_spec \<Rightarrow> 'l dom_spec" where
  "spec_lock conf same l s =
     (if spec_ok conf same l s then (l # fst s, snd s) else (fst s, snd s @ [l]))"

definition spec_grant :: "('l \<Rightarrow> 'l \<Rightarrow> bool) \<Rightarrow> ('l \<Rightarrow> 'l \<Rightarrow> bool) \<Rightarrow> 'l dom_spec \<Rightarrow> 'l dom_spec" where
  "spec_grant conf same s = fold (spec_lock conf same) (snd s) (fst s, [])"

section \<open>The promises\<close>

text \<open>Granted locks that conflict belong to one owner.\<close>

definition exclusion :: "('l \<Rightarrow> 'l \<Rightarrow> bool) \<Rightarrow> ('l \<Rightarrow> 'l \<Rightarrow> bool) \<Rightarrow> 'l dom_spec \<Rightarrow> bool" where
  "exclusion conf same s \<longleftrightarrow> (\<forall>a \<in> set (fst s). \<forall>b \<in> set (fst s). conf a b \<longrightarrow> same a b)"

text \<open>Every waiting lock waits for something: a conflicting granted lock of another owner or a
  conflicting lock in front of it.  A lock that conflicts with every lock always waits for a granted
  lock of another owner.\<close>

definition has_reason :: "('l \<Rightarrow> 'l \<Rightarrow> bool) \<Rightarrow> ('l \<Rightarrow> 'l \<Rightarrow> bool) \<Rightarrow> 'l list \<Rightarrow> 'l list \<Rightarrow> 'l \<Rightarrow> bool" where
  "has_reason conf same G front w \<longleftrightarrow>
     ((\<exists>g \<in> set G. conf w g \<and> \<not> same w g) \<or> (\<exists>x \<in> set front. conf w x)) \<and>
     ((\<forall>x. conf w x) \<longrightarrow> (\<exists>g \<in> set G. \<not> same w g))"

definition justified :: "('l \<Rightarrow> 'l \<Rightarrow> bool) \<Rightarrow> ('l \<Rightarrow> 'l \<Rightarrow> bool) \<Rightarrow> 'l dom_spec \<Rightarrow> bool" where
  "justified conf same s \<longleftrightarrow>
     (\<forall>front w rest. snd s = front @ w # rest \<longrightarrow> has_reason conf same (fst s) front w)"

lemma justified_Nil [simp]: "justified conf same (G, [])"
  by (simp add: justified_def)

lemma justified_snoc:
  "justified conf same (G, W @ [w]) \<longleftrightarrow> justified conf same (G, W) \<and> has_reason conf same G W w"
  (is "?l \<longleftrightarrow> ?r")
proof
  assume j: ?l
  have "has_reason conf same G front x" if "W = front @ x # rest" for front x rest
    using j that unfolding justified_def by (auto dest: spec [of _ "rest @ [w]"])
  then show ?r using j by (auto simp: justified_def)
next
  assume r: ?r
  show ?l
    unfolding justified_def
  proof (intro allI impI)
    fix front x rest
    assume s: "snd (G, W @ [w]) = front @ x # rest"
    show "has_reason conf same (fst (G, W @ [w])) front x"
    proof (cases rest rule: rev_cases)
      case Nil
      then show ?thesis using s r by simp
    next
      case (snoc ys y)
      then have "W = front @ x # ys" using s by simp
      then show ?thesis using r by (simp add: justified_def)
    qed
  qed
qed

lemma has_reason_mono: "has_reason conf same G front w \<Longrightarrow> set G \<subseteq> set G' \<Longrightarrow> has_reason conf same G' front w"
  unfolding has_reason_def by blast

lemma justified_mono: "justified conf same (G, W) \<Longrightarrow> set G \<subseteq> set G' \<Longrightarrow> justified conf same (G', W)"
  unfolding justified_def by (auto intro: has_reason_mono)

lemma exclusion_mono: "exclusion conf same (G, W) \<Longrightarrow> set G' \<subseteq> set G \<Longrightarrow> exclusion conf same (G', W')"
  by (auto simp: exclusion_def)

text \<open>A queue in which everyone has a reason is empty once nothing is granted.\<close>

lemma justified_no_grant: "justified conf same ([], W) \<Longrightarrow> W = []"
  by (cases W) (force simp: justified_def has_reason_def)+

section \<open>The interface\<close>

locale lock_order =
  fixes conf same :: "'l \<Rightarrow> 'l \<Rightarrow> bool"
  assumes conf_sym: "conf a b \<Longrightarrow> conf b a"
    and same_refl: "same a a"
    and same_sym: "same a b \<Longrightarrow> same b a"
begin

lemma lock_exclusion:
  assumes "exclusion conf same s"
  shows "exclusion conf same (spec_lock conf same l s)"
  using assms conf_sym same_refl same_sym
  by (auto simp: exclusion_def spec_lock_def spec_ok_def)

lemma lock_justified:
  assumes "justified conf same s"
  shows "justified conf same (spec_lock conf same l s)"
proof -
  obtain G W where s: "s = (G, W)" by (cases s)
  show ?thesis
  proof (cases "spec_ok conf same l s")
    case True
    then show ?thesis using assms justified_mono [of conf same G W "l # G"] s
      by (auto simp: spec_lock_def)
  next
    case False
    then consider g where "g \<in> set G" "conf l g" "\<not> same l g"
      | w where "w \<in> set W" "conf l w" "\<not> (\<exists>x \<in> set G. same x l)"
      by (auto simp: spec_ok_def s)
    then have "has_reason conf same G W l"
    proof cases
      case 1
      then show ?thesis by (auto simp: has_reason_def)
    next
      case 2
      then have "G \<noteq> []" using assms justified_no_grant s by fastforce
      then obtain g where "g \<in> set G" by (cases G) auto
      then have "\<not> same l g" using 2(3) same_sym by blast
      then show ?thesis using 2 \<open>g \<in> set G\<close> by (auto simp: has_reason_def)
    qed
    then show ?thesis using False assms s by (simp add: spec_lock_def justified_snoc)
  qed
qed

lemma lock_mset: "mset (fst (spec_lock conf same l s)) + mset (snd (spec_lock conf same l s)) =
    add_mset l (mset (fst s) + mset (snd s))"
  by (simp add: spec_lock_def)

lemma fold_exclusion:
  "exclusion conf same s \<Longrightarrow> exclusion conf same (fold (spec_lock conf same) ls s)"
  by (induction ls arbitrary: s) (simp_all add: lock_exclusion)

lemma fold_justified:
  "justified conf same s \<Longrightarrow> justified conf same (fold (spec_lock conf same) ls s)"
  by (induction ls arbitrary: s) (simp_all add: lock_justified)

lemma fold_mset:
  "mset (fst (fold (spec_lock conf same) ls s)) + mset (snd (fold (spec_lock conf same) ls s)) =
     mset ls + mset (fst s) + mset (snd s)"
  by (induction ls arbitrary: s) (simp_all add: lock_mset)

lemma fold_queue:
  "\<exists>ws. snd (fold (spec_lock conf same) ls s) = snd s @ ws \<and> subseq ws ls"
proof (induction ls arbitrary: s)
  case Nil
  then show ?case by simp
next
  case (Cons l ls)
  obtain ws where ws: "snd (fold (spec_lock conf same) ls (spec_lock conf same l s)) =
      snd (spec_lock conf same l s) @ ws" "subseq ws ls"
    using Cons.IH by blast
  show ?case
  proof (cases "spec_ok conf same l s")
    case True
    then have "snd (spec_lock conf same l s) = snd s" by (simp add: spec_lock_def)
    then show ?thesis using ws by (metis fold_simps(2) list_emb_Cons)
  next
    case False
    then have "snd (spec_lock conf same l s) = snd s @ [l]" by (simp add: spec_lock_def)
    then have "snd (fold (spec_lock conf same) (l # ls) s) = snd s @ l # ws"
      using ws by simp
    then show ?thesis using ws(2) by blast
  qed
qed

text \<open>Trying the waiting locks again: exclusion is kept, everyone who still waits has a reason,
  whatever reasons there were before, no lock is lost, and the queue keeps its order.\<close>

lemma grant_exclusion: "exclusion conf same s \<Longrightarrow> exclusion conf same (spec_grant conf same s)"
  unfolding spec_grant_def by (rule fold_exclusion) (simp add: exclusion_def)

lemma grant_justified: "justified conf same (spec_grant conf same s)"
  unfolding spec_grant_def by (rule fold_justified) simp

lemma grant_mset:
  "mset (fst (spec_grant conf same s)) + mset (snd (spec_grant conf same s)) = mset (fst s) + mset (snd s)"
  unfolding spec_grant_def fold_mset by simp

lemma grant_fifo: "subseq (snd (spec_grant conf same s)) (snd s)"
  using fold_queue [of "snd s" "(fst s, [])"] by (auto simp: spec_grant_def)

lemma grant_all_if_free:
  assumes "spec_grant conf same s = ([], W)"
  shows "W = []"
  using grant_justified [of s] assms justified_no_grant by fastforce

end

end
