(* ===== verification/Lock_Clients.thy ===== *)
theory Lock_Clients
  imports Lock_State Lock_Domain
begin

text \<open>
  The invariant of the lock tables of all inodes, for any kind of domain lock, and what the
  disconnect of a client keeps of it.  A kind is described by how its locks are found in a domain
  and compared; the locale \<open>lock_table\<close> is the interface the operations of a kind implement.
\<close>

section \<open>Kinds of lock\<close>

record 'l lock_kind =
  kG :: "pl_dom \<Rightarrow> 'l list"
  kW :: "pl_dom \<Rightarrow> 'l list"
  kkey :: "'l \<Rightarrow> nat"
  kclient :: "'l \<Rightarrow> nat"
  kvol :: "'l \<Rightarrow> string"
  kref :: "'l \<Rightarrow> int"
  kcore :: "'l \<Rightarrow> 'l"
  kconf :: "'l \<Rightarrow> 'l \<Rightarrow> bool"
  ksame :: "'l \<Rightarrow> 'l \<Rightarrow> bool"

text \<open>The granted and waiting locks of a domain without what changes while they are in the
  lists (\<open>kcore\<close>), and all locks of a domain and of an inode.\<close>

definition dom_abs :: "'l lock_kind \<Rightarrow> pl_dom \<Rightarrow> 'l dom_spec" where
  "dom_abs k d = (map (kcore k) (kG k d), map (kcore k) (kW k d))"

definition dom_locks :: "'l lock_kind \<Rightarrow> pl_dom \<Rightarrow> 'l list" where
  "dom_locks k d = kG k d @ kW k d"

definition ino_locks :: "'l lock_kind \<Rightarrow> dom_inode \<Rightarrow> 'l list" where
  "ino_locks k pin = concat (map (dom_locks k) (dom_list pin))"

lemma dom_abs_mset: "mset (map (kcore k) (dom_locks k d)) = mset (fst (dom_abs k d)) + mset (snd (dom_abs k d))"
  by (simp add: dom_abs_def dom_locks_def)

section \<open>The invariant\<close>

definition dom_ok :: "'l lock_kind \<Rightarrow> pl_dom \<Rightarrow> bool" where
  "dom_ok k d \<longleftrightarrow> exclusion (kconf k) (ksame k) (dom_abs k d) \<and>
     (\<forall>l \<in> set (dom_locks k d). kref k l = 1 \<and> kvol k l = domain d)"

definition dom_justified :: "'l lock_kind \<Rightarrow> pl_dom \<Rightarrow> bool" where
  "dom_justified k d \<longleftrightarrow> justified (kconf k) (ksame k) (dom_abs k d)"

definition inode_ok :: "'l lock_kind \<Rightarrow> dom_inode \<Rightarrow> bool" where
  "inode_ok k pin \<longleftrightarrow> distinct (map domain (dom_list pin)) \<and>
     distinct (map (kkey k) (ino_locks k pin)) \<and> (\<forall>d \<in> set (dom_list pin). dom_ok k d)"

text \<open>The client lists name exactly the locks of clients.\<close>

definition lockers_ok :: "'l lock_kind \<Rightarrow> nat \<Rightarrow> dom_inode \<Rightarrow> locker list \<Rightarrow> bool" where
  "lockers_ok k ino pin ls \<longleftrightarrow>
     (\<forall>c i. (c, ino, i) \<in> set ls \<longleftrightarrow>
        c \<noteq> 0 \<and> (\<exists>l \<in> set (ino_locks k pin). kclient k l = c \<and> kkey k l = i))"

definition table_ok :: "'l lock_kind \<Rightarrow> (nat \<Rightarrow> dom_inode) \<Rightarrow> locker list \<Rightarrow> bool" where
  "table_ok k inos ls \<longleftrightarrow>
     (\<forall>ino. inode_ok k (inos ino) \<and> lockers_ok k ino (inos ino) ls \<and>
        (\<forall>d \<in> set (dom_list (inos ino)). dom_justified k d))"

text \<open>References on an inode that no lock accounts for.\<close>

definition ref_balance :: "'l lock_kind \<Rightarrow> dom_inode \<Rightarrow> int" where
  "ref_balance k pin = inode_refs pin - int (length (ino_locks k pin))"

section \<open>Changing one domain of an inode\<close>

lemma put_domain_mset:
  assumes "distinct (map domain doms)" "d \<in> set doms" "domain dm = domain d"
  shows "mset (concat (map f (put_domain doms dm))) + mset (f d) = mset (concat (map f doms)) + mset (f dm)"
  using assms
proof (induction doms)
  case Nil
  then show ?case by simp
next
  case (Cons x xs)
  show ?case
  proof (cases "x = d")
    case True
    have "put_domain xs dm = xs"
      using Cons.prems True by (auto simp: put_domain_def image_iff intro!: map_idI)
    then show ?thesis using True Cons.prems by (simp add: put_domain_def)
  next
    case False
    then have "d \<in> set xs" "domain x \<noteq> domain d" using Cons.prems by auto
    then show ?thesis using Cons by (simp add: put_domain_def)
  qed
qed

lemma get_domain_concat:
  "f (allocate_domain v) = [] \<Longrightarrow> concat (map f (snd (get_domain doms v))) = concat (map f doms)"
  by (auto simp: get_domain_def split: option.splits)

text \<open>Looking a domain up and storing a changed one: the locks of the inode change by the
  locks of the domain.\<close>

lemma get_put_mset:
  assumes "distinct (map domain doms)" "get_domain doms v = (dm, doms')" "domain dm' = v"
    and "f (allocate_domain v) = []"
  shows "mset (concat (map f (put_domain doms' dm'))) + mset (f dm) =
    mset (concat (map f doms)) + mset (f dm')"
proof -
  have "distinct (map domain doms')" "dm \<in> set doms'" "domain dm = v"
    using get_domain_distinct [OF assms(1), of v] get_domain_mem [of doms v] get_domain_name [of doms v]
      assms(2) by auto
  moreover have "concat (map f doms') = concat (map f doms)"
    using get_domain_concat [of f v doms] assms(2,4) by simp
  ultimately show ?thesis using put_domain_mset [of doms' dm dm' f] assms(3) by simp
qed

text \<open>The same for a property of all domains but one.\<close>

lemma get_put_all:
  assumes "get_domain doms v = (dm, doms')" "Q dm'"
    and "\<And>d. d \<in> set doms \<Longrightarrow> domain d \<noteq> domain dm' \<Longrightarrow> Q d" "domain dm' = v"
  shows "\<forall>d \<in> set (put_domain doms' dm'). Q d"
  using assms by (auto simp: put_domain_def get_domain_def allocate_domain_def split: option.splits if_splits)

lemma distinct_count_le: "distinct xs \<longleftrightarrow> (\<forall>x. count (mset xs) x \<le> 1)"
proof (induction xs)
  case Nil
  then show ?case by simp
next
  case (Cons y ys)
  have "count (mset ys) y = 0 \<longleftrightarrow> y \<notin> set ys" by (simp add: count_mset_0_iff)
  then show ?case using Cons.IH by (auto simp: le_Suc_eq split: if_splits)
qed

text \<open>A changed domain may keep, drop or add locks at unused addresses.\<close>

lemma replace_domain_ok:
  assumes ok: "inode_ok k pin" and get: "get_domain (dom_list pin) v = (dm, doms)"
    and nil: "dom_locks k (allocate_domain v) = []"
    and dm': "domain dm' = v" "dom_ok k dm'" "distinct (map (kkey k) (dom_locks k dm'))"
    and new: "\<forall>l \<in> set (dom_locks k dm'). kkey k l \<in> kkey k ` set (dom_locks k dm) \<or>
      kkey k l \<notin> kkey k ` set (ino_locks k pin)"
  shows "inode_ok k \<lparr> dom_list = put_domain doms dm', inode_refs = n \<rparr>"
proof -
  let ?pin' = "\<lparr> dom_list = put_domain doms dm', inode_refs = n \<rparr>"
  let ?c = "\<lambda>ls a. count (mset (map (kkey k) ls)) a"
  have names: "distinct (map domain (dom_list pin))" using ok by (simp add: inode_ok_def)
  have "mset (ino_locks k ?pin') + mset (dom_locks k dm) = mset (ino_locks k pin) + mset (dom_locks k dm')"
    using get_put_mset [of "dom_list pin" v dm doms dm' "dom_locks k"] names get dm'(1) nil
    by (simp add: ino_locks_def)
  from arg_cong [OF this, of "image_mset (kkey k)"]
  have m: "mset (map (kkey k) (ino_locks k ?pin')) + mset (map (kkey k) (dom_locks k dm)) =
      mset (map (kkey k) (ino_locks k pin)) + mset (map (kkey k) (dom_locks k dm'))"
    by (simp only: image_mset_union mset_map)
  have c: "?c (ino_locks k ?pin') a + ?c (dom_locks k dm) a = ?c (ino_locks k pin) a + ?c (dom_locks k dm') a" for a
    using arg_cong [OF m, of "\<lambda>M. count M a"] by (simp only: count_union)
  have le: "?c (ino_locks k pin) a \<le> 1" "?c (dom_locks k dm') a \<le> 1" for a
    by (rule distinct_count_le [THEN iffD1, rule_format], use ok dm'(3) in \<open>simp add: inode_ok_def\<close>)+
  have "?c (ino_locks k ?pin') a \<le> 1" for a
  proof (cases "a \<in> set (map (kkey k) (dom_locks k dm'))")
    case False
    then have "?c (dom_locks k dm') a = 0" by (simp only: count_mset_0_iff not_False_eq_True)
    then show ?thesis using c [of a] le [of a] by linarith
  next
    case True
    then have "a \<in> set (map (kkey k) (dom_locks k dm)) \<or> a \<notin> set (map (kkey k) (ino_locks k pin))"
      using new by auto
    then have "?c (dom_locks k dm) a \<ge> 1 \<or> ?c (ino_locks k pin) a = 0"
      by (metis One_nat_def Suc_leI count_greater_zero_iff count_mset_0_iff set_mset_mset)
    then show ?thesis using c [of a] le [of a] by linarith
  qed
  moreover have "\<forall>d \<in> set (put_domain doms dm'). dom_ok k d"
    using get_put_all [of "dom_list pin" v dm doms "dom_ok k" dm'] get dm'(1,2) ok
    by (simp add: inode_ok_def)
  moreover have "distinct (map domain (put_domain doms dm'))"
    using get_domain_distinct [OF names, of v] get by simp
  ultimately show ?thesis unfolding inode_ok_def by (simp add: distinct_count_le)
qed

section \<open>Removing one lock from an inode\<close>

lemma mset_remove_key:
  assumes "distinct (map f xs)" "x \<in> set xs"
  shows "mset xs = add_mset x (mset (filter (\<lambda>y. f y \<noteq> f x) xs))"
  using assms
proof (induction xs)
  case Nil
  then show ?case by simp
next
  case (Cons y ys)
  show ?case
  proof (cases "y = x")
    case True
    then have "filter (\<lambda>z. f z \<noteq> f x) ys = ys"
      using Cons.prems by (auto simp: filter_id_conv image_iff)
    then show ?thesis using True by simp
  next
    case False
    then have "f y \<noteq> f x" using Cons.prems by (auto simp: image_iff)
    then show ?thesis using Cons False by simp
  qed
qed

definition without_lock :: "'l lock_kind \<Rightarrow> nat \<Rightarrow> dom_inode \<Rightarrow> dom_inode \<Rightarrow> bool" where
  "without_lock k i pin pin' \<longleftrightarrow>
     inode_refs pin' = inode_refs pin \<and>
     (\<exists>f. dom_list pin' = map f (dom_list pin) \<and>
        (\<forall>d \<in> set (dom_list pin). domain (f d) = domain d \<and>
           kG k (f d) = filter (\<lambda>l. kkey k l \<noteq> i) (kG k d) \<and>
           kW k (f d) = filter (\<lambda>l. kkey k l \<noteq> i) (kW k d)))"

lemma without_lock_locks:
  assumes "without_lock k i pin pin'"
  shows "ino_locks k pin' = filter (\<lambda>l. kkey k l \<noteq> i) (ino_locks k pin)"
proof -
  obtain f where f: "dom_list pin' = map f (dom_list pin)"
    "\<forall>d \<in> set (dom_list pin). kG k (f d) = filter (\<lambda>l. kkey k l \<noteq> i) (kG k d) \<and>
       kW k (f d) = filter (\<lambda>l. kkey k l \<noteq> i) (kW k d)"
    using assms unfolding without_lock_def by blast
  have "concat (map (dom_locks k \<circ> f) ds) = filter (\<lambda>l. kkey k l \<noteq> i) (concat (map (dom_locks k) ds))"
    if "set ds \<subseteq> set (dom_list pin)" for ds
    using that f(2) by (induction ds) (auto simp: dom_locks_def)
  then show ?thesis by (simp add: ino_locks_def f(1))
qed

lemma without_lock_mset:
  assumes "without_lock k (kkey k l) pin pin'" "inode_ok k pin" "l \<in> set (ino_locks k pin)"
  shows "mset (ino_locks k pin) = add_mset l (mset (ino_locks k pin'))"
  using mset_remove_key [of "kkey k" "ino_locks k pin" l] assms without_lock_locks [OF assms(1)]
  by (simp add: inode_ok_def)

lemma dom_ok_filter:
  assumes "dom_ok k d" "domain d' = domain d" "kG k d' = filter P (kG k d)" "kW k d' = filter P (kW k d)"
  shows "dom_ok k d'"
  using assms by (auto simp: dom_ok_def dom_abs_def dom_locks_def exclusion_def)

lemma without_lock_ok:
  assumes "without_lock k i pin pin'" "inode_ok k pin"
  shows "inode_ok k pin'"
proof -
  obtain f where f: "dom_list pin' = map f (dom_list pin)"
    "\<forall>d \<in> set (dom_list pin). domain (f d) = domain d \<and>
           kG k (f d) = filter (\<lambda>l. kkey k l \<noteq> i) (kG k d) \<and>
           kW k (f d) = filter (\<lambda>l. kkey k l \<noteq> i) (kW k d)"
    using assms unfolding without_lock_def by blast
  have "distinct (map domain (dom_list pin'))"
    using f assms(2) by (simp add: inode_ok_def cong: map_cong)
  moreover have "dom_ok k (f d)" if "d \<in> set (dom_list pin)" for d
    using that assms(2) f(2) dom_ok_filter [of k d "f d"] by (auto simp: inode_ok_def)
  ultimately show ?thesis
    using assms(2) f(1) unfolding inode_ok_def without_lock_locks [OF assms(1)]
    by (simp add: distinct_map_filter)
qed

text \<open>Domains other than the one of the removed lock are as before.\<close>

lemma without_lock_other:
  assumes "without_lock k (kkey k l) pin pin'" "inode_ok k pin" "l \<in> set (ino_locks k pin)"
    and "d' \<in> set (dom_list pin')" "domain d' \<noteq> kvol k l"
  shows "\<exists>d \<in> set (dom_list pin). domain d = domain d' \<and> dom_abs k d' = dom_abs k d"
proof -
  obtain d where d: "d \<in> set (dom_list pin)" "domain d' = domain d"
    "kG k d' = filter (\<lambda>x. kkey k x \<noteq> kkey k l) (kG k d)"
    "kW k d' = filter (\<lambda>x. kkey k x \<noteq> kkey k l) (kW k d)"
    using assms(1,4) by (auto simp: without_lock_def)
  have "kkey k x \<noteq> kkey k l" if x: "x \<in> set (dom_locks k d)" for x
  proof
    assume eq: "kkey k x = kkey k l"
    have "x \<in> set (ino_locks k pin)" using x d(1) by (auto simp: ino_locks_def)
    then have "x = l"
      using eq assms(2,3) by (auto simp: inode_ok_def distinct_map dest: inj_onD)
    then show False
      using x d assms(2,5) by (auto simp: inode_ok_def dom_ok_def)
  qed
  then have "kG k d' = kG k d" "kW k d' = kW k d"
    using d(3,4) by (simp_all add: dom_locks_def filter_id_conv)
  then show ?thesis using d(1,2) by (auto simp: dom_abs_def)
qed

section \<open>The disconnect of a client\<close>

text \<open>The domains of the inodes in \<open>P\<close> may hold locks that wait without a reason.\<close>

definition justified_but :: "'l lock_kind \<Rightarrow> (nat \<Rightarrow> dom_inode) \<Rightarrow> (nat \<times> string) set \<Rightarrow> bool" where
  "justified_but k inos P \<longleftrightarrow>
     (\<forall>ino. \<forall>d \<in> set (dom_list (inos ino)). (ino, domain d) \<notin> P \<longrightarrow> dom_justified k d)"

definition locks_at :: "nat \<Rightarrow> (nat \<times> 'l) list \<Rightarrow> 'l list" where
  "locks_at ino ls = map snd (filter (\<lambda>(n, l). n = ino) ls)"

lemma locks_at_simps [simp]:
  "locks_at ino [] = []"
  "locks_at ino ((n, l) # ls) = (if n = ino then l # locks_at ino ls else locks_at ino ls)"
  "locks_at ino (xs @ ys) = locks_at ino xs @ locks_at ino ys"
  by (auto simp: locks_at_def)

definition doms_of :: "'l lock_kind \<Rightarrow> (nat \<times> 'l) list \<Rightarrow> (nat \<times> string) set" where
  "doms_of k ls = (\<lambda>(ino, l). (ino, kvol k l)) ` set ls"

text \<open>From \<open>inos\<close> to \<open>inos'\<close> the locks of the list \<open>Q\<close>, which are the ones \<open>ls\<close> names, were taken
  off the lists.\<close>

definition collected ::
  "'l lock_kind \<Rightarrow> (nat \<times> nat) list \<Rightarrow> (nat \<Rightarrow> dom_inode) \<Rightarrow> (nat \<Rightarrow> dom_inode) \<Rightarrow> (nat \<times> 'l) list \<Rightarrow> bool" where
  "collected k ls inos inos' Q \<longleftrightarrow>
     (\<forall>ino. inode_ok k (inos' ino) \<and> inode_refs (inos' ino) = inode_refs (inos ino) \<and>
        mset (ino_locks k (inos ino)) = mset (ino_locks k (inos' ino)) + mset (locks_at ino Q) \<and>
        (\<forall>l \<in> set (ino_locks k (inos' ino)). (ino, kkey k l) \<notin> set ls) \<and>
        (\<forall>l \<in> set (locks_at ino Q). (ino, kkey k l) \<in> set ls)) \<and>
     (\<forall>P. justified_but k inos P \<longrightarrow> justified_but k inos' (P \<union> doms_of k Q))"

lemma collected_perm:
  assumes "mset Q = mset Q'" "collected k ls inos inos' Q"
  shows "collected k ls inos inos' Q'"
proof -
  have "mset (locks_at ino Q) = mset (locks_at ino Q')" for ino
    using assms(1) by (simp add: locks_at_def mset_filter)
  moreover from this have "set (locks_at ino Q) = set (locks_at ino Q')" for ino
    by (rule mset_eq_setD)
  moreover have "doms_of k Q = doms_of k Q'"
    using mset_eq_setD [OF assms(1)] by (simp add: doms_of_def)
  ultimately show ?thesis using assms(2) unfolding collected_def by simp
qed

lemma justified_but_mono: "justified_but k inos P \<Longrightarrow> P \<subseteq> P' \<Longrightarrow> justified_but k inos P'"
  by (auto simp: justified_but_def)

lemma collected_Cons:
  assumes ok: "\<forall>n. inode_ok k (inos n)"
    and out: "without_lock k (kkey k l) (inos ino) pin'" "l \<in> set (ino_locks k (inos ino))"
    and rest: "collected k ls (inos(ino := pin')) inos' Q"
  shows "collected k ((ino, kkey k l) # ls) inos inos' ((ino, l) # Q)"
proof -
  let ?i1 = "inos(ino := pin')"
  have refs: "inode_refs (?i1 n) = inode_refs (inos n)" for n
    using out(1) by (simp add: without_lock_def)
  have m: "mset (ino_locks k (inos n)) = mset (ino_locks k (?i1 n)) + mset (locks_at n [(ino, l)])" for n
    using without_lock_mset [OF out(1) _ out(2)] ok by auto
  have keys: "kkey k x \<noteq> kkey k l" if "x \<in> set (ino_locks k (inos' ino))" for x
  proof -
    have "x \<in> set (ino_locks k pin')"
    proof -
      have "mset (ino_locks k pin') = mset (ino_locks k (inos' ino)) + mset (locks_at ino Q)"
        using rest by (auto simp: collected_def dest: spec [of _ ino])
      then have "set (ino_locks k (inos' ino)) \<subseteq> set (ino_locks k pin')"
        by (metis mset_subset_eq_add_left set_mset_mono set_mset_mset)
      then show ?thesis using that by blast
    qed
    then show ?thesis by (simp add: without_lock_locks [OF out(1)])
  qed
  have "justified_but k ?i1 (insert (ino, kvol k l) P)" if "justified_but k inos P" for P
    unfolding justified_but_def
  proof (intro allI ballI impI)
    fix n d'
    assume d': "d' \<in> set (dom_list (?i1 n))" "(n, domain d') \<notin> insert (ino, kvol k l) P"
    show "dom_justified k d'"
    proof (cases "n = ino")
      case True
      then obtain d where "d \<in> set (dom_list (inos ino))" "domain d = domain d'" "dom_abs k d' = dom_abs k d"
        using d' without_lock_other [OF out(1) _ out(2), of d'] ok by auto
      then show ?thesis using that True d'(2) by (auto simp: justified_but_def dom_justified_def)
    next
      case False
      then show ?thesis using that d' by (auto simp: justified_but_def)
    qed
  qed
  then have just: "justified_but k inos' (P \<union> doms_of k ((ino, l) # Q))" if "justified_but k inos P" for P
    using that rest unfolding collected_def by (simp add: doms_of_def insert_commute) (metis Un_insert_left)
  show ?thesis
    using rest just keys m refs unfolding collected_def by (auto simp: ac_simps split: if_splits)
qed

text \<open>From \<open>inos\<close> to \<open>inos'\<close> the waiting locks of the domains of \<open>Q\<close> were tried again and one
  reference was given back for each lock of \<open>Q\<close>.\<close>

definition given_back ::
  "'l lock_kind \<Rightarrow> (nat \<Rightarrow> dom_inode) \<Rightarrow> (nat \<Rightarrow> dom_inode) \<Rightarrow> (nat \<times> 'l) list \<Rightarrow> bool" where
  "given_back k inos inos' Q \<longleftrightarrow>
     (\<forall>ino. inode_ok k (inos' ino) \<and>
        inode_refs (inos' ino) = inode_refs (inos ino) - int (length (locks_at ino Q)) \<and>
        mset (map (kcore k) (ino_locks k (inos' ino))) = mset (map (kcore k) (ino_locks k (inos ino)))) \<and>
     (\<forall>P. justified_but k inos P \<longrightarrow> justified_but k inos' (P - doms_of k Q))"

lemma given_back_Cons:
  assumes "given_back k inos (inos(ino := pin')) [(ino, l)]" "given_back k (inos(ino := pin')) inos' Q"
  shows "given_back k inos inos' ((ino, l) # Q)"
proof -
  have "justified_but k inos' (P - doms_of k ((ino, l) # Q))" if "justified_but k inos P" for P
  proof -
    have "justified_but k inos' (P - doms_of k [(ino, l)] - doms_of k Q)"
      using that assms unfolding given_back_def by blast
    moreover have "P - doms_of k [(ino, l)] - doms_of k Q = P - doms_of k ((ino, l) # Q)"
      by (auto simp: doms_of_def)
    ultimately show ?thesis by simp
  qed
  then show ?thesis using assms unfolding given_back_def by (auto split: if_splits)
qed

locale lock_table = lock_order "kconf k" "ksame k" for k :: "'l lock_kind" +
  fixes grant :: "int \<Rightarrow> pl_dom \<Rightarrow> pl_dom \<times> lk_event list"
    and dropG dropW :: "nat \<Rightarrow> dom_inode \<Rightarrow> dom_inode"
    and collect :: "(nat \<times> nat) list \<Rightarrow> (nat \<Rightarrow> dom_inode) \<Rightarrow> (nat \<times> 'l) list \<Rightarrow> (nat \<times> 'l) list \<Rightarrow>
      (nat \<Rightarrow> dom_inode) \<times> (nat \<times> 'l) list \<times> (nat \<times> 'l) list"
    and release :: "int \<Rightarrow> (nat \<times> 'l) list \<Rightarrow> (nat \<Rightarrow> dom_inode) \<Rightarrow> lk_event list \<Rightarrow>
      (nat \<Rightarrow> dom_inode) \<times> lk_event list"
    and freed :: "'l \<Rightarrow> lk_event list"
  assumes core [simp]: "kkey k (kcore k l) = kkey k l" "kvol k (kcore k l) = kvol k l"
      "kclient k (kcore k l) = kclient k l"
    and empty [simp]: "kG k (allocate_domain v) = []" "kW k (allocate_domain v) = []"
    and grant_domain: "domain (fst (grant now d)) = domain d"
    and grant_refines: "dom_abs k (fst (grant now d)) = spec_grant (kconf k) (ksame k) (dom_abs k d)"
    and grant_refs: "distinct (map (kkey k) (dom_locks k d)) \<Longrightarrow> \<forall>l \<in> set (dom_locks k d). kref k l = 1 \<Longrightarrow>
      \<forall>l \<in> set (dom_locks k (fst (grant now d))). kref k l = 1"
    and dropG_without: "\<forall>d \<in> set (dom_list pin). \<forall>l \<in> set (kW k d). kkey k l \<noteq> i \<Longrightarrow>
      without_lock k i pin (dropG i pin)"
    and dropW_without: "\<forall>d \<in> set (dom_list pin). \<forall>l \<in> set (kG k d). kkey k l \<noteq> i \<Longrightarrow>
      without_lock k i pin (dropW i pin)"
    and collect_Nil: "collect [] inos r u = (inos, r, u)"
    and collect_Cons: "collect ((ino, i) # ls) inos r u =
      (case find (\<lambda>l. kkey k l = i) (concat (map (kG k) (dom_list (inos ino)))) of
         Some l \<Rightarrow> collect ls (inos(ino := dropG i (inos ino))) (r @ [(ino, l)]) u
       | None \<Rightarrow>
          (case find (\<lambda>l. kkey k l = i) (concat (map (kW k) (dom_list (inos ino)))) of
             Some l \<Rightarrow> collect ls (inos(ino := dropW i (inos ino))) r (u @ [(ino, l)])
           | None \<Rightarrow> collect ls inos r u))"
    and release_Nil: "release now [] inos evs = (inos, evs)"
    and release_Cons: "release now ((ino, l) # rs) inos evs =
      (let (dm, doms) = get_domain (dom_list (inos ino)) (kvol k l);
           (dm', evs1) = grant now dm
       in release now rs
            (inos(ino := \<lparr> dom_list = put_domain doms dm', inode_refs = inode_refs (inos ino) - 1 \<rparr>))
            (evs @ evs1 @ freed l))"
begin

lemma ino_locks_split: "set (ino_locks k pin) =
    set (concat (map (kG k) (dom_list pin))) \<union> set (concat (map (kW k) (dom_list pin)))"
  by (auto simp: ino_locks_def dom_locks_def)

text \<open>One round of the collecting loop.\<close>

lemma found_granted:
  assumes "inode_ok k pin" "find (\<lambda>l. kkey k l = i) (concat (map (kG k) (dom_list pin))) = Some l"
  shows "without_lock k (kkey k l) pin (dropG i pin)" "l \<in> set (ino_locks k pin)" "kkey k l = i"
proof -
  have l: "l \<in> set (concat (map (kG k) (dom_list pin)))" and key: "kkey k l = i"
    using find_Some_set [OF assms(2)] by auto
  then show m: "l \<in> set (ino_locks k pin)" and "kkey k l = i" by (auto simp: ino_locks_split)
  have "kkey k x \<noteq> i" if "d \<in> set (dom_list pin)" "x \<in> set (kW k d)" for d x
  proof
    assume eq: "kkey k x = i"
    from l obtain e where e: "e \<in> set (dom_list pin)" "l \<in> set (kG k e)" by auto
    have "x \<in> set (ino_locks k pin)" using that by (auto simp: ino_locks_split)
    then have "x = l" using m eq key assms(1) by (auto simp: inode_ok_def distinct_map dest: inj_onD)
    moreover have "kvol k x = domain d" "kvol k l = domain e"
      using that e assms(1) by (auto simp: inode_ok_def dom_ok_def dom_locks_def)
    ultimately have "e = d"
      using that(1) e(1) assms(1) by (auto simp: inode_ok_def distinct_map dest: inj_onD)
    then have "x \<in> set (kG k d) \<inter> set (kW k d)" using e(2) that(2) \<open>x = l\<close> by simp
    moreover have "distinct (map (kkey k) (dom_locks k d))"
      using assms(1) that(1) by (auto simp: inode_ok_def ino_locks_def map_concat distinct_concat_iff)
    ultimately show False by (auto simp: dom_locks_def)
  qed
  then show "without_lock k (kkey k l) pin (dropG i pin)" using dropG_without key by blast
qed

lemma found_waiting:
  assumes "inode_ok k pin" "find (\<lambda>l. kkey k l = i) (concat (map (kG k) (dom_list pin))) = None"
    and "find (\<lambda>l. kkey k l = i) (concat (map (kW k) (dom_list pin))) = Some l"
  shows "without_lock k (kkey k l) pin (dropW i pin)" "l \<in> set (ino_locks k pin)" "kkey k l = i"
  using find_Some_set [OF assms(3)] assms(2) dropW_without [of pin i]
  by (auto simp: ino_locks_split find_None_all)

end

context lock_table
begin

lemma collect_collected:
  assumes "\<forall>ino. inode_ok k (inos ino)"
  shows "\<exists>inos' R U. collect ls inos r u = (inos', r @ R, u @ U) \<and> collected k ls inos inos' (R @ U)"
  using assms
proof (induction ls arbitrary: inos r u)
  case Nil
  have "collected k [] inos inos ([] @ [])" using Nil by (simp add: collected_def doms_of_def)
  then show ?case by (metis append_Nil2 collect_Nil)
next
  case (Cons a ls)
  obtain ino i where a: "a = (ino, i)" by (cases a)
  let ?G = "find (\<lambda>l. kkey k l = i) (concat (map (kG k) (dom_list (inos ino))))"
  let ?W = "find (\<lambda>l. kkey k l = i) (concat (map (kW k) (dom_list (inos ino))))"
  have ok: "inode_ok k (inos ino)" using Cons.prems by blast
  consider (g) l where "?G = Some l" | (w) l where "?G = None" "?W = Some l" | (n) "?G = None" "?W = None"
    by fastforce
  then show ?case
  proof cases
    case g
    note f = found_granted [OF ok g]
    let ?i1 = "inos(ino := dropG i (inos ino))"
    have ok1: "\<forall>n. inode_ok k (?i1 n)" using Cons.prems without_lock_ok [OF f(1) ok] by simp
    obtain inos' R U where c: "collect ls ?i1 (r @ [(ino, l)]) u = (inos', (r @ [(ino, l)]) @ R, u @ U)"
        "collected k ls ?i1 inos' (R @ U)"
      using Cons.IH [OF ok1] by blast
    have "collected k (a # ls) inos inos' (((ino, l) # R) @ U)"
      using collected_Cons [OF Cons.prems f(1,2) c(2)] f(3) a by simp
    then show ?thesis using c(1) g a by (auto simp: collect_Cons)
  next
    case w
    note f = found_waiting [OF ok w]
    let ?i1 = "inos(ino := dropW i (inos ino))"
    have ok1: "\<forall>n. inode_ok k (?i1 n)" using Cons.prems without_lock_ok [OF f(1) ok] by simp
    obtain inos' R U where c: "collect ls ?i1 r (u @ [(ino, l)]) = (inos', r @ R, (u @ [(ino, l)]) @ U)"
        "collected k ls ?i1 inos' (R @ U)"
      using Cons.IH [OF ok1] by blast
    have "collected k (a # ls) inos inos' ((ino, l) # R @ U)"
      using collected_Cons [OF Cons.prems f(1,2) c(2)] f(3) a by simp
    then have "collected k (a # ls) inos inos' (R @ (ino, l) # U)"
      by (rule collected_perm [rotated]) simp
    moreover have "collect (a # ls) inos r u = (inos', r @ R, u @ (ino, l) # U)"
      using c(1) w a by (simp add: collect_Cons)
    ultimately show ?thesis by blast
  next
    case n
    obtain inos' R U where c: "collect ls inos r u = (inos', r @ R, u @ U)"
        "collected k ls inos inos' (R @ U)"
      using Cons.IH [OF Cons.prems] by blast
    have no: "\<forall>l \<in> set (ino_locks k (inos ino)). kkey k l \<noteq> i"
      using n by (simp add: ino_locks_split find_None_all ball_Un)
    have "set (ino_locks k (inos' ino)) \<subseteq> set (ino_locks k (inos ino))"
      using c(2) unfolding collected_def by (metis mset_subset_eq_add_left set_mset_mono set_mset_mset)
    then have "collected k (a # ls) inos inos' (R @ U)"
      using c(2) no unfolding collected_def a by auto
    then show ?thesis using c(1) n a by (auto simp: collect_Cons)
  qed
qed

end

context lock_table
begin

lemma nil_locks [simp]: "dom_locks k (allocate_domain v) = []"
  by (simp add: dom_locks_def)

lemma nil_ok [simp]: "dom_ok k (allocate_domain v)" "dom_justified k (allocate_domain v)"
  by (simp_all add: dom_ok_def dom_justified_def dom_abs_def exclusion_def)

lemma grant_locks: "mset (map (kcore k) (dom_locks k (fst (grant now d)))) = mset (map (kcore k) (dom_locks k d))"
  unfolding dom_abs_mset grant_refines by (rule grant_mset)

lemma keys_of_cores: "map (kkey k) ls = map (kkey k) (map (kcore k) ls)"
  by simp

lemma grant_keys: "mset (map (kkey k) (dom_locks k (fst (grant now d)))) = mset (map (kkey k) (dom_locks k d))"
  unfolding keys_of_cores [of "dom_locks k _"]
  by (simp only: mset_map [of "kkey k"] grant_locks)

lemma grant_vols:
  assumes "\<forall>l \<in> set (dom_locks k d). kvol k l = v" "l \<in> set (dom_locks k (fst (grant now d)))"
  shows "kvol k l = v"
proof -
  have "kcore k l \<in> kcore k ` set (dom_locks k d)"
    using mset_eq_setD [OF grant_locks [of now d]] assms(2) by (metis image_eqI list.set_map)
  then show ?thesis using assms(1) core(2) by (metis imageE)
qed

lemma grant_ok:
  assumes "dom_ok k d" "distinct (map (kkey k) (dom_locks k d))"
  shows "dom_ok k (fst (grant now d))" "dom_justified k (fst (grant now d))"
    "distinct (map (kkey k) (dom_locks k (fst (grant now d))))"
proof -
  show "dom_justified k (fst (grant now d))"
    unfolding dom_justified_def grant_refines by (rule grant_justified)
  show "distinct (map (kkey k) (dom_locks k (fst (grant now d))))"
    using assms(2) mset_eq_imp_distinct_iff [OF grant_keys] by blast
  have "exclusion (kconf k) (ksame k) (dom_abs k (fst (grant now d)))"
    unfolding grant_refines using assms(1) by (intro grant_exclusion) (simp add: dom_ok_def)
  moreover have "\<forall>l \<in> set (dom_locks k (fst (grant now d))). kref k l = 1"
    using assms by (intro grant_refs) (auto simp: dom_ok_def)
  moreover have "\<forall>l \<in> set (dom_locks k (fst (grant now d))). kvol k l = domain d"
    using assms(1) grant_vols [of d "domain d"] by (auto simp: dom_ok_def)
  ultimately show "dom_ok k (fst (grant now d))" by (auto simp: dom_ok_def grant_domain)
qed

lemma inode_dom_distinct:
  assumes "inode_ok k pin" "get_domain (dom_list pin) v = (dm, doms)"
  shows "dom_ok k dm" "distinct (map (kkey k) (dom_locks k dm))" "domain dm = v"
    "set (dom_locks k dm) \<subseteq> set (ino_locks k pin)"
proof -
  show v: "domain dm = v" using get_domain_name [of "dom_list pin" v] assms(2) by simp
  consider "dm \<in> set (dom_list pin)" | "dm = allocate_domain v"
    using assms(2) by (auto simp: get_domain_def split: option.splits dest: find_Some_set)
  then show "dom_ok k dm" "distinct (map (kkey k) (dom_locks k dm))"
    "set (dom_locks k dm) \<subseteq> set (ino_locks k pin)"
    using assms(1)
    by (cases; auto simp: inode_ok_def dom_ok_def dom_abs_def exclusion_def ino_locks_def map_concat
        distinct_concat_iff)+
qed

end

context lock_table
begin

lemma release_one:
  assumes ok: "\<forall>n. inode_ok k (inos n)" and get: "get_domain (dom_list (inos ino)) (kvol k l) = (dm, doms)"
  shows "given_back k inos (inos(ino := \<lparr> dom_list = put_domain doms (fst (grant now dm)),
     inode_refs = inode_refs (inos ino) - 1 \<rparr>)) [(ino, l)]"
proof -
  let ?dm' = "fst (grant now dm)" and ?pin = "inos ino"
  let ?pin' = "\<lparr> dom_list = put_domain doms ?dm', inode_refs = inode_refs ?pin - 1 \<rparr>"
  note d = inode_dom_distinct [OF ok [rule_format] get]
  note g = grant_ok [OF d(1,2), of now]
  have v: "domain ?dm' = kvol k l" using d(3) by (simp add: grant_domain)
  have keys: "kkey k ` set (dom_locks k ?dm') = kkey k ` set (dom_locks k dm)"
    using mset_eq_setD [OF grant_keys [of now dm]] by simp
  have "inode_ok k ?pin'"
    by (rule replace_domain_ok [OF ok [rule_format] get nil_locks v g(1,3)]) (use keys in auto)
  moreover have "mset (map (kcore k) (ino_locks k ?pin')) = mset (map (kcore k) (ino_locks k ?pin))"
    using get_put_mset [of "dom_list ?pin" "kvol k l" dm doms ?dm' "map (kcore k) \<circ> dom_locks k"]
      ok get v grant_locks [of now dm]
    by (simp add: inode_ok_def ino_locks_def map_concat)
  moreover have "justified_but k (inos(ino := ?pin')) (P - doms_of k [(ino, l)])" if "justified_but k inos P" for P
  proof -
    have "\<forall>d \<in> set (put_domain doms ?dm'). (ino, domain d) \<notin> P - doms_of k [(ino, l)] \<longrightarrow> dom_justified k d"
      using get_put_all [of "dom_list ?pin" "kvol k l" dm doms
          "\<lambda>d. (ino, domain d) \<notin> P - doms_of k [(ino, l)] \<longrightarrow> dom_justified k d" ?dm']
        get g(2) v that by (simp add: justified_but_def doms_of_def)
    then show ?thesis using that by (auto simp: justified_but_def doms_of_def)
  qed
  ultimately show ?thesis using ok by (simp add: given_back_def)
qed

lemma release_given_back:
  "\<forall>n. inode_ok k (inos n) \<Longrightarrow> given_back k inos (fst (release now Q inos evs)) Q"
proof (induction Q arbitrary: inos evs)
  case Nil
  then show ?case by (simp add: release_Nil given_back_def doms_of_def)
next
  case (Cons a Q)
  obtain ino l where a: "a = (ino, l)" by (cases a)
  obtain dm doms where get: "get_domain (dom_list (inos ino)) (kvol k l) = (dm, doms)" by fastforce
  let ?pin' = "\<lparr> dom_list = put_domain doms (fst (grant now dm)), inode_refs = inode_refs (inos ino) - 1 \<rparr>"
  have one: "given_back k inos (inos(ino := ?pin')) [(ino, l)]" by (rule release_one [OF Cons.prems get])
  then have "\<forall>n. inode_ok k ((inos(ino := ?pin')) n)" by (simp add: given_back_def)
  from given_back_Cons [OF one Cons.IH [OF this]] show ?case
    by (simp only: a release_Cons get case_prod_beta Let_def fst_conv snd_conv)
qed

text \<open>The locks \<open>Q\<close> that the lists of the client name are its locks.\<close>

lemma collected_client:
  assumes "table_ok k inos ls" "cl \<noteq> 0" "collected k (lockers_of cl ls) inos inos' Q"
  shows "mset (ino_locks k (inos' ino)) = filter_mset (\<lambda>l. kclient k l \<noteq> cl) (mset (ino_locks k (inos ino)))"
proof -
  let ?all = "ino_locks k (inos ino)"
  have lk: "(cl, ino, i) \<in> set ls \<longleftrightarrow> (\<exists>l \<in> set ?all. kclient k l = cl \<and> kkey k l = i)" for i
    using assms(1,2) unfolding table_ok_def lockers_ok_def by blast
  have of: "(ino, i) \<in> set (lockers_of cl ls) \<longleftrightarrow> (cl, ino, i) \<in> set ls" for i
    by (force simp: lockers_of_def)
  have m: "mset ?all = mset (ino_locks k (inos' ino)) + mset (locks_at ino Q)"
    and out: "\<forall>l \<in> set (ino_locks k (inos' ino)). (ino, kkey k l) \<notin> set (lockers_of cl ls)"
    and inn: "\<forall>l \<in> set (locks_at ino Q). (ino, kkey k l) \<in> set (lockers_of cl ls)"
    using assms(3) unfolding collected_def by blast+
  have sub: "set (ino_locks k (inos' ino)) \<subseteq> set ?all" "set (locks_at ino Q) \<subseteq> set ?all"
    using arg_cong [OF m, of set_mset] by auto
  have uniq: "inj_on (kkey k) (set ?all)"
    using assms(1) by (simp add: table_ok_def inode_ok_def distinct_map)
  have "kclient k l \<noteq> cl" if "l \<in> set (ino_locks k (inos' ino))" for l
    using that out sub(1) lk of by blast
  moreover have "kclient k l = cl" if "l \<in> set (locks_at ino Q)" for l
  proof -
    from that inn of lk obtain x where x: "x \<in> set ?all" "kclient k x = cl" "kkey k x = kkey k l" by blast
    then have "x = l" using uniq sub(2) that by (blast dest: inj_onD)
    then show ?thesis using x by simp
  qed
  ultimately have "filter_mset (\<lambda>l. kclient k l \<noteq> cl) (mset (ino_locks k (inos' ino))) = mset (ino_locks k (inos' ino))"
    "filter_mset (\<lambda>l. kclient k l \<noteq> cl) (mset (locks_at ino Q)) = {#}"
    by (auto simp: filter_mset_eq_conv simp flip: mset_filter intro!: filter_False)
  then show ?thesis by (simp only: m filter_union_mset add_0_right)
qed

end

context lock_table
begin

text \<open>The disconnect of a client: its locks are gone, the others are as before up to the grants,
  everyone who still waits has a reason, and the references on the inodes stay in step.\<close>

lemma cleanup_table:
  assumes ok: "table_ok k inos ls" and cl: "cl \<noteq> 0"
    and c: "collect (lockers_of cl ls) inos [] [] = (inos1, R, U)"
  shows "table_ok k (fst (release now (R @ U) inos1 evs)) (filter (\<lambda>(c, ino, i). c \<noteq> cl) ls)"
    and "mset (map (kcore k) (ino_locks k (fst (release now (R @ U) inos1 evs) ino))) =
      filter_mset (\<lambda>l. kclient k l \<noteq> cl) (mset (map (kcore k) (ino_locks k (inos ino))))"
    and "ref_balance k (fst (release now (R @ U) inos1 evs) ino) = ref_balance k (inos ino)"
proof -
  let ?inos2 = "fst (release now (R @ U) inos1 evs)"
  have iok: "\<forall>ino. inode_ok k (inos ino)" using ok by (simp add: table_ok_def)
  have col: "collected k (lockers_of cl ls) inos inos1 (R @ U)"
    using collect_collected [OF iok, of "lockers_of cl ls" "[]" "[]"] c by auto
  have iok1: "\<forall>ino. inode_ok k (inos1 ino)" using col by (simp add: collected_def)
  have rel: "given_back k inos1 ?inos2 (R @ U)" by (rule release_given_back [OF iok1])
  have kept: "mset (map (kcore k) (ino_locks k (?inos2 n))) =
      filter_mset (\<lambda>l. kclient k l \<noteq> cl) (mset (map (kcore k) (ino_locks k (inos n))))" for n
  proof -
    have "mset (map (kcore k) (ino_locks k (?inos2 n))) = image_mset (kcore k) (mset (ino_locks k (inos1 n)))"
      using rel by (simp add: given_back_def)
    also have "\<dots> = image_mset (kcore k) (filter_mset (\<lambda>l. kclient k l \<noteq> cl) (mset (ino_locks k (inos n))))"
      by (simp only: collected_client [OF ok cl col])
    finally show ?thesis by (simp add: filter_mset_image_mset)
  qed
  then show "mset (map (kcore k) (ino_locks k (?inos2 ino))) =
      filter_mset (\<lambda>l. kclient k l \<noteq> cl) (mset (map (kcore k) (ino_locks k (inos ino))))" .
  have "justified_but k inos {}" using ok by (simp add: table_ok_def justified_but_def)
  then have "justified_but k ?inos2 ({} \<union> doms_of k (R @ U) - doms_of k (R @ U))"
    using col rel unfolding collected_def given_back_def by blast
  then have just: "\<forall>n. \<forall>d \<in> set (dom_list (?inos2 n)). dom_justified k d"
    by (simp add: justified_but_def)
  have "lockers_ok k n (?inos2 n) (filter (\<lambda>(c, ino, i). c \<noteq> cl) ls)" for n
  proof -
    have cores: "kcore k ` set (ino_locks k (?inos2 n)) =
        {l \<in> kcore k ` set (ino_locks k (inos n)). kclient k l \<noteq> cl}"
      using arg_cong [OF kept [of n], of set_mset] by auto
    have ex: "(\<exists>l \<in> S. kclient k l = c \<and> kkey k l = i) \<longleftrightarrow> (\<exists>l \<in> kcore k ` S. kclient k l = c \<and> kkey k l = i)"
      for S c i by auto
    have "lockers_ok k n (inos n) ls" using ok by (simp add: table_ok_def)
    then show ?thesis
      unfolding lockers_ok_def ex [of "set (ino_locks k (?inos2 n))"] ex [of "set (ino_locks k (inos n))"] cores
      by auto
  qed
  moreover have "\<forall>n. inode_ok k (?inos2 n)" using rel by (simp add: given_back_def)
  ultimately show "table_ok k ?inos2 (filter (\<lambda>(c, ino, i). c \<noteq> cl) ls)"
    using just by (auto simp: table_ok_def)
  have "length (ino_locks k (?inos2 ino)) = length (ino_locks k (inos1 ino))"
    using rel unfolding given_back_def by (metis length_map size_mset)
  moreover have "length (ino_locks k (inos ino)) =
      length (ino_locks k (inos1 ino)) + length (locks_at ino (R @ U))"
    using col unfolding collected_def by (metis size_mset size_union)
  moreover have "inode_refs (?inos2 ino) = inode_refs (inos1 ino) - int (length (locks_at ino (R @ U)))"
    "inode_refs (inos1 ino) = inode_refs (inos ino)"
    using col rel unfolding collected_def given_back_def by blast+
  ultimately show "ref_balance k (?inos2 ino) = ref_balance k (inos ino)"
    by (simp add: ref_balance_def)
qed

end

section \<open>One domain at a time\<close>

text \<open>A handler works on one domain of one inode.  \<open>Oth\<close> are the clients and addresses of the locks
  in the other domains of the inode, \<open>ls0\<close> the client lists it started with.\<close>

definition sess_pre :: "'l lock_kind \<Rightarrow> nat \<Rightarrow> (nat \<times> nat) set \<Rightarrow> locker list \<Rightarrow> pl_dom \<Rightarrow> locker list \<Rightarrow> bool" where
  "sess_pre k ino Oth ls0 d ls \<longleftrightarrow>
     dom_ok k d \<and> distinct (map (kkey k) (dom_locks k d)) \<and>
     (\<forall>l \<in> set (dom_locks k d). kkey k l \<notin> snd ` Oth) \<and>
     (\<forall>c i. (c, ino, i) \<in> set ls \<longleftrightarrow>
        c \<noteq> 0 \<and> ((c, i) \<in> Oth \<or> (\<exists>l \<in> set (dom_locks k d). kclient k l = c \<and> kkey k l = i))) \<and>
     (\<forall>c n i. n \<noteq> ino \<longrightarrow> (c, n, i) \<in> set ls \<longleftrightarrow> (c, n, i) \<in> set ls0)"

definition sess_ok :: "'l lock_kind \<Rightarrow> nat \<Rightarrow> (nat \<times> nat) set \<Rightarrow> locker list \<Rightarrow> pl_dom \<Rightarrow> locker list \<Rightarrow> bool" where
  "sess_ok k ino Oth ls0 d ls \<longleftrightarrow> sess_pre k ino Oth ls0 d ls \<and> dom_justified k d"

definition other_locks :: "'l lock_kind \<Rightarrow> pl_dom list \<Rightarrow> string \<Rightarrow> (nat \<times> nat) set" where
  "other_locks k doms v =
     {(kclient k l, kkey k l) | d l. d \<in> set doms \<and> domain d \<noteq> v \<and> l \<in> set (dom_locks k d)}"

lemma sess_preD:
  assumes "sess_pre k ino Oth ls0 d ls"
  shows "dom_ok k d" "distinct (map (kkey k) (dom_locks k d))"
    "\<And>l. l \<in> set (dom_locks k d) \<Longrightarrow> kkey k l \<notin> snd ` Oth"
    "\<And>c i. (c, ino, i) \<in> set ls \<longleftrightarrow>
        c \<noteq> 0 \<and> ((c, i) \<in> Oth \<or> (\<exists>l \<in> set (dom_locks k d). kclient k l = c \<and> kkey k l = i))"
    "\<And>c n i. n \<noteq> ino \<Longrightarrow> (c, n, i) \<in> set ls \<longleftrightarrow> (c, n, i) \<in> set ls0"
  using assms unfolding sess_pre_def by blast+

lemma sess_ok_cong: "set ls = set ls' \<Longrightarrow> sess_ok k ino Oth ls0 d ls = sess_ok k ino Oth ls0 d ls'"
  by (simp add: sess_ok_def sess_pre_def)

text \<open>Locks leave the domain and the client lists together.\<close>

lemma sess_pre_remove:
  assumes s: "sess_pre k ino Oth ls0 d ls" and d': "domain d' = domain d"
    and G: "kG k d' = filter P (kG k d)" and W: "kW k d' = filter Q (kW k d)"
    and out: "set out = {kkey k l | l. l \<in> set (dom_locks k d) \<and> l \<notin> set (dom_locks k d')}"
  shows "sess_pre k ino Oth ls0 d' (del_lockers ino out ls)"
proof -
  note p = sess_preD [OF s]
  have sub: "set (dom_locks k d') \<subseteq> set (dom_locks k d)" using G W by (auto simp: dom_locks_def)
  have uniq: "x = y" if "x \<in> set (dom_locks k d)" "y \<in> set (dom_locks k d)" "kkey k x = kkey k y" for x y
    using that p(2) by (auto simp: distinct_map dest: inj_onD)
  have "distinct (map (kkey k) (dom_locks k d'))"
    using p(2) by (auto simp: dom_locks_def G W distinct_map_filter)
  moreover have "dom_ok k d'"
    using p(1) d' sub by (auto simp: dom_ok_def dom_abs_def exclusion_def G)
  moreover have "(c, ino, i) \<in> set (del_lockers ino out ls) \<longleftrightarrow>
      c \<noteq> 0 \<and> ((c, i) \<in> Oth \<or> (\<exists>l \<in> set (dom_locks k d'). kclient k l = c \<and> kkey k l = i))" for c i
  proof -
    have del: "(c, ino, i) \<in> set (del_lockers ino out ls) \<longleftrightarrow> (c, ino, i) \<in> set ls \<and> i \<notin> set out"
      by (auto simp: del_lockers_def)
    have o: "i \<notin> set out" if "(c, i) \<in> Oth"
    proof
      assume "i \<in> set out"
      then obtain l where "l \<in> set (dom_locks k d)" "kkey k l = i" unfolding out by blast
      with p(3) [of l] that show False by force
    qed
    have "i \<notin> set out \<longleftrightarrow> l \<in> set (dom_locks k d')" if "l \<in> set (dom_locks k d)" "kkey k l = i" for l
      unfolding out using that uniq by blast
    with o sub show ?thesis unfolding del p(4) [of c i] by blast
  qed
  moreover have "(c, n, i) \<in> set (del_lockers ino out ls) \<longleftrightarrow> (c, n, i) \<in> set ls0" if "n \<noteq> ino" for c n i
    using p(5) [OF that, of c i] that by (auto simp: del_lockers_def)
  ultimately show ?thesis using p(3) sub unfolding sess_pre_def by blast
qed

context lock_table
begin

lemma core_ex: "(\<exists>x \<in> S. Q (kclient k x) (kkey k x) (kvol k x)) \<longleftrightarrow>
    (\<exists>x \<in> kcore k ` S. Q (kclient k x) (kkey k x) (kvol k x))"
  by auto

lemma sess_grant:
  assumes "sess_pre k ino Oth ls0 d ls"
  shows "sess_ok k ino Oth ls0 (fst (grant now d)) ls"
proof -
  note p = sess_preD [OF assms]
  note g = grant_ok [OF p(1,2), of now]
  have cores: "kcore k ` set (dom_locks k (fst (grant now d))) = kcore k ` set (dom_locks k d)"
    using mset_eq_setD [OF grant_locks [of now d]] by simp
  have same: "(\<exists>l \<in> set (dom_locks k (fst (grant now d))). Q (kclient k l) (kkey k l) (kvol k l)) \<longleftrightarrow>
      (\<exists>l \<in> set (dom_locks k d). Q (kclient k l) (kkey k l) (kvol k l))" for Q
    unfolding core_ex [of "set (dom_locks k (fst (grant now d)))" Q] core_ex [of "set (dom_locks k d)" Q] cores ..
  have "\<forall>l \<in> set (dom_locks k (fst (grant now d))). kkey k l \<notin> snd ` Oth"
    using same [of "\<lambda>c i v. i \<in> snd ` Oth"] p(3) by blast
  moreover have "(c, ino, i) \<in> set ls \<longleftrightarrow> c \<noteq> 0 \<and>
      ((c, i) \<in> Oth \<or> (\<exists>l \<in> set (dom_locks k (fst (grant now d))). kclient k l = c \<and> kkey k l = i))" for c i
    unfolding p(4) [of c i] using same [of "\<lambda>c' i' v. c' = c \<and> i' = i"] by blast
  ultimately show ?thesis using g p(5) unfolding sess_ok_def sess_pre_def by blast
qed

lemma sess_lock:
  assumes s: "sess_ok k ino Oth ls0 d ls" and d': "domain d' = domain d" "kvol k l = domain d"
    and abs: "dom_abs k d' = spec_lock (kconf k) (ksame k) (kcore k l) (dom_abs k d)"
    and refs: "\<forall>x \<in> set (dom_locks k d'). kref k x = 1"
    and fresh: "\<forall>x \<in> set (dom_locks k d). kkey k x \<noteq> kkey k l" "kkey k l \<notin> snd ` Oth"
  shows "sess_ok k ino Oth ls0 d'
     (if kclient k l \<noteq> 0 then ls @ [(kclient k l, ino, kkey k l)] else ls)"
proof -
  have m: "mset (map (kcore k) (dom_locks k d')) = add_mset (kcore k l) (mset (map (kcore k) (dom_locks k d)))"
    unfolding dom_abs_mset abs by (rule lock_mset)
  have cores: "kcore k ` set (dom_locks k d') = insert (kcore k l) (kcore k ` set (dom_locks k d))"
    using arg_cong [OF m, of set_mset] by simp
  have new: "(\<exists>x \<in> set (dom_locks k d'). Q (kclient k x) (kkey k x) (kvol k x)) \<longleftrightarrow>
      Q (kclient k l) (kkey k l) (kvol k l) \<or> (\<exists>x \<in> set (dom_locks k d). Q (kclient k x) (kkey k x) (kvol k x))" for Q
    unfolding core_ex [of "set (dom_locks k d')" Q] core_ex [of "set (dom_locks k d)" Q] cores
    by (simp only: bex_simps core)
  have pre: "sess_pre k ino Oth ls0 d ls" and j: "dom_justified k d" using s by (auto simp: sess_ok_def)
  note p = sess_preD [OF pre]
  have "distinct (map (kkey k) (dom_locks k d'))"
  proof -
    have "mset (map (kkey k) (dom_locks k d')) = mset (map (kkey k) (l # dom_locks k d))"
      using arg_cong [OF m, of "image_mset (kkey k)"] by (simp add: image_mset.compositionality comp_def)
    then show ?thesis using mset_eq_imp_distinct_iff p(2) fresh(1) by fastforce
  qed
  moreover have "dom_ok k d'"
    using p(1) d' refs lock_exclusion [of "dom_abs k d" "kcore k l"] new [of "\<lambda>c i v. v \<noteq> domain d"]
    by (auto simp: dom_ok_def abs)
  moreover have "dom_justified k d'"
    using j lock_justified by (simp add: dom_justified_def abs)
  moreover have "\<forall>x \<in> set (dom_locks k d'). kkey k x \<notin> snd ` Oth"
    using new [of "\<lambda>c i v. i \<in> snd ` Oth"] p(3) fresh(2) by blast
  moreover have "(c, ino, i) \<in> set (if kclient k l \<noteq> 0 then ls @ [(kclient k l, ino, kkey k l)] else ls) \<longleftrightarrow>
      c \<noteq> 0 \<and> ((c, i) \<in> Oth \<or> (\<exists>x \<in> set (dom_locks k d'). kclient k x = c \<and> kkey k x = i))" for c i
  proof -
    have "(c, ino, i) \<in> set (if kclient k l \<noteq> 0 then ls @ [(kclient k l, ino, kkey k l)] else ls) \<longleftrightarrow>
        (c, ino, i) \<in> set ls \<or> c \<noteq> 0 \<and> kclient k l = c \<and> kkey k l = i"
      by auto
    then show ?thesis
      unfolding p(4) [of c i] new [of "\<lambda>c' i' v. c' = c \<and> i' = i"] by blast
  qed
  moreover have "(c, n, i) \<in> set (if kclient k l \<noteq> 0 then ls @ [(kclient k l, ino, kkey k l)] else ls) \<longleftrightarrow>
      (c, n, i) \<in> set ls0" if "n \<noteq> ino" for c n i
    using p(5) [OF that, of c i] that by auto
  ultimately show ?thesis unfolding sess_ok_def sess_pre_def by blast
qed

end

context lock_table
begin

lemma locks_by_domain:
  assumes "inode_ok k pin" "get_domain (dom_list pin) v = (dm, doms)" "domain d' = v"
  shows "ino_locks k \<lparr> dom_list = put_domain doms d', inode_refs = n \<rparr> =
      concat (map (dom_locks k) (put_domain doms d'))"
    and "set (concat (map (dom_locks k) (put_domain doms d'))) =
      set (dom_locks k d') \<union> {l. \<exists>d \<in> set doms. domain d \<noteq> v \<and> l \<in> set (dom_locks k d)}"
proof -
  show "ino_locks k \<lparr> dom_list = put_domain doms d', inode_refs = n \<rparr> = concat (map (dom_locks k) (put_domain doms d'))"
    by (simp add: ino_locks_def)
  have "dm \<in> set doms" "domain dm = v"
    using get_domain_mem [of "dom_list pin" v] get_domain_name [of "dom_list pin" v] assms(2) by auto
  then show "set (concat (map (dom_locks k) (put_domain doms d'))) =
      set (dom_locks k d') \<union> {l. \<exists>d \<in> set doms. domain d \<noteq> v \<and> l \<in> set (dom_locks k d)}"
    using assms(3) by (auto simp: put_domain_def split: if_splits)
qed

lemma locks_of_inode:
  assumes "inode_ok k pin" "get_domain (dom_list pin) v = (dm, doms)"
  shows "set (ino_locks k pin) =
      set (dom_locks k dm) \<union> {l. \<exists>d \<in> set doms. domain d \<noteq> v \<and> l \<in> set (dom_locks k d)}"
proof -
  have m: "dm \<in> set doms" "domain dm = v" "distinct (map domain doms)"
    using get_domain_mem [of "dom_list pin" v] get_domain_name [of "dom_list pin" v] assms
      get_domain_distinct [of "dom_list pin" v] by (auto simp: inode_ok_def)
  have "ino_locks k pin = concat (map (dom_locks k) doms)"
    using get_domain_concat [of "dom_locks k" v "dom_list pin"] assms(2) by (simp add: ino_locks_def)
  then have "set (ino_locks k pin) = (\<Union>d \<in> set doms. set (dom_locks k d))" by simp
  moreover have "d = dm" if "d \<in> set doms" "domain d = v" for d
    using that m by (auto simp: distinct_map dest: inj_onD)
  ultimately show ?thesis using m(1,2) by blast
qed

lemma sess_open:
  assumes ok: "table_ok k inos ls" and get: "get_domain (dom_list (inos ino)) v = (dm, doms)"
  shows "sess_ok k ino (other_locks k doms v) ls dm ls"
proof -
  have iok: "inode_ok k (inos ino)" and lk: "lockers_ok k ino (inos ino) ls"
    and j: "\<forall>d \<in> set (dom_list (inos ino)). dom_justified k d"
    using ok by (auto simp: table_ok_def)
  note d = inode_dom_distinct [OF iok get] and s = locks_of_inode [OF iok get]
  have "kkey k l \<notin> snd ` other_locks k doms v" if l: "l \<in> set (dom_locks k dm)" for l
  proof
    assume "kkey k l \<in> snd ` other_locks k doms v"
    then obtain x e where x: "e \<in> set doms" "domain e \<noteq> v" "x \<in> set (dom_locks k e)" "kkey k x = kkey k l"
      by (auto simp: other_locks_def)
    have "x \<in> set (ino_locks k (inos ino))" "l \<in> set (ino_locks k (inos ino))" using x l s by auto
    then have "x = l" using iok x(4) by (auto simp: inode_ok_def distinct_map dest: inj_onD)
    moreover have "dom_ok k e"
      using get_domain_all [of "dom_list (inos ino)" "dom_ok k" v] iok get x(1) by (simp add: inode_ok_def)
    ultimately show False using x(2,3) l d(1,3) by (auto simp: dom_ok_def)
  qed
  moreover have "(c, ino, i) \<in> set ls \<longleftrightarrow>
      c \<noteq> 0 \<and> ((c, i) \<in> other_locks k doms v \<or> (\<exists>l \<in> set (dom_locks k dm). kclient k l = c \<and> kkey k l = i))" for c i
  proof -
    have "(\<exists>l \<in> set (ino_locks k (inos ino)). kclient k l = c \<and> kkey k l = i) \<longleftrightarrow>
        (c, i) \<in> other_locks k doms v \<or> (\<exists>l \<in> set (dom_locks k dm). kclient k l = c \<and> kkey k l = i)"
      unfolding s other_locks_def by blast
    then show ?thesis using lk unfolding lockers_ok_def by blast
  qed
  moreover have "dom_justified k dm"
    using j get_domain_all [of "dom_list (inos ino)" "dom_justified k" v] get get_domain_mem [of "dom_list (inos ino)" v]
    by simp
  ultimately show ?thesis using d(1,2) unfolding sess_ok_def sess_pre_def by blast
qed

lemma sess_close:
  assumes ok: "table_ok k inos ls" and get: "get_domain (dom_list (inos ino)) v = (dm, doms)"
    and d': "domain d' = v" and s: "sess_ok k ino (other_locks k doms v) ls d' ls'"
  shows "table_ok k (inos(ino := \<lparr> dom_list = put_domain doms d', inode_refs = n \<rparr>)) ls'"
proof -
  let ?pin' = "\<lparr> dom_list = put_domain doms d', inode_refs = n \<rparr>"
  have pre: "sess_pre k ino (other_locks k doms v) ls d' ls'" and j': "dom_justified k d'"
    using s by (auto simp: sess_ok_def)
  note p = sess_preD [OF pre]
  have iok: "inode_ok k (inos ino)" and j: "\<forall>d \<in> set (dom_list (inos ino)). dom_justified k d"
    using ok by (auto simp: table_ok_def)
  have new: "\<forall>l \<in> set (dom_locks k d'). kkey k l \<in> kkey k ` set (dom_locks k dm) \<or>
      kkey k l \<notin> kkey k ` set (ino_locks k (inos ino))"
  proof
    fix l
    assume l: "l \<in> set (dom_locks k d')"
    have other: "kkey k x \<noteq> kkey k l" if "d \<in> set doms" "domain d \<noteq> v" "x \<in> set (dom_locks k d)" for d x
    proof
      assume eq: "kkey k x = kkey k l"
      have "(kclient k x, kkey k x) \<in> other_locks k doms v" using that unfolding other_locks_def by blast
      then have "kkey k l \<in> snd ` other_locks k doms v" unfolding eq [symmetric] by (rule rev_image_eqI) simp
      with p(3) [OF l] show False by contradiction
    qed
    show "kkey k l \<in> kkey k ` set (dom_locks k dm) \<or> kkey k l \<notin> kkey k ` set (ino_locks k (inos ino))"
    proof (intro disjCI notI)
      assume "\<not> kkey k l \<notin> kkey k ` set (ino_locks k (inos ino))"
      then obtain x where x: "x \<in> set (ino_locks k (inos ino))" "kkey k x = kkey k l" by auto
      then have "x \<in> set (dom_locks k dm)"
        unfolding locks_of_inode [OF iok get] using other by auto
      then show "kkey k l \<in> kkey k ` set (dom_locks k dm)" using x(2) by (metis imageI)
    qed
  qed
  have "inode_ok k ?pin'" by (rule replace_domain_ok [OF iok get nil_locks d' p(1,2) new])
  moreover have "\<forall>d \<in> set (put_domain doms d'). dom_justified k d"
    using get_put_all [of "dom_list (inos ino)" v dm doms "dom_justified k" d'] get d' j j' by simp
  moreover have "lockers_ok k ino ?pin' ls'"
    unfolding lockers_ok_def locks_by_domain(1) [OF iok get d'] locks_by_domain(2) [OF iok get d'] p(4)
    unfolding other_locks_def by blast
  moreover have "lockers_ok k n' (inos n') ls'" if "n' \<noteq> ino" for n'
  proof -
    have "lockers_ok k n' (inos n') ls" using ok by (simp add: table_ok_def)
    then show ?thesis using p(5) [OF that] by (simp add: lockers_ok_def)
  qed
  ultimately show ?thesis using ok by (simp add: table_ok_def)
qed

text \<open>The references follow the number of locks in the domain.\<close>

lemma sess_balance:
  assumes iok: "inode_ok k pin" and get: "get_domain (dom_list pin) v = (dm, doms)" and d': "domain d' = v"
    and r: "r - int (length (dom_locks k d')) = inode_refs pin - int (length (dom_locks k dm))"
  shows "ref_balance k \<lparr> dom_list = put_domain doms d', inode_refs = r \<rparr> = ref_balance k pin"
proof -
  have "distinct (map domain (dom_list pin))" using iok by (simp add: inode_ok_def)
  from arg_cong [OF get_put_mset [OF this get d', of "dom_locks k", OF nil_locks], of size]
  have "length (concat (map (dom_locks k) (put_domain doms d'))) + length (dom_locks k dm) =
      length (ino_locks k pin) + length (dom_locks k d')"
    by (simp only: size_union size_mset ino_locks_def)
  then show ?thesis using r by (simp add: ref_balance_def ino_locks_def)
qed

end

end
