(* ===== verification/Inodelk.thy ===== *)
theory Inodelk
  imports Lock_Clients
begin

text \<open>
  Inode locks: \<open>xlators/features/locks/src/inodelk.c\<close> and \<open>clrlk_clear_inodelk\<close> of \<open>clear.c\<close>.

  A handler holds the mutex of the inode while it changes the lists and gives it up between the
  grant of waiting locks and their answers; the model runs a handler to its end before the next
  one starts.  The clock and the coin of \<open>pl_does_monkey_want_stuck_lock\<close> are arguments.  The
  domain operations refine the abstract ones of \<open>Lock_Domain\<close>.
\<close>

section \<open>Comparing locks\<close>

definition inodelk_type_conflict :: "pl_inode_lock \<Rightarrow> pl_inode_lock \<Rightarrow> bool" where
  "inodelk_type_conflict l1 l2 \<longleftrightarrow> il_type l2 = F_WRLCK \<or> il_type l1 = F_WRLCK"

definition inodelk_overlap :: "pl_inode_lock \<Rightarrow> pl_inode_lock \<Rightarrow> bool" where
  "inodelk_overlap l1 l2 \<longleftrightarrow> il_end l1 \<ge> il_start l2 \<and> il_end l2 \<ge> il_start l1"

definition same_inodelk_owner :: "pl_inode_lock \<Rightarrow> pl_inode_lock \<Rightarrow> bool" where
  "same_inodelk_owner l1 l2 \<longleftrightarrow>
     is_same_lkowner (il_owner l1) (il_owner l2) \<and> il_client l1 = il_client l2"

definition inodelk_conflict :: "pl_inode_lock \<Rightarrow> pl_inode_lock \<Rightarrow> bool" where
  "inodelk_conflict l1 l2 \<longleftrightarrow> inodelk_overlap l1 l2 \<and> inodelk_type_conflict l1 l2"

definition inodelks_equal :: "pl_inode_lock \<Rightarrow> pl_inode_lock \<Rightarrow> bool" where
  "inodelks_equal l1 l2 \<longleftrightarrow> il_start l1 = il_start l2 \<and> il_end l1 = il_end l2"

definition stale_inodelk :: "locks_private \<Rightarrow> int \<Rightarrow> pl_inode_lock \<Rightarrow> pl_inode_lock \<Rightarrow> bool" where
  "stale_inodelk priv now candidate requested \<longleftrightarrow>
     inodelk_conflict candidate requested \<and>
     now - il_granted_time candidate > revocation_secs priv"

section \<open>One domain\<close>

definition inodelk_grantable :: "pl_dom \<Rightarrow> pl_inode_lock \<Rightarrow> pl_inode_lock option" where
  "inodelk_grantable dm lock =
     find (\<lambda>l. inodelk_conflict lock l \<and> \<not> same_inodelk_owner lock l) (inodelk_list dm)"

definition blocked_lock_conflict :: "pl_dom \<Rightarrow> pl_inode_lock \<Rightarrow> pl_inode_lock option" where
  "blocked_lock_conflict dm lock = find (\<lambda>l. inodelk_conflict lock l) (blocked_inodelks dm)"

definition owner_has_inodelk :: "pl_dom \<Rightarrow> pl_inode_lock \<Rightarrow> bool" where
  "owner_has_inodelk dm newlock \<longleftrightarrow>
     (\<exists>l \<in> set (inodelk_list dm). same_inodelk_owner l newlock) \<or>
     (\<exists>l \<in> set (blocked_inodelks dm). same_inodelk_owner l newlock)"

text \<open>The result code, the lock after the call and the domain.\<close>

definition lock_inodelk ::
  "int \<Rightarrow> pl_inode_lock \<Rightarrow> bool \<Rightarrow> pl_dom \<Rightarrow> int \<times> pl_inode_lock \<times> pl_dom" where
  "lock_inodelk now lock can_block dm =
     (if inodelk_grantable dm lock \<noteq> None then
        if \<not> can_block then (- EAGAIN, lock, dm)
        else (- EAGAIN, lock, dm\<lparr> blocked_inodelks := blocked_inodelks dm @ [lock] \<rparr>)
      else if blocked_lock_conflict dm lock \<noteq> None \<and> \<not> owner_has_inodelk dm lock then
        if \<not> can_block then (- EAGAIN, lock, dm)
        else (- EAGAIN, lock, dm\<lparr> blocked_inodelks := blocked_inodelks dm @ [lock] \<rparr>)
      else
        let lock' = lock\<lparr> il_ref := il_ref lock + 1, il_granted_time := now \<rparr>
        in (0, lock', dm\<lparr> inodelk_list := lock' # inodelk_list dm \<rparr>))"

definition find_matching_inodelk :: "pl_inode_lock \<Rightarrow> pl_dom \<Rightarrow> pl_inode_lock option" where
  "find_matching_inodelk lock dm =
     find (\<lambda>l. inodelks_equal l lock \<and> same_inodelk_owner l lock) (inodelk_list dm)"

definition inode_unlock_lock :: "pl_inode_lock \<Rightarrow> pl_dom \<Rightarrow> pl_inode_lock option \<times> pl_dom" where
  "inode_unlock_lock lock dm =
     (case find_matching_inodelk lock dm of
        None \<Rightarrow> (None, dm)
      | Some conf \<Rightarrow>
          (Some conf, dm\<lparr> inodelk_list := filter (\<lambda>l. il_id l \<noteq> il_id conf) (inodelk_list dm) \<rparr>))"

text \<open>A change of the lock structure at an address, and the event of its last unref.\<close>

definition inodelk_set :: "nat \<Rightarrow> (pl_inode_lock \<Rightarrow> pl_inode_lock) \<Rightarrow> pl_dom \<Rightarrow> pl_dom" where
  "inodelk_set i f dm =
     dm\<lparr> inodelk_list := map (\<lambda>l. if il_id l = i then f l else l) (inodelk_list dm),
         blocked_inodelks := map (\<lambda>l. if il_id l = i then f l else l) (blocked_inodelks dm) \<rparr>"

definition pl_inodelk_unref :: "pl_inode_lock \<Rightarrow> pl_inode_lock \<times> lk_event list" where
  "pl_inodelk_unref lock =
     (lock\<lparr> il_ref := il_ref lock - 1 \<rparr>,
      if il_ref lock - 1 = 0 then [Freed_inodelk (il_id lock)] else [])"

fun grant_inode_list ::
  "int \<Rightarrow> pl_inode_lock list \<Rightarrow> pl_dom \<Rightarrow> pl_inode_lock list \<Rightarrow> pl_dom \<times> pl_inode_lock list" where
  "grant_inode_list now [] dm granted = (dm, granted)"
| "grant_inode_list now (bl # ls) dm granted =
     (let (bl_ret, bl', dm') = lock_inodelk now bl True dm
      in grant_inode_list now ls dm' (if bl_ret = 0 then bl' # granted else granted))"

definition grant_blocked_inode_locks_locked :: "int \<Rightarrow> pl_dom \<Rightarrow> pl_dom \<times> pl_inode_lock list" where
  "grant_blocked_inode_locks_locked now dm =
     grant_inode_list now (blocked_inodelks dm) (dm\<lparr> blocked_inodelks := [] \<rparr>) []"

definition grant_blocked_inode_locks :: "int \<Rightarrow> pl_dom \<Rightarrow> pl_dom \<times> lk_event list" where
  "grant_blocked_inode_locks now dm =
     (let (dm1, granted) = grant_blocked_inode_locks_locked now dm;
          dm2 = fold (\<lambda>l. inodelk_set (il_id l)
                   (\<lambda>x. fst (pl_inodelk_unref (x\<lparr> il_frame := None \<rparr>)))) granted dm1
      in (dm2, map (\<lambda>l. Unwind_inodelk (il_frame l) 0 0) granted
                 @ concat (map (\<lambda>l. snd (pl_inodelk_unref l)) granted)))"

section \<open>Clearing locks\<close>

datatype clrlk_kind = CLRLK_BLOCKED | CLRLK_GRANTED | CLRLK_ALL

text \<open>What \<open>clrlk_get_lock_range\<close> made of the options: no range to check, a range
  (\<open>l_whence\<close>, \<open>l_start\<close>, \<open>l_len\<close>), or a text that does not scan.\<close>

datatype clrlk_range = Any_range | Lock_range int int int | Bad_range

fun range_matches :: "clrlk_range \<Rightarrow> gf_flock \<Rightarrow> bool" where
  "range_matches (Lock_range whence start len) fl \<longleftrightarrow>
     l_whence fl = whence \<and> l_start fl = start \<and> l_len fl = len"
| "range_matches _ fl \<longleftrightarrow> True"

text \<open>What a handler works on: the inode, the domain, the references on the inode and the client lists.\<close>

record ilk_state =
  is_ino :: nat
  is_dom :: pl_dom
  is_refs :: int
  is_lockers :: "locker list"

definition clear_blocked_inodelks :: "clrlk_range \<Rightarrow> ilk_state \<Rightarrow> ilk_state \<times> lk_event list \<times> int" where
  "clear_blocked_inodelks r st =
     (let dm = is_dom st;
          out = filter (\<lambda>l. range_matches r (il_user_flock l)) (blocked_inodelks dm)
      in (st\<lparr> is_dom := dm\<lparr> blocked_inodelks :=
                filter (\<lambda>l. \<not> range_matches r (il_user_flock l)) (blocked_inodelks dm) \<rparr>,
              is_lockers := del_lockers (is_ino st) (map il_id out) (is_lockers st) \<rparr>,
          concat (map (\<lambda>l. Unwind_inodelk (il_frame l) (-1) EAGAIN # snd (pl_inodelk_unref l)) (rev out)),
          int (length out)))"

definition clear_granted_inodelks :: "clrlk_range \<Rightarrow> ilk_state \<Rightarrow> ilk_state \<times> lk_event list \<times> int" where
  "clear_granted_inodelks r st =
     (let dm = is_dom st;
          out = filter (\<lambda>l. range_matches r (il_user_flock l)) (inodelk_list dm)
      in (st\<lparr> is_dom := dm\<lparr> inodelk_list :=
                filter (\<lambda>l. \<not> range_matches r (il_user_flock l)) (inodelk_list dm) \<rparr>,
              is_lockers := del_lockers (is_ino st) (map il_id out) (is_lockers st) \<rparr>,
          concat (map (\<lambda>l. snd (pl_inodelk_unref l)) (rev out)),
          int (length out)))"

text \<open>\<open>clrlk_clear_inodelk\<close>: the result, the counts of blocked and granted locks it cleared, the
  state and the events.  The waiting locks are tried again on every path.\<close>

definition clrlk_clear_inodelk ::
  "int \<Rightarrow> clrlk_kind \<Rightarrow> clrlk_range \<Rightarrow> ilk_state \<Rightarrow> (int \<times> int \<times> int) \<times> ilk_state \<times> lk_event list" where
  "clrlk_clear_inodelk now kind r st =
     (let (ret, (st1, evs1, bcount), (st2, evs2, gcount)) =
            (if r = Bad_range then (-1, (st, [], 0), (st, [], 0))
             else
               let (st1, evs1, bcount) =
                     (if kind = CLRLK_GRANTED then (st, [], 0) else clear_blocked_inodelks r st)
               in (0, (st1, evs1, bcount),
                   if kind = CLRLK_BLOCKED then (st1, [], 0) else clear_granted_inodelks r st1));
          (dm, evs3) = grant_blocked_inode_locks now (is_dom st2)
      in ((ret, bcount, gcount), st2\<lparr> is_dom := dm \<rparr>, evs1 @ evs2 @ evs3))"

definition inodelk_prune_stale ::
  "locks_private \<Rightarrow> int \<Rightarrow> pl_inode_lock \<Rightarrow> ilk_state \<Rightarrow> ilk_state \<times> lk_event list" where
  "inodelk_prune_stale priv now lock st =
     (let dm = is_dom st;
          kind = (if revocation_clear_all priv then CLRLK_ALL else CLRLK_GRANTED);
          revoke = (inodelk_list dm \<noteq> [] \<and>
            ((\<exists>l \<in> set (inodelk_list dm). stale_inodelk priv now l lock) \<or>
             revocation_max_blocked priv \<noteq> 0 \<and>
               max_blocked_hit (revocation_max_blocked priv) (blocked_inodelks dm)))
      in if revoke then snd (clrlk_clear_inodelk now kind Any_range st) else (st, []))"

section \<open>Requests\<close>

text \<open>\<open>pl_inode_setlk\<close> on the domain of the request: \<open>pl_inode_setlk_locked\<close> is the part from the
  critical section on, \<open>ctx\<close> tells whether the client has a context, \<open>monkey\<close> is the coin.\<close>

definition pl_inode_setlk_locked ::
  "int \<Rightarrow> bool \<Rightarrow> pl_inode_lock \<Rightarrow> bool \<Rightarrow> ilk_state \<Rightarrow> int \<times> ilk_state \<times> lk_event list" where
  "pl_inode_setlk_locked now ctx lock can_block st =
     (if il_type lock \<noteq> F_UNLCK then
        let (ret, lock', dm) = lock_inodelk now lock can_block (is_dom st);
            lockers = (if ctx \<and> (ret = 0 \<or> can_block)
                       then is_lockers st @ [(il_client lock, is_ino st, il_id lock)]
                       else is_lockers st);
            dm' = (if ret = 0
                   then inodelk_set (il_id lock)
                          (\<lambda>x. fst (pl_inodelk_unref (x\<lparr> il_frame := None \<rparr>))) dm
                   else dm);
            freed = (if ret = - EAGAIN \<and> can_block then [] else snd (pl_inodelk_unref lock'));
            refs = (if ret = - EAGAIN \<and> \<not> can_block then is_refs st - 1 else is_refs st)
        in (ret, st\<lparr> is_dom := dm', is_refs := refs, is_lockers := lockers \<rparr>, freed)
      else
        case inode_unlock_lock lock (is_dom st) of
          (None, dm) \<Rightarrow>
            (- EINVAL, st\<lparr> is_refs := is_refs st - 1 \<rparr>, snd (pl_inodelk_unref lock))
        | (Some retlock, dm) \<Rightarrow>
            let (dm', evs) = grant_blocked_inode_locks now dm
            in (0, st\<lparr> is_dom := dm', is_refs := is_refs st - 1 - 1,
                       is_lockers := del_lockers (is_ino st) [il_id retlock] (is_lockers st) \<rparr>,
                snd (pl_inodelk_unref retlock) @ snd (pl_inodelk_unref lock) @ evs))"

definition pl_inode_setlk ::
  "locks_private \<Rightarrow> int \<Rightarrow> bool \<Rightarrow> bool \<Rightarrow> pl_inode_lock \<Rightarrow> bool \<Rightarrow> ilk_state \<Rightarrow>
     int \<times> ilk_state \<times> lk_event list" where
  "pl_inode_setlk priv now monkey ctx lock can_block st =
     (let st0 = st\<lparr> is_refs := is_refs st + 1 \<rparr> in
      if revocation_secs priv \<noteq> 0 \<and> il_type lock = F_UNLCK \<and> monkey_unlocking priv \<and> monkey then
        (0, st0\<lparr> is_refs := is_refs st0 - 1 \<rparr>, snd (pl_inodelk_unref lock))
      else
        let (st1, evs1) =
              (if revocation_secs priv \<noteq> 0 \<and> il_type lock \<noteq> F_UNLCK
               then inodelk_prune_stale priv now lock st0 else (st0, []));
            (ret, st2, evs2) = pl_inode_setlk_locked now ctx lock can_block st1
        in (ret, st2, evs1 @ evs2))"

definition new_inode_lock ::
  "nat \<Rightarrow> gf_flock \<Rightarrow> nat \<Rightarrow> int \<Rightarrow> gf_lkowner \<Rightarrow> nat \<Rightarrow> string \<Rightarrow> string option \<Rightarrow> pl_inode_lock" where
  "new_inode_lock addr flock cl pid own fr volume conn_id =
     \<lparr> il_id = addr, il_ref = 1, il_type = l_type flock, il_start = l_start flock,
       il_end = (if l_len flock = 0 then LLONG_MAX else s64 (l_start flock + l_len flock - 1)),
       il_volume = volume,
       il_user_flock = \<lparr> l_type = F_RDLCK, l_whence = 0, l_start = 0, l_len = 0, l_pid = 0,
                         l_owner = \<lparr> lk_len = 0, lk_data = [] \<rparr> \<rparr>,
       il_frame = Some fr, il_granted_time = 0, il_client = cl, il_owner = own,
       il_client_pid = pid, il_connection_id = conn_id \<rparr>"

definition strrchr :: "string \<Rightarrow> char \<Rightarrow> string option" where
  "strrchr s c = (if c \<in> set s then Some (c # rev (takeWhile (\<lambda>x. x \<noteq> c) (rev s))) else None)"

definition pl_convert_volume :: "string \<Rightarrow> string" where
  "pl_convert_volume volume =
     (if strrchr volume (CHR '':'') = Some '':metadata'' then volume else volume @ '':metadata'')"

definition pl_convert_volume_for_special_range :: "gf_flock \<Rightarrow> string \<Rightarrow> string" where
  "pl_convert_volume_for_special_range flock volume =
     (if l_start flock = LLONG_MAX - 1 \<and> l_len flock = 0 then pl_convert_volume volume else volume)"

datatype lk_cmd = F_GETLK | F_SETLK | F_SETLKW

text \<open>\<open>pl_common_inodelk\<close>: the call \<open>fr\<close> of a client (0 for none) on an inode.  A blocked lock is
  answered later, when it is granted or cleared.\<close>

definition pl_common_inodelk ::
  "locks_private \<Rightarrow> int \<Rightarrow> bool \<Rightarrow> nat \<Rightarrow> nat \<Rightarrow> nat \<Rightarrow> int \<Rightarrow> gf_lkowner \<Rightarrow> string option \<Rightarrow>
     string \<Rightarrow> nat \<Rightarrow> lk_cmd \<Rightarrow> gf_flock \<Rightarrow> locks_world \<Rightarrow> locks_world \<times> lk_event list" where
  "pl_common_inodelk priv now monkey addr fr cl pid own conn_id volume ino cmd flock w =
     (if l_start flock < 0 \<or> l_len flock < 0 then (w, [Unwind_inodelk (Some fr) (-1) EINVAL])
      else
        let volume' = pl_convert_volume_for_special_range flock volume;
            pinode = inodes w ino;
            (dm, doms) = get_domain (dom_list pinode) volume';
            reqlock = new_inode_lock addr flock cl pid own fr (domain dm) conn_id
        in if cmd = F_GETLK then
             (w\<lparr> inodes := (inodes w)(ino := pinode\<lparr> dom_list := doms \<rparr>) \<rparr>,
              [Unwind_inodelk (Some fr) (-1) ENOTSUP])
           else
             let can_block = (cmd = F_SETLKW);
                 (ret, st, evs) = pl_inode_setlk priv now monkey (cl \<noteq> 0)
                   (reqlock\<lparr> il_user_flock := flock \<rparr>) can_block
                   \<lparr> is_ino = ino, is_dom = dm, is_refs = inode_refs pinode, is_lockers = inodelk_lockers w \<rparr>;
                 w' = w\<lparr> inodes := (inodes w)(ino := \<lparr> dom_list = put_domain doms (is_dom st),
                                                       inode_refs = is_refs st \<rparr>),
                         inodelk_lockers := is_lockers st \<rparr>
             in (w', evs @
                  (if ret < 0 then
                     if can_block \<and> l_type flock \<noteq> F_UNLCK then []
                     else [Unwind_inodelk (Some fr) (-1) (- ret)]
                   else [Unwind_inodelk (Some fr) 0 0])))"

section \<open>Disconnect of a client\<close>

text \<open>Taking the lock at an address off the granted or the blocked list of its inode.\<close>

definition granted_inodelk_at :: "nat \<Rightarrow> dom_inode \<Rightarrow> pl_inode_lock option" where
  "granted_inodelk_at i pin = find (\<lambda>l. il_id l = i) (concat (map inodelk_list (dom_list pin)))"

definition blocked_inodelk_at :: "nat \<Rightarrow> dom_inode \<Rightarrow> pl_inode_lock option" where
  "blocked_inodelk_at i pin = find (\<lambda>l. il_id l = i) (concat (map blocked_inodelks (dom_list pin)))"

definition drop_granted_inodelk :: "nat \<Rightarrow> dom_inode \<Rightarrow> dom_inode" where
  "drop_granted_inodelk i pin =
     pin\<lparr> dom_list := map (\<lambda>d. d\<lparr> inodelk_list := filter (\<lambda>l. il_id l \<noteq> i) (inodelk_list d) \<rparr>)
            (dom_list pin) \<rparr>"

definition drop_blocked_inodelk :: "nat \<Rightarrow> dom_inode \<Rightarrow> dom_inode" where
  "drop_blocked_inodelk i pin =
     pin\<lparr> dom_list := map (\<lambda>d. d\<lparr> blocked_inodelks := filter (\<lambda>l. il_id l \<noteq> i) (blocked_inodelks d) \<rparr>)
            (dom_list pin) \<rparr>"

text \<open>The first loop of \<open>pl_inodelk_client_cleanup\<close>: the inodes, the released locks and the locks to
  be answered with EAGAIN.\<close>

fun inodelk_cleanup_collect ::
  "(nat \<times> nat) list \<Rightarrow> (nat \<Rightarrow> dom_inode) \<Rightarrow> (nat \<times> pl_inode_lock) list \<Rightarrow> (nat \<times> pl_inode_lock) list \<Rightarrow>
     (nat \<Rightarrow> dom_inode) \<times> (nat \<times> pl_inode_lock) list \<times> (nat \<times> pl_inode_lock) list" where
  "inodelk_cleanup_collect [] inos released unwind = (inos, released, unwind)"
| "inodelk_cleanup_collect ((ino, i) # ls) inos released unwind =
     (case granted_inodelk_at i (inos ino) of
        Some l \<Rightarrow> inodelk_cleanup_collect ls (inos(ino := drop_granted_inodelk i (inos ino)))
                    (released @ [(ino, l)]) unwind
      | None \<Rightarrow>
         (case blocked_inodelk_at i (inos ino) of
            Some l \<Rightarrow> inodelk_cleanup_collect ls (inos(ino := drop_blocked_inodelk i (inos ino)))
                        released (unwind @ [(ino, l)])
          | None \<Rightarrow> inodelk_cleanup_collect ls inos released unwind))"

fun inodelk_cleanup_release ::
  "int \<Rightarrow> (nat \<times> pl_inode_lock) list \<Rightarrow> (nat \<Rightarrow> dom_inode) \<Rightarrow> lk_event list \<Rightarrow>
     (nat \<Rightarrow> dom_inode) \<times> lk_event list" where
  "inodelk_cleanup_release now [] inos evs = (inos, evs)"
| "inodelk_cleanup_release now ((ino, l) # ls) inos evs =
     (let (dm, doms) = get_domain (dom_list (inos ino)) (il_volume l);
          (dm', evs1) = grant_blocked_inode_locks now dm
      in inodelk_cleanup_release now ls
           (inos(ino := \<lparr> dom_list = put_domain doms dm', inode_refs = inode_refs (inos ino) - 1 \<rparr>))
           (evs @ evs1 @ snd (pl_inodelk_unref l)))"

definition pl_inodelk_client_cleanup :: "int \<Rightarrow> nat \<Rightarrow> locks_world \<Rightarrow> locks_world \<times> lk_event list" where
  "pl_inodelk_client_cleanup now cl w =
     (let (inos1, released, unwind) =
            inodelk_cleanup_collect (lockers_of cl (inodelk_lockers w)) (inodes w) [] [];
          evs1 = map (\<lambda>(ino, l). Unwind_inodelk (il_frame l) (-1) EAGAIN)
                   (filter (\<lambda>(ino, l). il_frame l \<noteq> None) unwind);
          (inos2, evs2) = inodelk_cleanup_release now (released @ unwind) inos1 evs1
      in (w\<lparr> inodes := inos2,
             inodelk_lockers := filter (\<lambda>(c, ino, i). c \<noteq> cl) (inodelk_lockers w) \<rparr>, evs2))"

section \<open>Counting\<close>

definition get_inodelk_dom_count :: "pl_dom \<Rightarrow> int" where
  "get_inodelk_dom_count dm = int (length (inodelk_list dm)) + int (length (blocked_inodelks dm))"

fun get_inodelk_count :: "pl_dom list \<Rightarrow> string option \<Rightarrow> int" where
  "get_inodelk_count [] domname = 0"
| "get_inodelk_count (dm # doms) None = get_inodelk_dom_count dm + get_inodelk_count doms None"
| "get_inodelk_count (dm # doms) (Some name) =
     (if name = domain dm then get_inodelk_dom_count dm else get_inodelk_count doms (Some name))"

section \<open>Refinement of the domain operations\<close>

definition ilk_core :: "pl_inode_lock \<Rightarrow> pl_inode_lock" where
  "ilk_core l = l\<lparr> il_ref := 0, il_frame := None, il_granted_time := 0 \<rparr>"

definition inodelk_kind :: "pl_inode_lock lock_kind" where
  "inodelk_kind = \<lparr> kG = inodelk_list, kW = blocked_inodelks, kkey = il_id, kclient = il_client,
     kvol = il_volume, kref = il_ref, kcore = ilk_core, kconf = inodelk_conflict,
     ksame = same_inodelk_owner \<rparr>"

lemma inodelk_kind_simps [simp]:
  "kG inodelk_kind = inodelk_list" "kW inodelk_kind = blocked_inodelks" "kkey inodelk_kind = il_id"
  "kclient inodelk_kind = il_client" "kvol inodelk_kind = il_volume" "kref inodelk_kind = il_ref"
  "kcore inodelk_kind = ilk_core" "kconf inodelk_kind = inodelk_conflict"
  "ksame inodelk_kind = same_inodelk_owner"
  by (simp_all add: inodelk_kind_def)

lemma ilk_core_simps [simp]:
  "il_id (ilk_core l) = il_id l" "il_volume (ilk_core l) = il_volume l" "il_client (ilk_core l) = il_client l"
  "inodelk_conflict (ilk_core a) b = inodelk_conflict a b" "inodelk_conflict a (ilk_core b) = inodelk_conflict a b"
  "same_inodelk_owner (ilk_core a) b = same_inodelk_owner a b"
  "same_inodelk_owner a (ilk_core b) = same_inodelk_owner a b"
  by (simp_all add: ilk_core_def inodelk_conflict_def inodelk_overlap_def inodelk_type_conflict_def
      same_inodelk_owner_def)

lemma ilk_core_update [simp]:
  "ilk_core (l\<lparr> il_ref := n, il_granted_time := t \<rparr>) = ilk_core l"
  "ilk_core (fst (pl_inodelk_unref (l\<lparr> il_frame := f \<rparr>))) = ilk_core l"
  "il_id (fst (pl_inodelk_unref (l\<lparr> il_frame := f \<rparr>))) = il_id l"
  "il_ref (fst (pl_inodelk_unref (l\<lparr> il_frame := f \<rparr>))) = il_ref l - 1"
  by (simp_all add: ilk_core_def pl_inodelk_unref_def)

lemma inodelk_conflict_sym: "inodelk_conflict a b \<longleftrightarrow> inodelk_conflict b a"
  by (auto simp: inodelk_conflict_def inodelk_overlap_def inodelk_type_conflict_def)

lemma same_inodelk_owner_sym: "same_inodelk_owner a b \<longleftrightarrow> same_inodelk_owner b a"
  by (auto simp: same_inodelk_owner_def is_same_lkowner_sym)

abbreviation ilk_abs :: "pl_dom \<Rightarrow> pl_inode_lock dom_spec" where
  "ilk_abs \<equiv> dom_abs inodelk_kind"

abbreviation ilk_ok :: "pl_inode_lock \<Rightarrow> pl_inode_lock dom_spec \<Rightarrow> bool" where
  "ilk_ok \<equiv> spec_ok inodelk_conflict same_inodelk_owner"

abbreviation ilk_lock :: "pl_inode_lock \<Rightarrow> pl_inode_lock dom_spec \<Rightarrow> pl_inode_lock dom_spec" where
  "ilk_lock \<equiv> spec_lock inodelk_conflict same_inodelk_owner"

lemma ilk_ok_iff:
  "ilk_ok (ilk_core lock) (ilk_abs dm) \<longleftrightarrow>
     inodelk_grantable dm lock = None \<and> (blocked_lock_conflict dm lock = None \<or> owner_has_inodelk dm lock)"
  by (auto simp: spec_ok_def dom_abs_def inodelk_grantable_def blocked_lock_conflict_def
      owner_has_inodelk_def find_None_all bex_Un)

lemma lock_inodelk_cases:
  "lock_inodelk now lock can_block dm =
     (if ilk_ok (ilk_core lock) (ilk_abs dm)
      then (0, lock\<lparr> il_ref := il_ref lock + 1, il_granted_time := now \<rparr>,
            dm\<lparr> inodelk_list := lock\<lparr> il_ref := il_ref lock + 1, il_granted_time := now \<rparr> # inodelk_list dm \<rparr>)
      else (- EAGAIN, lock,
            if can_block then dm\<lparr> blocked_inodelks := blocked_inodelks dm @ [lock] \<rparr> else dm))"
  unfolding lock_inodelk_def ilk_ok_iff by (auto simp: Let_def)

lemma lock_inodelk_refines:
  "ilk_abs (snd (snd (lock_inodelk now lock True dm))) = ilk_lock (ilk_core lock) (ilk_abs dm)"
  by (simp add: lock_inodelk_cases spec_lock_def dom_abs_def)

lemma lock_inodelk_domain [simp]: "domain (snd (snd (lock_inodelk now lock can_block dm))) = domain dm"
  by (simp add: lock_inodelk_cases)

lemma grant_inode_list_refines:
  "ilk_abs (fst (grant_inode_list now ls dm gr)) = fold ilk_lock (map ilk_core ls) (ilk_abs dm)"
  "domain (fst (grant_inode_list now ls dm gr)) = domain dm"
  by (induction ls arbitrary: dm gr)
    (simp_all add: case_prod_beta Let_def lock_inodelk_refines del: fold_simps add: fold_simps)

lemma inodelk_set_abs:
  assumes "\<And>l. ilk_core (f l) = ilk_core l"
  shows "ilk_abs (inodelk_set i f dm) = ilk_abs dm" "domain (inodelk_set i f dm) = domain dm"
  using assms by (auto simp: inodelk_set_def dom_abs_def)

lemma fold_inodelk_set_abs:
  assumes "\<And>l. ilk_core (f l) = ilk_core l"
  shows "ilk_abs (fold (\<lambda>l. inodelk_set (il_id l) f) ls dm) = ilk_abs dm"
    "domain (fold (\<lambda>l. inodelk_set (il_id l) f) ls dm) = domain dm"
  by (induction ls arbitrary: dm) (simp_all add: inodelk_set_abs [OF assms])

lemma grant_blocked_inode_locks_refines:
  "ilk_abs (fst (grant_blocked_inode_locks now dm)) =
     spec_grant inodelk_conflict same_inodelk_owner (ilk_abs dm)"
  "domain (fst (grant_blocked_inode_locks now dm)) = domain dm"
  by (simp_all add: grant_blocked_inode_locks_def grant_blocked_inode_locks_locked_def case_prod_beta Let_def
      fold_inodelk_set_abs grant_inode_list_refines spec_grant_def)
    (simp add: dom_abs_def)

text \<open>Reference counts: a lock that is granted from the queue has two references until the call
  that waited for it is answered, every other lock has one.\<close>

definition ilk_refs :: "pl_inode_lock list \<Rightarrow> pl_dom \<Rightarrow> pl_inode_lock list \<Rightarrow> bool" where
  "ilk_refs ls dm gr \<longleftrightarrow>
     distinct (map il_id (inodelk_list dm @ blocked_inodelks dm @ ls)) \<and> distinct (map il_id gr) \<and>
     il_id ` set gr \<subseteq> il_id ` set (inodelk_list dm) \<and>
     (\<forall>l \<in> set (blocked_inodelks dm) \<union> set ls. il_ref l = 1) \<and>
     (\<forall>l \<in> set (inodelk_list dm). il_ref l = (if il_id l \<in> il_id ` set gr then 2 else 1))"

lemma grant_inode_list_refs:
  "ilk_refs ls dm gr \<Longrightarrow> case grant_inode_list now ls dm gr of (dm', gr') \<Rightarrow> ilk_refs [] dm' gr'"
proof (induction ls arbitrary: dm gr)
  case Nil
  then show ?case by simp
next
  case (Cons b ls)
  show ?case
  proof (cases "ilk_ok (ilk_core b) (ilk_abs dm)")
    case True
    let ?b = "b\<lparr> il_ref := il_ref b + 1, il_granted_time := now \<rparr>"
    have "ilk_refs ls (dm\<lparr> inodelk_list := ?b # inodelk_list dm \<rparr>) (?b # gr)"
      using Cons.prems by (auto simp: ilk_refs_def image_iff) (metis+)?
    from Cons.IH [OF this] True show ?thesis by (simp add: lock_inodelk_cases)
  next
    case False
    have "ilk_refs ls (dm\<lparr> blocked_inodelks := blocked_inodelks dm @ [b] \<rparr>) gr"
      using Cons.prems by (auto simp: ilk_refs_def)
    from Cons.IH [OF this] False show ?thesis by (simp add: lock_inodelk_cases)
  qed
qed

lemma fold_inodelk_set:
  assumes "\<And>l. il_id (f l) = il_id l" "distinct (map il_id gr)"
  shows "inodelk_list (fold (\<lambda>l. inodelk_set (il_id l) f) gr dm) =
      map (\<lambda>l. if il_id l \<in> il_id ` set gr then f l else l) (inodelk_list dm)"
    "blocked_inodelks (fold (\<lambda>l. inodelk_set (il_id l) f) gr dm) =
      map (\<lambda>l. if il_id l \<in> il_id ` set gr then f l else l) (blocked_inodelks dm)"
  using assms(2)
  by (induction gr arbitrary: dm) (auto simp: inodelk_set_def assms(1) image_iff)

lemma grant_blocked_inode_locks_refs:
  assumes "distinct (map il_id (dom_locks inodelk_kind dm))" "\<forall>l \<in> set (dom_locks inodelk_kind dm). il_ref l = 1"
  shows "\<forall>l \<in> set (dom_locks inodelk_kind (fst (grant_blocked_inode_locks now dm))). il_ref l = 1"
proof -
  have "ilk_refs (blocked_inodelks dm) (dm\<lparr> blocked_inodelks := [] \<rparr>) []"
    using assms by (auto simp: ilk_refs_def dom_locks_def)
  moreover obtain dm1 gr where g: "grant_blocked_inode_locks_locked now dm = (dm1, gr)" by fastforce
  ultimately have r: "ilk_refs [] dm1 gr"
    using grant_inode_list_refs [of "blocked_inodelks dm" "dm\<lparr> blocked_inodelks := [] \<rparr>" "[]" now]
    by (simp add: grant_blocked_inode_locks_locked_def)
  then have "distinct (map il_id gr)" by (simp add: ilk_refs_def)
  note f = fold_inodelk_set [where f = "\<lambda>x. fst (pl_inodelk_unref (x\<lparr> il_frame := None \<rparr>))",
      OF ilk_core_update(3) this, of dm1]
  have "il_id ` set (blocked_inodelks dm1) \<inter> il_id ` set gr = {}"
    using r by (simp add: ilk_refs_def) blast
  then show ?thesis
    using r by (auto simp: grant_blocked_inode_locks_def g dom_locks_def f ilk_refs_def)
qed

lemma drop_granted_without:
  "\<forall>d \<in> set (dom_list pin). \<forall>l \<in> set (blocked_inodelks d). il_id l \<noteq> i \<Longrightarrow>
     without_lock inodelk_kind i pin (drop_granted_inodelk i pin)"
  unfolding without_lock_def drop_granted_inodelk_def
  by (intro conjI exI [of _ "\<lambda>d. d\<lparr> inodelk_list := filter (\<lambda>l. il_id l \<noteq> i) (inodelk_list d) \<rparr>"])
    (auto simp: filter_id_conv)

lemma drop_blocked_without:
  "\<forall>d \<in> set (dom_list pin). \<forall>l \<in> set (inodelk_list d). il_id l \<noteq> i \<Longrightarrow>
     without_lock inodelk_kind i pin (drop_blocked_inodelk i pin)"
  unfolding without_lock_def drop_blocked_inodelk_def
  by (intro conjI exI [of _ "\<lambda>d. d\<lparr> blocked_inodelks := filter (\<lambda>l. il_id l \<noteq> i) (blocked_inodelks d) \<rparr>"])
    (auto simp: filter_id_conv)

interpretation ilk: lock_table inodelk_kind grant_blocked_inode_locks drop_granted_inodelk
  drop_blocked_inodelk inodelk_cleanup_collect inodelk_cleanup_release "\<lambda>l. snd (pl_inodelk_unref l)"
  by unfold_locales
    (simp_all add: inodelk_conflict_sym same_inodelk_owner_def is_same_lkowner_sym allocate_domain_def
      grant_blocked_inode_locks_refines grant_blocked_inode_locks_refs drop_granted_without
      drop_blocked_without granted_inodelk_at_def blocked_inodelk_at_def
      split: option.splits)

section \<open>The invariant under requests\<close>

abbreviation ilk_sess_ok :: "nat \<Rightarrow> (nat \<times> nat) set \<Rightarrow> locker list \<Rightarrow> ilk_state \<Rightarrow> bool" where
  "ilk_sess_ok ino Oth ls0 st \<equiv> is_ino st = ino \<and> sess_ok inodelk_kind ino Oth ls0 (is_dom st) (is_lockers st)"

abbreviation ilk_sess_pre :: "nat \<Rightarrow> (nat \<times> nat) set \<Rightarrow> locker list \<Rightarrow> ilk_state \<Rightarrow> bool" where
  "ilk_sess_pre ino Oth ls0 st \<equiv> is_ino st = ino \<and> sess_pre inodelk_kind ino Oth ls0 (is_dom st) (is_lockers st)"

lemma clear_blocked_sess:
  assumes "ilk_sess_pre ino Oth ls0 st"
  shows "ilk_sess_pre ino Oth ls0 (fst (clear_blocked_inodelks r st))"
proof -
  let ?st' = "fst (clear_blocked_inodelks r st)" and ?d = "is_dom st"
  let ?P = "\<lambda>l. range_matches r (il_user_flock l)"
  have dist: "set (inodelk_list ?d) \<inter> set (blocked_inodelks ?d) = {}"
    using sess_preD(2) [OF conjunct2 [OF assms]] by (auto simp: dom_locks_def)
  have "sess_pre inodelk_kind ino Oth ls0 (is_dom ?st')
      (del_lockers ino (map il_id (filter ?P (blocked_inodelks ?d))) (is_lockers st))"
    by (rule sess_pre_remove [OF conjunct2 [OF assms], where P = "\<lambda>l. True" and Q = "\<lambda>l. \<not> ?P l"])
      (use dist in \<open>auto simp: clear_blocked_inodelks_def Let_def dom_locks_def\<close>)
  then show ?thesis using assms by (simp add: clear_blocked_inodelks_def Let_def)
qed

lemma clear_granted_sess:
  assumes "ilk_sess_pre ino Oth ls0 st"
  shows "ilk_sess_pre ino Oth ls0 (fst (clear_granted_inodelks r st))"
proof -
  let ?st' = "fst (clear_granted_inodelks r st)" and ?d = "is_dom st"
  let ?P = "\<lambda>l. range_matches r (il_user_flock l)"
  have dist: "set (inodelk_list ?d) \<inter> set (blocked_inodelks ?d) = {}"
    using sess_preD(2) [OF conjunct2 [OF assms]] by (auto simp: dom_locks_def)
  have "sess_pre inodelk_kind ino Oth ls0 (is_dom ?st')
      (del_lockers ino (map il_id (filter ?P (inodelk_list ?d))) (is_lockers st))"
    by (rule sess_pre_remove [OF conjunct2 [OF assms], where P = "\<lambda>l. \<not> ?P l" and Q = "\<lambda>l. True"])
      (use dist in \<open>auto simp: clear_granted_inodelks_def Let_def dom_locks_def\<close>)
  then show ?thesis using assms by (simp add: clear_granted_inodelks_def Let_def)
qed

lemma clear_inodelks_frame [simp]:
  "domain (is_dom (fst (clear_blocked_inodelks r st))) = domain (is_dom st)"
  "domain (is_dom (fst (clear_granted_inodelks r st))) = domain (is_dom st)"
  "is_refs (fst (clear_blocked_inodelks r st)) = is_refs st"
  "is_refs (fst (clear_granted_inodelks r st)) = is_refs st"
  by (simp_all add: clear_blocked_inodelks_def clear_granted_inodelks_def Let_def)

text \<open>The state in which the waiting locks are tried again.\<close>

definition clear_selected :: "clrlk_kind \<Rightarrow> clrlk_range \<Rightarrow> ilk_state \<Rightarrow> ilk_state" where
  "clear_selected kind r st =
     (if r = Bad_range then st
      else
        let st1 = (if kind = CLRLK_GRANTED then st else fst (clear_blocked_inodelks r st))
        in if kind = CLRLK_BLOCKED then st1 else fst (clear_granted_inodelks r st1))"

lemma clrlk_clear_state:
  "fst (snd (clrlk_clear_inodelk now kind r st)) =
     (clear_selected kind r st)\<lparr> is_dom :=
        fst (grant_blocked_inode_locks now (is_dom (clear_selected kind r st))) \<rparr>"
  by (simp add: clrlk_clear_inodelk_def clear_selected_def Let_def case_prod_beta)

lemma clear_selected_frame [simp]:
  "domain (is_dom (clear_selected kind r st)) = domain (is_dom st)"
  "is_refs (clear_selected kind r st) = is_refs st"
  by (simp_all add: clear_selected_def Let_def)

lemma clear_selected_sess:
  assumes "ilk_sess_pre ino Oth ls0 st"
  shows "ilk_sess_pre ino Oth ls0 (clear_selected kind r st)"
proof -
  let ?st1 = "if kind = CLRLK_GRANTED then st else fst (clear_blocked_inodelks r st)"
  have "ilk_sess_pre ino Oth ls0 ?st1"
    using assms clear_blocked_sess by (cases "kind = CLRLK_GRANTED") auto
  from clear_granted_sess [OF this] this assms show ?thesis
    by (auto simp: clear_selected_def Let_def split: if_splits)
qed

lemma clear_selected_locks:
  "set (dom_locks inodelk_kind (is_dom (clear_selected kind r st))) \<subseteq> set (dom_locks inodelk_kind (is_dom st))"
  by (auto simp: clear_selected_def clear_blocked_inodelks_def clear_granted_inodelks_def Let_def dom_locks_def)

text \<open>Clearing locks keeps the invariant, and the references too, although locks are gone.\<close>

lemma clrlk_clear_sess:
  assumes "ilk_sess_pre ino Oth ls0 st"
  shows "ilk_sess_ok ino Oth ls0 (fst (snd (clrlk_clear_inodelk now kind r st)))"
    and "domain (is_dom (fst (snd (clrlk_clear_inodelk now kind r st)))) = domain (is_dom st)"
    and "is_refs (fst (snd (clrlk_clear_inodelk now kind r st))) = is_refs st"
  using ilk.sess_grant clear_selected_sess [OF assms]
  by (simp_all add: clrlk_clear_state grant_blocked_inode_locks_refines)

lemma prune_sess:
  assumes "ilk_sess_ok ino Oth ls0 st"
  shows "ilk_sess_ok ino Oth ls0 (fst (inodelk_prune_stale priv now lock st))"
    and "domain (is_dom (fst (inodelk_prune_stale priv now lock st))) = domain (is_dom st)"
    and "is_refs (fst (inodelk_prune_stale priv now lock st)) = is_refs st"
  using assms clrlk_clear_sess [of st ino Oth ls0 now]
  by (auto simp: inodelk_prune_stale_def Let_def sess_ok_def)

abbreviation ilk_ids :: "pl_dom \<Rightarrow> nat set" where
  "ilk_ids d \<equiv> il_id ` set (dom_locks inodelk_kind d)"

lemma grant_ids [simp]: "ilk_ids (fst (grant_blocked_inode_locks now d)) = ilk_ids d"
  using mset_eq_setD [OF ilk.grant_keys [of now d]] by simp

lemma clrlk_clear_ids: "ilk_ids (is_dom (fst (snd (clrlk_clear_inodelk now kind r st)))) \<subseteq> ilk_ids (is_dom st)"
  using clear_selected_locks [of kind r st] by (auto simp: clrlk_clear_state)

lemma prune_ids: "ilk_ids (is_dom (fst (inodelk_prune_stale priv now lock st))) \<subseteq> ilk_ids (is_dom st)"
  using clrlk_clear_ids [of now _ Any_range st] by (auto simp: inodelk_prune_stale_def Let_def)

text \<open>A lock that is granted at once or put into the queue.\<close>

lemma lock_inodelk_sess:
  assumes s: "sess_ok inodelk_kind ino Oth ls0 d ls" and lock: "il_ref lock = 1" "il_volume lock = domain d"
    and fresh: "il_id lock \<notin> ilk_ids d" "il_id lock \<notin> snd ` Oth"
    and l: "lock_inodelk now lock can_block d = (ret, lock', dm)"
    and dm': "dm' = (if ret = 0 then inodelk_set (il_id lock)
                       (\<lambda>x. fst (pl_inodelk_unref (x\<lparr> il_frame := None \<rparr>))) dm else dm)"
    and put: "ret = 0 \<or> can_block"
  shows "sess_ok inodelk_kind ino Oth ls0 dm'
      (if il_client lock \<noteq> 0 then ls @ [(il_client lock, ino, il_id lock)] else ls)"
    and "domain dm' = domain d"
    and "length (dom_locks inodelk_kind dm') = length (dom_locks inodelk_kind d) + 1"
proof -
  let ?f = "\<lambda>x. fst (pl_inodelk_unref (x\<lparr> il_frame := None \<rparr>))"
  have refs: "\<forall>x \<in> set (dom_locks inodelk_kind d). il_ref x = 1"
    using s by (auto simp: sess_ok_def sess_pre_def dom_ok_def)
  have "ilk_abs dm = ilk_lock (ilk_core lock) (ilk_abs d)"
    using l put by (auto simp: lock_inodelk_cases spec_lock_def dom_abs_def split: if_splits)
  then have abs: "ilk_abs dm' = ilk_lock (ilk_core lock) (ilk_abs d)"
    by (simp add: dm' inodelk_set_abs)
  have dom: "domain dm' = domain d"
    using l by (auto simp: dm' inodelk_set_abs lock_inodelk_cases split: if_splits)
  then show "domain dm' = domain d" .
  have new: "\<forall>x \<in> set (dom_locks inodelk_kind d). il_id x \<noteq> il_id lock" using fresh(1) by (metis imageI)
  then have "\<forall>x \<in> set (dom_locks inodelk_kind dm'). il_ref x = 1"
    using l refs lock(1)
    by (auto simp: dm' lock_inodelk_cases inodelk_set_def dom_locks_def pl_inodelk_unref_def ball_Un
        split: if_splits)
  then show "sess_ok inodelk_kind ino Oth ls0 dm'
      (if il_client lock \<noteq> 0 then ls @ [(il_client lock, ino, il_id lock)] else ls)"
    using ilk.sess_lock [OF s, of dm' lock] dom lock(2) abs fresh(2) new by auto
  have "length (fst (ilk_abs dm')) + length (snd (ilk_abs dm')) = length (dom_locks inodelk_kind d) + 1"
    by (simp add: abs spec_lock_def) (simp add: dom_abs_def dom_locks_def)
  then show "length (dom_locks inodelk_kind dm') = length (dom_locks inodelk_kind d) + 1"
    by (simp add: dom_abs_def dom_locks_def)
qed

lemma length_grant [simp]:
  "length (dom_locks inodelk_kind (fst (grant_blocked_inode_locks now d))) = length (dom_locks inodelk_kind d)"
  using arg_cong [OF ilk.grant_keys [of now d], of size] by simp

lemma inode_unlock_sess:
  assumes s: "sess_ok inodelk_kind ino Oth ls0 d ls"
    and u: "inode_unlock_lock lock d = (Some retlock, dm)"
  shows "sess_ok inodelk_kind ino Oth ls0 (fst (grant_blocked_inode_locks now dm)) (del_lockers ino [il_id retlock] ls)"
    and "domain dm = domain d"
    and "length (dom_locks inodelk_kind d) = length (dom_locks inodelk_kind dm) + 1"
proof -
  have pre: "sess_pre inodelk_kind ino Oth ls0 d ls" using s by (simp add: sess_ok_def)
  have r: "retlock \<in> set (inodelk_list d)"
    and dm: "dm = d\<lparr> inodelk_list := filter (\<lambda>l. il_id l \<noteq> il_id retlock) (inodelk_list d) \<rparr>"
    using u by (auto simp: inode_unlock_lock_def find_matching_inodelk_def dest: find_Some_set split: option.splits)
  have dist: "distinct (map il_id (inodelk_list d))" "il_id ` set (inodelk_list d) \<inter> il_id ` set (blocked_inodelks d) = {}"
    using sess_preD(2) [OF pre] by (auto simp: dom_locks_def)
  have one: "l = retlock" if "l \<in> set (inodelk_list d)" "il_id l = il_id retlock" for l
    using that r dist(1) by (auto simp: distinct_map dest: inj_onD)
  have "sess_pre inodelk_kind ino Oth ls0 dm (del_lockers ino [il_id retlock] ls)"
    by (rule sess_pre_remove [OF pre, where P = "\<lambda>l. il_id l \<noteq> il_id retlock" and Q = "\<lambda>l. True"])
      (use r dist(2) one in \<open>auto simp: dm dom_locks_def\<close>)
  then show "sess_ok inodelk_kind ino Oth ls0 (fst (grant_blocked_inode_locks now dm)) (del_lockers ino [il_id retlock] ls)"
    by (rule ilk.sess_grant)
  show "domain dm = domain d" by (simp add: dm)
  show "length (dom_locks inodelk_kind d) = length (dom_locks inodelk_kind dm) + 1"
    using arg_cong [OF mset_remove_key [OF dist(1) r], of size] by (simp add: dm dom_locks_def flip: mset_filter)
qed

lemma pl_inode_setlk_locked_sess:
  assumes s: "ilk_sess_ok ino Oth ls0 st" and lock: "il_ref lock = 1" "il_volume lock = domain (is_dom st)"
    and fresh: "il_id lock \<notin> ilk_ids (is_dom st)" "il_id lock \<notin> snd ` Oth"
    and r: "pl_inode_setlk_locked now (il_client lock \<noteq> 0) lock can_block st = (ret, st', evs)"
  shows "ilk_sess_ok ino Oth ls0 st' \<and> domain (is_dom st') = domain (is_dom st) \<and>
    is_refs st' - int (length (dom_locks inodelk_kind (is_dom st'))) =
       is_refs st - 1 - int (length (dom_locks inodelk_kind (is_dom st)))"
proof (cases "il_type lock = F_UNLCK")
  case True
  obtain u dm where u: "inode_unlock_lock lock (is_dom st) = (u, dm)" by fastforce
  show ?thesis
  proof (cases u)
    case None
    then show ?thesis using r True u s by (auto simp: pl_inode_setlk_locked_def)
  next
    case (Some retlock)
    have "st' = st\<lparr> is_dom := fst (grant_blocked_inode_locks now dm), is_refs := is_refs st - 1 - 1,
        is_lockers := del_lockers (is_ino st) [il_id retlock] (is_lockers st) \<rparr>"
      using r True u Some by (auto simp: pl_inode_setlk_locked_def Let_def case_prod_beta)
    then show ?thesis
      using inode_unlock_sess [OF conjunct2 [OF s] u [unfolded Some]] s
      by (auto simp: grant_blocked_inode_locks_refines)
  qed
next
  case False
  obtain ret0 lock' dm where l: "lock_inodelk now lock can_block (is_dom st) = (ret0, lock', dm)"
    by (metis prod_cases3)
  have c: "ret0 = 0 \<or> ret0 = - EAGAIN \<and> (\<not> can_block \<longrightarrow> dm = is_dom st)"
    using l by (auto simp: lock_inodelk_cases split: if_splits)
  show ?thesis
  proof (cases "ret0 = 0 \<or> can_block")
    case True
    have "st' = st\<lparr> is_dom := (if ret0 = 0 then inodelk_set (il_id lock)
            (\<lambda>x. fst (pl_inodelk_unref (x\<lparr> il_frame := None \<rparr>))) dm else dm),
          is_lockers := (if il_client lock \<noteq> 0 then is_lockers st @ [(il_client lock, is_ino st, il_id lock)]
              else is_lockers st) \<rparr>"
      using r False True l by (auto simp: pl_inode_setlk_locked_def Let_def)
    then show ?thesis
      using lock_inodelk_sess [OF conjunct2 [OF s] lock fresh l refl True] s by auto
  next
    case refused: False
    then have "st' = st\<lparr> is_refs := is_refs st - 1 \<rparr>"
      using r False l c by (auto simp: pl_inode_setlk_locked_def Let_def)
    then show ?thesis using s by simp
  qed
qed

lemma pl_inode_setlk_sess:
  assumes s: "ilk_sess_ok ino Oth ls0 st" and lock: "il_ref lock = 1" "il_volume lock = domain (is_dom st)"
    and fresh: "il_id lock \<notin> ilk_ids (is_dom st)" "il_id lock \<notin> snd ` Oth"
    and r: "pl_inode_setlk priv now monkey (il_client lock \<noteq> 0) lock can_block st = (ret, st', evs)"
  shows "ilk_sess_ok ino Oth ls0 st' \<and> domain (is_dom st') = domain (is_dom st) \<and>
    (revocation_secs priv = 0 \<longrightarrow> is_refs st' - int (length (dom_locks inodelk_kind (is_dom st'))) =
       is_refs st - int (length (dom_locks inodelk_kind (is_dom st))))"
proof -
  let ?st0 = "st\<lparr> is_refs := is_refs st + 1 \<rparr>"
  let ?p = "if revocation_secs priv \<noteq> 0 \<and> il_type lock \<noteq> F_UNLCK
            then inodelk_prune_stale priv now lock ?st0 else (?st0, [])"
  have s0: "ilk_sess_ok ino Oth ls0 ?st0" using s by simp
  have s1: "ilk_sess_ok ino Oth ls0 (fst ?p)" "domain (is_dom (fst ?p)) = domain (is_dom st)"
    "is_refs (fst ?p) = is_refs st + 1" "il_id lock \<notin> ilk_ids (is_dom (fst ?p))"
    using prune_sess [OF s0] s0 fresh(1) prune_ids [of priv now lock ?st0] by (auto split: if_splits)
  have lock1: "il_volume lock = domain (is_dom (fst ?p))" using lock(2) s1(2) by simp
  show ?thesis
  proof (cases "revocation_secs priv \<noteq> 0 \<and> il_type lock = F_UNLCK \<and> monkey_unlocking priv \<and> monkey")
    case True
    then show ?thesis using r s by (auto simp: pl_inode_setlk_def)
  next
    case False
    obtain ret0 st2 evs2 where
      l: "pl_inode_setlk_locked now (il_client lock \<noteq> 0) lock can_block (fst ?p) = (ret0, st2, evs2)"
      by (metis prod_cases3)
    have "st2 = st'"
      using r unfolding pl_inode_setlk_def Let_def if_not_P [OF False] case_prod_beta l by simp
    then show ?thesis
      using pl_inode_setlk_locked_sess [OF s1(1) lock(1) lock1 s1(4) fresh(2) l] s1(2,3) by auto
  qed
qed

section \<open>Reachable lock tables\<close>

abbreviation ilk_world :: "locks_world \<Rightarrow> bool" where
  "ilk_world w \<equiv> table_ok inodelk_kind (inodes w) (inodelk_lockers w)"

text \<open>An address no lock of the inode has.\<close>

definition ilk_fresh :: "nat \<Rightarrow> nat \<Rightarrow> locks_world \<Rightarrow> bool" where
  "ilk_fresh addr ino w \<longleftrightarrow> addr \<notin> il_id ` set (ino_locks inodelk_kind (inodes w ino))"

lemma new_inode_lock_simps [simp]:
  "il_id (new_inode_lock addr flock cl pid own fr volume conn) = addr"
  "il_ref (new_inode_lock addr flock cl pid own fr volume conn) = 1"
  "il_volume (new_inode_lock addr flock cl pid own fr volume conn) = volume"
  "il_client (new_inode_lock addr flock cl pid own fr volume conn) = cl"
  by (simp_all add: new_inode_lock_def)

lemma pl_common_inodelk_world:
  assumes w: "ilk_world w" and fresh: "ilk_fresh addr ino w"
  shows "ilk_world (fst (pl_common_inodelk priv now monkey addr fr cl pid own conn volume ino cmd flock w))"
    and "revocation_secs priv = 0 \<Longrightarrow>
      ref_balance inodelk_kind (inodes (fst (pl_common_inodelk priv now monkey addr fr cl pid own conn volume ino cmd flock w)) n) =
      ref_balance inodelk_kind (inodes w n)"
proof -
  let ?w' = "fst (pl_common_inodelk priv now monkey addr fr cl pid own conn volume ino cmd flock w)"
  let ?v = "pl_convert_volume_for_special_range flock volume" and ?pin = "inodes w ino"
  obtain dm doms where get: "get_domain (dom_list ?pin) ?v = (dm, doms)" by fastforce
  have v: "domain dm = ?v" using get_domain_name [of "dom_list ?pin" ?v] get by simp
  have iok: "inode_ok inodelk_kind ?pin" using w by (simp add: table_ok_def)
  have s: "sess_ok inodelk_kind ino (other_locks inodelk_kind doms ?v) (inodelk_lockers w) dm (inodelk_lockers w)"
    by (rule ilk.sess_open [OF w get])
  have f: "addr \<notin> ilk_ids dm" "addr \<notin> snd ` other_locks inodelk_kind doms ?v"
    using fresh unfolding ilk_fresh_def ilk.locks_of_inode [OF iok get] by (auto simp: other_locks_def)
  have "ilk_world ?w' \<and> (revocation_secs priv = 0 \<longrightarrow>
      ref_balance inodelk_kind (inodes ?w' n) = ref_balance inodelk_kind (inodes w n))"
  proof (cases "l_start flock < 0 \<or> l_len flock < 0")
    case True
    then show ?thesis using w by (simp add: pl_common_inodelk_def)
  next
    case ok: False
    show ?thesis
    proof (cases "cmd = F_GETLK")
      case True
      have "put_domain doms dm = doms"
        using get_domain_distinct [of "dom_list ?pin" ?v] get_domain_mem [of "dom_list ?pin" ?v] get iok
        by (auto simp: inode_ok_def put_domain_def distinct_map intro!: map_idI dest: inj_onD)
      then show ?thesis
        using ok True get ilk.sess_close [OF w get v s, of "inode_refs ?pin"]
          ilk.sess_balance [OF iok get v, of "inode_refs ?pin"]
        by (simp add: pl_common_inodelk_def Let_def dom_list_update)
    next
      case False
      let ?lock = "(new_inode_lock addr flock cl pid own fr ?v conn)\<lparr> il_user_flock := flock \<rparr>"
      let ?st = "\<lparr> is_ino = ino, is_dom = dm, is_refs = inode_refs ?pin, is_lockers = inodelk_lockers w \<rparr>"
      obtain ret st' evs where r: "pl_inode_setlk priv now monkey (il_client ?lock \<noteq> 0) ?lock (cmd = F_SETLKW) ?st = (ret, st', evs)"
        by (metis prod_cases3)
      have eq: "?w' = w\<lparr> inodes := (inodes w)(ino := \<lparr> dom_list = put_domain doms (is_dom st'), inode_refs = is_refs st' \<rparr>),
          inodelk_lockers := is_lockers st' \<rparr>"
        using ok False r by (simp add: pl_common_inodelk_def Let_def get v)
      have p: "ilk_sess_ok ino (other_locks inodelk_kind doms ?v) (inodelk_lockers w) st'"
        "domain (is_dom st') = ?v"
        "revocation_secs priv = 0 \<Longrightarrow> is_refs st' - int (length (dom_locks inodelk_kind (is_dom st'))) =
           inode_refs ?pin - int (length (dom_locks inodelk_kind dm))"
        using pl_inode_setlk_sess [OF _ _ _ _ _ r, of ino "other_locks inodelk_kind doms ?v" "inodelk_lockers w"]
          s f v by auto
      show ?thesis
        using ilk.sess_close [OF w get p(2) conjunct2 [OF p(1)]] ilk.sess_balance [OF iok get p(2,3)]
        by (simp add: eq)
    qed
  qed
  then show "ilk_world ?w'" "revocation_secs priv = 0 \<Longrightarrow>
      ref_balance inodelk_kind (inodes ?w' n) = ref_balance inodelk_kind (inodes w n)" by blast+
qed

lemma pl_inodelk_cleanup_world:
  assumes w: "ilk_world w" and cl: "cl \<noteq> 0"
  shows "ilk_world (fst (pl_inodelk_client_cleanup now cl w))"
    and "ref_balance inodelk_kind (inodes (fst (pl_inodelk_client_cleanup now cl w)) n) =
      ref_balance inodelk_kind (inodes w n)"
    and "mset (map ilk_core (ino_locks inodelk_kind (inodes (fst (pl_inodelk_client_cleanup now cl w)) n))) =
      filter_mset (\<lambda>l. il_client l \<noteq> cl) (mset (map ilk_core (ino_locks inodelk_kind (inodes w n))))"
proof -
  obtain inos1 R U where c: "inodelk_cleanup_collect (lockers_of cl (inodelk_lockers w)) (inodes w) [] [] = (inos1, R, U)"
    by (metis prod_cases3)
  note t = ilk.cleanup_table [OF w cl c, of now]
  show "ilk_world (fst (pl_inodelk_client_cleanup now cl w))"
    "ref_balance inodelk_kind (inodes (fst (pl_inodelk_client_cleanup now cl w)) n) = ref_balance inodelk_kind (inodes w n)"
    "mset (map ilk_core (ino_locks inodelk_kind (inodes (fst (pl_inodelk_client_cleanup now cl w)) n))) =
      filter_mset (\<lambda>l. il_client l \<noteq> cl) (mset (map ilk_core (ino_locks inodelk_kind (inodes w n))))"
    using t by (simp_all add: pl_inodelk_client_cleanup_def c Let_def case_prod_beta)
qed

text \<open>Clearing the locks of a domain of an inode.\<close>

definition clear_in_world :: "int \<Rightarrow> clrlk_kind \<Rightarrow> clrlk_range \<Rightarrow> nat \<Rightarrow> pl_dom \<Rightarrow> locks_world \<Rightarrow> locks_world" where
  "clear_in_world now kind r ino d w =
     (let st = fst (snd (clrlk_clear_inodelk now kind r
             \<lparr> is_ino = ino, is_dom = d, is_refs = inode_refs (inodes w ino), is_lockers = inodelk_lockers w \<rparr>))
      in w\<lparr> inodes := (inodes w)(ino := \<lparr> dom_list = put_domain (dom_list (inodes w ino)) (is_dom st),
                                          inode_refs = is_refs st \<rparr>),
            inodelk_lockers := is_lockers st \<rparr>)"

lemma get_domain_mem_distinct:
  assumes "distinct (map domain doms)" "d \<in> set doms"
  shows "get_domain doms (domain d) = (d, doms)"
proof -
  have "find (\<lambda>x. domain x = domain d) doms = Some d"
    using assms by (induction doms) (auto simp: image_iff)
  then show ?thesis by (simp add: get_domain_def)
qed

lemma clear_in_world_ok:
  assumes w: "ilk_world w" and d: "d \<in> set (dom_list (inodes w ino))"
  shows "ilk_world (clear_in_world now kind r ino d w)"
proof -
  let ?st = "\<lparr> is_ino = ino, is_dom = d, is_refs = inode_refs (inodes w ino), is_lockers = inodelk_lockers w \<rparr>"
  have get: "get_domain (dom_list (inodes w ino)) (domain d) = (d, dom_list (inodes w ino))"
    using w d by (intro get_domain_mem_distinct) (auto simp: table_ok_def inode_ok_def)
  have "ilk_sess_pre ino (other_locks inodelk_kind (dom_list (inodes w ino)) (domain d)) (inodelk_lockers w) ?st"
    using ilk.sess_open [OF w get] by (simp add: sess_ok_def)
  note c = clrlk_clear_sess [OF this, of now kind r]
  show ?thesis
    using ilk.sess_close [OF w get _ conjunct2 [OF c(1)]] c(2)
    by (simp add: clear_in_world_def Let_def)
qed

text \<open>The lock tables that calls, disconnects and, where \<open>clears\<close> holds, clear commands reach.\<close>

inductive ilk_step :: "locks_private \<Rightarrow> bool \<Rightarrow> locks_world \<Rightarrow> locks_world \<Rightarrow> bool" for priv clears where
  request: "ilk_fresh addr ino w \<Longrightarrow>
     ilk_step priv clears w
       (fst (pl_common_inodelk priv now monkey addr fr cl pid own conn volume ino cmd flock w))"
| disconnect: "cl \<noteq> 0 \<Longrightarrow> ilk_step priv clears w (fst (pl_inodelk_client_cleanup now cl w))"
| clear: "clears \<Longrightarrow> d \<in> set (dom_list (inodes w ino)) \<Longrightarrow>
     ilk_step priv clears w (clear_in_world now kind r ino d w)"

inductive ilk_reach :: "locks_private \<Rightarrow> bool \<Rightarrow> locks_world \<Rightarrow> bool" for priv clears where
  start: "ilk_reach priv clears
     \<lparr> inodes = (\<lambda>ino. \<lparr> dom_list = [], inode_refs = 0 \<rparr>), inodelk_lockers = [], entrylk_lockers = [] \<rparr>"
| step: "ilk_reach priv clears w \<Longrightarrow> ilk_step priv clears w w' \<Longrightarrow> ilk_reach priv clears w'"

lemma ilk_step_ok: "ilk_step priv clears w w' \<Longrightarrow> ilk_world w \<Longrightarrow> ilk_world w'"
proof (induction rule: ilk_step.induct)
  case request
  then show ?case by (intro pl_common_inodelk_world(1))
next
  case disconnect
  then show ?case by (intro pl_inodelk_cleanup_world(1))
next
  case clear
  then show ?case by (intro clear_in_world_ok)
qed

lemma ilk_reach_ok: "ilk_reach priv clears w \<Longrightarrow> ilk_world w"
proof (induction rule: ilk_reach.induct)
  case start
  then show ?case by (simp add: table_ok_def inode_ok_def lockers_ok_def ino_locks_def)
next
  case step
  then show ?case by (simp add: ilk_step_ok)
qed

lemma ilk_step_balance:
  "ilk_step priv clears w w' \<Longrightarrow> ilk_world w \<Longrightarrow> \<not> clears \<Longrightarrow> revocation_secs priv = 0 \<Longrightarrow>
     ref_balance inodelk_kind (inodes w' n) = ref_balance inodelk_kind (inodes w n)"
proof (induction rule: ilk_step.induct)
  case request
  then show ?case by (intro pl_common_inodelk_world(2))
next
  case disconnect
  then show ?case by (intro pl_inodelk_cleanup_world(2))
next
  case clear
  then show ?case by simp
qed

lemma ilk_reach_balance:
  "ilk_reach priv clears w \<Longrightarrow> \<not> clears \<Longrightarrow> revocation_secs priv = 0 \<Longrightarrow> ref_balance inodelk_kind (inodes w n) = 0"
proof (induction rule: ilk_reach.induct)
  case start
  then show ?case by (simp add: ref_balance_def ino_locks_def)
next
  case (step w w')
  then show ?case using ilk_step_balance ilk_reach_ok by metis
qed

section \<open>Sample calls\<close>

definition no_locks :: locks_world where
  "no_locks = \<lparr> inodes = (\<lambda>ino. \<lparr> dom_list = [], inode_refs = 0 \<rparr>), inodelk_lockers = [], entrylk_lockers = [] \<rparr>"

definition sample_priv :: locks_private where
  "sample_priv = \<lparr> revocation_secs = 0, revocation_clear_all = False, revocation_max_blocked = 0,
     monkey_unlocking = False \<rparr>"

text \<open>The call of a client on inode 5 in the domain d; the address of the lock is also the
  number of the call.\<close>

definition sample_inodelk :: "nat \<Rightarrow> nat \<Rightarrow> lk_type \<Rightarrow> lk_cmd \<Rightarrow> int \<Rightarrow> int \<Rightarrow> locks_world \<Rightarrow> locks_world \<times> lk_event list" where
  "sample_inodelk addr cl t cmd s n w =
     pl_common_inodelk sample_priv 0 False addr addr cl 1 \<lparr> lk_len = 0, lk_data = [] \<rparr> None ''d'' 5 cmd
       \<lparr> l_type = t, l_whence = 0, l_start = s, l_len = n, l_pid = 1,
         l_owner = \<lparr> lk_len = 0, lk_data = [] \<rparr> \<rparr> w"

fun sample_inodelks :: "(nat \<times> nat \<times> lk_type \<times> lk_cmd \<times> int \<times> int) list \<Rightarrow> locks_world \<Rightarrow> locks_world" where
  "sample_inodelks [] w = w"
| "sample_inodelks ((addr, cl, t, cmd, s, n) # cs) w = sample_inodelks cs (fst (sample_inodelk addr cl t cmd s n w))"

fun sample_fresh :: "(nat \<times> nat \<times> lk_type \<times> lk_cmd \<times> int \<times> int) list \<Rightarrow> locks_world \<Rightarrow> bool" where
  "sample_fresh [] w \<longleftrightarrow> True"
| "sample_fresh ((addr, cl, t, cmd, s, n) # cs) w \<longleftrightarrow>
     ilk_fresh addr 5 w \<and> sample_fresh cs (fst (sample_inodelk addr cl t cmd s n w))"

lemma sample_reach_from:
  "ilk_reach sample_priv clears w \<Longrightarrow> sample_fresh cs w \<Longrightarrow> ilk_reach sample_priv clears (sample_inodelks cs w)"
proof (induction cs w rule: sample_inodelks.induct)
  case (2 addr cl t cmd s n cs w)
  have "ilk_reach sample_priv clears (fst (sample_inodelk addr cl t cmd s n w))"
    unfolding sample_inodelk_def using 2 by (intro ilk_reach.step [OF _ ilk_step.request]) auto
  with 2 show ?case by simp
qed simp

lemma sample_inodelks_reach:
  "sample_fresh cs no_locks \<Longrightarrow> ilk_reach sample_priv clears (sample_inodelks cs no_locks)"
  by (rule sample_reach_from) (simp_all add: no_locks_def ilk_reach.start)

section \<open>Properties\<close>

text \<open>C4: conflicting inode locks granted in a domain have one owner, after any sequence of lock
  calls, revocations, clear commands and disconnects.\<close>

theorem inodelk_exclusion:
  assumes "ilk_reach priv clears w" "d \<in> set (dom_list (inodes w ino))"
    and "a \<in> set (inodelk_list d)" "b \<in> set (inodelk_list d)" "inodelk_conflict a b"
  shows "same_inodelk_owner a b"
proof -
  have "dom_ok inodelk_kind d"
    using ilk_reach_ok [OF assms(1)] assms(2) by (auto simp: table_ok_def inode_ok_def)
  then show ?thesis using assms(3-5) by (auto simp: dom_ok_def exclusion_def dom_abs_def)
qed

theorem inodelk_exclusion_witness:
  "\<exists>w d a b. ilk_reach sample_priv True w \<and> d \<in> set (dom_list (inodes w 5)) \<and> a \<in> set (inodelk_list d) \<and>
     b \<in> set (inodelk_list d) \<and> il_id a \<noteq> il_id b \<and> inodelk_conflict a b \<and> same_inodelk_owner a b"
proof -
  let ?cs = "[(1, 2, F_WRLCK, F_SETLK, 0, 10), (2, 2, F_WRLCK, F_SETLK, 5, 10)]"
  let ?w = "sample_inodelks ?cs no_locks"
  have r: "ilk_reach sample_priv True ?w" by (rule sample_inodelks_reach) code_simp
  have "map (map il_id \<circ> inodelk_list) (dom_list (inodes ?w 5)) = [[2, 1]]" by code_simp
  then obtain d a b where d: "dom_list (inodes ?w 5) = [d]" "inodelk_list d = [a, b]" "il_id a = 2" "il_id b = 1"
    by (auto simp: map_eq_Cons_conv)
  have "map (\<lambda>d. inodelk_conflict (inodelk_list d ! 0) (inodelk_list d ! 1)) (dom_list (inodes ?w 5)) = [True]"
    by code_simp
  then have c: "inodelk_conflict a b" using d by simp
  show ?thesis using inodelk_exclusion [OF r, of d 5 a b] r d c by (intro exI [of _ ?w] exI [of _ d] exI [of _ a] exI [of _ b]) auto
qed

text \<open>C7: no inode lock waits without a reason. After every call, each waiting lock conflicts with
  a granted lock of another owner or with a lock in front of it; so nobody waits in a domain in
  which nothing is granted.\<close>

theorem inodelk_no_lost_wakeup:
  assumes "ilk_reach priv clears w" "d \<in> set (dom_list (inodes w ino))" "blocked_inodelks d = front @ l # rest"
  shows "((\<exists>g \<in> set (inodelk_list d). inodelk_conflict l g \<and> \<not> same_inodelk_owner l g) \<or>
      (\<exists>x \<in> set front. inodelk_conflict l x)) \<and> inodelk_list d \<noteq> []"
proof -
  have j: "justified inodelk_conflict same_inodelk_owner (ilk_abs d)"
    using ilk_reach_ok [OF assms(1)] assms(2) by (auto simp: table_ok_def dom_justified_def)
  have "snd (ilk_abs d) = map ilk_core front @ ilk_core l # map ilk_core rest"
    using assms(3) by (simp add: dom_abs_def)
  then have "has_reason inodelk_conflict same_inodelk_owner (fst (ilk_abs d)) (map ilk_core front) (ilk_core l)"
    using j unfolding justified_def by blast
  moreover have "inodelk_list d \<noteq> []"
    using j justified_no_grant [of inodelk_conflict same_inodelk_owner "snd (ilk_abs d)"] assms(3)
    by (auto simp: dom_abs_def)
  ultimately show ?thesis by (auto simp: has_reason_def dom_abs_def)
qed

theorem inodelk_no_lost_wakeup_witness:
  "\<exists>w d l. ilk_reach sample_priv False w \<and> d \<in> set (dom_list (inodes w 5)) \<and> blocked_inodelks d = [l] \<and>
     (\<exists>g \<in> set (inodelk_list d). inodelk_conflict l g \<and> \<not> same_inodelk_owner l g)"
proof -
  let ?cs = "[(2, 2, F_WRLCK, F_SETLK, 0, 10), (3, 3, F_RDLCK, F_SETLKW, 5, 10)]"
  let ?w = "sample_inodelks ?cs no_locks"
  have r: "ilk_reach sample_priv False ?w" by (rule sample_inodelks_reach) code_simp
  have "map (map il_id \<circ> blocked_inodelks) (dom_list (inodes ?w 5)) = [[3]]" by code_simp
  then obtain d l where d: "dom_list (inodes ?w 5) = [d]" "blocked_inodelks d = [l]"
    by (auto simp: map_eq_Cons_conv)
  show ?thesis
    using inodelk_no_lost_wakeup [OF r, of d 5 "[]" l "[]"] r d by (intro exI [of _ ?w] exI [of _ d] exI [of _ l]) auto
qed

text \<open>C19: the disconnect of a client removes exactly its inode locks, granted or waiting, from
  every inode, gives back one reference for each, keeps all other locks, and leaves nobody waiting
  without a reason.\<close>

theorem inodelk_disconnect:
  assumes "ilk_reach priv clears w" "cl \<noteq> 0" "w' = fst (pl_inodelk_client_cleanup now cl w)"
  shows "mset (map il_id (ino_locks inodelk_kind (inodes w' ino))) =
      mset (map il_id (filter (\<lambda>l. il_client l \<noteq> cl) (ino_locks inodelk_kind (inodes w ino)))) \<and>
    inode_refs (inodes w' ino) = inode_refs (inodes w ino) -
      int (length (filter (\<lambda>l. il_client l = cl) (ino_locks inodelk_kind (inodes w ino)))) \<and>
    (\<forall>d \<in> set (dom_list (inodes w' ino)). dom_justified inodelk_kind d)"
proof -
  let ?old = "ino_locks inodelk_kind (inodes w ino)" and ?new = "ino_locks inodelk_kind (inodes w' ino)"
  note t = pl_inodelk_cleanup_world [OF ilk_reach_ok [OF assms(1)] assms(2), of now, folded assms(3)]
  have "mset (map ilk_core ?new) = mset (map ilk_core (filter (\<lambda>l. il_client l \<noteq> cl) ?old))"
    using t(3) [of ino] by (simp add: filter_mset_image_mset)
  from arg_cong [OF this, of "image_mset il_id"]
  have ids: "mset (map il_id ?new) = mset (map il_id (filter (\<lambda>l. il_client l \<noteq> cl) ?old))"
    by (simp add: image_mset.compositionality comp_def)
  have "length ?new = length (filter (\<lambda>l. il_client l \<noteq> cl) ?old)"
    using arg_cong [OF ids, of size] by (simp flip: mset_filter)
  moreover have "length (filter (\<lambda>l. il_client l = cl) ?old) + length (filter (\<lambda>l. il_client l \<noteq> cl) ?old) = length ?old"
    by (rule sum_length_filter_compl)
  ultimately have "inode_refs (inodes w' ino) = inode_refs (inodes w ino) - int (length (filter (\<lambda>l. il_client l = cl) ?old))"
    using t(2) [of ino] by (simp add: ref_balance_def)
  then show ?thesis using ids t(1) by (simp add: table_ok_def)
qed

theorem inodelk_disconnect_witness:
  "\<exists>w. ilk_reach sample_priv False w \<and> inode_refs (inodes w 5) = 2 \<and>
     inode_refs (inodes (fst (pl_inodelk_client_cleanup 0 2 w)) 5) = 1 \<and>
     mset (map il_id (ino_locks inodelk_kind (inodes (fst (pl_inodelk_client_cleanup 0 2 w)) 5))) = {#3#}"
proof -
  let ?cs = "[(2, 2, F_WRLCK, F_SETLK, 0, 10), (3, 3, F_RDLCK, F_SETLKW, 5, 10)]"
  let ?w = "sample_inodelks ?cs no_locks"
  have r: "ilk_reach sample_priv False ?w" by (rule sample_inodelks_reach) code_simp
  have e: "inode_refs (inodes ?w 5) = 2"
    "map il_id (filter (\<lambda>l. il_client l \<noteq> 2) (ino_locks inodelk_kind (inodes ?w 5))) = [3]"
    "length (filter (\<lambda>l. il_client l = 2) (ino_locks inodelk_kind (inodes ?w 5))) = 1"
    by code_simp+
  show ?thesis
    using inodelk_disconnect [OF r, of 2 "fst (pl_inodelk_client_cleanup 0 2 ?w)" 0 5, OF _ refl] r
    by (intro exI [of _ ?w]) (simp only: e, simp)
qed

text \<open>C20: without revocation and clear commands, the inode has one reference for each inode lock on
  it, granted or waiting, and every lock in a list has exactly one reference of its own.\<close>

theorem inodelk_references:
  assumes "ilk_reach priv False w" "revocation_secs priv = 0"
  shows "inode_refs (inodes w ino) = int (length (ino_locks inodelk_kind (inodes w ino))) \<and>
    list_all (\<lambda>l. il_ref l = 1) (ino_locks inodelk_kind (inodes w ino))"
proof -
  have "ref_balance inodelk_kind (inodes w ino) = 0" using ilk_reach_balance assms by blast
  moreover have "\<forall>l \<in> set (ino_locks inodelk_kind (inodes w ino)). il_ref l = 1"
    using ilk_reach_ok [OF assms(1)] by (auto simp: table_ok_def inode_ok_def dom_ok_def ino_locks_def)
  ultimately show ?thesis by (simp add: ref_balance_def list_all_iff)
qed

theorem inodelk_references_witness:
  "\<exists>w. ilk_reach sample_priv False w \<and> inode_refs (inodes w 5) = 2"
proof -
  let ?cs = "[(2, 2, F_WRLCK, F_SETLK, 0, 10), (3, 3, F_RDLCK, F_SETLKW, 5, 10)]"
  let ?w = "sample_inodelks ?cs no_locks"
  have r: "ilk_reach sample_priv False ?w" by (rule sample_inodelks_reach) code_simp
  have "revocation_secs sample_priv = 0" "length (ino_locks inodelk_kind (inodes ?w 5)) = 2" by code_simp+
  then show ?thesis using inodelk_references [OF r, of 5] r by auto
qed

text \<open>C30: the clear command leaks the references of the locks it clears. A reachable inode has a
  reference on it and no lock.\<close>

theorem clear_leaks_inode_reference:
  "\<exists>w. ilk_reach sample_priv True w \<and> ino_locks inodelk_kind (inodes w 5) = [] \<and> inode_refs (inodes w 5) = 1"
proof -
  let ?w = "sample_inodelks [(2, 2, F_WRLCK, F_SETLK, 0, 10)] no_locks"
  have r: "ilk_reach sample_priv True ?w" by (rule sample_inodelks_reach) code_simp
  have "map domain (dom_list (inodes ?w 5)) = [''d'']" by code_simp
  then obtain d where d: "dom_list (inodes ?w 5) = [d]" by (auto simp: map_eq_Cons_conv)
  let ?w' = "clear_in_world 0 CLRLK_ALL Any_range 5 (hd (dom_list (inodes ?w 5))) ?w"
  have "ilk_reach sample_priv True ?w'"
    using r d by (intro ilk_reach.step [OF r ilk_step.clear]) auto
  moreover have "length (ino_locks inodelk_kind (inodes ?w' 5)) = 0" "inode_refs (inodes ?w' 5) = 1"
    by code_simp+
  ultimately show ?thesis by auto
qed

text \<open>C31: two clients can hold write locks for ranges that share a byte. In a reachable state the lock list of a
  domain has write locks of two owners whose requested ranges intersect: the length of a request is not checked
  against the largest offset, and the end of one of them has wrapped to a negative offset.\<close>

theorem inodelk_length_wraps:
  "\<exists>w d a b. ilk_reach sample_priv False w \<and> d \<in> set (dom_list (inodes w 5)) \<and>
     a \<in> set (inodelk_list d) \<and> b \<in> set (inodelk_list d) \<and>
     il_type a = F_WRLCK \<and> il_type b = F_WRLCK \<and> \<not> same_inodelk_owner a b \<and> il_end b < 0 \<and>
     (\<exists>x. x \<in> {l_start (il_user_flock a) ..< l_start (il_user_flock a) + l_len (il_user_flock a)} \<and>
          x \<in> {l_start (il_user_flock b) ..< l_start (il_user_flock b) + l_len (il_user_flock b)})"
proof -
  let ?cs = "[(2, 2, F_WRLCK, F_SETLK, 10, LLONG_MAX), (3, 3, F_WRLCK, F_SETLK, 20, 10)]"
  let ?w = "sample_inodelks ?cs no_locks"
  have r: "ilk_reach sample_priv False ?w" by (rule sample_inodelks_reach) code_simp
  have "map (map (\<lambda>l. (il_type l, il_client l, l_start (il_user_flock l), l_len (il_user_flock l), il_end l < 0)) \<circ> inodelk_list)
      (dom_list (inodes ?w 5)) = [[(F_WRLCK, 3, 20, 10, False), (F_WRLCK, 2, 10, LLONG_MAX, True)]]"
    by code_simp
  then obtain d a b where d: "dom_list (inodes ?w 5) = [d]" "inodelk_list d = [a, b]"
    "il_type a = F_WRLCK" "il_client a = 3" "l_start (il_user_flock a) = 20" "l_len (il_user_flock a) = 10"
    "il_type b = F_WRLCK" "il_client b = 2" "l_start (il_user_flock b) = 10" "l_len (il_user_flock b) = LLONG_MAX" "il_end b < 0"
    by (auto simp: map_eq_Cons_conv)
  have "\<not> same_inodelk_owner a b" using d by (simp add: same_inodelk_owner_def)
  then show ?thesis
    using r d by (intro exI [of _ ?w] exI [of _ d] exI [of _ a] exI [of _ b] conjI exI [of _ 20]) auto
qed

end
