(* ===== verification/Entrylk.thy ===== *)
theory Entrylk
  imports Inodelk
begin

text \<open>
  Entry locks, on the names in a directory: \<open>xlators/features/locks/src/entrylk.c\<close> and
  \<open>clrlk_clear_entrylk\<close> of \<open>clear.c\<close>.  The name NULL, here None, stands for all names.  The model
  has the conventions of \<open>Inodelk\<close>, from which it uses the kinds of the clear command.
\<close>

section \<open>Comparing locks\<close>

definition names_conflict :: "string option \<Rightarrow> string option \<Rightarrow> bool" where
  "names_conflict n1 n2 \<longleftrightarrow> n1 = None \<or> n2 = None \<or> n1 = n2"

definition names_equal :: "string option \<Rightarrow> string option \<Rightarrow> bool" where
  "names_equal n1 n2 \<longleftrightarrow> (n1 = None \<and> n2 = None) \<or> (n1 \<noteq> None \<and> n2 \<noteq> None \<and> n1 = n2)"

definition same_entrylk_owner :: "pl_entry_lock \<Rightarrow> pl_entry_lock \<Rightarrow> bool" where
  "same_entrylk_owner l1 l2 \<longleftrightarrow>
     is_same_lkowner (el_owner l1) (el_owner l2) \<and> el_client l1 = el_client l2"

definition conflicting_entrylks :: "pl_entry_lock \<Rightarrow> pl_entry_lock \<Rightarrow> bool" where
  "conflicting_entrylks l1 l2 \<longleftrightarrow>
     names_conflict (el_basename l1) (el_basename l2) \<and> \<not> same_entrylk_owner l1 l2"

definition stale_entrylk :: "locks_private \<Rightarrow> int \<Rightarrow> pl_entry_lock \<Rightarrow> pl_entry_lock \<Rightarrow> bool" where
  "stale_entrylk priv now candidate requested \<longleftrightarrow>
     names_conflict (el_basename candidate) (el_basename requested) \<and>
     now - el_granted_time candidate > revocation_secs priv"

section \<open>One domain\<close>

definition entrylk_grantable :: "pl_dom \<Rightarrow> pl_entry_lock \<Rightarrow> pl_entry_lock option" where
  "entrylk_grantable dm lock = find (\<lambda>tmp. conflicting_entrylks tmp lock) (entrylk_list dm)"

text \<open>\<open>__blocked_entrylk_conflict\<close> answers with the lock it was asked about, not the one it found.\<close>

definition blocked_entrylk_conflict :: "pl_dom \<Rightarrow> pl_entry_lock \<Rightarrow> pl_entry_lock option" where
  "blocked_entrylk_conflict dm lock =
     map_option (\<lambda>tmp. lock)
       (find (\<lambda>tmp. names_conflict (el_basename tmp) (el_basename lock)) (blocked_entrylks dm))"

definition owner_has_entrylk :: "pl_dom \<Rightarrow> pl_entry_lock \<Rightarrow> bool" where
  "owner_has_entrylk dm newlock \<longleftrightarrow>
     (\<exists>l \<in> set (entrylk_list dm). same_entrylk_owner l newlock) \<or>
     (\<exists>l \<in> set (blocked_entrylks dm). same_entrylk_owner l newlock)"

text \<open>The lock on exactly this name if there is one, else a lock on all names; the last one of
  the list counts.\<close>

definition find_most_matching_lock :: "pl_dom \<Rightarrow> string option \<Rightarrow> pl_entry_lock option" where
  "find_most_matching_lock dm basename =
     (let (exact, all) = fold (\<lambda>lock (exact, all).
            if el_basename lock = None then (exact, Some lock)
            else if names_equal (el_basename lock) basename then (Some lock, all)
            else (exact, all)) (entrylk_list dm) (None, None)
      in if exact \<noteq> None then exact else all)"

definition check_entrylk_on_basename :: "pl_dom list \<Rightarrow> string \<Rightarrow> bool" where
  "check_entrylk_on_basename doms basename \<longleftrightarrow>
     (\<exists>dm \<in> set doms. case find_most_matching_lock dm (Some basename) of
        None \<Rightarrow> False | Some conf \<Rightarrow> el_basename conf \<noteq> None)"

definition find_matching_lock :: "pl_dom \<Rightarrow> pl_entry_lock \<Rightarrow> pl_entry_lock option" where
  "find_matching_lock dm lock =
     find (\<lambda>tmp. names_equal (el_basename lock) (el_basename tmp) \<and> same_entrylk_owner lock tmp \<and>
                 el_type lock = el_type tmp) (entrylk_list dm)"

definition lock_entrylk ::
  "int \<Rightarrow> pl_entry_lock \<Rightarrow> bool \<Rightarrow> pl_dom \<Rightarrow> int \<times> pl_entry_lock \<times> pl_dom" where
  "lock_entrylk now lock nonblock dm =
     (if entrylk_grantable dm lock \<noteq> None then
        if nonblock then (- EAGAIN, lock, dm)
        else (- EAGAIN, lock, dm\<lparr> blocked_entrylks := blocked_entrylks dm @ [lock] \<rparr>)
      else if blocked_entrylk_conflict dm lock \<noteq> None \<and> \<not> owner_has_entrylk dm lock then
        if nonblock then (- EAGAIN, lock, dm)
        else (- EAGAIN, lock, dm\<lparr> blocked_entrylks := blocked_entrylks dm @ [lock] \<rparr>)
      else
        let lock' = lock\<lparr> el_ref := el_ref lock + 1, el_granted_time := now \<rparr>
        in (0, lock', dm\<lparr> entrylk_list := lock' # entrylk_list dm \<rparr>))"

definition unlock_entrylk :: "pl_dom \<Rightarrow> pl_entry_lock \<Rightarrow> pl_entry_lock option \<times> pl_dom" where
  "unlock_entrylk dm lock =
     (case find_matching_lock dm lock of
        None \<Rightarrow> (None, dm)
      | Some ret_lock \<Rightarrow>
          (Some ret_lock, dm\<lparr> entrylk_list := filter (\<lambda>l. el_id l \<noteq> el_id ret_lock) (entrylk_list dm) \<rparr>))"

definition entrylk_set :: "nat \<Rightarrow> (pl_entry_lock \<Rightarrow> pl_entry_lock) \<Rightarrow> pl_dom \<Rightarrow> pl_dom" where
  "entrylk_set i f dm =
     dm\<lparr> entrylk_list := map (\<lambda>l. if el_id l = i then f l else l) (entrylk_list dm),
         blocked_entrylks := map (\<lambda>l. if el_id l = i then f l else l) (blocked_entrylks dm) \<rparr>"

definition pl_entrylk_unref :: "pl_entry_lock \<Rightarrow> pl_entry_lock \<times> lk_event list" where
  "pl_entrylk_unref lock =
     (lock\<lparr> el_ref := el_ref lock - 1 \<rparr>,
      if el_ref lock - 1 = 0 then [Freed_entrylk (el_id lock)] else [])"

fun grant_entry_list ::
  "int \<Rightarrow> pl_entry_lock list \<Rightarrow> pl_dom \<Rightarrow> pl_entry_lock list \<Rightarrow> pl_dom \<times> pl_entry_lock list" where
  "grant_entry_list now [] dm granted = (dm, granted)"
| "grant_entry_list now (bl # ls) dm granted =
     (let (bl_ret, bl', dm') = lock_entrylk now bl False dm
      in grant_entry_list now ls dm' (if bl_ret = 0 then bl' # granted else granted))"

definition grant_blocked_entry_locks_locked :: "int \<Rightarrow> pl_dom \<Rightarrow> pl_dom \<times> pl_entry_lock list" where
  "grant_blocked_entry_locks_locked now dm =
     grant_entry_list now (blocked_entrylks dm) (dm\<lparr> blocked_entrylks := [] \<rparr>) []"

definition grant_blocked_entry_locks :: "int \<Rightarrow> pl_dom \<Rightarrow> pl_dom \<times> lk_event list" where
  "grant_blocked_entry_locks now dm =
     (let (dm1, granted) = grant_blocked_entry_locks_locked now dm;
          dm2 = fold (\<lambda>l. entrylk_set (el_id l)
                   (\<lambda>x. fst (pl_entrylk_unref (x\<lparr> el_frame := None \<rparr>)))) granted dm1
      in (dm2, map (\<lambda>l. Unwind_entrylk (el_frame l) 0 0) granted
                 @ concat (map (\<lambda>l. snd (pl_entrylk_unref l)) granted)))"

section \<open>Clearing locks\<close>

record elk_state =
  es_ino :: nat
  es_dom :: pl_dom
  es_refs :: int
  es_lockers :: "locker list"

text \<open>The option of the clear command is a name, or none for every lock.\<close>

definition name_matches :: "string option \<Rightarrow> pl_entry_lock \<Rightarrow> bool" where
  "name_matches opts l \<longleftrightarrow> opts = None \<or> el_basename l \<noteq> None \<and> el_basename l = opts"

definition clear_blocked_entrylks :: "string option \<Rightarrow> elk_state \<Rightarrow> elk_state \<times> lk_event list \<times> int" where
  "clear_blocked_entrylks opts st =
     (let dm = es_dom st;
          out = filter (name_matches opts) (blocked_entrylks dm)
      in (st\<lparr> es_dom := dm\<lparr> blocked_entrylks := filter (\<lambda>l. \<not> name_matches opts l) (blocked_entrylks dm) \<rparr>,
              es_lockers := del_lockers (es_ino st) (map el_id out) (es_lockers st) \<rparr>,
          concat (map (\<lambda>l. Unwind_entrylk (el_frame l) (-1) EAGAIN # snd (pl_entrylk_unref l)) out),
          int (length out)))"

definition clear_granted_entrylks :: "string option \<Rightarrow> elk_state \<Rightarrow> elk_state \<times> lk_event list \<times> int" where
  "clear_granted_entrylks opts st =
     (let dm = es_dom st;
          out = filter (name_matches opts) (entrylk_list dm)
      in (st\<lparr> es_dom := dm\<lparr> entrylk_list := filter (\<lambda>l. \<not> name_matches opts l) (entrylk_list dm) \<rparr>,
              es_lockers := del_lockers (es_ino st) (map el_id out) (es_lockers st) \<rparr>,
          concat (map (\<lambda>l. snd (pl_entrylk_unref l)) out),
          int (length out)))"

text \<open>The waiting locks are tried again only after granted ones were cleared.\<close>

definition clrlk_clear_entrylk ::
  "int \<Rightarrow> clrlk_kind \<Rightarrow> string option \<Rightarrow> elk_state \<Rightarrow> (int \<times> int \<times> int) \<times> elk_state \<times> lk_event list" where
  "clrlk_clear_entrylk now kind opts st =
     (let (st1, evs1, bcount) =
            (if kind = CLRLK_GRANTED then (st, [], 0) else clear_blocked_entrylks opts st)
      in if kind = CLRLK_BLOCKED then ((0, bcount, 0), st1, evs1)
         else
           let (st2, evs2, gcount) = clear_granted_entrylks opts st1;
               (dm, evs3) = grant_blocked_entry_locks now (es_dom st2)
           in ((0, bcount, gcount), st2\<lparr> es_dom := dm \<rparr>, evs1 @ evs2 @ evs3))"

definition entrylk_prune_stale ::
  "locks_private \<Rightarrow> int \<Rightarrow> pl_entry_lock \<Rightarrow> elk_state \<Rightarrow> elk_state \<times> lk_event list" where
  "entrylk_prune_stale priv now lock st =
     (let dm = es_dom st;
          kind = (if revocation_clear_all priv then CLRLK_ALL else CLRLK_GRANTED);
          revoke = (entrylk_list dm \<noteq> [] \<and>
            ((\<exists>l \<in> set (entrylk_list dm). stale_entrylk priv now l lock) \<or>
             revocation_max_blocked priv \<noteq> 0 \<and>
               max_blocked_hit (revocation_max_blocked priv) (blocked_entrylks dm)))
      in if revoke then snd (clrlk_clear_entrylk now kind None st) else (st, []))"

section \<open>Requests\<close>

definition new_entrylk_lock ::
  "nat \<Rightarrow> string option \<Rightarrow> entrylk_type \<Rightarrow> string \<Rightarrow> nat \<Rightarrow> nat \<Rightarrow> int \<Rightarrow> gf_lkowner \<Rightarrow> string option \<Rightarrow> pl_entry_lock" where
  "new_entrylk_lock addr basename type dom_name fr cl pid own conn_id =
     \<lparr> el_id = addr, el_ref = 1, el_frame = Some fr, el_volume = dom_name, el_basename = basename,
       el_type = type, el_granted_time = 0, el_client = cl, el_owner = own, el_client_pid = pid,
       el_connection_id = conn_id \<rparr>"

text \<open>The switch of \<open>pl_common_entrylk\<close> and what follows it: the answer, None for a call that is
  answered later, the state and the events.\<close>

definition pl_common_entrylk_switch ::
  "int \<Rightarrow> entrylk_cmd \<Rightarrow> bool \<Rightarrow> pl_entry_lock \<Rightarrow> elk_state \<Rightarrow> (int \<times> int) option \<times> elk_state \<times> lk_event list" where
  "pl_common_entrylk_switch now cmd ctx reqlock st =
     (if cmd = ENTRYLK_LOCK \<or> cmd = ENTRYLK_LOCK_NB then
        let nonblock = (cmd = ENTRYLK_LOCK_NB);
            (ret, lock', dm) = lock_entrylk now reqlock nonblock (es_dom st);
            lockers = (if ctx \<and> (ret = 0 \<or> \<not> nonblock)
                       then (el_client reqlock, es_ino st, el_id reqlock) # es_lockers st
                       else es_lockers st);
            dm' = (if ret = 0
                   then entrylk_set (el_id reqlock)
                          (\<lambda>x. fst (pl_entrylk_unref (x\<lparr> el_frame := None \<rparr>))) dm
                   else dm);
            freed = (if ret = - EAGAIN \<and> \<not> nonblock then [] else snd (pl_entrylk_unref lock'));
            refs = (if ret = - EAGAIN \<and> nonblock then es_refs st - 1 else es_refs st)
        in (if ret = - EAGAIN \<and> \<not> nonblock then None
            else if ret = 0 then Some (0, 0) else Some (-1, - ret),
            st\<lparr> es_dom := dm', es_refs := refs, es_lockers := lockers \<rparr>, freed)
      else if cmd = ENTRYLK_UNLOCK then
        let (unlocked, dm) = unlock_entrylk (es_dom st) reqlock;
            (dm', evs) = grant_blocked_entry_locks now dm
        in case unlocked of
             None \<Rightarrow> (Some (-1, EINVAL), st\<lparr> es_dom := dm', es_refs := es_refs st - 1 \<rparr>,
                      snd (pl_entrylk_unref reqlock) @ evs)
           | Some l \<Rightarrow> (Some (0, 0),
                 st\<lparr> es_dom := dm', es_refs := es_refs st - 1 - 1,
                      es_lockers := del_lockers (es_ino st) [el_id l] (es_lockers st) \<rparr>,
                 snd (pl_entrylk_unref l) @ snd (pl_entrylk_unref reqlock) @ evs)
      else (Some (-1, 0), st\<lparr> es_refs := es_refs st - 1 \<rparr>, []))"

text \<open>The same from the reference on the inode on.\<close>

definition pl_common_entrylk_run ::
  "locks_private \<Rightarrow> int \<Rightarrow> bool \<Rightarrow> entrylk_cmd \<Rightarrow> bool \<Rightarrow> pl_entry_lock \<Rightarrow> elk_state \<Rightarrow>
     (int \<times> int) option \<times> elk_state \<times> lk_event list" where
  "pl_common_entrylk_run priv now monkey cmd ctx reqlock st =
     (let st0 = st\<lparr> es_refs := es_refs st + 1 \<rparr> in
      if revocation_secs priv \<noteq> 0 \<and> cmd = ENTRYLK_UNLOCK \<and> monkey_unlocking priv \<and> monkey then
        (Some (0, 0), st0\<lparr> es_refs := es_refs st0 - 1 \<rparr>, snd (pl_entrylk_unref reqlock))
      else
        let (st1, evs1) =
              (if revocation_secs priv \<noteq> 0 \<and> cmd \<noteq> ENTRYLK_UNLOCK
               then entrylk_prune_stale priv now reqlock st0 else (st0, []));
            (answer, st2, evs2) = pl_common_entrylk_switch now cmd ctx reqlock st1
        in (answer, st2, evs1 @ evs2))"

definition pl_common_entrylk ::
  "locks_private \<Rightarrow> int \<Rightarrow> bool \<Rightarrow> nat \<Rightarrow> nat \<Rightarrow> nat \<Rightarrow> int \<Rightarrow> gf_lkowner \<Rightarrow> string option \<Rightarrow>
     string \<Rightarrow> nat \<Rightarrow> string option \<Rightarrow> entrylk_cmd \<Rightarrow> entrylk_type \<Rightarrow> locks_world \<Rightarrow> locks_world \<times> lk_event list" where
  "pl_common_entrylk priv now monkey addr fr cl pid own conn_id volume ino basename cmd type w =
     (let pinode = inodes w ino;
          (dm, doms) = get_domain (dom_list pinode) volume;
          reqlock = new_entrylk_lock addr basename type (domain dm) fr cl pid own conn_id;
          (answer, st, evs) = pl_common_entrylk_run priv now monkey cmd (cl \<noteq> 0) reqlock
            \<lparr> es_ino = ino, es_dom = dm, es_refs = inode_refs pinode, es_lockers = entrylk_lockers w \<rparr>;
          w' = w\<lparr> inodes := (inodes w)(ino := \<lparr> dom_list = put_domain doms (es_dom st),
                                                inode_refs = es_refs st \<rparr>),
                  entrylk_lockers := es_lockers st \<rparr>
      in (w', evs @ (case answer of None \<Rightarrow> []
                     | Some (op_ret, op_errno) \<Rightarrow> [Unwind_entrylk (Some fr) op_ret op_errno])))"

section \<open>Disconnect of a client\<close>

definition granted_entrylk_at :: "nat \<Rightarrow> dom_inode \<Rightarrow> pl_entry_lock option" where
  "granted_entrylk_at i pin = find (\<lambda>l. el_id l = i) (concat (map entrylk_list (dom_list pin)))"

definition blocked_entrylk_at :: "nat \<Rightarrow> dom_inode \<Rightarrow> pl_entry_lock option" where
  "blocked_entrylk_at i pin = find (\<lambda>l. el_id l = i) (concat (map blocked_entrylks (dom_list pin)))"

definition drop_granted_entrylk :: "nat \<Rightarrow> dom_inode \<Rightarrow> dom_inode" where
  "drop_granted_entrylk i pin =
     pin\<lparr> dom_list := map (\<lambda>d. d\<lparr> entrylk_list := filter (\<lambda>l. el_id l \<noteq> i) (entrylk_list d) \<rparr>)
            (dom_list pin) \<rparr>"

definition drop_blocked_entrylk :: "nat \<Rightarrow> dom_inode \<Rightarrow> dom_inode" where
  "drop_blocked_entrylk i pin =
     pin\<lparr> dom_list := map (\<lambda>d. d\<lparr> blocked_entrylks := filter (\<lambda>l. el_id l \<noteq> i) (blocked_entrylks d) \<rparr>)
            (dom_list pin) \<rparr>"

fun entrylk_cleanup_collect ::
  "(nat \<times> nat) list \<Rightarrow> (nat \<Rightarrow> dom_inode) \<Rightarrow> (nat \<times> pl_entry_lock) list \<Rightarrow> (nat \<times> pl_entry_lock) list \<Rightarrow>
     (nat \<Rightarrow> dom_inode) \<times> (nat \<times> pl_entry_lock) list \<times> (nat \<times> pl_entry_lock) list" where
  "entrylk_cleanup_collect [] inos released unwind = (inos, released, unwind)"
| "entrylk_cleanup_collect ((ino, i) # ls) inos released unwind =
     (case granted_entrylk_at i (inos ino) of
        Some l \<Rightarrow> entrylk_cleanup_collect ls (inos(ino := drop_granted_entrylk i (inos ino)))
                    (released @ [(ino, l)]) unwind
      | None \<Rightarrow>
         (case blocked_entrylk_at i (inos ino) of
            Some l \<Rightarrow> entrylk_cleanup_collect ls (inos(ino := drop_blocked_entrylk i (inos ino)))
                        released (unwind @ [(ino, l)])
          | None \<Rightarrow> entrylk_cleanup_collect ls inos released unwind))"

fun entrylk_cleanup_release ::
  "int \<Rightarrow> (nat \<times> pl_entry_lock) list \<Rightarrow> (nat \<Rightarrow> dom_inode) \<Rightarrow> lk_event list \<Rightarrow>
     (nat \<Rightarrow> dom_inode) \<times> lk_event list" where
  "entrylk_cleanup_release now [] inos evs = (inos, evs)"
| "entrylk_cleanup_release now ((ino, l) # ls) inos evs =
     (let (dm, doms) = get_domain (dom_list (inos ino)) (el_volume l);
          (dm', evs1) = grant_blocked_entry_locks now dm
      in entrylk_cleanup_release now ls
           (inos(ino := \<lparr> dom_list = put_domain doms dm', inode_refs = inode_refs (inos ino) - 1 \<rparr>))
           (evs @ evs1 @ snd (pl_entrylk_unref l)))"

definition pl_entrylk_client_cleanup :: "int \<Rightarrow> nat \<Rightarrow> locks_world \<Rightarrow> locks_world \<times> lk_event list" where
  "pl_entrylk_client_cleanup now cl w =
     (let (inos1, released, unwind) =
            entrylk_cleanup_collect (lockers_of cl (entrylk_lockers w)) (inodes w) [] [];
          evs1 = map (\<lambda>(ino, l). Unwind_entrylk (el_frame l) (-1) EAGAIN)
                   (filter (\<lambda>(ino, l). el_frame l \<noteq> None) unwind);
          (inos2, evs2) = entrylk_cleanup_release now (released @ unwind) inos1 evs1
      in (w\<lparr> inodes := inos2,
             entrylk_lockers := filter (\<lambda>(c, ino, i). c \<noteq> cl) (entrylk_lockers w) \<rparr>, evs2))"

definition get_entrylk_count :: "pl_dom list \<Rightarrow> int" where
  "get_entrylk_count doms =
     sum_list (map (\<lambda>dm. int (length (entrylk_list dm)) + int (length (blocked_entrylks dm))) doms)"

section \<open>Refinement of the domain operations\<close>

definition elk_conflict :: "pl_entry_lock \<Rightarrow> pl_entry_lock \<Rightarrow> bool" where
  "elk_conflict l1 l2 \<longleftrightarrow> names_conflict (el_basename l1) (el_basename l2)"

definition elk_core :: "pl_entry_lock \<Rightarrow> pl_entry_lock" where
  "elk_core l = l\<lparr> el_ref := 0, el_frame := None, el_granted_time := 0 \<rparr>"

definition entrylk_kind :: "pl_entry_lock lock_kind" where
  "entrylk_kind = \<lparr> kG = entrylk_list, kW = blocked_entrylks, kkey = el_id, kclient = el_client,
     kvol = el_volume, kref = el_ref, kcore = elk_core, kconf = elk_conflict,
     ksame = same_entrylk_owner \<rparr>"

lemma entrylk_kind_simps [simp]:
  "kG entrylk_kind = entrylk_list" "kW entrylk_kind = blocked_entrylks" "kkey entrylk_kind = el_id"
  "kclient entrylk_kind = el_client" "kvol entrylk_kind = el_volume" "kref entrylk_kind = el_ref"
  "kcore entrylk_kind = elk_core" "kconf entrylk_kind = elk_conflict"
  "ksame entrylk_kind = same_entrylk_owner"
  by (simp_all add: entrylk_kind_def)

lemma elk_core_simps [simp]:
  "el_id (elk_core l) = el_id l" "el_volume (elk_core l) = el_volume l" "el_client (elk_core l) = el_client l"
  "elk_conflict (elk_core a) b = elk_conflict a b" "elk_conflict a (elk_core b) = elk_conflict a b"
  "same_entrylk_owner (elk_core a) b = same_entrylk_owner a b"
  "same_entrylk_owner a (elk_core b) = same_entrylk_owner a b"
  by (simp_all add: elk_core_def elk_conflict_def same_entrylk_owner_def)

lemma elk_core_update [simp]:
  "elk_core (l\<lparr> el_ref := n, el_granted_time := t \<rparr>) = elk_core l"
  "elk_core (fst (pl_entrylk_unref (l\<lparr> el_frame := f \<rparr>))) = elk_core l"
  "el_id (fst (pl_entrylk_unref (l\<lparr> el_frame := f \<rparr>))) = el_id l"
  "el_ref (fst (pl_entrylk_unref (l\<lparr> el_frame := f \<rparr>))) = el_ref l - 1"
  by (simp_all add: elk_core_def pl_entrylk_unref_def)

lemma elk_conflict_sym: "elk_conflict a b \<longleftrightarrow> elk_conflict b a"
  by (auto simp: elk_conflict_def names_conflict_def)

lemma same_entrylk_owner_sym: "same_entrylk_owner a b \<longleftrightarrow> same_entrylk_owner b a"
  by (auto simp: same_entrylk_owner_def is_same_lkowner_sym)

abbreviation elk_abs :: "pl_dom \<Rightarrow> pl_entry_lock dom_spec" where
  "elk_abs \<equiv> dom_abs entrylk_kind"

abbreviation elk_ok :: "pl_entry_lock \<Rightarrow> pl_entry_lock dom_spec \<Rightarrow> bool" where
  "elk_ok \<equiv> spec_ok elk_conflict same_entrylk_owner"

abbreviation elk_lock :: "pl_entry_lock \<Rightarrow> pl_entry_lock dom_spec \<Rightarrow> pl_entry_lock dom_spec" where
  "elk_lock \<equiv> spec_lock elk_conflict same_entrylk_owner"

lemma elk_ok_iff:
  "elk_ok (elk_core lock) (elk_abs dm) \<longleftrightarrow>
     entrylk_grantable dm lock = None \<and> (blocked_entrylk_conflict dm lock = None \<or> owner_has_entrylk dm lock)"
  by (auto simp: spec_ok_def dom_abs_def entrylk_grantable_def blocked_entrylk_conflict_def
      owner_has_entrylk_def find_None_all bex_Un conflicting_entrylks_def elk_conflict_sym [of _ lock]
      same_entrylk_owner_sym [of _ lock] simp flip: elk_conflict_def)

lemma lock_entrylk_cases:
  "lock_entrylk now lock nonblock dm =
     (if elk_ok (elk_core lock) (elk_abs dm)
      then (0, lock\<lparr> el_ref := el_ref lock + 1, el_granted_time := now \<rparr>,
            dm\<lparr> entrylk_list := lock\<lparr> el_ref := el_ref lock + 1, el_granted_time := now \<rparr> # entrylk_list dm \<rparr>)
      else (- EAGAIN, lock,
            if \<not> nonblock then dm\<lparr> blocked_entrylks := blocked_entrylks dm @ [lock] \<rparr> else dm))"
  unfolding lock_entrylk_def elk_ok_iff by (auto simp: Let_def)

lemma lock_entrylk_refines:
  "elk_abs (snd (snd (lock_entrylk now lock False dm))) = elk_lock (elk_core lock) (elk_abs dm)"
  by (simp add: lock_entrylk_cases spec_lock_def dom_abs_def)

lemma lock_entrylk_domain [simp]: "domain (snd (snd (lock_entrylk now lock nonblock dm))) = domain dm"
  by (simp add: lock_entrylk_cases)

lemma grant_entry_list_refines:
  "elk_abs (fst (grant_entry_list now ls dm gr)) = fold elk_lock (map elk_core ls) (elk_abs dm)"
  "domain (fst (grant_entry_list now ls dm gr)) = domain dm"
  by (induction ls arbitrary: dm gr)
    (simp_all add: case_prod_beta Let_def lock_entrylk_refines del: fold_simps add: fold_simps)

lemma entrylk_set_abs:
  assumes "\<And>l. elk_core (f l) = elk_core l"
  shows "elk_abs (entrylk_set i f dm) = elk_abs dm" "domain (entrylk_set i f dm) = domain dm"
  using assms by (auto simp: entrylk_set_def dom_abs_def)

lemma fold_entrylk_set_abs:
  assumes "\<And>l. elk_core (f l) = elk_core l"
  shows "elk_abs (fold (\<lambda>l. entrylk_set (el_id l) f) ls dm) = elk_abs dm"
    "domain (fold (\<lambda>l. entrylk_set (el_id l) f) ls dm) = domain dm"
  by (induction ls arbitrary: dm) (simp_all add: entrylk_set_abs [OF assms])

lemma grant_blocked_entry_locks_refines:
  "elk_abs (fst (grant_blocked_entry_locks now dm)) =
     spec_grant elk_conflict same_entrylk_owner (elk_abs dm)"
  "domain (fst (grant_blocked_entry_locks now dm)) = domain dm"
  by (simp_all add: grant_blocked_entry_locks_def grant_blocked_entry_locks_locked_def case_prod_beta Let_def
      fold_entrylk_set_abs grant_entry_list_refines spec_grant_def)
    (simp add: dom_abs_def)

text \<open>Reference counts, as for inode locks: a lock that is granted from the queue has two references until the call
  that waited for it is answered, every other lock has one.\<close>

definition elk_refs :: "pl_entry_lock list \<Rightarrow> pl_dom \<Rightarrow> pl_entry_lock list \<Rightarrow> bool" where
  "elk_refs ls dm gr \<longleftrightarrow>
     distinct (map el_id (entrylk_list dm @ blocked_entrylks dm @ ls)) \<and> distinct (map el_id gr) \<and>
     el_id ` set gr \<subseteq> el_id ` set (entrylk_list dm) \<and>
     (\<forall>l \<in> set (blocked_entrylks dm) \<union> set ls. el_ref l = 1) \<and>
     (\<forall>l \<in> set (entrylk_list dm). el_ref l = (if el_id l \<in> el_id ` set gr then 2 else 1))"

lemma grant_entry_list_refs:
  "elk_refs ls dm gr \<Longrightarrow> case grant_entry_list now ls dm gr of (dm', gr') \<Rightarrow> elk_refs [] dm' gr'"
proof (induction ls arbitrary: dm gr)
  case Nil
  then show ?case by simp
next
  case (Cons b ls)
  show ?case
  proof (cases "elk_ok (elk_core b) (elk_abs dm)")
    case True
    let ?b = "b\<lparr> el_ref := el_ref b + 1, el_granted_time := now \<rparr>"
    have "elk_refs ls (dm\<lparr> entrylk_list := ?b # entrylk_list dm \<rparr>) (?b # gr)"
      using Cons.prems by (auto simp: elk_refs_def image_iff) (metis+)?
    from Cons.IH [OF this] True show ?thesis by (simp add: lock_entrylk_cases)
  next
    case False
    have "elk_refs ls (dm\<lparr> blocked_entrylks := blocked_entrylks dm @ [b] \<rparr>) gr"
      using Cons.prems by (auto simp: elk_refs_def)
    from Cons.IH [OF this] False show ?thesis by (simp add: lock_entrylk_cases)
  qed
qed

lemma fold_entrylk_set:
  assumes "\<And>l. el_id (f l) = el_id l" "distinct (map el_id gr)"
  shows "entrylk_list (fold (\<lambda>l. entrylk_set (el_id l) f) gr dm) =
      map (\<lambda>l. if el_id l \<in> el_id ` set gr then f l else l) (entrylk_list dm)"
    "blocked_entrylks (fold (\<lambda>l. entrylk_set (el_id l) f) gr dm) =
      map (\<lambda>l. if el_id l \<in> el_id ` set gr then f l else l) (blocked_entrylks dm)"
  using assms(2)
  by (induction gr arbitrary: dm) (auto simp: entrylk_set_def assms(1) image_iff)

lemma grant_blocked_entry_locks_refs:
  assumes "distinct (map el_id (dom_locks entrylk_kind dm))" "\<forall>l \<in> set (dom_locks entrylk_kind dm). el_ref l = 1"
  shows "\<forall>l \<in> set (dom_locks entrylk_kind (fst (grant_blocked_entry_locks now dm))). el_ref l = 1"
proof -
  have "elk_refs (blocked_entrylks dm) (dm\<lparr> blocked_entrylks := [] \<rparr>) []"
    using assms by (auto simp: elk_refs_def dom_locks_def)
  moreover obtain dm1 gr where g: "grant_blocked_entry_locks_locked now dm = (dm1, gr)" by fastforce
  ultimately have r: "elk_refs [] dm1 gr"
    using grant_entry_list_refs [of "blocked_entrylks dm" "dm\<lparr> blocked_entrylks := [] \<rparr>" "[]" now]
    by (simp add: grant_blocked_entry_locks_locked_def)
  then have "distinct (map el_id gr)" by (simp add: elk_refs_def)
  note f = fold_entrylk_set [where f = "\<lambda>x. fst (pl_entrylk_unref (x\<lparr> el_frame := None \<rparr>))",
      OF elk_core_update(3) this, of dm1]
  have "el_id ` set (blocked_entrylks dm1) \<inter> el_id ` set gr = {}"
    using r by (simp add: elk_refs_def) blast
  then show ?thesis
    using r by (auto simp: grant_blocked_entry_locks_def g dom_locks_def f elk_refs_def)
qed

lemma drop_granted_entrylk_without:
  "\<forall>d \<in> set (dom_list pin). \<forall>l \<in> set (blocked_entrylks d). el_id l \<noteq> i \<Longrightarrow>
     without_lock entrylk_kind i pin (drop_granted_entrylk i pin)"
  unfolding without_lock_def drop_granted_entrylk_def
  by (intro conjI exI [of _ "\<lambda>d. d\<lparr> entrylk_list := filter (\<lambda>l. el_id l \<noteq> i) (entrylk_list d) \<rparr>"])
    (auto simp: filter_id_conv)

lemma drop_blocked_entrylk_without:
  "\<forall>d \<in> set (dom_list pin). \<forall>l \<in> set (entrylk_list d). el_id l \<noteq> i \<Longrightarrow>
     without_lock entrylk_kind i pin (drop_blocked_entrylk i pin)"
  unfolding without_lock_def drop_blocked_entrylk_def
  by (intro conjI exI [of _ "\<lambda>d. d\<lparr> blocked_entrylks := filter (\<lambda>l. el_id l \<noteq> i) (blocked_entrylks d) \<rparr>"])
    (auto simp: filter_id_conv)

interpretation elk: lock_table entrylk_kind grant_blocked_entry_locks drop_granted_entrylk
  drop_blocked_entrylk entrylk_cleanup_collect entrylk_cleanup_release "\<lambda>l. snd (pl_entrylk_unref l)"
  by unfold_locales
    (simp_all add: elk_conflict_sym same_entrylk_owner_def is_same_lkowner_sym allocate_domain_def
      grant_blocked_entry_locks_refines grant_blocked_entry_locks_refs drop_granted_entrylk_without
      drop_blocked_entrylk_without granted_entrylk_at_def blocked_entrylk_at_def
      split: option.splits)

section \<open>The invariant under requests\<close>

abbreviation elk_sess_ok :: "nat \<Rightarrow> (nat \<times> nat) set \<Rightarrow> locker list \<Rightarrow> elk_state \<Rightarrow> bool" where
  "elk_sess_ok ino Oth ls0 st \<equiv> es_ino st = ino \<and> sess_ok entrylk_kind ino Oth ls0 (es_dom st) (es_lockers st)"

abbreviation elk_sess_pre :: "nat \<Rightarrow> (nat \<times> nat) set \<Rightarrow> locker list \<Rightarrow> elk_state \<Rightarrow> bool" where
  "elk_sess_pre ino Oth ls0 st \<equiv> es_ino st = ino \<and> sess_pre entrylk_kind ino Oth ls0 (es_dom st) (es_lockers st)"

abbreviation elk_ids :: "pl_dom \<Rightarrow> nat set" where
  "elk_ids d \<equiv> el_id ` set (dom_locks entrylk_kind d)"

lemma grant_entrylk_ids [simp]: "elk_ids (fst (grant_blocked_entry_locks now d)) = elk_ids d"
  using mset_eq_setD [OF elk.grant_keys [of now d]] by simp

lemma length_grant_entrylk [simp]:
  "length (dom_locks entrylk_kind (fst (grant_blocked_entry_locks now d))) = length (dom_locks entrylk_kind d)"
  using arg_cong [OF elk.grant_keys [of now d], of size] by simp

lemma clear_blocked_entrylk_sess:
  assumes "elk_sess_pre ino Oth ls0 st"
  shows "elk_sess_pre ino Oth ls0 (fst (clear_blocked_entrylks opts st))"
proof -
  let ?st' = "fst (clear_blocked_entrylks opts st)" and ?d = "es_dom st"
  have dist: "set (entrylk_list ?d) \<inter> set (blocked_entrylks ?d) = {}"
    using sess_preD(2) [OF conjunct2 [OF assms]] by (auto simp: dom_locks_def)
  have "sess_pre entrylk_kind ino Oth ls0 (es_dom ?st')
      (del_lockers ino (map el_id (filter (name_matches opts) (blocked_entrylks ?d))) (es_lockers st))"
    by (rule sess_pre_remove [OF conjunct2 [OF assms], where P = "\<lambda>l. True" and Q = "\<lambda>l. \<not> name_matches opts l"])
      (use dist in \<open>auto simp: clear_blocked_entrylks_def Let_def dom_locks_def\<close>)
  then show ?thesis using assms by (simp add: clear_blocked_entrylks_def Let_def)
qed

lemma clear_granted_entrylk_sess:
  assumes "elk_sess_pre ino Oth ls0 st"
  shows "elk_sess_pre ino Oth ls0 (fst (clear_granted_entrylks opts st))"
proof -
  let ?st' = "fst (clear_granted_entrylks opts st)" and ?d = "es_dom st"
  have dist: "set (entrylk_list ?d) \<inter> set (blocked_entrylks ?d) = {}"
    using sess_preD(2) [OF conjunct2 [OF assms]] by (auto simp: dom_locks_def)
  have "sess_pre entrylk_kind ino Oth ls0 (es_dom ?st')
      (del_lockers ino (map el_id (filter (name_matches opts) (entrylk_list ?d))) (es_lockers st))"
    by (rule sess_pre_remove [OF conjunct2 [OF assms], where P = "\<lambda>l. \<not> name_matches opts l" and Q = "\<lambda>l. True"])
      (use dist in \<open>auto simp: clear_granted_entrylks_def Let_def dom_locks_def\<close>)
  then show ?thesis using assms by (simp add: clear_granted_entrylks_def Let_def)
qed

text \<open>Clearing waiting locks by name leaves no lock without a reason: a lock on all names waits for
  a granted lock, a lock on another name waits for locks that stay.\<close>

lemma justified_filter:
  assumes j: "justified conf same (G, W)"
    and keep: "\<And>w x. w \<in> set W \<Longrightarrow> x \<in> set W \<Longrightarrow> P w \<Longrightarrow> \<not> P x \<Longrightarrow> conf w x \<Longrightarrow> \<forall>y. conf w y"
  shows "justified conf same (G, filter P W)"
  unfolding justified_def
proof (intro allI impI)
  fix front w rest
  assume "snd (G, filter P W) = front @ w # rest"
  then obtain us vs where u: "W = us @ w # vs" "front = filter P us" "P w"
    using filter_split [of P W front w rest] by auto
  then have r: "has_reason conf same G us w" using j by (auto simp: justified_def)
  show "has_reason conf same (fst (G, filter P W)) front w"
  proof (cases "\<forall>y. conf w y")
    case True
    then show ?thesis using r by (auto simp: has_reason_def)
  next
    case False
    then have "P x" if "x \<in> set us" "conf w x" for x using keep [of w x] that u by auto
    then show ?thesis using r False u(2) by (auto simp: has_reason_def)
  qed
qed

lemma clear_blocked_entrylk_ok:
  assumes "elk_sess_ok ino Oth ls0 st"
  shows "elk_sess_ok ino Oth ls0 (fst (clear_blocked_entrylks opts st))"
proof -
  have pre: "elk_sess_pre ino Oth ls0 st" and j: "justified elk_conflict same_entrylk_owner (elk_abs (es_dom st))"
    using assms by (auto simp: sess_ok_def dom_justified_def)
  have core: "name_matches opts (elk_core l) = name_matches opts l" for l
    by (simp add: name_matches_def elk_core_def)
  have "justified elk_conflict same_entrylk_owner
      (fst (elk_abs (es_dom st)), filter (\<lambda>l. \<not> name_matches opts l) (snd (elk_abs (es_dom st))))"
    using j by (intro justified_filter) (auto simp: name_matches_def elk_conflict_def names_conflict_def)
  moreover have "elk_abs (es_dom (fst (clear_blocked_entrylks opts st))) =
      (fst (elk_abs (es_dom st)), filter (\<lambda>l. \<not> name_matches opts l) (snd (elk_abs (es_dom st))))"
    by (simp add: clear_blocked_entrylks_def Let_def dom_abs_def filter_map comp_def core)
  ultimately show ?thesis
    using clear_blocked_entrylk_sess [OF pre, of opts] by (simp add: sess_ok_def dom_justified_def)
qed

lemma clear_entrylks_frame [simp]:
  "domain (es_dom (fst (clear_blocked_entrylks r st))) = domain (es_dom st)"
  "domain (es_dom (fst (clear_granted_entrylks r st))) = domain (es_dom st)"
  "es_refs (fst (clear_blocked_entrylks r st)) = es_refs st"
  "es_refs (fst (clear_granted_entrylks r st)) = es_refs st"
  by (simp_all add: clear_blocked_entrylks_def clear_granted_entrylks_def Let_def)

lemma clrlk_clear_entrylk_sess:
  assumes s: "elk_sess_ok ino Oth ls0 st"
  shows "elk_sess_ok ino Oth ls0 (fst (snd (clrlk_clear_entrylk now kind opts st)))"
    and "domain (es_dom (fst (snd (clrlk_clear_entrylk now kind opts st)))) = domain (es_dom st)"
    and "es_refs (fst (snd (clrlk_clear_entrylk now kind opts st))) = es_refs st"
    and "elk_ids (es_dom (fst (snd (clrlk_clear_entrylk now kind opts st)))) \<subseteq> elk_ids (es_dom st)"
proof -
  let ?st1 = "if kind = CLRLK_GRANTED then st else fst (clear_blocked_entrylks opts st)"
  let ?st2 = "fst (clear_granted_entrylks opts ?st1)"
  have eq: "fst (snd (clrlk_clear_entrylk now kind opts st)) =
      (if kind = CLRLK_BLOCKED then ?st1 else ?st2\<lparr> es_dom := fst (grant_blocked_entry_locks now (es_dom ?st2)) \<rparr>)"
    by (simp add: clrlk_clear_entrylk_def Let_def case_prod_beta)
  have s1: "elk_sess_ok ino Oth ls0 ?st1" using s clear_blocked_entrylk_ok [OF s] by auto
  then have "elk_sess_pre ino Oth ls0 ?st1" by (auto simp: sess_ok_def)
  from clear_granted_entrylk_sess [OF this, of opts] s1 elk.sess_grant
  show "elk_sess_ok ino Oth ls0 (fst (snd (clrlk_clear_entrylk now kind opts st)))"
    unfolding eq by auto
  show "domain (es_dom (fst (snd (clrlk_clear_entrylk now kind opts st)))) = domain (es_dom st)"
    "es_refs (fst (snd (clrlk_clear_entrylk now kind opts st))) = es_refs st"
    unfolding eq by (simp_all add: grant_blocked_entry_locks_refines)
  have "set (dom_locks entrylk_kind (es_dom ?st1)) \<subseteq> set (dom_locks entrylk_kind (es_dom st))"
    "set (dom_locks entrylk_kind (es_dom ?st2)) \<subseteq> set (dom_locks entrylk_kind (es_dom st))"
    by (auto simp: clear_blocked_entrylks_def clear_granted_entrylks_def Let_def dom_locks_def)
  then show "elk_ids (es_dom (fst (snd (clrlk_clear_entrylk now kind opts st)))) \<subseteq> elk_ids (es_dom st)"
    unfolding eq by auto
qed

lemma entrylk_prune_sess:
  assumes "elk_sess_ok ino Oth ls0 st"
  shows "elk_sess_ok ino Oth ls0 (fst (entrylk_prune_stale priv now lock st))"
    and "domain (es_dom (fst (entrylk_prune_stale priv now lock st))) = domain (es_dom st)"
    and "es_refs (fst (entrylk_prune_stale priv now lock st)) = es_refs st"
    and "elk_ids (es_dom (fst (entrylk_prune_stale priv now lock st))) \<subseteq> elk_ids (es_dom st)"
  using assms clrlk_clear_entrylk_sess [OF assms, of now _ None]
  by (auto simp: entrylk_prune_stale_def Let_def)

text \<open>A lock that is granted at once or put into the queue.\<close>

lemma lock_entrylk_sess:
  assumes s: "sess_ok entrylk_kind ino Oth ls0 d ls" and lock: "el_ref lock = 1" "el_volume lock = domain d"
    and fresh: "el_id lock \<notin> elk_ids d" "el_id lock \<notin> snd ` Oth"
    and l: "lock_entrylk now lock nonblock d = (ret, lock', dm)"
    and dm': "dm' = (if ret = 0 then entrylk_set (el_id lock)
                       (\<lambda>x. fst (pl_entrylk_unref (x\<lparr> el_frame := None \<rparr>))) dm else dm)"
    and put: "ret = 0 \<or> \<not> nonblock"
  shows "sess_ok entrylk_kind ino Oth ls0 dm'
      (if el_client lock \<noteq> 0 then ls @ [(el_client lock, ino, el_id lock)] else ls)"
    and "domain dm' = domain d"
    and "length (dom_locks entrylk_kind dm') = length (dom_locks entrylk_kind d) + 1"
proof -
  let ?f = "\<lambda>x. fst (pl_entrylk_unref (x\<lparr> el_frame := None \<rparr>))"
  have refs: "\<forall>x \<in> set (dom_locks entrylk_kind d). el_ref x = 1"
    using s by (auto simp: sess_ok_def sess_pre_def dom_ok_def)
  have "elk_abs dm = elk_lock (elk_core lock) (elk_abs d)"
    using l put by (auto simp: lock_entrylk_cases spec_lock_def dom_abs_def split: if_splits)
  then have abs: "elk_abs dm' = elk_lock (elk_core lock) (elk_abs d)"
    by (simp add: dm' entrylk_set_abs)
  have dom: "domain dm' = domain d"
    using l by (auto simp: dm' entrylk_set_abs lock_entrylk_cases split: if_splits)
  then show "domain dm' = domain d" .
  have new: "\<forall>x \<in> set (dom_locks entrylk_kind d). el_id x \<noteq> el_id lock" using fresh(1) by (metis imageI)
  then have "\<forall>x \<in> set (dom_locks entrylk_kind dm'). el_ref x = 1"
    using l refs lock(1)
    by (auto simp: dm' lock_entrylk_cases entrylk_set_def dom_locks_def pl_entrylk_unref_def ball_Un
        split: if_splits)
  then show "sess_ok entrylk_kind ino Oth ls0 dm'
      (if el_client lock \<noteq> 0 then ls @ [(el_client lock, ino, el_id lock)] else ls)"
    using elk.sess_lock [OF s, of dm' lock] dom lock(2) abs fresh(2) new by auto
  have "length (fst (elk_abs dm')) + length (snd (elk_abs dm')) = length (dom_locks entrylk_kind d) + 1"
    by (simp add: abs spec_lock_def) (simp add: dom_abs_def dom_locks_def)
  then show "length (dom_locks entrylk_kind dm') = length (dom_locks entrylk_kind d) + 1"
    by (simp add: dom_abs_def dom_locks_def)
qed

lemma entrylk_unlock_sess:
  assumes s: "sess_ok entrylk_kind ino Oth ls0 d ls"
    and u: "unlock_entrylk d lock = (Some retlock, dm)"
  shows "sess_ok entrylk_kind ino Oth ls0 (fst (grant_blocked_entry_locks now dm)) (del_lockers ino [el_id retlock] ls)"
    and "domain dm = domain d"
    and "length (dom_locks entrylk_kind d) = length (dom_locks entrylk_kind dm) + 1"
proof -
  have pre: "sess_pre entrylk_kind ino Oth ls0 d ls" using s by (simp add: sess_ok_def)
  have r: "retlock \<in> set (entrylk_list d)"
    and dm: "dm = d\<lparr> entrylk_list := filter (\<lambda>l. el_id l \<noteq> el_id retlock) (entrylk_list d) \<rparr>"
    using u by (auto simp: unlock_entrylk_def find_matching_lock_def dest: find_Some_set split: option.splits)
  have dist: "distinct (map el_id (entrylk_list d))" "el_id ` set (entrylk_list d) \<inter> el_id ` set (blocked_entrylks d) = {}"
    using sess_preD(2) [OF pre] by (auto simp: dom_locks_def)
  have one: "l = retlock" if "l \<in> set (entrylk_list d)" "el_id l = el_id retlock" for l
    using that r dist(1) by (auto simp: distinct_map dest: inj_onD)
  have "sess_pre entrylk_kind ino Oth ls0 dm (del_lockers ino [el_id retlock] ls)"
    by (rule sess_pre_remove [OF pre, where P = "\<lambda>l. el_id l \<noteq> el_id retlock" and Q = "\<lambda>l. True"])
      (use r dist(2) one in \<open>auto simp: dm dom_locks_def\<close>)
  then show "sess_ok entrylk_kind ino Oth ls0 (fst (grant_blocked_entry_locks now dm)) (del_lockers ino [el_id retlock] ls)"
    by (rule elk.sess_grant)
  show "domain dm = domain d" by (simp add: dm)
  show "length (dom_locks entrylk_kind d) = length (dom_locks entrylk_kind dm) + 1"
    using arg_cong [OF mset_remove_key [OF dist(1) r], of size] by (simp add: dm dom_locks_def flip: mset_filter)
qed

lemma pl_common_entrylk_switch_sess:
  assumes s: "elk_sess_ok ino Oth ls0 st" and lock: "el_ref lock = 1" "el_volume lock = domain (es_dom st)"
    and fresh: "el_id lock \<notin> elk_ids (es_dom st)" "el_id lock \<notin> snd ` Oth"
    and r: "pl_common_entrylk_switch now cmd (el_client lock \<noteq> 0) lock st = (answer, st', evs)"
  shows "elk_sess_ok ino Oth ls0 st' \<and> domain (es_dom st') = domain (es_dom st) \<and>
    es_refs st' - int (length (dom_locks entrylk_kind (es_dom st'))) =
       es_refs st - 1 - int (length (dom_locks entrylk_kind (es_dom st)))"
proof -
  consider (lock) "cmd = ENTRYLK_LOCK \<or> cmd = ENTRYLK_LOCK_NB" | (unlock) "cmd = ENTRYLK_UNLOCK" | (other) "cmd = ENTRYLK_OTHER"
    by (cases cmd) auto
  then show ?thesis
  proof cases
    case lock
    let ?nb = "cmd = ENTRYLK_LOCK_NB"
    obtain ret0 lock' dm where l: "lock_entrylk now lock ?nb (es_dom st) = (ret0, lock', dm)"
      by (metis prod_cases3)
    have c: "ret0 = 0 \<or> ret0 = - EAGAIN \<and> (?nb \<longrightarrow> dm = es_dom st)"
      using l by (auto simp: lock_entrylk_cases split: if_splits)
    show ?thesis
    proof (cases "ret0 = 0 \<or> \<not> ?nb")
      case True
      let ?new = "(el_client lock, es_ino st, el_id lock)"
      have st': "st' = st\<lparr> es_dom := (if ret0 = 0 then entrylk_set (el_id lock)
              (\<lambda>x. fst (pl_entrylk_unref (x\<lparr> el_frame := None \<rparr>))) dm else dm),
            es_lockers := (if el_client lock \<noteq> 0 then ?new # es_lockers st else es_lockers st) \<rparr>"
        using r lock True l by (auto simp: pl_common_entrylk_switch_def Let_def)
      have "set (es_lockers st') = set (if el_client lock \<noteq> 0 then es_lockers st @ [?new] else es_lockers st)"
        by (simp add: st')
      from sess_ok_cong [OF this, of entrylk_kind] show ?thesis
        using lock_entrylk_sess [OF conjunct2 [OF s] assms(2,3) fresh l refl True] s by (auto simp: st')
    next
      case False
      then have "st' = st\<lparr> es_refs := es_refs st - 1 \<rparr>"
        using r lock l c by (auto simp: pl_common_entrylk_switch_def Let_def)
      then show ?thesis using s by simp
    qed
  next
    case unlock
    obtain u dm where u: "unlock_entrylk (es_dom st) lock = (u, dm)" by fastforce
    show ?thesis
    proof (cases u)
      case None
      then have "dm = es_dom st" using u by (auto simp: unlock_entrylk_def split: option.splits)
      moreover have "st' = st\<lparr> es_dom := fst (grant_blocked_entry_locks now dm), es_refs := es_refs st - 1 \<rparr>"
        using r unlock u None by (auto simp: pl_common_entrylk_switch_def Let_def case_prod_beta)
      ultimately show ?thesis
        using s elk.sess_grant by (auto simp: sess_ok_def grant_blocked_entry_locks_refines)
    next
      case (Some l)
      have "st' = st\<lparr> es_dom := fst (grant_blocked_entry_locks now dm), es_refs := es_refs st - 1 - 1,
          es_lockers := del_lockers (es_ino st) [el_id l] (es_lockers st) \<rparr>"
        using r unlock u Some by (auto simp: pl_common_entrylk_switch_def Let_def case_prod_beta)
      then show ?thesis
        using entrylk_unlock_sess [OF conjunct2 [OF s] u [unfolded Some]] s
        by (auto simp: grant_blocked_entry_locks_refines)
    qed
  next
    case other
    then show ?thesis using r s by (auto simp: pl_common_entrylk_switch_def)
  qed
qed

lemma pl_common_entrylk_run_sess:
  assumes s: "elk_sess_ok ino Oth ls0 st" and lock: "el_ref lock = 1" "el_volume lock = domain (es_dom st)"
    and fresh: "el_id lock \<notin> elk_ids (es_dom st)" "el_id lock \<notin> snd ` Oth"
    and r: "pl_common_entrylk_run priv now monkey cmd (el_client lock \<noteq> 0) lock st = (answer, st', evs)"
  shows "elk_sess_ok ino Oth ls0 st' \<and> domain (es_dom st') = domain (es_dom st) \<and>
    (revocation_secs priv = 0 \<longrightarrow> es_refs st' - int (length (dom_locks entrylk_kind (es_dom st'))) =
       es_refs st - int (length (dom_locks entrylk_kind (es_dom st))))"
proof -
  let ?st0 = "st\<lparr> es_refs := es_refs st + 1 \<rparr>"
  let ?p = "if revocation_secs priv \<noteq> 0 \<and> cmd \<noteq> ENTRYLK_UNLOCK
            then entrylk_prune_stale priv now lock ?st0 else (?st0, [])"
  have s0: "elk_sess_ok ino Oth ls0 ?st0" using s by simp
  have s1: "elk_sess_ok ino Oth ls0 (fst ?p)" "domain (es_dom (fst ?p)) = domain (es_dom st)"
    "es_refs (fst ?p) = es_refs st + 1" "el_id lock \<notin> elk_ids (es_dom (fst ?p))"
    using entrylk_prune_sess [OF s0, of priv now lock] s0 fresh(1) by (auto split: if_splits)
  have lock1: "el_volume lock = domain (es_dom (fst ?p))" using lock(2) s1(2) by simp
  show ?thesis
  proof (cases "revocation_secs priv \<noteq> 0 \<and> cmd = ENTRYLK_UNLOCK \<and> monkey_unlocking priv \<and> monkey")
    case True
    then show ?thesis using r s by (auto simp: pl_common_entrylk_run_def)
  next
    case False
    obtain ans0 st2 evs2 where
      l: "pl_common_entrylk_switch now cmd (el_client lock \<noteq> 0) lock (fst ?p) = (ans0, st2, evs2)"
      by (metis prod_cases3)
    have "st2 = st'"
      using r unfolding pl_common_entrylk_run_def Let_def if_not_P [OF False] case_prod_beta l by simp
    then show ?thesis
      using pl_common_entrylk_switch_sess [OF s1(1) lock(1) lock1 s1(4) fresh(2) l] s1(2,3) by auto
  qed
qed

section \<open>Reachable lock tables\<close>

abbreviation elk_world :: "locks_world \<Rightarrow> bool" where
  "elk_world w \<equiv> table_ok entrylk_kind (inodes w) (entrylk_lockers w)"

definition elk_fresh :: "nat \<Rightarrow> nat \<Rightarrow> locks_world \<Rightarrow> bool" where
  "elk_fresh addr ino w \<longleftrightarrow> addr \<notin> el_id ` set (ino_locks entrylk_kind (inodes w ino))"

lemma new_entrylk_lock_simps [simp]:
  "el_id (new_entrylk_lock addr nm type vol fr cl pid own conn) = addr"
  "el_ref (new_entrylk_lock addr nm type vol fr cl pid own conn) = 1"
  "el_volume (new_entrylk_lock addr nm type vol fr cl pid own conn) = vol"
  "el_client (new_entrylk_lock addr nm type vol fr cl pid own conn) = cl"
  by (simp_all add: new_entrylk_lock_def)

lemma pl_common_entrylk_world:
  assumes w: "elk_world w" and fresh: "elk_fresh addr ino w"
  shows "elk_world (fst (pl_common_entrylk priv now monkey addr fr cl pid own conn volume ino basename cmd type w))"
    and "revocation_secs priv = 0 \<Longrightarrow>
      ref_balance entrylk_kind (inodes (fst (pl_common_entrylk priv now monkey addr fr cl pid own conn volume ino basename cmd type w)) n) =
      ref_balance entrylk_kind (inodes w n)"
proof -
  let ?w' = "fst (pl_common_entrylk priv now monkey addr fr cl pid own conn volume ino basename cmd type w)"
  let ?pin = "inodes w ino"
  obtain dm doms where get: "get_domain (dom_list ?pin) volume = (dm, doms)" by fastforce
  have v: "domain dm = volume" using get_domain_name [of "dom_list ?pin" volume] get by simp
  let ?Oth = "other_locks entrylk_kind doms volume" and ?ls = "entrylk_lockers w"
  let ?lock = "new_entrylk_lock addr basename type volume fr cl pid own conn"
  let ?st = "\<lparr> es_ino = ino, es_dom = dm, es_refs = inode_refs ?pin, es_lockers = ?ls \<rparr>"
  obtain answer st' evs where r: "pl_common_entrylk_run priv now monkey cmd (el_client ?lock \<noteq> 0) ?lock ?st = (answer, st', evs)"
    by (metis prod_cases3)
  have eq: "?w' = w\<lparr> inodes := (inodes w)(ino := \<lparr> dom_list = put_domain doms (es_dom st'), inode_refs = es_refs st' \<rparr>),
      entrylk_lockers := es_lockers st' \<rparr>"
    using r by (simp add: pl_common_entrylk_def Let_def get v)
  have iok: "inode_ok entrylk_kind ?pin" using w by (simp add: table_ok_def)
  have f: "addr \<notin> elk_ids dm" "addr \<notin> snd ` ?Oth"
    using fresh unfolding elk_fresh_def elk.locks_of_inode [OF iok get] by (auto simp: other_locks_def)
  have p: "elk_sess_ok ino ?Oth ?ls st'" "domain (es_dom st') = volume"
    "revocation_secs priv = 0 \<Longrightarrow> es_refs st' - int (length (dom_locks entrylk_kind (es_dom st'))) =
       inode_refs ?pin - int (length (dom_locks entrylk_kind dm))"
    using pl_common_entrylk_run_sess [OF _ _ _ _ _ r, of ino ?Oth ?ls] elk.sess_open [OF w get] f v by auto
  show "elk_world ?w'"
    using elk.sess_close [OF w get p(2) conjunct2 [OF p(1)]] by (simp add: eq)
  show "ref_balance entrylk_kind (inodes ?w' n) = ref_balance entrylk_kind (inodes w n)" if "revocation_secs priv = 0"
    using elk.sess_balance [OF iok get p(2) p(3) [OF that]] by (simp add: eq)
qed

lemma pl_entrylk_cleanup_world:
  assumes w: "elk_world w" and cl: "cl \<noteq> 0"
  shows "elk_world (fst (pl_entrylk_client_cleanup now cl w))"
    and "ref_balance entrylk_kind (inodes (fst (pl_entrylk_client_cleanup now cl w)) n) =
      ref_balance entrylk_kind (inodes w n)"
    and "mset (map elk_core (ino_locks entrylk_kind (inodes (fst (pl_entrylk_client_cleanup now cl w)) n))) =
      filter_mset (\<lambda>l. el_client l \<noteq> cl) (mset (map elk_core (ino_locks entrylk_kind (inodes w n))))"
proof -
  obtain inos1 R U where c: "entrylk_cleanup_collect (lockers_of cl (entrylk_lockers w)) (inodes w) [] [] = (inos1, R, U)"
    by (metis prod_cases3)
  note t = elk.cleanup_table [OF w cl c, of now]
  show "elk_world (fst (pl_entrylk_client_cleanup now cl w))"
    "ref_balance entrylk_kind (inodes (fst (pl_entrylk_client_cleanup now cl w)) n) = ref_balance entrylk_kind (inodes w n)"
    "mset (map elk_core (ino_locks entrylk_kind (inodes (fst (pl_entrylk_client_cleanup now cl w)) n))) =
      filter_mset (\<lambda>l. el_client l \<noteq> cl) (mset (map elk_core (ino_locks entrylk_kind (inodes w n))))"
    using t by (simp_all add: pl_entrylk_client_cleanup_def c Let_def case_prod_beta)
qed

text \<open>Clearing the locks of a domain of an inode.\<close>

definition clear_entrylk_in_world :: "int \<Rightarrow> clrlk_kind \<Rightarrow> string option \<Rightarrow> nat \<Rightarrow> pl_dom \<Rightarrow> locks_world \<Rightarrow> locks_world" where
  "clear_entrylk_in_world now kind opts ino d w =
     (let st = fst (snd (clrlk_clear_entrylk now kind opts
             \<lparr> es_ino = ino, es_dom = d, es_refs = inode_refs (inodes w ino), es_lockers = entrylk_lockers w \<rparr>))
      in w\<lparr> inodes := (inodes w)(ino := \<lparr> dom_list = put_domain (dom_list (inodes w ino)) (es_dom st),
                                          inode_refs = es_refs st \<rparr>),
            entrylk_lockers := es_lockers st \<rparr>)"

lemma clear_entrylk_in_world_ok:
  assumes w: "elk_world w" and d: "d \<in> set (dom_list (inodes w ino))"
  shows "elk_world (clear_entrylk_in_world now kind opts ino d w)"
proof -
  let ?st = "\<lparr> es_ino = ino, es_dom = d, es_refs = inode_refs (inodes w ino), es_lockers = entrylk_lockers w \<rparr>"
  have get: "get_domain (dom_list (inodes w ino)) (domain d) = (d, dom_list (inodes w ino))"
    using w d by (intro get_domain_mem_distinct) (auto simp: table_ok_def inode_ok_def)
  have "elk_sess_ok ino (other_locks entrylk_kind (dom_list (inodes w ino)) (domain d)) (entrylk_lockers w) ?st"
    using elk.sess_open [OF w get] by simp
  note c = clrlk_clear_entrylk_sess [OF this, of now kind opts]
  show ?thesis
    using elk.sess_close [OF w get _ conjunct2 [OF c(1)]] c(2)
    by (simp add: clear_entrylk_in_world_def Let_def)
qed

text \<open>The lock tables that calls, disconnects and, where \<open>clears\<close> holds, clear commands reach.\<close>

inductive elk_step :: "locks_private \<Rightarrow> bool \<Rightarrow> locks_world \<Rightarrow> locks_world \<Rightarrow> bool" for priv clears where
  request: "elk_fresh addr ino w \<Longrightarrow>
     elk_step priv clears w
       (fst (pl_common_entrylk priv now monkey addr fr cl pid own conn volume ino basename cmd type w))"
| disconnect: "cl \<noteq> 0 \<Longrightarrow> elk_step priv clears w (fst (pl_entrylk_client_cleanup now cl w))"
| clear: "clears \<Longrightarrow> d \<in> set (dom_list (inodes w ino)) \<Longrightarrow>
     elk_step priv clears w (clear_entrylk_in_world now kind opts ino d w)"

inductive elk_reach :: "locks_private \<Rightarrow> bool \<Rightarrow> locks_world \<Rightarrow> bool" for priv clears where
  start: "elk_reach priv clears no_locks"
| step: "elk_reach priv clears w \<Longrightarrow> elk_step priv clears w w' \<Longrightarrow> elk_reach priv clears w'"

lemma elk_step_ok: "elk_step priv clears w w' \<Longrightarrow> elk_world w \<Longrightarrow> elk_world w'"
proof (induction rule: elk_step.induct)
  case request
  then show ?case by (intro pl_common_entrylk_world(1))
next
  case disconnect
  then show ?case by (intro pl_entrylk_cleanup_world(1))
next
  case clear
  then show ?case by (intro clear_entrylk_in_world_ok)
qed

lemma elk_reach_ok: "elk_reach priv clears w \<Longrightarrow> elk_world w"
proof (induction rule: elk_reach.induct)
  case start
  then show ?case by (simp add: no_locks_def table_ok_def inode_ok_def lockers_ok_def ino_locks_def)
next
  case step
  then show ?case by (simp add: elk_step_ok)
qed

lemma elk_step_balance:
  "elk_step priv clears w w' \<Longrightarrow> elk_world w \<Longrightarrow> \<not> clears \<Longrightarrow> revocation_secs priv = 0 \<Longrightarrow>
     ref_balance entrylk_kind (inodes w' n) = ref_balance entrylk_kind (inodes w n)"
proof (induction rule: elk_step.induct)
  case request
  then show ?case by (intro pl_common_entrylk_world(2))
next
  case disconnect
  then show ?case by (intro pl_entrylk_cleanup_world(2))
next
  case clear
  then show ?case by simp
qed

lemma elk_reach_balance:
  "elk_reach priv clears w \<Longrightarrow> \<not> clears \<Longrightarrow> revocation_secs priv = 0 \<Longrightarrow> ref_balance entrylk_kind (inodes w n) = 0"
proof (induction rule: elk_reach.induct)
  case start
  then show ?case by (simp add: no_locks_def ref_balance_def ino_locks_def)
next
  case (step w w')
  then show ?case using elk_step_balance elk_reach_ok by metis
qed

lemma el_basename_core [simp]: "el_basename (elk_core l) = el_basename l"
  by (simp add: elk_core_def)

section \<open>Sample calls\<close>

definition sample_entrylk :: "nat \<Rightarrow> nat \<Rightarrow> entrylk_cmd \<Rightarrow> string option \<Rightarrow> locks_world \<Rightarrow> locks_world \<times> lk_event list" where
  "sample_entrylk addr cl cmd nm w =
     pl_common_entrylk sample_priv 0 False addr addr cl 1 \<lparr> lk_len = 0, lk_data = [] \<rparr> None ''d'' 5 nm cmd
       ENTRYLK_WRLCK w"

fun sample_entrylks :: "(nat \<times> nat \<times> entrylk_cmd \<times> string option) list \<Rightarrow> locks_world \<Rightarrow> locks_world" where
  "sample_entrylks [] w = w"
| "sample_entrylks ((addr, cl, cmd, nm) # cs) w = sample_entrylks cs (fst (sample_entrylk addr cl cmd nm w))"

fun sample_entry_fresh :: "(nat \<times> nat \<times> entrylk_cmd \<times> string option) list \<Rightarrow> locks_world \<Rightarrow> bool" where
  "sample_entry_fresh [] w \<longleftrightarrow> True"
| "sample_entry_fresh ((addr, cl, cmd, nm) # cs) w \<longleftrightarrow>
     elk_fresh addr 5 w \<and> sample_entry_fresh cs (fst (sample_entrylk addr cl cmd nm w))"

lemma sample_entry_reach_from:
  "elk_reach sample_priv clears w \<Longrightarrow> sample_entry_fresh cs w \<Longrightarrow> elk_reach sample_priv clears (sample_entrylks cs w)"
proof (induction cs w rule: sample_entrylks.induct)
  case (2 addr cl cmd nm cs w)
  have "elk_reach sample_priv clears (fst (sample_entrylk addr cl cmd nm w))"
    unfolding sample_entrylk_def using 2 by (intro elk_reach.step [OF _ elk_step.request]) auto
  with 2 show ?case by simp
qed simp

lemma sample_entrylks_reach:
  "sample_entry_fresh cs no_locks \<Longrightarrow> elk_reach sample_priv clears (sample_entrylks cs no_locks)"
  by (rule sample_entry_reach_from) (simp_all add: elk_reach.start)

section \<open>Properties\<close>

text \<open>C17: two owners never hold entry locks whose names conflict, after any sequence of lock
  calls, revocations, clear commands and disconnects.\<close>

theorem entrylk_exclusion:
  assumes "elk_reach priv clears w" "d \<in> set (dom_list (inodes w ino))"
    and "a \<in> set (entrylk_list d)" "b \<in> set (entrylk_list d)"
  shows "\<not> conflicting_entrylks a b"
proof -
  have "dom_ok entrylk_kind d"
    using elk_reach_ok [OF assms(1)] assms(2) by (auto simp: table_ok_def inode_ok_def)
  then show ?thesis
    using assms(3,4) by (auto simp: dom_ok_def exclusion_def dom_abs_def conflicting_entrylks_def elk_conflict_def)
qed

theorem entrylk_exclusion_witness:
  "\<exists>w d a b. elk_reach sample_priv True w \<and> d \<in> set (dom_list (inodes w 5)) \<and> entrylk_list d = [a, b] \<and>
     el_client a \<noteq> el_client b \<and> \<not> conflicting_entrylks a b"
proof -
  let ?cs = "[(2, 2, ENTRYLK_LOCK, Some ''x''), (3, 3, ENTRYLK_LOCK, Some ''y'')]"
  let ?w = "sample_entrylks ?cs no_locks"
  have r: "elk_reach sample_priv True ?w" by (rule sample_entrylks_reach) code_simp
  have "map (map el_client \<circ> entrylk_list) (dom_list (inodes ?w 5)) = [[3, 2]]" by code_simp
  then obtain d a b where d: "dom_list (inodes ?w 5) = [d]" "entrylk_list d = [a, b]" "el_client a = 3" "el_client b = 2"
    by (auto simp: map_eq_Cons_conv)
  show ?thesis
    using entrylk_exclusion [OF r, of d 5 a b] r d
    by (intro exI [of _ ?w] exI [of _ d] exI [of _ a] exI [of _ b]) auto
qed

text \<open>C18: no entry lock waits without a reason, although the clear command for waiting locks tries
  none of the others again. Each waiting lock conflicts with a granted lock of another owner or
  with a lock in front of it, and a lock on all names always waits for a granted lock of another
  owner.\<close>

theorem entrylk_no_lost_wakeup:
  assumes "elk_reach priv clears w" "d \<in> set (dom_list (inodes w ino))" "blocked_entrylks d = front @ l # rest"
  shows "((\<exists>g \<in> set (entrylk_list d). conflicting_entrylks l g) \<or>
      (\<exists>x \<in> set front. names_conflict (el_basename l) (el_basename x))) \<and>
    (el_basename l = None \<longrightarrow> (\<exists>g \<in> set (entrylk_list d). conflicting_entrylks l g)) \<and>
    entrylk_list d \<noteq> []"
proof -
  have j: "justified elk_conflict same_entrylk_owner (elk_abs d)"
    using elk_reach_ok [OF assms(1)] assms(2) by (auto simp: table_ok_def dom_justified_def)
  have "snd (elk_abs d) = map elk_core front @ elk_core l # map elk_core rest"
    using assms(3) by (simp add: dom_abs_def)
  then have "has_reason elk_conflict same_entrylk_owner (fst (elk_abs d)) (map elk_core front) (elk_core l)"
    using j unfolding justified_def by blast
  moreover have "entrylk_list d \<noteq> []"
    using j justified_no_grant [of elk_conflict same_entrylk_owner "snd (elk_abs d)"] assms(3)
    by (auto simp: dom_abs_def)
  moreover have "\<forall>x. elk_conflict (elk_core l) x" if "el_basename l = None"
    using that by (simp add: elk_conflict_def names_conflict_def)
  moreover have "conflicting_entrylks l g \<longleftrightarrow> elk_conflict l g \<and> \<not> same_entrylk_owner l g" for g
    by (simp add: conflicting_entrylks_def elk_conflict_def)
  ultimately show ?thesis
    unfolding has_reason_def by (auto simp: dom_abs_def simp flip: elk_conflict_def)
qed

theorem entrylk_no_lost_wakeup_witness:
  "\<exists>w d l. elk_reach sample_priv True w \<and> d \<in> set (dom_list (inodes w 5)) \<and> blocked_entrylks d = [l] \<and>
     (\<exists>g \<in> set (entrylk_list d). conflicting_entrylks l g)"
proof -
  let ?cs = "[(2, 2, ENTRYLK_LOCK, Some ''x''), (3, 3, ENTRYLK_LOCK, None)]"
  let ?w = "sample_entrylks ?cs no_locks"
  have r: "elk_reach sample_priv True ?w" by (rule sample_entrylks_reach) code_simp
  have "map (map el_id \<circ> blocked_entrylks) (dom_list (inodes ?w 5)) = [[3]]" by code_simp
  then obtain d l where d: "dom_list (inodes ?w 5) = [d]" "blocked_entrylks d = [l]"
    by (auto simp: map_eq_Cons_conv)
  show ?thesis
    using entrylk_no_lost_wakeup [OF r, of d 5 "[]" l "[]"] r d
    by (intro exI [of _ ?w] exI [of _ d] exI [of _ l]) auto
qed

end
