(* ===== verification/Clear_Locks.thy ===== *)
theory Clear_Locks
  imports Posix_Locks Entrylk
begin

text \<open>
  The clear-locks command, \<open>xlators/features/locks/src/clear.c\<close>: the command text that
  \<open>glusterd-volume-ops.c\<close> prints and \<open>clrlk_parse_args\<close> reads, and the clearing of fcntl locks
  and of all domains of an inode.  \<open>strtok_r\<close> and the \<open>%s\<close> of \<open>sscanf\<close> are modelled on lists of
  characters; the scanning of a lock range out of the options is an argument, as in \<open>Inodelk\<close>.
\<close>

section \<open>The command text\<close>

record clrlk_args =
  ca_type :: nat
  ca_kind :: nat
  ca_opts :: "string option"

abbreviation (input) CLRLK_TYPE_MAX :: nat where "CLRLK_TYPE_MAX \<equiv> 3"

abbreviation (input) CLRLK_KIND_MAX :: nat where "CLRLK_KIND_MAX \<equiv> 4"

definition clrlk_get_kind :: "string \<Rightarrow> nat" where
  "clrlk_get_kind kind =
     (case find (\<lambda>i. [''dummy'', ''blocked'', ''granted'', ''all''] ! i = kind) [1, 2, 3] of
        Some i \<Rightarrow> i | None \<Rightarrow> CLRLK_KIND_MAX)"

definition clrlk_get_type :: "string \<Rightarrow> nat" where
  "clrlk_get_type type =
     (case find (\<lambda>i. [''inode'', ''entry'', ''posix''] ! i = type) [0, 1, 2] of
        Some i \<Rightarrow> i | None \<Rightarrow> CLRLK_TYPE_MAX)"

text \<open>\<open>strtok_r\<close>: leading delimiters are skipped, the token ends at the next delimiter, which is
  consumed; there is no token when nothing is left.\<close>

definition strtok :: "char \<Rightarrow> string \<Rightarrow> string option \<times> string" where
  "strtok delim s =
     (let s1 = dropWhile (\<lambda>c. c = delim) s
      in if s1 = [] then (None, [])
         else (Some (takeWhile (\<lambda>c. c \<noteq> delim) s1), tl (dropWhile (\<lambda>c. c \<noteq> delim) s1)))"

definition isspace :: "char \<Rightarrow> bool" where
  "isspace c \<longleftrightarrow> c = CHR '' '' \<or> c \<in> {CHR 0x09, CHR 0x0A, CHR 0x0B, CHR 0x0C, CHR 0x0D}"

text \<open>\<open>sscanf (cmd, "glusterfs.clrlk.%s", opts)\<close>: the prefix, then a word after optional blanks.\<close>

definition scan_clrlk :: "string \<Rightarrow> string option" where
  "scan_clrlk cmd =
     (let prefix = ''glusterfs.clrlk.'' in
      if take (length prefix) cmd = prefix then
        let word = takeWhile (\<lambda>c. \<not> isspace c) (dropWhile isspace (drop (length prefix) cmd))
        in if word = [] then None else Some word
      else None)"

text \<open>The token loop over the two keywords; None is the error exit of the loop.\<close>

definition clrlk_tokens :: "string \<Rightarrow> clrlk_args \<Rightarrow> (clrlk_args \<times> string) option" where
  "clrlk_tokens opts args =
     (case strtok (CHR ''.'') opts of
        (None, rest) \<Rightarrow> Some (args, rest)
      | (Some tok, rest) \<Rightarrow>
         if hd tok \<noteq> CHR ''t'' then None
         else
           let args1 = args\<lparr> ca_type := clrlk_get_type (tl tok) \<rparr>
           in case strtok (CHR ''.'') rest of
                (None, rest1) \<Rightarrow> Some (args1, rest1)
              | (Some tok1, rest1) \<Rightarrow>
                 if hd tok1 \<noteq> CHR ''k'' then None
                 else Some (args1\<lparr> ca_kind := clrlk_get_kind (tl tok1) \<rparr>, rest1))"

definition clrlk_parse_args :: "string \<Rightarrow> clrlk_args \<Rightarrow> clrlk_args option" where
  "clrlk_parse_args cmd args =
     (case scan_clrlk cmd of
        None \<Rightarrow> None
      | Some opts \<Rightarrow>
         (case clrlk_tokens opts args of
            None \<Rightarrow> None
          | Some (args1, rest) \<Rightarrow>
             if ca_type args1 = CLRLK_TYPE_MAX \<or> ca_kind args1 = CLRLK_KIND_MAX then None
             else
               case strtok (CHR ''/'') rest of
                 (None, rest1) \<Rightarrow> Some args1
               | (Some tok, rest1) \<Rightarrow> Some (args1\<lparr> ca_opts := Some tok \<rparr>)))"

text \<open>The text \<open>glusterd_clearlocks\<close> sends.\<close>

definition clearlocks_cmd_str :: "string \<Rightarrow> string \<Rightarrow> string option \<Rightarrow> string" where
  "clearlocks_cmd_str type kind opts =
     (case opts of
        Some s \<Rightarrow> ''glusterfs.clrlk'' @ ''.t'' @ type @ ''.k'' @ kind @ ''.'' @ s
      | None \<Rightarrow> ''glusterfs.clrlk'' @ ''.t'' @ type @ ''.k'' @ kind)"

lemma strtok_word:
  assumes "x \<notin> set t" "t \<noteq> []"
  shows "strtok x (t @ x # s) = (Some t, s)" "strtok x t = (Some t, [])"
proof -
  have "hd t \<noteq> x" using assms by (metis list.set_sel(1))
  then have d: "dropWhile (\<lambda>c. c = x) (t @ u) = t @ u" for u using assms(2) by (cases t) auto
  have w: "takeWhile (\<lambda>c. c \<noteq> x) (t @ x # s) = t" "dropWhile (\<lambda>c. c \<noteq> x) (t @ x # s) = x # s"
    "takeWhile (\<lambda>c. c \<noteq> x) t = t" "dropWhile (\<lambda>c. c \<noteq> x) t = []"
    using assms(1) by (induction t) auto
  show "strtok x (t @ x # s) = (Some t, s)" "strtok x t = (Some t, [])"
    using assms(2) d [of "x # s"] d [of "[]"] w by (simp_all add: strtok_def del: dropWhile_eq_Nil_conv)
qed

lemma scan_clrlk_word:
  assumes "w \<noteq> []" "\<forall>c \<in> set w. \<not> isspace c" "rest = [] \<or> isspace (hd rest)"
  shows "scan_clrlk (''glusterfs.clrlk.'' @ w @ rest) = Some w"
proof -
  have "takeWhile (\<lambda>c. \<not> isspace c) (w @ rest) = w" using assms(2,3) by (cases rest) (auto simp: takeWhile_append takeWhile_eq_all_conv)
  moreover have "dropWhile isspace (w @ rest) = w @ rest" using assms(1,2) by (cases w) auto
  ultimately show ?thesis using assms(1) by (auto simp: scan_clrlk_def Let_def simp del: takeWhile_eq_Nil_iff takeWhile_eq_all_conv)
qed

text \<open>Options that come back as they are, and what is read out of a text that starts with a command.\<close>

definition plain_opts :: "string option \<Rightarrow> bool" where
  "plain_opts opts = (case opts of None \<Rightarrow> True | Some s \<Rightarrow> s \<noteq> [] \<and> CHR ''/'' \<notin> set s \<and> (\<forall>c \<in> set s. \<not> isspace c))"

lemma parse_printed:
  assumes "type \<in> {''inode'', ''entry'', ''posix''}" "kind \<in> {''blocked'', ''granted'', ''all''}"
    and "plain_opts opts" "rest = [] \<or> isspace (hd rest)"
  shows "clrlk_parse_args (clearlocks_cmd_str type kind opts @ rest) \<lparr> ca_type = 0, ca_kind = 0, ca_opts = None \<rparr> =
     Some \<lparr> ca_type = clrlk_get_type type, ca_kind = clrlk_get_kind kind, ca_opts = opts \<rparr>"
proof -
  let ?tk = "CHR ''t'' # type" and ?kk = "CHR ''k'' # kind"
  let ?w = "?tk @ CHR ''.'' # (case opts of None \<Rightarrow> ?kk | Some s \<Rightarrow> ?kk @ CHR ''.'' # s)"
  have cmd: "clearlocks_cmd_str type kind opts @ rest = ''glusterfs.clrlk.'' @ ?w @ rest"
    by (simp add: clearlocks_cmd_str_def split: option.splits)
  have chars: "CHR ''.'' \<notin> set ?tk" "CHR ''.'' \<notin> set ?kk" "\<forall>c \<in> set ?tk \<union> set ?kk. \<not> isspace c"
    using assms(1,2) by (auto simp: isspace_def)
  have "\<forall>c \<in> set ?w. \<not> isspace c"
    using chars(3) assms(3) by (auto simp: isspace_def plain_opts_def split: option.splits)
  then have scan: "scan_clrlk (clearlocks_cmd_str type kind opts @ rest) = Some ?w"
    unfolding cmd using assms(4) by (intro scan_clrlk_word) simp_all
  have tok: "strtok (CHR ''.'') ?w = (Some ?tk, case opts of None \<Rightarrow> ?kk | Some s \<Rightarrow> ?kk @ CHR ''.'' # s)"
    using strtok_word(1) [OF chars(1)] by simp
  have ids: "clrlk_get_type type \<noteq> CLRLK_TYPE_MAX" "clrlk_get_kind kind \<noteq> CLRLK_KIND_MAX"
    using assms(1,2) by (auto simp: clrlk_get_type_def clrlk_get_kind_def)
  show ?thesis
  proof (cases opts)
    case None
    then show ?thesis
      using scan tok ids strtok_word(2) [OF chars(2)]
      by (simp add: clrlk_parse_args_def clrlk_tokens_def) (simp add: strtok_def)
  next
    case (Some s)
    then have "strtok (CHR ''/'') s = (Some s, [])" using assms(3) by (intro strtok_word) (auto simp: plain_opts_def)
    then show ?thesis
      using scan tok ids strtok_word(1) [OF chars(2)] Some
      by (simp add: clrlk_parse_args_def clrlk_tokens_def)
  qed
qed

section \<open>Clearing fcntl locks\<close>

text \<open>The answer and the counts, the state and the events; None when the lock list does not settle.\<close>

definition clear_kind_matches :: "nat \<Rightarrow> posix_lock \<Rightarrow> bool" where
  "clear_kind_matches kind l \<longleftrightarrow> \<not> (blocked l \<and> \<not> bit kind 0 \<or> \<not> blocked l \<and> \<not> bit kind 1)"

definition clrlk_clear_posixlk ::
  "nat \<Rightarrow> clrlk_range \<Rightarrow> pl_inode \<Rightarrow> ((int + int \<times> int) \<times> pl_inode \<times> pl_event list) option" where
  "clrlk_clear_posixlk kind r pin =
     (if r = Bad_range then Some (Inl EINVAL, pin, [])
      else
        let out = (\<lambda>l. clear_kind_matches kind l \<and> range_matches r (user_flock l));
            gone = filter out (ext_list pin);
            evs = map (\<lambda>l. Unwind_lk (frame l) (-1) EAGAIN (user_flock l)) (filter blocked gone)
        in Option.bind (grant_blocked_locks (pin\<lparr> ext_list := filter (\<lambda>l. \<not> out l) (ext_list pin) \<rparr>))
             (\<lambda>(pin1, evs1).
               Some (Inr (int (length (filter blocked gone)), int (length (filter (\<lambda>l. \<not> blocked l) gone))),
                     pin1, evs @ evs1)))"

lemma clrlk_clear_posixlk_inv:
  assumes "pl_inv (ext_list pin)"
  shows "\<exists>res pin' evs. clrlk_clear_posixlk kind r pin = Some (res, pin', evs) \<and> pl_inv (ext_list pin')"
proof (cases "r = Bad_range")
  case True
  then show ?thesis using assms by (simp add: clrlk_clear_posixlk_def)
next
  case False
  let ?pin = "pin\<lparr> ext_list := filter (\<lambda>l. \<not> (clear_kind_matches kind l \<and> range_matches r (user_flock l))) (ext_list pin) \<rparr>"
  have "pl_inv (ext_list ?pin)" using pl_inv_mono [OF assms, of "ext_list ?pin"] by auto
  from grant_blocked_locks_inv [OF this] False show ?thesis
    by (auto simp: clrlk_clear_posixlk_def Let_def)
qed

section \<open>Properties\<close>

text \<open>C24: the command text round-trips. What \<open>clrlk_parse_args\<close> reads out of the text that glusterd
  prints for a known type and kind is that type, that kind and the options, when there are none or they are
  not empty and have no blank and no slash.\<close>

theorem clearlocks_round_trip:
  assumes "type \<in> {''inode'', ''entry'', ''posix''}" "kind \<in> {''blocked'', ''granted'', ''all''}"
    and "case opts of None \<Rightarrow> True | Some s \<Rightarrow> s \<noteq> [] \<and> CHR ''/'' \<notin> set s \<and> (\<forall>c \<in> set s. \<not> isspace c)"
  shows "clrlk_parse_args (clearlocks_cmd_str type kind opts) \<lparr> ca_type = 0, ca_kind = 0, ca_opts = None \<rparr> =
     Some \<lparr> ca_type = clrlk_get_type type, ca_kind = clrlk_get_kind kind, ca_opts = opts \<rparr>"
  using parse_printed [OF assms(1,2), of opts "[]"] assms(3) by (simp add: plain_opts_def)

theorem clearlocks_round_trip_witness:
  "clrlk_parse_args (clearlocks_cmd_str ''entry'' ''all'' (Some ''file.txt'')) \<lparr> ca_type = 0, ca_kind = 0, ca_opts = None \<rparr> =
     Some \<lparr> ca_type = 1, ca_kind = 3, ca_opts = Some ''file.txt'' \<rparr>"
  using clearlocks_round_trip [of "''entry''" "''all''" "Some ''file.txt''"]
  by (simp add: isspace_def clrlk_get_type_def clrlk_get_kind_def)

text \<open>C32: a name with a blank is cut at the blank. Whatever follows, the command for it is read as the command
  for the part before the first blank, when that part is not empty and has no slash: the locks of another name
  are cleared.\<close>

theorem clearlocks_cuts_names:
  assumes "type \<in> {''inode'', ''entry'', ''posix''}" "kind \<in> {''blocked'', ''granted'', ''all''}"
    and "name \<noteq> []" "CHR ''/'' \<notin> set name" "\<forall>c \<in> set name. \<not> isspace c" "isspace c"
  shows "clrlk_parse_args (clearlocks_cmd_str type kind (Some (name @ c # rest))) \<lparr> ca_type = 0, ca_kind = 0, ca_opts = None \<rparr> =
     Some \<lparr> ca_type = clrlk_get_type type, ca_kind = clrlk_get_kind kind, ca_opts = Some name \<rparr>"
proof -
  have "clearlocks_cmd_str type kind (Some (name @ c # rest)) = clearlocks_cmd_str type kind (Some name) @ c # rest"
    by (simp add: clearlocks_cmd_str_def)
  then show ?thesis using parse_printed [OF assms(1,2), of "Some name" "c # rest"] assms(3-6) by (simp add: plain_opts_def)
qed

theorem clearlocks_cuts_names_witness:
  "clrlk_parse_args (clearlocks_cmd_str ''entry'' ''all'' (Some ''a b'')) \<lparr> ca_type = 0, ca_kind = 0, ca_opts = None \<rparr> =
     Some \<lparr> ca_type = 1, ca_kind = 3, ca_opts = Some ''a'' \<rparr>"
  using clearlocks_cuts_names [of "''entry''" "''all''" "''a''" "CHR '' ''" "''b''"]
  by (simp add: isspace_def clrlk_get_type_def clrlk_get_kind_def)

text \<open>C33: clearing granted fcntl locks leaves reads and writes waiting that nothing forbids any
  more: \<open>clrlk_clear_posixlk\<close> tries the waiting locks again, not the waiting operations.\<close>

theorem clear_posix_leaves_rw_waiting:
  "\<exists>pin pin' evs rw. pl_reach MLK_FORCED pin \<and>
     \<not> rw_allowable MLK_FORCED (ext_list pin) (rw_region rw) (rw_fop rw) \<and> rw_list pin = [rw] \<and>
     clrlk_clear_posixlk 3 Any_range pin = Some (Inr (0, 1), pin', evs) \<and>
     rw_list pin' = [rw] \<and> rw_allowable MLK_FORCED (ext_list pin') (rw_region rw) (rw_fop rw)"
proof -
  let ?l = "sample_lock 2 F_WRLCK 0 10 0"
  let ?rw = "\<lparr> rw_stub = 5, rw_fop = GF_FOP_READ, rw_region = sample_lock 3 F_RDLCK 0 4 0 \<rparr> :: pl_rw_req"
  let ?pin = "sample_inode\<lparr> ext_list := [?l], rw_list := [?rw] \<rparr>"
  have start: "pl_reach MLK_FORCED (sample_inode\<lparr> rw_list := [?rw] \<rparr>)"
    by (rule pl_reach.start) (simp add: sample_inode_def)
  have "pl_reach MLK_FORCED ?pin"
    by (rule setlks_reach [OF start, where ls = "[(?l, False)]"]) code_simp+
  moreover have "\<not> rw_allowable MLK_FORCED (ext_list ?pin) (rw_region ?rw) (rw_fop ?rw)" by code_simp
  moreover have "clrlk_clear_posixlk 3 Any_range ?pin = Some (Inr (0, 1), sample_inode\<lparr> rw_list := [?rw] \<rparr>, [])"
    by code_simp
  moreover have "rw_allowable MLK_FORCED (ext_list (sample_inode\<lparr> rw_list := [?rw] \<rparr>)) (rw_region ?rw) (rw_fop ?rw)"
    by code_simp
  ultimately show ?thesis
    by (intro exI [of _ ?pin] exI [of _ "sample_inode\<lparr> rw_list := [?rw] \<rparr>"] exI [of _ "[]"] exI [of _ ?rw]) simp
qed

end
