(* ===== verification/Dht_Hash.thy ===== *)
theory Dht_Hash
  imports Prelude
begin

unbundle bit_operations_syntax

text \<open>
  The hash that places a name: the Davies-Meyer hash of \<open>libglusterfs/src/hashfn.c\<close> and its use in
  \<open>xlators/cluster/dht/src/dht-hashfn.c\<close>, where a regular expression may first cut a temporary name
  down to the name it will be renamed to; and the byte order functions of
  \<open>libglusterfs/src/byte-order.h\<close>, on a little endian host with signed characters.

  \<open>regexec\<close> is a parameter: it answers the return code and the offsets of the first group.
\<close>

section \<open>Byte order\<close>

definition do_swap2 :: "u32 \<Rightarrow> u32" where
  "do_swap2 x = push_bit 8 (x AND 0xff) OR drop_bit 8 (x AND 0xff00)"

definition swap32 :: "u32 \<Rightarrow> u32" where
  "swap32 x = push_bit 16 (do_swap2 (x AND 0xffff)) OR do_swap2 (drop_bit 16 (x AND 0xffff0000))"

definition hton32 :: "u32 \<Rightarrow> u32" where
  "hton32 = swap32"

section \<open>The hash function\<close>

definition dm_step :: "u32 \<Rightarrow> u32 \<Rightarrow> u32 \<Rightarrow> u32 \<Rightarrow> u32" where
  "dm_step acc b a a' = ((push_bit 4 b + a) XOR (b + acc)) XOR (drop_bit 5 b + a')"

primrec dm_loop :: "nat \<Rightarrow> u32 list \<Rightarrow> u32 \<Rightarrow> u32 \<Rightarrow> u32 \<Rightarrow> u32 \<times> u32" where
  "dm_loop 0 array acc b0 b1 = (b0, b1)"
| "dm_loop (Suc n) array acc b0 b1 =
     (let acc' = acc + 0x9E3779B9;
          b0' = b0 + dm_step acc' b1 (array ! 0) (array ! 1);
          b1' = b1 + dm_step acc' b0' (array ! 2) (array ! 3)
      in dm_loop n array acc' b0' b1')"

definition dm_round :: "nat \<Rightarrow> u32 list \<Rightarrow> u32 \<times> u32 \<Rightarrow> u32 \<times> u32" where
  "dm_round rounds array h =
     (let (b0, b1) = dm_loop rounds array 0 (fst h) (snd h) in (fst h + b0, snd h + b1))"

definition pad_word :: "nat \<Rightarrow> u32" where
  "pad_word len = (let pad = of_nat len OR push_bit 8 (of_nat len) in pad OR push_bit 16 pad)"

text \<open>A 32-bit load at the start of the bytes.\<close>

definition load32 :: "u8 list \<Rightarrow> u32" where
  "load32 bs = ucast (bs ! 0) OR push_bit 8 (ucast (bs ! 1)) OR push_bit 16 (ucast (bs ! 2)) OR
     push_bit 24 (ucast (bs ! 3))"

text \<open>The loop over blocks of sixteen bytes, and the last block: words as long as there are four
  bytes left, then the padding with the remaining bytes shifted in, then the padding.\<close>

primrec dm_quads :: "nat \<Rightarrow> u8 list \<Rightarrow> u32 \<times> u32 \<Rightarrow> u8 list \<times> u32 \<times> u32" where
  "dm_quads 0 bs h = (bs, h)"
| "dm_quads (Suc n) bs h =
     dm_quads n (drop 16 bs) (dm_round 6 (map (\<lambda>j. load32 (drop (4 * j) bs)) [0, 1, 2, 3]) h)"

primrec dm_tail :: "nat \<Rightarrow> u32 \<Rightarrow> u8 list \<Rightarrow> u32 list" where
  "dm_tail 0 pad bs = []"
| "dm_tail (Suc n) pad bs =
     (if 4 \<le> length bs then load32 bs # dm_tail n pad (drop 4 bs)
      else fold (\<lambda>b a. push_bit 8 a OR scast b) bs pad # dm_tail n pad [])"

definition gf_dm_hashfn :: "u8 list \<Rightarrow> u32" where
  "gf_dm_hashfn msg =
     (let (bs, h) = dm_quads (length msg div 16) msg (0x9464a485, 0x542e1a94);
          (h0, h1) = dm_round 10 (dm_tail 4 (pad_word (length msg)) bs) h
      in h0 XOR h1)"

definition bytes_of :: "string \<Rightarrow> u8 list" where
  "bytes_of s = map of_char s"

section \<open>Hashing names\<close>

abbreviation (input) DHT_HASH_TYPE_DM :: int where "DHT_HASH_TYPE_DM \<equiv> 0"

abbreviation (input) DHT_HASH_TYPE_DM_USER :: int where "DHT_HASH_TYPE_DM_USER \<equiv> 1"

abbreviation (input) REG_NOMATCH :: int where "REG_NOMATCH \<equiv> 1"

type_synonym regexec_fn = "nat \<Rightarrow> string \<Rightarrow> int \<times> int \<times> int"

definition dht_hash_compute_internal :: "int \<Rightarrow> string \<Rightarrow> u32 option" where
  "dht_hash_compute_internal type name =
     (if type = DHT_HASH_TYPE_DM \<or> type = DHT_HASH_TYPE_DM_USER then Some (gf_dm_hashfn (bytes_of name))
      else None)"

definition dht_munge_name :: "regexec_fn \<Rightarrow> nat \<Rightarrow> string \<Rightarrow> bool \<times> string" where
  "dht_munge_name regexec re original =
     (let (ret, so, eo) = regexec re original;
          new_len = (word_of_int (eo - so) :: u64)
      in if ret \<noteq> REG_NOMATCH \<and> so \<noteq> -1 \<and> new_len < of_nat (length original + 1)
         then (True, take (unat new_len) (drop (nat so) original))
         else (False, original))"

definition dht_hash_compute ::
  "regexec_fn \<Rightarrow> nat option \<Rightarrow> nat option \<Rightarrow> int \<Rightarrow> string \<Rightarrow> u32 option" where
  "dht_hash_compute regexec extra_regex rsync_regex type name =
     (let (munged, friendly) =
            (case extra_regex of Some re \<Rightarrow> dht_munge_name regexec re name | None \<Rightarrow> (False, name));
          (munged, friendly) =
            (case rsync_regex of
               Some re \<Rightarrow> if \<not> munged then dht_munge_name regexec re name else (munged, friendly)
             | None \<Rightarrow> (munged, friendly))
      in dht_hash_compute_internal type (if munged then friendly else name))"

section \<open>Laws\<close>

lemma masks32:
  "(0xff :: u32) = mask 8" "(0xff00 :: u32) = push_bit 8 (mask 8)" "(0xffff :: u32) = mask 16"
  "(0xffff0000 :: u32) = push_bit 16 (mask 16)"
  by (simp_all add: mask_eq_exp_minus_1 push_bit_eq_mult)

lemma swap32_bit:
  "bit (swap32 x) n \<longleftrightarrow> n < 32 \<and> bit x (if n < 8 then n + 24 else if n < 16 then n + 8 else if n < 24 then n - 8 else n - 24)"
  unfolding swap32_def do_swap2_def masks32
  by (auto simp: bit_simps add.commute)

lemma swap32_swap32 [simp]: "swap32 (swap32 x) = x"
  by (rule bit_word_eqI) (auto simp: swap32_bit)

lemma dm_loop_step:
  assumes "n = Suc m" "s + 0x9E3779B9 = s'" "b0 + dm_step s' b1 (arr ! 0) (arr ! 1) = b0'"
    "b1 + dm_step s' b0' (arr ! 2) (arr ! 3) = b1'"
  shows "dm_loop n arr s b0 b1 = dm_loop m arr s' b0' b1'"
  using assms by (simp add: Let_def)

text \<open>A name with hash 0.\<close>

lemma dm_loop_zero_name:
  "dm_loop 10 [0x61637430, 0x70656b78, 0x8080808, 0x8080808] 0 0x9464a485 0x542e1a94 = (0x9b58bbb2, 0xdb8f45a3)"
  (is "dm_loop 10 ?a _ _ _ = _")
proof -
  have "dm_loop 10 ?a 0 0x9464a485 0x542e1a94 = dm_loop 9 ?a 0x9e3779b9 0xb98af9f6 0x4ecfa5a4"
    by (rule dm_loop_step) (simp_all add: dm_step_def)
  also have "\<dots> = dm_loop 8 ?a 0x3c6ef372 0x7143b9b9 0x932d10a"
    by (rule dm_loop_step) (simp_all add: dm_step_def)
  also have "\<dots> = dm_loop 7 ?a 0xdaa66d2b 0xd92a729e 0x30e186c7"
    by (rule dm_loop_step) (simp_all add: dm_step_def)
  also have "\<dots> = dm_loop 6 ?a 0x78dde6e4 0x90536d43 0x3966b234"
    by (rule dm_loop_step) (simp_all add: dm_step_def)
  also have "\<dots> = dm_loop 5 ?a 0x1715609d 0x65d591eb 0x4c2412db"
    by (rule dm_loop_step) (simp_all add: dm_step_def)
  also have "\<dots> = dm_loop 4 ?a 0xb54cda56 0xb5e852ca 0x4c3365f1"
    by (rule dm_loop_step) (simp_all add: dm_step_def)
  also have "\<dots> = dm_loop 3 ?a 0x5384540f 0x7fd1c2b1 0x26a819b6"
    by (rule dm_loop_step) (simp_all add: dm_step_def)
  also have "\<dots> = dm_loop 2 ?a 0xf1bbcdc8 0x21ee075c 0x62feea64"
    by (rule dm_loop_step) (simp_all add: dm_step_def)
  also have "\<dots> = dm_loop 1 ?a 0x8ff34781 0x32cb50ba 0x629cd382"
    by (rule dm_loop_step) (simp_all add: dm_step_def)
  also have "\<dots> = dm_loop 0 ?a 0x2e2ac13a 0x9b58bbb2 0xdb8f45a3"
    by (rule dm_loop_step) (simp_all add: dm_step_def)
  finally show ?thesis by simp
qed

lemma hash_zero_name: "dht_hash_compute_internal 0 ''0tcaxkep'' = Some 0"
proof -
  let ?bs = "[0x30, 0x74, 0x63, 0x61, 0x78, 0x6b, 0x65, 0x70] :: u8 list"
  have "bytes_of ''0tcaxkep'' = ?bs" by code_simp
  moreover have "dm_tail 4 (pad_word 8) ?bs = [0x61637430, 0x70656b78, 0x8080808, 0x8080808]" by code_simp
  moreover have "length ?bs = 8" by simp
  ultimately show ?thesis
    by (simp only: dht_hash_compute_internal_def gf_dm_hashfn_def dm_round_def)
       (simp add: dm_loop_zero_name)
qed

text \<open>The hash of the path of the root directory.\<close>

lemma dm_loop_root_name:
  "dm_loop 10 [0x101012f, 0x1010101, 0x1010101, 0x1010101] 0 0x9464a485 0x542e1a94 = (0xe5633ed3, 0xabb0436c)"
  (is "dm_loop 10 ?a _ _ _ = _")
proof -
  have "dm_loop 10 ?a 0 0x9464a485 0x542e1a94 = dm_loop 9 ?a 0x9e3779b9 0x4689f47c 0xe28290e4"
    by (rule dm_loop_step) (simp_all add: dm_step_def)
  also have "\<dots> = dm_loop 8 ?a 0x3c6ef372 0x8658932d 0x840101b8"
    by (rule dm_loop_step) (simp_all add: dm_step_def)
  also have "\<dots> = dm_loop 7 ?a 0xdaa66d2b 0xa0f00e6f 0xf1a01ed7"
    by (rule dm_loop_step) (simp_all add: dm_step_def)
  also have "\<dots> = dm_loop 6 ?a 0x78dde6e4 0x1ae2f942 0x2ec88ca3"
    by (rule dm_loop_step) (simp_all add: dm_step_def)
  also have "\<dots> = dm_loop 5 ?a 0x1715609d 0xc5065cbb 0xb91cceb2"
    by (rule dm_loop_step) (simp_all add: dm_step_def)
  also have "\<dots> = dm_loop 4 ?a 0xb54cda56 0xbf73feec 0x4399652d"
    by (rule dm_loop_step) (simp_all add: dm_step_def)
  also have "\<dots> = dm_loop 3 ?a 0x5384540f 0x6e0b25d5 0x67e6e2c7"
    by (rule dm_loop_step) (simp_all add: dm_step_def)
  also have "\<dots> = dm_loop 2 ?a 0xf1bbcdc8 0x9098cadc 0xf543d3f9"
    by (rule dm_loop_step) (simp_all add: dm_step_def)
  also have "\<dots> = dm_loop 1 ?a 0x8ff34781 0x693b0f41 0x5f194ea1"
    by (rule dm_loop_step) (simp_all add: dm_step_def)
  also have "\<dots> = dm_loop 0 ?a 0x2e2ac13a 0xe5633ed3 0xabb0436c"
    by (rule dm_loop_step) (simp_all add: dm_step_def)
  finally show ?thesis by simp
qed

lemma hash_root_name: "dht_hash_compute_internal 0 ''/'' = Some 2249833816"
proof -
  let ?bs = "[0x2f] :: u8 list"
  have "bytes_of ''/'' = ?bs" by code_simp
  moreover have "dm_tail 4 (pad_word 1) ?bs = [0x101012f, 0x1010101, 0x1010101, 0x1010101]" by code_simp
  moreover have "length ?bs = 1" by simp
  ultimately show ?thesis
    by (simp only: dht_hash_compute_internal_def gf_dm_hashfn_def dm_round_def)
       (simp add: dm_loop_root_name)
qed

end
