(* ===== verification/Dht_Layout.thy ===== *)
theory Dht_Layout
  imports Dht_Hash "HOL-Library.List_Lexorder" "HOL-Library.Char_ord" "HOL-Library.Multiset"
begin

text \<open>
  Directory layouts, \<open>xlators/cluster/dht/src/dht-layout.c\<close>: how the range of 32-bit hashes is
  divided among the subvolumes, how a name finds its subvolume, the form a range has in the
  extended attribute on disk, the merge of the ranges a lookup brings in, the exchange sorts and
  the search for holes and overlaps.

  The array \<open>list[]\<close> is a list whose length is \<open>cnt\<close>.  A translator is its address, 0 being NULL,
  and its name; the code compares addresses in some places and names in others, and so does the
  model.  The reference counting of layouts is not modelled.
\<close>

section \<open>Data\<close>

record xlator =
  xl_id :: nat
  xl_name :: string

definition null_xlator :: xlator where
  "null_xlator = \<lparr> xl_id = 0, xl_name = [] \<rparr>"

record dht_layout_entry =
  err :: int
  start :: u32
  stop :: u32
  entry_commit_hash :: u32
  subvol :: xlator

record dht_layout =
  spread_cnt :: int
  preset :: bool
  commit_hash :: u32
  gen :: int
  hash_type :: int
  entries :: "dht_layout_entry list"

abbreviation cnt :: "dht_layout \<Rightarrow> nat" where "cnt l \<equiv> length (entries l)"

text \<open>The fields of \<open>dht_conf_t\<close> that layouts depend on.  \<open>decommissioned_bricks\<close> has as many
  places as there are subvolumes, empty ones being NULL; \<open>du_stats\<close> holds the chunks of each
  subvolume.\<close>

record dht_conf =
  subvolumes :: "xlator list"
  dir_spread_cnt :: int
  conf_gen :: int
  xattr_name :: string
  extra_regex :: "nat option"
  rsync_regex :: "nat option"
  decommissioned_bricks :: "xlator list"
  decommission_subvols_cnt :: int
  du_stats :: "u32 list option"
  do_weighting :: bool
  randomize_by_gfid :: bool

type_synonym xattr_dict = "string \<Rightarrow> u32 list option"

abbreviation (input) DHT_LAYOUT_HASH_INVALID :: u32 where "DHT_LAYOUT_HASH_INVALID \<equiv> 1"

section \<open>Operations\<close>

definition new_entry :: dht_layout_entry where
  "new_entry = \<lparr> err = 0, start = 0, stop = 0, entry_commit_hash = 0, subvol = null_xlator \<rparr>"

definition dht_layout_new :: "dht_conf \<Rightarrow> nat \<Rightarrow> dht_layout" where
  "dht_layout_new conf n =
     \<lparr> spread_cnt = dir_spread_cnt conf, preset = False, commit_hash = 0, gen = conf_gen conf,
       hash_type = DHT_HASH_TYPE_DM, entries = replicate n new_entry \<rparr>"

definition dht_layout_search :: "regexec_fn \<Rightarrow> dht_conf \<Rightarrow> dht_layout \<Rightarrow> string \<Rightarrow> xlator option" where
  "dht_layout_search regexec conf layout name =
     (case dht_hash_compute regexec (extra_regex conf) (rsync_regex conf) (hash_type layout) name of
        None \<Rightarrow> None
      | Some hash \<Rightarrow> map_option subvol (find (\<lambda>e. start e \<le> hash \<and> hash \<le> stop e) (entries layout)))"

text \<open>The layouts for files: one for each subvolume, with one entry.\<close>

definition dht_layouts_init :: "dht_conf \<Rightarrow> dht_layout list" where
  "dht_layouts_init conf =
     map (\<lambda>x. (dht_layout_new conf 1)\<lparr> preset := True, entries := [new_entry\<lparr> subvol := x \<rparr>] \<rparr>) (subvolumes conf)"

definition dht_layout_for_subvol :: "dht_conf \<Rightarrow> dht_layout list \<Rightarrow> xlator \<Rightarrow> dht_layout option" where
  "dht_layout_for_subvol conf file_layouts x =
     map_option snd (find (\<lambda>(s, l). xl_id s = xl_id x) (zip (subvolumes conf) file_layouts))"

definition dht_disk_layout_extract :: "dht_layout \<Rightarrow> nat \<Rightarrow> u32 list" where
  "dht_disk_layout_extract layout pos =
     (let e = entries layout ! pos
      in [hton32 (entry_commit_hash e), hton32 (word_of_int (hash_type layout)), hton32 (start e), hton32 (stop e)])"

definition dht_layout_index_for_subvol :: "dht_layout \<Rightarrow> xlator \<Rightarrow> int" where
  "dht_layout_index_for_subvol layout x =
     (case find (\<lambda>i. xl_id (subvol (entries layout ! i)) = xl_id x) [0..<cnt layout] of
        Some i \<Rightarrow> int i | None \<Rightarrow> -1)"

definition dht_disk_layout_extract_for_subvol :: "dht_layout \<Rightarrow> xlator \<Rightarrow> u32 list option" where
  "dht_disk_layout_extract_for_subvol layout x =
     map_option (dht_disk_layout_extract layout)
       (find (\<lambda>i. xl_id (subvol (entries layout ! i)) = xl_id x) [0..<cnt layout])"

text \<open>The answer -1 with the layout as it was left, or 0.\<close>

definition dht_disk_layout_merge :: "dht_layout \<Rightarrow> nat \<Rightarrow> u32 list option \<Rightarrow> int \<times> dht_layout" where
  "dht_disk_layout_merge layout pos disk_layout_raw =
     (case disk_layout_raw of
        None \<Rightarrow> (-1, layout)
      | Some disk \<Rightarrow>
          let type = sint (hton32 (disk ! 1));
              layout1 = (if type = DHT_HASH_TYPE_DM_USER then layout\<lparr> hash_type := type \<rparr> else layout)
          in if type \<noteq> DHT_HASH_TYPE_DM_USER \<and> type \<noteq> DHT_HASH_TYPE_DM then (-1, layout)
             else (0, layout1\<lparr> entries := (entries layout1)[pos := (entries layout1 ! pos)
                    \<lparr> entry_commit_hash := hton32 (disk ! 0), start := hton32 (disk ! 2),
                      stop := hton32 (disk ! 3) \<rparr>] \<rparr>))"

text \<open>The answer and the layout; None where the code writes behind the end of the array because
  every place is taken.\<close>

definition dht_layout_merge ::
  "dht_conf \<Rightarrow> dht_layout \<Rightarrow> xlator \<Rightarrow> int \<Rightarrow> int \<Rightarrow> xattr_dict option \<Rightarrow> (int \<times> dht_layout) option" where
  "dht_layout_merge conf layout x op_ret op_errno xattr =
     (let err0 = (if op_ret \<noteq> 0 then op_errno else -1);
          slot = find (\<lambda>i. xl_id (subvol (entries layout ! i)) = 0) [0..<cnt layout];
          set_entry = (\<lambda>i f l. l\<lparr> entries := (entries l)[i := f (entries l ! i)] \<rparr>);
          layout1 = (case slot of
                       Some i \<Rightarrow> set_entry i (\<lambda>e. e\<lparr> err := err0, subvol := x \<rparr>) layout
                     | None \<Rightarrow> layout)
      in if op_ret \<noteq> 0 then Some (0, layout1)
         else case slot of
           None \<Rightarrow> None
         | Some i \<Rightarrow>
             (case Option.bind xattr (\<lambda>d. d (xattr_name conf)) of
                None \<Rightarrow> Some (0, set_entry i (\<lambda>e. e\<lparr> err := 0 \<rparr>) layout1)
              | Some raw \<Rightarrow>
                  let (ret, layout2) = dht_disk_layout_merge layout1 i (Some raw);
                      h = entry_commit_hash (entries layout2 ! i);
                      layout3 = (if commit_hash layout2 = 0 then layout2\<lparr> commit_hash := h \<rparr>
                                 else if commit_hash layout2 \<noteq> h
                                 then layout2\<lparr> commit_hash := DHT_LAYOUT_HASH_INVALID \<rparr> else layout2)
                  in if ret \<noteq> 0 then Some (ret, layout2)
                     else Some (0, set_entry i (\<lambda>e. e\<lparr> err := 0 \<rparr>) layout3)))"

definition entry_swap :: "nat \<Rightarrow> nat \<Rightarrow> 'a list \<Rightarrow> 'a list" where
  "entry_swap i j es = es[i := es ! j, j := es ! i]"

definition range_swap :: "nat \<Rightarrow> nat \<Rightarrow> dht_layout_entry list \<Rightarrow> dht_layout_entry list" where
  "range_swap i j es =
     (let s = start (es ! i); t = stop (es ! i);
          es1 = es[i := (es ! i)\<lparr> start := start (es ! j), stop := stop (es ! j) \<rparr>]
      in es1[j := (es1 ! j)\<lparr> start := s, stop := t \<rparr>])"

fun strcmp :: "string \<Rightarrow> string \<Rightarrow> int" where
  "strcmp [] [] = 0"
| "strcmp [] (b # bs) = - of_char b"
| "strcmp (a # as) [] = of_char a"
| "strcmp (a # as) (b # bs) = (if a = b then strcmp as bs else of_char a - of_char b)"

definition dht_layout_entry_cmp_volname :: "dht_layout_entry \<Rightarrow> dht_layout_entry \<Rightarrow> int" where
  "dht_layout_entry_cmp_volname a b = strcmp (xl_name (subvol a)) (xl_name (subvol b))"

definition dht_is_subvol_in_layout :: "dht_layout \<Rightarrow> xlator \<Rightarrow> bool" where
  "dht_is_subvol_in_layout layout x =
     (case find (\<lambda>e. strcmp (xl_name (subvol e)) (xl_name x) = 0) (entries layout) of
        Some e \<Rightarrow> start e \<noteq> stop e | None \<Rightarrow> False)"

definition dht_layout_entry_cmp :: "dht_layout_entry \<Rightarrow> dht_layout_entry \<Rightarrow> int" where
  "dht_layout_entry_cmp a b =
     (if start b = 0 \<and> stop b = 0 then uint (stop a) - uint (stop b) else uint (start a) - uint (start b))"

text \<open>The two loops of the sorts, over the comparison they use.\<close>

definition exchange_inner :: "('a \<Rightarrow> 'a \<Rightarrow> int) \<Rightarrow> nat \<Rightarrow> 'a list \<Rightarrow> 'a list" where
  "exchange_inner cmp i es =
     fold (\<lambda>j es. if 0 < cmp (es ! i) (es ! j) then entry_swap i j es else es) [i + 1..<length es] es"

definition exchange_sort :: "('a \<Rightarrow> 'a \<Rightarrow> int) \<Rightarrow> 'a list \<Rightarrow> 'a list" where
  "exchange_sort cmp es = fold (exchange_inner cmp) [0..<length es - 1] es"

definition dht_layout_sort :: "dht_layout \<Rightarrow> dht_layout" where
  "dht_layout_sort layout = layout\<lparr> entries := exchange_sort dht_layout_entry_cmp (entries layout) \<rparr>"

definition dht_layout_sort_volname :: "dht_layout \<Rightarrow> dht_layout" where
  "dht_layout_sort_volname layout = layout\<lparr> entries := exchange_sort dht_layout_entry_cmp_volname (entries layout) \<rparr>"

section \<open>Anomalies\<close>

record anomalies =
  holes :: u32
  overlaps :: u32
  missing :: u32
  down :: u32
  misc :: u32
  no_space :: u32

record anomaly_scan = anomalies +
  is_virgin :: bool
  prev_stop :: u32

definition anomaly_step :: "dht_layout_entry \<Rightarrow> anomaly_scan \<Rightarrow> anomaly_scan" where
  "anomaly_step e s =
     (if err e = -1 \<or> err e = ENOENT \<or> err e = ESTALE then s\<lparr> missing := missing s + 1 \<rparr>
      else if err e = ENOTCONN then s\<lparr> down := down s + 1 \<rparr>
      else if err e = ENOSPC then s\<lparr> no_space := no_space s + 1 \<rparr>
      else if err e = 0 then
        (if start e = stop e then s
         else s\<lparr> is_virgin := False,
                 holes := (if prev_stop s + 1 < start e then holes s + 1 else holes s),
                 overlaps := (if start e < prev_stop s + 1 then overlaps s + 1 else overlaps s),
                 prev_stop := stop e \<rparr>)
      else s\<lparr> misc := misc s + 1 \<rparr>)"

definition dht_layout_anomalies :: "dht_layout \<Rightarrow> anomalies" where
  "dht_layout_anomalies layout =
     (let last_stop = start (hd (entries layout)) - 1;
          s = fold anomaly_step (entries layout)
                \<lparr> holes = 0, overlaps = 0, missing = 0, down = 0, misc = 0, no_space = 0,
                  is_virgin = True, prev_stop = last_stop \<rparr>;
          s1 = (if last_stop - prev_stop s \<noteq> 0 \<or> is_virgin s then s\<lparr> holes := holes s + 1 \<rparr> else s)
      in anomalies.truncate s1)"

definition dht_layout_missing_dirs :: "dht_layout \<Rightarrow> int" where
  "dht_layout_missing_dirs layout =
     int (length (filter (\<lambda>e. err e = ENOENT \<or> err e = -1 \<and> start e = 0 \<and> stop e = 0) (entries layout)))"

text \<open>The answer is -1 for holes or overlaps, and the number of missing directories otherwise.\<close>

definition dht_layout_normalize :: "dht_layout \<Rightarrow> int \<times> dht_layout" where
  "dht_layout_normalize layout =
     (let layout1 = dht_layout_sort layout;
          a = dht_layout_anomalies layout1
      in if holes a \<noteq> 0 \<or> overlaps a \<noteq> 0 then (-1, layout1)
         else (dht_layout_missing_dirs layout1, layout1))"

definition dht_layout_dir_mismatch :: "dht_conf \<Rightarrow> dht_layout \<Rightarrow> xlator \<Rightarrow> xattr_dict option \<Rightarrow> int" where
  "dht_layout_dir_mismatch conf layout x xattr =
     (case find (\<lambda>e. xl_id (subvol e) = xl_id x) (entries layout) of
        None \<Rightarrow> 1
      | Some e \<Rightarrow>
          (case xattr of
             None \<Rightarrow> if err e = 0 then -1 else 0
           | Some d \<Rightarrow>
               (case d (xattr_name conf) of
                  None \<Rightarrow> if err e = 0 \<and> stop e \<noteq> 0 then -1 else 0
                | Some disk \<Rightarrow>
                    if start e \<noteq> hton32 (disk ! 2) \<or> stop e \<noteq> hton32 (disk ! 3) \<or>
                       entry_commit_hash e \<noteq> hton32 (disk ! 0)
                    then 1 else 0)))"

section \<open>The sorts\<close>

lemma length_entry_swap [simp]: "length (entry_swap i j es) = length es"
  by (simp add: entry_swap_def)

lemma mset_entry_swap: "i < length es \<Longrightarrow> j < length es \<Longrightarrow> mset (entry_swap i j es) = mset es"
  by (simp add: entry_swap_def mset_swap)

lemma nth_entry_swap:
  "i < length es \<Longrightarrow> j < length es \<Longrightarrow> k < length es \<Longrightarrow>
     entry_swap i j es ! k = (if k = j then es ! i else if k = i then es ! j else es ! k)"
  by (auto simp: entry_swap_def nth_list_update)

lemma drop_set_eq: "mset xs = mset ys \<Longrightarrow> take n xs = take n ys \<Longrightarrow> set (drop n xs) = set (drop n ys)"
  by (metis append_take_drop_id mset_append add_left_imp_eq set_mset_mset)

text \<open>What an exchange sort needs of its comparison: on the values \<open>ok\<close> it is the comparison of
  keys of a linear order.\<close>

locale key_order =
  fixes cmp :: "'a \<Rightarrow> 'a \<Rightarrow> int" and key :: "'a \<Rightarrow> 'k::linorder" and ok :: "'a \<Rightarrow> bool"
  assumes cmp_key: "ok a \<Longrightarrow> ok b \<Longrightarrow> 0 < cmp a b \<longleftrightarrow> key b < key a"
begin

lemma inner_fold:
  assumes "i < m" "m \<le> n" "n \<le> length es" "\<forall>e \<in> set es. ok e"
  defines "es' \<equiv> fold (\<lambda>j es. if 0 < cmp (es ! i) (es ! j) then entry_swap i j es else es) [m..<n] es"
  shows "mset es' = mset es \<and> (\<forall>k < i. es' ! k = es ! k) \<and> key (es' ! i) \<le> key (es ! i) \<and>
    (\<forall>k. m \<le> k \<and> k < n \<longrightarrow> key (es' ! i) \<le> key (es' ! k)) \<and>
    (\<forall>k. k < length es \<and> k \<noteq> i \<and> (k < m \<or> n \<le> k) \<longrightarrow> es' ! k = es ! k)"
  using assms(2,3) unfolding es'_def
proof (induction n rule: dec_induct)
  case base
  then show ?case by auto
next
  case (step n)
  let ?f = "\<lambda>j es. if 0 < cmp (es ! i) (es ! j) then entry_swap i j es else es"
  define a where "a = fold ?f [m..<n] es"
  have IH: "mset a = mset es" "\<forall>k < i. a ! k = es ! k" "key (a ! i) \<le> key (es ! i)"
    "\<forall>k. m \<le> k \<and> k < n \<longrightarrow> key (a ! i) \<le> key (a ! k)"
    "\<forall>k. k < length es \<and> k \<noteq> i \<and> (k < m \<or> n \<le> k) \<longrightarrow> a ! k = es ! k"
    using step.IH step.prems by (auto simp: a_def)
  have len: "length a = length es" using IH(1) by (rule mset_eq_length)
  have i: "i < length a" "n < length a" "i < n" using step assms(1) len by auto
  then have "ok (a ! i)" "ok (a ! n)" using assms(4) IH(1) by (metis nth_mem set_mset_mset)+
  then have c: "0 < cmp (a ! i) (a ! n) \<longleftrightarrow> key (a ! n) < key (a ! i)" by (rule cmp_key)
  have f: "fold ?f [m..<Suc n] es = (if key (a ! n) < key (a ! i) then entry_swap i n a else a)"
    unfolding c [symmetric] using step.hyps by (simp add: a_def)
  show ?case
  proof (cases "key (a ! n) < key (a ! i)")
    case True
    have "key (a ! n) \<le> key (a ! k)" if "m \<le> k" "k < n" for k
      using True IH(4) that by (meson less_imp_le order.trans)
    then show ?thesis
      using True IH(1,2,3,5) i len step.hyps assms(1) mset_entry_swap [OF i(1,2)] unfolding f
      by (auto simp: nth_entry_swap less_Suc_eq)
  next
    case False
    then show ?thesis using IH unfolding f by (auto simp: less_Suc_eq not_less)
  qed
qed

lemma inner:
  assumes "i < length es" "\<forall>e \<in> set es. ok e"
  shows "mset (exchange_inner cmp i es) = mset es" "\<forall>k < i. exchange_inner cmp i es ! k = es ! k"
    "\<forall>k. i < k \<and> k < length es \<longrightarrow> key (exchange_inner cmp i es ! i) \<le> key (exchange_inner cmp i es ! k)"
  using inner_fold [of i "i + 1" "length es" es] assms by (simp_all add: exchange_inner_def)

lemma outer:
  assumes "n \<le> length es" "\<forall>e \<in> set es. ok e"
  shows "mset (fold (exchange_inner cmp) [0..<n] es) = mset es \<and>
    (\<forall>j k. j < n \<and> j < k \<and> k < length es \<longrightarrow>
       key (fold (exchange_inner cmp) [0..<n] es ! j) \<le> key (fold (exchange_inner cmp) [0..<n] es ! k))"
  using assms(1)
proof (induction n)
  case 0
  then show ?case by simp
next
  case (Suc n)
  define a where "a = fold (exchange_inner cmp) [0..<n] es"
  define b where "b = exchange_inner cmp n a"
  have IH: "mset a = mset es" "\<forall>j k. j < n \<and> j < k \<and> k < length es \<longrightarrow> key (a ! j) \<le> key (a ! k)"
    using Suc by (auto simp: a_def)
  have len: "length a = length es" using IH(1) by (rule mset_eq_length)
  have ok: "\<forall>e \<in> set a. ok e" using assms(2) IH(1) by (metis set_mset_mset)
  have n: "n < length a" using Suc.prems len by simp
  note b = inner [OF n ok, folded b_def]
  have lenb: "length b = length es" using b(1) len by (metis mset_eq_length)
  have "key (b ! j) \<le> key (b ! k)" if "j < Suc n" "j < k" "k < length es" for j k
  proof (cases "j = n")
    case True
    then show ?thesis using that b(3) len by simp
  next
    case False
    then have j: "j < n" "b ! j = a ! j" using that b(2) by auto
    have "key (a ! j) \<le> key (b ! k)"
    proof (cases "k < n")
      case True
      then show ?thesis using j that b(2) IH(2) by simp
    next
      case False
      have "take n b = take n a" using b(2) n len lenb by (intro nth_equalityI) auto
      then have "set (drop n b) = set (drop n a)" using b(1) by (rule drop_set_eq [rotated])
      moreover have "b ! k \<in> set (drop n b)"
        using False that lenb by (auto simp: in_set_conv_nth intro!: exI [of _ "k - n"])
      ultimately obtain k' where "n \<le> k'" "k' < length es" "b ! k = a ! k'"
        using len by (auto simp: in_set_conv_nth) (metis add.commute le_add1 less_diff_conv)
      then show ?thesis using j(1) IH(2) by simp
    qed
    then show ?thesis using j by simp
  qed
  then show ?case using b(1) IH(1) by (simp add: a_def b_def)
qed

lemma sort_mset: "\<forall>e \<in> set es. ok e \<Longrightarrow> mset (exchange_sort cmp es) = mset es"
  using outer [of "length es - 1" es] by (simp add: exchange_sort_def)

lemma sort_sorted:
  assumes "\<forall>e \<in> set es. ok e"
  shows "sorted (map key (exchange_sort cmp es))"
  unfolding sorted_iff_nth_mono_less
proof (intro allI impI)
  fix j k
  assume jk: "j < k" "k < length (map key (exchange_sort cmp es))"
  have "length (exchange_sort cmp es) = length es" using sort_mset [OF assms] by (rule mset_eq_length)
  then show "map key (exchange_sort cmp es) ! j \<le> map key (exchange_sort cmp es) ! k"
    using jk outer [of "length es - 1" es] assms by (simp add: exchange_sort_def)
qed

end

text \<open>The order by ranges, unassigned entries first, and the order by names.\<close>

definition unassigned :: "dht_layout_entry \<Rightarrow> bool" where
  "unassigned e \<longleftrightarrow> start e = 0 \<and> stop e = 0"

definition range_key :: "dht_layout_entry \<Rightarrow> int" where
  "range_key e = 2 * uint (start e) + (if unassigned e then 0 else 1)"

definition ordered_range :: "dht_layout_entry \<Rightarrow> bool" where
  "ordered_range e \<longleftrightarrow> start e \<le> stop e"

lemma entry_cmp_key:
  assumes "ordered_range a" "ordered_range b"
  shows "0 < dht_layout_entry_cmp a b \<longleftrightarrow> range_key b < range_key a"
proof -
  have arith: "(0 < (if sb = 0 \<and> tb = 0 then ta - tb else sa - sb)) \<longleftrightarrow>
      2 * sb + (if sb = 0 \<and> tb = 0 then 0 else 1) < 2 * sa + (if sa = 0 \<and> ta = 0 then 0 else 1)"
    if "0 \<le> sa" "sa \<le> ta" "0 \<le> sb" "sb \<le> tb" for sa ta sb tb :: int
    using that by (simp; linarith)
  show ?thesis
    using assms arith [of "uint (start a)" "uint (stop a)" "uint (start b)" "uint (stop b)"]
    by (simp add: dht_layout_entry_cmp_def range_key_def unassigned_def ordered_range_def word_le_def uint_0_iff)
qed

interpretation by_range: key_order dht_layout_entry_cmp range_key ordered_range
  by unfold_locales (rule entry_cmp_key)

text \<open>Names are C strings: they have no NUL character.\<close>

definition c_string :: "string \<Rightarrow> bool" where
  "c_string s \<longleftrightarrow> CHR 0x00 \<notin> set s"

lemma of_char_nat: "(of_char c :: int) = int (of_char c)"
  by (simp add: of_nat_of_char)

lemma of_char_pos:
  assumes "c \<noteq> CHR 0x00"
  shows "0 < (of_char c :: int)"
proof -
  have "of_char c \<noteq> (of_char (CHR 0x00) :: nat)" using assms by (simp only: of_char_eq_iff not_False_eq_True)
  then show ?thesis unfolding of_char_nat by simp
qed

lemma strcmp_less: "c_string s \<Longrightarrow> c_string t \<Longrightarrow> 0 < strcmp s t \<longleftrightarrow> t < s"
proof (induction s t rule: strcmp.induct)
  case (2 b bs)
  then show ?case using of_char_pos [of b] by (auto simp: c_string_def)
next
  case (3 a as)
  then show ?case using of_char_pos [of a] by (auto simp: c_string_def)
next
  case (4 a as b bs)
  have "(of_char b :: int) < of_char a \<longleftrightarrow> b < a"
    unfolding less_char_def of_char_nat by simp
  with 4 show ?case by (auto simp: c_string_def)
qed (auto simp: less_le)

interpretation by_name: key_order dht_layout_entry_cmp_volname "xl_name \<circ> subvol" "c_string \<circ> xl_name \<circ> subvol"
  by unfold_locales (simp add: dht_layout_entry_cmp_volname_def strcmp_less)

section \<open>Holes and overlaps\<close>

text \<open>The entries that count, and the entry a hash belongs to.\<close>

definition participating :: "dht_layout_entry \<Rightarrow> bool" where
  "participating e \<longleftrightarrow> err e = 0 \<and> start e \<noteq> stop e"

definition owns :: "u32 \<Rightarrow> dht_layout_entry \<Rightarrow> bool" where
  "owns h e \<longleftrightarrow> participating e \<and> start e \<le> h \<and> h \<le> stop e"

definition partitions :: "dht_layout_entry list \<Rightarrow> bool" where
  "partitions es \<longleftrightarrow> (\<forall>h. length (filter (owns h) es) = 1)"

definition full_range :: "dht_layout_entry \<Rightarrow> bool" where
  "full_range e \<longleftrightarrow> start e = 0 \<and> stop e = 0xffffffff"

text \<open>The layouts lookups build: ranges run upwards, and an entry that does not count has no range.\<close>

definition wf_layout :: "dht_layout \<Rightarrow> bool" where
  "wf_layout l \<longleftrightarrow> entries l \<noteq> [] \<and> cnt l < 2 ^ 32 - 1 \<and>
     (\<forall>e \<in> set (entries l). start e \<le> stop e \<and> (participating e \<or> unassigned e))"

primrec hole_count :: "u32 \<Rightarrow> dht_layout_entry list \<Rightarrow> nat" where
  "hole_count p [] = 0"
| "hole_count p (e # es) = (if p + 1 < start e then 1 else 0) + hole_count (stop e) es"

primrec overlap_count :: "u32 \<Rightarrow> dht_layout_entry list \<Rightarrow> nat" where
  "overlap_count p [] = 0"
| "overlap_count p (e # es) = (if start e < p + 1 then 1 else 0) + overlap_count (stop e) es"

primrec linked :: "u32 \<Rightarrow> dht_layout_entry list \<Rightarrow> bool" where
  "linked p [] = True"
| "linked p (e # es) \<longleftrightarrow> start e = p + 1 \<and> linked (stop e) es"

lemma counts_le: "hole_count p es \<le> length es" "overlap_count p es \<le> length es"
proof -
  show "hole_count p es \<le> length es"
  proof (induction es arbitrary: p)
    case (Cons e es)
    show ?case using Cons [of "stop e"] by simp
  qed simp
  show "overlap_count p es \<le> length es"
  proof (induction es arbitrary: p)
    case (Cons e es)
    show ?case using Cons [of "stop e"] by simp
  qed simp
qed

lemma linked_counts: "linked p es \<longleftrightarrow> hole_count p es = 0 \<and> overlap_count p es = 0"
  by (induction es arbitrary: p) (auto simp: neq_iff)

lemma anomaly_scan:
  "prev_stop (fold anomaly_step es s) = last (prev_stop s # map stop (filter participating es)) \<and>
   is_virgin (fold anomaly_step es s) = (is_virgin s \<and> filter participating es = []) \<and>
   holes (fold anomaly_step es s) = holes s + of_nat (hole_count (prev_stop s) (filter participating es)) \<and>
   overlaps (fold anomaly_step es s) = overlaps s + of_nat (overlap_count (prev_stop s) (filter participating es))"
proof (induction es arbitrary: s)
  case Nil
  then show ?case by simp
next
  case (Cons e es)
  show ?case
  proof (cases "participating e")
    case True
    then have "err e = 0" "start e \<noteq> stop e" by (simp_all add: participating_def)
    then show ?thesis using True Cons [of "anomaly_step e s"] by (simp add: anomaly_step_def)
  next
    case False
    then have "prev_stop (anomaly_step e s) = prev_stop s \<and> is_virgin (anomaly_step e s) = is_virgin s \<and>
        holes (anomaly_step e s) = holes s \<and> overlaps (anomaly_step e s) = overlaps s"
      by (auto simp: anomaly_step_def participating_def)
    then show ?thesis using False Cons [of "anomaly_step e s"] by simp
  qed
qed

lemma of_nat_u32_0: "n < 2 ^ 32 \<Longrightarrow> (of_nat n :: u32) = 0 \<longleftrightarrow> n = 0"
  by (cases "n = 0") (auto simp: word_of_nat_eq_0_iff nat_dvd_not_less)

lemma anomalies_iff:
  assumes "cnt l < 2 ^ 32 - 1"
  defines "ps \<equiv> filter participating (entries l)" and "p \<equiv> start (hd (entries l)) - 1"
  shows "holes (dht_layout_anomalies l) = 0 \<and> overlaps (dht_layout_anomalies l) = 0 \<longleftrightarrow>
    linked p ps \<and> ps \<noteq> [] \<and> stop (last ps) = p"
proof -
  let ?s = "\<lparr> holes = 0, overlaps = 0, missing = 0, down = 0, misc = 0, no_space = 0,
      is_virgin = True, prev_stop = p \<rparr>"
  have len: "length ps \<le> cnt l" by (simp add: ps_def)
  have b: "hole_count p ps + 1 < 2 ^ 32" "overlap_count p ps < 2 ^ 32"
    using counts_le [of p ps] len assms(1) by simp_all
  define more where "more \<longleftrightarrow> p - last (p # map stop ps) \<noteq> 0 \<or> ps = []"
  define r where "r = fold anomaly_step (entries l) ?s"
  have sc: "prev_stop r = last (p # map stop ps)" "is_virgin r = (ps = [])"
    "holes r = of_nat (hole_count p ps)" "overlaps r = of_nat (overlap_count p ps)"
    using anomaly_scan [of "entries l" ?s] by (simp_all add: r_def ps_def)
  have an: "dht_layout_anomalies l =
      anomalies.truncate (if more then r\<lparr> holes := holes r + 1 \<rparr> else r)"
    unfolding more_def sc(1,2) [symmetric] by (simp only: dht_layout_anomalies_def Let_def p_def r_def)
  have "holes (dht_layout_anomalies l) = of_nat (hole_count p ps + (if more then 1 else 0))"
    "overlaps (dht_layout_anomalies l) = of_nat (overlap_count p ps)"
    unfolding an by (simp_all add: sc(3,4) anomalies.truncate_def)
  then have "holes (dht_layout_anomalies l) = 0 \<longleftrightarrow> hole_count p ps = 0 \<and> \<not> more"
    "overlaps (dht_layout_anomalies l) = 0 \<longleftrightarrow> overlap_count p ps = 0"
    using b of_nat_u32_0 [of "hole_count p ps + (if more then 1 else 0)"] of_nat_u32_0 [of "overlap_count p ps"]
    by (auto split: if_splits)
  moreover have "\<not> more \<longleftrightarrow> ps \<noteq> [] \<and> stop (last ps) = p" unfolding more_def by (auto simp: last_map)
  ultimately show ?thesis unfolding linked_counts by blast
qed

text \<open>Ranges of integers, sorted by their start: they cover the numbers from \<open>lo\<close> to \<open>hi\<close> once
  each if and only if each starts where the one before has stopped.\<close>

definition in_range :: "int \<Rightarrow> int \<times> int \<Rightarrow> bool" where
  "in_range h r \<longleftrightarrow> fst r \<le> h \<and> h \<le> snd r"

primrec chained :: "int \<Rightarrow> (int \<times> int) list \<Rightarrow> bool" where
  "chained p [] = True"
| "chained p (r # rs) \<longleftrightarrow> fst r = p + 1 \<and> chained (snd r) rs"

lemma chained_above: "chained p rs \<Longrightarrow> \<forall>r \<in> set rs. fst r \<le> snd r \<Longrightarrow> \<forall>r \<in> set rs. p < fst r"
proof (induction rs arbitrary: p)
  case (Cons r rs)
  have "\<forall>x \<in> set rs. snd r < fst x" using Cons by auto
  then show ?case using Cons.prems by auto
qed simp

lemma chained_cover:
  assumes "sorted (map fst rs)" "\<forall>r \<in> set rs. lo \<le> fst r \<and> fst r \<le> snd r \<and> snd r \<le> hi" "lo \<le> hi + 1"
  shows "(\<forall>h. lo \<le> h \<and> h \<le> hi \<longrightarrow> length (filter (in_range h) rs) = 1) \<longleftrightarrow>
    chained (lo - 1) rs \<and> last ((lo - 1) # map snd rs) = hi"
  using assms
proof (induction rs arbitrary: lo)
  case Nil
  then show ?case by auto
next
  case (Cons r rs)
  let ?n = "\<lambda>h rs. length (filter (in_range h) rs)"
  have r: "lo \<le> fst r" "fst r \<le> snd r" "snd r \<le> hi" using Cons.prems(2) by auto
  have above: "(\<forall>h. lo \<le> h \<and> h \<le> hi \<longrightarrow> ?n h (r # rs) = 1) \<longleftrightarrow>
      fst r = lo \<and> (\<forall>h. snd r + 1 \<le> h \<and> h \<le> hi \<longrightarrow> ?n h rs = 1)"
    if a: "\<forall>x \<in> set rs. snd r < fst x"
  proof -
    have low: "?n h (r # rs) = (if in_range h r then 1 else 0)" if "h \<le> snd r" for h
    proof -
      have "filter (in_range h) rs = []" using a that by (fastforce simp: filter_empty_conv in_range_def)
      then show ?thesis by simp
    qed
    have high: "?n h (r # rs) = ?n h rs" if "snd r + 1 \<le> h" for h using that by (simp add: in_range_def)
    show ?thesis
    proof (intro iffI conjI allI impI)
      assume c: "\<forall>h. lo \<le> h \<and> h \<le> hi \<longrightarrow> ?n h (r # rs) = 1"
      then have "?n lo (r # rs) = 1" using r by simp
      then show "fst r = lo" using low [of lo] r by (auto simp: in_range_def split: if_splits)
      show "?n h rs = 1" if "snd r + 1 \<le> h \<and> h \<le> hi" for h using c high [of h] that r by simp
    next
      fix h
      assume c: "fst r = lo \<and> (\<forall>h. snd r + 1 \<le> h \<and> h \<le> hi \<longrightarrow> ?n h rs = 1)" and h: "lo \<le> h \<and> h \<le> hi"
      then show "?n h (r # rs) = 1"
        using low [of h] high [of h] by (cases "h \<le> snd r") (auto simp: in_range_def)
    qed
  qed
  have IH: "(\<forall>h. snd r + 1 \<le> h \<and> h \<le> hi \<longrightarrow> ?n h rs = 1) \<longleftrightarrow> chained (snd r) rs \<and> last (snd r # map snd rs) = hi"
    if "\<forall>x \<in> set rs. snd r < fst x"
  proof -
    have "\<forall>x \<in> set rs. snd r + 1 \<le> fst x \<and> fst x \<le> snd x \<and> snd x \<le> hi" using that Cons.prems(2) by auto
    then show ?thesis using Cons.IH [of "snd r + 1"] Cons.prems(1) r(3) by simp
  qed
  show ?case
  proof (cases "\<forall>x \<in> set rs. snd r < fst x")
    case True
    then show ?thesis using above IH by simp
  next
    case False
    then obtain x where x: "x \<in> set rs" "fst x \<le> snd r" by auto
    then have s: "fst r \<le> fst x" "fst x \<le> snd x" "snd x \<le> hi" using Cons.prems(1,2) by auto
    have "0 < ?n (fst x) rs" using x(1) s(2) by (auto simp: in_range_def filter_empty_conv)
    then have "?n (fst x) (r # rs) \<noteq> 1" using x(2) s(1) by (simp add: in_range_def)
    moreover have "lo \<le> fst x \<and> fst x \<le> hi" using s r by auto
    ultimately have "\<not> (\<forall>h. lo \<le> h \<and> h \<le> hi \<longrightarrow> ?n h (r # rs) = 1)" by blast
    moreover have "\<not> chained (lo - 1) (r # rs)"
      using chained_above [of "snd r" rs] Cons.prems(2) x by fastforce
    ultimately show ?thesis by blast
  qed
qed

definition range_of :: "dht_layout_entry \<Rightarrow> int \<times> int" where
  "range_of e = (uint (start e), uint (stop e))"

lemma owns_range: "participating e \<Longrightarrow> owns h e \<longleftrightarrow> in_range (uint h) (range_of e)"
  by (simp add: owns_def in_range_def range_of_def word_le_def)

lemma filter_owns: "filter (owns h) es = filter (\<lambda>e. in_range (uint h) (range_of e)) (filter participating es)"
  unfolding filter_filter by (rule filter_cong) (auto simp: owns_def in_range_def range_of_def word_le_def)

lemma all_u32: "(\<forall>h :: u32. P (uint h)) \<longleftrightarrow> (\<forall>h. 0 \<le> h \<and> h \<le> 4294967295 \<longrightarrow> P h)"
proof safe
  fix h :: int
  assume p: "\<forall>h :: u32. P (uint h)" and h: "0 \<le> h" "h \<le> 4294967295"
  have "uint (word_of_int h :: u32) = h" using h by (simp add: uint_word_of_int)
  then show "P h" using p by metis
next
  fix h :: u32
  assume "\<forall>h. 0 \<le> h \<and> h \<le> 4294967295 \<longrightarrow> P h"
  moreover have "uint h \<le> 4294967295" using uint_lt2p [of h] by simp
  ultimately show "P (uint h)" by simp
qed

lemma full_range_uint: "full_range e \<longleftrightarrow> uint (start e) = 0 \<and> uint (stop e) = 4294967295"
  by (simp add: full_range_def word_uint_eq_iff)

lemma linked_chained:
  assumes "sorted (map (uint \<circ> start) (e # es))" "\<forall>x \<in> set (e # es). \<not> full_range x"
  shows "linked (stop e) es \<longleftrightarrow> chained (uint (stop e)) (map range_of es)"
  using assms
proof (induction es arbitrary: e)
  case (Cons x es)
  have arith: "(c = (if b + 1 < 4294967296 then b + 1 else b + 1 - 4294967296)) \<longleftrightarrow> c = b + 1"
    if "0 \<le> a" "a \<le> c" "\<not> (a = 0 \<and> b = 4294967295)" "b < 4294967296" "c < 4294967296" for a b c :: int
    using that by (cases "b = 4294967295") auto
  have "uint (start e) \<le> uint (start x)" "\<not> (uint (start e) = 0 \<and> uint (stop e) = 4294967295)"
    using Cons.prems by (simp_all add: full_range_uint)
  moreover have u: "uint (stop e + 1) =
      (if uint (stop e) + 1 < 4294967296 then uint (stop e) + 1 else uint (stop e) + 1 - 4294967296)"
    by (simp add: uint_plus_if')
  ultimately have "start x = stop e + 1 \<longleftrightarrow> uint (start x) = uint (stop e) + 1"
    unfolding word_uint_eq_iff u using uint_lt2p [of "stop e"] uint_lt2p [of "start x"]
    by (intro arith [of "uint (start e)"]) simp_all
  then show ?case using Cons by (simp add: range_of_def)
qed simp

lemma uint_max: "uint (- 1 :: u32) = 4294967295"
  by (simp add: unsigned_minus_1_eq_mask mask_eq_exp_minus_1)

lemma ring_closed:
  assumes "es \<noteq> []" "\<forall>e \<in> set es. start e \<le> stop e \<and> (participating e \<or> unassigned e)"
    and srt: "sorted (map (uint \<circ> start) (filter participating es))"
    and full: "(\<forall>e \<in> set es. \<not> full_range e) \<or> length (filter participating es) \<le> 1"
  shows "chained (- 1) (map range_of (filter participating es)) \<and>
      last (- 1 # map snd (map range_of (filter participating es))) = 4294967295 \<longleftrightarrow>
    linked (start (hd es) - 1) (filter participating es) \<and> filter participating es \<noteq> [] \<and>
      stop (last (filter participating es)) = start (hd es) - 1"
proof (cases "filter participating es")
  case Nil
  then show ?thesis by simp
next
  case (Cons e r)
  let ?l = "last (e # r)"
  have sub: "set (e # r) \<subseteq> set es" using Cons by (metis filter_is_subset)
  then have mem: "e \<in> set es" "?l \<in> set es" using last_in_set [of "e # r"] by auto
  have lk: "linked (stop e) r \<longleftrightarrow> chained (uint (stop e)) (map range_of r)"
  proof (cases r)
    case (Cons x r')
    then have "\<forall>x \<in> set (e # r). \<not> full_range x"
      using full sub \<open>filter participating es = e # r\<close> by auto
    then show ?thesis using srt \<open>filter participating es = e # r\<close> by (intro linked_chained) simp_all
  qed simp
  have last: "last (- 1 # map snd (map range_of (e # r))) = uint (stop ?l)" by (simp add: last_map range_of_def)
  have max: "uint (stop ?l) = 4294967295 \<longleftrightarrow> stop ?l = - 1" by (simp only: word_uint_eq_iff uint_max)
  have z: "uint (start e) = 0 \<longleftrightarrow> start e = 0" by (simp add: uint_0_iff)
  show ?thesis
  proof (cases "participating (hd es)")
    case True
    then have e: "e = hd es" using Cons assms(1) by (cases es) auto
    have le: "start e \<le> stop ?l"
    proof -
      have "uint (start e) \<le> uint (start ?l)" using srt Cons by auto
      then show ?thesis using mem(2) assms(2) by (auto simp: word_le_def)
    qed
    have "start e = 0" if "stop ?l = start e - 1"
    proof (rule ccontr)
      assume "start e \<noteq> 0"
      then have "0 < uint (start e)" by (metis uint_ge_0 less_le uint_0_iff)
      then have "uint (start e - 1) = uint (start e) - 1" by (simp add: uint_sub_if')
      then show False using le that by (simp add: word_le_def)
    qed
    then show ?thesis using Cons lk last max z e by (auto simp: range_of_def)
  next
    case False
    then have "start (hd es) = 0" using assms(1,2) by (auto simp: unassigned_def)
    then show ?thesis using Cons lk last max z by (auto simp: range_of_def)
  qed
qed

text \<open>A layout without holes and overlaps is one in which every hash belongs to one entry.\<close>

lemma linked_partitions:
  assumes es: "es \<noteq> []" "sorted (map range_key es)"
    "\<forall>e \<in> set es. start e \<le> stop e \<and> (participating e \<or> unassigned e)"
    and full: "(\<forall>e \<in> set es. \<not> full_range e) \<or> length (filter participating es) \<le> 1"
  defines "ps \<equiv> filter participating es" and "p \<equiv> start (hd es) - 1"
  shows "linked p ps \<and> ps \<noteq> [] \<and> stop (last ps) = p \<longleftrightarrow> partitions es"
proof -
  have key: "range_key x \<le> range_key y \<Longrightarrow> uint (start x) \<le> uint (start y)" for x y
    by (auto simp: range_key_def split: if_splits)
  have srt: "sorted (map (uint \<circ> start) ps)"
  proof -
    have "sorted_wrt (\<lambda>x y. uint (start x) \<le> uint (start y)) es"
      using es(2) unfolding sorted_map by (rule sorted_wrt_mono_rel [rotated]) (rule key)
    then show ?thesis unfolding ps_def sorted_map comp_def by (rule sorted_wrt_filter)
  qed
  have "partitions es \<longleftrightarrow> (\<forall>h. 0 \<le> h \<and> h \<le> 4294967295 \<longrightarrow> length (filter (in_range h) (map range_of ps)) = 1)"
    unfolding partitions_def filter_owns ps_def [symmetric] filter_map length_map comp_def
    by (rule all_u32)
  also have "\<dots> \<longleftrightarrow> chained (- 1) (map range_of ps) \<and> last (- 1 # map snd (map range_of ps)) = 4294967295"
  proof (subst chained_cover)
    show "sorted (map fst (map range_of ps))" using srt by (simp add: range_of_def comp_def)
    show "\<forall>r \<in> set (map range_of ps). 0 \<le> fst r \<and> fst r \<le> snd r \<and> snd r \<le> 4294967295"
    proof safe
      fix a b
      assume "(a, b) \<in> set (map range_of ps)"
      then obtain e where e: "e \<in> set es" "a = uint (start e)" "b = uint (stop e)" by (auto simp: ps_def range_of_def)
      then show "0 \<le> fst (a, b)" "fst (a, b) \<le> snd (a, b)" "snd (a, b) \<le> 4294967295"
        using es(3) uint_lt2p [of "stop e"] by (auto simp: word_le_def)
    qed
  qed simp_all
  also have "\<dots> \<longleftrightarrow> linked p ps \<and> ps \<noteq> [] \<and> stop (last ps) = p"
    using ring_closed [OF es(1,3) srt [unfolded ps_def] full] by (simp add: ps_def p_def)
  finally show ?thesis by simp
qed

lemma sort_wf:
  assumes "wf_layout l"
  shows "mset (entries (dht_layout_sort l)) = mset (entries l)" "sorted (map range_key (entries (dht_layout_sort l)))"
    "wf_layout (dht_layout_sort l)"
proof -
  have ok: "\<forall>e \<in> set (entries l). ordered_range e" using assms by (auto simp: wf_layout_def ordered_range_def)
  show m: "mset (entries (dht_layout_sort l)) = mset (entries l)" and "sorted (map range_key (entries (dht_layout_sort l)))"
    using by_range.sort_mset [OF ok] by_range.sort_sorted [OF ok] by (simp_all add: dht_layout_sort_def)
  show "wf_layout (dht_layout_sort l)"
    using assms mset_eq_setD [OF m] mset_eq_length [OF m] unfolding wf_layout_def by (metis length_0_conv)
qed

lemma partitions_mset: "mset es = mset es' \<Longrightarrow> partitions es = partitions es'"
  unfolding partitions_def by (metis mset_filter size_mset)

lemma normalize_iff:
  assumes wf: "wf_layout l"
    and full: "(\<forall>e \<in> set (entries l). \<not> full_range e) \<or> length (filter participating (entries l)) \<le> 1"
  shows "0 \<le> fst (dht_layout_normalize l) \<longleftrightarrow> partitions (entries l)"
proof -
  let ?l = "dht_layout_sort l"
  note s = sort_wf [OF wf]
  have "length (filter participating (entries ?l)) = length (filter participating (entries l))"
    using s(1) by (metis mset_filter size_mset)
  then have full': "(\<forall>e \<in> set (entries ?l). \<not> full_range e) \<or> length (filter participating (entries ?l)) \<le> 1"
    using full mset_eq_setD [OF s(1)] by simp
  have w: "entries ?l \<noteq> []" "cnt ?l < 2 ^ 32 - 1"
    "\<forall>e \<in> set (entries ?l). start e \<le> stop e \<and> (participating e \<or> unassigned e)"
    using s(3) by (auto simp: wf_layout_def)
  have "holes (dht_layout_anomalies ?l) = 0 \<and> overlaps (dht_layout_anomalies ?l) = 0 \<longleftrightarrow> partitions (entries ?l)"
    unfolding anomalies_iff [OF w(2)] by (rule linked_partitions [OF w(1) s(2) w(3) full'])
  then show ?thesis
    using partitions_mset [OF s(1)] by (auto simp: dht_layout_normalize_def Let_def dht_layout_missing_dirs_def)
qed

lemma search_owner:
  assumes "wf_layout l" "partitions (entries l)" "h \<noteq> 0 \<or> (\<forall>e \<in> set (entries l). participating e)"
  shows "\<exists>e \<in> set (entries l). owns h e \<and> find (\<lambda>e. start e \<le> h \<and> h \<le> stop e) (entries l) = Some e"
proof -
  have same: "start e \<le> h \<and> h \<le> stop e \<longleftrightarrow> owns h e" if "e \<in> set (entries l)" for e
    using assms(1,3) that by (auto simp: wf_layout_def owns_def unassigned_def)
  have "length (filter (owns h) (entries l)) = 1" using assms(2) by (simp add: partitions_def)
  then have "filter (owns h) (entries l) \<noteq> []" by auto
  then have "find (\<lambda>e. start e \<le> h \<and> h \<le> stop e) (entries l) \<noteq> None"
    using same by (auto simp: find_None_iff filter_empty_conv)
  then obtain e where e: "find (\<lambda>e. start e \<le> h \<and> h \<le> stop e) (entries l) = Some e" by blast
  then show ?thesis using find_Some_set [OF e] same by blast
qed

lemma disk_merge_extract:
  assumes "hash_type l \<in> {DHT_HASH_TYPE_DM, DHT_HASH_TYPE_DM_USER}"
  shows "dht_disk_layout_merge l' pos' (Some (dht_disk_layout_extract l pos)) =
    (0, l'\<lparr> hash_type := (if hash_type l = DHT_HASH_TYPE_DM_USER then hash_type l else hash_type l'),
           entries := (entries l')[pos' := (entries l' ! pos')\<lparr> entry_commit_hash := entry_commit_hash (entries l ! pos),
             start := start (entries l ! pos), stop := stop (entries l ! pos) \<rparr>] \<rparr>)"
  using assms by (auto simp: dht_disk_layout_merge_def dht_disk_layout_extract_def Let_def hton32_def)

section \<open>Sample layouts\<close>

definition sample_conf :: "xlator list \<Rightarrow> dht_conf" where
  "sample_conf xs = \<lparr> subvolumes = xs, dir_spread_cnt = 0, conf_gen = 7, xattr_name = ''trusted.glusterfs.dht'',
     extra_regex = None, rsync_regex = None, decommissioned_bricks = map (\<lambda>_. null_xlator) xs,
     decommission_subvols_cnt = 0, du_stats = None, do_weighting = True, randomize_by_gfid = False \<rparr>"

definition brick :: "nat \<Rightarrow> string \<Rightarrow> xlator" where
  "brick n s = \<lparr> xl_id = n, xl_name = s \<rparr>"

definition sample_entry :: "xlator \<Rightarrow> u32 \<Rightarrow> u32 \<Rightarrow> dht_layout_entry" where
  "sample_entry x a b = \<lparr> err = 0, start = a, stop = b, entry_commit_hash = 5, subvol = x \<rparr>"

definition sample_layout :: "dht_layout_entry list \<Rightarrow> dht_layout" where
  "sample_layout es = \<lparr> spread_cnt = 0, preset = False, commit_hash = 5, gen = 7, hash_type = DHT_HASH_TYPE_DM, entries = es \<rparr>"

definition no_regex :: regexec_fn where
  "no_regex re s = (REG_NOMATCH, -1, -1)"

section \<open>Properties\<close>

text \<open>C6: the anomaly search is exact. In a layout as lookups build it, with at most one entry in use
  or none that spans all hashes, \<open>dht_layout_normalize\<close> answers without an error if and only if every
  hash belongs to exactly one of the entries that count.\<close>

theorem normalize_detects_anomalies:
  assumes "wf_layout l"
    and "(\<forall>e \<in> set (entries l). \<not> full_range e) \<or> length (filter participating (entries l)) \<le> 1"
  shows "0 \<le> fst (dht_layout_normalize l) \<longleftrightarrow> partitions (entries l)"
  using assms by (rule normalize_iff)

theorem normalize_detects_anomalies_witness:
  "let l = sample_layout [sample_entry (brick 2 ''b'') 0x80000000 0xffffffff, sample_entry (brick 3 ''c'') 0 0,
       sample_entry (brick 4 ''a'') 0 0x7fffffff]
   in wf_layout l \<and> fst (dht_layout_normalize l) = 0 \<and> partitions (entries l)"
proof -
  let ?l = "sample_layout [sample_entry (brick 2 ''b'') 0x80000000 0xffffffff, sample_entry (brick 3 ''c'') 0 0,
       sample_entry (brick 4 ''a'') 0 0x7fffffff]"
  have "wf_layout ?l"
    by (simp add: wf_layout_def sample_layout_def sample_entry_def participating_def unassigned_def)
  moreover have "\<forall>e \<in> set (entries ?l). \<not> full_range e"
    by (simp add: sample_layout_def sample_entry_def full_range_def)
  moreover have "fst (dht_layout_normalize ?l) = 0" by code_simp
  ultimately show ?thesis using normalize_detects_anomalies [of ?l] by (simp add: Let_def)
qed

text \<open>C22: a name finds its subvolume. When every hash belongs to one entry, the search gives the
  subvolume of the entry the hash of the name belongs to, for every hash but 0, and for 0 too when every
  entry has a range.\<close>

theorem search_finds_owner:
  assumes "wf_layout l" "partitions (entries l)"
    and "dht_hash_compute regexec (extra_regex conf) (rsync_regex conf) (hash_type l) name = Some h"
    and "h \<noteq> 0 \<or> (\<forall>e \<in> set (entries l). participating e)"
  shows "\<exists>e \<in> set (entries l). owns h e \<and> dht_layout_search regexec conf l name = Some (subvol e)"
  using search_owner [OF assms(1,2,4)] assms(3) by (auto simp: dht_layout_search_def)

theorem search_finds_owner_witness:
  "let l = sample_layout [sample_entry (brick 2 ''b'') 0x80000000 0xffffffff, sample_entry (brick 4 ''a'') 0 0x7fffffff]
   in \<exists>e \<in> set (entries l). owns 0 e \<and> dht_layout_search no_regex (sample_conf []) l ''0tcaxkep'' = Some (subvol e)"
proof -
  let ?l = "sample_layout [sample_entry (brick 2 ''b'') 0x80000000 0xffffffff, sample_entry (brick 4 ''a'') 0 0x7fffffff]"
  have wf: "wf_layout ?l" and p: "\<forall>e \<in> set (entries ?l). participating e"
    by (simp_all add: wf_layout_def sample_layout_def sample_entry_def participating_def)
  have "\<forall>e \<in> set (entries ?l). \<not> full_range e" by (simp add: sample_layout_def sample_entry_def full_range_def)
  moreover have "fst (dht_layout_normalize ?l) = 0" by code_simp
  ultimately have "partitions (entries ?l)" using normalize_iff [OF wf] by simp
  moreover have "dht_hash_compute no_regex (extra_regex (sample_conf [])) (rsync_regex (sample_conf [])) (hash_type ?l) ''0tcaxkep'' = Some 0"
    by (simp add: dht_hash_compute_def sample_conf_def sample_layout_def hash_zero_name)
  ultimately show ?thesis using search_finds_owner [OF wf] p by (simp add: Let_def)
qed

text \<open>C34: hash 0 can be misplaced. A layout without holes and overlaps in which the search gives the
  name \<open>0tcaxkep\<close> to a subvolume that has no range in it.\<close>

theorem zero_hash_misplaced:
  "\<exists>l e. fst (dht_layout_normalize l) = 0 \<and> e \<in> set (entries (snd (dht_layout_normalize l))) \<and> \<not> participating e \<and>
     dht_layout_search no_regex (sample_conf []) (snd (dht_layout_normalize l)) ''0tcaxkep'' = Some (subvol e)"
proof -
  let ?e = "sample_entry (brick 3 ''c'') 0 0"
  let ?l = "sample_layout [sample_entry (brick 2 ''b'') 0 0xffffffff, ?e]"
  have n: "dht_layout_normalize ?l = (0, sample_layout [?e, sample_entry (brick 2 ''b'') 0 0xffffffff])" by code_simp
  have "dht_layout_search no_regex (sample_conf []) (snd (dht_layout_normalize ?l)) ''0tcaxkep'' = Some (subvol ?e)"
    unfolding n
    by (simp add: dht_layout_search_def dht_hash_compute_def sample_conf_def sample_layout_def sample_entry_def hash_zero_name)
  moreover have "?e \<in> set (entries (snd (dht_layout_normalize ?l)))" unfolding n by (simp add: sample_layout_def)
  moreover have "\<not> participating ?e" by (simp add: participating_def sample_entry_def)
  moreover have "fst (dht_layout_normalize ?l) = 0" unfolding n by simp
  ultimately show ?thesis by blast
qed

text \<open>C35: some overlaps go unseen. Two entries that both span all hashes: \<open>dht_layout_normalize\<close> reports
  no anomaly, although every hash belongs to both.\<close>

theorem full_ranges_unseen:
  "\<exists>l. wf_layout l \<and> fst (dht_layout_normalize l) = 0 \<and> (\<forall>h. length (filter (owns h) (entries l)) = 2)"
proof -
  let ?l = "sample_layout [sample_entry (brick 2 ''b'') 0 0xffffffff, sample_entry (brick 3 ''c'') 0 0xffffffff]"
  have "wf_layout ?l" by (simp add: wf_layout_def sample_layout_def sample_entry_def participating_def)
  moreover have "fst (dht_layout_normalize ?l) = 0" by code_simp
  moreover have "h \<le> 0xffffffff" for h :: u32 using uint_lt2p [of h] by (simp add: word_le_def)
  then have "\<forall>h. length (filter (owns h) (entries ?l)) = 2"
    by (simp add: owns_def sample_layout_def sample_entry_def participating_def)
  ultimately show ?thesis by blast
qed

text \<open>C23: what is written to disk is read back. The attribute that \<open>dht_disk_layout_extract\<close> makes of an
  entry, merged into any place of any layout, gives that place the range and the commit hash of the
  entry, and checked against its own layout it does not mismatch.\<close>

theorem disk_layout_round_trip:
  assumes "hash_type l \<in> {DHT_HASH_TYPE_DM, DHT_HASH_TYPE_DM_USER}" "pos < cnt l" "pos' < cnt l'"
    and "dht_layout_index_for_subvol l (subvol (entries l ! pos)) = int pos"
  shows "fst (dht_disk_layout_merge l' pos' (Some (dht_disk_layout_extract l pos))) = 0 \<and>
    (let e = entries (snd (dht_disk_layout_merge l' pos' (Some (dht_disk_layout_extract l pos)))) ! pos'
     in start e = start (entries l ! pos) \<and> stop e = stop (entries l ! pos) \<and>
        entry_commit_hash e = entry_commit_hash (entries l ! pos) \<and> subvol e = subvol (entries l' ! pos')) \<and>
    dht_layout_dir_mismatch conf l (subvol (entries l ! pos))
      (Some ((\<lambda>_. None)(xattr_name conf \<mapsto> dht_disk_layout_extract l pos))) = 0"
proof -
  let ?P = "\<lambda>e. xl_id (subvol e) = xl_id (subvol (entries l ! pos))"
  have f1: "find (\<lambda>i. ?P (entries l ! i)) [0..<cnt l] = Some pos"
    using assms(4) by (auto simp: dht_layout_index_for_subvol_def split: option.splits)
  have f2: "find ?P (entries l) = map_option (\<lambda>i. entries l ! i) (find (\<lambda>i. ?P (entries l ! i)) [0..<cnt l])"
    by (subst map_nth [symmetric]) (simp only: find_map comp_def)
  have "find ?P (entries l) = Some (entries l ! pos)" unfolding f2 f1 by simp
  then have "dht_layout_dir_mismatch conf l (subvol (entries l ! pos))
      (Some ((\<lambda>_. None)(xattr_name conf \<mapsto> dht_disk_layout_extract l pos))) = 0"
    by (simp add: dht_layout_dir_mismatch_def) (simp add: dht_disk_layout_extract_def hton32_def Let_def)
  then show ?thesis unfolding disk_merge_extract [OF assms(1)] using assms(3) by (simp add: Let_def)
qed

theorem disk_layout_round_trip_witness:
  "let l = sample_layout [sample_entry (brick 2 ''b'') 0x80000000 0xffffffff, sample_entry (brick 4 ''a'') 0 0x7fffffff];
       l' = dht_layout_new (sample_conf [brick 2 ''b'', brick 4 ''a'']) 2
   in fst (dht_disk_layout_merge l' 1 (Some (dht_disk_layout_extract l 0))) = 0 \<and>
      start (entries (snd (dht_disk_layout_merge l' 1 (Some (dht_disk_layout_extract l 0)))) ! 1) = 0x80000000"
proof -
  let ?l = "sample_layout [sample_entry (brick 2 ''b'') 0x80000000 0xffffffff, sample_entry (brick 4 ''a'') 0 0x7fffffff]"
  have "dht_layout_index_for_subvol ?l (subvol (entries ?l ! 0)) = int 0" by code_simp
  then show ?thesis
    using disk_layout_round_trip [of ?l 0 1 "dht_layout_new (sample_conf [brick 2 ''b'', brick 4 ''a'']) 2"]
    by (simp add: Let_def sample_layout_def sample_entry_def dht_layout_new_def)
qed

end
