(* ===== verification/Dht_Selfheal.thy ===== *)
theory Dht_Selfheal
  imports Dht_Layout "HOL-Library.Log_Nat"
begin

text \<open>
  Making and mending directory layouts, \<open>xlators/cluster/dht/src/dht-selfheal.c\<close>: the division of
  the hashes among the subvolumes that can take part, evenly or weighted by the size of the
  subvolumes, the exchange of ranges that keeps as much of the old layout as possible, the decisions
  whether a layout is to be healed or fixed, and the writing of the ranges to the directories.

  The weighted division computes with C \<open>double\<close> values.  They are rationals here, and \<open>dbl\<close> rounds
  to 53 bits, half to even; the exponents that occur are far from the limits of the format.  The
  conversion of a \<open>double\<close> to \<open>uint32_t\<close> is undefined outside the range of that type: the value None.
\<close>

section \<open>Double precision\<close>

definition half_even :: "rat \<Rightarrow> int" where
  "half_even x =
     (let f = \<lfloor>x\<rfloor>; d = x - of_int f
      in if d < 1 / 2 then f else if 1 / 2 < d then f + 1 else if even f then f else f + 1)"

text \<open>The power of two below a positive rational.\<close>

definition log2_floor :: "rat \<Rightarrow> int" where
  "log2_floor x =
     (let (a, b) = quotient_of x; k = bitlen a - bitlen b in if 2 powi k \<le> x then k else k - 1)"

definition dbl :: "rat \<Rightarrow> rat" where
  "dbl x =
     (if x \<le> 0 then 0
      else let k = log2_floor x - 52 in of_int (half_even (x * 2 powi (- k))) * 2 powi k)"

definition to_u32 :: "rat \<Rightarrow> u32 option" where
  "to_u32 x = (let n = \<lfloor>x\<rfloor> in if 0 \<le> n \<and> n < 2 ^ 32 then Some (word_of_int n) else None)"

section \<open>Deciding\<close>

definition dht_overlap_calc :: "dht_layout_entry \<Rightarrow> dht_layout_entry \<Rightarrow> u32" where
  "dht_overlap_calc old new =
     (if 0 < err old \<or> 0 < err new then 0
      else if start old = stop old then 0
      else if start new = stop new then 0
      else if stop new < start old \<or> stop old < start new then 0
      else min (stop old) (stop new) - max (start old) (start new) + 1)"

text \<open>The answer, and the layouts as \<open>heal\<close> and \<open>ondisk\<close> point at them afterwards.\<close>

definition dht_should_heal_layout :: "int \<Rightarrow> dht_layout \<Rightarrow> dht_layout \<Rightarrow> bool \<times> dht_layout \<times> dht_layout" where
  "dht_should_heal_layout force_mkdir heal ondisk =
     (let a = dht_layout_anomalies ondisk;
          heal_missing_dirs = (if force_mkdir \<noteq> 0 then force_mkdir else dht_layout_missing_dirs heal);
          fixit = (holes a \<noteq> 0 \<or> overlaps a \<noteq> 0 \<or> heal_missing_dirs \<noteq> 0)
      in if holes a = 0 \<and> overlaps a = 0 \<and> heal_missing_dirs \<noteq> 0 then (fixit, ondisk, heal)
         else (fixit, heal, ondisk))"

definition dht_layout_span :: "dht_layout \<Rightarrow> int" where
  "dht_layout_span layout = int (length (filter (\<lambda>e. err e = 0 \<and> start e \<noteq> stop e) (entries layout)))"

definition dht_decommissioned_bricks_in_layout :: "dht_conf \<Rightarrow> dht_layout \<Rightarrow> int" where
  "dht_decommissioned_bricks_in_layout conf layout =
     int (sum_list (map (\<lambda>e. length (filter (\<lambda>d. xl_id d \<noteq> 0 \<and> xl_id d = xl_id (subvol e)) (decommissioned_bricks conf)))
       (entries layout)))"

datatype dht_distribution_type_t = GF_DHT_EQUAL_DISTRIBUTION | GF_DHT_WEIGHTED_DISTRIBUTION

fun distribution_loop :: "u32 \<Rightarrow> u32 \<Rightarrow> dht_layout_entry list \<Rightarrow> dht_distribution_type_t" where
  "distribution_loop n start_range [] = GF_DHT_EQUAL_DISTRIBUTION"
| "distribution_loop n start_range (e # es) =
     (if start_range = 0 then distribution_loop n (stop e - start e) es
      else
        let range = stop e - start e;
            diff = (if start_range \<le> range then range - start_range else start_range - range)
        in if range \<noteq> 0 \<and> n < diff then GF_DHT_WEIGHTED_DISTRIBUTION
           else distribution_loop n start_range es)"

definition dht_distribution_type :: "dht_layout \<Rightarrow> dht_distribution_type_t" where
  "dht_distribution_type layout = distribution_loop (of_nat (cnt layout)) 0 (entries layout)"

definition dht_should_fix_layout :: "dht_conf \<Rightarrow> dht_layout \<Rightarrow> dht_layout \<Rightarrow> bool" where
  "dht_should_fix_layout conf inmem ondisk =
     (let a = dht_layout_anomalies ondisk
      in if down a \<noteq> 0 \<or> misc a \<noteq> 0 then False
         else if holes a \<noteq> 0 \<or> overlaps a \<noteq> 0 then True
         else if commit_hash inmem \<noteq> commit_hash ondisk then True
         else \<not> (dht_decommissioned_bricks_in_layout conf ondisk = 0 \<and>
                dht_layout_span ondisk = int (length (subvolumes conf)) - decommission_subvols_cnt conf \<and>
                dht_distribution_type inmem = dht_distribution_type ondisk))"

definition dht_is_subvol_part_of_layout :: "dht_layout \<Rightarrow> xlator \<Rightarrow> bool" where
  "dht_is_subvol_part_of_layout layout x \<longleftrightarrow> (\<exists>e \<in> set (entries layout). strcmp (xl_name (subvol e)) (xl_name x) = 0)"

definition dht_layout_index_from_conf :: "dht_layout \<Rightarrow> xlator \<Rightarrow> int" where
  "dht_layout_index_from_conf layout x =
     (case find (\<lambda>i. strcmp (xl_name (subvol (entries layout ! i))) (xl_name x) = 0) [0..<cnt layout] of
        Some i \<Rightarrow> int i | None \<Rightarrow> -1)"

section \<open>A new layout\<close>

record loc =
  loc_path :: string
  loc_gfid_str :: string

definition dht_selfheal_layout_alloc_start :: "regexec_fn \<Rightarrow> dht_conf \<Rightarrow> loc \<Rightarrow> dht_layout \<Rightarrow> nat" where
  "dht_selfheal_layout_alloc_start regexec conf lc layout =
     (let str = (if randomize_by_gfid conf then loc_gfid_str lc else loc_path lc)
      in case dht_hash_compute regexec (extra_regex conf) (rsync_regex conf) (hash_type layout) str of
           Some hashval \<Rightarrow> unat hashval mod cnt layout
         | None \<Rightarrow> 0)"

text \<open>The marking of decommissioned entries, the counting of usable ones (an error 0 turning into -1),
  the use of full subvolumes where nothing else is left, and the limit by the spread count.\<close>

definition mark_decommissioned :: "dht_conf \<Rightarrow> dht_layout_entry \<Rightarrow> dht_layout_entry" where
  "mark_decommissioned conf e =
     (if \<exists>d \<in> set (decommissioned_bricks conf). xl_id d \<noteq> 0 \<and> xl_id d = xl_id (subvol e) then e\<lparr> err := EINVAL \<rparr> else e)"

definition usable :: "dht_layout_entry \<Rightarrow> bool" where
  "usable e \<longleftrightarrow> err e = -1 \<or> err e = 0 \<or> err e = ENOENT"

definition dht_get_layout_count :: "dht_conf \<Rightarrow> dht_layout \<Rightarrow> bool \<Rightarrow> dht_layout \<times> int" where
  "dht_get_layout_count conf layout new_layout =
     (let es1 = map (mark_decommissioned conf) (entries layout);
          count1 = length (filter usable es1);
          es2 = map (\<lambda>e. if err e = 0 then e\<lparr> err := -1 \<rparr> else e) es1;
          full = (count1 = 0 \<or> \<not> new_layout);
          count2 = (if full then count1 + length (filter (\<lambda>e. err e = ENOSPC) es2) else count1);
          es3 = (if full then map (\<lambda>e. if err e = ENOSPC then e\<lparr> err := -1 \<rparr> else e) es2 else es2);
          count = (if spread_cnt layout \<noteq> 0 \<and> spread_cnt layout \<le> int count2 then spread_cnt layout
                   else if count2 \<noteq> 0 then int count2 else 1)
      in (layout\<lparr> entries := es3 \<rparr>, count))"

text \<open>The chunks of a subvolume: \<open>parent->children\<close> are the subvolumes in the order of \<open>du_stats\<close>.\<close>

definition dht_get_chunks_from_xl :: "dht_conf \<Rightarrow> xlator \<Rightarrow> u32" where
  "dht_get_chunks_from_xl conf child =
     (case du_stats conf of
        None \<Rightarrow> 0
      | Some chunks \<Rightarrow>
          (case find (\<lambda>(x, c). xl_id x = xl_id child) (zip (subvolumes conf) chunks) of
             Some (x, c) \<Rightarrow> c | None \<Rightarrow> 0))"

definition may_get_range :: "dht_layout_entry \<Rightarrow> bool" where
  "may_get_range e \<longleftrightarrow> err e = -1 \<or> err e = ENOENT"

text \<open>The first loop: the total size of the first \<open>to_use\<close> entries that may get a range, and whether
  each of them has a size.\<close>

fun total_loop :: "dht_conf \<Rightarrow> int \<Rightarrow> int \<Rightarrow> u64 \<Rightarrow> dht_layout_entry list \<Rightarrow> bool \<times> u64" where
  "total_loop conf to_use used tot [] = (True, tot)"
| "total_loop conf to_use used tot (e # es) =
     (if \<not> may_get_range e then total_loop conf to_use used tot es
      else
        let curr = dht_get_chunks_from_xl conf (subvol e)
        in if curr = 0 then (False, tot)
           else if to_use \<le> used + 1 then (True, tot + ucast curr)
           else total_loop conf to_use (used + 1) (tot + ucast curr) es)"

definition set_layout_range :: "dht_layout \<Rightarrow> nat \<Rightarrow> u32 \<Rightarrow> u32 \<Rightarrow> dht_layout" where
  "set_layout_range layout i srt chunk =
     layout\<lparr> entries := (entries layout)[i := (entries layout ! i)\<lparr> start := srt, stop := srt + chunk - 1,
       entry_commit_hash := commit_hash layout \<rparr>] \<rparr>"

definition reset_layout_range :: "dht_layout \<Rightarrow> dht_layout" where
  "reset_layout_range layout = layout\<lparr> entries := map (\<lambda>e. e\<lparr> start := 0, stop := 0 \<rparr>) (entries layout) \<rparr>"

text \<open>The second loop over the indices \<open>(real_i + start_subvol) % cnt\<close>.\<close>

fun assign_loop ::
  "dht_conf \<Rightarrow> bool \<Rightarrow> rat \<Rightarrow> int \<Rightarrow> nat list \<Rightarrow> int \<Rightarrow> u32 \<Rightarrow> dht_layout \<Rightarrow> dht_layout option" where
  "assign_loop conf weighted chunk to_use [] used srt layout = Some layout"
| "assign_loop conf weighted chunk to_use (i # is) used srt layout =
     (let e = entries layout ! i;
          curr = (if weighted then dht_get_chunks_from_xl conf (subvol e) else 1)
      in if \<not> may_get_range e \<or> curr = 0 then assign_loop conf weighted chunk to_use is used srt layout
         else Option.bind (to_u32 (dbl (chunk * of_nat (unat curr)))) (\<lambda>range_size.
           let layout1 = set_layout_range layout i srt range_size
           in if to_use \<le> used + 1
              then Some (layout1\<lparr> entries := (entries layout1)[i := (entries layout1 ! i)\<lparr> stop := 0xffffffff \<rparr>] \<rparr>)
              else assign_loop conf weighted chunk to_use is (used + 1) (srt + range_size) layout1))"

definition dht_selfheal_layout_new_directory ::
  "regexec_fn \<Rightarrow> dht_conf \<Rightarrow> loc \<Rightarrow> dht_layout \<Rightarrow> dht_layout option" where
  "dht_selfheal_layout_new_directory regexec conf lc layout =
     (let (layout1, bricks_to_use) = dht_get_layout_count conf layout True;
          (all_sized, total_size) = total_loop conf bricks_to_use 0 0 (entries layout1);
          weight_by_size = (do_weighting conf \<and> all_sized \<and> total_size \<noteq> 0);
          chunk = (if weight_by_size then dbl (0xffffffff / dbl (of_nat (unat total_size)))
                   else of_int (0xffffffff div bricks_to_use));
          start_subvol = dht_selfheal_layout_alloc_start regexec conf lc layout1
      in assign_loop conf weight_by_size chunk bricks_to_use
           (map (\<lambda>i. (i + start_subvol) mod cnt layout1) [0..<cnt layout1]) 0 0 (reset_layout_range layout1))"

text \<open>The answer, and the layout.\<close>

definition dht_selfheal_dir_getafix ::
  "regexec_fn \<Rightarrow> dht_conf \<Rightarrow> loc \<Rightarrow> u32 \<Rightarrow> u32 \<Rightarrow> dht_layout \<Rightarrow> (int \<times> dht_layout) option" where
  "dht_selfheal_dir_getafix regexec conf lc hole_cnt overlaps_cnt layout =
     Option.bind
       (if hole_cnt \<noteq> 0 \<or> overlaps_cnt \<noteq> 0
        then map_option (Pair 0) (dht_selfheal_layout_new_directory regexec conf lc
               (layout\<lparr> commit_hash := DHT_LAYOUT_HASH_INVALID \<rparr>))
        else Some (-1, layout))
       (\<lambda>(ret, layout1). Some (if \<exists>e \<in> set (entries layout1). err e = ENOENT then 0 else ret, layout1))"

section \<open>Keeping the old ranges\<close>

type_synonym overlap_table = "nat \<Rightarrow> nat \<Rightarrow> u32"

definition overlap_table :: "dht_layout_entry list \<Rightarrow> dht_layout_entry list \<Rightarrow> overlap_table" where
  "overlap_table old new i j = dht_overlap_calc (old ! j) (new ! i)"

definition best_swap :: "dht_layout_entry list \<Rightarrow> overlap_table \<Rightarrow> nat \<Rightarrow> u32 \<times> nat" where
  "best_swap new ov i =
     fold (\<lambda>j (max_overlap, idx).
       if 0 < err (new ! j) then (max_overlap, idx)
       else
         let curr_overlap = ov i i + ov j j; overlap = ov i j + ov j i
         in if curr_overlap < overlap \<and> max_overlap < overlap - curr_overlap
            then (overlap - curr_overlap, j) else (max_overlap, idx))
       [i + 1..<length new] (0, i)"

definition maximize_step ::
  "nat \<Rightarrow> dht_layout_entry list \<times> overlap_table \<Rightarrow> dht_layout_entry list \<times> overlap_table" where
  "maximize_step i s =
     (let (new, ov) = s; k = snd (best_swap new ov i)
      in if 0 < err (new ! i) \<or> k = i then s
         else (range_swap i k new, ov(i := ov k, k := ov i)))"

text \<open>Both layouts have an entry for each subvolume here.\<close>

definition dht_selfheal_layout_maximize_overlap :: "dht_layout \<Rightarrow> dht_layout \<Rightarrow> dht_layout" where
  "dht_selfheal_layout_maximize_overlap new old =
     (let old1 = dht_layout_sort_volname old
      in new\<lparr> entries := fst (fold maximize_step [0..<cnt new] (entries new, overlap_table (entries old1) (entries new))) \<rparr>)"

text \<open>\<open>dht_fix_layout_of_directory\<close>: what happens to the layout of the directory.\<close>

datatype fix_result = Left_alone | Not_fixed | Fixed dht_layout

definition sizes_equal :: "dht_conf \<Rightarrow> bool" where
  "sizes_equal conf = (case du_stats conf of None \<Rightarrow> True | Some cs \<Rightarrow> (\<forall>c \<in> set cs. c = hd cs))"

definition dht_fix_layout_of_directory ::
  "regexec_fn \<Rightarrow> dht_conf \<Rightarrow> loc \<Rightarrow> dht_layout \<Rightarrow> fix_result option" where
  "dht_fix_layout_of_directory regexec conf lc layout =
     (if hash_type layout = DHT_HASH_TYPE_DM_USER then Some Left_alone
      else if cnt layout \<noteq> length (subvolumes conf) then None
      else if down (dht_layout_anomalies layout) \<noteq> 0 then Some Not_fixed
      else
        let new0 = (dht_layout_new conf (length (subvolumes conf)))
              \<lparr> entries := map (\<lambda>e. new_entry\<lparr> err := (if err e \<noteq> ENOSPC then err e else -1), subvol := subvol e \<rparr>) (entries layout),
                commit_hash := commit_hash layout \<rparr>
        in map_option (\<lambda>new1.
             Fixed (if sizes_equal conf \<or> \<not> do_weighting conf
                    then dht_selfheal_layout_maximize_overlap new1 layout else new1))
           (dht_selfheal_layout_new_directory regexec conf lc (dht_layout_sort_volname new0)))"

section \<open>Writing the ranges\<close>

text \<open>The attributes of a directory on the subvolumes, by the address of the subvolume.  A
  \<open>setxattr\<close> succeeds or fails with an error number, as \<open>fails\<close> tells.\<close>

type_synonym disk = "nat \<Rightarrow> u32 list option"

definition dht_selfheal_dir_xattr_cbk :: "xlator \<Rightarrow> int \<Rightarrow> dht_layout \<Rightarrow> dht_layout" where
  "dht_selfheal_dir_xattr_cbk x e layout =
     (case find (\<lambda>i. xl_id (subvol (entries layout ! i)) = xl_id x) [0..<cnt layout] of
        Some i \<Rightarrow> layout\<lparr> entries := (entries layout)[i := (entries layout ! i)\<lparr> err := e \<rparr>] \<rparr>
      | None \<Rightarrow> layout)"

definition dht_selfheal_dir_xattr_persubvol ::
  "(nat \<Rightarrow> int) \<Rightarrow> dht_layout \<Rightarrow> nat \<Rightarrow> xlator \<Rightarrow> disk \<times> dht_layout \<Rightarrow> disk \<times> dht_layout" where
  "dht_selfheal_dir_xattr_persubvol fails from i x s =
     (let (d, layout) = s; e = fails (xl_id x)
      in (if e = 0 then d(xl_id x \<mapsto> dht_disk_layout_extract from i) else d,
          dht_selfheal_dir_xattr_cbk x e layout))"

text \<open>Clearing the ranges of subvolumes that are not in the layout, as far as calls are left.\<close>

fun clear_others ::
  "(nat \<Rightarrow> int) \<Rightarrow> dht_layout \<Rightarrow> dht_layout \<Rightarrow> xlator list \<Rightarrow> nat \<Rightarrow> disk \<times> dht_layout \<Rightarrow> disk \<times> dht_layout" where
  "clear_others fails layout dummy [] left s = s"
| "clear_others fails layout dummy (x # xs) left s =
     (if left = 0 then s
      else if dht_is_subvol_in_layout layout x then clear_others fails layout dummy xs left s
      else clear_others fails layout dummy xs (left - 1) (dht_selfheal_dir_xattr_persubvol fails dummy 0 x s))"

definition dht_fix_dir_xattr :: "(nat \<Rightarrow> int) \<Rightarrow> dht_conf \<Rightarrow> dht_layout \<Rightarrow> disk \<Rightarrow> disk \<times> dht_layout" where
  "dht_fix_dir_xattr fails conf layout d =
     (let n = min (cnt layout) (length (subvolumes conf));
          s = fold (\<lambda>i. dht_selfheal_dir_xattr_persubvol fails layout i (subvol (entries layout ! i))) [0..<n] (d, layout);
          dummy = (dht_layout_new conf 1)\<lparr> commit_hash := commit_hash layout \<rparr>
      in clear_others fails layout dummy (subvolumes conf) (length (subvolumes conf) - n) s)"

definition dht_selfheal_dir_xattr :: "(nat \<Rightarrow> int) \<Rightarrow> dht_conf \<Rightarrow> dht_layout \<Rightarrow> disk \<Rightarrow> disk \<times> dht_layout" where
  "dht_selfheal_dir_xattr fails conf layout d =
     (let is = filter (\<lambda>i. err (entries layout ! i) = -1 \<and> stop (entries layout ! i) \<noteq> 0) [0..<cnt layout];
          others = length (filter (\<lambda>x. \<not> dht_is_subvol_in_layout layout x) (subvolumes conf));
          s = fold (\<lambda>i. dht_selfheal_dir_xattr_persubvol fails layout i (subvol (entries layout ! i))) is (d, layout)
      in clear_others fails layout (dht_layout_new conf 1) (subvolumes conf) others s)"

section \<open>Rounding\<close>

lemma half_even_error: "\<bar>of_int (half_even x) - x\<bar> \<le> 1 / 2"
proof -
  have "of_int \<lfloor>x\<rfloor> \<le> x" "x < of_int \<lfloor>x\<rfloor> + 1" by linarith+
  then show ?thesis by (auto simp: half_even_def Let_def)
qed

lemma half_even_int [simp]: "half_even (of_int n) = n"
  by (simp add: half_even_def)

lemma log2_floor_le:
  assumes "0 < x"
  shows "2 powi log2_floor x \<le> x"
proof -
  obtain a b where q: "quotient_of x = (a, b)" by fastforce
  have b: "0 < b" using q by (rule quotient_of_denom_pos)
  have x: "x = of_int a / of_int b" using q by (rule quotient_of_div)
  then have a: "0 < a" using assms b by (simp add: zero_less_divide_iff)
  define k where "k = bitlen a - bitlen b"
  have "2 powi (k - 1) \<le> x"
  proof -
    have A: "2 powi (bitlen a - 1) \<le> (of_int a :: rat)"
      using bitlen_bounds [OF a] bitlen_nonneg [of a] a bitlen_eq_zero_iff [of a]
      by (simp add: power_int_def)
    have B: "(of_int b :: rat) \<le> 2 powi bitlen b"
      using bitlen_bounds [OF b] bitlen_nonneg [of b]
      by (simp add: power_int_def)
    have "2 powi (k - 1) = (2 :: rat) powi (bitlen a - 1) / 2 powi bitlen b"
      by (simp add: k_def power_int_diff)
    also have "\<dots> \<le> of_int a / of_int b" using A B a b by (intro frac_le) simp_all
    finally show ?thesis by (simp add: x)
  qed
  then show ?thesis by (simp add: log2_floor_def q Let_def k_def)
qed

lemma dbl_error:
  assumes "0 < x"
  shows "\<bar>dbl x - x\<bar> \<le> x / 2 ^ 53"
proof -
  define k where "k = log2_floor x - 52"
  define y where "y = x * 2 powi (- k)"
  have p: "(0 :: rat) < 2 powi k" by simp
  have xy: "x = y * 2 powi k" by (simp add: y_def power_int_minus)
  have "2 powi (k + 52) \<le> x" using log2_floor_le [OF assms] by (simp add: k_def)
  then have "2 ^ 52 * 2 powi k \<le> y * 2 powi k" by (simp add: power_int_add flip: xy)
  then have "2 ^ 52 \<le> y" using p by (rule mult_right_le_imp_le)
  then have "\<bar>of_int (half_even y) - y\<bar> \<le> y / 2 ^ 53" using half_even_error [of y] by simp
  then have "\<bar>of_int (half_even y) - y\<bar> * 2 powi k \<le> y / 2 ^ 53 * 2 powi k" using p by (intro mult_right_mono) simp_all
  moreover have "\<bar>dbl x - x\<bar> = \<bar>of_int (half_even y) - y\<bar> * 2 powi k"
  proof -
    have "dbl x = of_int (half_even y) * 2 powi k" using assms by (simp add: dbl_def Let_def k_def y_def)
    then have "dbl x - x = (of_int (half_even y) - y) * 2 powi k" using xy by (simp add: left_diff_distrib)
    then show ?thesis using p by (simp add: abs_mult)
  qed
  ultimately show ?thesis using xy by simp
qed

lemma dbl_bounds:
  assumes "0 < x"
  shows "dbl x \<le> x * (1 + 1 / 2 ^ 53)" "x * (1 - 1 / 2 ^ 53) \<le> dbl x"
proof -
  define e where "e = x / 2 ^ 53"
  have "x * (1 + 1 / 2 ^ 53) = x + e" "x * (1 - 1 / 2 ^ 53) = x - e" by (simp_all add: e_def algebra_simps)
  then show "dbl x \<le> x * (1 + 1 / 2 ^ 53)" "x * (1 - 1 / 2 ^ 53) \<le> dbl x"
    using dbl_error [OF assms, folded e_def] by (simp_all only: abs_le_iff) linarith+
qed

lemma dbl_int:
  assumes "0 < n" "n < 2 ^ 53"
  shows "dbl (of_int n) = of_int n"
proof -
  have b: "2 ^ nat (bitlen n - 1) \<le> n" using bitlen_bounds [OF assms(1)] by simp
  have b1: "1 \<le> bitlen n" using assms(1) bitlen_nonneg [of n] bitlen_eq_zero_iff [of n] by linarith
  have "bitlen n - 1 \<le> 52"
  proof (rule ccontr)
    assume "\<not> bitlen n - 1 \<le> 52"
    then have "(2 :: int) ^ 53 \<le> 2 ^ nat (bitlen n - 1)" by (intro power_increasing) simp_all
    then show False using b assms(2) by simp
  qed
  moreover have "log2_floor (of_int n) = bitlen n - 1"
  proof -
    have "(2 :: rat) powi (bitlen n - 1) \<le> of_int n"
      using b b1 by (simp add: power_int_def)
    moreover have "bitlen 1 = 1" by (simp add: bitlen_alt_def)
    ultimately show ?thesis by (simp add: log2_floor_def)
  qed
  ultimately obtain m where m: "log2_floor (of_int n) - 52 = - int m"
    by (metis add.inverse_inverse diff_le_0_iff_le neg_0_le_iff_le zero_le_imp_eq_int)
  have "(of_int n :: rat) * 2 powi int m = of_int (n * 2 ^ m)" by simp
  then have "half_even (of_int n * 2 powi int m) = n * 2 ^ m" by (simp only: half_even_int)
  then show ?thesis using assms(1) by (simp add: dbl_def m power_int_minus)
qed

text \<open>A product with a rounded quotient, twice rounded, stays near the exact value.\<close>

lemma dbl_twice:
  assumes "0 < q" "0 < c"
  shows "dbl (dbl q * c) \<le> q * c * (1 + 3 / 2 ^ 53)" "q * c * (1 - 3 / 2 ^ 53) \<le> dbl (dbl q * c)"
proof -
  let ?u = "1 / 2 ^ 53 :: rat"
  note q = dbl_bounds [OF assms(1)]
  have "0 < q * (1 - ?u)" using assms(1) by simp
  then have "0 < dbl q" using q(2) by linarith
  then have p: "0 < dbl q * c" using assms(2) by simp
  note d = dbl_bounds [OF p]
  have "dbl q * c * (1 + ?u) \<le> q * (1 + ?u) * c * (1 + ?u)" using q(1) assms by (intro mult_right_mono) simp_all
  also have "\<dots> = q * c * ((1 + ?u) * (1 + ?u))" by (simp add: algebra_simps)
  also have "\<dots> \<le> q * c * (1 + 3 / 2 ^ 53)" using assms by (intro mult_left_mono) simp_all
  finally show "dbl (dbl q * c) \<le> q * c * (1 + 3 / 2 ^ 53)" using d(1) by linarith
  have "q * c * (1 - 3 / 2 ^ 53) \<le> q * c * ((1 - ?u) * (1 - ?u))" using assms by (intro mult_left_mono) simp_all
  also have "\<dots> = q * (1 - ?u) * c * (1 - ?u)" by (simp add: algebra_simps)
  also have "\<dots> \<le> dbl q * c * (1 - ?u)" using q(2) assms by (intro mult_right_mono) simp_all
  finally show "q * c * (1 - 3 / 2 ^ 53) \<le> dbl (dbl q * c)" using d(2) by linarith
qed

section \<open>Dividing the hashes\<close>

definition covers :: "u32 \<Rightarrow> dht_layout_entry \<Rightarrow> bool" where
  "covers h e \<longleftrightarrow> start e \<noteq> stop e \<and> start e \<le> h \<and> h \<le> stop e"

definition cover_count :: "u32 \<Rightarrow> dht_layout_entry list \<Rightarrow> nat" where
  "cover_count h es = length (filter (covers h) es)"

text \<open>What a change of ranges keeps of an entry.\<close>

definition same_brick :: "dht_layout_entry \<Rightarrow> dht_layout_entry \<Rightarrow> bool" where
  "same_brick e e' \<longleftrightarrow> err e = err e' \<and> subvol e = subvol e'"

lemma same_brick_list_refl: "list_all2 same_brick es es"
  by (simp add: list_all2_same same_brick_def)

lemma same_brick_trans: "list_all2 same_brick xs ys \<Longrightarrow> list_all2 same_brick ys zs \<Longrightarrow> list_all2 same_brick xs zs"
  by (rule list_all2_trans) (auto simp: same_brick_def)

lemma length_filter_update:
  assumes "i < length xs" "\<not> P (xs ! i)"
  shows "length (filter P (xs[i := x])) = length (filter P xs) + of_bool (P x)"
proof -
  have "xs = take i xs @ xs ! i # drop (Suc i) xs" using assms(1) by (rule id_take_nth_drop)
  then have "filter P xs = filter P (take i xs) @ filter P (drop (Suc i) xs)"
    using assms(2) by (metis filter.simps(2) filter_append)
  then show ?thesis using assms(1) by (simp add: upd_conv_take_nth_drop)
qed

lemma uint_range_end:
  assumes "uint srt + uint r < 4294967295" "2 \<le> uint (r :: u32)"
  shows "uint (srt + r) = uint srt + uint r" "uint (srt + r - 1) = uint srt + uint r - 1"
proof -
  show s: "uint (srt + r) = uint srt + uint r" using assms by (simp add: uint_plus_if')
  have "1 \<le> uint srt + uint r" using assms(2) uint_ge_0 [of srt] by linarith
  then show "uint (srt + r - 1) = uint srt + uint r - 1" by (simp add: uint_sub_if' s)
qed

lemma covers_range:
  assumes "uint srt + uint r < 4294967295" "2 \<le> uint r" "start a = srt" "stop a = srt + r - 1"
  shows "of_bool (covers h a) + of_bool (srt + r \<le> h) = (of_bool (srt \<le> h) :: nat)" "start a < stop a"
proof -
  note u = uint_range_end [OF assms(1,2)]
  show l: "start a < stop a" using assms u by (simp add: word_less_def)
  show "of_bool (covers h a) + of_bool (srt + r \<le> h) = (of_bool (srt \<le> h) :: nat)"
    using l assms(2) unfolding covers_def assms(3,4) word_le_def u by auto
qed

lemma covers_last:
  assumes "uint (srt :: u32) < 4294967295" "start a = srt" "stop a = 0xffffffff"
  shows "covers h a \<longleftrightarrow> srt \<le> h" "start a < stop a"
  using assms uint_lt2p [of h] by (auto simp: covers_def word_le_def word_less_def)

definition elig :: "dht_layout \<Rightarrow> nat \<Rightarrow> bool" where
  "elig l i \<longleftrightarrow> may_get_range (entries l ! i)"

text \<open>The size of the range an entry gets.\<close>

definition range_size_ok :: "dht_conf \<Rightarrow> bool \<Rightarrow> rat \<Rightarrow> (nat \<Rightarrow> u32) \<Rightarrow> dht_layout \<Rightarrow> nat \<Rightarrow> bool" where
  "range_size_ok conf weighted chunk rs l i \<longleftrightarrow>
     (let curr = (if weighted then dht_get_chunks_from_xl conf (subvol (entries l ! i)) else 1)
      in curr \<noteq> 0 \<and> to_u32 (dbl (chunk * of_nat (unat curr))) = Some (rs i)) \<and> 2 \<le> uint (rs i)"

text \<open>The assignment gives every hash from \<open>srt\<close> on to one more entry.\<close>

lemma assign_loop_covers:
  assumes "distinct is" "\<forall>i \<in> set is. i < cnt l \<and> unassigned (entries l ! i) \<and> (elig l i \<longrightarrow> range_size_ok conf weighted chunk rs l i)"
    and "used < to_use" "nat (to_use - used) \<le> length (filter (elig l) is)"
    and "uint srt + sum_list (map (uint \<circ> rs) (take (nat (to_use - used) - 1) (filter (elig l) is))) < 4294967295"
  shows "\<exists>l'. assign_loop conf weighted chunk to_use is used srt l = Some l' \<and>
    (\<forall>h. cover_count h (entries l') = cover_count h (entries l) + of_bool (srt \<le> h)) \<and>
    list_all2 same_brick (entries l) (entries l') \<and> l' = l\<lparr> entries := entries l' \<rparr> \<and>
    (\<forall>i < cnt l. entries l' ! i = entries l ! i \<or> elig l i \<and> start (entries l' ! i) < stop (entries l' ! i))"
  using assms
proof (induction "is" arbitrary: used srt l)
  case Nil
  then show ?case by simp
next
  case (Cons i "is")
  have i: "i < cnt l" "unassigned (entries l ! i)" "i \<notin> set is" using Cons.prems by auto
  show ?case
  proof (cases "elig l i")
    case False
    then show ?thesis using Cons.IH [of l used srt] Cons.prems by (simp add: elig_def)
  next
    case True
    let ?r = "rs i" and ?n = "nat (to_use - used)"
    define e where "e = (entries l ! i)\<lparr> start := srt, stop := srt + ?r - 1, entry_commit_hash := commit_hash l \<rparr>"
    define l1 where "l1 = l\<lparr> entries := (entries l)[i := e] \<rparr>"
    have rs: "range_size_ok conf weighted chunk rs l i" using True Cons.prems(2) by simp
    have nc: "\<not> covers h (entries l ! i)" for h using i(2) by (simp add: covers_def unassigned_def)
    have step: "assign_loop conf weighted chunk to_use (i # is) used srt l =
      (if to_use \<le> used + 1 then Some (l\<lparr> entries := (entries l)[i := e\<lparr> stop := 0xffffffff \<rparr>] \<rparr>)
       else assign_loop conf weighted chunk to_use is (used + 1) (srt + ?r) l1)"
      using True rs i(1) by (simp add: range_size_ok_def elig_def set_layout_range_def Let_def e_def l1_def)
    show ?thesis
    proof (cases "to_use \<le> used + 1")
      case last: True
      have s: "uint srt < 4294967295" using Cons.prems(3,5) last by simp
      let ?e = "e\<lparr> stop := 0xffffffff \<rparr>"
      note c = covers_last [OF s, of ?e]
      have "list_all2 same_brick (entries l) ((entries l)[i := ?e])"
        using i(1) by (auto simp: list_all2_conv_all_nth nth_list_update same_brick_def e_def)
      then show ?thesis
        using i(1) True c nc unfolding step
        by (auto simp: last cover_count_def length_filter_update nth_list_update e_def)
    next
      case False
      then have n: "?n - 1 = Suc (nat (to_use - (used + 1)) - 1)" "used + 1 < to_use" by auto
      have sum: "uint srt + uint ?r + sum_list (map (uint \<circ> rs) (take (nat (to_use - (used + 1)) - 1) (filter (elig l) is))) < 4294967295"
      proof -
        have "take (?n - 1) (filter (elig l) (i # is)) = i # take (nat (to_use - (used + 1)) - 1) (filter (elig l) is)"
          unfolding n(1) using True by simp
        with Cons.prems(5) show ?thesis by (simp only: list.map sum_list.Cons comp_def add.assoc)
      qed
      moreover have "0 \<le> sum_list (map (uint \<circ> rs) (take (nat (to_use - (used + 1)) - 1) (filter (elig l) is)))"
        by (intro sum_list_nonneg) auto
      ultimately have s: "uint srt + uint ?r < 4294967295" by linarith
      have r2: "2 \<le> uint ?r" using rs by (simp add: range_size_ok_def)
      have brick1: "list_all2 same_brick (entries l) (entries l1)"
        using i(1) by (auto simp: list_all2_conv_all_nth nth_list_update same_brick_def e_def l1_def)
      have len1: "cnt l1 = cnt l" by (simp add: l1_def)
      have el: "elig l1 j = elig l j" if "j < cnt l" for j
        using that i(1) by (simp add: elig_def may_get_range_def l1_def nth_list_update e_def)
      have same: "entries l1 ! j = entries l ! j" if "j \<in> set is" for j
        using that i(3) by (cases "j = i") (simp_all add: l1_def)
      have fl: "filter (elig l1) is = filter (elig l) is" using Cons.prems(2) el by (intro filter_cong) auto
      have ok: "\<forall>j \<in> set is. j < cnt l1 \<and> unassigned (entries l1 ! j) \<and> (elig l1 j \<longrightarrow> range_size_ok conf weighted chunk rs l1 j)"
        using Cons.prems(2) same el by (auto simp: range_size_ok_def len1)
      have len: "nat (to_use - (used + 1)) \<le> length (filter (elig l1) is)" using Cons.prems(4) True fl n(2) by simp
      have sum1: "uint (srt + ?r) + sum_list (map (uint \<circ> rs) (take (nat (to_use - (used + 1)) - 1) (filter (elig l1) is))) < 4294967295"
        unfolding fl uint_range_end [OF s r2] by (rule sum)
      obtain l' where l': "assign_loop conf weighted chunk to_use is (used + 1) (srt + ?r) l1 = Some l'"
        "\<forall>h. cover_count h (entries l') = cover_count h (entries l1) + of_bool (srt + ?r \<le> h)"
        "list_all2 same_brick (entries l1) (entries l')" "l' = l1\<lparr> entries := entries l' \<rparr>"
        "\<forall>i < cnt l1. entries l' ! i = entries l1 ! i \<or> elig l1 i \<and> start (entries l' ! i) < stop (entries l' ! i)"
        using Cons.IH [OF _ ok n(2) len sum1] Cons.prems(1) by auto
      note c = covers_range [OF s r2, of e]
      have "cover_count h (entries l1) = cover_count h (entries l) + of_bool (covers h e)" for h
        using i(1) nc by (simp add: l1_def cover_count_def length_filter_update)
      then have "\<forall>h. cover_count h (entries l') = cover_count h (entries l) + of_bool (srt \<le> h)"
        using l'(2) c(1) by (simp add: e_def)
      moreover have "\<forall>j < cnt l. entries l' ! j = entries l ! j \<or> elig l j \<and> start (entries l' ! j) < stop (entries l' ! j)"
      proof (intro allI impI)
        fix j
        assume j: "j < cnt l"
        show "entries l' ! j = entries l ! j \<or> elig l j \<and> start (entries l' ! j) < stop (entries l' ! j)"
        proof (cases "j = i")
          case True
          have "entries l1 ! i = e" using i(1) by (simp add: l1_def)
          then show ?thesis using True l'(5) c(2) el [OF j] j \<open>elig l i\<close> len1 by (auto simp: e_def)
        next
          case False
          then have "entries l1 ! j = entries l ! j" by (simp add: l1_def)
          then show ?thesis using l'(5) el [OF j] j len1 by auto
        qed
      qed
      moreover have "l' = l\<lparr> entries := entries l' \<rparr>" using l'(4) by (simp add: l1_def)
      ultimately show ?thesis using step False l'(1) same_brick_trans [OF brick1 l'(3)] by auto
    qed
  qed
qed

text \<open>The entries that can get a range, and how many of them are used.\<close>

definition available :: "dht_conf \<Rightarrow> dht_layout_entry \<Rightarrow> bool" where
  "available conf e \<longleftrightarrow>
     \<not> (\<exists>d \<in> set (decommissioned_bricks conf). xl_id d \<noteq> 0 \<and> xl_id d = xl_id (subvol e)) \<and>
     err e \<in> {-1, 0, ENOENT, ENOSPC}"

lemma layout_count:
  assumes "dht_get_layout_count conf l True = (l1, n)" "0 \<le> spread_cnt l" "\<exists>e \<in> set (entries l). available conf e"
  shows "1 \<le> n" "n \<le> int (length (filter may_get_range (entries l1)))"
    "spread_cnt l = 0 \<Longrightarrow> n = int (length (filter may_get_range (entries l1)))"
    "l1 = l\<lparr> entries := entries l1 \<rparr>"
    "list_all2 (\<lambda>e e'. subvol e' = subvol e \<and> start e' = start e \<and> stop e' = stop e) (entries l) (entries l1)"
proof -
  let ?m = "mark_decommissioned conf" and ?z = "\<lambda>e. if err e = 0 then e\<lparr> err := - 1 \<rparr> else e"
    and ?s = "\<lambda>e. if err e = ENOSPC then e\<lparr> err := - 1 \<rparr> else e"
  define es1 where "es1 = map ?m (entries l)"
  define full where "full \<longleftrightarrow> length (filter usable es1) = 0 \<or> \<not> True"
  define es3 where "es3 = (if full then map ?s (map ?z es1) else map ?z es1)"
  define k where "k = length (filter may_get_range es3)"
  have us: "filter may_get_range (map ?z es1) = map ?z (filter usable es1)"
    by (induction es1) (auto simp: may_get_range_def usable_def)
  have sp: "length (filter may_get_range (map ?s (map ?z es1))) =
      length (filter usable es1) + length (filter (\<lambda>e. err e = ENOSPC) (map ?z es1))"
    by (induction es1) (auto simp: may_get_range_def usable_def)
  have count: "(if full then length (filter usable es1) + length (filter (\<lambda>e. err e = ENOSPC) (map ?z es1))
      else length (filter usable es1)) = k"
    using us sp by (simp add: k_def es3_def full_def)
  have r: "l1 = l\<lparr> entries := es3 \<rparr>"
    "n = (if spread_cnt l \<noteq> 0 \<and> spread_cnt l \<le> int k then spread_cnt l else if k \<noteq> 0 then int k else 1)"
    using assms(1) unfolding dht_get_layout_count_def Let_def es1_def [symmetric] full_def [symmetric] es3_def [symmetric] count
    by simp_all
  obtain e where e: "e \<in> set (entries l)" "available conf e" using assms(3) by blast
  then have "?m e = e" by (auto simp: available_def mark_decommissioned_def)
  then have e1: "e \<in> set es1" using e(1) by (force simp: es1_def)
  have "k \<noteq> 0"
  proof (cases "filter usable es1 = []")
    case True
    then have "\<not> usable e" using e1 by (auto simp: filter_empty_conv)
    then have "err e = ENOSPC" using e(2) by (auto simp: available_def usable_def)
    then show ?thesis using e1 True unfolding count [symmetric] by (auto simp: full_def filter_empty_conv intro!: bexI [of _ e])
  next
    case False
    then show ?thesis unfolding count [symmetric] by (simp add: full_def)
  qed
  moreover have kk: "length (filter may_get_range (entries l1)) = k" by (simp add: r(1) k_def)
  ultimately show "1 \<le> n" "n \<le> int (length (filter may_get_range (entries l1)))"
    "spread_cnt l = 0 \<Longrightarrow> n = int (length (filter may_get_range (entries l1)))"
    using r(2) assms(2) unfolding kk by auto
  show "l1 = l\<lparr> entries := entries l1 \<rparr>" by (simp add: r(1))
  show "list_all2 (\<lambda>e e'. subvol e' = subvol e \<and> start e' = start e \<and> stop e' = stop e) (entries l) (entries l1)"
    by (auto simp: r(1) es3_def es1_def list_all2_conv_all_nth mark_decommissioned_def)
qed

definition chunks_sum :: "dht_conf \<Rightarrow> dht_layout_entry list \<Rightarrow> nat" where
  "chunks_sum conf es = sum_list (map (\<lambda>e. unat (dht_get_chunks_from_xl conf (subvol e))) es)"

lemma total_loop_all:
  assumes "to_use = used + int (length (filter may_get_range es))"
    "\<forall>e \<in> set es. may_get_range e \<longrightarrow> dht_get_chunks_from_xl conf (subvol e) \<noteq> 0"
  shows "total_loop conf to_use used tot es = (True, tot + of_nat (chunks_sum conf (filter may_get_range es)))"
  using assms
proof (induction es arbitrary: used tot)
  case Nil
  then show ?case by (simp add: chunks_sum_def)
next
  case (Cons e es)
  show ?case
  proof (cases "may_get_range e")
    case True
    show ?thesis
    proof (cases "filter may_get_range es = []")
      case nil: True
      then show ?thesis using True Cons.prems by (simp add: chunks_sum_def)
    next
      case False
      then have "\<not> to_use \<le> used + 1" using True Cons.prems(1) by simp
      then show ?thesis
        using True Cons.prems Cons.IH [of "used + 1"] by (simp add: chunks_sum_def algebra_simps)
    qed
  next
    case False
    then show ?thesis using Cons by simp
  qed
qed

lemma total_loop_unsized:
  assumes "to_use = used + int (length (filter may_get_range es))"
    "\<exists>e \<in> set es. may_get_range e \<and> dht_get_chunks_from_xl conf (subvol e) = 0"
  shows "\<not> fst (total_loop conf to_use used tot es)"
  using assms
proof (induction es arbitrary: used tot)
  case (Cons e es)
  show ?case
  proof (cases "may_get_range e \<and> dht_get_chunks_from_xl conf (subvol e) \<noteq> 0")
    case True
    then have ex: "\<exists>e \<in> set es. may_get_range e \<and> dht_get_chunks_from_xl conf (subvol e) = 0" using Cons.prems(2) by auto
    then have "filter may_get_range es \<noteq> []" by (auto simp: filter_empty_conv)
    then have "\<not> to_use \<le> used + 1" using True Cons.prems(1) by simp
    then show ?thesis using True ex Cons.prems(1) Cons.IH [of "used + 1"] by (simp add: Let_def)
  next
    case False
    then show ?thesis using Cons.prems Cons.IH [of used tot] by (cases "may_get_range e") auto
  qed
qed simp

lemma rotated_indices: "map (\<lambda>i. (i + s) mod n) [0..<n] = rotate s [0..<n]"
  by (rule nth_equalityI) (simp_all add: nth_rotate add.commute)

text \<open>The even division: every range has the size \<open>0xffffffff div n\<close>.\<close>

lemma to_u32_int: "0 \<le> n \<Longrightarrow> n < 2 ^ 32 \<Longrightarrow> to_u32 (of_int n) = Some (word_of_int n)"
  by (simp add: to_u32_def)

lemma even_sizes:
  assumes "1 \<le> n" "n \<le> 2 ^ 30"
  defines "r \<equiv> 0xffffffff div n"
  shows "2 \<le> r" "(n - 1) * r < 0xffffffff" "to_u32 (dbl (of_int r)) = Some (word_of_int r)" "uint (word_of_int r :: u32) = r"
proof -
  have "0xffffffff div 2 ^ 30 \<le> r" using assms unfolding r_def by (intro zdiv_mono2) auto
  then show r2: "2 \<le> r" by simp
  have "r \<le> 0xffffffff div 1" using assms unfolding r_def by (intro zdiv_mono2) auto
  then have r3: "r < 2 ^ 32" by simp
  show "to_u32 (dbl (of_int r)) = Some (word_of_int r)"
    using dbl_int [of r] to_u32_int [of r] r2 r3 by simp
  show "uint (word_of_int r :: u32) = r" using r2 r3 by (simp add: uint_word_of_int)
  have "n * r = 0xffffffff - 0xffffffff mod n" by (simp add: r_def minus_mod_eq_mult_div)
  then have "n * r \<le> 0xffffffff" using assms(1) pos_mod_sign [of n "0xffffffff"] by linarith
  then show "(n - 1) * r < 0xffffffff" using r2 by (simp add: left_diff_distrib)
qed

lemma of_nat_sum_list: "(of_nat (sum_list xs) :: rat) = sum_list (map of_nat xs)"
  by (induction xs) auto

text \<open>The weighted division.\<close>

lemma weighted_sizes:
  assumes "0 < T" "T \<le> 2 ^ 30" "0 < c" "c \<le> T"
  defines "x \<equiv> dbl (dbl (0xffffffff / of_nat T) * of_nat c)"
  shows "to_u32 x = Some (word_of_int \<lfloor>x\<rfloor>)" "2 \<le> \<lfloor>x\<rfloor>" "uint (word_of_int \<lfloor>x\<rfloor> :: u32) = \<lfloor>x\<rfloor>"
    "rat_of_int \<lfloor>x\<rfloor> \<le> 0xffffffff / of_nat T * of_nat c * (1 + 3 / 2 ^ 53)"
proof -
  let ?q = "0xffffffff / of_nat T :: rat"
  have q: "0 < ?q" using assms(1) by simp
  have c: "0 < (of_nat c :: rat)" using assms(3) by simp
  note d = dbl_twice [OF q c, folded x_def]
  have "(of_nat T :: rat) \<le> 2 ^ 30" using assms(2) by (metis of_nat_le_iff of_nat_numeral of_nat_power)
  then have "0xffffffff / 2 ^ 30 \<le> ?q" using assms(1) by (intro divide_left_mono) simp_all
  moreover have "?q * 1 \<le> ?q * of_nat c" using assms(3) q by (intro mult_left_mono) simp_all
  ultimately have "0xffffffff / 2 ^ 30 \<le> ?q * of_nat c" by linarith
  then have "0xffffffff / 2 ^ 30 * (1 - 3 / 2 ^ 53) \<le> ?q * of_nat c * (1 - 3 / 2 ^ 53)" by (intro mult_right_mono) simp_all
  then have "0xffffffff / 2 ^ 30 * (1 - 3 / 2 ^ 53) \<le> x" using d(2) by (rule order.trans)
  moreover have "(2 :: rat) \<le> 0xffffffff / 2 ^ 30 * (1 - 3 / 2 ^ 53)" by simp
  ultimately have "2 \<le> x" by (rule order.trans [rotated])
  then show two: "2 \<le> \<lfloor>x\<rfloor>" by (simp add: le_floor_iff)
  have "?q * of_nat c \<le> 0xffffffff" using assms(1,4) by (simp add: field_simps)
  then have "?q * of_nat c * (1 + 3 / 2 ^ 53) \<le> 0xffffffff * (1 + 3 / 2 ^ 53)" by (intro mult_right_mono) simp_all
  then have "x \<le> 0xffffffff * (1 + 3 / 2 ^ 53)" using d(1) by (rule order.trans [rotated])
  moreover have "0xffffffff * (1 + 3 / 2 ^ 53) < (2 ^ 32 :: rat)" by simp
  ultimately have "x < 2 ^ 32" by (rule order.strict_trans1)
  then have up: "\<lfloor>x\<rfloor> < 2 ^ 32" by (simp add: floor_less_iff)
  show "to_u32 x = Some (word_of_int \<lfloor>x\<rfloor>)" using two up by (simp add: to_u32_def Let_def)
  show "uint (word_of_int \<lfloor>x\<rfloor> :: u32) = \<lfloor>x\<rfloor>" using two up by (simp add: uint_word_of_int)
  show "rat_of_int \<lfloor>x\<rfloor> \<le> ?q * of_nat c * (1 + 3 / 2 ^ 53)" using d(1) of_int_floor_le [of x] by (rule order.trans [rotated])
qed

lemma weighted_sum:
  assumes "0 < T" "T \<le> 2 ^ 30" "sum_list (map c is) < T" "\<forall>i \<in> set is. 0 < c i"
  shows "sum_list (map (\<lambda>i. \<lfloor>dbl (dbl (0xffffffff / of_nat T) * of_nat (c i))\<rfloor>) is) < 0xffffffff"
proof -
  let ?q = "0xffffffff / of_nat T :: rat" and ?e = "1 + 3 / 2 ^ 53 :: rat"
  let ?f = "\<lambda>i. \<lfloor>dbl (dbl ?q * of_nat (c i))\<rfloor>"
  have le: "i \<in> set is \<Longrightarrow> c i \<le> sum_list (map c is)" for i by (simp add: member_le_sum_list)
  have "(of_int (sum_list (map ?f is)) :: rat) = sum_list (map (\<lambda>i. of_int (?f i)) is)" by (induction "is") auto
  also have "\<dots> \<le> sum_list (map (\<lambda>i. ?q * ?e * of_nat (c i)) is)"
  proof (rule sum_list_mono)
    fix i
    assume "i \<in> set is"
    then have "rat_of_int (?f i) \<le> ?q * of_nat (c i) * ?e"
      using assms le [of i] by (intro weighted_sizes(4)) auto
    then show "of_int (?f i) \<le> ?q * ?e * of_nat (c i)" by (simp only: mult.assoc mult.commute [of ?e])
  qed
  also have "\<dots> = ?q * ?e * of_nat (sum_list (map c is))"
    unfolding sum_list_const_mult by (simp only: of_nat_sum_list map_map comp_def)
  also have "\<dots> \<le> ?q * ?e * (of_nat T - 1)"
  proof (rule mult_left_mono)
    have "sum_list (map c is) + 1 \<le> T" using assms(3) by simp
    then have "of_nat (sum_list (map c is) + 1) \<le> (of_nat T :: rat)" by (simp only: of_nat_le_iff)
    then show "of_nat (sum_list (map c is)) \<le> (of_nat T :: rat) - 1" by simp
  qed simp
  also have "\<dots> < 0xffffffff"
  proof -
    have "(of_nat T :: rat) \<le> 2 ^ 30" using assms(2) by (metis of_nat_le_iff of_nat_numeral of_nat_power)
    then have "?e * (of_nat T - 1) < of_nat T" by (simp add: algebra_simps)
    then have "?q * (?e * (of_nat T - 1)) < ?q * of_nat T" using assms(1) by (intro mult_strict_left_mono) simp_all
    then show ?thesis using assms(1) by (simp add: mult.assoc)
  qed
  finally show ?thesis by (metis of_int_less_iff of_int_numeral)
qed

lemma filter_index: "filter P xs = map ((!) xs) (filter (\<lambda>i. P (xs ! i)) [0..<length xs])"
proof -
  have "filter P (map ((!) xs) [0..<length xs]) = map ((!) xs) (filter (P \<circ> (!) xs) [0..<length xs])"
    by (rule filter_map)
  then show ?thesis by (simp only: map_nth comp_def)
qed

lemma mset_rotate: "mset (rotate n xs) = mset xs"
proof -
  have "mset (rotate n xs) = mset (take (n mod length xs) xs @ drop (n mod length xs) xs)"
    by (simp only: rotate_drop_take mset_append add.commute)
  then show ?thesis by (simp only: append_take_drop_id)
qed

lemma rotated_filter:
  assumes "length xs = n"
  shows "mset (map ((!) xs) (filter (\<lambda>i. P (xs ! i)) (rotate s [0..<n]))) = mset (filter P xs)"
proof -
  have "mset (filter (\<lambda>i. P (xs ! i)) (rotate s [0..<n])) = mset (filter (\<lambda>i. P (xs ! i)) [0..<n])"
    by (simp only: mset_filter mset_rotate)
  then show ?thesis using assms filter_index [of P xs] by (simp add: mset_map)
qed

text \<open>The sizes of the ranges of a new layout, for the entries in the order of the assignment.\<close>

definition new_range_size :: "dht_conf \<Rightarrow> bool \<Rightarrow> nat \<Rightarrow> int \<Rightarrow> dht_layout \<Rightarrow> nat \<Rightarrow> u32" where
  "new_range_size conf weighted T n l i =
     (if weighted
      then word_of_int \<lfloor>dbl (dbl (0xffffffff / of_nat T) * of_nat (unat (dht_get_chunks_from_xl conf (subvol (entries l ! i)))))\<rfloor>
      else word_of_int (0xffffffff div n))"

lemma even_ranges:
  assumes "1 \<le> n" "n \<le> 2 ^ 30" "chunk = of_int (0xffffffff div n)" "n \<le> int (length js)"
  shows "range_size_ok conf False chunk (new_range_size conf False T n l) l i"
    "sum_list (map (uint \<circ> new_range_size conf False T n l) (take (nat n - 1) js)) < 4294967295"
proof -
  note e = even_sizes [OF assms(1,2)]
  show "range_size_ok conf False chunk (new_range_size conf False T n l) l i"
    using e by (simp add: range_size_ok_def new_range_size_def assms(3))
  have "sum_list (map (uint \<circ> new_range_size conf False T n l) (take (nat n - 1) js)) = (n - 1) * (0xffffffff div n)"
    using assms(1,4) e(4) by (simp add: comp_def new_range_size_def sum_list_triv of_nat_diff min_def)
  then show "sum_list (map (uint \<circ> new_range_size conf False T n l) (take (nat n - 1) js)) < 4294967295"
    using e(2) by simp
qed

lemma weighted_ranges:
  assumes T: "T = sum_list (map (\<lambda>i. unat (dht_get_chunks_from_xl conf (subvol (entries l ! i)))) js)" "0 < T" "T \<le> 2 ^ 30"
    and sized: "\<forall>i \<in> set js. dht_get_chunks_from_xl conf (subvol (entries l ! i)) \<noteq> 0"
    and chunk: "chunk = dbl (0xffffffff / of_nat T)"
  shows "\<forall>i \<in> set js. range_size_ok conf True chunk (new_range_size conf True T n l) l i"
    "sum_list (map (uint \<circ> new_range_size conf True T n l) (take (length js - 1) js)) < 4294967295"
proof -
  let ?c = "\<lambda>i. unat (dht_get_chunks_from_xl conf (subvol (entries l ! i)))"
  have c: "0 < ?c i \<and> ?c i \<le> T" if "i \<in> set js" for i
    using sized that T(1) member_le_sum_list [of "?c i" "map ?c js"] by (simp add: unat_gt_0)
  note w = weighted_sizes [OF T(2,3)]
  show "\<forall>i \<in> set js. range_size_ok conf True chunk (new_range_size conf True T n l) l i"
  proof
    fix i
    assume "i \<in> set js"
    then have i: "0 < ?c i" "?c i \<le> T" "dht_get_chunks_from_xl conf (subvol (entries l ! i)) \<noteq> 0" using c sized by auto
    show "range_size_ok conf True chunk (new_range_size conf True T n l) l i"
      using w(1,2,3) [OF i(1,2)] i(3) unfolding range_size_ok_def new_range_size_def Let_def chunk by simp
  qed
  obtain ks z where js: "js = ks @ [z]" using T(1,2) by (cases js rule: rev_cases) auto
  have eq: "map (uint \<circ> new_range_size conf True T n l) ks = map (\<lambda>i. \<lfloor>dbl (dbl (0xffffffff / of_nat T) * of_nat (?c i))\<rfloor>) ks"
    using w(3) [OF conjunct1 [OF c] conjunct2 [OF c]] js
    by (simp only: map_eq_conv comp_def new_range_size_def if_True) simp
  have "sum_list (map ?c ks) < T" using T(1) c [of z] js by simp
  moreover have "\<forall>i \<in> set ks. 0 < ?c i" using c js by simp
  ultimately have "sum_list (map (\<lambda>i. \<lfloor>dbl (dbl (0xffffffff / of_nat T) * of_nat (?c i))\<rfloor>) ks) < 0xffffffff"
    by (rule weighted_sum [OF T(2,3)])
  moreover have "take (length js - 1) js = ks" by (simp add: js)
  ultimately show "sum_list (map (uint \<circ> new_range_size conf True T n l) (take (length js - 1) js)) < 4294967295"
    by (simp only: eq)
qed

text \<open>The conditions under which the division works: a subvolume can take part, there are not too many of
  them, and, where sizes count, every one of them takes part and the sizes add up to at most a pebibyte.\<close>

definition can_divide :: "dht_conf \<Rightarrow> dht_layout \<Rightarrow> bool" where
  "can_divide conf l \<longleftrightarrow> 0 \<le> spread_cnt l \<and> (\<exists>e \<in> set (entries l). available conf e) \<and> cnt l \<le> 2 ^ 30 \<and>
     (do_weighting conf \<longrightarrow> spread_cnt l = 0 \<and> chunks_sum conf (entries l) \<le> 2 ^ 30)"

text \<open>What a new layout is like.\<close>

definition divided :: "dht_layout \<Rightarrow> dht_layout \<Rightarrow> bool" where
  "divided l l' \<longleftrightarrow> (\<forall>h. cover_count h (entries l') = 1) \<and> map subvol (entries l') = map subvol (entries l) \<and>
     (\<forall>e \<in> set (entries l'). unassigned e \<or> may_get_range e \<and> start e < stop e) \<and> hash_type l' = hash_type l"

lemma chunks_sum_filter: "chunks_sum conf (filter P es) \<le> chunks_sum conf es"
  by (induction es) (auto simp: chunks_sum_def)

lemma chunks_sum_mset: "mset es = mset es' \<Longrightarrow> chunks_sum conf es = chunks_sum conf es'"
  unfolding chunks_sum_def by (metis mset_map sum_mset_sum_list)

lemma assign_divides:
  assumes l1: "l1 = l\<lparr> entries := entries l1 \<rparr>" "map subvol (entries l1) = map subvol (entries l)"
    and n: "1 \<le> n" "n \<le> int (length (filter may_get_range (entries l1)))"
    and js: "js = filter (elig (reset_layout_range l1)) (rotate s [0..<cnt l1])"
    and ok: "\<forall>i \<in> set js. range_size_ok conf weighted chunk rs (reset_layout_range l1) i"
    and sum: "sum_list (map (uint \<circ> rs) (take (nat n - 1) js)) < 4294967295"
  shows "\<exists>l'. assign_loop conf weighted chunk n (rotate s [0..<cnt l1]) 0 0 (reset_layout_range l1) = Some l' \<and> divided l l'"
proof -
  let ?L = "reset_layout_range l1"
  have len: "cnt ?L = cnt l1" by (simp add: reset_layout_range_def)
  have z: "unassigned (entries ?L ! i)" if "i < cnt l1" for i using that by (simp add: reset_layout_range_def unassigned_def)
  have el: "elig ?L i = may_get_range (entries l1 ! i)" if "i < cnt l1" for i
    using that by (simp add: elig_def reset_layout_range_def may_get_range_def)
  have "length js = length (filter may_get_range (entries l1))"
  proof -
    have "js = filter (\<lambda>i. may_get_range (entries l1 ! i)) (rotate s [0..<cnt l1])"
      unfolding js using el by (intro filter_cong) auto
    then show ?thesis using mset_eq_length [OF rotated_filter [of "entries l1" "cnt l1" may_get_range s]] by simp
  qed
  then have "nat (n - 0) \<le> length (filter (elig ?L) (rotate s [0..<cnt l1]))" using n(2) js by simp
  moreover have "uint (0 :: u32) + sum_list (map (uint \<circ> rs) (take (nat (n - 0) - 1) (filter (elig ?L) (rotate s [0..<cnt l1])))) < 4294967295"
    using sum js by simp
  moreover have "\<forall>i \<in> set (rotate s [0..<cnt l1]). i < cnt ?L \<and> unassigned (entries ?L ! i) \<and> (elig ?L i \<longrightarrow> range_size_ok conf weighted chunk rs ?L i)"
    using z ok js len by auto
  ultimately obtain l' where l': "assign_loop conf weighted chunk n (rotate s [0..<cnt l1]) 0 0 ?L = Some l'"
    "\<forall>h. cover_count h (entries l') = cover_count h (entries ?L) + of_bool (0 \<le> h)"
    "list_all2 same_brick (entries ?L) (entries l')" "l' = ?L\<lparr> entries := entries l' \<rparr>"
    "\<forall>i < cnt ?L. entries l' ! i = entries ?L ! i \<or> elig ?L i \<and> start (entries l' ! i) < stop (entries l' ! i)"
    using assign_loop_covers [of "rotate s [0..<cnt l1]" ?L conf weighted chunk rs 0 n 0] n(1) by auto
  have "cover_count h (entries ?L) = 0" for h by (auto simp: cover_count_def covers_def reset_layout_range_def filter_empty_conv)
  then have "\<forall>h. cover_count h (entries l') = 1" using l'(2) by simp
  moreover have "map subvol (entries l') = map subvol (entries ?L)"
    using l'(3) by (auto simp: list_all2_conv_all_nth same_brick_def intro!: nth_equalityI)
  moreover have "map subvol (entries ?L) = map subvol (entries l)" using l1(2) by (simp add: reset_layout_range_def comp_def)
  moreover have "unassigned e \<or> may_get_range e \<and> start e < stop e" if el': "e \<in> set (entries l')" for e
  proof -
    have c: "cnt l' = cnt l1" using l'(3) len by (simp add: list_all2_lengthD)
    then obtain i where i: "i < cnt l1" "e = entries l' ! i" using el' by (auto simp: in_set_conv_nth)
    then have "same_brick (entries ?L ! i) e" using l'(3) len by (simp add: list_all2_nthD)
    then have "elig ?L i \<Longrightarrow> may_get_range e" by (simp add: elig_def may_get_range_def same_brick_def)
    then show ?thesis using l'(5) i z [OF i(1)] len by auto
  qed
  moreover have "hash_type l' = hash_type l"
    using l'(4) l1(1) by (metis dht_layout.select_convs(5) dht_layout.surjective dht_layout.update_convs(6) reset_layout_range_def)
  ultimately show ?thesis using l'(1) by (auto simp: divided_def)
qed

lemma new_directory_divides:
  assumes "can_divide conf l"
  shows "\<exists>l'. dht_selfheal_layout_new_directory regexec conf lc l = Some l' \<and> divided l l'"
proof -
  obtain l1 n where c: "dht_get_layout_count conf l True = (l1, n)" by fastforce
  note lc = layout_count [OF c]
  have sp: "0 \<le> spread_cnt l" "\<exists>e \<in> set (entries l). available conf e" using assms by (simp_all add: can_divide_def)
  note n = lc(1,2) [OF sp]
  have sub: "map subvol (entries l1) = map subvol (entries l)"
    using lc(5) [OF sp] by (auto simp: list_all2_conv_all_nth intro!: nth_equalityI)
  then have len: "cnt l1 = cnt l" by (metis length_map)
  let ?s = "dht_selfheal_layout_alloc_start regexec conf lc l1" and ?L = "reset_layout_range l1"
  define js where "js = filter (elig ?L) (rotate ?s [0..<cnt l1])"
  have L: "subvol (entries ?L ! i) = subvol (entries l1 ! i)" "elig ?L i = may_get_range (entries l1 ! i)" if "i < cnt l1" for i
    using that by (simp_all add: elig_def reset_layout_range_def may_get_range_def)
  have js': "js = filter (\<lambda>i. may_get_range (entries l1 ! i)) (rotate ?s [0..<cnt l1])"
    unfolding js_def using L(2) by (intro filter_cong) auto
  have m: "mset (map ((!) (entries l1)) js) = mset (filter may_get_range (entries l1))"
    unfolding js' by (rule rotated_filter) simp
  have js_len: "length js = length (filter may_get_range (entries l1))" using mset_eq_length [OF m] by simp
  have js_sized: "P (subvol (entries ?L ! i))" if "i \<in> set js" "\<forall>e \<in> set (entries l1). may_get_range e \<longrightarrow> P (subvol e)" for i P
    using that L by (auto simp: js')
  have js_sum: "chunks_sum conf (filter may_get_range (entries l1)) = sum_list (map (\<lambda>i. unat (dht_get_chunks_from_xl conf (subvol (entries ?L ! i)))) js)"
  proof -
    have "chunks_sum conf (filter may_get_range (entries l1)) = chunks_sum conf (map ((!) (entries l1)) js)"
      using m [symmetric] by (rule chunks_sum_mset)
    also have "\<dots> = sum_list (map (\<lambda>i. unat (dht_get_chunks_from_xl conf (subvol (entries ?L ! i)))) js)"
      unfolding chunks_sum_def map_map comp_def using L(1) by (intro arg_cong [of _ _ sum_list] map_cong) (auto simp: js')
    finally show ?thesis .
  qed
  obtain all_sized tot where t: "total_loop conf n 0 0 (entries l1) = (all_sized, tot)" by fastforce
  define w where "w \<longleftrightarrow> do_weighting conf \<and> all_sized \<and> tot \<noteq> 0"
  define chunk where "chunk = (if w then dbl (0xffffffff / dbl (of_nat (unat tot))) else of_int (0xffffffff div n))"
  have nd: "dht_selfheal_layout_new_directory regexec conf lc l = assign_loop conf w chunk n (rotate ?s [0..<cnt l1]) 0 0 ?L"
    unfolding dht_selfheal_layout_new_directory_def c t w_def chunk_def Let_def by (simp add: rotated_indices t)
  have "\<exists>rs. (\<forall>i \<in> set js. range_size_ok conf w chunk rs ?L i) \<and> sum_list (map (uint \<circ> rs) (take (nat n - 1) js)) < 4294967295"
  proof (cases w)
    case False
    have "n \<le> 2 ^ 30" using n(2) len assms length_filter_le [of may_get_range "entries l1"] by (simp add: can_divide_def)
    then have "range_size_ok conf w chunk (new_range_size conf False 0 n ?L) ?L i"
      "sum_list (map (uint \<circ> new_range_size conf False 0 n ?L) (take (nat n - 1) js)) < 4294967295" for i
      using False even_ranges [OF n(1), of chunk js] js_len n(2) by (simp_all add: chunk_def)
    then show ?thesis by blast
  next
    case True
    then have k: "n = int (length (filter may_get_range (entries l1)))" "chunks_sum conf (entries l) \<le> 2 ^ 30"
      using lc(3) [OF sp] assms by (auto simp: w_def can_divide_def)
    have sized: "\<forall>e \<in> set (entries l1). may_get_range e \<longrightarrow> dht_get_chunks_from_xl conf (subvol e) \<noteq> 0"
      using total_loop_unsized [of n 0 "entries l1" conf 0] k(1) t True by (auto simp: w_def)
    define T where "T = chunks_sum conf (filter may_get_range (entries l1))"
    have tot: "tot = of_nat T" using total_loop_all [OF _ sized, of n 0 0] k(1) t by (simp add: T_def)
    have "chunks_sum conf (entries l1) = chunks_sum conf (entries l)"
      unfolding chunks_sum_def using arg_cong [OF sub, of "map (\<lambda>x. unat (dht_get_chunks_from_xl conf x))"] by (simp add: comp_def)
    then have T30: "T \<le> 2 ^ 30" using k(2) chunks_sum_filter [of conf may_get_range "entries l1"] by (simp add: T_def)
    then have u: "unat tot = T" unfolding tot by (simp add: unat_of_nat)
    have T0: "0 < T" using True tot by (cases "T = 0") (auto simp: w_def)
    have chunk: "chunk = dbl (0xffffffff / of_nat T)"
      using True u dbl_int [of "int T"] T0 T30 by (simp add: chunk_def)
    have Ts: "T = sum_list (map (\<lambda>i. unat (dht_get_chunks_from_xl conf (subvol (entries ?L ! i)))) js)"
      and nz: "\<forall>i \<in> set js. dht_get_chunks_from_xl conf (subvol (entries ?L ! i)) \<noteq> 0"
      using js_sum js_sized [where P = "\<lambda>x. dht_get_chunks_from_xl conf x \<noteq> 0"] sized by (simp_all add: T_def)
    have "nat n = length js" using js_len k(1) by simp
    then show ?thesis
      using weighted_ranges [OF Ts T0 T30 nz chunk, of n] True by (intro exI [of _ "new_range_size conf True T n ?L"]) simp
  qed
  then show ?thesis unfolding nd using assign_divides [OF lc(4) [OF sp] sub n js_def] by blast
qed

end
