(* ===== verification/Dht_Fix.thy ===== *)
theory Dht_Fix
  imports Dht_Selfheal
begin

text \<open>
  What the layout operations of \<open>Dht_Selfheal\<close> achieve: the exchange of ranges keeps the division of
  the hashes and never keeps less of the old layout, a fixed layout that is written to the subvolumes is
  what the next lookup reads, and the cases in which the code does not do what it is meant to do.
\<close>

section \<open>Exchanging ranges\<close>

text \<open>The hashes of an entry that takes part, and entries none of which share a hash.\<close>

definition hashes :: "dht_layout_entry \<Rightarrow> u32 set" where
  "hashes e = (if 0 < err e \<or> start e = stop e then {} else {start e..stop e})"

definition disjoint_ranges :: "dht_layout_entry list \<Rightarrow> bool" where
  "disjoint_ranges es \<longleftrightarrow> (\<forall>h. length (filter (\<lambda>e. h \<in> hashes e) es) \<le> 1)"

lemma disjoint_nth:
  assumes "disjoint_ranges es" "i < length es" "j < length es" "i \<noteq> j"
  shows "hashes (es ! i) \<inter> hashes (es ! j) = {}"
proof (rule ccontr)
  assume "hashes (es ! i) \<inter> hashes (es ! j) \<noteq> {}"
  then obtain h where h: "h \<in> hashes (es ! i)" "h \<in> hashes (es ! j)" by auto
  have "{i, j} \<subseteq> {k. k < length es \<and> h \<in> hashes (es ! k)}" using h assms by auto
  then have "card {i, j} \<le> card {k. k < length es \<and> h \<in> hashes (es ! k)}" by (intro card_mono) auto
  then have "2 \<le> length (filter (\<lambda>e. h \<in> hashes e) es)" using assms(4) by (simp add: length_filter_conv_card)
  then show False using assms(1) by (auto simp: disjoint_ranges_def dest!: spec [of _ h])
qed

lemma disjoint_mset: "mset es = mset es' \<Longrightarrow> disjoint_ranges es = disjoint_ranges es'"
  unfolding disjoint_ranges_def by (metis mset_filter size_mset)

lemma disjoint_Cons:
  assumes "disjoint_ranges es" "\<forall>a \<in> set es. hashes e \<inter> hashes a = {}"
  shows "disjoint_ranges (e # es)"
  unfolding disjoint_ranges_def
proof
  fix h
  show "length (filter (\<lambda>e. h \<in> hashes e) (e # es)) \<le> 1"
  proof (cases "h \<in> hashes e")
    case True
    then have "filter (\<lambda>e. h \<in> hashes e) es = []" using assms(2) by (auto simp: filter_empty_conv)
    then show ?thesis by simp
  next
    case False
    then show ?thesis using assms(1) by (simp add: disjoint_ranges_def)
  qed
qed

lemma disjoint_Nil: "disjoint_ranges []"
  by (simp add: disjoint_ranges_def)

lemma intervals_disjoint: "b < c \<or> d < a \<Longrightarrow> {a..b} \<inter> {c..d} = {}" for a :: "'a::linorder"
  by auto

lemma u32_max: "h \<le> (0xffffffff :: u32)"
  using uint_lt2p [of h] by (simp add: word_le_def)

lemma unat_u32: "unat (h :: u32) < 4294967296"
proof -
  have "unat h < 2 ^ LENGTH(32)" by (rule unsigned_less)
  then show ?thesis by simp
qed

lemma unat_u32_max: "unat (h :: u32) = 4294967295 \<Longrightarrow> h = 0xffffffff"
  by (simp add: word_unat_eq_iff)

lemma card_word_interval:
  assumes "a \<le> (b :: u32)"
  shows "card {a..b} = unat b - unat a + 1"
proof -
  have "unat ` {a..b} = {unat a..unat b}"
  proof (intro equalityI subsetI)
    fix n
    assume n: "n \<in> {unat a..unat b}"
    then have "n < 2 ^ 32" using unat_u32 [of b] by simp
    then have "unat (of_nat n :: u32) = n" by (simp add: unat_of_nat)
    then show "n \<in> unat ` {a..b}" using n by (intro image_eqI [of _ _ "of_nat n"]) (auto simp: word_le_nat_alt)
  qed (auto simp: word_le_nat_alt)
  moreover have "inj_on unat {a..b}" by (simp add: inj_on_def word_unat_eq_iff)
  ultimately have "card {a..b} = card {unat a..unat b}" by (metis card_image)
  then show ?thesis using assms by (simp add: word_le_nat_alt)
qed

lemma overlap_card:
  assumes "\<not> full_range new" "start new \<le> stop new" "start old \<le> stop old"
  shows "unat (dht_overlap_calc old new) = card (hashes old \<inter> hashes new)"
proof (cases "0 < err old \<or> 0 < err new \<or> start old = stop old \<or> start new = stop new \<or> stop new < start old \<or> stop old < start new")
  case True
  then show ?thesis by (auto simp: dht_overlap_calc_def hashes_def)
next
  case False
  let ?a = "max (start old) (start new)" and ?b = "min (stop old) (stop new)"
  have ab: "?a \<le> ?b" using False assms(2,3) by auto
  have int: "hashes old \<inter> hashes new = {?a..?b}" using False by (auto simp: hashes_def)
  have nf: "\<not> (?a = 0 \<and> ?b = 0xffffffff)"
    using assms(1) u32_max [of "stop new"] u32_max [of "stop old"]
    by (auto simp: full_range_def max_def min_def split: if_splits)
  have sub: "unat (?b - ?a) = unat ?b - unat ?a" using ab by (rule unat_sub)
  have arith: "y - x < 4294967295 \<or> x = 0 \<and> y = 4294967295" if "y < 4294967296" for x y :: nat using that by linarith
  have "unat a - unat b < 4294967295" if "\<not> (b = 0 \<and> a = 0xffffffff)" for a b :: u32
    using arith [OF unat_u32 [of a], of "unat b"] that unat_u32_max [of a] by (auto simp: unat_eq_0)
  from this [OF nf] have "unat (?b - ?a) + 1 < 4294967296" unfolding sub by simp
  then have "unat (?b - ?a + 1) = unat ?b - unat ?a + 1" unfolding sub [symmetric] by (simp add: unat_word_ariths(1))
  then show ?thesis using False int card_word_interval [OF ab] by (simp add: dht_overlap_calc_def)
qed

lemma best_swap_gain:
  assumes "snd (best_swap new ov i) = k" "k \<noteq> i"
  shows "i < k \<and> k < length new \<and> \<not> 0 < err (new ! k) \<and> ov i i + ov k k < ov i k + ov k i"
proof -
  let ?P = "\<lambda>k. i < k \<and> k < length new \<and> \<not> 0 < err (new ! k) \<and> ov i i + ov k k < ov i k + ov k i"
  let ?f = "\<lambda>j (max_overlap, idx).
       if 0 < err (new ! j) then (max_overlap, idx)
       else
         let curr_overlap = ov i i + ov j j; overlap = ov i j + ov j i
         in if curr_overlap < overlap \<and> max_overlap < overlap - curr_overlap
            then (overlap - curr_overlap, j) else (max_overlap, idx)"
  have "snd (fold ?f js s) = i \<or> ?P (snd (fold ?f js s))"
    if "\<forall>j \<in> set js. i < j \<and> j < length new" "snd s = i \<or> ?P (snd s)" for js s
    using that
  proof (induction js arbitrary: s)
    case (Cons j js)
    have "snd (?f j s) = i \<or> ?P (snd (?f j s))" using Cons.prems by (cases s) (auto simp: Let_def)
    then show ?case using Cons by simp
  qed simp
  from this [of "[i + 1..<length new]" "(0, i)"] show ?thesis using assms by (simp add: best_swap_def)
qed

lemma length_range_swap [simp]: "length (range_swap i k es) = length es"
  by (simp add: range_swap_def Let_def)

lemma nth_range_swap:
  assumes "i < length es" "k < length es" "i \<noteq> k" "m < length es"
  shows "range_swap i k es ! m =
    (if m = i then (es ! i)\<lparr> start := start (es ! k), stop := stop (es ! k) \<rparr>
     else if m = k then (es ! k)\<lparr> start := start (es ! i), stop := stop (es ! i) \<rparr> else es ! m)"
  using assms by (auto simp: range_swap_def Let_def nth_list_update)

lemma range_swap_map:
  assumes "i < length es" "k < length es" "i \<noteq> k"
    and "f ((es ! i)\<lparr> start := start (es ! k), stop := stop (es ! k) \<rparr>) = f (es ! k)"
    and "f ((es ! k)\<lparr> start := start (es ! i), stop := stop (es ! i) \<rparr>) = f (es ! i)"
  shows "mset (map f (range_swap i k es)) = mset (map f es)"
proof -
  have "map f (range_swap i k es) = entry_swap i k (map f es)"
    using assms by (intro nth_equalityI) (auto simp: nth_range_swap nth_entry_swap)
  then show ?thesis using assms mset_entry_swap [of i "map f es" k] by simp
qed

lemma range_swap_brick:
  "i < length es \<Longrightarrow> k < length es \<Longrightarrow> i \<noteq> k \<Longrightarrow> list_all2 same_brick es (range_swap i k es)"
  by (auto simp: list_all2_conv_all_nth nth_range_swap same_brick_def)

lemma filter_map_length: "length (filter (\<lambda>e. P (f e)) es) = length (filter P (map f es))"
  by (simp add: filter_map comp_def)

lemma hashes_ranges:
  assumes "\<not> 0 < err a" "\<not> 0 < err b"
  shows "hashes (a\<lparr> start := start b, stop := stop b \<rparr>) = hashes b"
  using assms by (simp add: hashes_def)

lemma sum_two_le:
  fixes f g :: "nat \<Rightarrow> nat"
  assumes "finite A" "i \<in> A" "k \<in> A" "i \<noteq> k" "f i + f k \<le> g i + g k" "\<forall>x \<in> A - {i, k}. f x = g x"
  shows "sum f A \<le> sum g A"
proof -
  have "sum h A = h i + (h k + sum h (A - {i} - {k}))" for h :: "nat \<Rightarrow> nat"
    using assms(1-4) by (metis finite_Diff insertE insert_Diff sum.remove)
  moreover have "sum f (A - {i} - {k}) = sum g (A - {i} - {k})" using assms(6) by (intro sum.cong) auto
  ultimately show ?thesis using assms(5) by simp
qed

text \<open>How much of the old layout a new one keeps, as the code counts it.\<close>

definition kept :: "dht_layout_entry list \<Rightarrow> dht_layout_entry list \<Rightarrow> nat" where
  "kept old new = (\<Sum>i < length new. unat (dht_overlap_calc (old ! i) (new ! i)))"

definition plain_ranges :: "dht_layout_entry list \<Rightarrow> bool" where
  "plain_ranges es \<longleftrightarrow> disjoint_ranges es \<and> (\<forall>e \<in> set es. start e \<le> stop e)"

lemma swap_gains:
  assumes new: "plain_ranges new" "\<forall>e \<in> set new. \<not> full_range e" and old: "plain_ranges old" "length old = length new"
    and i: "i < length new" "k < length new" "i \<noteq> k"
    and gain: "dht_overlap_calc (old ! i) (new ! i) + dht_overlap_calc (old ! k) (new ! k) <
      dht_overlap_calc (old ! k) (new ! i) + dht_overlap_calc (old ! i) (new ! k)"
  shows "unat (dht_overlap_calc (old ! i) (new ! i)) + unat (dht_overlap_calc (old ! k) (new ! k)) \<le>
    unat (dht_overlap_calc (old ! k) (new ! i)) + unat (dht_overlap_calc (old ! i) (new ! k))"
proof -
  let ?N = "\<lambda>i. hashes (new ! i)" and ?O = "\<lambda>i. hashes (old ! i)"
  have c: "unat (dht_overlap_calc (old ! a) (new ! b)) = card (?O a \<inter> ?N b)" if "a < length new" "b < length new" for a b
    using that new old by (intro overlap_card) (auto simp: plain_ranges_def)
  have dn: "?N i \<inter> ?N k = {}" and do: "?O i \<inter> ?O k = {}"
    using new(1) old i disjoint_nth [of new i k] disjoint_nth [of old i k] by (auto simp: plain_ranges_def)
  have fin: "finite S" for S :: "u32 set" by (rule finite)
  have U: "card S \<le> 2 ^ 32" for S :: "u32 set" using card_mono [OF fin [of UNIV], of S] by (simp add: card_word)
  let ?A = "card (?O i \<inter> ?N i) + card (?O k \<inter> ?N k)" and ?B = "card (?O k \<inter> ?N i) + card (?O i \<inter> ?N k)"
  have wa: "?A = card ((?O i \<inter> ?N i) \<union> (?O k \<inter> ?N k))" and wb: "?B = card ((?O k \<inter> ?N i) \<union> (?O i \<inter> ?N k))"
    using dn by (intro card_Un_disjoint [symmetric]; auto simp: fin)+
  have a: "?A \<le> 2 ^ 32" and b: "?B \<le> 2 ^ 32"
    unfolding wa wb by (rule U)+
  have z: "?B = 0" if "?A = 2 ^ 32"
  proof -
    have "(?O i \<inter> ?N i) \<union> (?O k \<inter> ?N k) = UNIV"
      using that unfolding wa by (intro card_seteq) (auto simp: fin card_word)
    then have "?O i \<union> ?O k = UNIV" "?N i \<subseteq> ?O i" "?N k \<subseteq> ?O k" using dn do by auto
    then show ?thesis using do by (auto simp: fin)
  qed
  show ?thesis
    using gain a b z i unfolding word_less_nat_alt unat_word_ariths(1) c [OF i(1,1)] c [OF i(2,2)] c [OF i(2,1)] c [OF i(1,2)]
    by (cases "?A = 2 ^ 32"; cases "?B = 2 ^ 32") auto
qed

definition table_of :: "dht_layout_entry list \<Rightarrow> dht_layout_entry list \<Rightarrow> overlap_table \<Rightarrow> bool" where
  "table_of old new ov \<longleftrightarrow> (\<forall>i < length new. \<forall>j < length new. ov i j = dht_overlap_calc (old ! j) (new ! i))"

text \<open>Ranges that have changed places.\<close>

definition permuted :: "dht_layout_entry list \<Rightarrow> dht_layout_entry list \<Rightarrow> bool" where
  "permuted new new' \<longleftrightarrow> list_all2 same_brick new new' \<and>
     mset (map (\<lambda>e. (start e, stop e)) new') = mset (map (\<lambda>e. (start e, stop e)) new) \<and>
     mset (map hashes new') = mset (map hashes new)"

lemma permuted_refl: "permuted new new"
  by (simp add: permuted_def same_brick_list_refl)

lemma permuted_trans: "permuted a b \<Longrightarrow> permuted b c \<Longrightarrow> permuted a c"
  by (auto simp: permuted_def intro: same_brick_trans)

lemma length_filter_mset: "mset xs = mset ys \<Longrightarrow> length (filter P xs) = length (filter P ys)"
  by (metis mset_filter size_mset)

lemma permuted_ranges:
  assumes "permuted new new'"
  shows "plain_ranges new \<Longrightarrow> plain_ranges new'" "\<forall>e \<in> set new. \<not> full_range e \<Longrightarrow> \<forall>e \<in> set new'. \<not> full_range e"
    "length new' = length new" "cover_count h new' = cover_count h new"
proof -
  have r: "mset (map (\<lambda>e. (start e, stop e)) new') = mset (map (\<lambda>e. (start e, stop e)) new)"
    and hs: "mset (map hashes new') = mset (map hashes new)" using assms by (auto simp: permuted_def)
  have s: "(\<lambda>e. (start e, stop e)) ` set new' = (\<lambda>e. (start e, stop e)) ` set new"
    using mset_eq_setD [OF r] by simp
  have "disjoint_ranges new' = disjoint_ranges new"
    unfolding disjoint_ranges_def filter_map_length [of "\<lambda>S. _ \<in> S" hashes] length_filter_mset [OF hs] by (rule refl)
  then show "plain_ranges new \<Longrightarrow> plain_ranges new'" using s by (force simp: plain_ranges_def image_iff set_eq_iff)
  show "\<forall>e \<in> set new. \<not> full_range e \<Longrightarrow> \<forall>e \<in> set new'. \<not> full_range e"
    using s by (force simp: full_range_def image_iff set_eq_iff)
  show "length new' = length new" using mset_eq_length [OF r] by simp
  show "cover_count h new' = cover_count h new"
  proof -
    let ?Q = "\<lambda>(a, b). a \<noteq> b \<and> a \<le> h \<and> h \<le> b"
    have "cover_count h es = length (filter ?Q (map (\<lambda>e. (start e, stop e)) es))" for es
      unfolding cover_count_def filter_map_length [symmetric] by (simp add: covers_def [abs_def])
    then show ?thesis using length_filter_mset [OF r, of ?Q] by simp
  qed
qed

text \<open>A step exchanges the ranges of two entries without a positive error, or does nothing.\<close>

lemma maximize_step_cases:
  assumes "i < length new"
  obtains "maximize_step i (new, ov) = (new, ov)"
  | k where "i \<noteq> k" "k < length new" "\<not> 0 < err (new ! i)" "\<not> 0 < err (new ! k)" "ov i i + ov k k < ov i k + ov k i"
      "maximize_step i (new, ov) = (range_swap i k new, ov(i := ov k, k := ov i))"
proof (cases "0 < err (new ! i) \<or> snd (best_swap new ov i) = i")
  case True
  then have "maximize_step i (new, ov) = (new, ov)" by (simp add: maximize_step_def Let_def)
  then show thesis by (rule that(1))
next
  case False
  let ?k = "snd (best_swap new ov i)"
  have "i < ?k \<and> ?k < length new \<and> \<not> 0 < err (new ! ?k) \<and> ov i i + ov ?k ?k < ov i ?k + ov ?k i"
    using False by (intro best_swap_gain) auto
  moreover have "maximize_step i (new, ov) = (range_swap i ?k new, ov(i := ov ?k, ?k := ov i))"
    using False by (simp add: maximize_step_def Let_def)
  ultimately show thesis using False by (intro that(2) [of ?k]) auto
qed

lemma range_swap_permutes:
  assumes "i < length new" "k < length new" "i \<noteq> k" "\<not> 0 < err (new ! i)" "\<not> 0 < err (new ! k)"
  shows "permuted new (range_swap i k new)"
  unfolding permuted_def
proof (intro conjI)
  show "list_all2 same_brick new (range_swap i k new)" using assms by (intro range_swap_brick)
  show "mset (map (\<lambda>e. (start e, stop e)) (range_swap i k new)) = mset (map (\<lambda>e. (start e, stop e)) new)"
    using assms by (intro range_swap_map) simp_all
  show "mset (map hashes (range_swap i k new)) = mset (map hashes new)"
    using assms by (intro range_swap_map) (simp_all add: hashes_ranges)
qed

lemma maximize_step_permutes:
  assumes "i < length new"
  shows "permuted new (fst (maximize_step i (new, ov)))"
  using assms by (cases rule: maximize_step_cases [OF assms, of ov]) (simp_all add: permuted_refl range_swap_permutes)

lemma maximize_fold_permutes:
  assumes "\<forall>i \<in> set is. i < length new"
  shows "permuted new (fst (fold maximize_step is (new, ov)))"
  using assms
proof (induction "is" arbitrary: new ov)
  case Nil
  then show ?case by (simp add: permuted_refl)
next
  case (Cons i "is")
  obtain new1 ov1 where s: "maximize_step i (new, ov) = (new1, ov1)" by fastforce
  have "permuted new new1" using maximize_step_permutes [of i new ov] Cons.prems s by simp
  then show ?case using Cons s permuted_ranges(3) permuted_trans by fastforce
qed

lemma maximize_step_gains:
  assumes new: "plain_ranges new" "\<forall>e \<in> set new. \<not> full_range e" and old: "plain_ranges old" "length old = length new"
    and t: "table_of old new ov" and i: "i < length new"
  shows "kept old new \<le> kept old (fst (maximize_step i (new, ov))) \<and>
    table_of old (fst (maximize_step i (new, ov))) (snd (maximize_step i (new, ov)))"
proof (cases rule: maximize_step_cases [OF i, of ov])
  case 1
  then show ?thesis using t by simp
next
  case (2 k)
  let ?new = "range_swap i k new"
  note n = nth_range_swap [OF i 2(2) 2(1)]
  have calc: "dht_overlap_calc o' (?new ! i) = dht_overlap_calc o' (new ! k)"
    "dht_overlap_calc o' (?new ! k) = dht_overlap_calc o' (new ! i)" for o'
    using n [OF i] n [OF 2(2)] 2 by (simp_all add: dht_overlap_calc_def)
  have other: "?new ! m = new ! m" if "m < length new" "m \<noteq> i" "m \<noteq> k" for m using n that by simp
  have "table_of old ?new (ov(i := ov k, k := ov i))" using t 2(2) i calc other by (auto simp: table_of_def)
  moreover have "kept old new \<le> kept old ?new"
    unfolding kept_def length_range_swap
  proof (rule sum_two_le [where i = i and k = k])
    show "unat (dht_overlap_calc (old ! i) (new ! i)) + unat (dht_overlap_calc (old ! k) (new ! k)) \<le>
        unat (dht_overlap_calc (old ! i) (?new ! i)) + unat (dht_overlap_calc (old ! k) (?new ! k))"
      unfolding calc using swap_gains [OF new old i 2(2) 2(1)] 2(2,5) t i by (simp add: table_of_def)
  qed (use i 2 other in auto)
  ultimately show ?thesis by (simp add: 2(6))
qed

lemma maximize_fold_gains:
  assumes "plain_ranges new" "\<forall>e \<in> set new. \<not> full_range e" "plain_ranges old" "length old = length new"
    "table_of old new ov" "\<forall>i \<in> set is. i < length new"
  shows "kept old new \<le> kept old (fst (fold maximize_step is (new, ov)))"
  using assms
proof (induction "is" arbitrary: new ov)
  case Nil
  then show ?case by simp
next
  case (Cons i "is")
  obtain new1 ov1 where s: "maximize_step i (new, ov) = (new1, ov1)" by fastforce
  have e: "kept old new \<le> kept old new1" "table_of old new1 ov1"
    using maximize_step_gains [OF Cons.prems(1-5), of i] Cons.prems(6) s by auto
  have "permuted new new1" using maximize_step_permutes [of i new ov] Cons.prems(6) s by simp
  note r = permuted_ranges [OF this]
  have "kept old new1 \<le> kept old (fst (fold maximize_step is (new1, ov1)))"
    using Cons.IH [of new1 ov1] r Cons.prems e(2) by simp
  then show ?case using e(1) s by simp
qed

lemma maximize_overlap_permutes:
  "permuted (entries new) (entries (dht_selfheal_layout_maximize_overlap new old))"
  unfolding dht_selfheal_layout_maximize_overlap_def Let_def by (simp add: maximize_fold_permutes)

lemma maximize_overlap_gains:
  assumes "plain_ranges (entries new)" "\<forall>e \<in> set (entries new). \<not> full_range e" "plain_ranges (entries old)"
    "cnt old = cnt new" "\<forall>e \<in> set (entries old). c_string (xl_name (subvol e))"
  defines "old1 \<equiv> dht_layout_sort_volname old"
  shows "kept (entries old1) (entries new) \<le> kept (entries old1) (entries (dht_selfheal_layout_maximize_overlap new old))"
proof -
  have m: "mset (entries old1) = mset (entries old)"
    using by_name.sort_mset [of "entries old"] assms(5) by (simp add: old1_def dht_layout_sort_volname_def)
  have "plain_ranges (entries old1)"
    using assms(3) disjoint_mset [OF m] mset_eq_setD [OF m] by (simp add: plain_ranges_def)
  then show ?thesis
    using assms(1,2,4) mset_eq_length [OF m] unfolding dht_selfheal_layout_maximize_overlap_def Let_def old1_def [symmetric]
    by (simp add: maximize_fold_gains table_of_def overlap_table_def)
qed

lemma same_brick_subvols: "list_all2 same_brick es es' \<Longrightarrow> map subvol es' = map subvol es"
  by (auto simp: list_all2_conv_all_nth same_brick_def intro!: nth_equalityI)

text \<open>The hashes that stay where they are: they belong to the same subvolume in both layouts.\<close>

definition staying :: "dht_layout_entry list \<Rightarrow> dht_layout_entry list \<Rightarrow> u32 set" where
  "staying old new = {h. \<exists>a \<in> set old. \<exists>b \<in> set new. subvol a = subvol b \<and> h \<in> hashes a \<and> h \<in> hashes b}"

lemma kept_staying:
  assumes "plain_ranges old" "plain_ranges new" "\<forall>e \<in> set new. \<not> full_range e" "map subvol old = map subvol new" "distinct (map subvol new)"
  shows "kept old new = card (staying old new)"
proof -
  have n: "length old = length new" using assms(4) by (rule map_eq_imp_length_eq)
  have eq: "i = j" if "subvol (old ! i) = subvol (new ! j)" "i < length new" "j < length new" for i j
  proof -
    have "map subvol old ! i = subvol (old ! i)" using that(2) n by simp
    then have "map subvol new ! i = map subvol new ! j" using that assms(4) by simp
    then show ?thesis using that nth_eq_iff_index_eq [OF assms(5)] by simp
  qed
  have sub: "subvol (old ! i) = subvol (new ! i)" if "i < length new" for i using arg_cong [OF assms(4), of "\<lambda>xs. xs ! i"] that n by simp
  have "staying old new = (\<Union>i < length new. hashes (old ! i) \<inter> hashes (new ! i))"
  proof (intro equalityI subsetI)
    fix h
    assume "h \<in> staying old new"
    then obtain i j where ij: "i < length old" "j < length new" "subvol (old ! i) = subvol (new ! j)" "h \<in> hashes (old ! i)" "h \<in> hashes (new ! j)"
      unfolding staying_def by (auto simp: in_set_conv_nth)
    then show "h \<in> (\<Union>i < length new. hashes (old ! i) \<inter> hashes (new ! i))" using eq [OF ij(3)] n by auto
  next
    fix h
    assume "h \<in> (\<Union>i < length new. hashes (old ! i) \<inter> hashes (new ! i))"
    then obtain i where i: "i < length new" "h \<in> hashes (old ! i)" "h \<in> hashes (new ! i)" by auto
    moreover have "old ! i \<in> set old" "new ! i \<in> set new" using i(1) n by auto
    ultimately show "h \<in> staying old new" using sub [OF i(1)] unfolding staying_def by blast
  qed
  moreover have "card (\<Union>i < length new. hashes (old ! i) \<inter> hashes (new ! i)) = (\<Sum>i < length new. card (hashes (old ! i) \<inter> hashes (new ! i)))"
    using disjoint_nth [of new] assms(2) by (intro card_UN_disjoint) (auto simp: plain_ranges_def)
  moreover have "unat (dht_overlap_calc (old ! i) (new ! i)) = card (hashes (old ! i) \<inter> hashes (new ! i))" if "i < length new" for i
    using assms(1-3) that n by (intro overlap_card) (auto simp: plain_ranges_def)
  ultimately show ?thesis by (simp add: kept_def)
qed

lemma maximize_overlap_stays:
  assumes "plain_ranges (entries new)" "plain_ranges (entries old)" "\<forall>e \<in> set (entries new). \<not> full_range e"
    "map subvol (entries (dht_layout_sort_volname old)) = map subvol (entries new)" "distinct (map subvol (entries new))"
    "\<forall>e \<in> set (entries old). c_string (xl_name (subvol e))"
  shows "card (staying (entries old) (entries new)) \<le> card (staying (entries old) (entries (dht_selfheal_layout_maximize_overlap new old)))"
proof -
  let ?old = "entries (dht_layout_sort_volname old)" and ?new = "entries (dht_selfheal_layout_maximize_overlap new old)"
  have m: "mset ?old = mset (entries old)"
    using by_name.sort_mset [of "entries old"] assms(6) by (simp add: dht_layout_sort_volname_def)
  have p: "plain_ranges ?old" using assms(2) disjoint_mset [OF m] mset_eq_setD [OF m] by (simp add: plain_ranges_def)
  note pm = maximize_overlap_permutes [of new old]
  have sv: "map subvol ?new = map subvol (entries new)" using pm same_brick_subvols by (simp add: permuted_def)
  have st: "staying (entries old) es = staying ?old es" for es using mset_eq_setD [OF m] by (simp add: staying_def)
  have "cnt old = cnt new" using mset_eq_length [OF m] map_eq_imp_length_eq [OF assms(4)] by simp
  from maximize_overlap_gains [OF assms(1,3,2) this assms(6)] show ?thesis
    unfolding st using kept_staying [OF p assms(1,3,4,5)] kept_staying [OF p permuted_ranges(1) [OF pm assms(1)] permuted_ranges(2) [OF pm assms(3)]] assms(4,5) sv
    by simp
qed

section \<open>From the disk and back\<close>

text \<open>The layout \<open>dht_lookup_dir_cbk\<close> collects from the answers of the subvolumes \<open>xs\<close>, in the order in
  which they come in; every directory is there, with the attributes of \<open>d\<close>.\<close>

fun lookup_merge :: "dht_conf \<Rightarrow> disk \<Rightarrow> xlator list \<Rightarrow> dht_layout \<Rightarrow> dht_layout option" where
  "lookup_merge conf d [] l = Some l"
| "lookup_merge conf d (x # xs) l =
     Option.bind (dht_layout_merge conf l x 0 0 (Some (\<lambda>k. if k = xattr_name conf then d (xl_id x) else None)))
       (\<lambda>(ret, l'). lookup_merge conf d xs l')"

definition read_entry :: "xlator \<Rightarrow> u32 list \<Rightarrow> dht_layout_entry" where
  "read_entry x disk = \<lparr> err = 0, start = hton32 (disk ! 2), stop = hton32 (disk ! 3), entry_commit_hash = hton32 (disk ! 0), subvol = x \<rparr>"

lemma find_upt: "k < n \<Longrightarrow> P k \<Longrightarrow> (\<And>j. j < k \<Longrightarrow> \<not> P j) \<Longrightarrow> find P [0..<n] = Some k"
  unfolding find_Some_iff by (rule exI [of _ k]) simp

text \<open>One answer fills the first free place.\<close>

lemma merge_one:
  assumes l: "entries l = es @ new_entry # rest" "\<forall>e \<in> set es. xl_id (subvol e) \<noteq> 0"
    and x: "xl_id x \<noteq> 0" "sint (hton32 (disk ! 1)) = 0"
  shows "\<exists>l'. dht_layout_merge conf l x 0 0 (Some (\<lambda>k. if k = xattr_name conf then Some disk else None)) = Some (0, l') \<and>
    entries l' = es @ read_entry x disk # rest \<and> hash_type l' = hash_type l"
proof -
  have slot: "find (\<lambda>i. xl_id (subvol (entries l ! i)) = 0) [0..<cnt l] = Some (length es)"
    using l by (intro find_upt) (auto simp: nth_append new_entry_def null_xlator_def)
  let ?l1 = "l\<lparr> entries := es @ new_entry\<lparr> err := -1, subvol := x \<rparr> # rest \<rparr>"
  let ?l2 = "l\<lparr> entries := es @ (read_entry x disk)\<lparr> err := -1 \<rparr> # rest \<rparr>"
  have m: "dht_disk_layout_merge ?l1 (length es) (Some disk) = (0, ?l2)"
    using x(2) by (simp add: dht_disk_layout_merge_def Let_def read_entry_def new_entry_def)
  have upd: "(entries l)[length es := (entries l ! length es)\<lparr> err := -1, subvol := x \<rparr>] =
      es @ new_entry\<lparr> err := -1, subvol := x \<rparr> # rest"
    using l(1) by simp
  show ?thesis
    unfolding dht_layout_merge_def slot Let_def by (simp add: upd m) (simp add: read_entry_def)
qed

lemma lookup_merge_all:
  assumes "entries l = es @ replicate (length xs) new_entry" "\<forall>e \<in> set es. xl_id (subvol e) \<noteq> 0"
    and "\<forall>x \<in> set xs. xl_id x \<noteq> 0 \<and> (\<exists>disk. d (xl_id x) = Some disk \<and> sint (hton32 (disk ! 1)) = 0)"
  shows "\<exists>l'. lookup_merge conf d xs l = Some l' \<and> entries l' = es @ map (\<lambda>x. read_entry x (the (d (xl_id x)))) xs"
  using assms
proof (induction xs arbitrary: l es)
  case Nil
  then show ?case by simp
next
  case (Cons x xs)
  obtain disk where disk: "xl_id x \<noteq> 0" "d (xl_id x) = Some disk" "sint (hton32 (disk ! 1)) = 0" using Cons.prems(3) by auto
  have l: "entries l = es @ new_entry # replicate (length xs) new_entry" using Cons.prems(1) by simp
  from merge_one [OF l Cons.prems(2) disk(1,3), of conf] obtain l1 where l1:
    "dht_layout_merge conf l x 0 0 (Some (\<lambda>k. if k = xattr_name conf then Some disk else None)) = Some (0, l1)"
    "entries l1 = es @ read_entry x disk # replicate (length xs) new_entry" by blast
  have "\<exists>l'. lookup_merge conf d xs l1 = Some l' \<and> entries l' = (es @ [read_entry x disk]) @ map (\<lambda>x. read_entry x (the (d (xl_id x)))) xs"
    using l1(2) Cons.prems disk(1) by (intro Cons.IH) (auto simp: read_entry_def)
  then show ?case unfolding lookup_merge.simps disk(2) l1(1) by (simp add: disk(2))
qed

lemma write_all:
  assumes "n \<le> cnt l" "inj_on (\<lambda>i. xl_id (subvol (entries l ! i))) {..<n}" "i < n"
  shows "fst (fold (\<lambda>i. dht_selfheal_dir_xattr_persubvol (\<lambda>_. 0) l i (subvol (entries l ! i))) [0..<n] s)
     (xl_id (subvol (entries l ! i))) = Some (dht_disk_layout_extract l i)"
  using assms
proof (induction n)
  case (Suc n)
  show ?case
  proof (cases "i = n")
    case True
    then show ?thesis by (simp add: dht_selfheal_dir_xattr_persubvol_def case_prod_beta Let_def)
  next
    case False
    then have "xl_id (subvol (entries l ! i)) \<noteq> xl_id (subvol (entries l ! n))" using Suc.prems by (auto dest: inj_onD)
    then show ?thesis
      using Suc.IH Suc.prems False
      by (simp add: dht_selfheal_dir_xattr_persubvol_def case_prod_beta Let_def inj_on_subset [of _ "{..<Suc n}" "{..<n}"])
  qed
qed simp

lemma fix_dir_xattr_disk:
  assumes "cnt l = length (subvolumes conf)" "distinct (map (\<lambda>e. xl_id (subvol e)) (entries l))" "e \<in> set (entries l)"
    and "hash_type l = DHT_HASH_TYPE_DM"
  shows "\<exists>disk. fst (dht_fix_dir_xattr (\<lambda>_. 0) conf l d) (xl_id (subvol e)) = Some disk \<and> sint (hton32 (disk ! 1)) = 0 \<and>
    read_entry (subvol e) disk = e\<lparr> err := 0 \<rparr>"
proof -
  obtain i where i: "i < cnt l" "e = entries l ! i" using assms(3) by (auto simp: in_set_conv_nth)
  have "inj_on (\<lambda>i. xl_id (subvol (entries l ! i))) {..<cnt l}"
    using assms(2) by (auto simp: inj_on_def distinct_conv_nth)
  then have "fst (dht_fix_dir_xattr (\<lambda>_. 0) conf l d) (xl_id (subvol e)) = Some (dht_disk_layout_extract l i)"
    using write_all [of "cnt l" l i "(d, l)"] i assms(1) by (cases "subvolumes conf") (simp_all add: dht_fix_dir_xattr_def Let_def)
  then show ?thesis
    using i(2) assms(4) by (simp add: dht_disk_layout_extract_def Let_def read_entry_def hton32_def)
qed

lemma partitions_covers: "partitions (map (\<lambda>e. e\<lparr> err := 0 \<rparr>) es) \<longleftrightarrow> (\<forall>h. cover_count h es = 1)"
  by (simp add: partitions_def cover_count_def filter_map comp_def owns_def participating_def covers_def [abs_def])

lemma partition_normalizes:
  assumes wf: "wf_layout l" and part: "partitions (entries l)"
  shows "0 \<le> fst (dht_layout_normalize l)"
proof -
  have "length (filter participating (entries l)) \<le> 1" if f: "f \<in> set (entries l)" "full_range f" for f
  proof -
    obtain k where k: "k < cnt l" "f = entries l ! k" using f(1) by (auto simp: in_set_conv_nth)
    have pf: "participating f" using wf f by (auto simp: wf_layout_def full_range_def unassigned_def)
    have "i = k" if i: "i < cnt l" "participating (entries l ! i)" for i
    proof (rule ccontr)
      assume "i \<noteq> k"
      let ?h = "start (entries l ! i)"
      have "owns ?h (entries l ! i)" using i wf by (auto simp: owns_def wf_layout_def)
      moreover have "owns ?h (entries l ! k)" using pf f(2) k u32_max [of ?h] by (simp add: owns_def full_range_def)
      ultimately have "{i, k} \<subseteq> {j. j < cnt l \<and> owns ?h (entries l ! j)}" using i(1) k(1) by auto
      then have "card {i, k} \<le> card {j. j < cnt l \<and> owns ?h (entries l ! j)}" by (intro card_mono) auto
      then show False using part \<open>i \<noteq> k\<close> by (simp add: partitions_def length_filter_conv_card)
    qed
    then have "{i. i < cnt l \<and> participating (entries l ! i)} \<subseteq> {k}" by auto
    then have "card {i. i < cnt l \<and> participating (entries l ! i)} \<le> card {k}" by (intro card_mono) auto
    then show ?thesis by (simp add: length_filter_conv_card)
  qed
  then have "(\<forall>e \<in> set (entries l). \<not> full_range e) \<or> length (filter participating (entries l)) \<le> 1" by blast
  then show ?thesis using normalize_iff [OF wf] part by simp
qed

section \<open>Fixing a layout\<close>

text \<open>A directory whose layout can be fixed: it has one entry for each subvolume, none of them is down, and
  the hashes can be divided.\<close>

definition fixable :: "dht_conf \<Rightarrow> dht_layout \<Rightarrow> bool" where
  "fixable conf l \<longleftrightarrow> hash_type l = DHT_HASH_TYPE_DM \<and> mset (map subvol (entries l)) = mset (subvolumes conf) \<and>
     distinct (map xl_id (subvolumes conf)) \<and> (\<forall>x \<in> set (subvolumes conf). xl_id x \<noteq> 0 \<and> c_string (xl_name x)) \<and>
     down (dht_layout_anomalies l) = 0 \<and> can_divide conf (l\<lparr> spread_cnt := dir_spread_cnt conf \<rparr>)"

definition complete :: "dht_conf \<Rightarrow> dht_layout \<Rightarrow> bool" where
  "complete conf l \<longleftrightarrow> (\<forall>h. cover_count h (entries l) = 1) \<and> mset (map subvol (entries l)) = mset (subvolumes conf) \<and>
     (\<forall>e \<in> set (entries l). unassigned e \<or> start e < stop e) \<and> hash_type l = DHT_HASH_TYPE_DM"

lemma permuted_set:
  assumes "permuted new new'" "e \<in> set new'"
  shows "\<exists>a \<in> set new. start e = start a \<and> stop e = stop a"
proof -
  have "set (map (\<lambda>e. (start e, stop e)) new') = set (map (\<lambda>e. (start e, stop e)) new)"
    using assms(1) by (intro mset_eq_setD) (simp add: permuted_def)
  moreover have "(start e, stop e) \<in> set (map (\<lambda>e. (start e, stop e)) new')" using assms(2) by simp
  ultimately show ?thesis by auto
qed

lemma fix_layout_complete:
  assumes "fixable conf l"
  shows "\<exists>l'. dht_fix_layout_of_directory regexec conf lc l = Some (Fixed l') \<and> complete conf l'"
proof -
  have sub: "mset (map subvol (entries l)) = mset (subvolumes conf)" using assms by (simp add: fixable_def)
  then have len: "cnt l = length (subvolumes conf)" by (metis length_map mset_eq_length)
  let ?f = "\<lambda>e. new_entry\<lparr> err := (if err e \<noteq> ENOSPC then err e else -1), subvol := subvol e \<rparr>"
  define new0 where "new0 = (dht_layout_new conf (length (subvolumes conf)))\<lparr> entries := map ?f (entries l), commit_hash := commit_hash l \<rparr>"
  define new1 where "new1 = dht_layout_sort_volname new0"
  have "\<forall>x \<in> set (map subvol (entries l)). c_string (xl_name x)"
    using assms mset_eq_setD [OF sub] by (simp add: fixable_def)
  then have m: "mset (entries new1) = mset (map ?f (entries l))"
    unfolding new1_def dht_layout_sort_volname_def by (simp add: new0_def by_name.sort_mset)
  have "can_divide conf new1"
  proof -
    have "spread_cnt new1 = dir_spread_cnt conf" by (simp add: new1_def new0_def dht_layout_sort_volname_def dht_layout_new_def)
    moreover have "chunks_sum conf (entries new1) = chunks_sum conf (entries l)"
      using chunks_sum_mset [OF m] by (simp add: chunks_sum_def comp_def)
    moreover obtain e where e: "e \<in> set (entries l)" "available conf e" using assms by (auto simp: fixable_def can_divide_def)
    then have "available conf (?f e)" by (auto simp: available_def)
    moreover have "?f e \<in> set (entries new1)" unfolding mset_eq_setD [OF m] set_map by (rule imageI [OF e(1)])
    ultimately show ?thesis using assms mset_eq_length [OF m] unfolding fixable_def can_divide_def by auto
  qed
  then obtain new2 where new2: "dht_selfheal_layout_new_directory regexec conf lc new1 = Some new2" "divided new1 new2"
    using new_directory_divides by blast
  define new3 where "new3 = (if sizes_equal conf \<or> \<not> do_weighting conf then dht_selfheal_layout_maximize_overlap new2 l else new2)"
  have fx: "dht_fix_layout_of_directory regexec conf lc l = Some (Fixed new3)"
    using assms len new2(1) unfolding dht_fix_layout_of_directory_def Let_def new0_def [symmetric] new1_def [symmetric]
    by (simp add: fixable_def new3_def)
  have p: "permuted (entries new2) (entries new3)"
    using maximize_overlap_permutes [of new2 l] by (simp add: new3_def permuted_refl)
  have "map subvol (entries new3) = map subvol (entries new1)"
    using same_brick_subvols [of "entries new2" "entries new3"] p new2(2) by (simp add: permuted_def divided_def)
  then have "mset (map subvol (entries new3)) = image_mset subvol (mset (entries new1))" by (simp only: mset_map)
  then have "mset (map subvol (entries new3)) = mset (subvolumes conf)"
    unfolding m sub [symmetric] by (simp add: multiset.map_comp comp_def)
  moreover have "\<forall>h. cover_count h (entries new3) = 1" using permuted_ranges(4) [OF p] new2(2) by (simp add: divided_def)
  moreover have "\<forall>e \<in> set (entries new3). unassigned e \<or> start e < stop e"
    using permuted_set [OF p] new2(2) by (fastforce simp: divided_def unassigned_def)
  moreover have "hash_type new3 = DHT_HASH_TYPE_DM"
  proof -
    have "hash_type new2 = DHT_HASH_TYPE_DM"
      using new2(2) by (simp add: divided_def new1_def new0_def dht_layout_sort_volname_def dht_layout_new_def)
    then show ?thesis by (simp add: new3_def dht_selfheal_layout_maximize_overlap_def Let_def)
  qed
  ultimately show ?thesis using fx by (auto simp: complete_def)
qed

text \<open>A complete layout, written and looked up.\<close>

lemma lookup_complete:
  assumes c: "complete conf l" and x: "distinct (map xl_id (subvolumes conf))" "\<forall>x \<in> set (subvolumes conf). xl_id x \<noteq> 0"
    and n: "0 < cnt l" "cnt l < 2 ^ 32 - 1" and xs: "mset xs = mset (subvolumes conf)"
  shows "\<exists>l2. lookup_merge conf (fst (dht_fix_dir_xattr (\<lambda>_. 0) conf l d)) xs (dht_layout_new conf (length (subvolumes conf))) = Some l2 \<and>
    mset (entries l2) = mset (map (\<lambda>e. e\<lparr> err := 0 \<rparr>) (entries l)) \<and> 0 \<le> fst (dht_layout_normalize l2)"
proof -
  let ?d = "fst (dht_fix_dir_xattr (\<lambda>_. 0) conf l d)"
  have sub: "mset (map subvol (entries l)) = mset xs" using c xs by (simp add: complete_def)
  then have len: "cnt l = length (subvolumes conf)" using xs by (metis length_map mset_eq_length)
  have "mset (map xl_id (map subvol (entries l))) = mset (map xl_id (subvolumes conf))" using sub xs by (simp only: mset_map)
  then have dist: "distinct (map (\<lambda>e. xl_id (subvol e)) (entries l))"
    using x(1) mset_eq_imp_distinct_iff by (fastforce simp: comp_def)
  note w = fix_dir_xattr_disk [OF len dist, of _ d]
  have ht: "hash_type l = DHT_HASH_TYPE_DM" using c by (simp add: complete_def)
  have mem: "x \<in> set xs \<longleftrightarrow> x \<in> subvol ` set (entries l)" for x using mset_eq_setD [OF sub] by auto
  have "\<forall>x \<in> set xs. xl_id x \<noteq> 0 \<and> (\<exists>disk. ?d (xl_id x) = Some disk \<and> sint (hton32 (disk ! 1)) = 0)"
  proof
    fix y
    assume y: "y \<in> set xs"
    then obtain e where "e \<in> set (entries l)" "y = subvol e" using mem by auto
    then show "xl_id y \<noteq> 0 \<and> (\<exists>disk. ?d (xl_id y) = Some disk \<and> sint (hton32 (disk ! 1)) = 0)"
      using w [of e, OF _ ht] x(2) y mset_eq_setD [OF xs] by auto
  qed
  moreover have "entries (dht_layout_new conf (length (subvolumes conf))) = [] @ replicate (length xs) new_entry"
    using mset_eq_length [OF xs] by (simp add: dht_layout_new_def)
  ultimately obtain l2 where l2: "lookup_merge conf ?d xs (dht_layout_new conf (length (subvolumes conf))) = Some l2"
    "entries l2 = map (\<lambda>x. read_entry x (the (?d (xl_id x)))) xs"
    using lookup_merge_all [of _ "[]" xs ?d conf] by auto
  have re: "read_entry (subvol e) (the (?d (xl_id (subvol e)))) = e\<lparr> err := 0 \<rparr>" if e: "e \<in> set (entries l)" for e
  proof -
    obtain disk where disk: "?d (xl_id (subvol e)) = Some disk" "read_entry (subvol e) disk = e\<lparr> err := 0 \<rparr>"
      using w [OF e ht] by blast
    show ?thesis unfolding disk(1) option.sel by (rule disk(2))
  qed
  have "mset (entries l2) = image_mset (\<lambda>x. read_entry x (the (?d (xl_id x)))) (mset (map subvol (entries l)))"
    unfolding l2(2) sub by simp
  also have "\<dots> = mset (map (\<lambda>e. e\<lparr> err := 0 \<rparr>) (entries l))"
    unfolding mset_map multiset.map_comp comp_def using re by (intro image_mset_cong) simp
  finally have m: "mset (entries l2) = mset (map (\<lambda>e. e\<lparr> err := 0 \<rparr>) (entries l))" .
  have "partitions (entries l2)" using partitions_mset [OF m] partitions_covers [of "entries l"] c by (simp add: complete_def)
  moreover have "wf_layout l2"
    using n mset_eq_length [OF m] mset_eq_setD [OF m] c
    by (auto simp: wf_layout_def complete_def participating_def unassigned_def)
  ultimately show ?thesis using l2(1) m partition_normalizes by blast
qed

section \<open>Properties\<close>

text \<open>C9: a new layout divides the hashes. Where a subvolume can take part, the spread count is not negative, there
  are at most 2^30 entries, and weighting by size, if it is on, comes without a spread count and with at most
  2^30 chunks in all (\<open>can_divide\<close>), the assignment of ranges succeeds, and once the ranges are written every
  hash belongs to exactly one subvolume.\<close>

theorem new_directory_partitions:
  assumes "can_divide conf l"
  shows "\<exists>l'. dht_selfheal_layout_new_directory regexec conf lc l = Some l' \<and>
    partitions (map (\<lambda>e. e\<lparr> err := 0 \<rparr>) (entries l')) \<and> map subvol (entries l') = map subvol (entries l)"
  using new_directory_divides [OF assms, of regexec lc] by (auto simp: divided_def partitions_covers)

definition sized_conf :: "u32 list \<Rightarrow> dht_conf" where
  "sized_conf cs = (sample_conf [brick 2 ''b'', brick 3 ''c'', brick 4 ''a''])\<lparr> du_stats := Some cs \<rparr>"

definition empty_layout :: dht_layout where
  "empty_layout = sample_layout [sample_entry (brick 2 ''b'') 0 0, sample_entry (brick 3 ''c'') 0 0, sample_entry (brick 4 ''a'') 0 0]"

lemmas sample_defs = sized_conf_def empty_layout_def sample_conf_def sample_layout_def sample_entry_def brick_def

lemma can_divide_sample: "can_divide (sized_conf [10, 20, 3000]) empty_layout"
  by (simp add: can_divide_def sample_defs available_def chunks_sum_def dht_get_chunks_from_xl_def)

theorem new_directory_partitions_witness:
  "\<exists>l'. dht_selfheal_layout_new_directory no_regex (sized_conf [10, 20, 3000]) \<lparr> loc_path = ''/d'', loc_gfid_str = [] \<rparr> empty_layout = Some l' \<and>
    partitions (map (\<lambda>e. e\<lparr> err := 0 \<rparr>) (entries l'))"
proof -
  from new_directory_partitions [OF can_divide_sample] show ?thesis by blast
qed

text \<open>C21: the exchange of ranges keeps the division of the hashes, and leaves at least as many hashes on the subvolume
  that had them as the layout it started from, when neither layout has overlaps, no range of the new one spans all
  hashes, and the old layout, sorted by name, lists the subvolumes of the new one, each once, in the same order.\<close>

theorem maximize_overlap_keeps_more:
  assumes "plain_ranges (entries new)" "plain_ranges (entries old)" "\<forall>e \<in> set (entries new). \<not> full_range e"
    "map subvol (entries (dht_layout_sort_volname old)) = map subvol (entries new)" "distinct (map subvol (entries new))"
    "\<forall>e \<in> set (entries old). c_string (xl_name (subvol e))"
  shows "(\<forall>h. cover_count h (entries (dht_selfheal_layout_maximize_overlap new old)) = cover_count h (entries new)) \<and>
    card (staying (entries old) (entries new)) \<le> card (staying (entries old) (entries (dht_selfheal_layout_maximize_overlap new old)))"
  using permuted_ranges(4) [OF maximize_overlap_permutes] maximize_overlap_stays [OF assms] by blast

theorem maximize_overlap_keeps_more_witness:
  "let old = sample_layout [sample_entry (brick 4 ''c'') 200 299, sample_entry (brick 2 ''a'') 0 99, sample_entry (brick 3 ''b'') 100 199];
       new = sample_layout [sample_entry (brick 2 ''a'') 200 299, sample_entry (brick 3 ''b'') 0 99, sample_entry (brick 4 ''c'') 100 199]
   in map start (entries (dht_selfheal_layout_maximize_overlap new old)) = [0, 100, 200] \<and>
      card (staying (entries old) (entries new)) \<le> card (staying (entries old) (entries (dht_selfheal_layout_maximize_overlap new old))) \<and>
      cover_count 150 (entries (dht_selfheal_layout_maximize_overlap new old)) = cover_count 150 (entries new)"
proof -
  let ?old = "sample_layout [sample_entry (brick 4 ''c'') 200 299, sample_entry (brick 2 ''a'') 0 99, sample_entry (brick 3 ''b'') 100 199]"
  let ?new = "sample_layout [sample_entry (brick 2 ''a'') 200 299, sample_entry (brick 3 ''b'') 0 99, sample_entry (brick 4 ''c'') 100 199]"
  have "plain_ranges (entries ?old)" "plain_ranges (entries ?new)"
    unfolding plain_ranges_def sample_layout_def sample_entry_def
    by (simp, intro disjoint_Cons disjoint_Nil; simp add: hashes_def intervals_disjoint)+
  moreover have "\<forall>e \<in> set (entries ?new). \<not> full_range e" "distinct (map subvol (entries ?new))"
    "\<forall>e \<in> set (entries ?old). c_string (xl_name (subvol e))"
    by (simp_all add: sample_layout_def sample_entry_def full_range_def c_string_def brick_def)
  moreover have "map subvol (entries (dht_layout_sort_volname ?old)) = map subvol (entries ?new)"
    "map start (entries (dht_selfheal_layout_maximize_overlap ?new ?old)) = [0, 100, 200]"
    by code_simp+
  ultimately show ?thesis using maximize_overlap_keeps_more [of ?new ?old] by (simp add: Let_def)
qed



text \<open>C36: two subvolumes that have changed places are not changed back. The overlaps of an exchange that would
  keep every hash add up to \<open>2 ^ 32\<close>, which is 0 in the 32 bits they are counted in, so the exchange is
  not made and every hash moves.\<close>

theorem full_exchange_missed:
  "\<exists>new old. partitions (entries new) \<and> partitions (entries old) \<and>
     dht_selfheal_layout_maximize_overlap new old = new \<and>
     kept (entries (dht_layout_sort_volname old)) (entries new) = 0 \<and>
     kept (entries (dht_layout_sort_volname old)) (range_swap 0 1 (entries new)) = 2 ^ 32"
proof -
  let ?old = "sample_layout [sample_entry (brick 2 ''a'') 0 0x7ffffffe, sample_entry (brick 3 ''b'') 0x7fffffff 0xffffffff]"
  let ?new = "sample_layout [sample_entry (brick 2 ''a'') 0x7fffffff 0xffffffff, sample_entry (brick 3 ''b'') 0 0x7ffffffe]"
  have wf: "wf_layout ?old" "wf_layout ?new"
    by (simp_all add: wf_layout_def sample_layout_def sample_entry_def participating_def)
  have full: "\<forall>e \<in> set (entries ?old). \<not> full_range e" "\<forall>e \<in> set (entries ?new). \<not> full_range e"
    by (simp_all add: sample_layout_def sample_entry_def full_range_def)
  have norm: "0 \<le> fst (dht_layout_normalize ?old)" "0 \<le> fst (dht_layout_normalize ?new)" by code_simp+
  note iffD1 [OF normalize_iff [OF wf(1) disjI1 [OF full(1)]] norm(1)] iffD1 [OF normalize_iff [OF wf(2) disjI1 [OF full(2)]] norm(2)]
  moreover have "dht_selfheal_layout_maximize_overlap ?new ?old = ?new" by code_simp
  moreover have "dht_layout_sort_volname ?old = ?old" by code_simp
  moreover have "kept (entries ?old) (entries ?new) = 0"
    "kept (entries ?old) (range_swap 0 1 (entries ?new)) = 2 ^ 32"
    by (simp_all add: kept_def range_swap_def sample_layout_def sample_entry_def dht_overlap_calc_def lessThan_Suc)
  ultimately show ?thesis by metis
qed

text \<open>C37: sizes and a spread count do not go together. The total is taken over the first subvolumes of the
  list, the ranges are given to the subvolumes from \<open>start_subvol\<close> on; where those are larger, a range
  does not fit into 32 bits and its conversion is undefined. Here for the root directory of a volume of
  three bricks with a spread count of two.\<close>

theorem weighted_spread_undefined:
  "\<exists>conf l. list_all (\<lambda>e. available conf e \<and> dht_get_chunks_from_xl conf (subvol e) \<noteq> 0) (entries l) \<and>
     0 < spread_cnt l \<and> spread_cnt l < int (cnt l) \<and>
     dht_selfheal_layout_new_directory no_regex conf \<lparr> loc_path = ''/'', loc_gfid_str = [] \<rparr> l = None"
proof -
  let ?conf = "sized_conf [1, 1, 100]" and ?l = "empty_layout\<lparr> spread_cnt := 2 \<rparr>"
  let ?e = "\<lambda>x. (sample_entry x 0 0)\<lparr> err := -1 \<rparr>"
  let ?l1 = "empty_layout\<lparr> spread_cnt := 2, entries := [?e (brick 2 ''b''), ?e (brick 3 ''c''), ?e (brick 4 ''a'')] \<rparr>"
  have c: "dht_get_layout_count ?conf ?l True = (?l1, 2)" by code_simp
  have t: "total_loop ?conf 2 0 0 (entries ?l1) = (True, 2)" by code_simp
  have s: "dht_selfheal_layout_alloc_start no_regex ?conf \<lparr> loc_path = ''/'', loc_gfid_str = [] \<rparr> ?l1 = 1"
    by (simp add: dht_selfheal_layout_alloc_start_def dht_hash_compute_def sized_conf_def sample_conf_def
        empty_layout_def sample_layout_def hash_root_name)
  have a: "assign_loop ?conf True (dbl (0xffffffff / dbl 2)) 2 [1, 2, 0] 0 0 (reset_layout_range ?l1) = None" by code_simp
  have "cnt ?l1 = 3" by (simp add: empty_layout_def)
  then have i: "map (\<lambda>i. (i + 1) mod cnt ?l1) [0..<cnt ?l1] = [1, 2, 0]" by code_simp
  have "dht_selfheal_layout_new_directory no_regex ?conf \<lparr> loc_path = ''/'', loc_gfid_str = [] \<rparr> ?l = None"
    unfolding dht_selfheal_layout_new_directory_def c t s Let_def prod.case i
    using a by (simp add: sized_conf_def sample_conf_def t)
  moreover have "list_all (\<lambda>e. available ?conf e \<and> dht_get_chunks_from_xl ?conf (subvol e) \<noteq> 0) (entries ?l)" by code_simp
  moreover have "0 < spread_cnt ?l" "spread_cnt ?l < int (cnt ?l)" by (simp_all add: empty_layout_def sample_layout_def)
  ultimately show ?thesis by blast
qed

end
