(* ===== verification/Gf256.thy ===== *)
theory Gf256
  imports Prelude
begin

text \<open>
  The field of 256 elements the erasure code computes in: bytes with exclusive or as addition and
  the product of polynomials over two elements modulo \<open>0x11d\<close>, the modulus \<open>EC_GF_MOD\<close> of
  \<open>xlators/cluster/ec/src/ec-method.h\<close>.  This theory models no code; it is the reference the
  tables, the straight line routines and the matrices of the erasure code are compared with.

  Multiplication by a byte is a polynomial in the linear map \<open>xtime\<close>, multiplication by two.  Such
  polynomials commute, which gives the ring laws; that the powers of two run through all non-zero
  bytes gives the inverses.
\<close>

unbundle bit_operations_syntax

section \<open>Multiplication of bytes\<close>

definition xtime :: "u8 \<Rightarrow> u8" where
  "xtime a = push_bit 1 a XOR (if bit a 7 then 0x1d else 0)"

text \<open>\<open>mul_from n a b\<close> adds up \<open>a\<close> times the bits of \<open>b\<close> from \<open>n\<close> bits on.\<close>

primrec mul_bits :: "nat \<Rightarrow> u8 \<Rightarrow> u8 \<Rightarrow> u8" where
  "mul_bits 0 a b = 0"
| "mul_bits (Suc n) a b = (if bit b 0 then a else 0) XOR mul_bits n (xtime a) (drop_bit 1 b)"

definition mul8 :: "u8 \<Rightarrow> u8 \<Rightarrow> u8" where
  "mul8 a b = mul_bits 8 a b"

lemma bit_if: "bit (if P then a else 0) n \<longleftrightarrow> P \<and> bit (a :: u8) n"
  by simp

lemma xor_left_self [simp]: "a XOR (a XOR b) = b" for a :: "'a::len word"
  by (simp flip: xor.assoc)

lemmas xor_ac = xor.assoc xor.commute xor.left_commute

lemma xtime_xor: "xtime (a XOR b) = xtime a XOR xtime b"
  by (rule bit_word_eqI) (auto simp: xtime_def bit_simps)

lemma xtime_zero [simp]: "xtime 0 = 0"
  by (simp add: xtime_def)

lemma mul_bits_xor: "mul_bits n (a XOR a') b = mul_bits n a b XOR mul_bits n a' b"
  by (induction n arbitrary: a a' b) (auto simp: xtime_xor xor_ac)

lemma mul_bits_xor2: "mul_bits n a (b XOR b') = mul_bits n a b XOR mul_bits n a b'"
  by (induction n arbitrary: a b b') (auto simp: bit_simps drop_bit_xor xor_ac simp flip: bit_0)

lemma mul_bits_zero [simp]: "mul_bits n 0 b = 0"
  by (induction n arbitrary: b) auto

lemma mul_bits_zero2 [simp]: "mul_bits n a 0 = 0"
  by (induction n arbitrary: a) auto

lemma mul_bits_xtime: "mul_bits n (xtime a) b = xtime (mul_bits n a b)"
  by (induction n arbitrary: a b) (auto simp: xtime_xor)

lemma mul_bits_commute: "mul_bits n (mul_bits m a b) c = mul_bits m (mul_bits n a c) b"
  by (induction n arbitrary: a c)
    (auto simp: mul_bits_xor simp flip: mul_bits_xtime)

lemma xtime_push: "\<not> bit a 7 \<Longrightarrow> xtime a = push_bit 1 a"
  by (simp add: xtime_def)

lemma mul8_unfold:
  "mul8 a b = (if bit b 0 then a else 0) XOR ((if bit b 1 then xtime a else 0) XOR ((if bit b 2 then xtime (xtime a) else 0) XOR
    ((if bit b 3 then xtime (xtime (xtime a)) else 0) XOR ((if bit b 4 then xtime (xtime (xtime (xtime a))) else 0) XOR
    ((if bit b 5 then xtime (xtime (xtime (xtime (xtime a)))) else 0) XOR
    ((if bit b 6 then xtime (xtime (xtime (xtime (xtime (xtime a))))) else 0) XOR
    (if bit b 7 then xtime (xtime (xtime (xtime (xtime (xtime (xtime a)))))) else 0)))))))"
proof -
  have n: "8 = Suc (Suc (Suc (Suc (Suc (Suc (Suc (Suc 0)))))))" "1 + (1::nat) = 2" "1 + (2::nat) = 3" "1 + (3::nat) = 4"
    "1 + (4::nat) = 5" "1 + (5::nat) = 6" "1 + (6::nat) = 7" by simp_all
  show ?thesis
    unfolding mul8_def n(1)
    by (simp only: mul_bits.simps drop_bit_drop_bit bit_drop_bit_eq comp_apply n add_0_right xor.right_neutral)
qed

text \<open>Multiplying one by \<open>a\<close> gives \<open>a\<close>.\<close>

lemma one_mul8: "mul8 1 a = a"
proof (rule bit_word_eqI)
  have xs: "xtime 1 = 2" "xtime 2 = 4" "xtime 4 = 8" "xtime 8 = 16" "xtime 16 = 32" "xtime 32 = 64" "xtime 64 = 128"
    by code_simp+
  fix n :: nat
  assume "n < LENGTH(8)"
  then have "n \<in> {0,1,2,3,4,5,6,7}" by auto
  then show "bit (mul8 1 a) n = bit a n"
    unfolding mul8_unfold xs bit_xor_iff bit_if by (elim insertE emptyE; simp)
qed

lemma mul8_commute: "mul8 a b = mul8 b a"
proof -
  have "mul8 a b = mul8 (mul8 1 a) b" by (simp add: one_mul8)
  also have "\<dots> = mul8 (mul8 1 b) a" unfolding mul8_def by (rule mul_bits_commute)
  finally show ?thesis by (simp add: one_mul8)
qed

lemma mul8_assoc: "mul8 (mul8 a b) c = mul8 a (mul8 b c)"
proof -
  have "mul8 (mul8 a b) c = mul8 (mul8 b a) c" by (simp add: mul8_commute)
  also have "\<dots> = mul8 (mul8 b c) a" unfolding mul8_def by (rule mul_bits_commute)
  finally show ?thesis by (simp add: mul8_commute)
qed

lemma mul8_xor: "mul8 (a XOR a') b = mul8 a b XOR mul8 a' b"
  by (simp add: mul8_def mul_bits_xor)

lemma mul8_two: "mul8 2 a = xtime a"
proof -
  have "xtime 1 = 2" by code_simp
  then show ?thesis using one_mul8 [of a] by (metis mul8_def mul_bits_xtime)
qed

section \<open>The ring\<close>

typedef gf256 = "UNIV :: u8 set"
  morphisms byte Gf by auto

setup_lifting type_definition_gf256

instantiation gf256 :: comm_ring_1
begin

lift_definition zero_gf256 :: gf256 is 0 .

lift_definition one_gf256 :: gf256 is 1 .

lift_definition plus_gf256 :: "gf256 \<Rightarrow> gf256 \<Rightarrow> gf256" is "(XOR)" .

lift_definition minus_gf256 :: "gf256 \<Rightarrow> gf256 \<Rightarrow> gf256" is "(XOR)" .

lift_definition uminus_gf256 :: "gf256 \<Rightarrow> gf256" is "\<lambda>a. a" .

lift_definition times_gf256 :: "gf256 \<Rightarrow> gf256 \<Rightarrow> gf256" is mul8 .

instance
proof
  fix a b c :: gf256
  show "a + b + c = a + (b + c)" by transfer (rule xor.assoc)
  show "a + b = b + a" by transfer (rule xor.commute)
  show "0 + a = a" by transfer simp
  show "- a + a = 0" by transfer simp
  show "a - b = a + - b" by transfer simp
  show "a * b * c = a * (b * c)" by transfer (rule mul8_assoc)
  show "a * b = b * a" by transfer (rule mul8_commute)
  show "1 * a = a" by transfer (rule one_mul8)
  show "(a + b) * c = a * c + b * c" by transfer (rule mul8_xor)
  show "(0::gf256) \<noteq> 1" by transfer simp
qed

end

lemma gf_add_self [simp, gf_simps]: "a + a = 0" for a :: gf256
  by transfer simp

lemma gf_minus [gf_simps]: "a - b = a + b" "- a = a" for a :: gf256
  by (transfer; simp)+

section \<open>The powers of two\<close>

definition gen :: gf256 where
  "gen = Gf 2"

lemma gen_power: "byte (gen ^ n) = (xtime ^^ n) 1"
  by (induction n) (simp_all add: one_gf256.rep_eq times_gf256.rep_eq gen_def Gf_inverse mul8_two)

primrec orbit :: "nat \<Rightarrow> u8 \<Rightarrow> u8 list" where
  "orbit 0 a = []"
| "orbit (Suc n) a = a # orbit n (xtime a)"

lemma orbit_nth: "i < n \<Longrightarrow> orbit n a ! i = (xtime ^^ i) a"
  by (induction n arbitrary: a i) (auto simp: nth_Cons funpow_swap1 split: nat.split)

lemma orbit_length [simp]: "length (orbit n a) = n"
  by (induction n arbitrary: a) auto

lemma orbit_check: "list_all (\<lambda>a. a \<noteq> 1) (orbit 254 2)" "xtime (orbit 254 2 ! 253) = 1"
  by code_simp+

lemma xtime_pow_Suc: "(xtime ^^ Suc n) 1 = (xtime ^^ n) 2"
proof -
  have "xtime 1 = 2" by code_simp
  then show ?thesis by (simp add: funpow_swap1)
qed

lemma gen_order: "gen ^ 255 = 1"
proof -
  have "(xtime ^^ 255) 1 = xtime ((xtime ^^ 253) 2)" using xtime_pow_Suc [of 254] by (simp add: numeral_eq_Suc)
  also have "\<dots> = 1" using orbit_check(2) orbit_nth [of 253 254 2] by simp
  finally show ?thesis using gen_power [of 255] by (metis byte_inject one_gf256.rep_eq)
qed

lemma gen_order_least: "0 < d \<Longrightarrow> d < 255 \<Longrightarrow> gen ^ d \<noteq> 1"
proof -
  assume d: "0 < d" "d < 255"
  then have "(xtime ^^ (d - 1)) 2 \<in> set (orbit 254 2)" using orbit_nth [of "d - 1" 254 2] nth_mem [of "d - 1" "orbit 254 2"] by simp
  then have "(xtime ^^ d) 1 \<noteq> 1" using orbit_check(1) xtime_pow_Suc [of "d - 1"] d(1) by (auto simp: list_all_iff)
  then show ?thesis using gen_power [of d] by (auto simp: one_gf256.rep_eq)
qed

lemma gen_power_inj: "i \<le> j \<Longrightarrow> j < i + 255 \<Longrightarrow> gen ^ i = gen ^ j \<Longrightarrow> i = j"
proof (rule ccontr)
  assume ij: "i \<le> j" "j < i + 255" "gen ^ i = gen ^ j" "i \<noteq> j"
  have "gen ^ i * gen ^ (254 * i) = gen ^ (255 * i)" by (simp flip: power_add)
  also have "\<dots> = 1" by (simp add: power_mult gen_order)
  finally have one: "gen ^ i * gen ^ (254 * i) = 1" .
  have "gen ^ (j - i) = gen ^ (j - i) * (gen ^ i * gen ^ (254 * i))" unfolding one by simp
  also have "\<dots> = gen ^ j * gen ^ (254 * i)" using ij(1) by (simp add: mult.assoc [symmetric] add.commute flip: power_add)
  also have "\<dots> = 1" using one ij(3) by simp
  finally show False using gen_order_least [of "j - i"] ij by simp
qed

lemma gen_power_mod: "gen ^ (n mod 255) = gen ^ n"
proof -
  have "gen ^ n = gen ^ (255 * (n div 255) + n mod 255)" by simp
  also have "\<dots> = gen ^ (n mod 255)" by (simp only: power_add power_mult gen_order power_one mult_1_left)
  finally show ?thesis ..
qed

lemma byte_bij: "bij (byte :: gf256 \<Rightarrow> u8)"
  by (metis (full_types) bijI' byte_inject Gf_inverse UNIV_I)

lemma finite_gf256: "finite (UNIV :: gf256 set)"
  using bij_betw_finite [OF byte_bij] by simp

lemma card_gf256: "card (UNIV :: gf256 set) = 256"
proof -
  have "card (UNIV :: gf256 set) = card (UNIV :: u8 set)" by (rule bij_betw_same_card [OF byte_bij])
  then show ?thesis by (simp add: card_word)
qed

lemma gen_power_nonzero: "gen ^ n \<noteq> 0"
proof
  assume "gen ^ n = 0"
  then have "gen ^ (255 * n) = 0" by (simp add: mult.commute [of 255] power_mult)
  then show False by (simp add: power_mult gen_order)
qed

lemma nonzero_is_power:
  assumes "a \<noteq> 0"
  obtains i where "1 \<le> i" "i \<le> 255" "a = gen ^ i"
proof -
  have inj: "inj_on (\<lambda>i. gen ^ i) {1..255}"
  proof (rule inj_onI)
    fix i j :: nat
    assume "i \<in> {1..255}" "j \<in> {1..255}" "gen ^ i = gen ^ j"
    then show "i = j" using gen_power_inj [of i j] gen_power_inj [of j i] by (cases i j rule: le_cases) auto
  qed
  have "card ((\<lambda>i. gen ^ i) ` {1..255}) = card (UNIV - {0 :: gf256})"
    using card_image [OF inj] by (simp add: card_Diff_singleton card_gf256)
  moreover have "(\<lambda>i. gen ^ i) ` {1..255} \<subseteq> UNIV - {0}" using gen_power_nonzero by auto
  ultimately have "(\<lambda>i. gen ^ i) ` {1..255} = UNIV - {0}" using finite_gf256 by (metis card_subset_eq finite_Diff)
  then have "a \<in> (\<lambda>i. gen ^ i) ` {1..255}" using assms by simp
  then show ?thesis using that by auto
qed

section \<open>The field\<close>

instantiation gf256 :: field
begin

definition inverse_gf256 :: "gf256 \<Rightarrow> gf256" where
  "inverse_gf256 a = a ^ 254"

definition divide_gf256 :: "gf256 \<Rightarrow> gf256 \<Rightarrow> gf256" where
  "divide_gf256 a b = a * inverse b"

instance
proof
  fix a b :: gf256
  show "inverse (0::gf256) = 0" by (simp add: inverse_gf256_def)
  show "a div b = a * inverse b" by (rule divide_gf256_def)
  assume "a \<noteq> 0"
  then obtain i where "a = gen ^ i" by (rule nonzero_is_power)
  then have "inverse a * a = gen ^ (255 * i)" by (simp add: inverse_gf256_def mult.commute flip: power_mult power_add power_Suc)
  then show "inverse a * a = 1" by (simp add: power_mult gen_order)
qed

end

end
