(* ===== verification/Ec_Types.thy ===== *)
theory Ec_Types
  imports Gf256
begin

text \<open>
  Data of the erasure code, \<open>xlators/cluster/ec/src/ec-types.h\<close>: the operations that multiply by
  a constant, the field with its tables, and the buffers.

  A chunk is the unit the code works on, \<open>EC_METHOD_CHUNK_SIZE\<close> = 512 bytes.  It holds 512 field
  elements in eight bit planes of 64 bytes, so that one exclusive or of two words adds one bit of
  64 elements.  The model reads a chunk as the 64 words of 64 bits the C routines see: plane
  \<open>k\<close> is the words \<open>8 * k\<close> to \<open>8 * k + 7\<close>.
\<close>

section \<open>Operations and tables\<close>

datatype ec_gf_opcode = EC_GF_OP_LOAD | EC_GF_OP_STORE | EC_GF_OP_COPY | EC_GF_OP_XOR2 | EC_GF_OP_XOR3 | EC_GF_OP_XORM
  | EC_GF_OP_END

datatype ec_gf_op = Op (op: ec_gf_opcode) (arg1: nat) (arg2: nat) (arg3: nat)

datatype ec_gf_mul_t = Mul (regs: nat) (reg_map: "nat list") (ops: "ec_gf_op list")

record ec_gf =
  gf_bits :: u32
  gf_size :: u32
  gf_mod :: u32
  min_ops :: u32
  max_ops :: u32
  avg_ops :: u32
  gf_log :: "u32 list"
  gf_pow :: "u32 list"
  gf_table :: "ec_gf_mul_t list"

section \<open>Chunks\<close>

type_synonym chunk = "u64 list"

abbreviation (input) EC_METHOD_WORD_SIZE :: nat where "EC_METHOD_WORD_SIZE \<equiv> 64"

abbreviation (input) EC_METHOD_CHUNK_SIZE :: nat where "EC_METHOD_CHUNK_SIZE \<equiv> 512"

abbreviation (input) WIDTH :: nat where "WIDTH \<equiv> 8"

text \<open>The words of the eight planes at place \<open>i\<close>, the byte their bits at place \<open>b\<close> make up, and
  the field element at place \<open>j\<close> of a chunk: its bit \<open>k\<close> is in plane \<open>k\<close>.\<close>

definition column :: "chunk \<Rightarrow> nat \<Rightarrow> u64 list" where
  "column c i = map (\<lambda>k. c ! (i + WIDTH * k)) [0..<8]"

definition plane_byte :: "u64 list \<Rightarrow> nat \<Rightarrow> u8" where
  "plane_byte xs b = horner_sum of_bool 2 (map (\<lambda>x. bit x b) xs)"

definition element :: "chunk \<Rightarrow> nat \<Rightarrow> gf256" where
  "element c j = Gf (plane_byte (column c (j div 64)) (j mod 64))"

definition is_chunk :: "chunk \<Rightarrow> bool" where
  "is_chunk c \<longleftrightarrow> length c = 64"

lemma length_column [simp]: "length (column c i) = 8"
  by (simp add: column_def)

lemma bit_plane_byte: "k < 8 \<Longrightarrow> length xs = 8 \<Longrightarrow> bit (plane_byte xs b) k \<longleftrightarrow> bit (xs ! k) b"
  by (simp add: plane_byte_def bit_horner_sum_bit_word_iff)

text \<open>A chunk is given by its elements.\<close>

lemma chunk_eqI:
  assumes "is_chunk c" "is_chunk d" "\<And>j. j < 512 \<Longrightarrow> element c j = element d j"
  shows "c = d"
proof (rule nth_equalityI)
  show "length c = length d" using assms(1,2) by (simp add: is_chunk_def)
next
  fix n
  assume n: "n < length c"
  then have n64: "n < 64" using assms(1) by (simp add: is_chunk_def)
  show "c ! n = d ! n"
  proof (rule bit_word_eqI)
    fix b :: nat
    assume "b < LENGTH(64)"
    then have b: "b < 64" by simp
    let ?j = "(n mod 8) * 64 + b"
    have j: "?j < 512" "?j div 64 = n mod 8" "?j mod 64 = b" using b n64 by auto
    have "plane_byte (column c (n mod 8)) b = plane_byte (column d (n mod 8)) b"
      using assms(3) [OF j(1)] unfolding element_def j by (simp add: Gf_inject)
    then have "bit (column c (n mod 8) ! (n div 8)) b = bit (column d (n mod 8) ! (n div 8)) b"
      using bit_plane_byte [of "n div 8" "column c (n mod 8)" b] bit_plane_byte [of "n div 8" "column d (n mod 8)" b] n64
      by simp
    moreover have "n div 8 < 8" using n64 by linarith
    ultimately show "bit (c ! n) b = bit (d ! n) b" by (simp add: column_def mod_mult_div_eq)
  qed
qed

end
