(* ===== verification/Ec_Gf8.thy ===== *)
theory Ec_Gf8
  imports Ec_Types
begin

text \<open>
  The tables of \<open>xlators/cluster/ec/src/ec-gf8.c\<close>: for each byte the operations on registers that
  multiply the eight bit planes by it, and the renaming of the registers that goes with them.  The
  tables stand in the order and in the form of the source, \<open>map\<close> as far as the source writes it
  out, a few tables to a definition.
\<close>

definition ec_gf8_mul_00_07 :: "ec_gf_mul_t list" where
  "ec_gf8_mul_00_07 = [
    Mul 0 [0]
      [Op EC_GF_OP_END 0 0 0],
    Mul 8 [0, 1, 2, 3, 4, 5, 6, 7]
      [Op EC_GF_OP_END 0 0 0],
    Mul 8 [7, 0, 1, 2, 3, 4, 5, 6]
      [Op EC_GF_OP_XOR2 1 7 0, Op EC_GF_OP_XOR2 2 7 0, Op EC_GF_OP_XOR2 3 7 0, Op EC_GF_OP_END 0 0 0],
    Mul 9 [0, 1, 2, 3, 4, 5, 6, 7, 8]
      [Op EC_GF_OP_XOR2 3 7 0, Op EC_GF_OP_COPY 8 3 0, Op EC_GF_OP_XOR2 3 2 0, Op EC_GF_OP_XOR2 2 1 0,
       Op EC_GF_OP_XOR2 1 0 0, Op EC_GF_OP_XOR2 2 7 0, Op EC_GF_OP_XOR2 0 7 0, Op EC_GF_OP_XOR2 7 6 0,
       Op EC_GF_OP_XOR2 6 5 0, Op EC_GF_OP_XOR2 5 4 0, Op EC_GF_OP_XOR2 4 8 0, Op EC_GF_OP_END 0 0 0],
    Mul 9 [6, 7, 0, 1, 2, 3, 4, 5, 8]
      [Op EC_GF_OP_XOR3 8 6 7, Op EC_GF_OP_XOR2 2 8 0, Op EC_GF_OP_XOR2 3 7 0, Op EC_GF_OP_XOR2 1 8 0,
       Op EC_GF_OP_XOR2 0 6 0, Op EC_GF_OP_END 0 0 0],
    Mul 8 [0, 1, 2, 6, 7, 3, 4, 5]
      [Op EC_GF_OP_XOR2 4 6 0, Op EC_GF_OP_XOR2 1 7 0, Op EC_GF_OP_XOR2 5 7 0, Op EC_GF_OP_XOR2 0 6 0,
       Op EC_GF_OP_XOR2 7 4 0, Op EC_GF_OP_XOR2 6 3 0, Op EC_GF_OP_XOR2 7 2 0, Op EC_GF_OP_XOR2 6 1 0,
       Op EC_GF_OP_XOR2 3 5 0, Op EC_GF_OP_XOR2 2 0 0, Op EC_GF_OP_END 0 0 0],
    Mul 9 [7, 0, 1, 2, 8, 3, 4, 5, 6]
      [Op EC_GF_OP_XOR2 2 6 0, Op EC_GF_OP_COPY 8 2 0, Op EC_GF_OP_XOR2 8 3 0, Op EC_GF_OP_XOR2 2 1 0,
       Op EC_GF_OP_XOR2 3 4 0, Op EC_GF_OP_XOR2 1 0 0, Op EC_GF_OP_XOR2 3 7 0, Op EC_GF_OP_XOR2 0 7 0,
       Op EC_GF_OP_XOR2 7 6 0, Op EC_GF_OP_XOR2 4 5 0, Op EC_GF_OP_XOR2 1 7 0, Op EC_GF_OP_XOR2 5 6 0,
       Op EC_GF_OP_END 0 0 0],
    Mul 8 [6, 0, 1, 3, 2, 4, 5, 7]
      [Op EC_GF_OP_XOR2 5 6 0, Op EC_GF_OP_XOR2 0 7 0, Op EC_GF_OP_XOR2 3 6 0, Op EC_GF_OP_XOR2 7 5 0,
       Op EC_GF_OP_XOR2 6 0 0, Op EC_GF_OP_XOR2 0 1 0, Op EC_GF_OP_XOR2 5 4 0, Op EC_GF_OP_XOR2 4 3 0,
       Op EC_GF_OP_XOR2 1 2 0, Op EC_GF_OP_XOR2 2 4 0, Op EC_GF_OP_XOR2 3 1 0, Op EC_GF_OP_XOR2 4 7 0,
       Op EC_GF_OP_XOR2 1 6 0, Op EC_GF_OP_END 0 0 0]]"

definition ec_gf8_mul_08_0D :: "ec_gf_mul_t list" where
  "ec_gf8_mul_08_0D = [
    Mul 9 [5, 6, 7, 0, 1, 2, 3, 4, 8]
      [Op EC_GF_OP_XOR2 0 5 0, Op EC_GF_OP_XOR2 1 5 0, Op EC_GF_OP_XOR2 0 6 0, Op EC_GF_OP_XOR3 8 6 7,
       Op EC_GF_OP_XOR2 1 8 0, Op EC_GF_OP_XOR2 3 7 0, Op EC_GF_OP_XOR2 7 5 0, Op EC_GF_OP_XOR2 2 8 0,
       Op EC_GF_OP_END 0 0 0],
    Mul 8 [0, 1, 2, 3, 5, 6, 7, 4]
      [Op EC_GF_OP_XOR2 2 4 0, Op EC_GF_OP_XOR2 4 7 0, Op EC_GF_OP_XOR2 0 5 0, Op EC_GF_OP_XOR2 5 4 0,
       Op EC_GF_OP_XOR2 3 6 0, Op EC_GF_OP_XOR2 2 5 0, Op EC_GF_OP_XOR2 1 6 0, Op EC_GF_OP_XOR2 7 3 0,
       Op EC_GF_OP_XOR2 6 2 0, Op EC_GF_OP_XOR2 5 1 0, Op EC_GF_OP_XOR2 3 0 0, Op EC_GF_OP_END 0 0 0],
    Mul 8 [5, 0, 1, 2, 6, 7, 3, 4]
      [Op EC_GF_OP_XOR2 1 5 0, Op EC_GF_OP_XOR2 4 6 0, Op EC_GF_OP_XOR2 5 7 0, Op EC_GF_OP_XOR2 7 4 0,
       Op EC_GF_OP_XOR2 0 6 0, Op EC_GF_OP_XOR2 7 2 0, Op EC_GF_OP_XOR2 6 1 0, Op EC_GF_OP_XOR2 2 0 0,
       Op EC_GF_OP_XOR2 6 3 0, Op EC_GF_OP_XOR2 2 5 0, Op EC_GF_OP_XOR2 3 5 0, Op EC_GF_OP_END 0 0 0],
    Mul 10 [7, 1, 5, 2, 4, 3, 0, 6, 8, 9]
      [Op EC_GF_OP_XOR2 4 7 0, Op EC_GF_OP_XOR2 7 0 0, Op EC_GF_OP_XOR2 7 5 0, Op EC_GF_OP_XOR2 3 7 0,
       Op EC_GF_OP_COPY 9 3 0, Op EC_GF_OP_XOR2 5 2 0, Op EC_GF_OP_XOR2 3 6 0, Op EC_GF_OP_COPY 8 5 0,
       Op EC_GF_OP_XOR2 0 3 0, Op EC_GF_OP_XOR2 5 1 0, Op EC_GF_OP_XOR2 6 4 0, Op EC_GF_OP_XOR2 1 0 0,
       Op EC_GF_OP_XOR2 2 3 0, Op EC_GF_OP_XOR2 4 1 0, Op EC_GF_OP_XOR3 3 8 6, Op EC_GF_OP_XOR2 1 9 0,
       Op EC_GF_OP_END 0 0 0],
    Mul 9 [5, 7, 0, 1, 8, 2, 3, 4, 6]
      [Op EC_GF_OP_XOR2 1 5 0, Op EC_GF_OP_COPY 8 1 0, Op EC_GF_OP_XOR2 8 2 0, Op EC_GF_OP_XOR2 2 3 0,
       Op EC_GF_OP_XOR2 3 4 0, Op EC_GF_OP_XOR2 0 7 0, Op EC_GF_OP_XOR2 4 5 0, Op EC_GF_OP_XOR2 3 7 0,
       Op EC_GF_OP_XOR2 5 6 0, Op EC_GF_OP_XOR2 1 0 0, Op EC_GF_OP_XOR2 2 6 0, Op EC_GF_OP_XOR2 7 6 0,
       Op EC_GF_OP_XOR2 0 5 0, Op EC_GF_OP_END 0 0 0],
    Mul 9 [5, 6, 7, 3, 1, 0, 2, 4, 8]
      [Op EC_GF_OP_XOR2 5 7 0, Op EC_GF_OP_XOR2 4 5 0, Op EC_GF_OP_XOR2 5 0 0, Op EC_GF_OP_XOR2 5 1 0,
       Op EC_GF_OP_XOR2 1 7 0, Op EC_GF_OP_XOR2 0 3 0, Op EC_GF_OP_XOR2 6 1 0, Op EC_GF_OP_XOR2 3 5 0,
       Op EC_GF_OP_XOR3 8 2 4, Op EC_GF_OP_XOR2 5 6 0, Op EC_GF_OP_XOR2 2 5 0, Op EC_GF_OP_XOR2 1 8 0,
       Op EC_GF_OP_XOR2 0 2 0, Op EC_GF_OP_XOR2 7 2 0, Op EC_GF_OP_XOR3 2 8 0, Op EC_GF_OP_END 0 0 0]]"

definition ec_gf8_mul_0E_13 :: "ec_gf_mul_t list" where
  "ec_gf8_mul_0E_13 = [
    Mul 8 [7, 0, 6, 1, 3, 2, 4, 5]
      [Op EC_GF_OP_XOR2 0 5 0, Op EC_GF_OP_XOR2 5 6 0, Op EC_GF_OP_XOR2 1 0 0, Op EC_GF_OP_XOR2 7 5 0,
       Op EC_GF_OP_XOR2 3 6 0, Op EC_GF_OP_XOR2 0 7 0, Op EC_GF_OP_XOR2 5 4 0, Op EC_GF_OP_XOR2 6 1 0,
       Op EC_GF_OP_XOR2 4 3 0, Op EC_GF_OP_XOR2 1 2 0, Op EC_GF_OP_XOR2 3 0 0, Op EC_GF_OP_XOR2 2 4 0,
       Op EC_GF_OP_XOR2 3 1 0, Op EC_GF_OP_XOR2 4 7 0, Op EC_GF_OP_END 0 0 0],
    Mul 8 [1, 0, 5, 6, 7, 2, 3, 4]
      [Op EC_GF_OP_XOR2 2 7 0, Op EC_GF_OP_XOR2 7 1 0, Op EC_GF_OP_XOR2 7 6 0, Op EC_GF_OP_XOR2 4 0 0,
       Op EC_GF_OP_XOR2 0 7 0, Op EC_GF_OP_XOR2 5 0 0, Op EC_GF_OP_XOR2 6 3 0, Op EC_GF_OP_XOR2 1 5 0,
       Op EC_GF_OP_XOR2 5 2 0, Op EC_GF_OP_XOR2 4 1 0, Op EC_GF_OP_XOR2 3 4 0, Op EC_GF_OP_XOR2 6 5 0,
       Op EC_GF_OP_XOR2 2 3 0, Op EC_GF_OP_XOR2 7 2 0, Op EC_GF_OP_END 0 0 0],
    Mul 8 [4, 5, 6, 7, 0, 1, 2, 3]
      [Op EC_GF_OP_XOR2 3 7 0, Op EC_GF_OP_XOR2 7 6 0, Op EC_GF_OP_XOR2 2 7 0, Op EC_GF_OP_XOR2 7 5 0,
       Op EC_GF_OP_XOR2 6 4 0, Op EC_GF_OP_XOR2 0 5 0, Op EC_GF_OP_XOR2 1 7 0, Op EC_GF_OP_XOR2 0 6 0,
       Op EC_GF_OP_XOR2 7 6 0, Op EC_GF_OP_END 0 0 0],
    Mul 8 [4, 1, 2, 6, 0, 5, 7, 3]
      [Op EC_GF_OP_XOR2 1 5 0, Op EC_GF_OP_XOR2 5 6 0, Op EC_GF_OP_XOR2 6 4 0, Op EC_GF_OP_XOR2 4 0 0,
       Op EC_GF_OP_XOR2 0 5 0, Op EC_GF_OP_XOR2 5 7 0, Op EC_GF_OP_XOR2 7 2 0, Op EC_GF_OP_XOR2 2 6 0,
       Op EC_GF_OP_XOR2 6 3 0, Op EC_GF_OP_XOR2 6 5 0, Op EC_GF_OP_XOR2 5 1 0, Op EC_GF_OP_END 0 0 0],
    Mul 8 [7, 0, 1, 2, 3, 5, 6, 4]
      [Op EC_GF_OP_XOR2 7 4 0, Op EC_GF_OP_XOR2 6 7 0, Op EC_GF_OP_XOR2 2 4 0, Op EC_GF_OP_XOR2 3 6 0,
       Op EC_GF_OP_XOR2 4 3 0, Op EC_GF_OP_XOR2 1 6 0, Op EC_GF_OP_XOR2 2 5 0, Op EC_GF_OP_XOR2 0 5 0,
       Op EC_GF_OP_XOR2 6 2 0, Op EC_GF_OP_XOR2 5 1 0, Op EC_GF_OP_XOR2 3 0 0, Op EC_GF_OP_END 0 0 0],
    Mul 9 [4, 5, 2, 6, 0, 1, 7, 3, 8]
      [Op EC_GF_OP_XOR2 4 7 0, Op EC_GF_OP_XOR2 7 5 0, Op EC_GF_OP_XOR2 3 6 0, Op EC_GF_OP_XOR2 5 1 0,
       Op EC_GF_OP_XOR2 6 4 0, Op EC_GF_OP_XOR2 7 2 0, Op EC_GF_OP_XOR2 4 0 0, Op EC_GF_OP_XOR2 5 0 0,
       Op EC_GF_OP_XOR2 1 6 0, Op EC_GF_OP_XOR3 8 3 7, Op EC_GF_OP_XOR2 0 2 0, Op EC_GF_OP_XOR2 6 8 0,
       Op EC_GF_OP_XOR2 2 1 0, Op EC_GF_OP_XOR2 0 8 0, Op EC_GF_OP_END 0 0 0]]"

definition ec_gf8_mul_14_19 :: "ec_gf_mul_t list" where
  "ec_gf8_mul_14_19 = [
    Mul 8 [6, 7, 0, 1, 2, 4, 5, 3]
      [Op EC_GF_OP_XOR2 6 4 0, Op EC_GF_OP_XOR2 7 5 0, Op EC_GF_OP_XOR2 5 6 0, Op EC_GF_OP_XOR2 2 7 0,
       Op EC_GF_OP_XOR2 0 4 0, Op EC_GF_OP_XOR2 1 5 0, Op EC_GF_OP_XOR2 5 2 0, Op EC_GF_OP_XOR2 4 3 0,
       Op EC_GF_OP_XOR2 2 0 0, Op EC_GF_OP_XOR2 3 7 0, Op EC_GF_OP_XOR2 4 1 0, Op EC_GF_OP_END 0 0 0],
    Mul 9 [0, 1, 2, 4, 7, 6, 5, 3, 8]
      [Op EC_GF_OP_COPY 8 0 0, Op EC_GF_OP_XOR2 0 4 0, Op EC_GF_OP_XOR2 2 0 0, Op EC_GF_OP_XOR2 0 6 0,
       Op EC_GF_OP_XOR2 6 1 0, Op EC_GF_OP_XOR2 1 5 0, Op EC_GF_OP_XOR2 4 5 0, Op EC_GF_OP_XOR2 1 7 0,
       Op EC_GF_OP_XOR2 6 3 0, Op EC_GF_OP_XOR2 7 2 0, Op EC_GF_OP_XOR2 3 5 0, Op EC_GF_OP_XOR3 5 8 7,
       Op EC_GF_OP_XOR2 7 4 0, Op EC_GF_OP_XOR2 4 6 0, Op EC_GF_OP_END 0 0 0],
    Mul 8 [6, 7, 4, 1, 2, 3, 5, 0]
      [Op EC_GF_OP_XOR2 4 7 0, Op EC_GF_OP_XOR2 3 6 0, Op EC_GF_OP_XOR2 7 5 0, Op EC_GF_OP_XOR2 6 4 0,
       Op EC_GF_OP_XOR2 7 0 0, Op EC_GF_OP_XOR2 2 6 0, Op EC_GF_OP_XOR2 3 7 0, Op EC_GF_OP_XOR2 4 1 0,
       Op EC_GF_OP_XOR2 5 2 0, Op EC_GF_OP_XOR2 4 0 0, Op EC_GF_OP_XOR2 2 3 0, Op EC_GF_OP_XOR2 0 3 0,
       Op EC_GF_OP_XOR2 1 5 0, Op EC_GF_OP_XOR2 3 4 0, Op EC_GF_OP_END 0 0 0],
    Mul 8 [5, 7, 0, 1, 3, 2, 4, 6]
      [Op EC_GF_OP_XOR2 3 5 0, Op EC_GF_OP_XOR2 6 3 0, Op EC_GF_OP_XOR2 3 0 0, Op EC_GF_OP_XOR2 7 5 0,
       Op EC_GF_OP_XOR2 3 2 0, Op EC_GF_OP_XOR2 2 7 0, Op EC_GF_OP_XOR2 4 2 0, Op EC_GF_OP_XOR2 0 1 0,
       Op EC_GF_OP_XOR2 5 4 0, Op EC_GF_OP_XOR2 7 0 0, Op EC_GF_OP_XOR2 0 5 0, Op EC_GF_OP_XOR2 5 6 0,
       Op EC_GF_OP_XOR2 1 5 0, Op EC_GF_OP_XOR2 5 3 0, Op EC_GF_OP_XOR2 2 1 0, Op EC_GF_OP_END 0 0 0],
    Mul 9 [4, 5, 7, 6, 0, 1, 2, 3, 8]
      [Op EC_GF_OP_XOR2 7 4 0, Op EC_GF_OP_XOR2 0 7 0, Op EC_GF_OP_COPY 8 0 0, Op EC_GF_OP_XOR2 0 1 0,
       Op EC_GF_OP_XOR2 1 2 0, Op EC_GF_OP_XOR2 4 5 0, Op EC_GF_OP_XOR2 2 3 0, Op EC_GF_OP_XOR2 1 5 0,
       Op EC_GF_OP_XOR2 3 7 0, Op EC_GF_OP_XOR2 5 6 0, Op EC_GF_OP_XOR2 2 6 0, Op EC_GF_OP_XOR2 7 5 0,
       Op EC_GF_OP_XOR2 6 8 0, Op EC_GF_OP_END 0 0 0],
    Mul 8 [0, 5, 2, 6, 7, 1, 3, 4]
      [Op EC_GF_OP_XOR2 7 0 0, Op EC_GF_OP_XOR2 0 4 0, Op EC_GF_OP_XOR2 6 1 0, Op EC_GF_OP_XOR2 7 1 0,
       Op EC_GF_OP_XOR2 4 3 0, Op EC_GF_OP_XOR2 0 5 0, Op EC_GF_OP_XOR2 5 6 0, Op EC_GF_OP_XOR2 3 2 0,
       Op EC_GF_OP_XOR2 1 2 0, Op EC_GF_OP_XOR2 6 7 0, Op EC_GF_OP_XOR2 2 0 0, Op EC_GF_OP_XOR2 2 6 0,
       Op EC_GF_OP_XOR2 6 4 0, Op EC_GF_OP_END 0 0 0]]"

definition ec_gf8_mul_1A_1F :: "ec_gf_mul_t list" where
  "ec_gf8_mul_1A_1F = [
    Mul 8 [7, 0, 4, 5, 3, 1, 2, 6]
      [Op EC_GF_OP_XOR2 6 5 0, Op EC_GF_OP_XOR2 5 4 0, Op EC_GF_OP_XOR2 4 0 0, Op EC_GF_OP_XOR2 7 5 0,
       Op EC_GF_OP_XOR2 0 6 0, Op EC_GF_OP_XOR2 4 1 0, Op EC_GF_OP_XOR2 6 3 0, Op EC_GF_OP_XOR2 3 4 0,
       Op EC_GF_OP_XOR2 5 2 0, Op EC_GF_OP_XOR2 4 0 0, Op EC_GF_OP_XOR2 2 6 0, Op EC_GF_OP_XOR2 1 5 0,
       Op EC_GF_OP_XOR2 6 7 0, Op EC_GF_OP_XOR2 5 0 0, Op EC_GF_OP_END 0 0 0],
    Mul 8 [7, 4, 5, 6, 3, 1, 2, 0]
      [Op EC_GF_OP_XOR2 1 0 0, Op EC_GF_OP_XOR2 0 2 0, Op EC_GF_OP_XOR2 2 5 0, Op EC_GF_OP_XOR2 7 2 0,
       Op EC_GF_OP_XOR2 2 3 0, Op EC_GF_OP_XOR2 4 0 0, Op EC_GF_OP_XOR2 3 1 0, Op EC_GF_OP_XOR2 1 4 0,
       Op EC_GF_OP_XOR2 7 4 0, Op EC_GF_OP_XOR2 6 1 0, Op EC_GF_OP_XOR2 5 6 0, Op EC_GF_OP_XOR2 6 3 0,
       Op EC_GF_OP_XOR2 4 5 0, Op EC_GF_OP_XOR2 0 6 0, Op EC_GF_OP_END 0 0 0],
    Mul 8 [5, 4, 3, 0, 1, 7, 2, 6]
      [Op EC_GF_OP_XOR2 6 4 0, Op EC_GF_OP_XOR2 5 6 0, Op EC_GF_OP_XOR2 6 3 0, Op EC_GF_OP_XOR2 3 0 0,
       Op EC_GF_OP_XOR2 0 1 0, Op EC_GF_OP_XOR2 2 6 0, Op EC_GF_OP_XOR2 0 4 0, Op EC_GF_OP_XOR2 7 5 0,
       Op EC_GF_OP_XOR2 1 2 0, Op EC_GF_OP_XOR2 4 7 0, Op EC_GF_OP_XOR2 7 1 0, Op EC_GF_OP_XOR2 6 4 0,
       Op EC_GF_OP_XOR2 1 3 0, Op EC_GF_OP_XOR2 3 6 0, Op EC_GF_OP_END 0 0 0],
    Mul 9 [0, 7, 5, 8, 2, 3, 4, 1, 6]
      [Op EC_GF_OP_XOR2 7 1 0, Op EC_GF_OP_XOR2 1 0 0, Op EC_GF_OP_XOR2 3 2 0, Op EC_GF_OP_XOR2 0 4 0,
       Op EC_GF_OP_XOR2 2 1 0, Op EC_GF_OP_XOR2 4 3 0, Op EC_GF_OP_XOR2 3 7 0, Op EC_GF_OP_XOR3 8 4 2,
       Op EC_GF_OP_XOR2 2 6 0, Op EC_GF_OP_XOR2 6 5 0, Op EC_GF_OP_XOR2 5 8 0, Op EC_GF_OP_XOR2 7 6 0,
       Op EC_GF_OP_XOR2 0 6 0, Op EC_GF_OP_XOR2 1 5 0, Op EC_GF_OP_XOR2 5 3 0, Op EC_GF_OP_END 0 0 0],
    Mul 8 [4, 7, 5, 1, 6, 0, 2, 3]
      [Op EC_GF_OP_XOR2 4 0 0, Op EC_GF_OP_XOR2 0 5 0, Op EC_GF_OP_XOR2 0 6 0, Op EC_GF_OP_XOR2 1 4 0,
       Op EC_GF_OP_XOR2 5 1 0, Op EC_GF_OP_XOR2 2 7 0, Op EC_GF_OP_XOR2 7 0 0, Op EC_GF_OP_XOR2 1 2 0,
       Op EC_GF_OP_XOR2 6 3 0, Op EC_GF_OP_XOR2 4 7 0, Op EC_GF_OP_XOR2 6 1 0, Op EC_GF_OP_XOR2 3 4 0,
       Op EC_GF_OP_XOR2 0 6 0, Op EC_GF_OP_XOR2 2 3 0, Op EC_GF_OP_END 0 0 0],
    Mul 9 [1, 4, 5, 6, 7, 0, 3, 2, 8]
      [Op EC_GF_OP_XOR2 5 2 0, Op EC_GF_OP_XOR2 5 4 0, Op EC_GF_OP_XOR2 3 5 0, Op EC_GF_OP_XOR2 5 0 0,
       Op EC_GF_OP_XOR2 5 1 0, Op EC_GF_OP_XOR2 6 3 0, Op EC_GF_OP_XOR2 7 5 0, Op EC_GF_OP_XOR2 2 6 0,
       Op EC_GF_OP_XOR2 7 2 0, Op EC_GF_OP_XOR3 8 3 7, Op EC_GF_OP_XOR2 4 8 0, Op EC_GF_OP_XOR2 1 8 0,
       Op EC_GF_OP_XOR2 6 4 0, Op EC_GF_OP_XOR2 0 6 0, Op EC_GF_OP_END 0 0 0]]"

definition ec_gf8_mul_20_25 :: "ec_gf_mul_t list" where
  "ec_gf8_mul_20_25 = [
    Mul 8 [7, 4, 5, 6, 3, 0, 1, 2]
      [Op EC_GF_OP_XOR2 6 7 0, Op EC_GF_OP_XOR2 1 5 0, Op EC_GF_OP_XOR2 7 3 0, Op EC_GF_OP_XOR2 1 6 0,
       Op EC_GF_OP_XOR2 3 4 0, Op EC_GF_OP_XOR2 2 6 0, Op EC_GF_OP_XOR2 6 3 0, Op EC_GF_OP_XOR2 3 5 0,
       Op EC_GF_OP_XOR2 5 7 0, Op EC_GF_OP_XOR2 0 5 0, Op EC_GF_OP_XOR2 0 6 0, Op EC_GF_OP_END 0 0 0],
    Mul 10 [0, 1, 2, 7, 5, 4, 3, 6, 8, 9]
      [Op EC_GF_OP_COPY 9 0 0, Op EC_GF_OP_XOR2 0 3 0, Op EC_GF_OP_XOR2 5 3 0, Op EC_GF_OP_XOR2 3 1 0,
       Op EC_GF_OP_XOR2 1 4 0, Op EC_GF_OP_XOR2 4 6 0, Op EC_GF_OP_XOR3 8 7 5, Op EC_GF_OP_XOR2 0 7 0,
       Op EC_GF_OP_XOR2 6 2 0, Op EC_GF_OP_XOR2 7 4 0, Op EC_GF_OP_XOR2 3 8 0, Op EC_GF_OP_XOR2 2 8 0,
       Op EC_GF_OP_XOR2 4 9 0, Op EC_GF_OP_END 0 0 0],
    Mul 8 [3, 0, 5, 2, 6, 4, 1, 7]
      [Op EC_GF_OP_XOR2 0 4 0, Op EC_GF_OP_XOR2 4 6 0, Op EC_GF_OP_XOR2 6 7 0, Op EC_GF_OP_XOR2 7 2 0,
       Op EC_GF_OP_XOR2 2 3 0, Op EC_GF_OP_XOR2 2 4 0, Op EC_GF_OP_XOR2 4 5 0, Op EC_GF_OP_XOR2 5 3 0,
       Op EC_GF_OP_XOR2 5 1 0, Op EC_GF_OP_XOR2 1 6 0, Op EC_GF_OP_XOR2 6 4 0, Op EC_GF_OP_XOR2 4 0 0,
       Op EC_GF_OP_END 0 0 0],
    Mul 9 [0, 4, 3, 2, 5, 6, 1, 8, 7]
      [Op EC_GF_OP_COPY 8 2 0, Op EC_GF_OP_XOR2 2 4 0, Op EC_GF_OP_XOR2 2 6 0, Op EC_GF_OP_XOR2 4 0 0,
       Op EC_GF_OP_XOR2 6 0 0, Op EC_GF_OP_XOR2 0 3 0, Op EC_GF_OP_XOR2 3 5 0, Op EC_GF_OP_XOR2 3 8 0,
       Op EC_GF_OP_XOR2 4 1 0, Op EC_GF_OP_XOR2 5 7 0, Op EC_GF_OP_XOR2 3 1 0, Op EC_GF_OP_XOR2 1 7 0,
       Op EC_GF_OP_END 0 0 0],
    Mul 8 [6, 7, 0, 1, 2, 4, 5, 3]
      [Op EC_GF_OP_XOR2 6 3 0, Op EC_GF_OP_XOR2 6 7 0, Op EC_GF_OP_XOR2 5 6 0, Op EC_GF_OP_XOR2 2 0 0,
       Op EC_GF_OP_XOR2 0 5 0, Op EC_GF_OP_XOR2 7 4 0, Op EC_GF_OP_XOR2 3 4 0, Op EC_GF_OP_XOR2 4 0 0,
       Op EC_GF_OP_XOR2 1 3 0, Op EC_GF_OP_XOR2 2 4 0, Op EC_GF_OP_XOR2 5 1 0, Op EC_GF_OP_XOR2 3 2 0,
       Op EC_GF_OP_END 0 0 0],
    Mul 8 [2, 7, 0, 1, 3, 4, 5, 6]
      [Op EC_GF_OP_XOR2 2 5 0, Op EC_GF_OP_XOR2 6 2 0, Op EC_GF_OP_XOR2 3 7 0, Op EC_GF_OP_XOR2 3 6 0,
       Op EC_GF_OP_XOR2 0 3 0, Op EC_GF_OP_XOR2 1 4 0, Op EC_GF_OP_XOR2 2 0 0, Op EC_GF_OP_XOR2 7 1 0,
       Op EC_GF_OP_XOR2 4 2 0, Op EC_GF_OP_XOR2 5 7 0, Op EC_GF_OP_END 0 0 0]]"

definition ec_gf8_mul_26_2B :: "ec_gf_mul_t list" where
  "ec_gf8_mul_26_2B = [
    Mul 8 [3, 4, 1, 2, 0, 5, 6, 7]
      [Op EC_GF_OP_XOR2 1 0 0, Op EC_GF_OP_XOR2 0 7 0, Op EC_GF_OP_XOR2 4 0 0, Op EC_GF_OP_XOR2 3 6 0,
       Op EC_GF_OP_XOR2 6 4 0, Op EC_GF_OP_XOR2 2 5 0, Op EC_GF_OP_XOR2 7 2 0, Op EC_GF_OP_XOR2 5 3 0,
       Op EC_GF_OP_XOR2 2 6 0, Op EC_GF_OP_XOR2 6 1 0, Op EC_GF_OP_XOR2 1 5 0, Op EC_GF_OP_XOR2 5 0 0,
       Op EC_GF_OP_XOR2 0 2 0, Op EC_GF_OP_XOR2 2 1 0, Op EC_GF_OP_END 0 0 0],
    Mul 8 [3, 0, 1, 2, 6, 7, 4, 5]
      [Op EC_GF_OP_XOR2 3 0 0, Op EC_GF_OP_XOR2 4 1 0, Op EC_GF_OP_XOR2 5 2 0, Op EC_GF_OP_XOR2 4 7 0,
       Op EC_GF_OP_XOR2 1 5 0, Op EC_GF_OP_XOR2 3 6 0, Op EC_GF_OP_XOR2 2 4 0, Op EC_GF_OP_XOR2 0 4 0,
       Op EC_GF_OP_XOR2 6 5 0, Op EC_GF_OP_XOR2 1 3 0, Op EC_GF_OP_XOR2 7 3 0, Op EC_GF_OP_END 0 0 0],
    Mul 8 [5, 6, 3, 0, 1, 2, 4, 7]
      [Op EC_GF_OP_XOR2 6 4 0, Op EC_GF_OP_XOR2 5 7 0, Op EC_GF_OP_XOR2 7 6 0, Op EC_GF_OP_XOR2 4 5 0,
       Op EC_GF_OP_XOR2 1 3 0, Op EC_GF_OP_XOR2 5 3 0, Op EC_GF_OP_XOR2 1 7 0, Op EC_GF_OP_XOR2 0 4 0,
       Op EC_GF_OP_XOR2 4 1 0, Op EC_GF_OP_XOR2 7 2 0, Op EC_GF_OP_XOR2 2 0 0, Op EC_GF_OP_XOR2 0 3 0,
       Op EC_GF_OP_END 0 0 0],
    Mul 8 [4, 6, 3, 5, 7, 0, 1, 2]
      [Op EC_GF_OP_XOR2 6 4 0, Op EC_GF_OP_XOR2 5 3 0, Op EC_GF_OP_XOR2 4 3 0, Op EC_GF_OP_XOR2 3 2 0,
       Op EC_GF_OP_XOR2 7 4 0, Op EC_GF_OP_XOR2 2 6 0, Op EC_GF_OP_XOR2 6 1 0, Op EC_GF_OP_XOR2 1 5 0,
       Op EC_GF_OP_XOR2 0 7 0, Op EC_GF_OP_XOR2 5 0 0, Op EC_GF_OP_XOR2 7 6 0, Op EC_GF_OP_XOR2 0 3 0,
       Op EC_GF_OP_XOR2 4 5 0, Op EC_GF_OP_END 0 0 0],
    Mul 9 [3, 4, 7, 2, 6, 5, 1, 0, 8]
      [Op EC_GF_OP_COPY 8 1 0, Op EC_GF_OP_XOR2 8 0 0, Op EC_GF_OP_XOR2 4 0 0, Op EC_GF_OP_XOR2 0 2 0,
       Op EC_GF_OP_XOR2 1 3 0, Op EC_GF_OP_XOR2 3 5 0, Op EC_GF_OP_XOR2 0 7 0, Op EC_GF_OP_XOR2 2 3 0,
       Op EC_GF_OP_XOR2 7 1 0, Op EC_GF_OP_XOR2 5 0 0, Op EC_GF_OP_XOR2 2 4 0, Op EC_GF_OP_XOR2 0 4 0,
       Op EC_GF_OP_XOR2 1 6 0, Op EC_GF_OP_XOR2 4 6 0, Op EC_GF_OP_XOR3 6 8 4, Op EC_GF_OP_END 0 0 0],
    Mul 8 [3, 4, 7, 5, 6, 0, 1, 2]
      [Op EC_GF_OP_XOR2 7 2 0, Op EC_GF_OP_XOR2 2 4 0, Op EC_GF_OP_XOR2 6 1 0, Op EC_GF_OP_XOR2 4 0 0,
       Op EC_GF_OP_XOR2 5 0 0, Op EC_GF_OP_XOR2 4 6 0, Op EC_GF_OP_XOR2 1 3 0, Op EC_GF_OP_XOR2 0 7 0,
       Op EC_GF_OP_XOR2 3 5 0, Op EC_GF_OP_XOR2 7 1 0, Op EC_GF_OP_XOR2 5 2 0, Op EC_GF_OP_END 0 0 0]]"

definition ec_gf8_mul_2C_31 :: "ec_gf_mul_t list" where
  "ec_gf8_mul_2C_31 = [
    Mul 8 [5, 6, 7, 0, 2, 3, 4, 1]
      [Op EC_GF_OP_XOR2 3 4 0, Op EC_GF_OP_XOR2 4 7 0, Op EC_GF_OP_XOR2 2 1 0, Op EC_GF_OP_XOR2 6 4 0,
       Op EC_GF_OP_XOR2 2 3 0, Op EC_GF_OP_XOR2 3 6 0, Op EC_GF_OP_XOR2 5 3 0, Op EC_GF_OP_XOR2 1 5 0,
       Op EC_GF_OP_XOR2 3 0 0, Op EC_GF_OP_XOR2 4 1 0, Op EC_GF_OP_XOR2 7 3 0, Op EC_GF_OP_XOR2 1 2 0,
       Op EC_GF_OP_XOR2 0 4 0, Op EC_GF_OP_XOR2 3 1 0, Op EC_GF_OP_END 0 0 0],
    Mul 9 [7, 0, 3, 5, 1, 4, 2, 6, 8]
      [Op EC_GF_OP_XOR2 3 2 0, Op EC_GF_OP_XOR2 1 3 0, Op EC_GF_OP_XOR2 3 0 0, Op EC_GF_OP_XOR2 4 3 0,
       Op EC_GF_OP_XOR2 3 6 0, Op EC_GF_OP_XOR2 6 1 0, Op EC_GF_OP_XOR2 2 3 0, Op EC_GF_OP_XOR3 8 4 6,
       Op EC_GF_OP_XOR2 5 8 0, Op EC_GF_OP_XOR2 7 8 0, Op EC_GF_OP_XOR2 2 5 0, Op EC_GF_OP_XOR2 0 7 0,
       Op EC_GF_OP_XOR2 6 2 0, Op EC_GF_OP_XOR2 7 2 0, Op EC_GF_OP_END 0 0 0],
    Mul 9 [5, 0, 7, 3, 2, 6, 4, 1, 8]
      [Op EC_GF_OP_XOR2 4 1 0, Op EC_GF_OP_XOR2 0 1 0, Op EC_GF_OP_COPY 8 4 0, Op EC_GF_OP_XOR2 3 6 0,
       Op EC_GF_OP_XOR2 1 5 0, Op EC_GF_OP_XOR2 4 3 0, Op EC_GF_OP_XOR2 8 7 0, Op EC_GF_OP_XOR2 5 3 0,
       Op EC_GF_OP_XOR2 2 8 0, Op EC_GF_OP_XOR2 3 0 0, Op EC_GF_OP_XOR2 6 8 0, Op EC_GF_OP_XOR2 1 2 0,
       Op EC_GF_OP_XOR2 7 3 0, Op EC_GF_OP_XOR2 0 6 0, Op EC_GF_OP_XOR2 3 1 0, Op EC_GF_OP_XOR2 6 3 0,
       Op EC_GF_OP_END 0 0 0],
    Mul 9 [6, 3, 2, 5, 7, 0, 1, 4, 8]
      [Op EC_GF_OP_XOR2 0 2 0, Op EC_GF_OP_XOR2 0 3 0, Op EC_GF_OP_XOR2 7 1 0, Op EC_GF_OP_XOR2 6 0 0,
       Op EC_GF_OP_XOR2 7 2 0, Op EC_GF_OP_XOR2 3 4 0, Op EC_GF_OP_XOR3 8 7 6, Op EC_GF_OP_XOR2 1 3 0,
       Op EC_GF_OP_XOR2 5 2 0, Op EC_GF_OP_XOR2 3 8 0, Op EC_GF_OP_XOR2 2 8 0, Op EC_GF_OP_XOR2 4 5 0,
       Op EC_GF_OP_XOR2 6 5 0, Op EC_GF_OP_XOR2 5 3 0, Op EC_GF_OP_END 0 0 0],
    Mul 9 [3, 4, 7, 5, 0, 6, 1, 2, 8]
      [Op EC_GF_OP_COPY 8 0 0, Op EC_GF_OP_XOR2 8 1 0, Op EC_GF_OP_XOR2 1 2 0, Op EC_GF_OP_XOR2 7 4 0,
       Op EC_GF_OP_XOR2 6 3 0, Op EC_GF_OP_XOR2 3 7 0, Op EC_GF_OP_XOR2 0 6 0, Op EC_GF_OP_XOR2 1 5 0,
       Op EC_GF_OP_XOR2 4 5 0, Op EC_GF_OP_XOR2 2 6 0, Op EC_GF_OP_XOR2 5 6 0, Op EC_GF_OP_XOR3 6 8 7,
       Op EC_GF_OP_XOR2 7 5 0, Op EC_GF_OP_END 0 0 0],
    Mul 8 [7, 1, 4, 5, 6, 0, 2, 3]
      [Op EC_GF_OP_XOR2 3 0 0, Op EC_GF_OP_XOR2 3 4 0, Op EC_GF_OP_XOR2 4 5 0, Op EC_GF_OP_XOR2 2 1 0,
       Op EC_GF_OP_XOR2 1 4 0, Op EC_GF_OP_XOR2 5 6 0, Op EC_GF_OP_XOR2 6 3 0, Op EC_GF_OP_XOR2 0 7 0,
       Op EC_GF_OP_XOR2 2 5 0, Op EC_GF_OP_XOR2 7 3 0, Op EC_GF_OP_XOR2 0 1 0, Op EC_GF_OP_XOR2 3 2 0,
       Op EC_GF_OP_XOR2 3 0 0, Op EC_GF_OP_XOR2 4 3 0, Op EC_GF_OP_END 0 0 0]]"

definition ec_gf8_mul_32_37 :: "ec_gf_mul_t list" where
  "ec_gf8_mul_32_37 = [
    Mul 8 [3, 4, 6, 7, 5, 0, 1, 2]
      [Op EC_GF_OP_XOR2 6 5 0, Op EC_GF_OP_XOR2 5 0 0, Op EC_GF_OP_XOR2 0 1 0, Op EC_GF_OP_XOR2 0 7 0,
       Op EC_GF_OP_XOR2 7 6 0, Op EC_GF_OP_XOR2 6 1 0, Op EC_GF_OP_XOR2 1 2 0, Op EC_GF_OP_XOR2 2 3 0,
       Op EC_GF_OP_XOR2 3 4 0, Op EC_GF_OP_XOR2 4 5 0, Op EC_GF_OP_XOR2 6 3 0, Op EC_GF_OP_XOR2 5 7 0,
       Op EC_GF_OP_XOR2 7 2 0, Op EC_GF_OP_END 0 0 0],
    Mul 8 [5, 4, 3, 0, 2, 1, 6, 7]
      [Op EC_GF_OP_XOR2 3 2 0, Op EC_GF_OP_XOR2 2 1 0, Op EC_GF_OP_XOR2 1 0 0, Op EC_GF_OP_XOR2 1 5 0,
       Op EC_GF_OP_XOR2 4 1 0, Op EC_GF_OP_XOR2 6 2 0, Op EC_GF_OP_XOR2 1 7 0, Op EC_GF_OP_XOR2 2 4 0,
       Op EC_GF_OP_XOR2 7 3 0, Op EC_GF_OP_XOR2 0 6 0, Op EC_GF_OP_XOR2 3 2 0, Op EC_GF_OP_XOR2 5 3 0,
       Op EC_GF_OP_XOR2 3 0 0, Op EC_GF_OP_XOR2 0 1 0, Op EC_GF_OP_XOR2 2 0 0, Op EC_GF_OP_END 0 0 0],
    Mul 8 [7, 5, 3, 0, 2, 4, 1, 6]
      [Op EC_GF_OP_XOR2 5 4 0, Op EC_GF_OP_XOR2 4 3 0, Op EC_GF_OP_XOR2 2 5 0, Op EC_GF_OP_XOR2 6 4 0,
       Op EC_GF_OP_XOR2 5 7 0, Op EC_GF_OP_XOR2 4 0 0, Op EC_GF_OP_XOR2 7 6 0, Op EC_GF_OP_XOR2 0 5 0,
       Op EC_GF_OP_XOR2 6 2 0, Op EC_GF_OP_XOR2 4 1 0, Op EC_GF_OP_XOR2 3 0 0, Op EC_GF_OP_XOR2 1 2 0,
       Op EC_GF_OP_XOR2 0 4 0, Op EC_GF_OP_XOR2 2 3 0, Op EC_GF_OP_END 0 0 0],
    Mul 8 [6, 7, 5, 4, 2, 0, 1, 3]
      [Op EC_GF_OP_XOR2 0 1 0, Op EC_GF_OP_XOR2 1 4 0, Op EC_GF_OP_XOR2 7 1 0, Op EC_GF_OP_XOR2 3 7 0,
       Op EC_GF_OP_XOR2 0 3 0, Op EC_GF_OP_XOR2 7 5 0, Op EC_GF_OP_XOR2 2 0 0, Op EC_GF_OP_XOR2 4 7 0,
       Op EC_GF_OP_XOR2 5 2 0, Op EC_GF_OP_XOR2 6 0 0, Op EC_GF_OP_XOR2 1 5 0, Op EC_GF_OP_XOR2 0 4 0,
       Op EC_GF_OP_XOR2 1 6 0, Op EC_GF_OP_XOR2 3 1 0, Op EC_GF_OP_END 0 0 0],
    Mul 8 [6, 7, 4, 1, 2, 3, 0, 5]
      [Op EC_GF_OP_XOR2 5 2 0, Op EC_GF_OP_XOR2 2 0 0, Op EC_GF_OP_XOR2 6 4 0, Op EC_GF_OP_XOR2 4 2 0,
       Op EC_GF_OP_XOR2 7 4 0, Op EC_GF_OP_XOR2 0 1 0, Op EC_GF_OP_XOR2 6 3 0, Op EC_GF_OP_XOR2 7 5 0,
       Op EC_GF_OP_XOR2 5 3 0, Op EC_GF_OP_XOR2 3 0 0, Op EC_GF_OP_XOR2 1 5 0, Op EC_GF_OP_XOR2 0 4 0,
       Op EC_GF_OP_XOR2 4 1 0, Op EC_GF_OP_END 0 0 0],
    Mul 9 [6, 7, 2, 1, 0, 3, 4, 5, 8]
      [Op EC_GF_OP_XOR2 1 2 0, Op EC_GF_OP_XOR2 0 2 0, Op EC_GF_OP_XOR2 6 1 0, Op EC_GF_OP_XOR2 0 4 0,
       Op EC_GF_OP_XOR2 1 5 0, Op EC_GF_OP_XOR3 8 0 1, Op EC_GF_OP_XOR2 3 8 0, Op EC_GF_OP_XOR2 7 8 0,
       Op EC_GF_OP_XOR2 2 3 0, Op EC_GF_OP_XOR2 3 4 0, Op EC_GF_OP_XOR2 5 2 0, Op EC_GF_OP_XOR2 4 6 0,
       Op EC_GF_OP_XOR2 6 5 0, Op EC_GF_OP_XOR2 5 7 0, Op EC_GF_OP_END 0 0 0]]"

definition ec_gf8_mul_38_3D :: "ec_gf_mul_t list" where
  "ec_gf8_mul_38_3D = [
    Mul 9 [4, 5, 6, 3, 0, 1, 7, 2, 8]
      [Op EC_GF_OP_XOR2 6 4 0, Op EC_GF_OP_XOR2 5 6 0, Op EC_GF_OP_XOR2 6 3 0, Op EC_GF_OP_XOR2 3 0 0,
       Op EC_GF_OP_XOR2 2 6 0, Op EC_GF_OP_XOR2 7 5 0, Op EC_GF_OP_XOR2 0 1 0, Op EC_GF_OP_XOR3 8 6 7,
       Op EC_GF_OP_XOR2 1 2 0, Op EC_GF_OP_XOR2 7 1 0, Op EC_GF_OP_XOR2 0 8 0, Op EC_GF_OP_XOR2 4 8 0,
       Op EC_GF_OP_XOR2 1 3 0, Op EC_GF_OP_END 0 0 0],
    Mul 8 [1, 6, 3, 0, 5, 2, 4, 7]
      [Op EC_GF_OP_XOR2 5 1 0, Op EC_GF_OP_XOR2 4 5 0, Op EC_GF_OP_XOR2 6 4 0, Op EC_GF_OP_XOR2 2 0 0,
       Op EC_GF_OP_XOR2 2 6 0, Op EC_GF_OP_XOR2 3 0 0, Op EC_GF_OP_XOR2 5 2 0, Op EC_GF_OP_XOR2 3 5 0,
       Op EC_GF_OP_XOR2 7 3 0, Op EC_GF_OP_XOR2 4 7 0, Op EC_GF_OP_XOR2 5 4 0, Op EC_GF_OP_XOR2 1 5 0,
       Op EC_GF_OP_END 0 0 0],
    Mul 8 [3, 4, 7, 0, 5, 6, 1, 2]
      [Op EC_GF_OP_XOR2 6 1 0, Op EC_GF_OP_XOR2 7 3 0, Op EC_GF_OP_XOR2 1 0 0, Op EC_GF_OP_XOR2 3 4 0,
       Op EC_GF_OP_XOR2 0 2 0, Op EC_GF_OP_XOR2 4 6 0, Op EC_GF_OP_XOR2 2 3 0, Op EC_GF_OP_XOR2 6 0 0,
       Op EC_GF_OP_XOR2 3 5 0, Op EC_GF_OP_XOR2 0 7 0, Op EC_GF_OP_XOR2 5 1 0, Op EC_GF_OP_XOR2 7 4 0,
       Op EC_GF_OP_XOR2 1 0 0, Op EC_GF_OP_XOR2 4 5 0, Op EC_GF_OP_END 0 0 0],
    Mul 9 [3, 0, 1, 7, 6, 2, 4, 8, 5]
      [Op EC_GF_OP_XOR2 2 0 0, Op EC_GF_OP_XOR2 0 4 0, Op EC_GF_OP_XOR2 3 0 0, Op EC_GF_OP_XOR2 7 2 0,
       Op EC_GF_OP_XOR3 8 7 3, Op EC_GF_OP_XOR2 1 6 0, Op EC_GF_OP_XOR2 3 5 0, Op EC_GF_OP_XOR2 5 1 0,
       Op EC_GF_OP_XOR2 1 8 0, Op EC_GF_OP_XOR2 0 5 0, Op EC_GF_OP_XOR2 2 5 0, Op EC_GF_OP_XOR2 4 1 0,
       Op EC_GF_OP_XOR2 6 0 0, Op EC_GF_OP_END 0 0 0],
    Mul 8 [3, 6, 4, 1, 7, 2, 0, 5]
      [Op EC_GF_OP_XOR2 7 5 0, Op EC_GF_OP_XOR2 7 4 0, Op EC_GF_OP_XOR2 1 0 0, Op EC_GF_OP_XOR2 6 7 0,
       Op EC_GF_OP_XOR2 0 3 0, Op EC_GF_OP_XOR2 3 6 0, Op EC_GF_OP_XOR2 5 3 0, Op EC_GF_OP_XOR2 1 5 0,
       Op EC_GF_OP_XOR2 2 1 0, Op EC_GF_OP_XOR2 1 4 0, Op EC_GF_OP_XOR2 7 2 0, Op EC_GF_OP_XOR2 4 0 0,
       Op EC_GF_OP_XOR2 5 7 0, Op EC_GF_OP_XOR2 0 5 0, Op EC_GF_OP_XOR2 5 1 0, Op EC_GF_OP_END 0 0 0],
    Mul 8 [2, 3, 4, 5, 6, 7, 0, 1]
      [Op EC_GF_OP_XOR2 2 0 0, Op EC_GF_OP_XOR2 3 2 0, Op EC_GF_OP_XOR2 5 1 0, Op EC_GF_OP_XOR2 4 3 0,
       Op EC_GF_OP_XOR2 5 4 0, Op EC_GF_OP_XOR2 6 5 0, Op EC_GF_OP_XOR2 7 6 0, Op EC_GF_OP_XOR2 0 7 0,
       Op EC_GF_OP_XOR2 3 7 0, Op EC_GF_OP_XOR2 1 0 0, Op EC_GF_OP_XOR2 2 1 0, Op EC_GF_OP_XOR2 5 1 0,
       Op EC_GF_OP_END 0 0 0]]"

definition ec_gf8_mul_3E_43 :: "ec_gf_mul_t list" where
  "ec_gf8_mul_3E_43 = [
    Mul 8 [6, 1, 2, 7, 0, 3, 5, 4]
      [Op EC_GF_OP_XOR2 3 5 0, Op EC_GF_OP_XOR2 4 3 0, Op EC_GF_OP_XOR2 6 4 0, Op EC_GF_OP_XOR2 4 2 0,
       Op EC_GF_OP_XOR2 1 7 0, Op EC_GF_OP_XOR2 1 4 0, Op EC_GF_OP_XOR2 5 1 0, Op EC_GF_OP_XOR2 0 5 0,
       Op EC_GF_OP_XOR2 2 0 0, Op EC_GF_OP_XOR2 0 6 0, Op EC_GF_OP_XOR2 3 0 0, Op EC_GF_OP_XOR2 7 3 0,
       Op EC_GF_OP_XOR2 1 7 0, Op EC_GF_OP_END 0 0 0],
    Mul 11 [1, 7, 6, 2, 4, 3, 5, 0, 8, 9, 10]
      [Op EC_GF_OP_COPY 8 0 0, Op EC_GF_OP_XOR2 0 1 0, Op EC_GF_OP_COPY 10 4 0, Op EC_GF_OP_XOR2 0 6 0,
       Op EC_GF_OP_XOR2 4 5 0, Op EC_GF_OP_XOR2 4 0 0, Op EC_GF_OP_XOR2 1 3 0, Op EC_GF_OP_COPY 9 2 0,
       Op EC_GF_OP_XOR2 1 4 0, Op EC_GF_OP_XOR2 2 0 0, Op EC_GF_OP_XOR2 7 4 0, Op EC_GF_OP_XOR3 4 9 7,
       Op EC_GF_OP_XOR2 3 4 0, Op EC_GF_OP_XOR2 5 3 0, Op EC_GF_OP_XOR2 0 3 0, Op EC_GF_OP_XOR2 6 5 0,
       Op EC_GF_OP_XOR2 3 10 0, Op EC_GF_OP_XOR2 5 8 0, Op EC_GF_OP_END 0 0 0],
    Mul 9 [5, 7, 4, 6, 2, 3, 0, 1, 8]
      [Op EC_GF_OP_XOR2 1 2 0, Op EC_GF_OP_XOR2 2 3 0, Op EC_GF_OP_XOR2 2 4 0, Op EC_GF_OP_XOR2 4 5 0,
       Op EC_GF_OP_XOR2 6 4 0, Op EC_GF_OP_XOR2 0 6 0, Op EC_GF_OP_XOR2 7 3 0, Op EC_GF_OP_XOR2 6 2 0,
       Op EC_GF_OP_XOR2 3 4 0, Op EC_GF_OP_XOR3 8 7 6, Op EC_GF_OP_XOR2 1 8 0, Op EC_GF_OP_XOR2 5 8 0,
       Op EC_GF_OP_XOR2 4 8 0, Op EC_GF_OP_END 0 0 0],
    Mul 9 [0, 7, 6, 5, 3, 4, 8, 1, 2]
      [Op EC_GF_OP_COPY 8 0 0, Op EC_GF_OP_XOR2 8 4 0, Op EC_GF_OP_XOR2 8 5 0, Op EC_GF_OP_XOR2 5 6 0,
       Op EC_GF_OP_XOR2 0 2 0, Op EC_GF_OP_XOR2 6 7 0, Op EC_GF_OP_XOR2 0 6 0, Op EC_GF_OP_XOR2 7 1 0,
       Op EC_GF_OP_XOR2 6 4 0, Op EC_GF_OP_XOR2 1 5 0, Op EC_GF_OP_XOR2 7 3 0, Op EC_GF_OP_XOR2 4 3 0,
       Op EC_GF_OP_XOR2 5 2 0, Op EC_GF_OP_XOR2 3 2 0, Op EC_GF_OP_END 0 0 0],
    Mul 9 [2, 7, 1, 6, 4, 3, 0, 5, 8]
      [Op EC_GF_OP_COPY 8 0 0, Op EC_GF_OP_XOR2 0 2 0, Op EC_GF_OP_XOR2 8 3 0, Op EC_GF_OP_XOR2 2 6 0,
       Op EC_GF_OP_XOR2 3 5 0, Op EC_GF_OP_XOR2 4 2 0, Op EC_GF_OP_XOR2 5 1 0, Op EC_GF_OP_XOR2 0 4 0,
       Op EC_GF_OP_XOR2 6 7 0, Op EC_GF_OP_XOR2 1 4 0, Op EC_GF_OP_XOR2 5 7 0, Op EC_GF_OP_XOR2 4 6 0,
       Op EC_GF_OP_XOR2 7 8 0, Op EC_GF_OP_XOR2 6 3 0, Op EC_GF_OP_END 0 0 0],
    Mul 8 [2, 6, 4, 1, 7, 3, 0, 5]
      [Op EC_GF_OP_XOR2 5 1 0, Op EC_GF_OP_XOR2 1 6 0, Op EC_GF_OP_XOR2 6 0 0, Op EC_GF_OP_XOR2 0 4 0,
       Op EC_GF_OP_XOR2 4 1 0, Op EC_GF_OP_XOR2 1 7 0, Op EC_GF_OP_XOR2 7 2 0, Op EC_GF_OP_XOR2 2 6 0,
       Op EC_GF_OP_XOR2 6 3 0, Op EC_GF_OP_XOR2 6 1 0, Op EC_GF_OP_XOR2 1 5 0, Op EC_GF_OP_END 0 0 0]]"

definition ec_gf8_mul_44_4A :: "ec_gf_mul_t list" where
  "ec_gf8_mul_44_4A = [
    Mul 8 [2, 3, 4, 1, 6, 5, 0, 7]
      [Op EC_GF_OP_XOR2 1 6 0, Op EC_GF_OP_XOR2 4 7 0, Op EC_GF_OP_XOR2 6 5 0, Op EC_GF_OP_XOR2 5 4 0,
       Op EC_GF_OP_XOR2 4 0 0, Op EC_GF_OP_XOR2 4 2 0, Op EC_GF_OP_XOR2 0 6 0, Op EC_GF_OP_XOR2 2 7 0,
       Op EC_GF_OP_XOR2 6 3 0, Op EC_GF_OP_XOR2 7 1 0, Op EC_GF_OP_XOR2 1 2 0, Op EC_GF_OP_XOR2 1 6 0,
       Op EC_GF_OP_XOR2 6 5 0, Op EC_GF_OP_END 0 0 0],
    Mul 8 [2, 3, 0, 1, 7, 4, 5, 6]
      [Op EC_GF_OP_XOR2 2 0 0, Op EC_GF_OP_XOR2 4 7 0, Op EC_GF_OP_XOR2 2 7 0, Op EC_GF_OP_XOR2 7 3 0,
       Op EC_GF_OP_XOR2 7 6 0, Op EC_GF_OP_XOR2 5 0 0, Op EC_GF_OP_XOR2 6 1 0, Op EC_GF_OP_XOR2 3 1 0,
       Op EC_GF_OP_XOR2 0 4 0, Op EC_GF_OP_XOR2 1 5 0, Op EC_GF_OP_XOR2 1 2 0, Op EC_GF_OP_END 0 0 0],
    Mul 9 [2, 0, 1, 3, 4, 5, 6, 7, 8]
      [Op EC_GF_OP_XOR3 8 2 4, Op EC_GF_OP_XOR2 4 6 0, Op EC_GF_OP_XOR2 8 0 0, Op EC_GF_OP_XOR2 6 0 0,
       Op EC_GF_OP_XOR2 0 3 0, Op EC_GF_OP_XOR2 3 1 0, Op EC_GF_OP_XOR2 3 5 0, Op EC_GF_OP_XOR2 5 7 0,
       Op EC_GF_OP_XOR2 7 1 0, Op EC_GF_OP_XOR2 1 8 0, Op EC_GF_OP_END 0 0 0],
    Mul 9 [2, 3, 4, 5, 6, 7, 0, 1, 8]
      [Op EC_GF_OP_XOR3 8 0 1, Op EC_GF_OP_XOR2 2 0 0, Op EC_GF_OP_XOR2 3 8 0, Op EC_GF_OP_XOR2 5 1 0,
       Op EC_GF_OP_XOR2 4 8 0, Op EC_GF_OP_END 0 0 0],
    Mul 8 [4, 5, 6, 0, 1, 3, 7, 2]
      [Op EC_GF_OP_XOR2 5 2 0, Op EC_GF_OP_XOR2 5 4 0, Op EC_GF_OP_XOR2 6 5 0, Op EC_GF_OP_XOR2 7 6 0,
       Op EC_GF_OP_XOR2 2 3 0, Op EC_GF_OP_XOR2 4 7 0, Op EC_GF_OP_XOR2 3 7 0, Op EC_GF_OP_XOR2 1 3 0,
       Op EC_GF_OP_XOR2 0 2 0, Op EC_GF_OP_XOR2 5 3 0, Op EC_GF_OP_XOR2 2 1 0, Op EC_GF_OP_XOR2 7 0 0,
       Op EC_GF_OP_END 0 0 0],
    Mul 9 [7, 2, 4, 0, 3, 5, 1, 6, 8]
      [Op EC_GF_OP_XOR2 3 0 0, Op EC_GF_OP_XOR2 0 2 0, Op EC_GF_OP_XOR2 6 5 0, Op EC_GF_OP_XOR3 8 0 6,
       Op EC_GF_OP_XOR2 3 1 0, Op EC_GF_OP_XOR2 7 8 0, Op EC_GF_OP_XOR2 1 4 0, Op EC_GF_OP_XOR2 3 7 0,
       Op EC_GF_OP_XOR2 4 6 0, Op EC_GF_OP_XOR2 5 3 0, Op EC_GF_OP_XOR2 6 1 0, Op EC_GF_OP_XOR2 2 5 0,
       Op EC_GF_OP_XOR2 5 1 0, Op EC_GF_OP_XOR3 1 8 5, Op EC_GF_OP_END 0 0 0],
    Mul 8 [5, 6, 7, 0, 1, 3, 4, 2]
      [Op EC_GF_OP_XOR2 2 6 0, Op EC_GF_OP_XOR2 1 4 0, Op EC_GF_OP_XOR2 3 7 0, Op EC_GF_OP_XOR2 5 2 0,
       Op EC_GF_OP_XOR2 1 5 0, Op EC_GF_OP_XOR2 0 3 0, Op EC_GF_OP_XOR2 7 1 0, Op EC_GF_OP_XOR2 6 0 0,
       Op EC_GF_OP_XOR2 3 5 0, Op EC_GF_OP_XOR2 2 7 0, Op EC_GF_OP_XOR2 4 6 0, Op EC_GF_OP_END 0 0 0]]"

definition ec_gf8_mul_4B_50 :: "ec_gf_mul_t list" where
  "ec_gf8_mul_4B_50 = [
    Mul 9 [5, 3, 6, 7, 0, 2, 4, 1, 8]
      [Op EC_GF_OP_XOR2 6 7 0, Op EC_GF_OP_XOR2 7 0 0, Op EC_GF_OP_XOR2 0 1 0, Op EC_GF_OP_XOR2 1 4 0,
       Op EC_GF_OP_XOR3 8 3 7, Op EC_GF_OP_XOR2 3 6 0, Op EC_GF_OP_XOR2 1 5 0, Op EC_GF_OP_XOR2 4 8 0,
       Op EC_GF_OP_XOR2 2 3 0, Op EC_GF_OP_XOR2 5 8 0, Op EC_GF_OP_XOR2 3 0 0, Op EC_GF_OP_XOR2 6 1 0,
       Op EC_GF_OP_XOR2 5 2 0, Op EC_GF_OP_XOR2 0 5 0, Op EC_GF_OP_END 0 0 0],
    Mul 8 [5, 3, 4, 7, 0, 6, 2, 1]
      [Op EC_GF_OP_XOR2 5 2 0, Op EC_GF_OP_XOR2 2 0 0, Op EC_GF_OP_XOR2 3 6 0, Op EC_GF_OP_XOR2 2 3 0,
       Op EC_GF_OP_XOR2 4 5 0, Op EC_GF_OP_XOR2 1 2 0, Op EC_GF_OP_XOR2 5 7 0, Op EC_GF_OP_XOR2 6 4 0,
       Op EC_GF_OP_XOR2 7 1 0, Op EC_GF_OP_XOR2 4 0 0, Op EC_GF_OP_XOR2 1 6 0, Op EC_GF_OP_XOR2 2 5 0,
       Op EC_GF_OP_XOR2 0 1 0, Op EC_GF_OP_XOR2 1 2 0, Op EC_GF_OP_END 0 0 0],
    Mul 10 [0, 9, 3, 5, 6, 4, 7, 1, 2, 8]
      [Op EC_GF_OP_COPY 8 3 0, Op EC_GF_OP_XOR2 3 4 0, Op EC_GF_OP_XOR2 4 6 0, Op EC_GF_OP_XOR2 0 1 0,
       Op EC_GF_OP_XOR2 1 4 0, Op EC_GF_OP_XOR3 9 3 1, Op EC_GF_OP_XOR2 5 9 0, Op EC_GF_OP_XOR2 4 2 0,
       Op EC_GF_OP_XOR2 6 5 0, Op EC_GF_OP_XOR2 0 6 0, Op EC_GF_OP_XOR2 7 0 0, Op EC_GF_OP_XOR2 3 0 0,
       Op EC_GF_OP_XOR2 2 7 0, Op EC_GF_OP_XOR3 0 8 2, Op EC_GF_OP_XOR2 5 2 0, Op EC_GF_OP_END 0 0 0],
    Mul 8 [2, 3, 0, 1, 5, 6, 7, 4]
      [Op EC_GF_OP_XOR2 3 0 0, Op EC_GF_OP_XOR2 4 1 0, Op EC_GF_OP_XOR2 0 2 0, Op EC_GF_OP_XOR2 4 7 0,
       Op EC_GF_OP_XOR2 2 5 0, Op EC_GF_OP_XOR2 5 4 0, Op EC_GF_OP_XOR2 3 6 0, Op EC_GF_OP_XOR2 0 5 0,
       Op EC_GF_OP_XOR2 6 2 0, Op EC_GF_OP_XOR2 7 3 0, Op EC_GF_OP_XOR2 1 3 0, Op EC_GF_OP_END 0 0 0],
    Mul 8 [0, 3, 5, 6, 1, 2, 7, 4]
      [Op EC_GF_OP_XOR2 4 1 0, Op EC_GF_OP_XOR2 1 0 0, Op EC_GF_OP_XOR2 7 0 0, Op EC_GF_OP_XOR2 0 2 0,
       Op EC_GF_OP_XOR2 0 5 0, Op EC_GF_OP_XOR2 2 6 0, Op EC_GF_OP_XOR2 5 7 0, Op EC_GF_OP_XOR2 6 1 0,
       Op EC_GF_OP_XOR2 7 3 0, Op EC_GF_OP_XOR2 1 5 0, Op EC_GF_OP_XOR2 3 6 0, Op EC_GF_OP_XOR2 5 4 0,
       Op EC_GF_OP_END 0 0 0],
    Mul 8 [4, 5, 7, 3, 0, 1, 2, 6]
      [Op EC_GF_OP_XOR2 5 3 0, Op EC_GF_OP_XOR2 4 6 0, Op EC_GF_OP_XOR2 6 5 0, Op EC_GF_OP_XOR2 5 7 0,
       Op EC_GF_OP_XOR2 7 2 0, Op EC_GF_OP_XOR2 0 2 0, Op EC_GF_OP_XOR2 4 7 0, Op EC_GF_OP_XOR2 0 6 0,
       Op EC_GF_OP_XOR2 3 4 0, Op EC_GF_OP_XOR2 6 1 0, Op EC_GF_OP_XOR2 2 3 0, Op EC_GF_OP_XOR2 1 2 0,
       Op EC_GF_OP_XOR2 2 0 0, Op EC_GF_OP_END 0 0 0]]"

definition ec_gf8_mul_51_56 :: "ec_gf_mul_t list" where
  "ec_gf8_mul_51_56 = [
    Mul 8 [0, 1, 7, 2, 3, 4, 5, 6]
      [Op EC_GF_OP_XOR2 2 1 0, Op EC_GF_OP_XOR2 3 5 0, Op EC_GF_OP_XOR2 2 3 0, Op EC_GF_OP_XOR2 3 7 0,
       Op EC_GF_OP_XOR2 1 3 0, Op EC_GF_OP_XOR2 6 1 0, Op EC_GF_OP_XOR2 4 6 0, Op EC_GF_OP_XOR2 2 4 0,
       Op EC_GF_OP_XOR2 0 2 0, Op EC_GF_OP_XOR2 5 0 0, Op EC_GF_OP_XOR2 3 0 0, Op EC_GF_OP_END 0 0 0],
    Mul 10 [2, 3, 1, 4, 6, 7, 0, 5, 8, 9]
      [Op EC_GF_OP_XOR2 0 2 0, Op EC_GF_OP_XOR2 0 7 0, Op EC_GF_OP_COPY 8 0 0, Op EC_GF_OP_XOR2 0 4 0,
       Op EC_GF_OP_XOR2 4 6 0, Op EC_GF_OP_COPY 9 4 0, Op EC_GF_OP_XOR2 4 3 0, Op EC_GF_OP_XOR2 3 1 0,
       Op EC_GF_OP_XOR2 5 3 0, Op EC_GF_OP_XOR2 6 3 0, Op EC_GF_OP_XOR2 1 2 0, Op EC_GF_OP_XOR3 3 5 8,
       Op EC_GF_OP_XOR2 7 6 0, Op EC_GF_OP_XOR2 2 9 0, Op EC_GF_OP_XOR2 6 3 0, Op EC_GF_OP_XOR2 3 1 0,
       Op EC_GF_OP_END 0 0 0],
    Mul 8 [2, 0, 1, 4, 5, 6, 7, 3]
      [Op EC_GF_OP_XOR2 2 0 0, Op EC_GF_OP_XOR2 3 1 0, Op EC_GF_OP_XOR2 4 6 0, Op EC_GF_OP_XOR2 2 4 0,
       Op EC_GF_OP_XOR2 5 7 0, Op EC_GF_OP_XOR2 3 5 0, Op EC_GF_OP_XOR2 7 2 0, Op EC_GF_OP_XOR2 5 2 0,
       Op EC_GF_OP_XOR2 6 3 0, Op EC_GF_OP_XOR2 0 3 0, Op EC_GF_OP_END 0 0 0],
    Mul 8 [7, 3, 0, 4, 2, 6, 5, 1]
      [Op EC_GF_OP_XOR2 7 2 0, Op EC_GF_OP_XOR2 0 7 0, Op EC_GF_OP_XOR2 7 4 0, Op EC_GF_OP_XOR2 4 1 0,
       Op EC_GF_OP_XOR2 2 3 0, Op EC_GF_OP_XOR2 1 3 0, Op EC_GF_OP_XOR2 3 5 0, Op EC_GF_OP_XOR2 1 6 0,
       Op EC_GF_OP_XOR2 5 0 0, Op EC_GF_OP_XOR2 0 6 0, Op EC_GF_OP_XOR2 6 4 0, Op EC_GF_OP_XOR2 4 2 0,
       Op EC_GF_OP_XOR2 2 5 0, Op EC_GF_OP_END 0 0 0],
    Mul 8 [1, 5, 6, 4, 3, 7, 2, 0]
      [Op EC_GF_OP_XOR2 4 2 0, Op EC_GF_OP_XOR2 7 0 0, Op EC_GF_OP_XOR2 4 1 0, Op EC_GF_OP_XOR2 3 1 0,
       Op EC_GF_OP_XOR2 6 7 0, Op EC_GF_OP_XOR2 2 5 0, Op EC_GF_OP_XOR2 7 4 0, Op EC_GF_OP_XOR2 5 3 0,
       Op EC_GF_OP_XOR2 2 6 0, Op EC_GF_OP_XOR2 1 7 0, Op EC_GF_OP_XOR2 3 6 0, Op EC_GF_OP_XOR2 7 2 0,
       Op EC_GF_OP_XOR2 0 3 0, Op EC_GF_OP_XOR2 3 7 0, Op EC_GF_OP_END 0 0 0],
    Mul 8 [2, 3, 0, 4, 5, 6, 7, 1]
      [Op EC_GF_OP_XOR2 5 0 0, Op EC_GF_OP_XOR2 6 1 0, Op EC_GF_OP_XOR2 0 2 0, Op EC_GF_OP_XOR2 1 3 0,
       Op EC_GF_OP_XOR2 2 4 0, Op EC_GF_OP_XOR2 3 5 0, Op EC_GF_OP_XOR2 4 1 0, Op EC_GF_OP_XOR2 4 7 0,
       Op EC_GF_OP_XOR2 7 0 0, Op EC_GF_OP_XOR2 0 6 0, Op EC_GF_OP_END 0 0 0]]"

definition ec_gf8_mul_57_5C :: "ec_gf_mul_t list" where
  "ec_gf8_mul_57_5C = [
    Mul 8 [2, 3, 0, 1, 4, 5, 6, 7]
      [Op EC_GF_OP_XOR2 2 0 0, Op EC_GF_OP_XOR2 5 0 0, Op EC_GF_OP_XOR2 0 1 0, Op EC_GF_OP_XOR2 0 6 0,
       Op EC_GF_OP_XOR2 3 1 0, Op EC_GF_OP_XOR2 6 7 0, Op EC_GF_OP_XOR2 1 4 0, Op EC_GF_OP_XOR2 6 2 0,
       Op EC_GF_OP_XOR2 1 7 0, Op EC_GF_OP_XOR2 2 4 0, Op EC_GF_OP_XOR2 7 3 0, Op EC_GF_OP_XOR2 4 5 0,
       Op EC_GF_OP_XOR2 3 5 0, Op EC_GF_OP_XOR2 5 0 0, Op EC_GF_OP_END 0 0 0],
    Mul 8 [4, 3, 2, 7, 0, 1, 5, 6]
      [Op EC_GF_OP_XOR2 3 2 0, Op EC_GF_OP_XOR2 2 5 0, Op EC_GF_OP_XOR2 4 3 0, Op EC_GF_OP_XOR2 5 0 0,
       Op EC_GF_OP_XOR2 0 1 0, Op EC_GF_OP_XOR2 5 4 0, Op EC_GF_OP_XOR2 3 7 0, Op EC_GF_OP_XOR2 1 4 0,
       Op EC_GF_OP_XOR2 7 5 0, Op EC_GF_OP_XOR2 0 3 0, Op EC_GF_OP_XOR2 6 2 0, Op EC_GF_OP_XOR2 3 6 0,
       Op EC_GF_OP_XOR2 6 1 0, Op EC_GF_OP_XOR2 4 3 0, Op EC_GF_OP_END 0 0 0],
    Mul 8 [7, 3, 5, 6, 1, 2, 0, 4]
      [Op EC_GF_OP_XOR2 0 1 0, Op EC_GF_OP_XOR2 1 3 0, Op EC_GF_OP_XOR2 1 5 0, Op EC_GF_OP_XOR2 2 4 0,
       Op EC_GF_OP_XOR2 0 6 0, Op EC_GF_OP_XOR2 2 1 0, Op EC_GF_OP_XOR2 0 2 0, Op EC_GF_OP_XOR2 3 0 0,
       Op EC_GF_OP_XOR2 7 3 0, Op EC_GF_OP_XOR2 6 7 0, Op EC_GF_OP_XOR2 1 6 0, Op EC_GF_OP_XOR2 3 1 0,
       Op EC_GF_OP_XOR2 4 3 0, Op EC_GF_OP_END 0 0 0],
    Mul 8 [6, 7, 0, 1, 2, 3, 5, 4]
      [Op EC_GF_OP_XOR2 5 2 0, Op EC_GF_OP_XOR2 2 1 0, Op EC_GF_OP_XOR2 4 5 0, Op EC_GF_OP_XOR2 3 2 0,
       Op EC_GF_OP_XOR2 6 4 0, Op EC_GF_OP_XOR2 4 3 0, Op EC_GF_OP_XOR2 2 0 0, Op EC_GF_OP_XOR2 0 4 0,
       Op EC_GF_OP_XOR2 1 0 0, Op EC_GF_OP_XOR2 5 1 0, Op EC_GF_OP_XOR2 7 5 0, Op EC_GF_OP_XOR2 0 7 0,
       Op EC_GF_OP_XOR2 7 6 0, Op EC_GF_OP_END 0 0 0],
    Mul 8 [6, 0, 7, 5, 2, 1, 3, 4]
      [Op EC_GF_OP_XOR2 0 4 0, Op EC_GF_OP_XOR2 1 5 0, Op EC_GF_OP_XOR2 4 3 0, Op EC_GF_OP_XOR2 5 0 0,
       Op EC_GF_OP_XOR2 3 2 0, Op EC_GF_OP_XOR2 2 5 0, Op EC_GF_OP_XOR2 0 6 0, Op EC_GF_OP_XOR2 6 2 0,
       Op EC_GF_OP_XOR2 7 1 0, Op EC_GF_OP_XOR2 2 1 0, Op EC_GF_OP_XOR2 1 3 0, Op EC_GF_OP_XOR2 4 7 0,
       Op EC_GF_OP_XOR2 3 0 0, Op EC_GF_OP_XOR2 0 4 0, Op EC_GF_OP_END 0 0 0],
    Mul 9 [7, 5, 2, 4, 1, 0, 6, 3, 8]
      [Op EC_GF_OP_COPY 8 3 0, Op EC_GF_OP_XOR2 3 6 0, Op EC_GF_OP_XOR2 4 1 0, Op EC_GF_OP_XOR2 5 3 0,
       Op EC_GF_OP_XOR2 1 0 0, Op EC_GF_OP_XOR2 0 5 0, Op EC_GF_OP_XOR2 1 3 0, Op EC_GF_OP_XOR2 2 0 0,
       Op EC_GF_OP_XOR2 3 4 0, Op EC_GF_OP_XOR2 4 2 0, Op EC_GF_OP_XOR2 6 2 0, Op EC_GF_OP_XOR2 7 4 0,
       Op EC_GF_OP_XOR2 2 8 0, Op EC_GF_OP_XOR2 0 7 0, Op EC_GF_OP_XOR2 7 1 0, Op EC_GF_OP_END 0 0 0]]"

definition ec_gf8_mul_5D_62 :: "ec_gf_mul_t list" where
  "ec_gf8_mul_5D_62 = [
    Mul 8 [1, 3, 5, 4, 6, 7, 2, 0]
      [Op EC_GF_OP_XOR2 4 1 0, Op EC_GF_OP_XOR2 1 0 0, Op EC_GF_OP_XOR2 6 0 0, Op EC_GF_OP_XOR2 4 3 0,
       Op EC_GF_OP_XOR2 5 6 0, Op EC_GF_OP_XOR2 6 4 0, Op EC_GF_OP_XOR2 3 5 0, Op EC_GF_OP_XOR2 7 6 0,
       Op EC_GF_OP_XOR2 2 3 0, Op EC_GF_OP_XOR2 0 7 0, Op EC_GF_OP_XOR2 3 1 0, Op EC_GF_OP_XOR2 7 2 0,
       Op EC_GF_OP_XOR2 4 2 0, Op EC_GF_OP_XOR2 1 7 0, Op EC_GF_OP_END 0 0 0],
    Mul 8 [4, 3, 6, 2, 5, 7, 0, 1]
      [Op EC_GF_OP_XOR2 6 0 0, Op EC_GF_OP_XOR2 6 5 0, Op EC_GF_OP_XOR2 1 2 0, Op EC_GF_OP_XOR2 5 2 0,
       Op EC_GF_OP_XOR2 2 3 0, Op EC_GF_OP_XOR2 7 1 0, Op EC_GF_OP_XOR2 3 6 0, Op EC_GF_OP_XOR2 0 2 0,
       Op EC_GF_OP_XOR2 6 7 0, Op EC_GF_OP_XOR2 2 4 0, Op EC_GF_OP_XOR2 4 5 0, Op EC_GF_OP_XOR2 1 2 0,
       Op EC_GF_OP_XOR2 5 6 0, Op EC_GF_OP_XOR2 2 6 0, Op EC_GF_OP_END 0 0 0],
    Mul 8 [6, 1, 3, 4, 5, 7, 2, 0]
      [Op EC_GF_OP_XOR2 0 3 0, Op EC_GF_OP_XOR2 1 5 0, Op EC_GF_OP_XOR2 0 6 0, Op EC_GF_OP_XOR2 1 0 0,
       Op EC_GF_OP_XOR2 7 1 0, Op EC_GF_OP_XOR2 3 7 0, Op EC_GF_OP_XOR2 2 0 0, Op EC_GF_OP_XOR2 4 3 0,
       Op EC_GF_OP_XOR2 7 2 0, Op EC_GF_OP_XOR2 5 4 0, Op EC_GF_OP_XOR2 6 5 0, Op EC_GF_OP_XOR2 0 5 0,
       Op EC_GF_OP_XOR2 6 7 0, Op EC_GF_OP_END 0 0 0],
    Mul 8 [2, 3, 4, 7, 5, 6, 0, 1]
      [Op EC_GF_OP_XOR2 5 2 0, Op EC_GF_OP_XOR2 7 4 0, Op EC_GF_OP_XOR2 4 5 0, Op EC_GF_OP_XOR2 6 3 0,
       Op EC_GF_OP_XOR2 2 6 0, Op EC_GF_OP_XOR2 4 6 0, Op EC_GF_OP_XOR2 3 7 0, Op EC_GF_OP_XOR2 6 0 0,
       Op EC_GF_OP_XOR2 0 1 0, Op EC_GF_OP_XOR2 0 7 0, Op EC_GF_OP_XOR2 1 5 0, Op EC_GF_OP_XOR2 7 5 0,
       Op EC_GF_OP_END 0 0 0],
    Mul 8 [0, 5, 6, 7, 4, 2, 1, 3]
      [Op EC_GF_OP_XOR2 1 2 0, Op EC_GF_OP_XOR2 6 2 0, Op EC_GF_OP_XOR2 2 5 0, Op EC_GF_OP_XOR2 4 2 0,
       Op EC_GF_OP_XOR2 0 3 0, Op EC_GF_OP_XOR2 3 4 0, Op EC_GF_OP_XOR2 0 6 0, Op EC_GF_OP_XOR2 7 3 0,
       Op EC_GF_OP_XOR2 2 0 0, Op EC_GF_OP_XOR2 6 3 0, Op EC_GF_OP_XOR2 1 7 0, Op EC_GF_OP_XOR2 5 1 0,
       Op EC_GF_OP_XOR2 1 2 0, Op EC_GF_OP_XOR2 3 5 0, Op EC_GF_OP_END 0 0 0],
    Mul 8 [2, 0, 3, 4, 5, 6, 7, 1]
      [Op EC_GF_OP_XOR2 3 7 0, Op EC_GF_OP_XOR2 1 2 0, Op EC_GF_OP_XOR2 2 3 0, Op EC_GF_OP_XOR2 3 4 0,
       Op EC_GF_OP_XOR2 4 5 0, Op EC_GF_OP_XOR2 0 3 0, Op EC_GF_OP_XOR2 5 2 0, Op EC_GF_OP_XOR2 7 0 0,
       Op EC_GF_OP_XOR2 2 6 0, Op EC_GF_OP_XOR2 1 5 0, Op EC_GF_OP_XOR2 6 7 0, Op EC_GF_OP_XOR2 7 1 0,
       Op EC_GF_OP_XOR2 1 2 0, Op EC_GF_OP_XOR2 3 1 0, Op EC_GF_OP_END 0 0 0]]"

definition ec_gf8_mul_63_68 :: "ec_gf_mul_t list" where
  "ec_gf8_mul_63_68 = [
    Mul 8 [3, 4, 6, 5, 7, 0, 1, 2]
      [Op EC_GF_OP_XOR2 4 3 0, Op EC_GF_OP_XOR2 5 4 0, Op EC_GF_OP_XOR2 6 5 0, Op EC_GF_OP_XOR2 1 7 0,
       Op EC_GF_OP_XOR2 0 6 0, Op EC_GF_OP_XOR2 6 1 0, Op EC_GF_OP_XOR2 7 2 0, Op EC_GF_OP_XOR2 3 0 0,
       Op EC_GF_OP_XOR2 4 6 0, Op EC_GF_OP_XOR2 7 5 0, Op EC_GF_OP_XOR2 1 3 0, Op EC_GF_OP_XOR2 2 4 0,
       Op EC_GF_OP_XOR2 3 7 0, Op EC_GF_OP_XOR2 4 0 0, Op EC_GF_OP_END 0 0 0],
    Mul 9 [2, 3, 4, 6, 5, 7, 8, 1, 0]
      [Op EC_GF_OP_COPY 8 1 0, Op EC_GF_OP_XOR2 8 0 0, Op EC_GF_OP_XOR2 1 2 0, Op EC_GF_OP_XOR2 8 7 0,
       Op EC_GF_OP_XOR2 2 3 0, Op EC_GF_OP_XOR2 3 4 0, Op EC_GF_OP_XOR2 7 6 0, Op EC_GF_OP_XOR2 4 5 0,
       Op EC_GF_OP_XOR2 6 1 0, Op EC_GF_OP_XOR2 5 7 0, Op EC_GF_OP_XOR2 6 4 0, Op EC_GF_OP_XOR2 7 0 0,
       Op EC_GF_OP_XOR2 4 2 0, Op EC_GF_OP_XOR2 4 0 0, Op EC_GF_OP_END 0 0 0],
    Mul 8 [2, 5, 1, 3, 4, 0, 6, 7]
      [Op EC_GF_OP_XOR2 6 7 0, Op EC_GF_OP_XOR2 7 2 0, Op EC_GF_OP_XOR2 5 6 0, Op EC_GF_OP_XOR2 2 0 0,
       Op EC_GF_OP_XOR2 4 5 0, Op EC_GF_OP_XOR2 2 3 0, Op EC_GF_OP_XOR2 6 1 0, Op EC_GF_OP_XOR2 3 4 0,
       Op EC_GF_OP_XOR2 7 1 0, Op EC_GF_OP_XOR2 6 0 0, Op EC_GF_OP_XOR2 1 3 0, Op EC_GF_OP_XOR2 0 5 0,
       Op EC_GF_OP_XOR2 3 7 0, Op EC_GF_OP_XOR2 5 1 0, Op EC_GF_OP_XOR2 1 6 0, Op EC_GF_OP_END 0 0 0],
    Mul 8 [2, 3, 1, 4, 5, 7, 0, 6]
      [Op EC_GF_OP_XOR2 4 0 0, Op EC_GF_OP_XOR2 0 1 0, Op EC_GF_OP_XOR2 1 2 0, Op EC_GF_OP_XOR2 2 3 0,
       Op EC_GF_OP_XOR2 3 4 0, Op EC_GF_OP_XOR2 5 7 0, Op EC_GF_OP_XOR2 2 7 0, Op EC_GF_OP_XOR2 0 5 0,
       Op EC_GF_OP_XOR2 4 6 0, Op EC_GF_OP_XOR2 5 3 0, Op EC_GF_OP_XOR2 6 1 0, Op EC_GF_OP_XOR2 7 4 0,
       Op EC_GF_OP_XOR2 1 5 0, Op EC_GF_OP_XOR2 4 0 0, Op EC_GF_OP_XOR2 5 7 0, Op EC_GF_OP_END 0 0 0],
    Mul 8 [2, 4, 5, 6, 7, 3, 1, 0]
      [Op EC_GF_OP_XOR2 3 0 0, Op EC_GF_OP_XOR2 3 1 0, Op EC_GF_OP_XOR2 1 4 0, Op EC_GF_OP_XOR2 4 3 0,
       Op EC_GF_OP_XOR2 7 4 0, Op EC_GF_OP_XOR2 5 7 0, Op EC_GF_OP_XOR2 0 5 0, Op EC_GF_OP_XOR2 6 0 0,
       Op EC_GF_OP_XOR2 3 6 0, Op EC_GF_OP_XOR2 1 3 0, Op EC_GF_OP_XOR2 7 1 0, Op EC_GF_OP_XOR2 2 7 0,
       Op EC_GF_OP_XOR2 0 2 0, Op EC_GF_OP_XOR2 2 3 0, Op EC_GF_OP_END 0 0 0],
    Mul 8 [5, 7, 2, 3, 0, 6, 4, 1]
      [Op EC_GF_OP_XOR2 5 2 0, Op EC_GF_OP_XOR2 5 4 0, Op EC_GF_OP_XOR2 4 3 0, Op EC_GF_OP_XOR2 6 4 0,
       Op EC_GF_OP_XOR2 7 6 0, Op EC_GF_OP_XOR2 4 0 0, Op EC_GF_OP_XOR2 2 7 0, Op EC_GF_OP_XOR2 4 1 0,
       Op EC_GF_OP_XOR2 0 2 0, Op EC_GF_OP_XOR2 1 5 0, Op EC_GF_OP_XOR2 3 0 0, Op EC_GF_OP_XOR2 5 6 0,
       Op EC_GF_OP_XOR2 0 4 0, Op EC_GF_OP_XOR2 6 3 0, Op EC_GF_OP_END 0 0 0]]"

definition ec_gf8_mul_69_6E :: "ec_gf_mul_t list" where
  "ec_gf8_mul_69_6E = [
    Mul 8 [0, 1, 3, 2, 4, 5, 7, 6]
      [Op EC_GF_OP_XOR2 4 6 0, Op EC_GF_OP_XOR2 4 7 0, Op EC_GF_OP_XOR2 3 4 0, Op EC_GF_OP_XOR2 2 1 0,
       Op EC_GF_OP_XOR2 1 3 0, Op EC_GF_OP_XOR2 4 2 0, Op EC_GF_OP_XOR2 0 1 0, Op EC_GF_OP_XOR2 5 4 0,
       Op EC_GF_OP_XOR2 7 0 0, Op EC_GF_OP_XOR2 6 5 0, Op EC_GF_OP_XOR2 2 0 0, Op EC_GF_OP_XOR2 5 7 0,
       Op EC_GF_OP_XOR2 0 6 0, Op EC_GF_OP_END 0 0 0],
    Mul 8 [5, 7, 4, 6, 1, 2, 0, 3]
      [Op EC_GF_OP_XOR2 7 3 0, Op EC_GF_OP_XOR2 3 5 0, Op EC_GF_OP_XOR2 0 4 0, Op EC_GF_OP_XOR2 2 6 0,
       Op EC_GF_OP_XOR2 6 0 0, Op EC_GF_OP_XOR2 5 2 0, Op EC_GF_OP_XOR2 1 3 0, Op EC_GF_OP_XOR2 0 1 0,
       Op EC_GF_OP_XOR2 1 5 0, Op EC_GF_OP_XOR2 5 7 0, Op EC_GF_OP_XOR2 4 1 0, Op EC_GF_OP_XOR2 7 6 0,
       Op EC_GF_OP_XOR2 3 4 0, Op EC_GF_OP_XOR2 2 7 0, Op EC_GF_OP_END 0 0 0],
    Mul 9 [6, 7, 2, 0, 3, 1, 5, 4, 8]
      [Op EC_GF_OP_COPY 8 1 0, Op EC_GF_OP_XOR2 1 2 0, Op EC_GF_OP_XOR2 1 6 0, Op EC_GF_OP_XOR2 3 4 0,
       Op EC_GF_OP_XOR2 3 1 0, Op EC_GF_OP_XOR2 2 3 0, Op EC_GF_OP_XOR2 0 2 0, Op EC_GF_OP_XOR2 1 5 0,
       Op EC_GF_OP_XOR2 7 0 0, Op EC_GF_OP_XOR2 5 0 0, Op EC_GF_OP_XOR2 1 7 0, Op EC_GF_OP_XOR2 4 1 0,
       Op EC_GF_OP_XOR2 6 4 0, Op EC_GF_OP_XOR2 4 0 0, Op EC_GF_OP_XOR2 0 8 0, Op EC_GF_OP_END 0 0 0],
    Mul 8 [5, 6, 7, 0, 1, 2, 3, 4]
      [Op EC_GF_OP_XOR2 5 2 0, Op EC_GF_OP_XOR2 4 3 0, Op EC_GF_OP_XOR2 5 3 0, Op EC_GF_OP_XOR2 2 0 0,
       Op EC_GF_OP_XOR2 6 4 0, Op EC_GF_OP_XOR2 4 2 0, Op EC_GF_OP_XOR2 3 1 0, Op EC_GF_OP_XOR2 3 0 0,
       Op EC_GF_OP_XOR2 7 4 0, Op EC_GF_OP_XOR2 4 3 0, Op EC_GF_OP_XOR2 0 4 0, Op EC_GF_OP_END 0 0 0],
    Mul 9 [3, 6, 7, 0, 4, 5, 1, 2, 8]
      [Op EC_GF_OP_XOR2 4 1 0, Op EC_GF_OP_XOR2 1 0 0, Op EC_GF_OP_XOR2 7 4 0, Op EC_GF_OP_XOR2 0 2 0,
       Op EC_GF_OP_XOR2 1 3 0, Op EC_GF_OP_XOR2 2 7 0, Op EC_GF_OP_XOR3 8 3 4, Op EC_GF_OP_XOR2 7 1 0,
       Op EC_GF_OP_XOR2 5 0 0, Op EC_GF_OP_XOR2 1 6 0, Op EC_GF_OP_XOR2 0 8 0, Op EC_GF_OP_XOR2 3 5 0,
       Op EC_GF_OP_XOR2 6 8 0, Op EC_GF_OP_END 0 0 0],
    Mul 8 [5, 6, 3, 1, 7, 2, 0, 4]
      [Op EC_GF_OP_XOR2 3 1 0, Op EC_GF_OP_XOR2 1 2 0, Op EC_GF_OP_XOR2 2 0 0, Op EC_GF_OP_XOR2 7 3 0,
       Op EC_GF_OP_XOR2 0 5 0, Op EC_GF_OP_XOR2 6 1 0, Op EC_GF_OP_XOR2 0 3 0, Op EC_GF_OP_XOR2 2 4 0,
       Op EC_GF_OP_XOR2 1 7 0, Op EC_GF_OP_XOR2 4 6 0, Op EC_GF_OP_XOR2 3 2 0, Op EC_GF_OP_XOR2 5 1 0,
       Op EC_GF_OP_XOR2 6 3 0, Op EC_GF_OP_XOR2 1 3 0, Op EC_GF_OP_END 0 0 0]]"

definition ec_gf8_mul_6F_74 :: "ec_gf_mul_t list" where
  "ec_gf8_mul_6F_74 = [
    Mul 9 [2, 6, 3, 7, 0, 1, 4, 5, 8]
      [Op EC_GF_OP_COPY 8 0 0, Op EC_GF_OP_XOR2 0 1 0, Op EC_GF_OP_XOR2 0 4 0, Op EC_GF_OP_XOR2 3 0 0,
       Op EC_GF_OP_XOR2 2 5 0, Op EC_GF_OP_XOR2 7 3 0, Op EC_GF_OP_XOR2 2 0 0, Op EC_GF_OP_XOR2 6 3 0,
       Op EC_GF_OP_XOR3 0 8 7, Op EC_GF_OP_XOR2 1 2 0, Op EC_GF_OP_XOR2 5 6 0, Op EC_GF_OP_XOR2 2 0 0,
       Op EC_GF_OP_XOR2 4 5 0, Op EC_GF_OP_XOR2 5 2 0, Op EC_GF_OP_END 0 0 0],
    Mul 8 [3, 4, 5, 2, 6, 0, 1, 7]
      [Op EC_GF_OP_XOR2 3 2 0, Op EC_GF_OP_XOR2 5 3 0, Op EC_GF_OP_XOR2 6 4 0, Op EC_GF_OP_XOR2 4 2 0,
       Op EC_GF_OP_XOR2 7 5 0, Op EC_GF_OP_XOR2 0 2 0, Op EC_GF_OP_XOR2 3 6 0, Op EC_GF_OP_XOR2 4 7 0,
       Op EC_GF_OP_XOR2 6 0 0, Op EC_GF_OP_XOR2 7 1 0, Op EC_GF_OP_XOR2 1 6 0, Op EC_GF_OP_XOR2 0 7 0,
       Op EC_GF_OP_END 0 0 0],
    Mul 8 [4, 7, 5, 3, 6, 0, 2, 1]
      [Op EC_GF_OP_XOR2 6 0 0, Op EC_GF_OP_XOR2 0 1 0, Op EC_GF_OP_XOR2 1 5 0, Op EC_GF_OP_XOR2 0 4 0,
       Op EC_GF_OP_XOR2 5 3 0, Op EC_GF_OP_XOR2 4 3 0, Op EC_GF_OP_XOR2 6 2 0, Op EC_GF_OP_XOR2 3 2 0,
       Op EC_GF_OP_XOR2 7 4 0, Op EC_GF_OP_XOR2 2 0 0, Op EC_GF_OP_XOR2 4 6 0, Op EC_GF_OP_XOR2 0 7 0,
       Op EC_GF_OP_XOR2 7 1 0, Op EC_GF_OP_XOR2 1 3 0, Op EC_GF_OP_END 0 0 0],
    Mul 8 [0, 5, 2, 7, 4, 1, 3, 6]
      [Op EC_GF_OP_XOR2 4 0 0, Op EC_GF_OP_XOR2 3 7 0, Op EC_GF_OP_XOR2 3 4 0, Op EC_GF_OP_XOR2 5 3 0,
       Op EC_GF_OP_XOR2 1 5 0, Op EC_GF_OP_XOR2 4 1 0, Op EC_GF_OP_XOR2 2 4 0, Op EC_GF_OP_XOR2 6 2 0,
       Op EC_GF_OP_XOR2 3 6 0, Op EC_GF_OP_XOR2 4 3 0, Op EC_GF_OP_XOR2 0 4 0, Op EC_GF_OP_END 0 0 0],
    Mul 8 [6, 0, 1, 7, 4, 5, 2, 3]
      [Op EC_GF_OP_XOR2 1 5 0, Op EC_GF_OP_XOR2 2 1 0, Op EC_GF_OP_XOR2 7 3 0, Op EC_GF_OP_XOR2 1 7 0,
       Op EC_GF_OP_XOR2 0 4 0, Op EC_GF_OP_XOR2 6 2 0, Op EC_GF_OP_XOR2 2 0 0, Op EC_GF_OP_XOR2 3 6 0,
       Op EC_GF_OP_XOR2 0 1 0, Op EC_GF_OP_XOR2 6 0 0, Op EC_GF_OP_XOR2 5 0 0, Op EC_GF_OP_XOR2 4 6 0,
       Op EC_GF_OP_END 0 0 0],
    Mul 8 [3, 2, 1, 0, 4, 5, 6, 7]
      [Op EC_GF_OP_XOR2 3 2 0, Op EC_GF_OP_XOR2 2 5 0, Op EC_GF_OP_XOR2 5 0 0, Op EC_GF_OP_XOR2 5 1 0,
       Op EC_GF_OP_XOR2 1 3 0, Op EC_GF_OP_XOR2 0 7 0, Op EC_GF_OP_XOR2 6 5 0, Op EC_GF_OP_XOR2 7 1 0,
       Op EC_GF_OP_XOR2 1 6 0, Op EC_GF_OP_XOR2 3 4 0, Op EC_GF_OP_XOR2 6 2 0, Op EC_GF_OP_XOR2 4 0 0,
       Op EC_GF_OP_XOR2 2 3 0, Op EC_GF_OP_XOR2 0 6 0, Op EC_GF_OP_END 0 0 0]]"

definition ec_gf8_mul_75_7A :: "ec_gf_mul_t list" where
  "ec_gf8_mul_75_7A = [
    Mul 8 [4, 5, 6, 7, 0, 1, 2, 3]
      [Op EC_GF_OP_XOR2 2 0 0, Op EC_GF_OP_XOR2 3 2 0, Op EC_GF_OP_XOR2 2 1 0, Op EC_GF_OP_XOR2 1 0 0,
       Op EC_GF_OP_XOR2 4 3 0, Op EC_GF_OP_XOR2 3 1 0, Op EC_GF_OP_XOR2 0 7 0, Op EC_GF_OP_XOR2 6 3 0,
       Op EC_GF_OP_XOR2 5 2 0, Op EC_GF_OP_XOR2 7 6 0, Op EC_GF_OP_XOR2 6 5 0, Op EC_GF_OP_XOR2 5 4 0,
       Op EC_GF_OP_END 0 0 0],
    Mul 9 [2, 3, 0, 6, 5, 1, 7, 8, 4]
      [Op EC_GF_OP_XOR2 7 3 0, Op EC_GF_OP_XOR2 6 1 0, Op EC_GF_OP_XOR2 2 7 0, Op EC_GF_OP_XOR3 8 6 2,
       Op EC_GF_OP_XOR2 0 5 0, Op EC_GF_OP_XOR2 2 4 0, Op EC_GF_OP_XOR2 4 0 0, Op EC_GF_OP_XOR2 0 8 0,
       Op EC_GF_OP_XOR2 3 4 0, Op EC_GF_OP_XOR2 1 4 0, Op EC_GF_OP_XOR2 7 0 0, Op EC_GF_OP_XOR2 5 3 0,
       Op EC_GF_OP_END 0 0 0],
    Mul 8 [7, 4, 3, 6, 0, 1, 5, 2]
      [Op EC_GF_OP_XOR2 7 6 0, Op EC_GF_OP_XOR2 6 1 0, Op EC_GF_OP_XOR2 1 0 0, Op EC_GF_OP_XOR2 5 1 0,
       Op EC_GF_OP_XOR2 6 3 0, Op EC_GF_OP_XOR2 0 3 0, Op EC_GF_OP_XOR2 1 4 0, Op EC_GF_OP_XOR2 3 5 0,
       Op EC_GF_OP_XOR2 4 3 0, Op EC_GF_OP_XOR2 5 2 0, Op EC_GF_OP_XOR2 3 7 0, Op EC_GF_OP_XOR2 2 6 0,
       Op EC_GF_OP_XOR2 7 1 0, Op EC_GF_OP_XOR2 7 2 0, Op EC_GF_OP_END 0 0 0],
    Mul 9 [4, 7, 3, 2, 5, 1, 6, 0, 8]
      [Op EC_GF_OP_XOR2 6 5 0, Op EC_GF_OP_XOR2 6 0 0, Op EC_GF_OP_XOR2 1 0 0, Op EC_GF_OP_XOR2 7 2 0,
       Op EC_GF_OP_XOR2 2 6 0, Op EC_GF_OP_XOR2 0 3 0, Op EC_GF_OP_XOR2 3 7 0, Op EC_GF_OP_XOR3 8 0 2,
       Op EC_GF_OP_XOR2 4 8 0, Op EC_GF_OP_XOR2 1 8 0, Op EC_GF_OP_XOR2 7 4 0, Op EC_GF_OP_XOR2 5 7 0,
       Op EC_GF_OP_XOR2 5 1 0, Op EC_GF_OP_XOR2 0 5 0, Op EC_GF_OP_XOR2 6 0 0, Op EC_GF_OP_END 0 0 0],
    Mul 9 [4, 5, 7, 3, 1, 6, 2, 0, 8]
      [Op EC_GF_OP_XOR2 7 3 0, Op EC_GF_OP_XOR3 8 4 7, Op EC_GF_OP_XOR2 0 8 0, Op EC_GF_OP_XOR2 2 1 0,
       Op EC_GF_OP_XOR2 6 8 0, Op EC_GF_OP_XOR2 2 0 0, Op EC_GF_OP_XOR2 1 6 0, Op EC_GF_OP_XOR2 3 2 0,
       Op EC_GF_OP_XOR2 5 1 0, Op EC_GF_OP_XOR2 6 3 0, Op EC_GF_OP_XOR2 3 5 0, Op EC_GF_OP_XOR2 4 3 0,
       Op EC_GF_OP_XOR2 1 4 0, Op EC_GF_OP_XOR2 0 1 0, Op EC_GF_OP_END 0 0 0],
    Mul 8 [1, 2, 3, 4, 5, 6, 7, 0]
      [Op EC_GF_OP_XOR2 2 1 0, Op EC_GF_OP_XOR2 3 2 0, Op EC_GF_OP_XOR2 4 0 0, Op EC_GF_OP_XOR2 4 3 0,
       Op EC_GF_OP_XOR2 5 4 0, Op EC_GF_OP_XOR2 6 5 0, Op EC_GF_OP_XOR2 7 6 0, Op EC_GF_OP_XOR2 0 7 0,
       Op EC_GF_OP_XOR2 2 7 0, Op EC_GF_OP_XOR2 1 0 0, Op EC_GF_OP_XOR2 4 0 0, Op EC_GF_OP_END 0 0 0]]"

definition ec_gf8_mul_7B_80 :: "ec_gf_mul_t list" where
  "ec_gf8_mul_7B_80 = [
    Mul 10 [1, 2, 3, 4, 8, 5, 6, 0, 7, 9]
      [Op EC_GF_OP_XOR2 3 1 0, Op EC_GF_OP_XOR3 8 5 3, Op EC_GF_OP_XOR2 8 0 0, Op EC_GF_OP_COPY 9 4 0,
       Op EC_GF_OP_XOR2 8 2 0, Op EC_GF_OP_XOR2 4 6 0, Op EC_GF_OP_XOR2 4 8 0, Op EC_GF_OP_XOR2 7 4 0,
       Op EC_GF_OP_XOR2 5 4 0, Op EC_GF_OP_XOR2 0 4 0, Op EC_GF_OP_XOR2 2 7 0, Op EC_GF_OP_XOR3 4 1 9,
       Op EC_GF_OP_XOR2 6 7 0, Op EC_GF_OP_XOR2 1 7 0, Op EC_GF_OP_XOR2 4 2 0, Op EC_GF_OP_END 0 0 0],
    Mul 8 [2, 4, 1, 6, 3, 5, 7, 0]
      [Op EC_GF_OP_XOR2 5 3 0, Op EC_GF_OP_XOR2 4 5 0, Op EC_GF_OP_XOR2 2 4 0, Op EC_GF_OP_XOR2 4 6 0,
       Op EC_GF_OP_XOR2 3 1 0, Op EC_GF_OP_XOR2 0 4 0, Op EC_GF_OP_XOR2 7 2 0, Op EC_GF_OP_XOR2 3 0 0,
       Op EC_GF_OP_XOR2 7 3 0, Op EC_GF_OP_XOR2 5 7 0, Op EC_GF_OP_XOR2 1 7 0, Op EC_GF_OP_XOR2 6 5 0,
       Op EC_GF_OP_XOR2 0 5 0, Op EC_GF_OP_END 0 0 0],
    Mul 8 [1, 0, 3, 5, 6, 7, 2, 4]
      [Op EC_GF_OP_XOR2 2 1 0, Op EC_GF_OP_XOR2 3 2 0, Op EC_GF_OP_XOR2 2 6 0, Op EC_GF_OP_XOR2 1 0 0,
       Op EC_GF_OP_XOR2 0 2 0, Op EC_GF_OP_XOR2 1 5 0, Op EC_GF_OP_XOR2 7 0 0, Op EC_GF_OP_XOR2 6 1 0,
       Op EC_GF_OP_XOR2 4 3 0, Op EC_GF_OP_XOR2 3 7 0, Op EC_GF_OP_XOR2 1 4 0, Op EC_GF_OP_XOR2 2 3 0,
       Op EC_GF_OP_XOR2 0 1 0, Op EC_GF_OP_XOR2 5 2 0, Op EC_GF_OP_END 0 0 0],
    Mul 9 [5, 1, 2, 0, 7, 3, 4, 6, 8]
      [Op EC_GF_OP_XOR2 0 5 0, Op EC_GF_OP_COPY 8 0 0, Op EC_GF_OP_XOR2 0 1 0, Op EC_GF_OP_XOR2 6 3 0,
       Op EC_GF_OP_XOR2 6 0 0, Op EC_GF_OP_XOR2 5 6 0, Op EC_GF_OP_XOR2 6 4 0, Op EC_GF_OP_XOR2 7 6 0,
       Op EC_GF_OP_XOR2 1 6 0, Op EC_GF_OP_XOR3 6 2 7, Op EC_GF_OP_XOR2 3 6 0, Op EC_GF_OP_XOR2 2 5 0,
       Op EC_GF_OP_XOR2 4 6 0, Op EC_GF_OP_XOR2 5 3 0, Op EC_GF_OP_XOR2 6 8 0, Op EC_GF_OP_END 0 0 0],
    Mul 10 [4, 1, 0, 5, 6, 7, 2, 3, 8, 9]
      [Op EC_GF_OP_COPY 8 0 0, Op EC_GF_OP_XOR2 0 1 0, Op EC_GF_OP_XOR2 0 3 0, Op EC_GF_OP_XOR2 5 0 0,
       Op EC_GF_OP_XOR3 9 7 5, Op EC_GF_OP_XOR2 2 9 0, Op EC_GF_OP_XOR2 1 2 0, Op EC_GF_OP_XOR2 0 6 0,
       Op EC_GF_OP_XOR2 4 1 0, Op EC_GF_OP_XOR2 6 9 0, Op EC_GF_OP_XOR3 9 6 4, Op EC_GF_OP_XOR2 7 9 0,
       Op EC_GF_OP_XOR2 3 9 0, Op EC_GF_OP_XOR2 1 7 0, Op EC_GF_OP_XOR2 7 8 0, Op EC_GF_OP_END 0 0 0],
    Mul 8 [7, 5, 6, 4, 1, 2, 3, 0]
      [Op EC_GF_OP_XOR2 7 3 0, Op EC_GF_OP_XOR2 3 4 0, Op EC_GF_OP_XOR2 1 2 0, Op EC_GF_OP_XOR2 2 3 0,
       Op EC_GF_OP_XOR2 3 5 0, Op EC_GF_OP_XOR2 5 1 0, Op EC_GF_OP_XOR2 0 1 0, Op EC_GF_OP_XOR2 4 5 0,
       Op EC_GF_OP_XOR2 1 7 0, Op EC_GF_OP_XOR2 6 4 0, Op EC_GF_OP_XOR2 0 6 0, Op EC_GF_OP_XOR2 6 2 0,
       Op EC_GF_OP_XOR2 7 6 0, Op EC_GF_OP_XOR2 5 7 0, Op EC_GF_OP_END 0 0 0]]"

definition ec_gf8_mul_81_86 :: "ec_gf_mul_t list" where
  "ec_gf8_mul_81_86 = [
    Mul 8 [2, 7, 4, 1, 5, 6, 3, 0]
      [Op EC_GF_OP_XOR2 3 5 0, Op EC_GF_OP_XOR2 4 6 0, Op EC_GF_OP_XOR2 3 4 0, Op EC_GF_OP_XOR2 2 3 0,
       Op EC_GF_OP_XOR2 6 2 0, Op EC_GF_OP_XOR2 1 6 0, Op EC_GF_OP_XOR2 7 1 0, Op EC_GF_OP_XOR2 4 1 0,
       Op EC_GF_OP_XOR2 5 7 0, Op EC_GF_OP_XOR2 0 5 0, Op EC_GF_OP_XOR2 7 3 0, Op EC_GF_OP_XOR2 2 0 0,
       Op EC_GF_OP_XOR2 0 4 0, Op EC_GF_OP_END 0 0 0],
    Mul 9 [6, 2, 7, 5, 1, 3, 4, 0, 8]
      [Op EC_GF_OP_XOR2 7 6 0, Op EC_GF_OP_XOR2 6 1 0, Op EC_GF_OP_COPY 8 6 0, Op EC_GF_OP_XOR2 6 5 0,
       Op EC_GF_OP_XOR2 5 4 0, Op EC_GF_OP_XOR2 4 3 0, Op EC_GF_OP_XOR2 1 2 0, Op EC_GF_OP_XOR2 3 2 0,
       Op EC_GF_OP_XOR2 2 0 0, Op EC_GF_OP_XOR2 2 7 0, Op EC_GF_OP_XOR2 0 5 0, Op EC_GF_OP_XOR2 7 5 0,
       Op EC_GF_OP_XOR3 5 8 7, Op EC_GF_OP_XOR2 7 4 0, Op EC_GF_OP_END 0 0 0],
    Mul 8 [3, 5, 6, 7, 1, 2, 4, 0]
      [Op EC_GF_OP_XOR2 0 1 0, Op EC_GF_OP_XOR2 1 2 0, Op EC_GF_OP_XOR2 2 3 0, Op EC_GF_OP_XOR2 0 3 0,
       Op EC_GF_OP_XOR2 2 5 0, Op EC_GF_OP_XOR2 7 2 0, Op EC_GF_OP_XOR2 5 0 0, Op EC_GF_OP_XOR2 3 6 0,
       Op EC_GF_OP_XOR2 1 4 0, Op EC_GF_OP_XOR2 6 7 0, Op EC_GF_OP_XOR2 4 3 0, Op EC_GF_OP_XOR2 7 1 0,
       Op EC_GF_OP_XOR2 3 5 0, Op EC_GF_OP_XOR2 0 7 0, Op EC_GF_OP_XOR2 5 6 0, Op EC_GF_OP_END 0 0 0],
    Mul 8 [7, 6, 0, 4, 1, 5, 3, 2]
      [Op EC_GF_OP_XOR2 3 5 0, Op EC_GF_OP_XOR2 7 5 0, Op EC_GF_OP_XOR2 5 6 0, Op EC_GF_OP_XOR2 6 2 0,
       Op EC_GF_OP_XOR2 4 6 0, Op EC_GF_OP_XOR2 2 0 0, Op EC_GF_OP_XOR2 2 4 0, Op EC_GF_OP_XOR2 4 7 0,
       Op EC_GF_OP_XOR2 7 1 0, Op EC_GF_OP_XOR2 1 3 0, Op EC_GF_OP_XOR2 0 1 0, Op EC_GF_OP_XOR2 1 5 0,
       Op EC_GF_OP_XOR2 5 4 0, Op EC_GF_OP_END 0 0 0],
    Mul 8 [7, 6, 0, 3, 2, 4, 5, 1]
      [Op EC_GF_OP_XOR2 3 6 0, Op EC_GF_OP_XOR2 7 5 0, Op EC_GF_OP_XOR2 6 2 0, Op EC_GF_OP_XOR2 5 3 0,
       Op EC_GF_OP_XOR2 2 7 0, Op EC_GF_OP_XOR2 4 2 0, Op EC_GF_OP_XOR2 7 0 0, Op EC_GF_OP_XOR2 3 4 0,
       Op EC_GF_OP_XOR2 6 1 0, Op EC_GF_OP_XOR2 7 1 0, Op EC_GF_OP_XOR2 0 6 0, Op EC_GF_OP_XOR2 1 3 0,
       Op EC_GF_OP_XOR2 0 5 0, Op EC_GF_OP_XOR2 2 1 0, Op EC_GF_OP_XOR2 1 0 0, Op EC_GF_OP_END 0 0 0],
    Mul 8 [1, 2, 6, 4, 5, 7, 3, 0]
      [Op EC_GF_OP_XOR2 1 5 0, Op EC_GF_OP_XOR2 5 6 0, Op EC_GF_OP_XOR2 6 0 0, Op EC_GF_OP_XOR2 0 4 0,
       Op EC_GF_OP_XOR2 4 5 0, Op EC_GF_OP_XOR2 5 7 0, Op EC_GF_OP_XOR2 7 2 0, Op EC_GF_OP_XOR2 2 6 0,
       Op EC_GF_OP_XOR2 6 3 0, Op EC_GF_OP_XOR2 6 5 0, Op EC_GF_OP_XOR2 5 1 0, Op EC_GF_OP_END 0 0 0]]"

definition ec_gf8_mul_87_8C :: "ec_gf_mul_t list" where
  "ec_gf8_mul_87_8C = [
    Mul 9 [1, 2, 3, 4, 5, 7, 6, 0, 8]
      [Op EC_GF_OP_XOR2 1 0 0, Op EC_GF_OP_COPY 8 1 0, Op EC_GF_OP_XOR2 8 6 0, Op EC_GF_OP_XOR2 6 3 0,
       Op EC_GF_OP_XOR2 3 0 0, Op EC_GF_OP_XOR2 0 4 0, Op EC_GF_OP_XOR2 1 5 0, Op EC_GF_OP_XOR2 4 5 0,
       Op EC_GF_OP_XOR2 0 7 0, Op EC_GF_OP_XOR2 7 5 0, Op EC_GF_OP_XOR2 4 6 0, Op EC_GF_OP_XOR3 5 8 0,
       Op EC_GF_OP_XOR2 7 2 0, Op EC_GF_OP_XOR2 2 8 0, Op EC_GF_OP_XOR2 3 7 0, Op EC_GF_OP_END 0 0 0],
    Mul 8 [6, 7, 3, 1, 2, 4, 5, 0]
      [Op EC_GF_OP_XOR2 5 6 0, Op EC_GF_OP_XOR2 6 7 0, Op EC_GF_OP_XOR2 4 6 0, Op EC_GF_OP_XOR2 6 1 0,
       Op EC_GF_OP_XOR2 7 2 0, Op EC_GF_OP_XOR2 1 0 0, Op EC_GF_OP_XOR2 2 3 0, Op EC_GF_OP_XOR2 1 7 0,
       Op EC_GF_OP_XOR2 0 5 0, Op EC_GF_OP_XOR2 2 5 0, Op EC_GF_OP_XOR2 1 4 0, Op EC_GF_OP_XOR2 5 4 0,
       Op EC_GF_OP_XOR2 4 3 0, Op EC_GF_OP_XOR2 3 6 0, Op EC_GF_OP_END 0 0 0],
    Mul 9 [2, 1, 6, 5, 7, 3, 4, 0, 8]
      [Op EC_GF_OP_XOR2 7 2 0, Op EC_GF_OP_XOR2 5 1 0, Op EC_GF_OP_XOR2 1 7 0, Op EC_GF_OP_XOR2 2 0 0,
       Op EC_GF_OP_XOR2 5 0 0, Op EC_GF_OP_XOR2 6 1 0, Op EC_GF_OP_XOR2 2 6 0, Op EC_GF_OP_XOR3 8 5 2,
       Op EC_GF_OP_XOR2 4 8 0, Op EC_GF_OP_XOR2 6 3 0, Op EC_GF_OP_XOR2 0 8 0, Op EC_GF_OP_XOR2 3 4 0,
       Op EC_GF_OP_XOR2 7 3 0, Op EC_GF_OP_XOR2 5 7 0, Op EC_GF_OP_END 0 0 0],
    Mul 8 [1, 2, 3, 0, 6, 7, 4, 5]
      [Op EC_GF_OP_XOR2 2 0 0, Op EC_GF_OP_XOR2 5 0 0, Op EC_GF_OP_XOR2 1 6 0, Op EC_GF_OP_XOR2 3 6 0,
       Op EC_GF_OP_XOR2 0 1 0, Op EC_GF_OP_XOR2 6 5 0, Op EC_GF_OP_XOR2 2 7 0, Op EC_GF_OP_XOR2 4 7 0,
       Op EC_GF_OP_XOR2 6 2 0, Op EC_GF_OP_XOR2 7 3 0, Op EC_GF_OP_XOR2 0 4 0, Op EC_GF_OP_END 0 0 0],
    Mul 8 [6, 1, 2, 3, 5, 7, 4, 0]
      [Op EC_GF_OP_XOR2 1 0 0, Op EC_GF_OP_XOR2 3 6 0, Op EC_GF_OP_XOR2 6 1 0, Op EC_GF_OP_XOR2 1 7 0,
       Op EC_GF_OP_XOR2 7 5 0, Op EC_GF_OP_XOR2 4 1 0, Op EC_GF_OP_XOR2 5 2 0, Op EC_GF_OP_XOR2 0 7 0,
       Op EC_GF_OP_XOR2 1 2 0, Op EC_GF_OP_XOR2 7 3 0, Op EC_GF_OP_XOR2 2 3 0, Op EC_GF_OP_XOR2 3 4 0,
       Op EC_GF_OP_XOR2 4 6 0, Op EC_GF_OP_XOR2 5 4 0, Op EC_GF_OP_END 0 0 0],
    Mul 8 [1, 2, 0, 7, 3, 4, 5, 6]
      [Op EC_GF_OP_XOR2 1 7 0, Op EC_GF_OP_XOR2 5 7 0, Op EC_GF_OP_XOR2 7 4 0, Op EC_GF_OP_XOR2 7 2 0,
       Op EC_GF_OP_XOR2 4 6 0, Op EC_GF_OP_XOR2 7 0 0, Op EC_GF_OP_XOR2 6 0 0, Op EC_GF_OP_XOR2 0 3 0,
       Op EC_GF_OP_XOR2 3 5 0, Op EC_GF_OP_XOR2 0 1 0, Op EC_GF_OP_END 0 0 0]]"

definition ec_gf8_mul_8D_93 :: "ec_gf_mul_t list" where
  "ec_gf8_mul_8D_93 = [
    Mul 8 [7, 1, 3, 2, 4, 5, 0, 6]
      [Op EC_GF_OP_XOR2 7 0 0, Op EC_GF_OP_XOR2 0 5 0, Op EC_GF_OP_XOR2 5 4 0, Op EC_GF_OP_XOR2 5 6 0,
       Op EC_GF_OP_XOR2 3 7 0, Op EC_GF_OP_XOR2 6 7 0, Op EC_GF_OP_XOR2 7 1 0, Op EC_GF_OP_XOR2 4 3 0,
       Op EC_GF_OP_XOR2 1 2 0, Op EC_GF_OP_XOR2 2 4 0, Op EC_GF_OP_XOR2 3 1 0, Op EC_GF_OP_XOR2 4 0 0,
       Op EC_GF_OP_XOR2 0 6 0, Op EC_GF_OP_END 0 0 0],
    Mul 8 [1, 2, 3, 4, 5, 6, 7, 0]
      [Op EC_GF_OP_XOR2 2 0 0, Op EC_GF_OP_XOR2 3 0 0, Op EC_GF_OP_XOR2 4 0 0, Op EC_GF_OP_END 0 0 0],
    Mul 8 [1, 2, 3, 4, 5, 6, 7, 0]
      [Op EC_GF_OP_XOR2 1 0 0, Op EC_GF_OP_XOR2 3 0 0, Op EC_GF_OP_XOR2 0 7 0, Op EC_GF_OP_XOR2 7 6 0,
       Op EC_GF_OP_XOR2 6 5 0, Op EC_GF_OP_XOR2 5 4 0, Op EC_GF_OP_XOR2 4 3 0, Op EC_GF_OP_XOR2 3 2 0,
       Op EC_GF_OP_XOR2 2 1 0, Op EC_GF_OP_END 0 0 0],
    Mul 8 [4, 5, 6, 7, 0, 1, 3, 2]
      [Op EC_GF_OP_XOR2 2 1 0, Op EC_GF_OP_XOR2 7 2 0, Op EC_GF_OP_XOR2 6 7 0, Op EC_GF_OP_XOR2 5 1 0,
       Op EC_GF_OP_XOR2 5 6 0, Op EC_GF_OP_XOR2 4 5 0, Op EC_GF_OP_XOR2 3 4 0, Op EC_GF_OP_XOR2 4 2 0,
       Op EC_GF_OP_XOR2 1 3 0, Op EC_GF_OP_XOR2 6 3 0, Op EC_GF_OP_XOR2 0 1 0, Op EC_GF_OP_XOR2 2 0 0,
       Op EC_GF_OP_END 0 0 0],
    Mul 10 [2, 3, 1, 4, 0, 6, 7, 5, 8, 9]
      [Op EC_GF_OP_XOR2 0 3 0, Op EC_GF_OP_XOR2 3 4 0, Op EC_GF_OP_COPY 9 1 0, Op EC_GF_OP_COPY 8 3 0,
       Op EC_GF_OP_XOR2 3 5 0, Op EC_GF_OP_XOR2 1 2 0, Op EC_GF_OP_XOR2 1 3 0, Op EC_GF_OP_XOR2 7 1 0,
       Op EC_GF_OP_XOR2 5 7 0, Op EC_GF_OP_XOR2 7 9 0, Op EC_GF_OP_XOR2 6 5 0, Op EC_GF_OP_XOR2 4 5 0,
       Op EC_GF_OP_XOR2 3 6 0, Op EC_GF_OP_XOR2 0 3 0, Op EC_GF_OP_XOR3 5 8 0, Op EC_GF_OP_XOR2 2 5 0,
       Op EC_GF_OP_XOR2 5 4 0, Op EC_GF_OP_END 0 0 0],
    Mul 8 [6, 7, 0, 1, 2, 3, 5, 4]
      [Op EC_GF_OP_XOR2 4 1 0, Op EC_GF_OP_XOR2 5 4 0, Op EC_GF_OP_XOR2 6 5 0, Op EC_GF_OP_XOR2 2 0 0,
       Op EC_GF_OP_XOR2 2 6 0, Op EC_GF_OP_XOR2 3 1 0, Op EC_GF_OP_XOR2 4 2 0, Op EC_GF_OP_XOR2 3 0 0,
       Op EC_GF_OP_XOR2 7 4 0, Op EC_GF_OP_XOR2 3 7 0, Op EC_GF_OP_XOR2 5 3 0, Op EC_GF_OP_XOR2 4 5 0,
       Op EC_GF_OP_XOR2 0 4 0, Op EC_GF_OP_END 0 0 0],
    Mul 8 [6, 4, 5, 1, 7, 2, 3, 0]
      [Op EC_GF_OP_XOR2 2 7 0, Op EC_GF_OP_XOR2 4 2 0, Op EC_GF_OP_XOR2 1 3 0, Op EC_GF_OP_XOR2 3 4 0,
       Op EC_GF_OP_XOR2 0 2 0, Op EC_GF_OP_XOR2 5 3 0, Op EC_GF_OP_XOR2 6 1 0, Op EC_GF_OP_XOR2 0 5 0,
       Op EC_GF_OP_XOR2 2 6 0, Op EC_GF_OP_XOR2 6 0 0, Op EC_GF_OP_XOR2 4 6 0, Op EC_GF_OP_XOR2 7 4 0,
       Op EC_GF_OP_END 0 0 0]]"

definition ec_gf8_mul_94_99 :: "ec_gf_mul_t list" where
  "ec_gf8_mul_94_99 = [
    Mul 8 [7, 5, 0, 2, 6, 1, 3, 4]
      [Op EC_GF_OP_XOR2 0 2 0, Op EC_GF_OP_XOR2 2 6 0, Op EC_GF_OP_XOR2 7 2 0, Op EC_GF_OP_XOR2 3 7 0,
       Op EC_GF_OP_XOR2 0 3 0, Op EC_GF_OP_XOR2 3 5 0, Op EC_GF_OP_XOR2 1 4 0, Op EC_GF_OP_XOR2 5 2 0,
       Op EC_GF_OP_XOR2 4 0 0, Op EC_GF_OP_XOR2 1 5 0, Op EC_GF_OP_XOR2 7 1 0, Op EC_GF_OP_XOR2 0 7 0,
       Op EC_GF_OP_XOR2 6 0 0, Op EC_GF_OP_END 0 0 0],
    Mul 8 [7, 6, 1, 3, 0, 4, 5, 2]
      [Op EC_GF_OP_XOR2 3 2 0, Op EC_GF_OP_XOR2 7 3 0, Op EC_GF_OP_XOR2 3 6 0, Op EC_GF_OP_XOR2 0 3 0,
       Op EC_GF_OP_XOR2 4 0 0, Op EC_GF_OP_XOR2 2 4 0, Op EC_GF_OP_XOR2 4 5 0, Op EC_GF_OP_XOR2 1 4 0,
       Op EC_GF_OP_XOR2 5 7 0, Op EC_GF_OP_XOR2 6 1 0, Op EC_GF_OP_XOR2 7 6 0, Op EC_GF_OP_XOR2 6 2 0,
       Op EC_GF_OP_XOR2 0 6 0, Op EC_GF_OP_XOR2 4 0 0, Op EC_GF_OP_END 0 0 0],
    Mul 9 [4, 0, 1, 6, 7, 2, 3, 5, 8]
      [Op EC_GF_OP_XOR2 5 1 0, Op EC_GF_OP_XOR2 4 5 0, Op EC_GF_OP_XOR2 5 6 0, Op EC_GF_OP_XOR2 6 7 0,
       Op EC_GF_OP_XOR3 8 0 4, Op EC_GF_OP_XOR2 3 6 0, Op EC_GF_OP_XOR2 7 8 0, Op EC_GF_OP_XOR2 0 1 0,
       Op EC_GF_OP_XOR2 8 3 0, Op EC_GF_OP_XOR2 3 2 0, Op EC_GF_OP_XOR2 1 8 0, Op EC_GF_OP_XOR2 2 5 0,
       Op EC_GF_OP_XOR2 5 8 0, Op EC_GF_OP_XOR2 0 2 0, Op EC_GF_OP_END 0 0 0],
    Mul 9 [4, 5, 3, 6, 7, 1, 2, 0, 8]
      [Op EC_GF_OP_XOR2 5 0 0, Op EC_GF_OP_COPY 8 2 0, Op EC_GF_OP_XOR2 0 3 0, Op EC_GF_OP_XOR2 8 6 0,
       Op EC_GF_OP_XOR2 5 1 0, Op EC_GF_OP_XOR2 3 7 0, Op EC_GF_OP_XOR2 1 8 0, Op EC_GF_OP_XOR2 7 5 0,
       Op EC_GF_OP_XOR2 2 3 0, Op EC_GF_OP_XOR2 6 3 0, Op EC_GF_OP_XOR2 0 4 0, Op EC_GF_OP_XOR2 3 1 0,
       Op EC_GF_OP_XOR2 4 5 0, Op EC_GF_OP_XOR2 5 8 0, Op EC_GF_OP_XOR2 3 4 0, Op EC_GF_OP_END 0 0 0],
    Mul 8 [4, 2, 3, 6, 7, 5, 1, 0]
      [Op EC_GF_OP_XOR2 5 7 0, Op EC_GF_OP_XOR2 4 1 0, Op EC_GF_OP_XOR2 2 5 0, Op EC_GF_OP_XOR2 4 7 0,
       Op EC_GF_OP_XOR2 1 2 0, Op EC_GF_OP_XOR2 3 4 0, Op EC_GF_OP_XOR2 0 1 0, Op EC_GF_OP_XOR2 4 6 0,
       Op EC_GF_OP_XOR2 5 3 0, Op EC_GF_OP_XOR2 6 0 0, Op EC_GF_OP_XOR2 1 4 0, Op EC_GF_OP_XOR2 0 5 0,
       Op EC_GF_OP_XOR2 7 0 0, Op EC_GF_OP_XOR2 0 1 0, Op EC_GF_OP_END 0 0 0],
    Mul 8 [6, 5, 3, 7, 0, 1, 4, 2]
      [Op EC_GF_OP_XOR2 0 2 0, Op EC_GF_OP_XOR2 7 1 0, Op EC_GF_OP_XOR2 0 3 0, Op EC_GF_OP_XOR2 7 2 0,
       Op EC_GF_OP_XOR2 3 4 0, Op EC_GF_OP_XOR2 2 5 0, Op EC_GF_OP_XOR2 1 3 0, Op EC_GF_OP_XOR2 5 7 0,
       Op EC_GF_OP_XOR2 4 2 0, Op EC_GF_OP_XOR2 3 7 0, Op EC_GF_OP_XOR2 6 0 0, Op EC_GF_OP_XOR2 2 6 0,
       Op EC_GF_OP_XOR2 6 3 0, Op EC_GF_OP_XOR2 7 2 0, Op EC_GF_OP_END 0 0 0]]"

definition ec_gf8_mul_9A_9F :: "ec_gf_mul_t list" where
  "ec_gf8_mul_9A_9F = [
    Mul 9 [6, 3, 4, 0, 5, 1, 2, 7, 8]
      [Op EC_GF_OP_XOR2 5 4 0, Op EC_GF_OP_XOR2 6 4 0, Op EC_GF_OP_XOR2 4 3 0, Op EC_GF_OP_XOR2 3 2 0,
       Op EC_GF_OP_XOR2 2 6 0, Op EC_GF_OP_XOR2 6 1 0, Op EC_GF_OP_XOR2 1 0 0, Op EC_GF_OP_XOR2 0 5 0,
       Op EC_GF_OP_XOR3 8 4 0, Op EC_GF_OP_XOR2 0 6 0, Op EC_GF_OP_XOR2 7 8 0, Op EC_GF_OP_XOR2 1 8 0,
       Op EC_GF_OP_XOR2 3 7 0, Op EC_GF_OP_XOR2 5 3 0, Op EC_GF_OP_END 0 0 0],
    Mul 10 [4, 5, 8, 6, 7, 1, 2, 0, 3, 9]
      [Op EC_GF_OP_XOR2 6 0 0, Op EC_GF_OP_XOR2 7 2 0, Op EC_GF_OP_COPY 9 5 0, Op EC_GF_OP_XOR2 7 0 0,
       Op EC_GF_OP_XOR2 2 4 0, Op EC_GF_OP_XOR2 6 1 0, Op EC_GF_OP_XOR2 5 1 0, Op EC_GF_OP_XOR2 4 6 0,
       Op EC_GF_OP_XOR3 8 3 2, Op EC_GF_OP_XOR2 1 3 0, Op EC_GF_OP_XOR2 5 7 0, Op EC_GF_OP_XOR2 3 9 0,
       Op EC_GF_OP_XOR2 0 3 0, Op EC_GF_OP_XOR2 6 3 0, Op EC_GF_OP_END 0 0 0],
    Mul 8 [3, 2, 1, 0, 4, 5, 6, 7]
      [Op EC_GF_OP_XOR2 3 0 0, Op EC_GF_OP_XOR2 3 6 0, Op EC_GF_OP_XOR2 7 3 0, Op EC_GF_OP_XOR2 4 7 0,
       Op EC_GF_OP_XOR2 1 4 0, Op EC_GF_OP_XOR2 3 1 0, Op EC_GF_OP_XOR2 2 5 0, Op EC_GF_OP_XOR2 5 3 0,
       Op EC_GF_OP_XOR2 6 2 0, Op EC_GF_OP_XOR2 0 2 0, Op EC_GF_OP_END 0 0 0],
    Mul 8 [0, 1, 2, 3, 7, 4, 5, 6]
      [Op EC_GF_OP_XOR2 3 0 0, Op EC_GF_OP_XOR2 4 1 0, Op EC_GF_OP_XOR2 6 3 0, Op EC_GF_OP_XOR2 5 2 0,
       Op EC_GF_OP_XOR2 2 6 0, Op EC_GF_OP_XOR2 4 7 0, Op EC_GF_OP_XOR2 1 5 0, Op EC_GF_OP_XOR2 3 5 0,
       Op EC_GF_OP_XOR2 7 6 0, Op EC_GF_OP_XOR2 0 4 0, Op EC_GF_OP_XOR2 2 4 0, Op EC_GF_OP_END 0 0 0],
    Mul 9 [4, 5, 3, 8, 6, 0, 2, 7, 1]
      [Op EC_GF_OP_XOR2 7 0 0, Op EC_GF_OP_COPY 8 7 0, Op EC_GF_OP_XOR2 8 5 0, Op EC_GF_OP_XOR2 5 2 0,
       Op EC_GF_OP_XOR2 2 6 0, Op EC_GF_OP_XOR2 5 0 0, Op EC_GF_OP_XOR2 6 4 0, Op EC_GF_OP_XOR2 6 0 0,
       Op EC_GF_OP_XOR2 7 3 0, Op EC_GF_OP_XOR2 0 1 0, Op EC_GF_OP_XOR2 4 1 0, Op EC_GF_OP_XOR2 3 6 0,
       Op EC_GF_OP_XOR2 0 8 0, Op EC_GF_OP_END 0 0 0],
    Mul 9 [4, 5, 6, 7, 0, 1, 2, 3, 8]
      [Op EC_GF_OP_XOR3 8 1 2, Op EC_GF_OP_XOR2 8 3 0, Op EC_GF_OP_XOR2 3 0 0, Op EC_GF_OP_XOR2 4 0 0,
       Op EC_GF_OP_XOR2 4 1 0, Op EC_GF_OP_XOR2 5 3 0, Op EC_GF_OP_XOR2 0 6 0, Op EC_GF_OP_XOR2 1 7 0,
       Op EC_GF_OP_XOR2 6 4 0, Op EC_GF_OP_XOR2 7 5 0, Op EC_GF_OP_XOR2 6 8 0, Op EC_GF_OP_XOR2 5 8 0,
       Op EC_GF_OP_END 0 0 0]]"

definition ec_gf8_mul_A0_A5 :: "ec_gf_mul_t list" where
  "ec_gf8_mul_A0_A5 = [
    Mul 8 [3, 1, 6, 7, 5, 2, 4, 0]
      [Op EC_GF_OP_XOR2 6 1 0, Op EC_GF_OP_XOR2 5 6 0, Op EC_GF_OP_XOR2 6 7 0, Op EC_GF_OP_XOR2 0 1 0,
       Op EC_GF_OP_XOR2 4 6 0, Op EC_GF_OP_XOR2 1 2 0, Op EC_GF_OP_XOR2 1 4 0, Op EC_GF_OP_XOR2 4 3 0,
       Op EC_GF_OP_XOR2 3 5 0, Op EC_GF_OP_XOR2 2 3 0, Op EC_GF_OP_XOR2 5 1 0, Op EC_GF_OP_XOR2 7 2 0,
       Op EC_GF_OP_XOR2 2 0 0, Op EC_GF_OP_XOR2 0 5 0, Op EC_GF_OP_END 0 0 0],
    Mul 9 [7, 4, 1, 5, 6, 0, 2, 3, 8]
      [Op EC_GF_OP_XOR2 2 6 0, Op EC_GF_OP_XOR2 1 7 0, Op EC_GF_OP_XOR2 1 2 0, Op EC_GF_OP_XOR2 5 1 0,
       Op EC_GF_OP_XOR2 0 3 0, Op EC_GF_OP_XOR2 6 5 0, Op EC_GF_OP_XOR2 4 1 0, Op EC_GF_OP_XOR2 0 2 0,
       Op EC_GF_OP_XOR2 3 4 0, Op EC_GF_OP_XOR3 8 0 6, Op EC_GF_OP_XOR2 2 3 0, Op EC_GF_OP_XOR2 7 8 0,
       Op EC_GF_OP_XOR2 3 8 0, Op EC_GF_OP_END 0 0 0],
    Mul 8 [7, 0, 6, 3, 2, 1, 4, 5]
      [Op EC_GF_OP_XOR2 2 1 0, Op EC_GF_OP_XOR2 2 4 0, Op EC_GF_OP_XOR2 3 5 0, Op EC_GF_OP_XOR2 1 6 0,
       Op EC_GF_OP_XOR2 2 3 0, Op EC_GF_OP_XOR2 3 1 0, Op EC_GF_OP_XOR2 0 2 0, Op EC_GF_OP_XOR2 7 3 0,
       Op EC_GF_OP_XOR2 1 0 0, Op EC_GF_OP_XOR2 0 7 0, Op EC_GF_OP_XOR2 4 7 0, Op EC_GF_OP_XOR2 5 0 0,
       Op EC_GF_OP_END 0 0 0],
    Mul 9 [3, 7, 2, 6, 1, 4, 0, 5, 8]
      [Op EC_GF_OP_COPY 8 2 0, Op EC_GF_OP_XOR2 2 6 0, Op EC_GF_OP_XOR2 0 2 0, Op EC_GF_OP_XOR2 4 0 0,
       Op EC_GF_OP_XOR2 1 5 0, Op EC_GF_OP_XOR2 5 4 0, Op EC_GF_OP_XOR2 6 1 0, Op EC_GF_OP_XOR2 4 3 0,
       Op EC_GF_OP_XOR2 7 1 0, Op EC_GF_OP_XOR2 3 8 0, Op EC_GF_OP_XOR2 0 7 0, Op EC_GF_OP_XOR2 1 3 0,
       Op EC_GF_OP_XOR2 7 5 0, Op EC_GF_OP_XOR2 3 0 0, Op EC_GF_OP_XOR2 0 4 0, Op EC_GF_OP_END 0 0 0],
    Mul 8 [5, 6, 7, 2, 4, 3, 0, 1]
      [Op EC_GF_OP_XOR2 0 1 0, Op EC_GF_OP_XOR2 4 2 0, Op EC_GF_OP_XOR2 5 3 0, Op EC_GF_OP_XOR2 7 0 0,
       Op EC_GF_OP_XOR2 2 5 0, Op EC_GF_OP_XOR2 6 4 0, Op EC_GF_OP_XOR2 5 1 0, Op EC_GF_OP_XOR2 4 7 0,
       Op EC_GF_OP_XOR2 3 6 0, Op EC_GF_OP_XOR2 1 4 0, Op EC_GF_OP_XOR2 3 1 0, Op EC_GF_OP_XOR2 0 3 0,
       Op EC_GF_OP_XOR2 3 2 0, Op EC_GF_OP_XOR2 4 3 0, Op EC_GF_OP_END 0 0 0],
    Mul 9 [1, 4, 2, 5, 6, 7, 3, 0, 8]
      [Op EC_GF_OP_XOR2 7 1 0, Op EC_GF_OP_XOR2 1 5 0, Op EC_GF_OP_XOR2 7 0 0, Op EC_GF_OP_XOR2 3 0 0,
       Op EC_GF_OP_XOR2 6 1 0, Op EC_GF_OP_XOR2 5 2 0, Op EC_GF_OP_XOR2 0 2 0, Op EC_GF_OP_XOR2 1 3 0,
       Op EC_GF_OP_XOR3 8 5 6, Op EC_GF_OP_XOR2 2 7 0, Op EC_GF_OP_XOR2 0 4 0, Op EC_GF_OP_XOR2 3 7 0,
       Op EC_GF_OP_XOR2 4 8 0, Op EC_GF_OP_XOR2 7 8 0, Op EC_GF_OP_END 0 0 0]]"

definition ec_gf8_mul_A6_AB :: "ec_gf_mul_t list" where
  "ec_gf8_mul_A6_AB = [
    Mul 8 [1, 2, 0, 3, 4, 5, 6, 7]
      [Op EC_GF_OP_XOR2 2 0 0, Op EC_GF_OP_XOR2 4 6 0, Op EC_GF_OP_XOR2 3 5 0, Op EC_GF_OP_XOR2 2 4 0,
       Op EC_GF_OP_XOR2 3 7 0, Op EC_GF_OP_XOR2 7 2 0, Op EC_GF_OP_XOR2 1 3 0, Op EC_GF_OP_XOR2 5 7 0,
       Op EC_GF_OP_XOR2 6 1 0, Op EC_GF_OP_XOR2 4 1 0, Op EC_GF_OP_END 0 0 0],
    Mul 8 [0, 1, 2, 5, 6, 7, 3, 4]
      [Op EC_GF_OP_XOR2 2 0 0, Op EC_GF_OP_XOR2 3 1 0, Op EC_GF_OP_XOR2 5 7 0, Op EC_GF_OP_XOR2 4 2 0,
       Op EC_GF_OP_XOR2 3 5 0, Op EC_GF_OP_XOR2 4 6 0, Op EC_GF_OP_XOR2 0 3 0, Op EC_GF_OP_XOR2 6 3 0,
       Op EC_GF_OP_XOR2 1 4 0, Op EC_GF_OP_XOR2 7 4 0, Op EC_GF_OP_END 0 0 0],
    Mul 10 [1, 7, 5, 8, 6, 3, 4, 0, 2, 9]
      [Op EC_GF_OP_XOR2 0 2 0, Op EC_GF_OP_XOR2 0 7 0, Op EC_GF_OP_COPY 8 0 0, Op EC_GF_OP_XOR2 8 1 0,
       Op EC_GF_OP_XOR2 1 6 0, Op EC_GF_OP_COPY 9 4 0, Op EC_GF_OP_XOR2 0 5 0, Op EC_GF_OP_XOR2 4 1 0,
       Op EC_GF_OP_XOR2 5 1 0, Op EC_GF_OP_XOR2 8 3 0, Op EC_GF_OP_XOR2 1 3 0, Op EC_GF_OP_XOR2 3 2 0,
       Op EC_GF_OP_XOR2 2 9 0, Op EC_GF_OP_XOR2 3 0 0, Op EC_GF_OP_XOR2 7 2 0, Op EC_GF_OP_XOR2 6 2 0,
       Op EC_GF_OP_END 0 0 0],
    Mul 8 [3, 7, 6, 1, 2, 0, 4, 5]
      [Op EC_GF_OP_XOR2 4 1 0, Op EC_GF_OP_XOR2 1 0 0, Op EC_GF_OP_XOR2 5 0 0, Op EC_GF_OP_XOR2 0 3 0,
       Op EC_GF_OP_XOR2 0 7 0, Op EC_GF_OP_XOR2 5 2 0, Op EC_GF_OP_XOR2 7 2 0, Op EC_GF_OP_XOR2 2 6 0,
       Op EC_GF_OP_XOR2 6 1 0, Op EC_GF_OP_XOR2 1 7 0, Op EC_GF_OP_XOR2 3 6 0, Op EC_GF_OP_XOR2 7 4 0,
       Op EC_GF_OP_XOR2 6 5 0, Op EC_GF_OP_END 0 0 0],
    Mul 8 [0, 4, 5, 3, 6, 7, 1, 2]
      [Op EC_GF_OP_XOR2 5 6 0, Op EC_GF_OP_XOR2 3 0 0, Op EC_GF_OP_XOR2 4 5 0, Op EC_GF_OP_XOR2 6 3 0,
       Op EC_GF_OP_XOR2 5 7 0, Op EC_GF_OP_XOR2 2 0 0, Op EC_GF_OP_XOR2 7 6 0, Op EC_GF_OP_XOR2 2 5 0,
       Op EC_GF_OP_XOR2 0 1 0, Op EC_GF_OP_XOR2 3 1 0, Op EC_GF_OP_XOR2 0 7 0, Op EC_GF_OP_XOR2 1 4 0,
       Op EC_GF_OP_XOR2 7 4 0, Op EC_GF_OP_XOR2 4 2 0, Op EC_GF_OP_XOR2 6 4 0, Op EC_GF_OP_END 0 0 0],
    Mul 10 [2, 3, 8, 0, 5, 6, 1, 4, 7, 9]
      [Op EC_GF_OP_COPY 8 0 0, Op EC_GF_OP_XOR2 0 1 0, Op EC_GF_OP_XOR2 1 4 0, Op EC_GF_OP_XOR2 1 5 0,
       Op EC_GF_OP_XOR2 6 1 0, Op EC_GF_OP_XOR2 2 0 0, Op EC_GF_OP_COPY 9 6 0, Op EC_GF_OP_XOR2 6 2 0,
       Op EC_GF_OP_XOR2 4 6 0, Op EC_GF_OP_XOR2 7 4 0, Op EC_GF_OP_XOR2 8 7 0, Op EC_GF_OP_XOR2 3 8 0,
       Op EC_GF_OP_XOR2 5 3 0, Op EC_GF_OP_XOR2 6 3 0, Op EC_GF_OP_XOR2 2 5 0, Op EC_GF_OP_XOR3 3 9 7,
       Op EC_GF_OP_END 0 0 0]]"

definition ec_gf8_mul_AC_B1 :: "ec_gf_mul_t list" where
  "ec_gf8_mul_AC_B1 = [
    Mul 8 [3, 2, 1, 0, 4, 5, 6, 7]
      [Op EC_GF_OP_XOR2 5 0 0, Op EC_GF_OP_XOR2 0 2 0, Op EC_GF_OP_XOR2 2 4 0, Op EC_GF_OP_XOR2 4 7 0,
       Op EC_GF_OP_XOR2 7 0 0, Op EC_GF_OP_XOR2 0 3 0, Op EC_GF_OP_XOR2 0 6 0, Op EC_GF_OP_XOR2 3 1 0,
       Op EC_GF_OP_XOR2 6 1 0, Op EC_GF_OP_XOR2 1 5 0, Op EC_GF_OP_END 0 0 0],
    Mul 9 [3, 4, 5, 6, 7, 0, 1, 2, 8]
      [Op EC_GF_OP_XOR3 8 1 2, Op EC_GF_OP_XOR2 2 0 0, Op EC_GF_OP_XOR2 3 1 0, Op EC_GF_OP_XOR2 5 0 0,
       Op EC_GF_OP_XOR2 3 0 0, Op EC_GF_OP_XOR2 4 8 0, Op EC_GF_OP_XOR2 5 8 0, Op EC_GF_OP_XOR2 6 2 0,
       Op EC_GF_OP_END 0 0 0],
    Mul 9 [7, 0, 5, 6, 3, 4, 1, 2, 8]
      [Op EC_GF_OP_XOR2 6 5 0, Op EC_GF_OP_XOR2 5 0 0, Op EC_GF_OP_COPY 8 5 0, Op EC_GF_OP_XOR2 5 7 0,
       Op EC_GF_OP_XOR2 7 1 0, Op EC_GF_OP_XOR2 0 2 0, Op EC_GF_OP_XOR2 1 6 0, Op EC_GF_OP_XOR2 7 3 0,
       Op EC_GF_OP_XOR2 6 5 0, Op EC_GF_OP_XOR2 2 6 0, Op EC_GF_OP_XOR2 0 4 0, Op EC_GF_OP_XOR2 6 3 0,
       Op EC_GF_OP_XOR2 3 4 0, Op EC_GF_OP_XOR2 4 8 0, Op EC_GF_OP_END 0 0 0],
    Mul 8 [0, 1, 2, 7, 3, 4, 5, 6]
      [Op EC_GF_OP_XOR2 4 0 0, Op EC_GF_OP_XOR2 6 0 0, Op EC_GF_OP_XOR2 0 1 0, Op EC_GF_OP_XOR2 0 7 0,
       Op EC_GF_OP_XOR2 5 1 0, Op EC_GF_OP_XOR2 7 6 0, Op EC_GF_OP_XOR2 1 2 0, Op EC_GF_OP_XOR2 6 2 0,
       Op EC_GF_OP_XOR2 2 5 0, Op EC_GF_OP_XOR2 1 4 0, Op EC_GF_OP_XOR2 2 0 0, Op EC_GF_OP_XOR2 0 3 0,
       Op EC_GF_OP_END 0 0 0],
    Mul 8 [4, 0, 7, 2, 3, 1, 6, 5]
      [Op EC_GF_OP_XOR2 4 1 0, Op EC_GF_OP_XOR2 3 6 0, Op EC_GF_OP_XOR2 7 4 0, Op EC_GF_OP_XOR2 4 3 0,
       Op EC_GF_OP_XOR2 2 4 0, Op EC_GF_OP_XOR2 1 0 0, Op EC_GF_OP_XOR2 4 5 0, Op EC_GF_OP_XOR2 6 2 0,
       Op EC_GF_OP_XOR2 1 6 0, Op EC_GF_OP_XOR2 0 4 0, Op EC_GF_OP_XOR2 5 1 0, Op EC_GF_OP_XOR2 1 7 0,
       Op EC_GF_OP_XOR2 0 1 0, Op EC_GF_OP_XOR2 3 1 0, Op EC_GF_OP_END 0 0 0],
    Mul 9 [2, 6, 4, 7, 0, 1, 3, 5, 8]
      [Op EC_GF_OP_XOR2 4 1 0, Op EC_GF_OP_COPY 8 4 0, Op EC_GF_OP_XOR2 2 7 0, Op EC_GF_OP_XOR2 4 2 0,
       Op EC_GF_OP_XOR2 2 3 0, Op EC_GF_OP_XOR2 6 4 0, Op EC_GF_OP_XOR2 1 0 0, Op EC_GF_OP_XOR2 2 5 0,
       Op EC_GF_OP_XOR2 0 6 0, Op EC_GF_OP_XOR2 7 6 0, Op EC_GF_OP_XOR2 1 2 0, Op EC_GF_OP_XOR2 6 5 0,
       Op EC_GF_OP_XOR2 3 7 0, Op EC_GF_OP_XOR2 2 0 0, Op EC_GF_OP_XOR3 5 8 1, Op EC_GF_OP_END 0 0 0]]"

definition ec_gf8_mul_B2_B7 :: "ec_gf_mul_t list" where
  "ec_gf8_mul_B2_B7 = [
    Mul 9 [0, 7, 4, 5, 6, 1, 2, 3, 8]
      [Op EC_GF_OP_XOR2 1 3 0, Op EC_GF_OP_XOR2 2 1 0, Op EC_GF_OP_XOR2 0 2 0, Op EC_GF_OP_XOR2 6 0 0,
       Op EC_GF_OP_XOR2 1 6 0, Op EC_GF_OP_XOR3 8 4 5, Op EC_GF_OP_XOR2 2 8 0, Op EC_GF_OP_XOR2 8 1 0,
       Op EC_GF_OP_XOR2 7 8 0, Op EC_GF_OP_XOR2 3 8 0, Op EC_GF_OP_XOR2 0 7 0, Op EC_GF_OP_XOR2 5 0 0,
       Op EC_GF_OP_XOR2 1 5 0, Op EC_GF_OP_END 0 0 0],
    Mul 10 [2, 3, 4, 5, 1, 6, 0, 7, 8, 9]
      [Op EC_GF_OP_XOR2 5 0 0, Op EC_GF_OP_COPY 9 5 0, Op EC_GF_OP_XOR2 4 2 0, Op EC_GF_OP_XOR3 8 6 4,
       Op EC_GF_OP_XOR2 5 3 0, Op EC_GF_OP_XOR2 8 5 0, Op EC_GF_OP_XOR2 0 1 0, Op EC_GF_OP_XOR2 7 8 0,
       Op EC_GF_OP_XOR2 0 8 0, Op EC_GF_OP_XOR2 1 7 0, Op EC_GF_OP_XOR2 2 1 0, Op EC_GF_OP_XOR2 6 1 0,
       Op EC_GF_OP_XOR2 3 1 0, Op EC_GF_OP_XOR2 5 2 0, Op EC_GF_OP_XOR3 1 9 0, Op EC_GF_OP_END 0 0 0],
    Mul 8 [5, 6, 7, 0, 1, 2, 3, 4]
      [Op EC_GF_OP_XOR2 3 1 0, Op EC_GF_OP_XOR2 4 3 0, Op EC_GF_OP_XOR2 1 0 0, Op EC_GF_OP_XOR2 3 2 0,
       Op EC_GF_OP_XOR2 2 1 0, Op EC_GF_OP_XOR2 5 4 0, Op EC_GF_OP_XOR2 4 2 0, Op EC_GF_OP_XOR2 6 3 0,
       Op EC_GF_OP_XOR2 7 4 0, Op EC_GF_OP_XOR2 0 7 0, Op EC_GF_OP_XOR2 7 6 0, Op EC_GF_OP_XOR2 6 5 0,
       Op EC_GF_OP_END 0 0 0],
    Mul 9 [3, 4, 0, 7, 1, 5, 6, 2, 8]
      [Op EC_GF_OP_XOR2 1 0 0, Op EC_GF_OP_XOR2 0 2 0, Op EC_GF_OP_XOR2 0 3 0, Op EC_GF_OP_XOR2 6 0 0,
       Op EC_GF_OP_COPY 8 6 0, Op EC_GF_OP_XOR2 6 1 0, Op EC_GF_OP_XOR2 1 4 0, Op EC_GF_OP_XOR2 4 2 0,
       Op EC_GF_OP_XOR2 5 1 0, Op EC_GF_OP_XOR2 7 4 0, Op EC_GF_OP_XOR2 3 5 0, Op EC_GF_OP_XOR2 0 7 0,
       Op EC_GF_OP_XOR2 5 4 0, Op EC_GF_OP_XOR2 2 0 0, Op EC_GF_OP_XOR3 4 8 3, Op EC_GF_OP_XOR2 0 6 0,
       Op EC_GF_OP_END 0 0 0],
    Mul 8 [5, 3, 6, 4, 7, 0, 1, 2]
      [Op EC_GF_OP_XOR2 7 1 0, Op EC_GF_OP_XOR2 0 4 0, Op EC_GF_OP_XOR2 1 2 0, Op EC_GF_OP_XOR2 4 3 0,
       Op EC_GF_OP_XOR2 2 3 0, Op EC_GF_OP_XOR2 7 4 0, Op EC_GF_OP_XOR2 3 5 0, Op EC_GF_OP_XOR2 5 7 0,
       Op EC_GF_OP_XOR2 6 0 0, Op EC_GF_OP_XOR2 7 0 0, Op EC_GF_OP_XOR2 0 1 0, Op EC_GF_OP_XOR2 2 6 0,
       Op EC_GF_OP_XOR2 1 3 0, Op EC_GF_OP_XOR2 3 2 0, Op EC_GF_OP_END 0 0 0],
    Mul 8 [5, 0, 1, 4, 2, 6, 7, 3]
      [Op EC_GF_OP_XOR2 2 1 0, Op EC_GF_OP_XOR2 0 4 0, Op EC_GF_OP_XOR2 2 6 0, Op EC_GF_OP_XOR2 0 2 0,
       Op EC_GF_OP_XOR2 1 0 0, Op EC_GF_OP_XOR2 0 5 0, Op EC_GF_OP_XOR2 7 1 0, Op EC_GF_OP_XOR2 3 7 0,
       Op EC_GF_OP_XOR2 6 0 0, Op EC_GF_OP_XOR2 2 3 0, Op EC_GF_OP_XOR2 5 2 0, Op EC_GF_OP_XOR2 7 5 0,
       Op EC_GF_OP_END 0 0 0]]"

definition ec_gf8_mul_B8_BD :: "ec_gf_mul_t list" where
  "ec_gf8_mul_B8_BD = [
    Mul 8 [6, 4, 5, 1, 2, 0, 7, 3]
      [Op EC_GF_OP_XOR2 2 5 0, Op EC_GF_OP_XOR2 7 2 0, Op EC_GF_OP_XOR2 2 0 0, Op EC_GF_OP_XOR2 0 1 0,
       Op EC_GF_OP_XOR2 6 3 0, Op EC_GF_OP_XOR2 3 2 0, Op EC_GF_OP_XOR2 1 4 0, Op EC_GF_OP_XOR2 0 6 0,
       Op EC_GF_OP_XOR2 4 7 0, Op EC_GF_OP_XOR2 5 1 0, Op EC_GF_OP_XOR2 6 1 0, Op EC_GF_OP_XOR2 7 5 0,
       Op EC_GF_OP_XOR2 1 3 0, Op EC_GF_OP_END 0 0 0],
    Mul 9 [6, 7, 0, 2, 1, 4, 5, 3, 8]
      [Op EC_GF_OP_COPY 8 0 0, Op EC_GF_OP_XOR2 0 1 0, Op EC_GF_OP_XOR2 2 5 0, Op EC_GF_OP_XOR2 0 4 0,
       Op EC_GF_OP_XOR2 2 0 0, Op EC_GF_OP_XOR2 3 0 0, Op EC_GF_OP_XOR3 0 8 2, Op EC_GF_OP_XOR2 6 3 0,
       Op EC_GF_OP_XOR2 1 2 0, Op EC_GF_OP_XOR2 7 0 0, Op EC_GF_OP_XOR2 5 6 0, Op EC_GF_OP_XOR2 3 7 0,
       Op EC_GF_OP_XOR2 4 5 0, Op EC_GF_OP_XOR2 5 3 0, Op EC_GF_OP_END 0 0 0],
    Mul 8 [1, 2, 4, 3, 5, 6, 0, 7]
      [Op EC_GF_OP_XOR2 2 0 0, Op EC_GF_OP_XOR2 5 7 0, Op EC_GF_OP_XOR2 4 5 0, Op EC_GF_OP_XOR2 3 2 0,
       Op EC_GF_OP_XOR2 2 4 0, Op EC_GF_OP_XOR2 5 3 0, Op EC_GF_OP_XOR2 1 2 0, Op EC_GF_OP_XOR2 6 5 0,
       Op EC_GF_OP_XOR2 0 1 0, Op EC_GF_OP_XOR2 7 6 0, Op EC_GF_OP_XOR2 3 0 0, Op EC_GF_OP_XOR2 6 0 0,
       Op EC_GF_OP_XOR2 1 7 0, Op EC_GF_OP_END 0 0 0],
    Mul 9 [7, 2, 1, 8, 3, 5, 6, 4, 0]
      [Op EC_GF_OP_XOR2 3 6 0, Op EC_GF_OP_COPY 8 3 0, Op EC_GF_OP_XOR2 1 0 0, Op EC_GF_OP_XOR2 3 1 0,
       Op EC_GF_OP_XOR2 4 3 0, Op EC_GF_OP_XOR2 8 5 0, Op EC_GF_OP_XOR2 7 4 0, Op EC_GF_OP_XOR2 5 4 0,
       Op EC_GF_OP_XOR2 8 7 0, Op EC_GF_OP_XOR2 2 8 0, Op EC_GF_OP_XOR2 0 2 0, Op EC_GF_OP_XOR2 1 2 0,
       Op EC_GF_OP_XOR2 6 0 0, Op EC_GF_OP_XOR2 4 0 0, Op EC_GF_OP_XOR2 3 6 0, Op EC_GF_OP_END 0 0 0],
    Mul 9 [2, 6, 3, 4, 5, 1, 7, 0, 8]
      [Op EC_GF_OP_COPY 8 1 0, Op EC_GF_OP_XOR2 8 2 0, Op EC_GF_OP_XOR2 6 0 0, Op EC_GF_OP_XOR2 2 3 0,
       Op EC_GF_OP_XOR2 6 7 0, Op EC_GF_OP_XOR2 0 2 0, Op EC_GF_OP_XOR2 4 2 0, Op EC_GF_OP_XOR2 1 6 0,
       Op EC_GF_OP_XOR2 7 8 0, Op EC_GF_OP_XOR3 2 8 4, Op EC_GF_OP_XOR2 5 6 0, Op EC_GF_OP_XOR2 4 5 0,
       Op EC_GF_OP_XOR2 3 4 0, Op EC_GF_OP_XOR2 6 3 0, Op EC_GF_OP_XOR2 3 7 0, Op EC_GF_OP_END 0 0 0],
    Mul 8 [4, 5, 0, 2, 7, 1, 6, 3]
      [Op EC_GF_OP_XOR2 3 0 0, Op EC_GF_OP_XOR2 3 1 0, Op EC_GF_OP_XOR2 1 2 0, Op EC_GF_OP_XOR2 7 1 0,
       Op EC_GF_OP_XOR2 1 4 0, Op EC_GF_OP_XOR2 4 3 0, Op EC_GF_OP_XOR2 5 1 0, Op EC_GF_OP_XOR2 3 7 0,
       Op EC_GF_OP_XOR2 0 6 0, Op EC_GF_OP_XOR2 0 5 0, Op EC_GF_OP_XOR2 6 7 0, Op EC_GF_OP_XOR2 7 0 0,
       Op EC_GF_OP_XOR2 2 7 0, Op EC_GF_OP_XOR2 1 2 0, Op EC_GF_OP_END 0 0 0]]"

definition ec_gf8_mul_BE_C3 :: "ec_gf_mul_t list" where
  "ec_gf8_mul_BE_C3 = [
    Mul 8 [0, 6, 7, 4, 5, 1, 3, 2]
      [Op EC_GF_OP_XOR2 0 3 0, Op EC_GF_OP_XOR2 0 6 0, Op EC_GF_OP_XOR2 1 5 0, Op EC_GF_OP_XOR2 5 0 0,
       Op EC_GF_OP_XOR2 4 5 0, Op EC_GF_OP_XOR2 3 4 0, Op EC_GF_OP_XOR2 7 3 0, Op EC_GF_OP_XOR2 3 2 0,
       Op EC_GF_OP_XOR2 1 7 0, Op EC_GF_OP_XOR2 2 0 0, Op EC_GF_OP_XOR2 6 3 0, Op EC_GF_OP_XOR2 0 1 0,
       Op EC_GF_OP_XOR2 3 1 0, Op EC_GF_OP_END 0 0 0],
    Mul 8 [5, 6, 1, 7, 3, 0, 2, 4]
      [Op EC_GF_OP_XOR2 7 1 0, Op EC_GF_OP_XOR2 6 7 0, Op EC_GF_OP_XOR2 5 6 0, Op EC_GF_OP_XOR2 4 5 0,
       Op EC_GF_OP_XOR2 0 4 0, Op EC_GF_OP_XOR2 1 2 0, Op EC_GF_OP_XOR2 7 0 0, Op EC_GF_OP_XOR2 2 5 0,
       Op EC_GF_OP_XOR2 1 0 0, Op EC_GF_OP_XOR2 6 1 0, Op EC_GF_OP_XOR2 4 6 0, Op EC_GF_OP_XOR2 4 3 0,
       Op EC_GF_OP_XOR2 3 7 0, Op EC_GF_OP_XOR2 5 3 0, Op EC_GF_OP_END 0 0 0],
    Mul 8 [1, 2, 3, 4, 7, 5, 6, 0]
      [Op EC_GF_OP_XOR2 4 1 0, Op EC_GF_OP_XOR2 6 3 0, Op EC_GF_OP_XOR2 7 4 0, Op EC_GF_OP_XOR2 4 6 0,
       Op EC_GF_OP_XOR2 5 2 0, Op EC_GF_OP_XOR2 2 6 0, Op EC_GF_OP_XOR2 3 5 0, Op EC_GF_OP_XOR2 6 0 0,
       Op EC_GF_OP_XOR2 1 5 0, Op EC_GF_OP_XOR2 3 7 0, Op EC_GF_OP_XOR2 0 7 0, Op EC_GF_OP_END 0 0 0],
    Mul 9 [5, 6, 7, 4, 1, 2, 3, 0, 8]
      [Op EC_GF_OP_XOR3 8 1 2, Op EC_GF_OP_XOR2 8 3 0, Op EC_GF_OP_XOR2 4 1 0, Op EC_GF_OP_XOR2 3 0 0,
       Op EC_GF_OP_XOR2 0 4 0, Op EC_GF_OP_XOR2 1 7 0, Op EC_GF_OP_XOR2 5 3 0, Op EC_GF_OP_XOR2 7 0 0,
       Op EC_GF_OP_XOR2 4 6 0, Op EC_GF_OP_XOR2 7 5 0, Op EC_GF_OP_XOR2 6 8 0, Op EC_GF_OP_XOR2 5 8 0,
       Op EC_GF_OP_END 0 0 0],
    Mul 8 [7, 6, 3, 0, 1, 4, 5, 2]
      [Op EC_GF_OP_XOR2 0 2 0, Op EC_GF_OP_XOR2 1 3 0, Op EC_GF_OP_XOR2 0 3 0, Op EC_GF_OP_XOR2 1 4 0,
       Op EC_GF_OP_XOR2 6 0 0, Op EC_GF_OP_XOR2 4 2 0, Op EC_GF_OP_XOR2 2 6 0, Op EC_GF_OP_XOR2 4 5 0,
       Op EC_GF_OP_XOR2 5 2 0, Op EC_GF_OP_XOR2 7 1 0, Op EC_GF_OP_XOR2 3 4 0, Op EC_GF_OP_XOR2 2 7 0,
       Op EC_GF_OP_XOR2 7 3 0, Op EC_GF_OP_XOR2 0 2 0, Op EC_GF_OP_END 0 0 0],
    Mul 10 [5, 6, 4, 7, 1, 2, 3, 0, 8, 9]
      [Op EC_GF_OP_COPY 8 0 0, Op EC_GF_OP_XOR2 0 1 0, Op EC_GF_OP_XOR2 0 2 0, Op EC_GF_OP_XOR2 6 0 0,
       Op EC_GF_OP_XOR2 2 4 0, Op EC_GF_OP_XOR2 7 0 0, Op EC_GF_OP_XOR3 0 2 6, Op EC_GF_OP_XOR2 6 3 0,
       Op EC_GF_OP_XOR3 9 1 0, Op EC_GF_OP_XOR2 1 3 0, Op EC_GF_OP_XOR2 3 5 0, Op EC_GF_OP_XOR2 5 7 0,
       Op EC_GF_OP_XOR2 4 3 0, Op EC_GF_OP_XOR2 7 9 0, Op EC_GF_OP_XOR2 3 8 0, Op EC_GF_OP_END 0 0 0]]"

definition ec_gf8_mul_C4_C9 :: "ec_gf_mul_t list" where
  "ec_gf8_mul_C4_C9 = [
    Mul 8 [0, 2, 1, 3, 4, 5, 6, 7]
      [Op EC_GF_OP_XOR2 3 7 0, Op EC_GF_OP_XOR2 2 3 0, Op EC_GF_OP_XOR2 3 4 0, Op EC_GF_OP_XOR2 4 5 0,
       Op EC_GF_OP_XOR2 5 2 0, Op EC_GF_OP_XOR2 1 0 0, Op EC_GF_OP_XOR2 2 6 0, Op EC_GF_OP_XOR2 1 4 0,
       Op EC_GF_OP_XOR2 6 7 0, Op EC_GF_OP_XOR2 0 3 0, Op EC_GF_OP_XOR2 7 1 0, Op EC_GF_OP_XOR2 1 2 0,
       Op EC_GF_OP_XOR2 6 0 0, Op EC_GF_OP_XOR2 0 1 0, Op EC_GF_OP_XOR2 4 0 0, Op EC_GF_OP_END 0 0 0],
    Mul 8 [4, 3, 5, 7, 6, 2, 0, 1]
      [Op EC_GF_OP_XOR2 0 4 0, Op EC_GF_OP_XOR2 5 0 0, Op EC_GF_OP_XOR2 6 1 0, Op EC_GF_OP_XOR2 0 3 0,
       Op EC_GF_OP_XOR2 1 5 0, Op EC_GF_OP_XOR2 6 2 0, Op EC_GF_OP_XOR2 3 7 0, Op EC_GF_OP_XOR2 5 6 0,
       Op EC_GF_OP_XOR2 7 4 0, Op EC_GF_OP_XOR2 2 3 0, Op EC_GF_OP_XOR2 4 5 0, Op EC_GF_OP_XOR2 3 6 0,
       Op EC_GF_OP_XOR2 5 2 0, Op EC_GF_OP_END 0 0 0],
    Mul 10 [6, 3, 0, 4, 5, 7, 2, 1, 8, 9]
      [Op EC_GF_OP_XOR2 4 3 0, Op EC_GF_OP_COPY 8 4 0, Op EC_GF_OP_XOR2 4 2 0, Op EC_GF_OP_XOR3 9 5 4,
       Op EC_GF_OP_XOR2 6 9 0, Op EC_GF_OP_XOR2 0 6 0, Op EC_GF_OP_XOR2 1 7 0, Op EC_GF_OP_XOR2 2 0 0,
       Op EC_GF_OP_XOR2 7 9 0, Op EC_GF_OP_XOR2 6 1 0, Op EC_GF_OP_XOR2 3 2 0, Op EC_GF_OP_XOR2 5 6 0,
       Op EC_GF_OP_XOR2 1 3 0, Op EC_GF_OP_XOR2 6 8 0, Op EC_GF_OP_XOR2 3 7 0, Op EC_GF_OP_END 0 0 0],
    Mul 8 [7, 0, 6, 2, 5, 3, 4, 1]
      [Op EC_GF_OP_XOR2 5 0 0, Op EC_GF_OP_XOR2 5 3 0, Op EC_GF_OP_XOR2 2 4 0, Op EC_GF_OP_XOR2 4 5 0,
       Op EC_GF_OP_XOR2 1 3 0, Op EC_GF_OP_XOR2 6 4 0, Op EC_GF_OP_XOR2 7 2 0, Op EC_GF_OP_XOR2 1 6 0,
       Op EC_GF_OP_XOR2 3 7 0, Op EC_GF_OP_XOR2 7 1 0, Op EC_GF_OP_XOR2 5 7 0, Op EC_GF_OP_XOR2 0 5 0,
       Op EC_GF_OP_END 0 0 0],
    Mul 8 [1, 3, 2, 4, 6, 7, 5, 0]
      [Op EC_GF_OP_XOR2 6 5 0, Op EC_GF_OP_XOR2 5 0 0, Op EC_GF_OP_XOR2 0 1 0, Op EC_GF_OP_XOR2 0 7 0,
       Op EC_GF_OP_XOR2 7 6 0, Op EC_GF_OP_XOR2 6 4 0, Op EC_GF_OP_XOR2 4 3 0, Op EC_GF_OP_XOR2 4 1 0,
       Op EC_GF_OP_XOR2 3 2 0, Op EC_GF_OP_XOR2 1 2 0, Op EC_GF_OP_XOR2 2 4 0, Op EC_GF_OP_XOR2 4 5 0,
       Op EC_GF_OP_XOR2 5 7 0, Op EC_GF_OP_END 0 0 0],
    Mul 8 [2, 3, 4, 5, 6, 7, 0, 1]
      [Op EC_GF_OP_XOR2 1 0 0, Op EC_GF_OP_XOR2 3 0 0, Op EC_GF_OP_XOR2 0 7 0, Op EC_GF_OP_XOR2 7 6 0,
       Op EC_GF_OP_XOR2 4 1 0, Op EC_GF_OP_XOR2 6 5 0, Op EC_GF_OP_XOR2 5 4 0, Op EC_GF_OP_XOR2 2 1 0,
       Op EC_GF_OP_XOR2 4 3 0, Op EC_GF_OP_XOR2 3 2 0, Op EC_GF_OP_END 0 0 0]]"

definition ec_gf8_mul_CA_CF :: "ec_gf_mul_t list" where
  "ec_gf8_mul_CA_CF = [
    Mul 8 [1, 2, 5, 7, 3, 4, 0, 6]
      [Op EC_GF_OP_XOR2 6 7 0, Op EC_GF_OP_XOR2 7 2 0, Op EC_GF_OP_XOR2 5 6 0, Op EC_GF_OP_XOR2 2 0 0,
       Op EC_GF_OP_XOR2 4 5 0, Op EC_GF_OP_XOR2 2 3 0, Op EC_GF_OP_XOR2 6 1 0, Op EC_GF_OP_XOR2 3 4 0,
       Op EC_GF_OP_XOR2 1 7 0, Op EC_GF_OP_XOR2 6 0 0, Op EC_GF_OP_XOR2 7 3 0, Op EC_GF_OP_XOR2 0 5 0,
       Op EC_GF_OP_XOR2 5 7 0, Op EC_GF_OP_XOR2 7 6 0, Op EC_GF_OP_END 0 0 0],
    Mul 8 [2, 3, 4, 5, 7, 6, 0, 1]
      [Op EC_GF_OP_XOR2 1 0 0, Op EC_GF_OP_XOR2 2 1 0, Op EC_GF_OP_XOR2 1 6 0, Op EC_GF_OP_XOR2 6 3 0,
       Op EC_GF_OP_XOR2 3 2 0, Op EC_GF_OP_XOR2 2 7 0, Op EC_GF_OP_XOR2 4 2 0, Op EC_GF_OP_XOR2 7 5 0,
       Op EC_GF_OP_XOR2 5 4 0, Op EC_GF_OP_XOR2 0 7 0, Op EC_GF_OP_XOR2 4 3 0, Op EC_GF_OP_XOR2 7 6 0,
       Op EC_GF_OP_XOR2 6 4 0, Op EC_GF_OP_END 0 0 0],
    Mul 8 [2, 7, 1, 0, 5, 6, 3, 4]
      [Op EC_GF_OP_XOR2 7 2 0, Op EC_GF_OP_XOR2 4 7 0, Op EC_GF_OP_XOR2 0 2 0, Op EC_GF_OP_XOR2 7 3 0,
       Op EC_GF_OP_XOR2 2 1 0, Op EC_GF_OP_XOR2 3 5 0, Op EC_GF_OP_XOR2 1 7 0, Op EC_GF_OP_XOR2 2 6 0,
       Op EC_GF_OP_XOR2 5 4 0, Op EC_GF_OP_XOR2 6 3 0, Op EC_GF_OP_XOR2 4 6 0, Op EC_GF_OP_XOR2 0 4 0,
       Op EC_GF_OP_XOR2 3 0 0, Op EC_GF_OP_XOR2 1 3 0, Op EC_GF_OP_XOR2 4 1 0, Op EC_GF_OP_END 0 0 0],
    Mul 8 [0, 6, 1, 2, 7, 3, 4, 5]
      [Op EC_GF_OP_XOR2 4 0 0, Op EC_GF_OP_XOR2 3 6 0, Op EC_GF_OP_XOR2 0 1 0, Op EC_GF_OP_XOR2 6 2 0,
       Op EC_GF_OP_XOR2 1 3 0, Op EC_GF_OP_XOR2 2 5 0, Op EC_GF_OP_XOR2 1 4 0, Op EC_GF_OP_XOR2 5 0 0,
       Op EC_GF_OP_XOR2 4 7 0, Op EC_GF_OP_XOR2 0 6 0, Op EC_GF_OP_XOR2 7 2 0, Op EC_GF_OP_XOR2 6 4 0,
       Op EC_GF_OP_XOR2 2 6 0, Op EC_GF_OP_XOR2 6 1 0, Op EC_GF_OP_END 0 0 0],
    Mul 9 [5, 7, 3, 0, 2, 6, 4, 1, 8]
      [Op EC_GF_OP_XOR2 0 2 0, Op EC_GF_OP_XOR2 3 5 0, Op EC_GF_OP_XOR2 5 0 0, Op EC_GF_OP_XOR2 7 5 0,
       Op EC_GF_OP_COPY 8 7 0, Op EC_GF_OP_XOR2 7 3 0, Op EC_GF_OP_XOR2 3 4 0, Op EC_GF_OP_XOR2 6 3 0,
       Op EC_GF_OP_XOR2 2 3 0, Op EC_GF_OP_XOR3 3 6 8, Op EC_GF_OP_XOR2 0 6 0, Op EC_GF_OP_XOR3 8 2 3,
       Op EC_GF_OP_XOR2 1 8 0, Op EC_GF_OP_XOR2 4 8 0, Op EC_GF_OP_XOR2 5 1 0, Op EC_GF_OP_END 0 0 0],
    Mul 8 [3, 6, 7, 0, 2, 4, 5, 1]
      [Op EC_GF_OP_XOR2 1 2 0, Op EC_GF_OP_XOR2 5 3 0, Op EC_GF_OP_XOR2 3 6 0, Op EC_GF_OP_XOR2 2 5 0,
       Op EC_GF_OP_XOR2 1 4 0, Op EC_GF_OP_XOR2 4 3 0, Op EC_GF_OP_XOR2 0 4 0, Op EC_GF_OP_XOR2 7 0 0,
       Op EC_GF_OP_XOR2 0 2 0, Op EC_GF_OP_XOR2 6 7 0, Op EC_GF_OP_XOR2 5 6 0, Op EC_GF_OP_XOR2 6 1 0,
       Op EC_GF_OP_XOR2 1 0 0, Op EC_GF_OP_XOR2 3 6 0, Op EC_GF_OP_END 0 0 0]]"

definition ec_gf8_mul_D0_D5 :: "ec_gf_mul_t list" where
  "ec_gf8_mul_D0_D5 = [
    Mul 8 [5, 6, 7, 2, 0, 3, 1, 4]
      [Op EC_GF_OP_XOR2 5 2 0, Op EC_GF_OP_XOR2 0 3 0, Op EC_GF_OP_XOR2 3 5 0, Op EC_GF_OP_XOR2 6 3 0,
       Op EC_GF_OP_XOR2 4 1 0, Op EC_GF_OP_XOR2 1 6 0, Op EC_GF_OP_XOR2 5 4 0, Op EC_GF_OP_XOR2 7 1 0,
       Op EC_GF_OP_XOR2 4 0 0, Op EC_GF_OP_XOR2 2 7 0, Op EC_GF_OP_XOR2 0 2 0, Op EC_GF_OP_XOR2 3 2 0,
       Op EC_GF_OP_XOR2 1 0 0, Op EC_GF_OP_END 0 0 0],
    Mul 9 [5, 6, 3, 2, 0, 7, 4, 1, 8]
      [Op EC_GF_OP_XOR2 1 2 0, Op EC_GF_OP_XOR2 0 4 0, Op EC_GF_OP_XOR2 5 1 0, Op EC_GF_OP_XOR2 4 6 0,
       Op EC_GF_OP_XOR2 6 5 0, Op EC_GF_OP_XOR2 5 0 0, Op EC_GF_OP_XOR2 7 6 0, Op EC_GF_OP_XOR2 6 3 0,
       Op EC_GF_OP_XOR2 2 7 0, Op EC_GF_OP_XOR2 0 2 0, Op EC_GF_OP_XOR2 3 2 0, Op EC_GF_OP_XOR3 8 6 0,
       Op EC_GF_OP_XOR2 4 8 0, Op EC_GF_OP_XOR2 1 8 0, Op EC_GF_OP_END 0 0 0],
    Mul 8 [7, 0, 2, 1, 3, 4, 6, 5]
      [Op EC_GF_OP_XOR2 3 5 0, Op EC_GF_OP_XOR2 3 6 0, Op EC_GF_OP_XOR2 2 3 0, Op EC_GF_OP_XOR2 3 0 0,
       Op EC_GF_OP_XOR2 0 2 0, Op EC_GF_OP_XOR2 3 1 0, Op EC_GF_OP_XOR2 7 0 0, Op EC_GF_OP_XOR2 4 3 0,
       Op EC_GF_OP_XOR2 1 2 0, Op EC_GF_OP_XOR2 6 7 0, Op EC_GF_OP_XOR2 5 4 0, Op EC_GF_OP_XOR2 4 6 0,
       Op EC_GF_OP_XOR2 7 5 0, Op EC_GF_OP_END 0 0 0],
    Mul 9 [0, 3, 2, 8, 4, 6, 7, 1, 5]
      [Op EC_GF_OP_XOR2 4 7 0, Op EC_GF_OP_COPY 8 4 0, Op EC_GF_OP_XOR2 2 1 0, Op EC_GF_OP_XOR2 4 2 0,
       Op EC_GF_OP_XOR2 5 4 0, Op EC_GF_OP_XOR2 6 5 0, Op EC_GF_OP_XOR2 8 6 0, Op EC_GF_OP_XOR2 3 8 0,
       Op EC_GF_OP_XOR2 2 3 0, Op EC_GF_OP_XOR2 3 0 0, Op EC_GF_OP_XOR2 1 3 0, Op EC_GF_OP_XOR2 0 5 0,
       Op EC_GF_OP_XOR2 7 1 0, Op EC_GF_OP_XOR2 1 5 0, Op EC_GF_OP_XOR2 4 7 0, Op EC_GF_OP_END 0 0 0],
    Mul 9 [4, 1, 7, 5, 0, 6, 3, 2, 8]
      [Op EC_GF_OP_XOR2 1 5 0, Op EC_GF_OP_COPY 8 1 0, Op EC_GF_OP_XOR2 1 2 0, Op EC_GF_OP_XOR2 0 1 0,
       Op EC_GF_OP_XOR2 5 3 0, Op EC_GF_OP_XOR2 6 1 0, Op EC_GF_OP_XOR2 3 0 0, Op EC_GF_OP_XOR3 1 7 8,
       Op EC_GF_OP_XOR2 7 3 0, Op EC_GF_OP_XOR2 3 4 0, Op EC_GF_OP_XOR2 4 6 0, Op EC_GF_OP_XOR2 2 3 0,
       Op EC_GF_OP_XOR2 6 5 0, Op EC_GF_OP_XOR2 3 1 0, Op EC_GF_OP_XOR2 1 6 0, Op EC_GF_OP_END 0 0 0],
    Mul 8 [6, 7, 4, 5, 2, 3, 1, 0]
      [Op EC_GF_OP_XOR2 0 4 0, Op EC_GF_OP_XOR2 1 5 0, Op EC_GF_OP_XOR2 1 0 0, Op EC_GF_OP_XOR2 2 1 0,
       Op EC_GF_OP_XOR2 6 2 0, Op EC_GF_OP_XOR2 0 6 0, Op EC_GF_OP_XOR2 3 0 0, Op EC_GF_OP_XOR2 7 3 0,
       Op EC_GF_OP_XOR2 1 7 0, Op EC_GF_OP_XOR2 0 1 0, Op EC_GF_OP_XOR2 4 0 0, Op EC_GF_OP_END 0 0 0]]"

definition ec_gf8_mul_D6_DB :: "ec_gf_mul_t list" where
  "ec_gf8_mul_D6_DB = [
    Mul 9 [0, 6, 2, 7, 1, 3, 4, 5, 8]
      [Op EC_GF_OP_COPY 8 0 0, Op EC_GF_OP_XOR2 0 2 0, Op EC_GF_OP_XOR2 2 1 0, Op EC_GF_OP_XOR2 2 4 0,
       Op EC_GF_OP_XOR2 2 6 0, Op EC_GF_OP_XOR2 3 2 0, Op EC_GF_OP_XOR2 0 3 0, Op EC_GF_OP_XOR2 5 0 0,
       Op EC_GF_OP_XOR2 2 5 0, Op EC_GF_OP_XOR2 7 2 0, Op EC_GF_OP_XOR2 1 7 0, Op EC_GF_OP_XOR2 4 7 0,
       Op EC_GF_OP_XOR2 6 7 0, Op EC_GF_OP_XOR2 0 7 0, Op EC_GF_OP_XOR2 7 8 0, Op EC_GF_OP_END 0 0 0],
    Mul 9 [3, 4, 6, 5, 0, 7, 1, 2, 8]
      [Op EC_GF_OP_XOR2 7 2 0, Op EC_GF_OP_XOR2 5 7 0, Op EC_GF_OP_XOR2 7 0 0, Op EC_GF_OP_XOR2 0 1 0,
       Op EC_GF_OP_XOR3 8 3 5, Op EC_GF_OP_XOR2 0 4 0, Op EC_GF_OP_XOR2 0 8 0, Op EC_GF_OP_XOR2 6 0 0,
       Op EC_GF_OP_XOR2 2 6 0, Op EC_GF_OP_XOR2 1 6 0, Op EC_GF_OP_XOR2 4 6 0, Op EC_GF_OP_XOR2 3 6 0,
       Op EC_GF_OP_XOR3 6 7 8, Op EC_GF_OP_XOR2 7 2 0, Op EC_GF_OP_END 0 0 0],
    Mul 8 [4, 5, 6, 7, 0, 1, 2, 3]
      [Op EC_GF_OP_XOR2 3 2 0, Op EC_GF_OP_XOR2 4 1 0, Op EC_GF_OP_XOR2 5 3 0, Op EC_GF_OP_XOR2 4 2 0,
       Op EC_GF_OP_XOR2 3 1 0, Op EC_GF_OP_XOR2 2 0 0, Op EC_GF_OP_XOR2 6 3 0, Op EC_GF_OP_XOR2 3 2 0,
       Op EC_GF_OP_XOR2 7 3 0, Op EC_GF_OP_END 0 0 0],
    Mul 8 [1, 2, 6, 7, 4, 5, 0, 3]
      [Op EC_GF_OP_XOR2 4 0 0, Op EC_GF_OP_XOR2 0 1 0, Op EC_GF_OP_XOR2 5 1 0, Op EC_GF_OP_XOR2 1 2 0,
       Op EC_GF_OP_XOR2 6 1 0, Op EC_GF_OP_XOR2 7 0 0, Op EC_GF_OP_XOR2 1 4 0, Op EC_GF_OP_XOR2 2 3 0,
       Op EC_GF_OP_XOR2 0 6 0, Op EC_GF_OP_XOR2 3 7 0, Op EC_GF_OP_XOR2 6 2 0, Op EC_GF_OP_XOR2 2 5 0,
       Op EC_GF_OP_END 0 0 0],
    Mul 9 [2, 5, 7, 1, 0, 4, 3, 6, 8]
      [Op EC_GF_OP_XOR2 6 2 0, Op EC_GF_OP_XOR2 2 7 0, Op EC_GF_OP_XOR2 7 3 0, Op EC_GF_OP_XOR2 0 7 0,
       Op EC_GF_OP_XOR3 8 2 0, Op EC_GF_OP_XOR2 7 6 0, Op EC_GF_OP_XOR2 4 1 0, Op EC_GF_OP_XOR2 1 8 0,
       Op EC_GF_OP_XOR2 5 8 0, Op EC_GF_OP_XOR2 2 4 0, Op EC_GF_OP_XOR2 6 1 0, Op EC_GF_OP_XOR2 3 5 0,
       Op EC_GF_OP_END 0 0 0],
    Mul 9 [7, 5, 6, 2, 3, 4, 1, 0, 8]
      [Op EC_GF_OP_COPY 8 0 0, Op EC_GF_OP_XOR2 0 1 0, Op EC_GF_OP_XOR2 2 0 0, Op EC_GF_OP_XOR2 5 2 0,
       Op EC_GF_OP_XOR2 1 5 0, Op EC_GF_OP_XOR2 8 4 0, Op EC_GF_OP_XOR2 5 3 0, Op EC_GF_OP_XOR2 4 2 0,
       Op EC_GF_OP_XOR2 3 7 0, Op EC_GF_OP_XOR2 7 4 0, Op EC_GF_OP_XOR2 4 1 0, Op EC_GF_OP_XOR2 1 6 0,
       Op EC_GF_OP_XOR2 6 3 0, Op EC_GF_OP_XOR2 3 8 0, Op EC_GF_OP_XOR2 0 6 0, Op EC_GF_OP_END 0 0 0]]"

definition ec_gf8_mul_DC_E1 :: "ec_gf_mul_t list" where
  "ec_gf8_mul_DC_E1 = [
    Mul 8 [4, 5, 2, 6, 7, 1, 0, 3]
      [Op EC_GF_OP_XOR2 7 3 0, Op EC_GF_OP_XOR2 3 0 0, Op EC_GF_OP_XOR2 4 2 0, Op EC_GF_OP_XOR2 0 4 0,
       Op EC_GF_OP_XOR2 3 1 0, Op EC_GF_OP_XOR2 6 1 0, Op EC_GF_OP_XOR2 1 7 0, Op EC_GF_OP_XOR2 4 6 0,
       Op EC_GF_OP_XOR2 7 2 0, Op EC_GF_OP_XOR2 6 3 0, Op EC_GF_OP_XOR2 2 3 0, Op EC_GF_OP_XOR2 3 5 0,
       Op EC_GF_OP_XOR2 5 7 0, Op EC_GF_OP_XOR2 7 6 0, Op EC_GF_OP_END 0 0 0],
    Mul 8 [1, 2, 3, 6, 7, 0, 4, 5]
      [Op EC_GF_OP_XOR2 3 1 0, Op EC_GF_OP_XOR2 3 0 0, Op EC_GF_OP_XOR2 5 7 0, Op EC_GF_OP_XOR2 5 3 0,
       Op EC_GF_OP_XOR2 4 2 0, Op EC_GF_OP_XOR2 6 0 0, Op EC_GF_OP_XOR2 0 5 0, Op EC_GF_OP_XOR2 4 6 0,
       Op EC_GF_OP_XOR2 2 0 0, Op EC_GF_OP_XOR2 1 4 0, Op EC_GF_OP_XOR2 7 4 0, Op EC_GF_OP_END 0 0 0],
    Mul 8 [0, 5, 2, 6, 7, 1, 3, 4]
      [Op EC_GF_OP_XOR2 2 0 0, Op EC_GF_OP_XOR2 3 7 0, Op EC_GF_OP_XOR2 2 3 0, Op EC_GF_OP_XOR2 6 2 0,
       Op EC_GF_OP_XOR2 1 4 0, Op EC_GF_OP_XOR2 7 6 0, Op EC_GF_OP_XOR2 5 2 0, Op EC_GF_OP_XOR2 1 3 0,
       Op EC_GF_OP_XOR2 0 7 0, Op EC_GF_OP_XOR2 4 5 0, Op EC_GF_OP_XOR2 0 1 0, Op EC_GF_OP_XOR2 3 4 0,
       Op EC_GF_OP_XOR2 4 0 0, Op EC_GF_OP_END 0 0 0],
    Mul 10 [7, 2, 8, 4, 3, 1, 0, 6, 5, 9]
      [Op EC_GF_OP_COPY 8 0 0, Op EC_GF_OP_XOR2 0 2 0, Op EC_GF_OP_XOR2 0 4 0, Op EC_GF_OP_XOR2 8 3 0,
       Op EC_GF_OP_COPY 9 0 0, Op EC_GF_OP_XOR2 0 6 0, Op EC_GF_OP_XOR2 8 7 0, Op EC_GF_OP_XOR2 3 0 0,
       Op EC_GF_OP_XOR2 7 0 0, Op EC_GF_OP_XOR2 0 5 0, Op EC_GF_OP_XOR2 4 7 0, Op EC_GF_OP_XOR2 5 1 0,
       Op EC_GF_OP_XOR2 7 1 0, Op EC_GF_OP_XOR2 5 8 0, Op EC_GF_OP_XOR2 2 5 0, Op EC_GF_OP_XOR2 6 5 0,
       Op EC_GF_OP_XOR3 1 9 2, Op EC_GF_OP_END 0 0 0],
    Mul 8 [2, 3, 4, 7, 5, 6, 0, 1]
      [Op EC_GF_OP_XOR2 4 2 0, Op EC_GF_OP_XOR2 6 4 0, Op EC_GF_OP_XOR2 5 3 0, Op EC_GF_OP_XOR2 3 6 0,
       Op EC_GF_OP_XOR2 4 1 0, Op EC_GF_OP_XOR2 7 1 0, Op EC_GF_OP_XOR2 5 7 0, Op EC_GF_OP_XOR2 6 0 0,
       Op EC_GF_OP_XOR2 2 5 0, Op EC_GF_OP_XOR2 0 5 0, Op EC_GF_OP_XOR2 1 6 0, Op EC_GF_OP_END 0 0 0],
    Mul 10 [0, 7, 1, 3, 4, 5, 6, 2, 8, 9]
      [Op EC_GF_OP_COPY 8 1 0, Op EC_GF_OP_XOR2 8 7 0, Op EC_GF_OP_XOR2 3 8 0, Op EC_GF_OP_XOR3 9 5 3,
       Op EC_GF_OP_XOR2 0 9 0, Op EC_GF_OP_XOR2 1 4 0, Op EC_GF_OP_XOR2 7 0 0, Op EC_GF_OP_XOR2 6 0 0,
       Op EC_GF_OP_XOR2 4 9 0, Op EC_GF_OP_XOR2 0 2 0, Op EC_GF_OP_XOR2 2 4 0, Op EC_GF_OP_XOR2 2 6 0,
       Op EC_GF_OP_XOR2 5 2 0, Op EC_GF_OP_XOR2 2 8 0, Op EC_GF_OP_XOR2 7 5 0, Op EC_GF_OP_END 0 0 0]]"

definition ec_gf8_mul_E2_E7 :: "ec_gf_mul_t list" where
  "ec_gf8_mul_E2_E7 = [
    Mul 8 [2, 3, 7, 1, 5, 6, 0, 4]
      [Op EC_GF_OP_XOR2 6 0 0, Op EC_GF_OP_XOR2 5 1 0, Op EC_GF_OP_XOR2 6 2 0, Op EC_GF_OP_XOR2 1 2 0,
       Op EC_GF_OP_XOR2 2 3 0, Op EC_GF_OP_XOR2 0 1 0, Op EC_GF_OP_XOR2 3 4 0, Op EC_GF_OP_XOR2 7 2 0,
       Op EC_GF_OP_XOR2 4 0 0, Op EC_GF_OP_XOR2 2 5 0, Op EC_GF_OP_XOR2 0 7 0, Op EC_GF_OP_XOR2 7 3 0,
       Op EC_GF_OP_XOR2 3 6 0, Op EC_GF_OP_END 0 0 0],
    Mul 9 [5, 4, 7, 2, 1, 3, 6, 0, 8]
      [Op EC_GF_OP_XOR2 7 4 0, Op EC_GF_OP_XOR2 3 1 0, Op EC_GF_OP_XOR3 8 2 7, Op EC_GF_OP_XOR2 4 5 0,
       Op EC_GF_OP_XOR2 2 3 0, Op EC_GF_OP_XOR2 5 0 0, Op EC_GF_OP_XOR2 5 2 0, Op EC_GF_OP_XOR2 0 1 0,
       Op EC_GF_OP_XOR2 6 5 0, Op EC_GF_OP_XOR2 1 4 0, Op EC_GF_OP_XOR2 0 8 0, Op EC_GF_OP_XOR2 4 6 0,
       Op EC_GF_OP_XOR2 3 6 0, Op EC_GF_OP_XOR3 6 8 4, Op EC_GF_OP_END 0 0 0],
    Mul 8 [7, 0, 1, 6, 3, 4, 2, 5]
      [Op EC_GF_OP_XOR2 4 0 0, Op EC_GF_OP_XOR2 2 6 0, Op EC_GF_OP_XOR2 2 4 0, Op EC_GF_OP_XOR2 1 2 0,
       Op EC_GF_OP_XOR2 5 1 0, Op EC_GF_OP_XOR2 4 5 0, Op EC_GF_OP_XOR2 3 4 0, Op EC_GF_OP_XOR2 7 3 0,
       Op EC_GF_OP_XOR2 2 7 0, Op EC_GF_OP_XOR2 4 2 0, Op EC_GF_OP_XOR2 0 4 0, Op EC_GF_OP_END 0 0 0],
    Mul 9 [4, 5, 3, 6, 7, 1, 0, 2, 8]
      [Op EC_GF_OP_XOR2 7 5 0, Op EC_GF_OP_XOR2 5 0 0, Op EC_GF_OP_XOR2 0 1 0, Op EC_GF_OP_XOR2 6 3 0,
       Op EC_GF_OP_XOR2 0 6 0, Op EC_GF_OP_XOR2 0 4 0, Op EC_GF_OP_COPY 8 0 0, Op EC_GF_OP_XOR2 0 7 0,
       Op EC_GF_OP_XOR2 2 0 0, Op EC_GF_OP_XOR2 5 2 0, Op EC_GF_OP_XOR2 1 2 0, Op EC_GF_OP_XOR2 4 2 0,
       Op EC_GF_OP_XOR2 7 5 0, Op EC_GF_OP_XOR2 2 3 0, Op EC_GF_OP_XOR2 3 8 0, Op EC_GF_OP_END 0 0 0],
    Mul 8 [5, 4, 3, 6, 7, 0, 1, 2]
      [Op EC_GF_OP_XOR2 6 2 0, Op EC_GF_OP_XOR2 1 6 0, Op EC_GF_OP_XOR2 6 7 0, Op EC_GF_OP_XOR2 0 3 0,
       Op EC_GF_OP_XOR2 5 1 0, Op EC_GF_OP_XOR2 0 6 0, Op EC_GF_OP_XOR2 7 5 0, Op EC_GF_OP_XOR2 4 0 0,
       Op EC_GF_OP_XOR2 5 3 0, Op EC_GF_OP_XOR2 3 4 0, Op EC_GF_OP_XOR2 1 4 0, Op EC_GF_OP_XOR2 2 3 0,
       Op EC_GF_OP_XOR2 2 7 0, Op EC_GF_OP_END 0 0 0],
    Mul 10 [1, 4, 3, 6, 7, 5, 2, 0, 8, 9]
      [Op EC_GF_OP_COPY 8 6 0, Op EC_GF_OP_XOR2 3 2 0, Op EC_GF_OP_XOR2 6 7 0, Op EC_GF_OP_XOR2 6 3 0,
       Op EC_GF_OP_XOR3 9 0 6, Op EC_GF_OP_XOR2 4 9 0, Op EC_GF_OP_XOR2 5 9 0, Op EC_GF_OP_XOR2 3 4 0,
       Op EC_GF_OP_XOR2 7 5 0, Op EC_GF_OP_XOR2 4 1 0, Op EC_GF_OP_XOR2 2 4 0, Op EC_GF_OP_XOR2 1 7 0,
       Op EC_GF_OP_XOR2 7 2 0, Op EC_GF_OP_XOR2 0 7 0, Op EC_GF_OP_XOR2 7 8 0, Op EC_GF_OP_END 0 0 0]]"

definition ec_gf8_mul_E8_ED :: "ec_gf_mul_t list" where
  "ec_gf8_mul_E8_ED = [
    Mul 8 [1, 4, 2, 7, 3, 0, 5, 6]
      [Op EC_GF_OP_XOR2 1 0 0, Op EC_GF_OP_XOR2 0 4 0, Op EC_GF_OP_XOR2 4 2 0, Op EC_GF_OP_XOR2 2 5 0,
       Op EC_GF_OP_XOR2 4 3 0, Op EC_GF_OP_XOR2 5 1 0, Op EC_GF_OP_XOR2 3 6 0, Op EC_GF_OP_XOR2 6 5 0,
       Op EC_GF_OP_XOR2 0 7 0, Op EC_GF_OP_XOR2 7 6 0, Op EC_GF_OP_XOR2 1 0 0, Op EC_GF_OP_XOR2 6 2 0,
       Op EC_GF_OP_XOR2 2 1 0, Op EC_GF_OP_XOR2 1 4 0, Op EC_GF_OP_END 0 0 0],
    Mul 9 [6, 2, 0, 3, 4, 1, 5, 7, 8]
      [Op EC_GF_OP_XOR2 1 0 0, Op EC_GF_OP_COPY 8 1 0, Op EC_GF_OP_XOR2 1 6 0, Op EC_GF_OP_XOR2 6 3 0,
       Op EC_GF_OP_XOR2 4 6 0, Op EC_GF_OP_XOR2 2 1 0, Op EC_GF_OP_XOR2 3 7 0, Op EC_GF_OP_XOR2 0 4 0,
       Op EC_GF_OP_XOR2 7 2 0, Op EC_GF_OP_XOR2 5 1 0, Op EC_GF_OP_XOR2 2 0 0, Op EC_GF_OP_XOR2 6 7 0,
       Op EC_GF_OP_XOR2 3 5 0, Op EC_GF_OP_XOR2 0 3 0, Op EC_GF_OP_XOR3 1 8 0, Op EC_GF_OP_END 0 0 0],
    Mul 8 [3, 4, 5, 6, 7, 0, 1, 2]
      [Op EC_GF_OP_XOR2 2 1 0, Op EC_GF_OP_XOR2 3 2 0, Op EC_GF_OP_XOR2 1 0 0, Op EC_GF_OP_XOR2 2 0 0,
       Op EC_GF_OP_XOR2 0 7 0, Op EC_GF_OP_XOR2 5 2 0, Op EC_GF_OP_XOR2 7 6 0, Op EC_GF_OP_XOR2 4 1 0,
       Op EC_GF_OP_XOR2 6 5 0, Op EC_GF_OP_XOR2 5 4 0, Op EC_GF_OP_XOR2 4 3 0, Op EC_GF_OP_END 0 0 0],
    Mul 8 [3, 4, 5, 6, 7, 0, 1, 2]
      [Op EC_GF_OP_XOR2 1 0 0, Op EC_GF_OP_XOR2 2 1 0, Op EC_GF_OP_XOR2 3 2 0, Op EC_GF_OP_XOR2 2 7 0,
       Op EC_GF_OP_XOR2 7 5 0, Op EC_GF_OP_XOR2 5 4 0, Op EC_GF_OP_XOR2 0 7 0, Op EC_GF_OP_XOR2 1 6 0,
       Op EC_GF_OP_XOR2 4 3 0, Op EC_GF_OP_XOR2 6 5 0, Op EC_GF_OP_XOR2 7 6 0, Op EC_GF_OP_XOR2 6 4 0,
       Op EC_GF_OP_END 0 0 0],
    Mul 9 [7, 4, 3, 0, 2, 5, 1, 6, 8]
      [Op EC_GF_OP_XOR2 0 5 0, Op EC_GF_OP_XOR2 6 1 0, Op EC_GF_OP_XOR3 8 4 0, Op EC_GF_OP_XOR2 1 8 0,
       Op EC_GF_OP_XOR2 7 3 0, Op EC_GF_OP_XOR2 6 2 0, Op EC_GF_OP_XOR2 3 8 0, Op EC_GF_OP_XOR2 2 7 0,
       Op EC_GF_OP_XOR2 7 6 0, Op EC_GF_OP_XOR2 5 3 0, Op EC_GF_OP_XOR2 4 2 0, Op EC_GF_OP_XOR2 6 0 0,
       Op EC_GF_OP_XOR2 3 7 0, Op EC_GF_OP_END 0 0 0],
    Mul 8 [5, 6, 7, 0, 1, 4, 3, 2]
      [Op EC_GF_OP_XOR2 5 3 0, Op EC_GF_OP_XOR2 0 5 0, Op EC_GF_OP_XOR2 2 4 0, Op EC_GF_OP_XOR2 4 0 0,
       Op EC_GF_OP_XOR2 3 1 0, Op EC_GF_OP_XOR2 6 4 0, Op EC_GF_OP_XOR2 3 6 0, Op EC_GF_OP_XOR2 7 3 0,
       Op EC_GF_OP_XOR2 2 7 0, Op EC_GF_OP_XOR2 6 2 0, Op EC_GF_OP_XOR2 5 2 0, Op EC_GF_OP_XOR2 1 6 0,
       Op EC_GF_OP_END 0 0 0]]"

definition ec_gf8_mul_EE_F3 :: "ec_gf_mul_t list" where
  "ec_gf8_mul_EE_F3 = [
    Mul 9 [6, 4, 5, 7, 2, 3, 0, 1, 8]
      [Op EC_GF_OP_XOR2 5 3 0, Op EC_GF_OP_XOR2 3 0 0, Op EC_GF_OP_XOR2 0 1 0, Op EC_GF_OP_XOR3 8 2 3,
       Op EC_GF_OP_XOR2 0 4 0, Op EC_GF_OP_XOR2 4 8 0, Op EC_GF_OP_XOR2 6 4 0, Op EC_GF_OP_XOR2 8 5 0,
       Op EC_GF_OP_XOR2 4 7 0, Op EC_GF_OP_XOR2 5 6 0, Op EC_GF_OP_XOR2 1 8 0, Op EC_GF_OP_XOR2 7 8 0,
       Op EC_GF_OP_XOR2 6 0 0, Op EC_GF_OP_END 0 0 0],
    Mul 9 [6, 4, 5, 7, 2, 0, 3, 1, 8]
      [Op EC_GF_OP_XOR2 5 1 0, Op EC_GF_OP_XOR2 1 3 0, Op EC_GF_OP_XOR2 0 1 0, Op EC_GF_OP_COPY 8 0 0,
       Op EC_GF_OP_XOR2 8 2 0, Op EC_GF_OP_XOR2 0 5 0, Op EC_GF_OP_XOR2 2 4 0, Op EC_GF_OP_XOR2 7 8 0,
       Op EC_GF_OP_XOR2 3 2 0, Op EC_GF_OP_XOR2 6 8 0, Op EC_GF_OP_XOR2 4 7 0, Op EC_GF_OP_XOR2 3 6 0,
       Op EC_GF_OP_XOR2 7 5 0, Op EC_GF_OP_XOR2 5 3 0, Op EC_GF_OP_XOR2 1 7 0, Op EC_GF_OP_END 0 0 0],
    Mul 9 [3, 4, 6, 1, 2, 0, 5, 7, 8]
      [Op EC_GF_OP_XOR2 6 1 0, Op EC_GF_OP_XOR2 6 2 0, Op EC_GF_OP_XOR2 3 0 0, Op EC_GF_OP_XOR3 8 3 6,
       Op EC_GF_OP_XOR2 5 8 0, Op EC_GF_OP_XOR2 8 4 0, Op EC_GF_OP_XOR2 1 5 0, Op EC_GF_OP_XOR2 7 8 0,
       Op EC_GF_OP_XOR2 0 1 0, Op EC_GF_OP_XOR2 2 7 0, Op EC_GF_OP_XOR2 4 0 0, Op EC_GF_OP_XOR2 1 8 0,
       Op EC_GF_OP_XOR2 0 2 0, Op EC_GF_OP_XOR2 3 0 0, Op EC_GF_OP_END 0 0 0],
    Mul 10 [7, 2, 6, 3, 5, 1, 4, 0, 8, 9]
      [Op EC_GF_OP_XOR2 3 1 0, Op EC_GF_OP_XOR2 3 5 0, Op EC_GF_OP_COPY 8 3 0, Op EC_GF_OP_XOR2 3 4 0,
       Op EC_GF_OP_XOR2 2 3 0, Op EC_GF_OP_COPY 9 2 0, Op EC_GF_OP_XOR2 2 6 0, Op EC_GF_OP_XOR2 9 0 0,
       Op EC_GF_OP_XOR2 6 1 0, Op EC_GF_OP_XOR2 5 2 0, Op EC_GF_OP_XOR2 7 9 0, Op EC_GF_OP_XOR2 4 9 0,
       Op EC_GF_OP_XOR2 0 5 0, Op EC_GF_OP_XOR3 9 8 7, Op EC_GF_OP_XOR2 1 9 0, Op EC_GF_OP_XOR2 5 9 0,
       Op EC_GF_OP_END 0 0 0],
    Mul 9 [1, 0, 6, 7, 4, 5, 2, 3, 8]
      [Op EC_GF_OP_XOR2 0 1 0, Op EC_GF_OP_XOR2 5 4 0, Op EC_GF_OP_XOR2 1 5 0, Op EC_GF_OP_XOR2 7 2 0,
       Op EC_GF_OP_XOR2 0 6 0, Op EC_GF_OP_XOR2 6 7 0, Op EC_GF_OP_XOR2 4 0 0, Op EC_GF_OP_XOR2 2 3 0,
       Op EC_GF_OP_XOR2 7 1 0, Op EC_GF_OP_XOR3 8 6 4, Op EC_GF_OP_XOR2 1 2 0, Op EC_GF_OP_XOR2 2 0 0,
       Op EC_GF_OP_XOR2 3 8 0, Op EC_GF_OP_XOR2 5 8 0, Op EC_GF_OP_XOR2 0 1 0, Op EC_GF_OP_END 0 0 0],
    Mul 8 [5, 6, 7, 0, 1, 2, 3, 4]
      [Op EC_GF_OP_XOR2 1 0 0, Op EC_GF_OP_XOR2 2 1 0, Op EC_GF_OP_XOR2 3 2 0, Op EC_GF_OP_XOR2 4 3 0,
       Op EC_GF_OP_XOR2 2 7 0, Op EC_GF_OP_XOR2 0 7 0, Op EC_GF_OP_XOR2 5 4 0, Op EC_GF_OP_XOR2 1 6 0,
       Op EC_GF_OP_XOR2 7 6 0, Op EC_GF_OP_XOR2 0 5 0, Op EC_GF_OP_XOR2 6 5 0, Op EC_GF_OP_END 0 0 0]]"

definition ec_gf8_mul_F4_F9 :: "ec_gf_mul_t list" where
  "ec_gf8_mul_F4_F9 = [
    Mul 8 [0, 1, 2, 3, 4, 5, 6, 7]
      [Op EC_GF_OP_XOR2 1 0 0, Op EC_GF_OP_XOR2 2 1 0, Op EC_GF_OP_XOR2 3 2 0, Op EC_GF_OP_XOR2 4 3 0,
       Op EC_GF_OP_XOR2 5 4 0, Op EC_GF_OP_XOR2 6 5 0, Op EC_GF_OP_XOR2 7 6 0, Op EC_GF_OP_XOR2 0 7 0,
       Op EC_GF_OP_XOR2 1 7 0, Op EC_GF_OP_XOR2 3 7 0, Op EC_GF_OP_END 0 0 0],
    Mul 8 [7, 0, 1, 2, 3, 4, 5, 6]
      [Op EC_GF_OP_XOR2 1 0 0, Op EC_GF_OP_XOR2 2 1 0, Op EC_GF_OP_XOR2 3 2 0, Op EC_GF_OP_XOR2 4 3 0,
       Op EC_GF_OP_XOR2 5 4 0, Op EC_GF_OP_XOR2 6 5 0, Op EC_GF_OP_XOR2 7 6 0, Op EC_GF_OP_XOR2 0 7 0,
       Op EC_GF_OP_XOR2 2 7 0, Op EC_GF_OP_END 0 0 0],
    Mul 10 [0, 6, 2, 7, 4, 3, 5, 9, 1, 8]
      [Op EC_GF_OP_XOR2 3 1 0, Op EC_GF_OP_COPY 8 3 0, Op EC_GF_OP_XOR2 3 5 0, Op EC_GF_OP_XOR2 2 0 0,
       Op EC_GF_OP_COPY 9 3 0, Op EC_GF_OP_XOR2 3 2 0, Op EC_GF_OP_XOR2 2 7 0, Op EC_GF_OP_XOR2 4 2 0,
       Op EC_GF_OP_XOR2 9 4 0, Op EC_GF_OP_XOR2 4 1 0, Op EC_GF_OP_XOR2 6 9 0, Op EC_GF_OP_XOR2 7 6 0,
       Op EC_GF_OP_XOR2 0 7 0, Op EC_GF_OP_XOR2 5 7 0, Op EC_GF_OP_XOR2 6 1 0, Op EC_GF_OP_XOR3 7 8 0,
       Op EC_GF_OP_END 0 0 0],
    Mul 8 [6, 7, 0, 1, 2, 3, 4, 5]
      [Op EC_GF_OP_XOR2 1 0 0, Op EC_GF_OP_XOR2 2 1 0, Op EC_GF_OP_XOR2 3 2 0, Op EC_GF_OP_XOR2 4 3 0,
       Op EC_GF_OP_XOR2 5 4 0, Op EC_GF_OP_XOR2 6 5 0, Op EC_GF_OP_XOR2 0 7 0, Op EC_GF_OP_XOR2 2 7 0,
       Op EC_GF_OP_XOR2 1 6 0, Op EC_GF_OP_XOR2 7 6 0, Op EC_GF_OP_END 0 0 0],
    Mul 8 [6, 2, 0, 1, 4, 5, 3, 7]
      [Op EC_GF_OP_XOR2 4 0 0, Op EC_GF_OP_XOR2 3 5 0, Op EC_GF_OP_XOR2 6 4 0, Op EC_GF_OP_XOR2 2 0 0,
       Op EC_GF_OP_XOR2 4 3 0, Op EC_GF_OP_XOR2 1 6 0, Op EC_GF_OP_XOR2 2 4 0, Op EC_GF_OP_XOR2 5 1 0,
       Op EC_GF_OP_XOR2 7 2 0, Op EC_GF_OP_XOR2 7 5 0, Op EC_GF_OP_XOR2 3 7 0, Op EC_GF_OP_XOR2 6 7 0,
       Op EC_GF_OP_XOR2 0 3 0, Op EC_GF_OP_END 0 0 0],
    Mul 9 [4, 1, 7, 6, 0, 3, 5, 2, 8]
      [Op EC_GF_OP_XOR2 1 5 0, Op EC_GF_OP_XOR2 5 3 0, Op EC_GF_OP_XOR2 6 1 0, Op EC_GF_OP_XOR2 0 5 0,
       Op EC_GF_OP_XOR2 7 6 0, Op EC_GF_OP_XOR2 6 0 0, Op EC_GF_OP_XOR2 2 6 0, Op EC_GF_OP_XOR2 6 4 0,
       Op EC_GF_OP_XOR2 1 2 0, Op EC_GF_OP_XOR2 3 6 0, Op EC_GF_OP_XOR3 8 7 1, Op EC_GF_OP_XOR2 1 3 0,
       Op EC_GF_OP_XOR2 4 8 0, Op EC_GF_OP_XOR2 5 8 0, Op EC_GF_OP_END 0 0 0]]"

definition ec_gf8_mul_FA_FF :: "ec_gf_mul_t list" where
  "ec_gf8_mul_FA_FF = [
    Mul 8 [0, 1, 2, 4, 5, 6, 7, 3]
      [Op EC_GF_OP_XOR2 1 0 0, Op EC_GF_OP_XOR2 0 4 0, Op EC_GF_OP_XOR2 2 1 0, Op EC_GF_OP_XOR2 0 7 0,
       Op EC_GF_OP_XOR2 7 2 0, Op EC_GF_OP_XOR2 1 5 0, Op EC_GF_OP_XOR2 3 7 0, Op EC_GF_OP_XOR2 5 0 0,
       Op EC_GF_OP_XOR2 7 6 0, Op EC_GF_OP_XOR2 0 3 0, Op EC_GF_OP_XOR2 6 1 0, Op EC_GF_OP_XOR2 4 7 0,
       Op EC_GF_OP_XOR2 1 0 0, Op EC_GF_OP_XOR2 2 6 0, Op EC_GF_OP_END 0 0 0],
    Mul 8 [4, 5, 6, 7, 0, 1, 2, 3]
      [Op EC_GF_OP_XOR2 1 0 0, Op EC_GF_OP_XOR2 2 1 0, Op EC_GF_OP_XOR2 0 5 0, Op EC_GF_OP_XOR2 3 2 0,
       Op EC_GF_OP_XOR2 0 7 0, Op EC_GF_OP_XOR2 2 7 0, Op EC_GF_OP_XOR2 1 6 0, Op EC_GF_OP_XOR2 7 6 0,
       Op EC_GF_OP_XOR2 4 3 0, Op EC_GF_OP_XOR2 6 5 0, Op EC_GF_OP_XOR2 7 4 0, Op EC_GF_OP_XOR2 5 4 0,
       Op EC_GF_OP_END 0 0 0],
    Mul 10 [5, 6, 3, 7, 1, 8, 0, 4, 2, 9]
      [Op EC_GF_OP_XOR2 7 0 0, Op EC_GF_OP_XOR2 7 4 0, Op EC_GF_OP_XOR2 5 1 0, Op EC_GF_OP_COPY 9 3 0,
       Op EC_GF_OP_XOR3 8 5 7, Op EC_GF_OP_XOR2 3 6 0, Op EC_GF_OP_XOR2 8 3 0, Op EC_GF_OP_XOR2 2 8 0,
       Op EC_GF_OP_XOR2 1 2 0, Op EC_GF_OP_XOR2 4 2 0, Op EC_GF_OP_XOR2 0 1 0, Op EC_GF_OP_XOR2 3 4 0,
       Op EC_GF_OP_XOR2 5 0 0, Op EC_GF_OP_XOR2 6 0 0, Op EC_GF_OP_XOR3 0 9 2, Op EC_GF_OP_END 0 0 0],
    Mul 9 [5, 3, 7, 6, 1, 2, 4, 0, 8]
      [Op EC_GF_OP_XOR2 7 1 0, Op EC_GF_OP_COPY 8 7 0, Op EC_GF_OP_XOR2 5 0 0, Op EC_GF_OP_XOR2 7 5 0,
       Op EC_GF_OP_XOR2 4 2 0, Op EC_GF_OP_XOR2 4 7 0, Op EC_GF_OP_XOR2 5 6 0, Op EC_GF_OP_XOR2 0 4 0,
       Op EC_GF_OP_XOR2 3 0 0, Op EC_GF_OP_XOR2 5 3 0, Op EC_GF_OP_XOR2 2 5 0, Op EC_GF_OP_XOR2 1 2 0,
       Op EC_GF_OP_XOR2 0 1 0, Op EC_GF_OP_XOR2 6 1 0, Op EC_GF_OP_XOR3 1 8 0, Op EC_GF_OP_END 0 0 0],
    Mul 9 [3, 4, 8, 2, 5, 0, 6, 1, 7]
      [Op EC_GF_OP_XOR2 2 0 0, Op EC_GF_OP_COPY 8 2 0, Op EC_GF_OP_XOR2 2 4 0, Op EC_GF_OP_XOR2 6 2 0,
       Op EC_GF_OP_XOR2 8 5 0, Op EC_GF_OP_XOR2 5 6 0, Op EC_GF_OP_XOR2 6 1 0, Op EC_GF_OP_XOR2 0 6 0,
       Op EC_GF_OP_XOR2 6 7 0, Op EC_GF_OP_XOR2 7 3 0, Op EC_GF_OP_XOR2 7 8 0, Op EC_GF_OP_XOR2 3 0 0,
       Op EC_GF_OP_XOR2 4 7 0, Op EC_GF_OP_XOR2 1 7 0, Op EC_GF_OP_XOR2 0 4 0, Op EC_GF_OP_END 0 0 0],
    Mul 10 [6, 5, 0, 1, 2, 4, 9, 3, 7, 8]
      [Op EC_GF_OP_XOR2 4 7 0, Op EC_GF_OP_COPY 9 0 0, Op EC_GF_OP_COPY 8 4 0, Op EC_GF_OP_XOR2 9 1 0,
       Op EC_GF_OP_XOR2 4 2 0, Op EC_GF_OP_XOR2 9 4 0, Op EC_GF_OP_XOR2 0 5 0, Op EC_GF_OP_XOR2 2 0 0,
       Op EC_GF_OP_XOR2 3 9 0, Op EC_GF_OP_XOR2 7 3 0, Op EC_GF_OP_XOR2 2 6 0, Op EC_GF_OP_XOR2 5 3 0,
       Op EC_GF_OP_XOR2 6 7 0, Op EC_GF_OP_XOR2 1 7 0, Op EC_GF_OP_XOR3 3 8 5, Op EC_GF_OP_XOR2 4 6 0,
       Op EC_GF_OP_END 0 0 0]]"

definition ec_gf8_mul :: "ec_gf_mul_t list" where
  "ec_gf8_mul =
    ec_gf8_mul_00_07 @ ec_gf8_mul_08_0D @ ec_gf8_mul_0E_13 @ ec_gf8_mul_14_19 @ ec_gf8_mul_1A_1F @ ec_gf8_mul_20_25 @
    ec_gf8_mul_26_2B @ ec_gf8_mul_2C_31 @ ec_gf8_mul_32_37 @ ec_gf8_mul_38_3D @ ec_gf8_mul_3E_43 @ ec_gf8_mul_44_4A @
    ec_gf8_mul_4B_50 @ ec_gf8_mul_51_56 @ ec_gf8_mul_57_5C @ ec_gf8_mul_5D_62 @ ec_gf8_mul_63_68 @ ec_gf8_mul_69_6E @
    ec_gf8_mul_6F_74 @ ec_gf8_mul_75_7A @ ec_gf8_mul_7B_80 @ ec_gf8_mul_81_86 @ ec_gf8_mul_87_8C @ ec_gf8_mul_8D_93 @
    ec_gf8_mul_94_99 @ ec_gf8_mul_9A_9F @ ec_gf8_mul_A0_A5 @ ec_gf8_mul_A6_AB @ ec_gf8_mul_AC_B1 @ ec_gf8_mul_B2_B7 @
    ec_gf8_mul_B8_BD @ ec_gf8_mul_BE_C3 @ ec_gf8_mul_C4_C9 @ ec_gf8_mul_CA_CF @ ec_gf8_mul_D0_D5 @ ec_gf8_mul_D6_DB @
    ec_gf8_mul_DC_E1 @ ec_gf8_mul_E2_E7 @ ec_gf8_mul_E8_ED @ ec_gf8_mul_EE_F3 @ ec_gf8_mul_F4_F9 @ ec_gf8_mul_FA_FF"

lemmas gf8_tables =
  ec_gf8_mul_00_07_def ec_gf8_mul_08_0D_def ec_gf8_mul_0E_13_def ec_gf8_mul_14_19_def ec_gf8_mul_1A_1F_def
  ec_gf8_mul_20_25_def ec_gf8_mul_26_2B_def ec_gf8_mul_2C_31_def ec_gf8_mul_32_37_def ec_gf8_mul_38_3D_def
  ec_gf8_mul_3E_43_def ec_gf8_mul_44_4A_def ec_gf8_mul_4B_50_def ec_gf8_mul_51_56_def ec_gf8_mul_57_5C_def
  ec_gf8_mul_5D_62_def ec_gf8_mul_63_68_def ec_gf8_mul_69_6E_def ec_gf8_mul_6F_74_def ec_gf8_mul_75_7A_def
  ec_gf8_mul_7B_80_def ec_gf8_mul_81_86_def ec_gf8_mul_87_8C_def ec_gf8_mul_8D_93_def ec_gf8_mul_94_99_def
  ec_gf8_mul_9A_9F_def ec_gf8_mul_A0_A5_def ec_gf8_mul_A6_AB_def ec_gf8_mul_AC_B1_def ec_gf8_mul_B2_B7_def
  ec_gf8_mul_B8_BD_def ec_gf8_mul_BE_C3_def ec_gf8_mul_C4_C9_def ec_gf8_mul_CA_CF_def ec_gf8_mul_D0_D5_def
  ec_gf8_mul_D6_DB_def ec_gf8_mul_DC_E1_def ec_gf8_mul_E2_E7_def ec_gf8_mul_E8_ED_def ec_gf8_mul_EE_F3_def
  ec_gf8_mul_F4_F9_def ec_gf8_mul_FA_FF_def

end
