(* ===== verification/Ec_Galois.thy ===== *)
theory Ec_Galois
  imports Ec_Gf8
begin

text \<open>
  Field arithmetic by tables, \<open>xlators/cluster/ec/src/ec-galois.c\<close>: the allocation of the field,
  the tables of powers and logarithms, and the four operations on \<open>uint32_t\<close> values, which answer
  \<open>gf->size\<close> where an argument is out of range.

  The contents of freshly allocated arrays are arguments, \<open>None\<close> where the allocation fails.  The
  initialisation of the tables returns \<open>None\<close> where it would write behind an array.
\<close>

unbundle bit_operations_syntax

section \<open>Operations\<close>

definition ec_gf_alloc :: "bool \<Rightarrow> u32 list option \<Rightarrow> u32 list option \<Rightarrow> u32 \<Rightarrow> u32 \<Rightarrow> int + ec_gf" where
  "ec_gf_alloc mem log0 pow0 bits modulus =
     (if \<not> mem then Inl ENOMEM
      else case log0 of
        None \<Rightarrow> Inl ENOMEM
      | Some lg \<Rightarrow> (case pow0 of
          None \<Rightarrow> Inl ENOMEM
        | Some pw \<Rightarrow> Inr \<lparr> gf_bits = bits, gf_size = push_bit (unat bits) 1, gf_mod = modulus, min_ops = 0, max_ops = 0,
            avg_ops = 0, gf_log = lg, gf_pow = pw, gf_table = [] \<rparr>))"

definition put :: "nat \<Rightarrow> 'a \<Rightarrow> 'a list \<Rightarrow> 'a list option" where
  "put i x xs = (if i < length xs then Some (xs[i := x]) else None)"

definition next_power :: "u32 \<Rightarrow> u32 \<Rightarrow> u32 \<Rightarrow> u32" where
  "next_power sz md p = (let tmp = push_bit 1 p in if sz \<le> tmp then tmp XOR md else tmp)"

fun tables_loop :: "u32 \<Rightarrow> u32 \<Rightarrow> nat list \<Rightarrow> u32 list \<Rightarrow> u32 list \<Rightarrow> (u32 list \<times> u32 list) option" where
  "tables_loop sz md [] lg pw = Some (lg, pw)"
| "tables_loop sz md (i # is) lg pw =
     do {
       let tmp = next_power sz md (pw ! (i - 1));
       pw \<leftarrow> put i tmp pw;
       pw \<leftarrow> put (i + unat sz - 1) tmp pw;
       lg \<leftarrow> put (unat tmp) (of_nat i) lg;
       lg \<leftarrow> put (unat (tmp + sz - 1)) (of_nat i) lg;
       tables_loop sz md is lg pw
     }"

definition ec_gf_init_tables :: "ec_gf \<Rightarrow> ec_gf option" where
  "ec_gf_init_tables gf =
     do {
       let n = unat (gf_size gf);
       let lg = replicate n 0xffffffff @ drop n (gf_log gf);
       pw \<leftarrow> put 0 1 (gf_pow gf);
       lg \<leftarrow> put 0 (gf_size gf) lg;
       lg \<leftarrow> put 1 0 lg;
       (lg, pw) \<leftarrow> tables_loop (gf_size gf) (gf_mod gf) [1..<n] lg pw;
       Some (gf\<lparr> gf_log := lg, gf_pow := pw \<rparr>)
     }"

definition op_count :: "ec_gf_mul_t \<Rightarrow> nat" where
  "op_count t = length (takeWhile (\<lambda>x. op x \<noteq> EC_GF_OP_END) (ops t))"

definition count_ops :: "ec_gf_mul_t \<Rightarrow> ec_gf \<Rightarrow> ec_gf" where
  "count_ops t gf =
     (let j = of_nat (op_count t);
          gf = (if max_ops gf < j then gf\<lparr> max_ops := j \<rparr> else gf);
          gf = (if j < min_ops gf then gf\<lparr> min_ops := j \<rparr> else gf)
      in gf\<lparr> avg_ops := avg_ops gf + j \<rparr>)"

definition ec_gf_prepare :: "bool \<Rightarrow> u32 list option \<Rightarrow> u32 list option \<Rightarrow> u32 \<Rightarrow> u32 \<Rightarrow> (int + ec_gf) option" where
  "ec_gf_prepare mem log0 pow0 bits md =
     (if bits \<noteq> 8 then Some (Inl EINVAL)
      else
        let md = (if md = 0 then 0x11d else md)
        in case ec_gf_alloc mem log0 pow0 bits md of
             Inl e \<Rightarrow> Some (Inl e)
           | Inr gf \<Rightarrow>
               do {
                 gf \<leftarrow> ec_gf_init_tables gf;
                 let gf = gf\<lparr> gf_table := ec_gf8_mul, min_ops := bits * bits, max_ops := 0, avg_ops := 0 \<rparr>;
                 let gf = fold (\<lambda>i. count_ops (ec_gf8_mul ! i)) [1..<unat (gf_size gf)] gf;
                 Some (Inr (gf\<lparr> avg_ops := avg_ops gf div gf_size gf \<rparr>))
               })"

definition ec_gf_add :: "ec_gf \<Rightarrow> u32 \<Rightarrow> u32 \<Rightarrow> u32" where
  "ec_gf_add gf a b = (if gf_size gf \<le> a \<or> gf_size gf \<le> b then gf_size gf else a XOR b)"

definition ec_gf_mul :: "ec_gf \<Rightarrow> u32 \<Rightarrow> u32 \<Rightarrow> u32" where
  "ec_gf_mul gf a b =
     (if gf_size gf \<le> a \<or> gf_size gf \<le> b then gf_size gf
      else if a \<noteq> 0 \<and> b \<noteq> 0 then gf_pow gf ! unat (gf_log gf ! unat a + gf_log gf ! unat b)
      else 0)"

definition ec_gf_div :: "ec_gf \<Rightarrow> u32 \<Rightarrow> u32 \<Rightarrow> u32" where
  "ec_gf_div gf a b =
     (if gf_size gf \<le> a \<or> gf_size gf \<le> b then gf_size gf
      else if b \<noteq> 0 then
        (if a \<noteq> 0 then gf_pow gf ! unat (gf_size gf - 1 + gf_log gf ! unat a - gf_log gf ! unat b) else 0)
      else gf_size gf)"

lemma unat_half: "unat (drop_bit 1 b) = unat b div 2" for b :: u32
  unfolding drop_bit_eq_div by (simp add: unat_div_distrib)

lemma drop_bit_less: "b \<noteq> 0 \<Longrightarrow> unat (drop_bit 1 b) < unat b" for b :: u32
  unfolding unat_half by (simp add: unat_gt_0)

function exp_loop :: "ec_gf \<Rightarrow> u32 \<Rightarrow> u32 \<Rightarrow> u32 \<Rightarrow> u32" where
  "exp_loop gf r a b =
     (if b = 0 then r
      else exp_loop gf (if b AND 1 \<noteq> 0 then ec_gf_mul gf r a else r) (ec_gf_mul gf a a) (drop_bit 1 b))"
  by pat_completeness auto
termination
  by (relation "measure (\<lambda>(gf, r, a, b). unat b)") (use drop_bit_less in simp_all)

declare exp_loop.simps [simp del]

definition ec_gf_exp :: "ec_gf \<Rightarrow> u32 \<Rightarrow> u32 \<Rightarrow> u32" where
  "ec_gf_exp gf a b =
     (if gf_size gf \<le> a \<or> a = 0 \<and> b = 0 then gf_size gf else exp_loop gf 1 a b)"

section \<open>The tables\<close>

text \<open>The field element a \<open>uint32_t\<close> value stands for, and the value of an element.\<close>

definition gf_of :: "u32 \<Rightarrow> gf256" where
  "gf_of a = Gf (ucast a)"

definition val :: "gf256 \<Rightarrow> u32" where
  "val g = ucast (byte g)"

lemma ucast_u8: "ucast (ucast b :: u32) = (b :: u8)"
  by (rule bit_word_eqI) (auto simp: bit_simps)

lemma gf_of_val [simp]: "gf_of (val g) = g"
  by (simp add: gf_of_def val_def byte_inverse ucast_u8)

lemma unat_u8: "unat (b :: u8) < 256"
  using unsigned_less [where ?'a = nat, of b] by simp

lemma unat_ucast_u8: "unat (ucast b :: u32) = unat (b :: u8)"
  using unat_u8 [of b] by (simp add: unsigned_ucast_eq take_bit_nat_eq_self)

lemma unat_val: "unat (val g) < 256"
  unfolding val_def unat_ucast_u8 by (rule unat_u8)

lemma val_less: "val g < 256"
  using unat_val [of g] by (simp add: word_less_nat_alt)

lemma val_gf_of: "a < 256 \<Longrightarrow> val (gf_of a) = a"
proof -
  assume "a < 256"
  then have "unat a < 256" by (simp add: word_less_nat_alt)
  then have "unat (ucast (ucast a :: u8) :: u32) = unat a"
    unfolding unat_ucast_u8 by (simp add: unsigned_ucast_eq take_bit_nat_eq_self)
  then show ?thesis by (simp add: val_def gf_of_def Gf_inverse word_unat_eq_iff)
qed

lemma val_inject: "val g = val h \<longleftrightarrow> g = h"
  by (metis gf_of_val)

lemma val_zero [simp]: "val 0 = 0" "val 1 = 1" "gf_of 0 = 0" "gf_of 1 = 1"
  by (simp_all add: val_def gf_of_def zero_gf256_def one_gf256_def Gf_inverse)

lemma gf_of_eq_0: "a < 256 \<Longrightarrow> gf_of a = 0 \<longleftrightarrow> a = 0"
  by (metis val_gf_of val_zero(1,3))

definition valid_gf :: "ec_gf \<Rightarrow> bool" where
  "valid_gf gf \<longleftrightarrow> gf_size gf = 256 \<and> length (gf_pow gf) = 511 \<and> length (gf_log gf) = 511 \<and>
     (\<forall>i < 511. gf_pow gf ! i = val (gen ^ i)) \<and>
     (\<forall>i \<in> {1..255}. gf_log gf ! unat (val (gen ^ i)) = of_nat i)"

lemma next_power_all: "list_all (\<lambda>n. next_power 256 0x11d (ucast (word_of_nat n :: u8)) = ucast (xtime (word_of_nat n))) [0..<256]"
  by code_simp

lemma next_power_val: "next_power 256 0x11d (val g) = val (gen * g)"
proof -
  let ?b = "byte g"
  have "unat ?b \<in> set [0..<256]" using unat_u8 [of ?b] by simp
  then have "next_power 256 0x11d (ucast (word_of_nat (unat ?b) :: u8)) = ucast (xtime (word_of_nat (unat ?b)))"
    using next_power_all unfolding list_all_iff by blast
  then show ?thesis by (simp add: val_def gen_def times_gf256.rep_eq Gf_inverse mul8_two)
qed

text \<open>What the loop has established when it has done \<open>1\<close> to \<open>n\<close>.\<close>

definition tables_upto :: "nat \<Rightarrow> u32 list \<Rightarrow> u32 list \<Rightarrow> bool" where
  "tables_upto n lg pw \<longleftrightarrow> length lg = 511 \<and> length pw = 511 \<and> (\<forall>i \<le> n. pw ! i = val (gen ^ i)) \<and>
     (\<forall>i \<in> {1..n}. pw ! (i + 255) = val (gen ^ i) \<and> lg ! unat (val (gen ^ i)) = of_nat i)"

lemma tables_step:
  assumes "tables_upto n lg pw" "n < 255"
  shows "\<exists>lg' pw'. tables_loop 256 0x11d (Suc n # is) lg pw = tables_loop 256 0x11d is lg' pw' \<and> tables_upto (Suc n) lg' pw'"
proof -
  note u = assms(1) [unfolded tables_upto_def]
  define t where "t = val (gen ^ Suc n)"
  have t: "next_power 256 0x11d (pw ! (Suc n - 1)) = t" using u by (simp add: next_power_val t_def)
  have tl: "unat t < 256" unfolding t_def by (rule unat_val)
  have t2: "unat (t + 256 - 1) = unat t + 255"
    using tl by (simp add: unat_word_ariths unat_sub_if' word_le_nat_alt)
  let ?pw = "pw[Suc n := t, Suc n + 255 := t]" and ?lg = "lg[unat t := of_nat (Suc n), unat t + 255 := of_nat (Suc n)]"
  have "put (Suc n) t pw = Some (pw[Suc n := t])" "put (Suc n + unat (256 :: u32) - 1) t (pw[Suc n := t]) = Some ?pw"
    "put (unat t) (of_nat (Suc n)) lg = Some (lg[unat t := of_nat (Suc n)])"
    "put (unat (t + 256 - 1)) (of_nat (Suc n)) (lg[unat t := of_nat (Suc n)]) = Some ?lg"
    unfolding t2 using u assms(2) tl by (simp_all add: put_def del: of_nat_Suc)
  then have "tables_loop 256 0x11d (Suc n # is) lg pw = tables_loop 256 0x11d is ?lg ?pw"
    unfolding tables_loop.simps t Let_def by (simp del: of_nat_Suc)
  moreover have "tables_upto (Suc n) ?lg ?pw"
  proof -
    have ne: "unat (val (gen ^ i)) \<noteq> unat t" if "i \<in> {1..n}" for i
      using that assms(2) gen_power_inj [of i "Suc n"] by (auto simp: t_def val_inject simp flip: word_unat_eq_iff)
    have ne2: "unat (val (gen ^ i)) \<noteq> unat t + 255" if "i \<in> {1..Suc n}" for i
    proof -
      have "t \<noteq> 0" using gen_power_nonzero [of "Suc n"] val_inject [of _ 0] by (simp add: t_def)
      then have "unat t \<noteq> 0" by (simp add: unat_eq_0)
      then show ?thesis using unat_val [of "gen ^ i"] by simp
    qed
    have "?pw ! i = val (gen ^ i)" if "i \<le> Suc n" for i
      using u that assms(2) by (cases "i = Suc n") (simp_all add: nth_list_update t_def)
    moreover have "?pw ! (i + 255) = val (gen ^ i) \<and> ?lg ! unat (val (gen ^ i)) = of_nat i" if i: "i \<in> {1..Suc n}" for i
    proof (cases "i = Suc n")
      case True
      then show ?thesis using u ne2 [OF i] tl assms(2) by (simp add: nth_list_update flip: t_def del: of_nat_Suc power_Suc)
    next
      case False
      then have "i \<in> {1..n}" using i by auto
      then show ?thesis using u ne [of i] ne2 [OF i] assms(2) by (simp add: nth_list_update)
    qed
    ultimately show ?thesis using u unfolding tables_upto_def by auto
  qed
  ultimately show ?thesis by blast
qed

lemma tables_loop_all:
  "tables_upto n lg pw \<Longrightarrow> n \<le> 255 \<Longrightarrow>
     \<exists>lg' pw'. tables_loop 256 0x11d [Suc n..<256] lg pw = Some (lg', pw') \<and> tables_upto 255 lg' pw'"
proof (induction "255 - n" arbitrary: n lg pw)
  case 0
  then have "n = 255" by simp
  then show ?case using 0 by simp
next
  case (Suc k)
  then have n: "n < 255" by simp
  obtain lg' pw' where s: "tables_loop 256 0x11d (Suc n # [Suc (Suc n)..<256]) lg pw = tables_loop 256 0x11d [Suc (Suc n)..<256] lg' pw'"
    "tables_upto (Suc n) lg' pw'" using tables_step [OF Suc.prems(1) n] by blast
  have "[Suc n..<256] = Suc n # [Suc (Suc n)..<256]" using n by (simp add: upt_conv_Cons)
  then show ?case using Suc.hyps(1) [of "Suc n", OF _ s(2)] Suc.hyps(2) n s(1) by simp
qed

lemma init_tables_valid:
  assumes "gf_size gf = 256" "gf_mod gf = 0x11d" "length (gf_log gf) = 511" "length (gf_pow gf) = 511"
  shows "\<exists>lg pw. ec_gf_init_tables gf = Some (gf\<lparr> gf_log := lg, gf_pow := pw \<rparr>) \<and> valid_gf (gf\<lparr> gf_log := lg, gf_pow := pw \<rparr>)"
proof -
  let ?lg = "((replicate 256 0xffffffff @ drop 256 (gf_log gf))[0 := 256])[1 := 0]" and ?pw = "(gf_pow gf)[0 := 1]"
  have "tables_upto 0 ?lg ?pw" using assms by (simp add: tables_upto_def)
  from tables_loop_all [OF this] obtain lg pw
    where l: "tables_loop 256 0x11d [1..<256] ?lg ?pw = Some (lg, pw)" and u: "tables_upto 255 lg pw" by auto
  have "ec_gf_init_tables gf = Some (gf\<lparr> gf_log := lg, gf_pow := pw \<rparr>)"
    using l assms by (simp add: ec_gf_init_tables_def put_def Let_def)
  moreover have "pw ! i = val (gen ^ i)" if "i < 511" for i
  proof (cases "i \<le> 255")
    case False
    then have "i - 255 \<in> {1..255}" using that by auto
    then have "pw ! (i - 255 + 255) = val (gen ^ (i - 255))" using u unfolding tables_upto_def by blast
    moreover have "gen ^ i = gen ^ (i - 255) * gen ^ 255" using False by (simp flip: power_add)
    ultimately show ?thesis using False by (simp add: gen_order)
  qed (use u in \<open>simp add: tables_upto_def\<close>)
  ultimately show ?thesis using u assms(1) by (auto simp: valid_gf_def tables_upto_def)
qed

lemma count_ops_keeps [simp]:
  "gf_size (count_ops t gf) = gf_size gf" "gf_log (count_ops t gf) = gf_log gf" "gf_pow (count_ops t gf) = gf_pow gf"
  "gf_table (count_ops t gf) = gf_table gf" "gf_bits (count_ops t gf) = gf_bits gf"
  by (simp_all add: count_ops_def Let_def)

lemma count_ops_fold:
  "gf_size (fold (\<lambda>i. count_ops (T i)) is gf) = gf_size gf" "gf_log (fold (\<lambda>i. count_ops (T i)) is gf) = gf_log gf"
  "gf_pow (fold (\<lambda>i. count_ops (T i)) is gf) = gf_pow gf" "gf_table (fold (\<lambda>i. count_ops (T i)) is gf) = gf_table gf"
  "gf_bits (fold (\<lambda>i. count_ops (T i)) is gf) = gf_bits gf"
  by (induction "is" arbitrary: gf) auto

lemma max_ops_step: "max_ops gf \<le> max_ops (count_ops t gf)" "of_nat (op_count t) \<le> max_ops (count_ops t gf)"
  by (auto simp: count_ops_def Let_def)

lemma max_ops_mono: "max_ops gf \<le> max_ops (fold (\<lambda>i. count_ops (T i)) is gf)"
proof (induction "is" arbitrary: gf)
  case (Cons a "is")
  show ?case using order.trans [OF max_ops_step(1) Cons, of gf "T a"] by simp
qed simp

lemma max_ops_bound: "i \<in> set is \<Longrightarrow> of_nat (op_count (T i)) \<le> max_ops (fold (\<lambda>i. count_ops (T i)) is gf)"
proof (induction "is" arbitrary: gf)
  case (Cons a "is")
  then show ?case using order.trans [OF max_ops_step(2) max_ops_mono, of "T a" T "is" gf] by auto
qed simp

lemma max_ops_limit:
  assumes "\<forall>i \<in> set is. of_nat (op_count (T i)) \<le> m" "max_ops gf \<le> m"
  shows "max_ops (fold (\<lambda>i. count_ops (T i)) is gf) \<le> m"
  using assms by (induction "is" arbitrary: gf) (auto simp: count_ops_def Let_def)

lemma op_counts: "list_all (\<lambda>t. op_count t \<le> 18) ec_gf8_mul \<and> length ec_gf8_mul = 256"
  by code_simp

text \<open>The field as \<open>ec_gf_prepare\<close> leaves it.\<close>

definition prepared_gf :: "ec_gf \<Rightarrow> bool" where
  "prepared_gf gf \<longleftrightarrow> valid_gf gf \<and> gf_bits gf = 8 \<and> gf_table gf = ec_gf8_mul \<and>
     (\<forall>i \<in> {1..<256}. of_nat (op_count (ec_gf8_mul ! i)) \<le> max_ops gf) \<and> max_ops gf \<le> 18"

lemma prepare_valid:
  assumes "length log0 = 511" "length pow0 = 511" "md \<in> {0, 0x11d}"
  shows "\<exists>gf. ec_gf_prepare True (Some log0) (Some pow0) 8 md = Some (Inr gf) \<and> prepared_gf gf"
proof -
  define gf0 where "gf0 = \<lparr> gf_bits = 8, gf_size = 256, gf_mod = 0x11d, min_ops = 0, max_ops = 0, avg_ops = 0, gf_log = log0,
    gf_pow = pow0, gf_table = [] \<rparr>"
  obtain lg pw where i: "ec_gf_init_tables gf0 = Some (gf0\<lparr> gf_log := lg, gf_pow := pw \<rparr>)" "valid_gf (gf0\<lparr> gf_log := lg, gf_pow := pw \<rparr>)"
    using init_tables_valid [of gf0] assms by (auto simp: gf0_def)
  define gf1 where "gf1 = gf0\<lparr> gf_log := lg, gf_pow := pw, gf_table := ec_gf8_mul, min_ops := 64, max_ops := 0, avg_ops := 0 \<rparr>"
  define gf2 where "gf2 = fold (\<lambda>i. count_ops (ec_gf8_mul ! i)) [1..<256] gf1"
  have sz: "gf_size gf2 = 256" by (simp add: gf2_def count_ops_fold gf1_def gf0_def)
  have a: "ec_gf_alloc True (Some log0) (Some pow0) 8 0x11d = Inr gf0" by (simp add: ec_gf_alloc_def gf0_def)
  have "(if md = 0 then 0x11d else md) = 0x11d" using assms(3) by auto
  then have "ec_gf_prepare True (Some log0) (Some pow0) 8 md = Some (Inr (gf2\<lparr> avg_ops := avg_ops gf2 div 256 \<rparr>))"
    unfolding ec_gf_prepare_def Let_def using i(1) sz by (simp add: a gf1_def gf2_def gf0_def)
  moreover have "\<forall>i \<in> set [1..<256]. of_nat (op_count (ec_gf8_mul ! i)) \<le> (18 :: u32)"
  proof
    fix i
    assume "i \<in> set [1..<256]"
    then have "op_count (ec_gf8_mul ! i) \<le> 18" using op_counts by (auto simp: list_all_length)
    then show "of_nat (op_count (ec_gf8_mul ! i)) \<le> (18 :: u32)" by (simp add: word_le_nat_alt unat_of_nat)
  qed
  then have "max_ops gf2 \<le> 18" unfolding gf2_def by (rule max_ops_limit) (simp add: gf1_def)
  ultimately have "ec_gf_prepare True (Some log0) (Some pow0) 8 md = Some (Inr (gf2\<lparr> avg_ops := avg_ops gf2 div 256 \<rparr>))" "max_ops gf2 \<le> 18"
    by blast+
  moreover have "prepared_gf (gf2\<lparr> avg_ops := avg_ops gf2 div 256 \<rparr>)"
    using \<open>max_ops gf2 \<le> 18\<close> i(2) max_ops_bound [of _ "[1..<256]" "\<lambda>i. ec_gf8_mul ! i" gf1]
    by (simp add: prepared_gf_def valid_gf_def gf2_def count_ops_fold gf1_def gf0_def)
  ultimately show ?thesis by blast
qed

section \<open>The operations are those of the field\<close>

lemma log_nonzero:
  assumes "valid_gf gf" "a \<noteq> 0"
  obtains i where "1 \<le> i" "i \<le> 255" "a = gen ^ i" "unat (gf_log gf ! unat (val a)) = i" "gf_log gf ! unat (val a) = of_nat i"
proof -
  obtain i where i: "1 \<le> i" "i \<le> 255" "a = gen ^ i" using nonzero_is_power [OF assms(2)] .
  then have "gf_log gf ! unat (val a) = of_nat i" using assms(1) unfolding valid_gf_def by auto
  then show ?thesis using that [OF i] i by (simp add: unat_of_nat)
qed

lemma gf_mul_val: "valid_gf gf \<Longrightarrow> ec_gf_mul gf (val a) (val b) = val (a * b)"
proof -
  assume v: "valid_gf gf"
  have sz: "gf_size gf = 256" and p: "\<And>i. i < 511 \<Longrightarrow> gf_pow gf ! i = val (gen ^ i)" using v by (auto simp: valid_gf_def)
  have r: "\<not> 256 \<le> val a" "\<not> 256 \<le> val b" using val_less [of a] val_less [of b] by simp_all
  show ?thesis
  proof (cases "a = 0 \<or> b = 0")
    case True
    then show ?thesis using r sz by (auto simp: ec_gf_mul_def)
  next
    case False
    then have n: "val a \<noteq> 0" "val b \<noteq> 0" using val_inject [of _ 0] by auto
    obtain i where i: "1 \<le> i" "i \<le> 255" "a = gen ^ i" "gf_log gf ! unat (val a) = of_nat i" using log_nonzero [OF v, of a] False by metis
    obtain j where j: "1 \<le> j" "j \<le> 255" "b = gen ^ j" "gf_log gf ! unat (val b) = of_nat j" using log_nonzero [OF v, of b] False by metis
    have u: "unat (of_nat i + of_nat j :: u32) = i + j" using i j by (simp add: unat_of_nat flip: of_nat_add)
    show ?thesis unfolding ec_gf_mul_def sz using r n p [of "i + j"] i j by (simp add: u power_add)
  qed
qed

lemma gf_div_val: "valid_gf gf \<Longrightarrow> b \<noteq> 0 \<Longrightarrow> ec_gf_div gf (val a) (val b) = val (a / b)"
proof -
  assume v: "valid_gf gf" and b: "b \<noteq> 0"
  have sz: "gf_size gf = 256" and p: "\<And>i. i < 511 \<Longrightarrow> gf_pow gf ! i = val (gen ^ i)" using v by (auto simp: valid_gf_def)
  have r: "\<not> 256 \<le> val a" "\<not> 256 \<le> val b" using val_less [of a] val_less [of b] by simp_all
  have n: "val b \<noteq> 0" using b val_inject [of _ 0] by auto
  show ?thesis
  proof (cases "a = 0")
    case True
    then show ?thesis using r sz n by (simp add: ec_gf_div_def)
  next
    case False
    then have n': "val a \<noteq> 0" using val_inject [of _ 0] by auto
    obtain i where i: "1 \<le> i" "i \<le> 255" "a = gen ^ i" "gf_log gf ! unat (val a) = of_nat i" using log_nonzero [OF v False] by metis
    obtain j where j: "1 \<le> j" "j \<le> 255" "b = gen ^ j" "gf_log gf ! unat (val b) = of_nat j" using log_nonzero [OF v b] by metis
    have e: "(256 - 1 + of_nat i - of_nat j :: u32) = of_nat (255 + i - j)" using j(2) by (simp add: of_nat_diff)
    have u: "unat (256 - 1 + of_nat i - of_nat j :: u32) = 255 + i - j"
      unfolding e unat_of_nat using i(2) by (intro mod_less) simp
    have "gen ^ (255 + i - j) * b = gen ^ (255 + i - j + j)" by (simp add: j(3) power_add)
    also have "\<dots> = a" using j(2) i(3) by (simp add: power_add gen_order)
    finally have "a / b = gen ^ (255 + i - j)" using b by (metis nonzero_mult_div_cancel_right)
    moreover have "255 + i - j < 511" using i j by simp
    ultimately show ?thesis unfolding ec_gf_div_def sz using r n n' p [of "255 + i - j"] i(4) j(4) u by simp
  qed
qed

lemma val_xor: "val a XOR val b = val (a + b)"
  by (rule bit_word_eqI) (auto simp: val_def plus_gf256.rep_eq bit_simps)

lemma gf_add_val: "valid_gf gf \<Longrightarrow> ec_gf_add gf (val a) (val b) = val (a + b)"
  using val_less [of a] val_less [of b] by (auto simp: ec_gf_add_def valid_gf_def val_xor)

lemma odd_and: "b AND 1 \<noteq> 0 \<longleftrightarrow> odd (unat b)" for b :: u32
proof -
  have "b AND 1 \<noteq> 0 \<longleftrightarrow> bit b 0" by (simp add: and_one_eq bit_0 odd_iff_mod_2_eq_one)
  also have "\<dots> \<longleftrightarrow> bit (unat b) 0" by (simp only: bit_unsigned_iff) simp
  finally show ?thesis by (simp only: bit_0)
qed

lemma exp_loop_val: "valid_gf gf \<Longrightarrow> exp_loop gf (val r) (val a) b = val (r * a ^ unat b)"
proof (induction "unat b" arbitrary: r a b rule: less_induct)
  case less
  show ?case
  proof (cases "b = 0")
    case True
    then show ?thesis by (simp add: exp_loop.simps)
  next
    case False
    have e: "a ^ unat b = (if odd (unat b) then a else 1) * (a * a) ^ (unat b div 2)"
      by (cases "odd (unat b)") (auto elim!: oddE evenE simp: power_mult power2_eq_square)
    have "exp_loop gf (val r) (val a) b = exp_loop gf (val (if odd (unat b) then r * a else r)) (val (a * a)) (drop_bit 1 b)"
      using False by (subst exp_loop.simps) (simp add: gf_mul_val [OF less.prems] odd_and)
    also have "\<dots> = val ((if odd (unat b) then r * a else r) * (a * a) ^ unat (drop_bit 1 b))"
      using less.hyps [OF drop_bit_less [OF False] less.prems] .
    also have "\<dots> = val (r * a ^ unat b)" unfolding e unat_half by (simp add: mult.assoc)
    finally show ?thesis .
  qed
qed

lemma gf_exp_val: "valid_gf gf \<Longrightarrow> a \<noteq> 0 \<or> n \<noteq> 0 \<Longrightarrow> ec_gf_exp gf (val a) n = val (a ^ unat n)"
  using exp_loop_val [of gf 1 a n] val_less [of a] val_inject [of a 0]
  by (auto simp: ec_gf_exp_def valid_gf_def not_le [symmetric])

section \<open>Properties\<close>

text \<open>C11: the arithmetic by tables is the arithmetic of the field.  The preparation succeeds whatever the
  allocated arrays contain, and after it sums, products, quotients and powers of bytes are those of
  the field; a division by zero and an argument that is not a byte are answered with \<open>gf->size\<close>.\<close>

theorem gf_arithmetic:
  assumes "length log0 = 511" "length pow0 = 511"
  shows "\<exists>gf. ec_gf_prepare True (Some log0) (Some pow0) 8 0 = Some (Inr gf) \<and>
    (\<forall>a b. ec_gf_add gf (val a) (val b) = val (a + b) \<and> ec_gf_mul gf (val a) (val b) = val (a * b) \<and>
       ec_gf_div gf (val a) (val b) = (if b = 0 then 256 else val (a / b))) \<and>
    (\<forall>a n. ec_gf_exp gf (val a) n = (if a = 0 \<and> n = 0 then 256 else val (a ^ unat n))) \<and>
    (\<forall>x y. 256 \<le> x \<longrightarrow> ec_gf_add gf x y = 256 \<and> ec_gf_mul gf x y = 256 \<and> ec_gf_div gf x y = 256 \<and> ec_gf_exp gf x y = 256)"
proof -
  obtain gf where gf: "ec_gf_prepare True (Some log0) (Some pow0) 8 0 = Some (Inr gf)" "valid_gf gf"
    using prepare_valid [OF assms, of 0] by (auto simp: prepared_gf_def)
  then have "gf_size gf = 256" by (simp add: valid_gf_def)
  then have "ec_gf_div gf (val a) (val 0) = 256" "ec_gf_exp gf (val 0) 0 = 256" for a
    using val_less [of a] by (auto simp: ec_gf_div_def ec_gf_exp_def)
  moreover have "256 \<le> x \<Longrightarrow> ec_gf_add gf x y = 256 \<and> ec_gf_mul gf x y = 256 \<and> ec_gf_div gf x y = 256 \<and> ec_gf_exp gf x y = 256" for x y
    using \<open>gf_size gf = 256\<close> by (simp add: ec_gf_add_def ec_gf_mul_def ec_gf_div_def ec_gf_exp_def)
  ultimately show ?thesis using gf gf_add_val gf_mul_val gf_div_val gf_exp_val by auto
qed

theorem gf_arithmetic_witness:
  "\<exists>gf. ec_gf_prepare True (Some (replicate 511 7)) (Some (replicate 511 9)) 8 0 = Some (Inr gf) \<and>
     ec_gf_mul gf (val (Gf 2)) (val (Gf 128)) = val (Gf 2 * Gf 128) \<and> ec_gf_exp gf (val (Gf 2)) 8 = val (Gf 2 ^ 8)"
  using gf_arithmetic [of "replicate 511 7" "replicate 511 9"] by auto

end
