(* ===== verification/Ec_Muladd.thy ===== *)
theory Ec_Muladd
  imports Ec_Types
begin

text \<open>
  The frame of the routines \<open>gf8_muladd_01\<close> to \<open>gf8_muladd_FF\<close> of
  \<open>xlators/cluster/ec/src/ec-code-c.c\<close>, and what they are to compute: \<open>out = c * out + in\<close> for
  the 512 field elements of a chunk.

  Each routine is the same loop over the eight words of a bit plane around its own straight line
  code, \<open>body\<close>, from the eight words \<open>in0\<close> to \<open>in7\<close> it reads to the words \<open>out0\<close> to \<open>out7\<close> it
  adds to the input.
\<close>

unbundle bit_operations_syntax

section \<open>The loop\<close>

type_synonym muladd_body = "u64 \<Rightarrow> u64 \<Rightarrow> u64 \<Rightarrow> u64 \<Rightarrow> u64 \<Rightarrow> u64 \<Rightarrow> u64 \<Rightarrow> u64 \<Rightarrow> u64 list"

definition muladd_word :: "muladd_body \<Rightarrow> chunk \<Rightarrow> nat \<Rightarrow> chunk \<Rightarrow> chunk" where
  "muladd_word body inp i out =
     (let outs = body (out ! i) (out ! (i + WIDTH)) (out ! (i + WIDTH * 2)) (out ! (i + WIDTH * 3)) (out ! (i + WIDTH * 4))
        (out ! (i + WIDTH * 5)) (out ! (i + WIDTH * 6)) (out ! (i + WIDTH * 7))
      in fold (\<lambda>k c. c[i + WIDTH * k := outs ! k XOR inp ! (i + WIDTH * k)]) [0..<8] out)"

definition muladd_loop :: "muladd_body \<Rightarrow> chunk \<Rightarrow> chunk \<Rightarrow> chunk" where
  "muladd_loop body out inp = fold (muladd_word body inp) [0..<WIDTH] out"

section \<open>The reference\<close>

definition xor_planes :: "u64 list \<Rightarrow> u64 list \<Rightarrow> u64 list" where
  "xor_planes xs ys = map2 (XOR) xs ys"

fun xtime_planes :: "u64 list \<Rightarrow> u64 list" where
  "xtime_planes [a, b, c, d, e, f, g, h] = [h, a, b XOR h, c XOR h, d XOR h, e, f, g]"
| "xtime_planes xs = xs"

primrec mul_planes :: "nat \<Rightarrow> u8 \<Rightarrow> u64 list \<Rightarrow> u64 list" where
  "mul_planes 0 c xs = [0, 0, 0, 0, 0, 0, 0, 0]"
| "mul_planes (Suc n) c xs =
     (if bit c 0 then xor_planes xs (mul_planes n (drop_bit 1 c) (xtime_planes xs)) else mul_planes n (drop_bit 1 c) (xtime_planes xs))"

definition muladd_ref :: "u8 \<Rightarrow> chunk \<Rightarrow> chunk \<Rightarrow> chunk" where
  "muladd_ref c = muladd_loop (\<lambda>in0 in1 in2 in3 in4 in5 in6 in7. mul_planes 8 c [in0, in1, in2, in3, in4, in5, in6, in7])"

lemma mul_planes_8: "mul_planes 8 c xs = mul_planes (Suc (Suc (Suc (Suc (Suc (Suc (Suc (Suc 0)))))))) c xs"
  by (simp add: numeral_eq_Suc)

lemmas muladd_simps = muladd_ref_def mul_planes_8 xor_planes_def Let_def xor_ac

section \<open>What the loop does to a column\<close>

lemma index_split: "i < WIDTH \<Longrightarrow> i' < WIDTH \<Longrightarrow> i + WIDTH * k = i' + WIDTH * k' \<longleftrightarrow> i = i' \<and> k = k'" for i :: nat
  by presburger

lemma fold_update_length [simp]: "length (fold (\<lambda>k c. c[f k := g k]) ks c) = length c"
  by (induction ks arbitrary: c) auto

lemma fold_update_nth:
  assumes "i < WIDTH" "i' < WIDTH" "i' + WIDTH * k' < length c"
  shows "fold (\<lambda>k c. c[i + WIDTH * k := g k]) [0..<m] c ! (i' + WIDTH * k') =
    (if i = i' \<and> k' < m then g k' else c ! (i' + WIDTH * k'))"
  using assms
proof (induction m)
  case (Suc m)
  show ?case using Suc index_split [of i i' m k'] by (auto simp: nth_list_update less_Suc_eq)
qed simp

lemma muladd_word_length [simp]: "length (muladd_word body inp i out) = length out"
  by (simp add: muladd_word_def)

definition run_body :: "muladd_body \<Rightarrow> u64 list \<Rightarrow> u64 list" where
  "run_body body xs = body (xs ! 0) (xs ! 1) (xs ! 2) (xs ! 3) (xs ! 4) (xs ! 5) (xs ! 6) (xs ! 7)"

lemma muladd_word_nth:
  assumes "i < WIDTH" "i' < WIDTH" "k < 8" "is_chunk out"
  shows "muladd_word body inp i out ! (i' + WIDTH * k) =
    (if i = i' then run_body body (column out i) ! k XOR inp ! (i + WIDTH * k) else out ! (i' + WIDTH * k))"
  unfolding muladd_word_def Let_def
  by (subst fold_update_nth [OF assms(1,2)]) (use assms in \<open>simp_all add: is_chunk_def run_body_def column_def\<close>)

lemma muladd_word_column:
  assumes "i < WIDTH" "i' < WIDTH" "is_chunk out"
  shows "column (muladd_word body inp i out) i' =
    (if i = i' then map (\<lambda>k. run_body body (column out i) ! k XOR inp ! (i + WIDTH * k)) [0..<8] else column out i')"
  using muladd_word_nth [OF assms(1,2) _ assms(3)] by (auto simp: column_def [of _ i'] intro!: map_cong)

lemma muladd_loop_column:
  assumes "i < WIDTH" "is_chunk out"
  shows "column (muladd_loop body out inp) i = map (\<lambda>k. run_body body (column out i) ! k XOR column inp i ! k) [0..<8]"
    "is_chunk (muladd_loop body out inp)"
proof -
  let ?f = "\<lambda>n. fold (muladd_word body inp) [0..<n] out"
  have len: "is_chunk (?f n)" for n using assms(2) by (induction n) (auto simp: is_chunk_def)
  have "n \<le> WIDTH \<Longrightarrow> column (?f n) i =
      (if i < n then map (\<lambda>k. run_body body (column out i) ! k XOR inp ! (i + WIDTH * k)) [0..<8] else column out i)" for n
    using muladd_word_column [OF _ assms(1) len, of _ body inp] by (induction n) auto
  from this [of WIDTH] show "column (muladd_loop body out inp) i = map (\<lambda>k. run_body body (column out i) ! k XOR column inp i ! k) [0..<8]"
    using assms(1) by (simp add: muladd_loop_def) (simp add: column_def)
  show "is_chunk (muladd_loop body out inp)" using len by (simp add: muladd_loop_def)
qed

section \<open>The reference multiplies the elements\<close>

lemma byte_eqI: "(\<And>k. k < 8 \<Longrightarrow> bit a k = bit b k) \<Longrightarrow> a = b" for a :: u8
  by (rule bit_word_eqI) simp

lemma length_xor_planes [simp]: "length (xor_planes xs ys) = min (length xs) (length ys)"
  by (simp add: xor_planes_def)

lemma length_xtime_planes [simp]: "length (xtime_planes xs) = length xs"
  by (cases xs rule: xtime_planes.cases) auto

lemma length_mul_planes [simp]: "length xs = 8 \<Longrightarrow> length (mul_planes n c xs) = 8"
  by (induction n arbitrary: c xs) auto

lemma plane_byte_xor:
  assumes "length xs = 8" "length ys = 8"
  shows "plane_byte (xor_planes xs ys) b = plane_byte xs b XOR plane_byte ys b"
  by (rule byte_eqI) (use assms in \<open>simp add: bit_plane_byte bit_xor_iff xor_planes_def\<close>)

lemma planes8: "length xs = 8 \<Longrightarrow> \<exists>a b c d e f g h. xs = [a, b, c, d, e, f, g, h]"
  by (auto simp: numeral_eq_Suc length_Suc_conv)

lemma bit_xtime: "k < 8 \<Longrightarrow> bit (xtime a) k \<longleftrightarrow> (1 \<le> k \<and> bit a (k - 1)) \<noteq> (bit a 7 \<and> bit (0x1d :: u8) k)"
  unfolding xtime_def bit_xor_iff bit_if bit_push_bit_iff by auto

lemma plane_byte_xtime:
  assumes "length xs = 8"
  shows "plane_byte (xtime_planes xs) b = xtime (plane_byte xs b)"
proof -
  obtain x0 x1 x2 x3 x4 x5 x6 x7 where xs: "xs = [x0, x1, x2, x3, x4, x5, x6, x7]" using planes8 [OF assms] by blast
  show ?thesis
  proof (rule byte_eqI)
    fix k :: nat
    assume "k < 8"
    then have "k \<in> {0,1,2,3,4,5,6,7}" by auto
    then show "bit (plane_byte (xtime_planes xs) b) k = bit (xtime (plane_byte xs b)) k"
      unfolding xs by (elim insertE emptyE) (simp_all add: bit_plane_byte bit_xtime bit_xor_iff)
  qed
qed

lemma plane_byte_mul:
  assumes "length xs = 8"
  shows "plane_byte (mul_planes n c xs) b = mul_bits n (plane_byte xs b) c"
  using assms
proof (induction n arbitrary: c xs)
  case 0
  show ?case by (rule byte_eqI) (auto simp: plane_byte_def bit_horner_sum_bit_word_iff)
next
  case (Suc n)
  then show ?case by (auto simp: plane_byte_xor plane_byte_xtime)
qed

lemma muladd_ref_element:
  assumes "is_chunk out" "j < 512"
  shows "element (muladd_ref c out inp) j = Gf c * element out j + element inp j" "is_chunk (muladd_ref c out inp)"
proof -
  let ?i = "j div 64" and ?b = "j mod 64"
  have i: "?i < WIDTH" using assms(2) by simp
  obtain x0 x1 x2 x3 x4 x5 x6 x7 where x: "column out ?i = [x0, x1, x2, x3, x4, x5, x6, x7]"
    using planes8 [of "column out ?i"] by auto
  let ?m = "mul_planes 8 c (column out ?i)"
  have m: "length ?m = 8" by simp
  have "column (muladd_ref c out inp) ?i = map (\<lambda>k. ?m ! k XOR column inp ?i ! k) [0..<8]"
    unfolding muladd_ref_def muladd_loop_column(1) [OF i assms(1)] run_body_def by (simp add: x)
  also have "\<dots> = xor_planes ?m (column inp ?i)"
    by (rule nth_equalityI) (use m in \<open>simp_all add: xor_planes_def\<close>)
  finally have "plane_byte (column (muladd_ref c out inp) ?i) ?b = mul8 (plane_byte (column out ?i) ?b) c XOR plane_byte (column inp ?i) ?b"
    using m by (simp add: plane_byte_xor plane_byte_mul mul8_def)
  then show "element (muladd_ref c out inp) j = Gf c * element out j + element inp j"
    by (simp add: element_def times_gf256.abs_eq plus_gf256.abs_eq mul8_commute)
  show "is_chunk (muladd_ref c out inp)" using muladd_loop_column(2) [OF i assms(1)] by (simp add: muladd_ref_def)
qed

end
