(* ===== verification/Ec_Muladd0.thy ===== *)
theory Ec_Muladd0
  imports Ec_Muladd
begin

text \<open>
  The routines \<open>gf8_muladd_00\<close> to \<open>gf8_muladd_3F\<close> of
  \<open>xlators/cluster/ec/src/ec-code-c.c\<close>, and that each multiplies by its constant.
\<close>

unbundle bit_operations_syntax

definition gf8_muladd_00 :: "chunk \<Rightarrow> chunk \<Rightarrow> chunk" where
  "gf8_muladd_00 out inp = take 64 inp @ drop 64 out"

definition gf8_muladd_01 :: "chunk \<Rightarrow> chunk \<Rightarrow> chunk" where
  "gf8_muladd_01 = muladd_loop (\<lambda>in0 in1 in2 in3 in4 in5 in6 in7. [in0, in1, in2, in3, in4, in5, in6, in7])"

definition gf8_muladd_02 :: "chunk \<Rightarrow> chunk \<Rightarrow> chunk" where
  "gf8_muladd_02 = muladd_loop (\<lambda>in0 in1 in2 in3 in4 in5 in6 in7.
     let out0 = in7; out1 = in0; out7 = in6; out5 = in4; out6 = in5; out3 = in2 XOR in7; out4 = in3 XOR in7;
       out2 = in1 XOR in7
     in [out0, out1, out2, out3, out4, out5, out6, out7])"

definition gf8_muladd_03 :: "chunk \<Rightarrow> chunk \<Rightarrow> chunk" where
  "gf8_muladd_03 = muladd_loop (\<lambda>in0 in1 in2 in3 in4 in5 in6 in7.
     let out0 = in0 XOR in7; tmp0 = in2 XOR in7; out1 = in0 XOR in1; out7 = in6 XOR in7; out5 = in4 XOR in5;
       out6 = in5 XOR in6; out4 = in3 XOR in4 XOR in7; out2 = tmp0 XOR in1; out3 = tmp0 XOR in3
     in [out0, out1, out2, out3, out4, out5, out6, out7])"

definition gf8_muladd_04 :: "chunk \<Rightarrow> chunk \<Rightarrow> chunk" where
  "gf8_muladd_04 = muladd_loop (\<lambda>in0 in1 in2 in3 in4 in5 in6 in7.
     let out0 = in6; out1 = in7; out7 = in5; out6 = in4; tmp0 = in6 XOR in7; out2 = in0 XOR in6;
       out5 = in3 XOR in7; out3 = tmp0 XOR in1; out4 = tmp0 XOR in2
     in [out0, out1, out2, out3, out4, out5, out6, out7])"

definition gf8_muladd_05 :: "chunk \<Rightarrow> chunk \<Rightarrow> chunk" where
  "gf8_muladd_05 = muladd_loop (\<lambda>in0 in1 in2 in3 in4 in5 in6 in7.
     let out0 = in0 XOR in6; out1 = in1 XOR in7; out7 = in5 XOR in7; out6 = in4 XOR in6; out2 = out0 XOR in2;
       out3 = out1 XOR in3 XOR in6; out5 = out7 XOR in3; out4 = out6 XOR in2 XOR in7
     in [out0, out1, out2, out3, out4, out5, out6, out7])"

definition gf8_muladd_06 :: "chunk \<Rightarrow> chunk \<Rightarrow> chunk" where
  "gf8_muladd_06 = muladd_loop (\<lambda>in0 in1 in2 in3 in4 in5 in6 in7.
     let out0 = in6 XOR in7; tmp0 = in1 XOR in6; out1 = in0 XOR in7; out7 = in5 XOR in6; out6 = in4 XOR in5;
       out4 = in2 XOR in3 XOR in6; out5 = in3 XOR in4 XOR in7; out3 = tmp0 XOR in2; out2 = tmp0 XOR out1
     in [out0, out1, out2, out3, out4, out5, out6, out7])"

definition gf8_muladd_07 :: "chunk \<Rightarrow> chunk \<Rightarrow> chunk" where
  "gf8_muladd_07 = muladd_loop (\<lambda>in0 in1 in2 in3 in4 in5 in6 in7.
     let tmp0 = in2 XOR in6; tmp1 = in5 XOR in6; tmp2 = in0 XOR in7; tmp3 = tmp0 XOR in3; out6 = tmp1 XOR in4;
       out7 = tmp1 XOR in7; out0 = tmp2 XOR in6; out1 = tmp2 XOR in1; out3 = tmp3 XOR in1; out4 = tmp3 XOR in4;
       out5 = out4 XOR out7 XOR in2; out2 = tmp0 XOR out1
     in [out0, out1, out2, out3, out4, out5, out6, out7])"

definition gf8_muladd_08 :: "chunk \<Rightarrow> chunk \<Rightarrow> chunk" where
  "gf8_muladd_08 = muladd_loop (\<lambda>in0 in1 in2 in3 in4 in5 in6 in7.
     let out0 = in5; out1 = in6; out7 = in4; out6 = in3 XOR in7; out3 = in0 XOR in5 XOR in6;
       out5 = in2 XOR in6 XOR in7; out2 = in5 XOR in7; out4 = out2 XOR in1 XOR in6
     in [out0, out1, out2, out3, out4, out5, out6, out7])"

definition gf8_muladd_09 :: "chunk \<Rightarrow> chunk \<Rightarrow> chunk" where
  "gf8_muladd_09 = muladd_loop (\<lambda>in0 in1 in2 in3 in4 in5 in6 in7.
     let out0 = in0 XOR in5; tmp0 = in3 XOR in6; out1 = in1 XOR in6; out7 = in4 XOR in7;
       out2 = in2 XOR in5 XOR in7; out3 = tmp0 XOR out0; out6 = tmp0 XOR in7; out4 = out1 XOR out7 XOR in5;
       out5 = out2 XOR in6
     in [out0, out1, out2, out3, out4, out5, out6, out7])"

definition gf8_muladd_0A :: "chunk \<Rightarrow> chunk \<Rightarrow> chunk" where
  "gf8_muladd_0A = muladd_loop (\<lambda>in0 in1 in2 in3 in4 in5 in6 in7.
     let out0 = in5 XOR in7; out1 = in0 XOR in6; out7 = in4 XOR in6; out2 = in1 XOR in5; out6 = out0 XOR in3;
       out3 = out0 XOR out1 XOR in2; out5 = out7 XOR in2 XOR in7; out4 = out2 XOR in3 XOR in6
     in [out0, out1, out2, out3, out4, out5, out6, out7])"

definition gf8_muladd_0B :: "chunk \<Rightarrow> chunk \<Rightarrow> chunk" where
  "gf8_muladd_0B = muladd_loop (\<lambda>in0 in1 in2 in3 in4 in5 in6 in7.
     let tmp0 = in2 XOR in5; tmp1 = in0 XOR in6; tmp2 = in4 XOR in7; out0 = in0 XOR in5 XOR in7;
       out2 = tmp0 XOR in1; out1 = tmp1 XOR in1; out6 = tmp1 XOR out0 XOR in3; out7 = tmp2 XOR in6;
       out4 = tmp2 XOR out6 XOR in1; out3 = out6 XOR in0 XOR in2; out5 = tmp0 XOR out7
     in [out0, out1, out2, out3, out4, out5, out6, out7])"

definition gf8_muladd_0C :: "chunk \<Rightarrow> chunk \<Rightarrow> chunk" where
  "gf8_muladd_0C = muladd_loop (\<lambda>in0 in1 in2 in3 in4 in5 in6 in7.
     let out0 = in5 XOR in6; out1 = in6 XOR in7; out7 = in4 XOR in5; tmp0 = in1 XOR in5; tmp1 = in0 XOR in7;
       out5 = in2 XOR in3 XOR in6; out6 = in3 XOR in4 XOR in7; out2 = tmp1 XOR out0; out4 = tmp0 XOR in2;
       out3 = tmp0 XOR tmp1
     in [out0, out1, out2, out3, out4, out5, out6, out7])"

definition gf8_muladd_0D :: "chunk \<Rightarrow> chunk \<Rightarrow> chunk" where
  "gf8_muladd_0D = muladd_loop (\<lambda>in0 in1 in2 in3 in4 in5 in6 in7.
     let tmp0 = in4 XOR in5; tmp1 = in5 XOR in6; out1 = in1 XOR in6 XOR in7; out7 = tmp0 XOR in7;
       out4 = tmp0 XOR in1 XOR in2; out0 = tmp1 XOR in0; tmp2 = tmp1 XOR in3; out6 = tmp2 XOR out7;
       out2 = out0 XOR in2 XOR in7; out3 = out0 XOR out1 XOR in3; out5 = tmp2 XOR in2
     in [out0, out1, out2, out3, out4, out5, out6, out7])"

definition gf8_muladd_0E :: "chunk \<Rightarrow> chunk \<Rightarrow> chunk" where
  "gf8_muladd_0E = muladd_loop (\<lambda>in0 in1 in2 in3 in4 in5 in6 in7.
     let tmp0 = in0 XOR in1; tmp1 = in2 XOR in5; tmp2 = in5 XOR in6; out1 = in0 XOR in6 XOR in7;
       out3 = tmp0 XOR tmp1; out2 = tmp0 XOR tmp2; tmp3 = tmp1 XOR in3; out7 = tmp2 XOR in4;
       out0 = tmp2 XOR in7; out4 = tmp3 XOR in1 XOR in7; out5 = tmp3 XOR out7; out6 = out0 XOR out5 XOR in2
     in [out0, out1, out2, out3, out4, out5, out6, out7])"

definition gf8_muladd_0F :: "chunk \<Rightarrow> chunk \<Rightarrow> chunk" where
  "gf8_muladd_0F = muladd_loop (\<lambda>in0 in1 in2 in3 in4 in5 in6 in7.
     let tmp0 = in6 XOR in7; tmp1 = tmp0 XOR in1; tmp2 = tmp0 XOR in5; out1 = tmp1 XOR in0;
       out7 = tmp2 XOR in4; out0 = tmp2 XOR in0; out6 = out7 XOR in3; out5 = out6 XOR in2 XOR in7;
       tmp3 = tmp1 XOR out0 XOR in2; out4 = tmp1 XOR out5; out2 = tmp3 XOR in6; out3 = tmp3 XOR in3
     in [out0, out1, out2, out3, out4, out5, out6, out7])"

definition gf8_muladd_10 :: "chunk \<Rightarrow> chunk \<Rightarrow> chunk" where
  "gf8_muladd_10 = muladd_loop (\<lambda>in0 in1 in2 in3 in4 in5 in6 in7.
     let out0 = in4; out1 = in5; out7 = in3 XOR in7; tmp0 = in6 XOR in7; out2 = in4 XOR in6;
       tmp1 = out2 XOR in5; out6 = tmp0 XOR in2; out3 = tmp0 XOR tmp1; out5 = out2 XOR out3 XOR in1;
       out4 = tmp1 XOR in0
     in [out0, out1, out2, out3, out4, out5, out6, out7])"

definition gf8_muladd_11 :: "chunk \<Rightarrow> chunk \<Rightarrow> chunk" where
  "gf8_muladd_11 = muladd_loop (\<lambda>in0 in1 in2 in3 in4 in5 in6 in7.
     let out7 = in3; out0 = in0 XOR in4; out1 = in1 XOR in5; out6 = in2 XOR in7; out4 = in0 XOR in5 XOR in6;
       out5 = in1 XOR in6 XOR in7; out2 = in2 XOR in4 XOR in6; out3 = in3 XOR in4 XOR in5 XOR in7
     in [out0, out1, out2, out3, out4, out5, out6, out7])"

definition gf8_muladd_12 :: "chunk \<Rightarrow> chunk \<Rightarrow> chunk" where
  "gf8_muladd_12 = muladd_loop (\<lambda>in0 in1 in2 in3 in4 in5 in6 in7.
     let out0 = in4 XOR in7; out1 = in0 XOR in5; out3 = in2 XOR in4 XOR in5; tmp0 = out0 XOR in6;
       out2 = tmp0 XOR in1; tmp1 = tmp0 XOR in3; out6 = tmp0 XOR out3; out5 = out2 XOR in5;
       out7 = tmp1 XOR in4; out4 = tmp1 XOR out1
     in [out0, out1, out2, out3, out4, out5, out6, out7])"

definition gf8_muladd_13 :: "chunk \<Rightarrow> chunk \<Rightarrow> chunk" where
  "gf8_muladd_13 = muladd_loop (\<lambda>in0 in1 in2 in3 in4 in5 in6 in7.
     let out7 = in3 XOR in6; tmp0 = in0 XOR in5; tmp1 = in4 XOR in7; out6 = in2 XOR in5 XOR in7;
       out4 = tmp0 XOR out7 XOR in7; out1 = tmp0 XOR in1; out0 = tmp1 XOR in0; out5 = tmp1 XOR in1 XOR in6;
       out3 = tmp1 XOR out6 XOR in3; out2 = out5 XOR in2
     in [out0, out1, out2, out3, out4, out5, out6, out7])"

definition gf8_muladd_14 :: "chunk \<Rightarrow> chunk \<Rightarrow> chunk" where
  "gf8_muladd_14 = muladd_loop (\<lambda>in0 in1 in2 in3 in4 in5 in6 in7.
     let out0 = in4 XOR in6; out1 = in5 XOR in7; out2 = in0 XOR in4; tmp0 = out0 XOR in5; out7 = out1 XOR in3;
       tmp1 = out1 XOR in2; out3 = tmp0 XOR in1; out6 = tmp0 XOR tmp1; out4 = tmp1 XOR out2;
       out5 = out3 XOR in3 XOR in4
     in [out0, out1, out2, out3, out4, out5, out6, out7])"

definition gf8_muladd_15 :: "chunk \<Rightarrow> chunk \<Rightarrow> chunk" where
  "gf8_muladd_15 = muladd_loop (\<lambda>in0 in1 in2 in3 in4 in5 in6 in7.
     let out7 = in3 XOR in5; tmp0 = in0 XOR in4; out1 = in1 XOR in5 XOR in7; out5 = in1 XOR in3 XOR in6;
       out0 = tmp0 XOR in6; out2 = tmp0 XOR in2; out3 = out5 XOR in4 XOR in5; out6 = out2 XOR in0 XOR in7;
       out4 = tmp0 XOR out6 XOR in5
     in [out0, out1, out2, out3, out4, out5, out6, out7])"

definition gf8_muladd_16 :: "chunk \<Rightarrow> chunk \<Rightarrow> chunk" where
  "gf8_muladd_16 = muladd_loop (\<lambda>in0 in1 in2 in3 in4 in5 in6 in7.
     let tmp0 = in0 XOR in5; tmp1 = in4 XOR in7; tmp2 = in2 XOR in3 XOR in4; out1 = tmp0 XOR in7;
       out4 = tmp0 XOR tmp2; out0 = tmp1 XOR in6; tmp3 = tmp1 XOR in1; out6 = out0 XOR in2 XOR in5;
       out2 = tmp3 XOR in0; out3 = out6 XOR in1; out7 = tmp2 XOR out6; out5 = tmp3 XOR out7
     in [out0, out1, out2, out3, out4, out5, out6, out7])"

definition gf8_muladd_17 :: "chunk \<Rightarrow> chunk \<Rightarrow> chunk" where
  "gf8_muladd_17 = muladd_loop (\<lambda>in0 in1 in2 in3 in4 in5 in6 in7.
     let tmp0 = in2 XOR in5; tmp1 = in3 XOR in6; tmp2 = tmp0 XOR in4; out4 = tmp0 XOR in0 XOR in3;
       out7 = tmp1 XOR in5; tmp3 = tmp1 XOR in1; out6 = tmp2 XOR in7; out5 = tmp3 XOR in4;
       out3 = tmp3 XOR out6; out0 = out3 XOR out4 XOR in1; out2 = out3 XOR out7 XOR in0; out1 = tmp2 XOR out2
     in [out0, out1, out2, out3, out4, out5, out6, out7])"

definition gf8_muladd_18 :: "chunk \<Rightarrow> chunk \<Rightarrow> chunk" where
  "gf8_muladd_18 = muladd_loop (\<lambda>in0 in1 in2 in3 in4 in5 in6 in7.
     let out0 = in4 XOR in5; out1 = in5 XOR in6; tmp0 = in4 XOR in7; out5 = in1 XOR in2 XOR in5;
       out6 = in2 XOR in3 XOR in6; out2 = tmp0 XOR out1; out7 = tmp0 XOR in3; tmp1 = tmp0 XOR in0;
       out3 = tmp1 XOR in6; out4 = tmp1 XOR in1
     in [out0, out1, out2, out3, out4, out5, out6, out7])"

definition gf8_muladd_19 :: "chunk \<Rightarrow> chunk \<Rightarrow> chunk" where
  "gf8_muladd_19 = muladd_loop (\<lambda>in0 in1 in2 in3 in4 in5 in6 in7.
     let out5 = in1 XOR in2; out7 = in3 XOR in4; tmp0 = in0 XOR in7; out6 = in2 XOR in3;
       out1 = in1 XOR in5 XOR in6; out0 = in0 XOR in4 XOR in5; out4 = tmp0 XOR in1; tmp1 = tmp0 XOR in6;
       out2 = tmp1 XOR out0 XOR in2; out3 = tmp1 XOR out7
     in [out0, out1, out2, out3, out4, out5, out6, out7])"

definition gf8_muladd_1A :: "chunk \<Rightarrow> chunk \<Rightarrow> chunk" where
  "gf8_muladd_1A = muladd_loop (\<lambda>in0 in1 in2 in3 in4 in5 in6 in7.
     let tmp0 = in4 XOR in5; tmp1 = in5 XOR in6; tmp2 = tmp0 XOR in1; out0 = tmp0 XOR in7; out1 = tmp1 XOR in0;
       tmp3 = tmp1 XOR in3; out5 = tmp2 XOR in2; out2 = tmp2 XOR in6; out7 = tmp3 XOR out0;
       out6 = tmp3 XOR in2; out4 = tmp3 XOR out2 XOR in0; out3 = tmp0 XOR out1 XOR in2
     in [out0, out1, out2, out3, out4, out5, out6, out7])"

definition gf8_muladd_1B :: "chunk \<Rightarrow> chunk \<Rightarrow> chunk" where
  "gf8_muladd_1B = muladd_loop (\<lambda>in0 in1 in2 in3 in4 in5 in6 in7.
     let tmp0 = in2 XOR in4; tmp1 = in2 XOR in5; tmp2 = in3 XOR in6; out5 = tmp0 XOR in1; tmp3 = tmp0 XOR in0;
       out6 = tmp1 XOR in3; out0 = tmp1 XOR tmp3 XOR in7; out7 = tmp2 XOR in4; tmp4 = out5 XOR in6;
       out3 = tmp2 XOR tmp3; out2 = tmp4 XOR in5; out4 = tmp4 XOR out3; out1 = tmp3 XOR out2
     in [out0, out1, out2, out3, out4, out5, out6, out7])"

definition gf8_muladd_1C :: "chunk \<Rightarrow> chunk \<Rightarrow> chunk" where
  "gf8_muladd_1C = muladd_loop (\<lambda>in0 in1 in2 in3 in4 in5 in6 in7.
     let tmp0 = in2 XOR in3; tmp1 = in4 XOR in6; tmp2 = in5 XOR in7; out6 = tmp0 XOR tmp1; out0 = tmp1 XOR in5;
       out1 = tmp2 XOR in6; tmp3 = tmp2 XOR in1; tmp4 = tmp2 XOR in4; out2 = tmp4 XOR in0; out7 = tmp4 XOR in3;
       out5 = tmp0 XOR tmp3; out3 = tmp3 XOR out2; out4 = out3 XOR in2 XOR in6
     in [out0, out1, out2, out3, out4, out5, out6, out7])"

definition gf8_muladd_1D :: "chunk \<Rightarrow> chunk \<Rightarrow> chunk" where
  "gf8_muladd_1D = muladd_loop (\<lambda>in0 in1 in2 in3 in4 in5 in6 in7.
     let tmp0 = in1 XOR in3; tmp1 = in0 XOR in4; tmp2 = in3 XOR in4; tmp3 = in2 XOR in7; out3 = tmp0 XOR tmp1;
       out5 = tmp0 XOR tmp3; tmp4 = tmp1 XOR in5; out6 = tmp2 XOR in2; out7 = tmp2 XOR in5;
       out2 = tmp3 XOR tmp4; out4 = out3 XOR out6 XOR in6; out0 = tmp4 XOR in6; out1 = out2 XOR out4 XOR in4
     in [out0, out1, out2, out3, out4, out5, out6, out7])"

definition gf8_muladd_1E :: "chunk \<Rightarrow> chunk \<Rightarrow> chunk" where
  "gf8_muladd_1E = muladd_loop (\<lambda>in0 in1 in2 in3 in4 in5 in6 in7.
     let tmp0 = in0 XOR in4; tmp1 = in2 XOR in7; tmp2 = tmp0 XOR in1; out3 = tmp1 XOR tmp2;
       out2 = tmp2 XOR in5; out4 = out3 XOR in3 XOR in6; tmp3 = out4 XOR in7; out6 = tmp3 XOR out2 XOR in4;
       out7 = tmp1 XOR out6; out0 = out7 XOR in3; out1 = tmp0 XOR out0; out5 = tmp3 XOR out1
     in [out0, out1, out2, out3, out4, out5, out6, out7])"

definition gf8_muladd_1F :: "chunk \<Rightarrow> chunk \<Rightarrow> chunk" where
  "gf8_muladd_1F = muladd_loop (\<lambda>in0 in1 in2 in3 in4 in5 in6 in7.
     let tmp0 = in4 XOR in6; tmp1 = tmp0 XOR in5; out7 = tmp1 XOR in3; out0 = tmp1 XOR in0 XOR in7;
       out6 = out7 XOR in2 XOR in6; out1 = out0 XOR in1 XOR in4; out4 = out0 XOR out6 XOR in1;
       out3 = tmp0 XOR out4; out2 = out4 XOR out7 XOR in7; out5 = out3 XOR in0
     in [out0, out1, out2, out3, out4, out5, out6, out7])"

definition gf8_muladd_20 :: "chunk \<Rightarrow> chunk \<Rightarrow> chunk" where
  "gf8_muladd_20 = muladd_loop (\<lambda>in0 in1 in2 in3 in4 in5 in6 in7.
     let out1 = in4; out0 = in3 XOR in7; tmp0 = in3 XOR in4; tmp1 = in6 XOR in7; out2 = out0 XOR in5;
       out4 = tmp0 XOR in5; out3 = tmp0 XOR tmp1; out7 = tmp1 XOR in2; out6 = tmp1 XOR in1 XOR in5;
       out5 = out2 XOR out3 XOR in0
     in [out0, out1, out2, out3, out4, out5, out6, out7])"

definition gf8_muladd_21 :: "chunk \<Rightarrow> chunk \<Rightarrow> chunk" where
  "gf8_muladd_21 = muladd_loop (\<lambda>in0 in1 in2 in3 in4 in5 in6 in7.
     let out1 = in1 XOR in4; tmp0 = in4 XOR in6; out4 = in3 XOR in5; out7 = in2 XOR in6;
       out0 = in0 XOR in3 XOR in7; out6 = in1 XOR in5 XOR in7; out3 = tmp0 XOR in7; out5 = tmp0 XOR in0;
       out2 = out4 XOR in2 XOR in7
     in [out0, out1, out2, out3, out4, out5, out6, out7])"

definition gf8_muladd_22 :: "chunk \<Rightarrow> chunk \<Rightarrow> chunk" where
  "gf8_muladd_22 = muladd_loop (\<lambda>in0 in1 in2 in3 in4 in5 in6 in7.
     let out0 = in3; out1 = in0 XOR in4; out7 = in2 XOR in7; out4 = in4 XOR in5 XOR in7;
       out5 = in0 XOR in5 XOR in6; out6 = in1 XOR in6 XOR in7; out3 = in2 XOR in3 XOR in4 XOR in6;
       out2 = in1 XOR in3 XOR in5
     in [out0, out1, out2, out3, out4, out5, out6, out7])"

definition gf8_muladd_23 :: "chunk \<Rightarrow> chunk \<Rightarrow> chunk" where
  "gf8_muladd_23 = muladd_loop (\<lambda>in0 in1 in2 in3 in4 in5 in6 in7.
     let out7 = in2; out0 = in0 XOR in3; out4 = in5 XOR in7; out5 = in0 XOR in6; out6 = in1 XOR in7;
       out3 = in2 XOR in4 XOR in6; out1 = in0 XOR in1 XOR in4; out2 = out4 XOR out6 XOR in2 XOR in3
     in [out0, out1, out2, out3, out4, out5, out6, out7])"

definition gf8_muladd_24 :: "chunk \<Rightarrow> chunk \<Rightarrow> chunk" where
  "gf8_muladd_24 = muladd_loop (\<lambda>in0 in1 in2 in3 in4 in5 in6 in7.
     let out1 = in4 XOR in7; tmp0 = in3 XOR in4; out0 = in3 XOR in6 XOR in7; out3 = tmp0 XOR in1;
       tmp1 = out0 XOR in5; out6 = tmp1 XOR out3; out2 = tmp1 XOR in0; out7 = tmp1 XOR in2 XOR in3;
       out5 = out2 XOR in4; out4 = tmp0 XOR out7
     in [out0, out1, out2, out3, out4, out5, out6, out7])"

definition gf8_muladd_25 :: "chunk \<Rightarrow> chunk \<Rightarrow> chunk" where
  "gf8_muladd_25 = muladd_loop (\<lambda>in0 in1 in2 in3 in4 in5 in6 in7.
     let out3 = in1 XOR in4; tmp0 = in2 XOR in5; out1 = out3 XOR in7; out7 = tmp0 XOR in6; out6 = out1 XOR in5;
       out4 = out7 XOR in3 XOR in7; out2 = out4 XOR in0; out0 = tmp0 XOR out2; out5 = out0 XOR in4
     in [out0, out1, out2, out3, out4, out5, out6, out7])"

definition gf8_muladd_26 :: "chunk \<Rightarrow> chunk \<Rightarrow> chunk" where
  "gf8_muladd_26 = muladd_loop (\<lambda>in0 in1 in2 in3 in4 in5 in6 in7.
     let out0 = in3 XOR in6; tmp0 = in4 XOR in7; out7 = in2 XOR in5 XOR in7; tmp1 = out0 XOR in0 XOR in5;
       out1 = tmp0 XOR in0; tmp2 = tmp0 XOR in6; out2 = tmp1 XOR in1; out5 = tmp1 XOR in7; out6 = tmp2 XOR in1;
       out4 = tmp2 XOR out7; out3 = out0 XOR out6 XOR in2
     in [out0, out1, out2, out3, out4, out5, out6, out7])"

definition gf8_muladd_27 :: "chunk \<Rightarrow> chunk \<Rightarrow> chunk" where
  "gf8_muladd_27 = muladd_loop (\<lambda>in0 in1 in2 in3 in4 in5 in6 in7.
     let out7 = in2 XOR in5; out0 = in0 XOR in3 XOR in6; out6 = in1 XOR in4 XOR in7; out4 = out7 XOR in6;
       out2 = out0 XOR out7 XOR in1; out5 = out0 XOR in7; out1 = out6 XOR in0; out3 = out6 XOR in2
     in [out0, out1, out2, out3, out4, out5, out6, out7])"

definition gf8_muladd_28 :: "chunk \<Rightarrow> chunk \<Rightarrow> chunk" where
  "gf8_muladd_28 = muladd_loop (\<lambda>in0 in1 in2 in3 in4 in5 in6 in7.
     let out2 = in3; out1 = in4 XOR in6; out0 = in3 XOR in5 XOR in7; tmp0 = out1 XOR in7; tmp1 = out0 XOR in4;
       out7 = tmp0 XOR in2; tmp2 = tmp0 XOR in1; out3 = tmp1 XOR in0; out6 = tmp1 XOR tmp2;
       out4 = tmp2 XOR in3; out5 = out3 XOR in2 XOR in3
     in [out0, out1, out2, out3, out4, out5, out6, out7])"

definition gf8_muladd_29 :: "chunk \<Rightarrow> chunk \<Rightarrow> chunk" where
  "gf8_muladd_29 = muladd_loop (\<lambda>in0 in1 in2 in3 in4 in5 in6 in7.
     let out2 = in2 XOR in3; tmp0 = in1 XOR in3; tmp1 = in4 XOR in6; tmp2 = in0 XOR in4 XOR in7;
       out6 = tmp0 XOR in5; out4 = tmp0 XOR in6 XOR in7; out1 = tmp1 XOR in1; out7 = tmp1 XOR in2;
       out3 = tmp2 XOR in5; out5 = tmp2 XOR in2; out0 = out3 XOR in3 XOR in4
     in [out0, out1, out2, out3, out4, out5, out6, out7])"

definition gf8_muladd_2A :: "chunk \<Rightarrow> chunk \<Rightarrow> chunk" where
  "gf8_muladd_2A = muladd_loop (\<lambda>in0 in1 in2 in3 in4 in5 in6 in7.
     let out0 = in3 XOR in5; tmp0 = in1 XOR in3; tmp1 = in0 XOR in4; out7 = in2 XOR in4 XOR in7;
       out3 = tmp1 XOR out0 XOR in2; out2 = tmp0 XOR in7; out6 = tmp0 XOR in6; out1 = tmp1 XOR in6;
       out5 = tmp1 XOR out7 XOR in5; out4 = out1 XOR in0 XOR in1
     in [out0, out1, out2, out3, out4, out5, out6, out7])"

definition gf8_muladd_2B :: "chunk \<Rightarrow> chunk \<Rightarrow> chunk" where
  "gf8_muladd_2B = muladd_loop (\<lambda>in0 in1 in2 in3 in4 in5 in6 in7.
     let out4 = in1 XOR in6; out7 = in2 XOR in4; tmp0 = in0 XOR in5; tmp1 = in2 XOR in7; out6 = in1 XOR in3;
       out1 = out4 XOR in0 XOR in4; out3 = tmp0 XOR out7; out0 = tmp0 XOR in3; out5 = tmp1 XOR in0;
       out2 = tmp1 XOR out6
     in [out0, out1, out2, out3, out4, out5, out6, out7])"

definition gf8_muladd_2C :: "chunk \<Rightarrow> chunk \<Rightarrow> chunk" where
  "gf8_muladd_2C = muladd_loop (\<lambda>in0 in1 in2 in3 in4 in5 in6 in7.
     let tmp0 = in2 XOR in5; tmp1 = in2 XOR in3 XOR in4; tmp2 = tmp0 XOR in6; out4 = tmp1 XOR in1;
       out5 = tmp1 XOR in0 XOR in5; tmp3 = tmp2 XOR in4; out6 = tmp2 XOR out4; out7 = tmp3 XOR in7;
       out2 = tmp3 XOR out5; out3 = out6 XOR in0; out0 = tmp1 XOR out7; out1 = tmp0 XOR out7
     in [out0, out1, out2, out3, out4, out5, out6, out7])"

definition gf8_muladd_2D :: "chunk \<Rightarrow> chunk \<Rightarrow> chunk" where
  "gf8_muladd_2D = muladd_loop (\<lambda>in0 in1 in2 in3 in4 in5 in6 in7.
     let tmp0 = in2 XOR in3; out4 = tmp0 XOR in1; tmp1 = tmp0 XOR in0; out2 = tmp1 XOR in6;
       out5 = tmp1 XOR in4; tmp2 = out2 XOR in2; tmp3 = tmp2 XOR in5; out0 = tmp3 XOR in7;
       out7 = tmp3 XOR out5; out6 = out4 XOR out7 XOR in6; out3 = tmp2 XOR out6; out1 = out0 XOR out6 XOR in0
     in [out0, out1, out2, out3, out4, out5, out6, out7])"

definition gf8_muladd_2E :: "chunk \<Rightarrow> chunk \<Rightarrow> chunk" where
  "gf8_muladd_2E = muladd_loop (\<lambda>in0 in1 in2 in3 in4 in5 in6 in7.
     let tmp0 = in4 XOR in7; out0 = in3 XOR in5 XOR in6; tmp1 = tmp0 XOR in0; tmp2 = tmp0 XOR in2;
       out1 = tmp1 XOR in6; out4 = tmp2 XOR in1; out7 = tmp2 XOR in5; out3 = out0 XOR out4 XOR in0;
       out2 = out3 XOR out7 XOR in7; out6 = tmp1 XOR out2; out5 = tmp1 XOR out7 XOR in3
     in [out0, out1, out2, out3, out4, out5, out6, out7])"

definition gf8_muladd_2F :: "chunk \<Rightarrow> chunk \<Rightarrow> chunk" where
  "gf8_muladd_2F = muladd_loop (\<lambda>in0 in1 in2 in3 in4 in5 in6 in7.
     let tmp0 = in0 XOR in3; tmp1 = in2 XOR in5; out4 = in1 XOR in2 XOR in7; out6 = in1 XOR in3 XOR in4;
       out5 = tmp0 XOR in2; tmp2 = tmp0 XOR in6; out7 = tmp1 XOR in4; out0 = tmp2 XOR in5;
       out2 = tmp2 XOR out4; out1 = tmp2 XOR out6 XOR in7; out3 = tmp1 XOR out1
     in [out0, out1, out2, out3, out4, out5, out6, out7])"

definition gf8_muladd_30 :: "chunk \<Rightarrow> chunk \<Rightarrow> chunk" where
  "gf8_muladd_30 = muladd_loop (\<lambda>in0 in1 in2 in3 in4 in5 in6 in7.
     let out1 = in4 XOR in5; tmp0 = in3 XOR in6; tmp1 = in4 XOR in7; out6 = in1 XOR in2 XOR in5;
       out3 = tmp0 XOR in5; out4 = tmp0 XOR in0; out7 = tmp0 XOR in2; out0 = tmp1 XOR in3;
       out2 = tmp1 XOR out3; out5 = tmp1 XOR in0 XOR in1
     in [out0, out1, out2, out3, out4, out5, out6, out7])"

definition gf8_muladd_31 :: "chunk \<Rightarrow> chunk \<Rightarrow> chunk" where
  "gf8_muladd_31 = muladd_loop (\<lambda>in0 in1 in2 in3 in4 in5 in6 in7.
     let out3 = in5 XOR in6; tmp0 = in4 XOR in5; tmp1 = in0 XOR in3 XOR in4; tmp2 = out3 XOR in2;
       out1 = tmp0 XOR in1; out0 = tmp1 XOR in7; out4 = tmp1 XOR in6; out6 = tmp2 XOR in1;
       out2 = tmp2 XOR out0 XOR in0; out5 = out1 XOR in0 XOR in7; out7 = tmp0 XOR out2
     in [out0, out1, out2, out3, out4, out5, out6, out7])"

definition gf8_muladd_32 :: "chunk \<Rightarrow> chunk \<Rightarrow> chunk" where
  "gf8_muladd_32 = muladd_loop (\<lambda>in0 in1 in2 in3 in4 in5 in6 in7.
     let out0 = in3 XOR in4; out7 = in2 XOR in3; tmp0 = in5 XOR in6; tmp1 = in0 XOR in7; out6 = in1 XOR in2;
       out1 = in0 XOR in4 XOR in5; out2 = tmp0 XOR out0 XOR in1; out3 = tmp0 XOR out7 XOR in7;
       out4 = tmp1 XOR in6; out5 = tmp1 XOR in1
     in [out0, out1, out2, out3, out4, out5, out6, out7])"

definition gf8_muladd_33 :: "chunk \<Rightarrow> chunk \<Rightarrow> chunk" where
  "gf8_muladd_33 = muladd_loop (\<lambda>in0 in1 in2 in3 in4 in5 in6 in7.
     let tmp0 = in2 XOR in3; tmp1 = in0 XOR in4; tmp2 = in1 XOR in5; out6 = in1 XOR in2 XOR in6;
       out7 = tmp0 XOR in7; out0 = tmp1 XOR in3; out1 = tmp1 XOR tmp2; tmp3 = tmp2 XOR in7;
       tmp4 = tmp2 XOR in4 XOR in6; out5 = tmp3 XOR in0; out3 = tmp3 XOR out6; out4 = tmp4 XOR out5;
       out2 = tmp0 XOR tmp4
     in [out0, out1, out2, out3, out4, out5, out6, out7])"

definition gf8_muladd_34 :: "chunk \<Rightarrow> chunk \<Rightarrow> chunk" where
  "gf8_muladd_34 = muladd_loop (\<lambda>in0 in1 in2 in3 in4 in5 in6 in7.
     let tmp0 = in3 XOR in4; tmp1 = in4 XOR in5; tmp2 = tmp0 XOR in1; tmp3 = tmp0 XOR in6; out1 = tmp1 XOR in7;
       tmp4 = tmp1 XOR in2; out5 = tmp2 XOR in0; out3 = tmp2 XOR out1; out0 = tmp3 XOR in7;
       out7 = tmp3 XOR tmp4; out6 = tmp4 XOR in1; out2 = out3 XOR out5 XOR in3; out4 = tmp4 XOR out2
     in [out0, out1, out2, out3, out4, out5, out6, out7])"

definition gf8_muladd_35 :: "chunk \<Rightarrow> chunk \<Rightarrow> chunk" where
  "gf8_muladd_35 = muladd_loop (\<lambda>in0 in1 in2 in3 in4 in5 in6 in7.
     let tmp0 = in2 XOR in6; tmp1 = in5 XOR in7; out7 = tmp0 XOR tmp1 XOR in3; out3 = tmp1 XOR in1;
       out1 = out3 XOR in4; tmp2 = out1 XOR in7; out5 = tmp2 XOR in0 XOR in3; out6 = tmp0 XOR tmp2;
       out0 = out3 XOR out5 XOR in6; out4 = tmp0 XOR out0; out2 = out4 XOR in5
     in [out0, out1, out2, out3, out4, out5, out6, out7])"

definition gf8_muladd_36 :: "chunk \<Rightarrow> chunk \<Rightarrow> chunk" where
  "gf8_muladd_36 = muladd_loop (\<lambda>in0 in1 in2 in3 in4 in5 in6 in7.
     let out4 = in0 XOR in2; tmp0 = in1 XOR in3; out0 = in3 XOR in4 XOR in6; out6 = in1 XOR in2 XOR in4;
       out5 = tmp0 XOR in0; tmp1 = out5 XOR in5; out2 = tmp1 XOR in4; out3 = tmp1 XOR out4;
       out1 = tmp0 XOR out2 XOR in7; out7 = out3 XOR in1
     in [out0, out1, out2, out3, out4, out5, out6, out7])"

definition gf8_muladd_37 :: "chunk \<Rightarrow> chunk \<Rightarrow> chunk" where
  "gf8_muladd_37 = muladd_loop (\<lambda>in0 in1 in2 in3 in4 in5 in6 in7.
     let tmp0 = in1 XOR in2; tmp1 = in2 XOR in4; tmp2 = tmp0 XOR in6; out3 = tmp0 XOR in5; out4 = tmp1 XOR in0;
       out6 = tmp2 XOR in4; out1 = out3 XOR out4 XOR in7; tmp3 = out4 XOR in1 XOR in3; out7 = tmp3 XOR out1;
       out2 = tmp3 XOR in5; out5 = tmp1 XOR out2; out0 = tmp2 XOR tmp3
     in [out0, out1, out2, out3, out4, out5, out6, out7])"

definition gf8_muladd_38 :: "chunk \<Rightarrow> chunk \<Rightarrow> chunk" where
  "gf8_muladd_38 = muladd_loop (\<lambda>in0 in1 in2 in3 in4 in5 in6 in7.
     let out3 = in0 XOR in3; tmp0 = in3 XOR in4; tmp1 = in5 XOR in7; tmp2 = out3 XOR in1; out2 = tmp0 XOR in6;
       out0 = tmp0 XOR tmp1; out4 = tmp1 XOR tmp2; out7 = out2 XOR in2; out1 = out2 XOR in3 XOR in5;
       out6 = out4 XOR in0 XOR in2; out5 = tmp2 XOR out7
     in [out0, out1, out2, out3, out4, out5, out6, out7])"

definition gf8_muladd_39 :: "chunk \<Rightarrow> chunk \<Rightarrow> chunk" where
  "gf8_muladd_39 = muladd_loop (\<lambda>in0 in1 in2 in3 in4 in5 in6 in7.
     let out3 = in0; tmp0 = in1 XOR in5; tmp1 = tmp0 XOR in4; out1 = tmp1 XOR in6; out5 = out1 XOR in0 XOR in2;
       tmp2 = tmp0 XOR out5; out2 = tmp2 XOR in0 XOR in3; out7 = out2 XOR in7; out6 = tmp1 XOR out7;
       out4 = tmp2 XOR out6; out0 = out4 XOR in1
     in [out0, out1, out2, out3, out4, out5, out6, out7])"

definition gf8_muladd_3A :: "chunk \<Rightarrow> chunk \<Rightarrow> chunk" where
  "gf8_muladd_3A = muladd_loop (\<lambda>in0 in1 in2 in3 in4 in5 in6 in7.
     let tmp0 = in0 XOR in1; tmp1 = in0 XOR in2; tmp2 = in3 XOR in4; tmp3 = in1 XOR in6; tmp4 = in3 XOR in7;
       out4 = tmp0 XOR in5; out5 = tmp1 XOR tmp3; out3 = tmp1 XOR tmp4; out0 = tmp2 XOR in5;
       out7 = tmp2 XOR in2; tmp5 = tmp3 XOR in4; out2 = tmp4 XOR tmp5; out1 = tmp5 XOR out4;
       out6 = tmp0 XOR out3
     in [out0, out1, out2, out3, out4, out5, out6, out7])"

definition gf8_muladd_3B :: "chunk \<Rightarrow> chunk \<Rightarrow> chunk" where
  "gf8_muladd_3B = muladd_loop (\<lambda>in0 in1 in2 in3 in4 in5 in6 in7.
     let tmp0 = in1 XOR in6; tmp1 = in2 XOR in7; tmp2 = tmp0 XOR in3; out3 = tmp1 XOR in0;
       out6 = tmp1 XOR tmp2; out2 = out6 XOR in4; out7 = tmp0 XOR out2; out0 = out3 XOR out7 XOR in5;
       out5 = out0 XOR out2 XOR in7; out1 = tmp2 XOR out0; out4 = out1 XOR in6
     in [out0, out1, out2, out3, out4, out5, out6, out7])"

definition gf8_muladd_3C :: "chunk \<Rightarrow> chunk \<Rightarrow> chunk" where
  "gf8_muladd_3C = muladd_loop (\<lambda>in0 in1 in2 in3 in4 in5 in6 in7.
     let tmp0 = in0 XOR in3; tmp1 = in2 XOR in7; tmp2 = in1 XOR in6 XOR in7; out2 = tmp0 XOR in4;
       out3 = tmp0 XOR tmp2; out4 = tmp1 XOR out3 XOR in5; out5 = tmp2 XOR out2 XOR in2;
       out1 = out4 XOR out5 XOR in6; out0 = out1 XOR in3; out7 = tmp1 XOR out0; out6 = tmp2 XOR out7
     in [out0, out1, out2, out3, out4, out5, out6, out7])"

definition gf8_muladd_3D :: "chunk \<Rightarrow> chunk \<Rightarrow> chunk" where
  "gf8_muladd_3D = muladd_loop (\<lambda>in0 in1 in2 in3 in4 in5 in6 in7.
     let tmp0 = in0 XOR in2; tmp1 = tmp0 XOR in3; out2 = tmp1 XOR in4; tmp2 = out2 XOR in5;
       out4 = tmp2 XOR in1 XOR in6; out5 = out4 XOR in7; out6 = out5 XOR in0; out7 = out6 XOR in1;
       out0 = tmp0 XOR out7; out1 = tmp1 XOR out5; out3 = tmp2 XOR out6
     in [out0, out1, out2, out3, out4, out5, out6, out7])"

definition gf8_muladd_3E :: "chunk \<Rightarrow> chunk \<Rightarrow> chunk" where
  "gf8_muladd_3E = muladd_loop (\<lambda>in0 in1 in2 in3 in4 in5 in6 in7.
     let tmp0 = in3 XOR in5; tmp1 = tmp0 XOR in4; out0 = tmp1 XOR in6; out7 = tmp1 XOR in2;
       out6 = out7 XOR in1 XOR in5 XOR in7; out2 = out6 XOR in0 XOR in2; out4 = out0 XOR out6 XOR in0;
       out5 = tmp0 XOR out4; out3 = out5 XOR in7; out1 = out3 XOR out6 XOR in5
     in [out0, out1, out2, out3, out4, out5, out6, out7])"

definition gf8_muladd_3F :: "chunk \<Rightarrow> chunk \<Rightarrow> chunk" where
  "gf8_muladd_3F = muladd_loop (\<lambda>in0 in1 in2 in3 in4 in5 in6 in7.
     let tmp0 = in0 XOR in1; out3 = tmp0 XOR in2 XOR in6; tmp1 = out3 XOR in5 XOR in7; out4 = tmp1 XOR in4;
       out5 = tmp1 XOR in3; out1 = out4 XOR in2; out7 = out1 XOR out3 XOR in3; out2 = tmp0 XOR out7 XOR in5;
       tmp2 = out2 XOR in0; out6 = tmp2 XOR in6; out0 = tmp1 XOR tmp2
     in [out0, out1, out2, out3, out4, out5, out6, out7])"

lemma muladd_00_0F:
  "gf8_muladd_01 = muladd_ref 0x01" "gf8_muladd_02 = muladd_ref 0x02" "gf8_muladd_03 = muladd_ref 0x03"
  "gf8_muladd_04 = muladd_ref 0x04" "gf8_muladd_05 = muladd_ref 0x05" "gf8_muladd_06 = muladd_ref 0x06"
  "gf8_muladd_07 = muladd_ref 0x07" "gf8_muladd_08 = muladd_ref 0x08" "gf8_muladd_09 = muladd_ref 0x09"
  "gf8_muladd_0A = muladd_ref 0x0a" "gf8_muladd_0B = muladd_ref 0x0b" "gf8_muladd_0C = muladd_ref 0x0c"
  "gf8_muladd_0D = muladd_ref 0x0d" "gf8_muladd_0E = muladd_ref 0x0e" "gf8_muladd_0F = muladd_ref 0x0f"
  by (simp_all add: muladd_simps
      gf8_muladd_01_def gf8_muladd_02_def gf8_muladd_03_def gf8_muladd_04_def gf8_muladd_05_def gf8_muladd_06_def
      gf8_muladd_07_def gf8_muladd_08_def gf8_muladd_09_def gf8_muladd_0A_def gf8_muladd_0B_def gf8_muladd_0C_def
      gf8_muladd_0D_def gf8_muladd_0E_def gf8_muladd_0F_def)

lemma muladd_10_1F:
  "gf8_muladd_10 = muladd_ref 0x10" "gf8_muladd_11 = muladd_ref 0x11" "gf8_muladd_12 = muladd_ref 0x12"
  "gf8_muladd_13 = muladd_ref 0x13" "gf8_muladd_14 = muladd_ref 0x14" "gf8_muladd_15 = muladd_ref 0x15"
  "gf8_muladd_16 = muladd_ref 0x16" "gf8_muladd_17 = muladd_ref 0x17" "gf8_muladd_18 = muladd_ref 0x18"
  "gf8_muladd_19 = muladd_ref 0x19" "gf8_muladd_1A = muladd_ref 0x1a" "gf8_muladd_1B = muladd_ref 0x1b"
  "gf8_muladd_1C = muladd_ref 0x1c" "gf8_muladd_1D = muladd_ref 0x1d" "gf8_muladd_1E = muladd_ref 0x1e"
  "gf8_muladd_1F = muladd_ref 0x1f"
  by (simp_all add: muladd_simps
      gf8_muladd_10_def gf8_muladd_11_def gf8_muladd_12_def gf8_muladd_13_def gf8_muladd_14_def gf8_muladd_15_def
      gf8_muladd_16_def gf8_muladd_17_def gf8_muladd_18_def gf8_muladd_19_def gf8_muladd_1A_def gf8_muladd_1B_def
      gf8_muladd_1C_def gf8_muladd_1D_def gf8_muladd_1E_def gf8_muladd_1F_def)

lemma muladd_20_2F:
  "gf8_muladd_20 = muladd_ref 0x20" "gf8_muladd_21 = muladd_ref 0x21" "gf8_muladd_22 = muladd_ref 0x22"
  "gf8_muladd_23 = muladd_ref 0x23" "gf8_muladd_24 = muladd_ref 0x24" "gf8_muladd_25 = muladd_ref 0x25"
  "gf8_muladd_26 = muladd_ref 0x26" "gf8_muladd_27 = muladd_ref 0x27" "gf8_muladd_28 = muladd_ref 0x28"
  "gf8_muladd_29 = muladd_ref 0x29" "gf8_muladd_2A = muladd_ref 0x2a" "gf8_muladd_2B = muladd_ref 0x2b"
  "gf8_muladd_2C = muladd_ref 0x2c" "gf8_muladd_2D = muladd_ref 0x2d" "gf8_muladd_2E = muladd_ref 0x2e"
  "gf8_muladd_2F = muladd_ref 0x2f"
  by (simp_all add: muladd_simps
      gf8_muladd_20_def gf8_muladd_21_def gf8_muladd_22_def gf8_muladd_23_def gf8_muladd_24_def gf8_muladd_25_def
      gf8_muladd_26_def gf8_muladd_27_def gf8_muladd_28_def gf8_muladd_29_def gf8_muladd_2A_def gf8_muladd_2B_def
      gf8_muladd_2C_def gf8_muladd_2D_def gf8_muladd_2E_def gf8_muladd_2F_def)

lemma muladd_30_3F:
  "gf8_muladd_30 = muladd_ref 0x30" "gf8_muladd_31 = muladd_ref 0x31" "gf8_muladd_32 = muladd_ref 0x32"
  "gf8_muladd_33 = muladd_ref 0x33" "gf8_muladd_34 = muladd_ref 0x34" "gf8_muladd_35 = muladd_ref 0x35"
  "gf8_muladd_36 = muladd_ref 0x36" "gf8_muladd_37 = muladd_ref 0x37" "gf8_muladd_38 = muladd_ref 0x38"
  "gf8_muladd_39 = muladd_ref 0x39" "gf8_muladd_3A = muladd_ref 0x3a" "gf8_muladd_3B = muladd_ref 0x3b"
  "gf8_muladd_3C = muladd_ref 0x3c" "gf8_muladd_3D = muladd_ref 0x3d" "gf8_muladd_3E = muladd_ref 0x3e"
  "gf8_muladd_3F = muladd_ref 0x3f"
  by (simp_all add: muladd_simps
      gf8_muladd_30_def gf8_muladd_31_def gf8_muladd_32_def gf8_muladd_33_def gf8_muladd_34_def gf8_muladd_35_def
      gf8_muladd_36_def gf8_muladd_37_def gf8_muladd_38_def gf8_muladd_39_def gf8_muladd_3A_def gf8_muladd_3B_def
      gf8_muladd_3C_def gf8_muladd_3D_def gf8_muladd_3E_def gf8_muladd_3F_def)

end
