(* ===== verification/Ec_Muladd1.thy ===== *)
theory Ec_Muladd1
  imports Ec_Muladd
begin

text \<open>
  The routines \<open>gf8_muladd_40\<close> to \<open>gf8_muladd_7F\<close> of
  \<open>xlators/cluster/ec/src/ec-code-c.c\<close>, and that each multiplies by its constant.
\<close>

unbundle bit_operations_syntax

definition gf8_muladd_40 :: "chunk \<Rightarrow> chunk \<Rightarrow> chunk" where
  "gf8_muladd_40 = muladd_loop (\<lambda>in0 in1 in2 in3 in4 in5 in6 in7.
     let out1 = in3 XOR in7; tmp0 = in3 XOR in4; tmp1 = in6 XOR in7; out4 = tmp0 XOR in2; out5 = tmp0 XOR in5;
       out0 = tmp1 XOR in2; out7 = tmp1 XOR in1 XOR in5; out2 = out0 XOR in4; out3 = out2 XOR out5 XOR in7;
       out6 = out3 XOR out4 XOR in0
     in [out0, out1, out2, out3, out4, out5, out6, out7])"

definition gf8_muladd_41 :: "chunk \<Rightarrow> chunk \<Rightarrow> chunk" where
  "gf8_muladd_41 = muladd_loop (\<lambda>in0 in1 in2 in3 in4 in5 in6 in7.
     let out4 = in2 XOR in3; tmp0 = in5 XOR in6; tmp1 = in6 XOR in7; out5 = in3 XOR in4;
       out1 = in1 XOR in3 XOR in7; out6 = in0 XOR in4 XOR in5; out3 = tmp0 XOR in2; out7 = tmp0 XOR in1;
       out2 = tmp1 XOR in4; out0 = tmp1 XOR in0 XOR in2
     in [out0, out1, out2, out3, out4, out5, out6, out7])"

definition gf8_muladd_42 :: "chunk \<Rightarrow> chunk \<Rightarrow> chunk" where
  "gf8_muladd_42 = muladd_loop (\<lambda>in0 in1 in2 in3 in4 in5 in6 in7.
     let out0 = in2 XOR in6; out5 = in3 XOR in5; out1 = in0 XOR in3 XOR in7; out7 = in1 XOR in5 XOR in7;
       out4 = in2 XOR in4 XOR in7; out6 = in0 XOR in4 XOR in6; out2 = out0 XOR in1 XOR in4;
       out3 = out5 XOR in6 XOR in7
     in [out0, out1, out2, out3, out4, out5, out6, out7])"

definition gf8_muladd_43 :: "chunk \<Rightarrow> chunk \<Rightarrow> chunk" where
  "gf8_muladd_43 = muladd_loop (\<lambda>in0 in1 in2 in3 in4 in5 in6 in7.
     let out5 = in3; out7 = in1 XOR in5; out4 = in2 XOR in7; out6 = in0 XOR in4; out0 = in0 XOR in2 XOR in6;
       out3 = in5 XOR in6 XOR in7; out2 = in1 XOR in4 XOR in6; out1 = in0 XOR in1 XOR in3 XOR in7
     in [out0, out1, out2, out3, out4, out5, out6, out7])"

definition gf8_muladd_44 :: "chunk \<Rightarrow> chunk \<Rightarrow> chunk" where
  "gf8_muladd_44 = muladd_loop (\<lambda>in0 in1 in2 in3 in4 in5 in6 in7.
     let out1 = in3; out0 = in2 XOR in7; tmp0 = in4 XOR in7; out7 = in1 XOR in6 XOR in7;
       out6 = in0 XOR in5 XOR in6; out4 = tmp0 XOR in3 XOR in6; out3 = out0 XOR in1 XOR in3 XOR in5;
       out2 = out0 XOR in0 XOR in4; out5 = tmp0 XOR in5
     in [out0, out1, out2, out3, out4, out5, out6, out7])"

definition gf8_muladd_45 :: "chunk \<Rightarrow> chunk \<Rightarrow> chunk" where
  "gf8_muladd_45 = muladd_loop (\<lambda>in0 in1 in2 in3 in4 in5 in6 in7.
     let out1 = in1 XOR in3; out7 = in1 XOR in6; out5 = in4 XOR in7; out6 = in0 XOR in5;
       out0 = in0 XOR in2 XOR in7; out4 = in3 XOR in6 XOR in7; out2 = out5 XOR in0; out3 = out0 XOR out6 XOR in1
     in [out0, out1, out2, out3, out4, out5, out6, out7])"

definition gf8_muladd_46 :: "chunk \<Rightarrow> chunk \<Rightarrow> chunk" where
  "gf8_muladd_46 = muladd_loop (\<lambda>in0 in1 in2 in3 in4 in5 in6 in7.
     let out0 = in2; out1 = in0 XOR in3; out7 = in1 XOR in7; out4 = in4 XOR in6; out5 = in5 XOR in7;
       out6 = in0 XOR in6; out3 = in1 XOR in3 XOR in5; out2 = out4 XOR out6 XOR in1 XOR in2
     in [out0, out1, out2, out3, out4, out5, out6, out7])"

definition gf8_muladd_47 :: "chunk \<Rightarrow> chunk \<Rightarrow> chunk" where
  "gf8_muladd_47 = muladd_loop (\<lambda>in0 in1 in2 in3 in4 in5 in6 in7.
     let out4 = in6; out7 = in1; out5 = in7; out6 = in0; tmp0 = in0 XOR in1; out3 = in1 XOR in5;
       out0 = in0 XOR in2; out1 = tmp0 XOR in3; out2 = tmp0 XOR in4
     in [out0, out1, out2, out3, out4, out5, out6, out7])"

definition gf8_muladd_48 :: "chunk \<Rightarrow> chunk \<Rightarrow> chunk" where
  "gf8_muladd_48 = muladd_loop (\<lambda>in0 in1 in2 in3 in4 in5 in6 in7.
     let tmp0 = in2 XOR in3; out1 = in3 XOR in6 XOR in7; out3 = tmp0 XOR in0; out0 = tmp0 XOR out1 XOR in5;
       tmp1 = out0 XOR in4; out2 = tmp1 XOR in7; out5 = tmp1 XOR in3; out4 = out5 XOR in1;
       out7 = tmp0 XOR out4; out6 = tmp1 XOR out3
     in [out0, out1, out2, out3, out4, out5, out6, out7])"

definition gf8_muladd_49 :: "chunk \<Rightarrow> chunk \<Rightarrow> chunk" where
  "gf8_muladd_49 = muladd_loop (\<lambda>in0 in1 in2 in3 in4 in5 in6 in7.
     let out3 = in0 XOR in2; tmp0 = in2 XOR in5; out2 = in4 XOR in5 XOR in6; tmp1 = tmp0 XOR out2 XOR in3;
       out7 = out2 XOR in1; out5 = tmp1 XOR in7; out4 = out5 XOR out7 XOR in6; out1 = tmp0 XOR out4;
       out6 = out1 XOR out7 XOR in0; out0 = tmp1 XOR out6
     in [out0, out1, out2, out3, out4, out5, out6, out7])"

definition gf8_muladd_4A :: "chunk \<Rightarrow> chunk \<Rightarrow> chunk" where
  "gf8_muladd_4A = muladd_loop (\<lambda>in0 in1 in2 in3 in4 in5 in6 in7.
     let tmp0 = in2 XOR in6; tmp1 = in3 XOR in7; out0 = tmp0 XOR in5; out3 = tmp1 XOR in0;
       out5 = tmp1 XOR out0; out4 = out0 XOR in1 XOR in4; out1 = out3 XOR in6; out2 = out4 XOR in7;
       out6 = out1 XOR in4; out7 = tmp0 XOR out2
     in [out0, out1, out2, out3, out4, out5, out6, out7])"

definition gf8_muladd_4B :: "chunk \<Rightarrow> chunk \<Rightarrow> chunk" where
  "gf8_muladd_4B = muladd_loop (\<lambda>in0 in1 in2 in3 in4 in5 in6 in7.
     let out3 = in0 XOR in7; tmp0 = in1 XOR in5; tmp1 = in2 XOR in6; tmp2 = out3 XOR in3; out7 = tmp0 XOR in4;
       out4 = tmp0 XOR tmp1; tmp3 = tmp1 XOR in0; out6 = tmp2 XOR in4; out5 = tmp2 XOR tmp3;
       out1 = tmp2 XOR in1 XOR in6; out2 = out7 XOR in6 XOR in7; out0 = tmp3 XOR in5
     in [out0, out1, out2, out3, out4, out5, out6, out7])"

definition gf8_muladd_4C :: "chunk \<Rightarrow> chunk \<Rightarrow> chunk" where
  "gf8_muladd_4C = muladd_loop (\<lambda>in0 in1 in2 in3 in4 in5 in6 in7.
     let out1 = in3 XOR in6; tmp0 = in2 XOR in5; tmp1 = out1 XOR in5 XOR in7; out0 = tmp0 XOR in7;
       tmp2 = tmp0 XOR in4; out6 = tmp1 XOR in0; out2 = tmp2 XOR in0; out5 = tmp2 XOR in6;
       out3 = tmp0 XOR out6 XOR in1; out7 = out0 XOR out5 XOR in1; out4 = tmp1 XOR out7
     in [out0, out1, out2, out3, out4, out5, out6, out7])"

definition gf8_muladd_4D :: "chunk \<Rightarrow> chunk \<Rightarrow> chunk" where
  "gf8_muladd_4D = muladd_loop (\<lambda>in0 in1 in2 in3 in4 in5 in6 in7.
     let tmp0 = in0 XOR in5; tmp1 = in1 XOR in6; out4 = in1 XOR in3 XOR in5; tmp2 = tmp0 XOR in7;
       out2 = tmp0 XOR in4; out1 = tmp1 XOR in3; out7 = tmp1 XOR in4; out0 = tmp2 XOR in2; out6 = tmp2 XOR in3;
       out5 = out7 XOR in1 XOR in2; out3 = tmp1 XOR out0 XOR in5
     in [out0, out1, out2, out3, out4, out5, out6, out7])"

definition gf8_muladd_4E :: "chunk \<Rightarrow> chunk \<Rightarrow> chunk" where
  "gf8_muladd_4E = muladd_loop (\<lambda>in0 in1 in2 in3 in4 in5 in6 in7.
     let out0 = in2 XOR in5; out7 = in1 XOR in4 XOR in7; out1 = in0 XOR in3 XOR in6; out5 = out0 XOR in6;
       out4 = out7 XOR in5; out3 = out1 XOR in1; out6 = out1 XOR in7; out2 = out4 XOR in0 XOR in2
     in [out0, out1, out2, out3, out4, out5, out6, out7])"

definition gf8_muladd_4F :: "chunk \<Rightarrow> chunk \<Rightarrow> chunk" where
  "gf8_muladd_4F = muladd_loop (\<lambda>in0 in1 in2 in3 in4 in5 in6 in7.
     let out5 = in2 XOR in6; out7 = in1 XOR in4; out3 = in0 XOR in1 XOR in6; out4 = in1 XOR in5 XOR in7;
       out0 = in0 XOR in2 XOR in5; out6 = in0 XOR in3 XOR in7; out1 = out3 XOR in3; out2 = out4 XOR in0 XOR in4
     in [out0, out1, out2, out3, out4, out5, out6, out7])"

definition gf8_muladd_50 :: "chunk \<Rightarrow> chunk \<Rightarrow> chunk" where
  "gf8_muladd_50 = muladd_loop (\<lambda>in0 in1 in2 in3 in4 in5 in6 in7.
     let out2 = in2 XOR in7; tmp0 = in3 XOR in5; out0 = out2 XOR in4 XOR in6; out1 = tmp0 XOR in7;
       tmp1 = tmp0 XOR in6; out3 = out0 XOR in3; out7 = tmp1 XOR in1; tmp2 = tmp1 XOR in0;
       out5 = out3 XOR in1 XOR in2; out4 = tmp2 XOR in2; out6 = tmp2 XOR out3
     in [out0, out1, out2, out3, out4, out5, out6, out7])"

definition gf8_muladd_51 :: "chunk \<Rightarrow> chunk \<Rightarrow> chunk" where
  "gf8_muladd_51 = muladd_loop (\<lambda>in0 in1 in2 in3 in4 in5 in6 in7.
     let out2 = in7; out3 = in2 XOR in4 XOR in6 XOR in7; out0 = out3 XOR in0; out6 = out0 XOR in5;
       out4 = out6 XOR in3 XOR in7; out1 = out0 XOR out4 XOR in1; out7 = out1 XOR in6; out5 = out7 XOR in4
     in [out0, out1, out2, out3, out4, out5, out6, out7])"

definition gf8_muladd_52 :: "chunk \<Rightarrow> chunk \<Rightarrow> chunk" where
  "gf8_muladd_52 = muladd_loop (\<lambda>in0 in1 in2 in3 in4 in5 in6 in7.
     let out2 = in1 XOR in2; tmp0 = in2 XOR in4; tmp1 = in3 XOR in5; tmp2 = in3 XOR in6; tmp3 = in0 XOR in7;
       out0 = tmp0 XOR in6; out6 = tmp0 XOR tmp3; out7 = tmp1 XOR in1; out1 = tmp1 XOR tmp3;
       out3 = tmp2 XOR in4; out5 = tmp2 XOR in1 XOR in7; out4 = tmp2 XOR out1 XOR in2
     in [out0, out1, out2, out3, out4, out5, out6, out7])"

definition gf8_muladd_53 :: "chunk \<Rightarrow> chunk \<Rightarrow> chunk" where
  "gf8_muladd_53 = muladd_loop (\<lambda>in0 in1 in2 in3 in4 in5 in6 in7.
     let out2 = in1; out3 = in4 XOR in6; out0 = out3 XOR in0 XOR in2; out6 = out0 XOR in7; out4 = out6 XOR in5;
       out7 = out0 XOR out4 XOR in1 XOR in3; out1 = out7 XOR in0; out5 = out7 XOR in6
     in [out0, out1, out2, out3, out4, out5, out6, out7])"

definition gf8_muladd_54 :: "chunk \<Rightarrow> chunk \<Rightarrow> chunk" where
  "gf8_muladd_54 = muladd_loop (\<lambda>in0 in1 in2 in3 in4 in5 in6 in7.
     let out1 = in3 XOR in5; tmp0 = in1 XOR in3; tmp1 = in2 XOR in4; tmp2 = in0 XOR in7;
       out5 = in1 XOR in4 XOR in6; out4 = tmp2 XOR out1; out7 = tmp0 XOR in6; out3 = tmp0 XOR tmp1;
       out0 = tmp1 XOR in7; tmp3 = tmp2 XOR in2; out2 = tmp3 XOR in6; out6 = tmp3 XOR in5
     in [out0, out1, out2, out3, out4, out5, out6, out7])"

definition gf8_muladd_55 :: "chunk \<Rightarrow> chunk \<Rightarrow> chunk" where
  "gf8_muladd_55 = muladd_loop (\<lambda>in0 in1 in2 in3 in4 in5 in6 in7.
     let tmp0 = in1 XOR in3; tmp1 = in1 XOR in4; tmp2 = in6 XOR in7; out7 = tmp0 XOR tmp2; out1 = tmp0 XOR in5;
       out3 = tmp1 XOR in2; out5 = tmp1 XOR in5 XOR in6; out2 = tmp2 XOR in0; out4 = out5 XOR out7 XOR in0;
       out6 = out2 XOR in2 XOR in5; out0 = out5 XOR out6 XOR in1
     in [out0, out1, out2, out3, out4, out5, out6, out7])"

definition gf8_muladd_56 :: "chunk \<Rightarrow> chunk \<Rightarrow> chunk" where
  "gf8_muladd_56 = muladd_loop (\<lambda>in0 in1 in2 in3 in4 in5 in6 in7.
     let out0 = in2 XOR in4; tmp0 = in0 XOR in2; out4 = in0 XOR in5; out7 = in1 XOR in3; out5 = in1 XOR in6;
       out6 = tmp0 XOR in7; out2 = tmp0 XOR out5; out1 = out4 XOR in3; out3 = out7 XOR in4 XOR in7
     in [out0, out1, out2, out3, out4, out5, out6, out7])"

definition gf8_muladd_57 :: "chunk \<Rightarrow> chunk \<Rightarrow> chunk" where
  "gf8_muladd_57 = muladd_loop (\<lambda>in0 in1 in2 in3 in4 in5 in6 in7.
     let tmp0 = in0 XOR in5; tmp1 = in1 XOR in7; out0 = in0 XOR in2 XOR in4; out5 = in1 XOR in5 XOR in6;
       out4 = tmp0 XOR in4; out1 = tmp0 XOR in1 XOR in3; out2 = tmp0 XOR out5; out3 = tmp1 XOR in4;
       out7 = tmp1 XOR in3; out6 = tmp1 XOR out2 XOR in2
     in [out0, out1, out2, out3, out4, out5, out6, out7])"

definition gf8_muladd_58 :: "chunk \<Rightarrow> chunk \<Rightarrow> chunk" where
  "gf8_muladd_58 = muladd_loop (\<lambda>in0 in1 in2 in3 in4 in5 in6 in7.
     let out2 = in2 XOR in5; tmp0 = in2 XOR in3 XOR in4; out5 = tmp0 XOR in1; out6 = tmp0 XOR in0 XOR in5;
       out3 = out6 XOR in7; tmp1 = out2 XOR out5; out7 = tmp1 XOR in6; out4 = tmp1 XOR out3 XOR in3;
       out0 = out4 XOR out7 XOR in0; out1 = tmp0 XOR out0
     in [out0, out1, out2, out3, out4, out5, out6, out7])"

definition gf8_muladd_59 :: "chunk \<Rightarrow> chunk \<Rightarrow> chunk" where
  "gf8_muladd_59 = muladd_loop (\<lambda>in0 in1 in2 in3 in4 in5 in6 in7.
     let out2 = in5; tmp0 = in0 XOR in5 XOR in7; out3 = tmp0 XOR in2 XOR in4; out0 = out3 XOR in6;
       tmp1 = out0 XOR in7; out6 = tmp1 XOR in3; out5 = out6 XOR in0 XOR in1 XOR in6; out4 = tmp0 XOR out5;
       out1 = tmp1 XOR out4; out7 = out1 XOR in4
     in [out0, out1, out2, out3, out4, out5, out6, out7])"

definition gf8_muladd_5A :: "chunk \<Rightarrow> chunk \<Rightarrow> chunk" where
  "gf8_muladd_5A = muladd_loop (\<lambda>in0 in1 in2 in3 in4 in5 in6 in7.
     let tmp0 = in1 XOR in2; tmp1 = in2 XOR in5; out5 = tmp0 XOR in3; out4 = tmp0 XOR in0; tmp2 = tmp1 XOR in4;
       out2 = tmp1 XOR in1 XOR in7; out7 = tmp2 XOR out5; out6 = out4 XOR out7 XOR in5; out0 = tmp2 XOR in6;
       out1 = out0 XOR out6 XOR in7; out3 = tmp1 XOR out6
     in [out0, out1, out2, out3, out4, out5, out6, out7])"

definition gf8_muladd_5B :: "chunk \<Rightarrow> chunk \<Rightarrow> chunk" where
  "gf8_muladd_5B = muladd_loop (\<lambda>in0 in1 in2 in3 in4 in5 in6 in7.
     let tmp0 = in2 XOR in3; tmp1 = in0 XOR in4; tmp2 = in1 XOR in5; out5 = tmp0 XOR tmp2; tmp3 = tmp1 XOR in6;
       out3 = tmp1 XOR in5; out2 = tmp2 XOR in7; tmp4 = out3 XOR in2; out7 = out2 XOR in3 XOR in4;
       out0 = tmp4 XOR in6; out6 = tmp0 XOR tmp3; out4 = tmp2 XOR tmp4; out1 = tmp3 XOR out7
     in [out0, out1, out2, out3, out4, out5, out6, out7])"

definition gf8_muladd_5C :: "chunk \<Rightarrow> chunk \<Rightarrow> chunk" where
  "gf8_muladd_5C = muladd_loop (\<lambda>in0 in1 in2 in3 in4 in5 in6 in7.
     let tmp0 = in3 XOR in6; tmp1 = in0 XOR in2 XOR in5; out1 = tmp0 XOR in5; tmp2 = tmp0 XOR in1;
       out2 = tmp1 XOR in6; out6 = tmp1 XOR in3; out4 = tmp2 XOR in0; out7 = tmp2 XOR in4;
       out3 = tmp1 XOR out7; out0 = out3 XOR out4 XOR in7; out5 = out0 XOR in1 XOR in5
     in [out0, out1, out2, out3, out4, out5, out6, out7])"

definition gf8_muladd_5D :: "chunk \<Rightarrow> chunk \<Rightarrow> chunk" where
  "gf8_muladd_5D = muladd_loop (\<lambda>in0 in1 in2 in3 in4 in5 in6 in7.
     let tmp0 = in0 XOR in1; tmp1 = in0 XOR in6; out2 = tmp1 XOR in5; tmp2 = out2 XOR in3; out6 = tmp2 XOR in2;
       out1 = tmp0 XOR tmp2; tmp3 = out1 XOR in4 XOR in5; out4 = tmp3 XOR in0; out7 = tmp3 XOR in7;
       tmp4 = out4 XOR out6; out5 = tmp4 XOR in7; out0 = tmp0 XOR out5; out3 = tmp1 XOR tmp4
     in [out0, out1, out2, out3, out4, out5, out6, out7])"

definition gf8_muladd_5E :: "chunk \<Rightarrow> chunk \<Rightarrow> chunk" where
  "gf8_muladd_5E = muladd_loop (\<lambda>in0 in1 in2 in3 in4 in5 in6 in7.
     let tmp0 = in2 XOR in5; tmp1 = in3 XOR in5; tmp2 = in1 XOR in7; out7 = in1 XOR in3 XOR in4;
       out0 = tmp0 XOR in4; tmp3 = tmp1 XOR in0; out5 = tmp2 XOR in2; out1 = tmp3 XOR in6;
       out6 = tmp0 XOR tmp3; tmp4 = tmp2 XOR out1; out3 = tmp4 XOR in4; out4 = tmp1 XOR tmp4;
       out2 = tmp0 XOR out4
     in [out0, out1, out2, out3, out4, out5, out6, out7])"

definition gf8_muladd_5F :: "chunk \<Rightarrow> chunk \<Rightarrow> chunk" where
  "gf8_muladd_5F = muladd_loop (\<lambda>in0 in1 in2 in3 in4 in5 in6 in7.
     let tmp0 = in1 XOR in5; tmp1 = in0 XOR in6; tmp2 = tmp0 XOR in7; tmp3 = tmp1 XOR in3;
       out2 = tmp1 XOR tmp2; out5 = tmp2 XOR in2; out6 = tmp3 XOR in2; out3 = out2 XOR in4;
       out4 = out3 XOR in5; out1 = tmp0 XOR tmp3; out7 = tmp3 XOR out4; out0 = out4 XOR out5 XOR in6
     in [out0, out1, out2, out3, out4, out5, out6, out7])"

definition gf8_muladd_60 :: "chunk \<Rightarrow> chunk \<Rightarrow> chunk" where
  "gf8_muladd_60 = muladd_loop (\<lambda>in0 in1 in2 in3 in4 in5 in6 in7.
     let out4 = in2 XOR in5; tmp0 = in3 XOR in6; out1 = in3 XOR in4 XOR in7; out7 = out4 XOR in1;
       tmp1 = out4 XOR in4; out0 = tmp0 XOR in2; out5 = tmp0 XOR in0; out2 = tmp0 XOR tmp1;
       out3 = tmp1 XOR in7; out6 = out3 XOR out7 XOR in0
     in [out0, out1, out2, out3, out4, out5, out6, out7])"

definition gf8_muladd_61 :: "chunk \<Rightarrow> chunk \<Rightarrow> chunk" where
  "gf8_muladd_61 = muladd_loop (\<lambda>in0 in1 in2 in3 in4 in5 in6 in7.
     let tmp0 = in2 XOR in5; out4 = tmp0 XOR in4; tmp1 = out4 XOR in3; out3 = tmp1 XOR in7;
       out2 = tmp1 XOR in2 XOR in6; out1 = tmp0 XOR out3 XOR in1; out0 = out2 XOR out4 XOR in0;
       out7 = tmp1 XOR out1; out6 = out0 XOR out1 XOR in2; out5 = tmp0 XOR out0
     in [out0, out1, out2, out3, out4, out5, out6, out7])"

definition gf8_muladd_62 :: "chunk \<Rightarrow> chunk \<Rightarrow> chunk" where
  "gf8_muladd_62 = muladd_loop (\<lambda>in0 in1 in2 in3 in4 in5 in6 in7.
     let out3 = in4 XOR in5; tmp0 = in0 XOR in3 XOR in4; out1 = tmp0 XOR in7; out5 = tmp0 XOR in6;
       tmp1 = out1 XOR in0; tmp2 = tmp1 XOR out3; out4 = tmp2 XOR in2; tmp3 = tmp2 XOR in1;
       out0 = out4 XOR in5 XOR in6; out7 = tmp3 XOR out0; out6 = tmp0 XOR tmp3; out2 = tmp1 XOR out7
     in [out0, out1, out2, out3, out4, out5, out6, out7])"

definition gf8_muladd_63 :: "chunk \<Rightarrow> chunk \<Rightarrow> chunk" where
  "gf8_muladd_63 = muladd_loop (\<lambda>in0 in1 in2 in3 in4 in5 in6 in7.
     let tmp0 = in3 XOR in4; tmp1 = in1 XOR in7; out3 = tmp0 XOR in5; tmp2 = out3 XOR in6;
       out4 = out3 XOR in2 XOR in7; out5 = tmp2 XOR in0; tmp3 = out5 XOR in3; out0 = tmp3 XOR out4;
       out2 = tmp1 XOR tmp2; out6 = tmp1 XOR tmp3; tmp4 = tmp0 XOR out2; out1 = tmp4 XOR out5;
       out7 = tmp4 XOR in2
     in [out0, out1, out2, out3, out4, out5, out6, out7])"

definition gf8_muladd_64 :: "chunk \<Rightarrow> chunk \<Rightarrow> chunk" where
  "gf8_muladd_64 = muladd_loop (\<lambda>in0 in1 in2 in3 in4 in5 in6 in7.
     let out0 = in2 XOR in3; out1 = in3 XOR in4; out7 = in1 XOR in2; tmp0 = in4 XOR in5; tmp1 = in0 XOR in7;
       out4 = in5 XOR in6 XOR in7; out2 = tmp0 XOR out0 XOR in0; out3 = tmp0 XOR out7 XOR in6;
       out5 = tmp1 XOR in6; out6 = tmp1 XOR in1
     in [out0, out1, out2, out3, out4, out5, out6, out7])"

definition gf8_muladd_65 :: "chunk \<Rightarrow> chunk \<Rightarrow> chunk" where
  "gf8_muladd_65 = muladd_loop (\<lambda>in0 in1 in2 in3 in4 in5 in6 in7.
     let tmp0 = in0 XOR in3; tmp1 = in4 XOR in5; tmp2 = in6 XOR in7; out7 = in1 XOR in2 XOR in7;
       out1 = in1 XOR in3 XOR in4; out0 = tmp0 XOR in2; out2 = tmp0 XOR tmp1; out4 = tmp1 XOR tmp2;
       tmp3 = tmp2 XOR in0; out3 = out4 XOR out7 XOR in3; out5 = tmp3 XOR in5; out6 = tmp3 XOR in1
     in [out0, out1, out2, out3, out4, out5, out6, out7])"

definition gf8_muladd_66 :: "chunk \<Rightarrow> chunk \<Rightarrow> chunk" where
  "gf8_muladd_66 = muladd_loop (\<lambda>in0 in1 in2 in3 in4 in5 in6 in7.
     let tmp0 = in1 XOR in2; tmp1 = in2 XOR in3; tmp2 = in0 XOR in4; out7 = tmp0 XOR in6; out0 = tmp1 XOR in7;
       out1 = tmp2 XOR in3; tmp3 = tmp2 XOR in6; tmp4 = out1 XOR in5; out5 = tmp3 XOR in7;
       out4 = tmp3 XOR tmp4; out2 = tmp0 XOR tmp4 XOR in7; out6 = tmp1 XOR out2 XOR in4; out3 = tmp3 XOR out6
     in [out0, out1, out2, out3, out4, out5, out6, out7])"

definition gf8_muladd_67 :: "chunk \<Rightarrow> chunk \<Rightarrow> chunk" where
  "gf8_muladd_67 = muladd_loop (\<lambda>in0 in1 in2 in3 in4 in5 in6 in7.
     let tmp0 = in0 XOR in3; tmp1 = tmp0 XOR in1; tmp2 = tmp0 XOR in7; out1 = tmp1 XOR in4;
       out0 = tmp2 XOR in2; tmp3 = out1 XOR in7; out2 = tmp3 XOR in5; out3 = out2 XOR in0 XOR in6;
       out7 = tmp1 XOR out0 XOR in6; out5 = tmp1 XOR out3; out4 = tmp2 XOR out5; out6 = tmp3 XOR out4
     in [out0, out1, out2, out3, out4, out5, out6, out7])"

definition gf8_muladd_68 :: "chunk \<Rightarrow> chunk \<Rightarrow> chunk" where
  "gf8_muladd_68 = muladd_loop (\<lambda>in0 in1 in2 in3 in4 in5 in6 in7.
     let tmp0 = in3 XOR in4; tmp1 = in2 XOR in3 XOR in5; tmp2 = tmp0 XOR in1; tmp3 = tmp0 XOR in6;
       out0 = tmp1 XOR in6; out6 = tmp2 XOR in0; out7 = tmp1 XOR tmp2; out1 = tmp3 XOR in7;
       out2 = out1 XOR in2; out4 = tmp2 XOR out2; out3 = out4 XOR out6 XOR in3; out5 = tmp3 XOR out3
     in [out0, out1, out2, out3, out4, out5, out6, out7])"

definition gf8_muladd_69 :: "chunk \<Rightarrow> chunk \<Rightarrow> chunk" where
  "gf8_muladd_69 = muladd_loop (\<lambda>in0 in1 in2 in3 in4 in5 in6 in7.
     let tmp0 = in6 XOR in7; out2 = tmp0 XOR in3 XOR in4; out1 = out2 XOR in1; out3 = out2 XOR in0 XOR in2;
       out4 = out1 XOR in2 XOR in3; out6 = out1 XOR in0 XOR in7; out7 = out4 XOR in5 XOR in6;
       out5 = out4 XOR out6 XOR in5; out0 = tmp0 XOR out5
     in [out0, out1, out2, out3, out4, out5, out6, out7])"

definition gf8_muladd_6A :: "chunk \<Rightarrow> chunk \<Rightarrow> chunk" where
  "gf8_muladd_6A = muladd_loop (\<lambda>in0 in1 in2 in3 in4 in5 in6 in7.
     let tmp0 = in2 XOR in6; out3 = in0 XOR in4 XOR in6; tmp1 = tmp0 XOR in3; out4 = tmp1 XOR in1;
       tmp2 = tmp1 XOR in7; out2 = out4 XOR in4; out0 = tmp2 XOR in5; out5 = tmp2 XOR out3;
       out7 = out2 XOR in3 XOR in5; out1 = tmp0 XOR out5; out6 = tmp1 XOR out7 XOR in0
     in [out0, out1, out2, out3, out4, out5, out6, out7])"

definition gf8_muladd_6B :: "chunk \<Rightarrow> chunk \<Rightarrow> chunk" where
  "gf8_muladd_6B = muladd_loop (\<lambda>in0 in1 in2 in3 in4 in5 in6 in7.
     let tmp0 = in4 XOR in6; out2 = tmp0 XOR in1 XOR in3; out4 = out2 XOR in2; tmp1 = out2 XOR in0;
       out7 = out4 XOR in3 XOR in5 XOR in7; out1 = tmp1 XOR in7; out3 = tmp1 XOR in1; out6 = tmp1 XOR in5;
       out0 = tmp1 XOR out7 XOR in6; out5 = tmp0 XOR out0
     in [out0, out1, out2, out3, out4, out5, out6, out7])"

definition gf8_muladd_6C :: "chunk \<Rightarrow> chunk \<Rightarrow> chunk" where
  "gf8_muladd_6C = muladd_loop (\<lambda>in0 in1 in2 in3 in4 in5 in6 in7.
     let out4 = in1; tmp0 = in2 XOR in3; out5 = in0 XOR in2; out1 = in3 XOR in4 XOR in6; tmp1 = out5 XOR in1;
       out0 = tmp0 XOR in5; out6 = tmp0 XOR tmp1; out3 = tmp1 XOR in4; out7 = out3 XOR in0;
       out2 = out6 XOR out7 XOR in7
     in [out0, out1, out2, out3, out4, out5, out6, out7])"

definition gf8_muladd_6D :: "chunk \<Rightarrow> chunk \<Rightarrow> chunk" where
  "gf8_muladd_6D = muladd_loop (\<lambda>in0 in1 in2 in3 in4 in5 in6 in7.
     let out4 = in1 XOR in4; tmp0 = in0 XOR in2; tmp1 = out4 XOR in3; out7 = out4 XOR in2 XOR in7;
       out5 = tmp0 XOR in5; out3 = tmp0 XOR tmp1; out1 = tmp1 XOR in6; out0 = out5 XOR in3;
       out2 = out3 XOR out7 XOR in4; out6 = out1 XOR in0 XOR in4
     in [out0, out1, out2, out3, out4, out5, out6, out7])"

definition gf8_muladd_6E :: "chunk \<Rightarrow> chunk \<Rightarrow> chunk" where
  "gf8_muladd_6E = muladd_loop (\<lambda>in0 in1 in2 in3 in4 in5 in6 in7.
     let tmp0 = in1 XOR in3; tmp1 = in0 XOR in4; out4 = tmp0 XOR in7; out6 = tmp0 XOR in0 XOR in5;
       out5 = tmp1 XOR in2; tmp2 = tmp1 XOR in3; out3 = tmp2 XOR out4; out1 = tmp2 XOR in6;
       out2 = tmp0 XOR out5; out0 = out2 XOR out3 XOR in5; out7 = out1 XOR out2 XOR in4
     in [out0, out1, out2, out3, out4, out5, out6, out7])"

definition gf8_muladd_6F :: "chunk \<Rightarrow> chunk \<Rightarrow> chunk" where
  "gf8_muladd_6F = muladd_loop (\<lambda>in0 in1 in2 in3 in4 in5 in6 in7.
     let tmp0 = in3 XOR in7; tmp1 = tmp0 XOR in4; tmp2 = tmp0 XOR in0 XOR in2; out4 = tmp1 XOR in1;
       out0 = tmp2 XOR in5; out3 = out4 XOR in0; out2 = out3 XOR in7; out1 = out2 XOR in6;
       out6 = out1 XOR in4 XOR in5; out7 = tmp2 XOR out1; out5 = tmp1 XOR out0
     in [out0, out1, out2, out3, out4, out5, out6, out7])"

definition gf8_muladd_70 :: "chunk \<Rightarrow> chunk \<Rightarrow> chunk" where
  "gf8_muladd_70 = muladd_loop (\<lambda>in0 in1 in2 in3 in4 in5 in6 in7.
     let out3 = in2; tmp0 = in2 XOR in4; out2 = in2 XOR in3 XOR in5; tmp1 = tmp0 XOR in6; tmp2 = out2 XOR in7;
       out0 = tmp1 XOR in3; out4 = tmp1 XOR in0; out7 = tmp2 XOR in1; out6 = out4 XOR in1;
       out5 = out7 XOR in0 XOR in2; out1 = tmp0 XOR tmp2
     in [out0, out1, out2, out3, out4, out5, out6, out7])"

definition gf8_muladd_71 :: "chunk \<Rightarrow> chunk \<Rightarrow> chunk" where
  "gf8_muladd_71 = muladd_loop (\<lambda>in0 in1 in2 in3 in4 in5 in6 in7.
     let out2 = in3 XOR in5; out3 = in2 XOR in3; tmp0 = in0 XOR in2; tmp1 = out2 XOR in1; out4 = tmp0 XOR in6;
       tmp2 = tmp0 XOR in1; out7 = tmp1 XOR in2; out1 = tmp1 XOR in4 XOR in7; out0 = out4 XOR in3 XOR in4;
       out6 = tmp2 XOR in4; out5 = tmp2 XOR out3 XOR in7
     in [out0, out1, out2, out3, out4, out5, out6, out7])"

definition gf8_muladd_72 :: "chunk \<Rightarrow> chunk \<Rightarrow> chunk" where
  "gf8_muladd_72 = muladd_loop (\<lambda>in0 in1 in2 in3 in4 in5 in6 in7.
     let out3 = in7; tmp0 = in0 XOR in4; tmp1 = tmp0 XOR in3 XOR in7; out1 = tmp1 XOR in5; out5 = out1 XOR in1;
       tmp2 = tmp0 XOR out5; out2 = tmp2 XOR in2; out7 = out2 XOR in6; out6 = tmp1 XOR out7;
       out4 = tmp2 XOR out6; out0 = out4 XOR in0
     in [out0, out1, out2, out3, out4, out5, out6, out7])"

definition gf8_muladd_73 :: "chunk \<Rightarrow> chunk \<Rightarrow> chunk" where
  "gf8_muladd_73 = muladd_loop (\<lambda>in0 in1 in2 in3 in4 in5 in6 in7.
     let out3 = in3 XOR in7; out2 = out3 XOR in1 XOR in5; out1 = out2 XOR in0 XOR in4; out5 = out1 XOR in5;
       out6 = out1 XOR out3 XOR in2; out0 = out2 XOR out6 XOR in6; out7 = out0 XOR out1 XOR in3;
       out4 = out0 XOR in4
     in [out0, out1, out2, out3, out4, out5, out6, out7])"

definition gf8_muladd_74 :: "chunk \<Rightarrow> chunk \<Rightarrow> chunk" where
  "gf8_muladd_74 = muladd_loop (\<lambda>in0 in1 in2 in3 in4 in5 in6 in7.
     let tmp0 = in3 XOR in4; tmp1 = in1 XOR in2 XOR in6; out4 = in0 XOR in4 XOR in7;
       out5 = in0 XOR in1 XOR in5; out0 = tmp0 XOR in2; out1 = tmp0 XOR in5; out3 = tmp1 XOR in7;
       out6 = tmp1 XOR in0; out2 = tmp1 XOR out5 XOR in3; out7 = out3 XOR in3 XOR in6
     in [out0, out1, out2, out3, out4, out5, out6, out7])"

definition gf8_muladd_75 :: "chunk \<Rightarrow> chunk \<Rightarrow> chunk" where
  "gf8_muladd_75 = muladd_loop (\<lambda>in0 in1 in2 in3 in4 in5 in6 in7.
     let out4 = in0 XOR in7; tmp0 = in1 XOR in3; out5 = in0 XOR in1; out7 = tmp0 XOR in2; tmp1 = tmp0 XOR in4;
       out6 = out5 XOR in2; tmp2 = out7 XOR in6; out1 = tmp1 XOR in5; out0 = tmp1 XOR out6;
       out3 = tmp2 XOR in7; out2 = tmp2 XOR out6 XOR in5
     in [out0, out1, out2, out3, out4, out5, out6, out7])"

definition gf8_muladd_76 :: "chunk \<Rightarrow> chunk \<Rightarrow> chunk" where
  "gf8_muladd_76 = muladd_loop (\<lambda>in0 in1 in2 in3 in4 in5 in6 in7.
     let out3 = in1 XOR in6; tmp0 = in0 XOR in5; tmp1 = in3 XOR in7; tmp2 = tmp0 XOR in4; tmp3 = tmp1 XOR in2;
       out5 = tmp2 XOR in1; out1 = tmp2 XOR in3; out0 = tmp3 XOR in4; out4 = out1 XOR in5;
       out7 = tmp3 XOR out3; out2 = tmp0 XOR out7; out6 = tmp1 XOR out2
     in [out0, out1, out2, out3, out4, out5, out6, out7])"

definition gf8_muladd_77 :: "chunk \<Rightarrow> chunk \<Rightarrow> chunk" where
  "gf8_muladd_77 = muladd_loop (\<lambda>in0 in1 in2 in3 in4 in5 in6 in7.
     let out4 = in0 XOR in3; tmp0 = in1 XOR in4; tmp1 = in1 XOR in6; tmp2 = out4 XOR in5; out5 = tmp0 XOR in0;
       out1 = tmp0 XOR tmp2; out3 = tmp1 XOR in3; out2 = tmp1 XOR tmp2 XOR in7; out7 = out3 XOR in2;
       tmp3 = out7 XOR in6; out6 = tmp2 XOR tmp3; out0 = tmp3 XOR out5 XOR in7
     in [out0, out1, out2, out3, out4, out5, out6, out7])"

definition gf8_muladd_78 :: "chunk \<Rightarrow> chunk \<Rightarrow> chunk" where
  "gf8_muladd_78 = muladd_loop (\<lambda>in0 in1 in2 in3 in4 in5 in6 in7.
     let tmp0 = in0 XOR in3; tmp1 = in2 XOR in7; tmp2 = in0 XOR in5 XOR in6; out2 = tmp1 XOR in3;
       out3 = tmp2 XOR in2; out5 = out3 XOR in1 XOR in3; out0 = tmp0 XOR out3 XOR in4; out1 = tmp1 XOR out0;
       out4 = out1 XOR out5 XOR in5; out7 = tmp0 XOR out4; out6 = tmp2 XOR out7
     in [out0, out1, out2, out3, out4, out5, out6, out7])"

definition gf8_muladd_79 :: "chunk \<Rightarrow> chunk \<Rightarrow> chunk" where
  "gf8_muladd_79 = muladd_loop (\<lambda>in0 in1 in2 in3 in4 in5 in6 in7.
     let out2 = in3 XOR in7; tmp0 = in3 XOR in4; tmp1 = in1 XOR in5; tmp2 = tmp1 XOR in2;
       out4 = tmp2 XOR in0 XOR in7; tmp3 = out4 XOR in5; out5 = tmp3 XOR out2 XOR in6; out7 = tmp0 XOR tmp2;
       out6 = tmp0 XOR tmp3; out3 = tmp1 XOR out5; out0 = out3 XOR in4; out1 = tmp3 XOR out0
     in [out0, out1, out2, out3, out4, out5, out6, out7])"

definition gf8_muladd_7A :: "chunk \<Rightarrow> chunk \<Rightarrow> chunk" where
  "gf8_muladd_7A = muladd_loop (\<lambda>in0 in1 in2 in3 in4 in5 in6 in7.
     let tmp0 = in1 XOR in2; out2 = tmp0 XOR in3; tmp1 = out2 XOR in4; out4 = tmp1 XOR in0 XOR in5;
       out5 = out4 XOR in6; out6 = out5 XOR in7; out7 = out6 XOR in0; out0 = out7 XOR in1;
       out1 = tmp0 XOR out6; out3 = tmp1 XOR out6
     in [out0, out1, out2, out3, out4, out5, out6, out7])"

definition gf8_muladd_7B :: "chunk \<Rightarrow> chunk \<Rightarrow> chunk" where
  "gf8_muladd_7B = muladd_loop (\<lambda>in0 in1 in2 in3 in4 in5 in6 in7.
     let out2 = in1 XOR in3; tmp0 = in0 XOR in5; out4 = tmp0 XOR out2 XOR in2; tmp1 = out4 XOR in4;
       out6 = tmp1 XOR in7; out5 = tmp1 XOR in5 XOR in6; out0 = out6 XOR in1 XOR in6; tmp2 = out0 XOR in2;
       out1 = tmp2 XOR in1; out3 = tmp2 XOR in4; out7 = tmp0 XOR out5
     in [out0, out1, out2, out3, out4, out5, out6, out7])"

definition gf8_muladd_7C :: "chunk \<Rightarrow> chunk \<Rightarrow> chunk" where
  "gf8_muladd_7C = muladd_loop (\<lambda>in0 in1 in2 in3 in4 in5 in6 in7.
     let tmp0 = in3 XOR in5; tmp1 = tmp0 XOR in4; out0 = tmp1 XOR in2; out1 = tmp1 XOR in6;
       out7 = out0 XOR in1 XOR in5 XOR in7; out5 = out1 XOR out7 XOR in0; out3 = out5 XOR in6;
       out6 = tmp0 XOR out5; out2 = out6 XOR in1; out4 = out2 XOR out7 XOR in5
     in [out0, out1, out2, out3, out4, out5, out6, out7])"

definition gf8_muladd_7D :: "chunk \<Rightarrow> chunk \<Rightarrow> chunk" where
  "gf8_muladd_7D = muladd_loop (\<lambda>in0 in1 in2 in3 in4 in5 in6 in7.
     let tmp0 = in1 XOR in2; tmp1 = tmp0 XOR in3; tmp2 = tmp0 XOR in6; out7 = tmp1 XOR in4;
       tmp3 = tmp2 XOR in0; out5 = tmp3 XOR in7; out4 = tmp3 XOR in2 XOR in5; out2 = tmp1 XOR out5;
       out6 = tmp2 XOR out2; out0 = out4 XOR out7 XOR in6; out1 = tmp3 XOR out0; out3 = out6 XOR in5
     in [out0, out1, out2, out3, out4, out5, out6, out7])"

definition gf8_muladd_7E :: "chunk \<Rightarrow> chunk \<Rightarrow> chunk" where
  "gf8_muladd_7E = muladd_loop (\<lambda>in0 in1 in2 in3 in4 in5 in6 in7.
     let tmp0 = in3 XOR in4; tmp1 = in0 XOR in5; out1 = tmp0 XOR tmp1 XOR in6; out3 = tmp1 XOR in1;
       out4 = out1 XOR in1 XOR in7; tmp2 = out4 XOR in3; out5 = tmp2 XOR in2; out6 = tmp0 XOR out5;
       out7 = tmp1 XOR out4 XOR in2; out2 = out6 XOR in5 XOR in7; out0 = tmp2 XOR out2
     in [out0, out1, out2, out3, out4, out5, out6, out7])"

definition gf8_muladd_7F :: "chunk \<Rightarrow> chunk \<Rightarrow> chunk" where
  "gf8_muladd_7F = muladd_loop (\<lambda>in0 in1 in2 in3 in4 in5 in6 in7.
     let tmp0 = in2 XOR in7; tmp1 = tmp0 XOR in3 XOR in5; tmp2 = tmp1 XOR in0; out0 = tmp2 XOR in4;
       out6 = tmp2 XOR in1; out3 = tmp0 XOR out6; tmp3 = out3 XOR in6; out1 = tmp3 XOR in4;
       out2 = tmp3 XOR in5; out4 = tmp3 XOR in7; out5 = tmp1 XOR out1; out7 = out0 XOR out4 XOR in3
     in [out0, out1, out2, out3, out4, out5, out6, out7])"

lemma muladd_40_4F:
  "gf8_muladd_40 = muladd_ref 0x40" "gf8_muladd_41 = muladd_ref 0x41" "gf8_muladd_42 = muladd_ref 0x42"
  "gf8_muladd_43 = muladd_ref 0x43" "gf8_muladd_44 = muladd_ref 0x44" "gf8_muladd_45 = muladd_ref 0x45"
  "gf8_muladd_46 = muladd_ref 0x46" "gf8_muladd_47 = muladd_ref 0x47" "gf8_muladd_48 = muladd_ref 0x48"
  "gf8_muladd_49 = muladd_ref 0x49" "gf8_muladd_4A = muladd_ref 0x4a" "gf8_muladd_4B = muladd_ref 0x4b"
  "gf8_muladd_4C = muladd_ref 0x4c" "gf8_muladd_4D = muladd_ref 0x4d" "gf8_muladd_4E = muladd_ref 0x4e"
  "gf8_muladd_4F = muladd_ref 0x4f"
  by (simp_all add: muladd_simps
      gf8_muladd_40_def gf8_muladd_41_def gf8_muladd_42_def gf8_muladd_43_def gf8_muladd_44_def gf8_muladd_45_def
      gf8_muladd_46_def gf8_muladd_47_def gf8_muladd_48_def gf8_muladd_49_def gf8_muladd_4A_def gf8_muladd_4B_def
      gf8_muladd_4C_def gf8_muladd_4D_def gf8_muladd_4E_def gf8_muladd_4F_def)

lemma muladd_50_5F:
  "gf8_muladd_50 = muladd_ref 0x50" "gf8_muladd_51 = muladd_ref 0x51" "gf8_muladd_52 = muladd_ref 0x52"
  "gf8_muladd_53 = muladd_ref 0x53" "gf8_muladd_54 = muladd_ref 0x54" "gf8_muladd_55 = muladd_ref 0x55"
  "gf8_muladd_56 = muladd_ref 0x56" "gf8_muladd_57 = muladd_ref 0x57" "gf8_muladd_58 = muladd_ref 0x58"
  "gf8_muladd_59 = muladd_ref 0x59" "gf8_muladd_5A = muladd_ref 0x5a" "gf8_muladd_5B = muladd_ref 0x5b"
  "gf8_muladd_5C = muladd_ref 0x5c" "gf8_muladd_5D = muladd_ref 0x5d" "gf8_muladd_5E = muladd_ref 0x5e"
  "gf8_muladd_5F = muladd_ref 0x5f"
  by (simp_all add: muladd_simps
      gf8_muladd_50_def gf8_muladd_51_def gf8_muladd_52_def gf8_muladd_53_def gf8_muladd_54_def gf8_muladd_55_def
      gf8_muladd_56_def gf8_muladd_57_def gf8_muladd_58_def gf8_muladd_59_def gf8_muladd_5A_def gf8_muladd_5B_def
      gf8_muladd_5C_def gf8_muladd_5D_def gf8_muladd_5E_def gf8_muladd_5F_def)

lemma muladd_60_6F:
  "gf8_muladd_60 = muladd_ref 0x60" "gf8_muladd_61 = muladd_ref 0x61" "gf8_muladd_62 = muladd_ref 0x62"
  "gf8_muladd_63 = muladd_ref 0x63" "gf8_muladd_64 = muladd_ref 0x64" "gf8_muladd_65 = muladd_ref 0x65"
  "gf8_muladd_66 = muladd_ref 0x66" "gf8_muladd_67 = muladd_ref 0x67" "gf8_muladd_68 = muladd_ref 0x68"
  "gf8_muladd_69 = muladd_ref 0x69" "gf8_muladd_6A = muladd_ref 0x6a" "gf8_muladd_6B = muladd_ref 0x6b"
  "gf8_muladd_6C = muladd_ref 0x6c" "gf8_muladd_6D = muladd_ref 0x6d" "gf8_muladd_6E = muladd_ref 0x6e"
  "gf8_muladd_6F = muladd_ref 0x6f"
  by (simp_all add: muladd_simps
      gf8_muladd_60_def gf8_muladd_61_def gf8_muladd_62_def gf8_muladd_63_def gf8_muladd_64_def gf8_muladd_65_def
      gf8_muladd_66_def gf8_muladd_67_def gf8_muladd_68_def gf8_muladd_69_def gf8_muladd_6A_def gf8_muladd_6B_def
      gf8_muladd_6C_def gf8_muladd_6D_def gf8_muladd_6E_def gf8_muladd_6F_def)

lemma muladd_70_7F:
  "gf8_muladd_70 = muladd_ref 0x70" "gf8_muladd_71 = muladd_ref 0x71" "gf8_muladd_72 = muladd_ref 0x72"
  "gf8_muladd_73 = muladd_ref 0x73" "gf8_muladd_74 = muladd_ref 0x74" "gf8_muladd_75 = muladd_ref 0x75"
  "gf8_muladd_76 = muladd_ref 0x76" "gf8_muladd_77 = muladd_ref 0x77" "gf8_muladd_78 = muladd_ref 0x78"
  "gf8_muladd_79 = muladd_ref 0x79" "gf8_muladd_7A = muladd_ref 0x7a" "gf8_muladd_7B = muladd_ref 0x7b"
  "gf8_muladd_7C = muladd_ref 0x7c" "gf8_muladd_7D = muladd_ref 0x7d" "gf8_muladd_7E = muladd_ref 0x7e"
  "gf8_muladd_7F = muladd_ref 0x7f"
  by (simp_all add: muladd_simps
      gf8_muladd_70_def gf8_muladd_71_def gf8_muladd_72_def gf8_muladd_73_def gf8_muladd_74_def gf8_muladd_75_def
      gf8_muladd_76_def gf8_muladd_77_def gf8_muladd_78_def gf8_muladd_79_def gf8_muladd_7A_def gf8_muladd_7B_def
      gf8_muladd_7C_def gf8_muladd_7D_def gf8_muladd_7E_def gf8_muladd_7F_def)

end
