(* ===== verification/Ec_Muladd2.thy ===== *)
theory Ec_Muladd2
  imports Ec_Muladd
begin

text \<open>
  The routines \<open>gf8_muladd_80\<close> to \<open>gf8_muladd_BF\<close> of
  \<open>xlators/cluster/ec/src/ec-code-c.c\<close>, and that each multiplies by its constant.
\<close>

unbundle bit_operations_syntax

definition gf8_muladd_80 :: "chunk \<Rightarrow> chunk \<Rightarrow> chunk" where
  "gf8_muladd_80 = muladd_loop (\<lambda>in0 in1 in2 in3 in4 in5 in6 in7.
     let tmp0 = in2 XOR in3; tmp1 = in4 XOR in5; out1 = in2 XOR in6 XOR in7; out5 = tmp0 XOR in4;
       tmp2 = tmp0 XOR in1; out6 = tmp1 XOR in3; out7 = tmp1 XOR in0 XOR in6; out4 = tmp2 XOR in7;
       out3 = tmp2 XOR out6; out2 = out3 XOR out5 XOR in6; out0 = out2 XOR in3 XOR in7
     in [out0, out1, out2, out3, out4, out5, out6, out7])"

definition gf8_muladd_81 :: "chunk \<Rightarrow> chunk \<Rightarrow> chunk" where
  "gf8_muladd_81 = muladd_loop (\<lambda>in0 in1 in2 in3 in4 in5 in6 in7.
     let tmp0 = in4 XOR in6; tmp1 = tmp0 XOR in3; out6 = tmp1 XOR in5; out5 = out6 XOR in2 XOR in6;
       out3 = out5 XOR in1; out2 = tmp0 XOR out3; out1 = out3 XOR out6 XOR in7; out4 = tmp1 XOR out1;
       out7 = out2 XOR out4 XOR in0; out0 = out7 XOR in1 XOR in4
     in [out0, out1, out2, out3, out4, out5, out6, out7])"

definition gf8_muladd_82 :: "chunk \<Rightarrow> chunk \<Rightarrow> chunk" where
  "gf8_muladd_82 = muladd_loop (\<lambda>in0 in1 in2 in3 in4 in5 in6 in7.
     let out4 = in1 XOR in2; tmp0 = in6 XOR in7; out5 = in2 XOR in3; out6 = in3 XOR in4;
       out7 = in0 XOR in4 XOR in5; out0 = in1 XOR in5 XOR in6; out1 = tmp0 XOR in0 XOR in2;
       out2 = tmp0 XOR in3 XOR in5; out3 = tmp0 XOR out0 XOR in4
     in [out0, out1, out2, out3, out4, out5, out6, out7])"

definition gf8_muladd_83 :: "chunk \<Rightarrow> chunk \<Rightarrow> chunk" where
  "gf8_muladd_83 = muladd_loop (\<lambda>in0 in1 in2 in3 in4 in5 in6 in7.
     let tmp0 = in0 XOR in1; tmp1 = in2 XOR in5; tmp2 = in3 XOR in6; out4 = in1 XOR in2 XOR in4;
       out0 = tmp0 XOR in5 XOR in6; out5 = tmp1 XOR in3; tmp3 = tmp1 XOR in7; out6 = tmp2 XOR in4;
       out2 = tmp2 XOR tmp3; tmp4 = tmp3 XOR out4; out1 = tmp3 XOR out0; out3 = tmp4 XOR in3;
       out7 = tmp0 XOR tmp4
     in [out0, out1, out2, out3, out4, out5, out6, out7])"

definition gf8_muladd_84 :: "chunk \<Rightarrow> chunk \<Rightarrow> chunk" where
  "gf8_muladd_84 = muladd_loop (\<lambda>in0 in1 in2 in3 in4 in5 in6 in7.
     let out1 = in2 XOR in6; out6 = in3 XOR in5; out0 = in1 XOR in5 XOR in7; out7 = in0 XOR in4 XOR in6;
       out4 = in1 XOR in3 XOR in6; out5 = in2 XOR in4 XOR in7; out2 = out6 XOR in0 XOR in1;
       out3 = out5 XOR in5 XOR in6
     in [out0, out1, out2, out3, out4, out5, out6, out7])"

definition gf8_muladd_85 :: "chunk \<Rightarrow> chunk \<Rightarrow> chunk" where
  "gf8_muladd_85 = muladd_loop (\<lambda>in0 in1 in2 in3 in4 in5 in6 in7.
     let tmp0 = in1 XOR in6; tmp1 = in3 XOR in6; tmp2 = tmp0 XOR in4; out1 = tmp0 XOR in2; out6 = tmp1 XOR in5;
       out4 = tmp2 XOR in3; tmp3 = out1 XOR out6; out2 = tmp3 XOR in0; out3 = tmp2 XOR tmp3 XOR in7;
       out7 = out2 XOR out3 XOR in1; out5 = tmp1 XOR out3; out0 = tmp2 XOR out7 XOR in5
     in [out0, out1, out2, out3, out4, out5, out6, out7])"

definition gf8_muladd_86 :: "chunk \<Rightarrow> chunk \<Rightarrow> chunk" where
  "gf8_muladd_86 = muladd_loop (\<lambda>in0 in1 in2 in3 in4 in5 in6 in7.
     let out6 = in3; out7 = in0 XOR in4; out0 = in1 XOR in5; out5 = in2 XOR in7; out3 = in4 XOR in5 XOR in6;
       out1 = in0 XOR in2 XOR in6; out4 = in1 XOR in6 XOR in7; out2 = in0 XOR in3 XOR in5 XOR in7
     in [out0, out1, out2, out3, out4, out5, out6, out7])"

definition gf8_muladd_87 :: "chunk \<Rightarrow> chunk \<Rightarrow> chunk" where
  "gf8_muladd_87 = muladd_loop (\<lambda>in0 in1 in2 in3 in4 in5 in6 in7.
     let out6 = in3 XOR in6; tmp0 = in0 XOR in1; out7 = in0 XOR in4 XOR in7; out5 = in2 XOR in5 XOR in7;
       out3 = out6 XOR in4 XOR in5; out0 = tmp0 XOR in5; tmp1 = tmp0 XOR in6; out2 = out5 XOR in0 XOR in3;
       out1 = tmp1 XOR in2; out4 = tmp1 XOR out7
     in [out0, out1, out2, out3, out4, out5, out6, out7])"

definition gf8_muladd_88 :: "chunk \<Rightarrow> chunk \<Rightarrow> chunk" where
  "gf8_muladd_88 = muladd_loop (\<lambda>in0 in1 in2 in3 in4 in5 in6 in7.
     let out1 = in2 XOR in7; tmp0 = in5 XOR in6; out0 = in1 XOR in6 XOR in7; out6 = in4 XOR in5 XOR in7;
       out3 = out0 XOR out1 XOR in0 XOR in4; out7 = tmp0 XOR in0; tmp1 = tmp0 XOR in3; out2 = out0 XOR in3;
       out4 = tmp1 XOR in2; out5 = tmp1 XOR out6
     in [out0, out1, out2, out3, out4, out5, out6, out7])"

definition gf8_muladd_89 :: "chunk \<Rightarrow> chunk \<Rightarrow> chunk" where
  "gf8_muladd_89 = muladd_loop (\<lambda>in0 in1 in2 in3 in4 in5 in6 in7.
     let tmp0 = in0 XOR in7; tmp1 = in2 XOR in7; tmp2 = tmp0 XOR in6; out1 = tmp1 XOR in1; out7 = tmp2 XOR in5;
       out0 = tmp2 XOR in1; out2 = out1 XOR in3 XOR in6; out6 = out7 XOR in0 XOR in4; out5 = out6 XOR in3;
       out3 = tmp0 XOR out2 XOR in4; out4 = tmp1 XOR out5
     in [out0, out1, out2, out3, out4, out5, out6, out7])"

definition gf8_muladd_8A :: "chunk \<Rightarrow> chunk \<Rightarrow> chunk" where
  "gf8_muladd_8A = muladd_loop (\<lambda>in0 in1 in2 in3 in4 in5 in6 in7.
     let out0 = in1 XOR in6; out7 = in0 XOR in5; out2 = in3 XOR in6; out6 = in4 XOR in7;
       out1 = in0 XOR in2 XOR in7; out3 = out0 XOR out6 XOR in0; out4 = out1 XOR out7 XOR in6;
       out5 = out2 XOR in7
     in [out0, out1, out2, out3, out4, out5, out6, out7])"

definition gf8_muladd_8B :: "chunk \<Rightarrow> chunk \<Rightarrow> chunk" where
  "gf8_muladd_8B = muladd_loop (\<lambda>in0 in1 in2 in3 in4 in5 in6 in7.
     let tmp0 = in0 XOR in1; tmp1 = in3 XOR in6; tmp2 = in5 XOR in7; tmp3 = tmp0 XOR in7; out0 = tmp0 XOR in6;
       out2 = tmp1 XOR in2; out5 = tmp1 XOR tmp2; out7 = tmp2 XOR in0; tmp4 = tmp3 XOR in4;
       out1 = tmp3 XOR in2; out6 = tmp4 XOR out0; out4 = out6 XOR in2 XOR in5; out3 = tmp1 XOR tmp4
     in [out0, out1, out2, out3, out4, out5, out6, out7])"

definition gf8_muladd_8C :: "chunk \<Rightarrow> chunk \<Rightarrow> chunk" where
  "gf8_muladd_8C = muladd_loop (\<lambda>in0 in1 in2 in3 in4 in5 in6 in7.
     let out1 = in2; out0 = in1 XOR in7; out7 = in0 XOR in6; out5 = in4 XOR in6; out6 = in5 XOR in7;
       out2 = out0 XOR in0 XOR in3; out3 = out5 XOR out7 XOR in2 XOR in7; out4 = out6 XOR in3
     in [out0, out1, out2, out3, out4, out5, out6, out7])"

definition gf8_muladd_8D :: "chunk \<Rightarrow> chunk \<Rightarrow> chunk" where
  "gf8_muladd_8D = muladd_loop (\<lambda>in0 in1 in2 in3 in4 in5 in6 in7.
     let out1 = in1 XOR in2; tmp0 = in6 XOR in7; out0 = in0 XOR in1 XOR in7; out5 = in4 XOR in5 XOR in6;
       out6 = tmp0 XOR in5; out7 = tmp0 XOR in0; out4 = tmp0 XOR out5 XOR in3; out2 = out0 XOR in2 XOR in3;
       out3 = out2 XOR in1 XOR in4
     in [out0, out1, out2, out3, out4, out5, out6, out7])"

definition gf8_muladd_8E :: "chunk \<Rightarrow> chunk \<Rightarrow> chunk" where
  "gf8_muladd_8E = muladd_loop (\<lambda>in0 in1 in2 in3 in4 in5 in6 in7.
     let out0 = in1; out4 = in5; out7 = in0; out5 = in6; out6 = in7; out3 = in0 XOR in4; out1 = in0 XOR in2;
       out2 = in0 XOR in3
     in [out0, out1, out2, out3, out4, out5, out6, out7])"

definition gf8_muladd_8F :: "chunk \<Rightarrow> chunk \<Rightarrow> chunk" where
  "gf8_muladd_8F = muladd_loop (\<lambda>in0 in1 in2 in3 in4 in5 in6 in7.
     let out0 = in0 XOR in1; tmp0 = in0 XOR in3; out4 = in4 XOR in5; out7 = in0 XOR in7; out5 = in5 XOR in6;
       out6 = in6 XOR in7; out1 = out0 XOR in2; out2 = tmp0 XOR in2; out3 = tmp0 XOR in4
     in [out0, out1, out2, out3, out4, out5, out6, out7])"

definition gf8_muladd_90 :: "chunk \<Rightarrow> chunk \<Rightarrow> chunk" where
  "gf8_muladd_90 = muladd_loop (\<lambda>in0 in1 in2 in3 in4 in5 in6 in7.
     let tmp0 = in1 XOR in2; tmp1 = in2 XOR in6 XOR in7; out3 = tmp0 XOR in7; out1 = tmp1 XOR in5;
       tmp2 = out1 XOR in4; out6 = tmp2 XOR in3; out5 = out6 XOR in1; out4 = out5 XOR in0;
       out0 = tmp0 XOR tmp2; out7 = tmp0 XOR out4; out2 = tmp1 XOR out5
     in [out0, out1, out2, out3, out4, out5, out6, out7])"

definition gf8_muladd_91 :: "chunk \<Rightarrow> chunk \<Rightarrow> chunk" where
  "gf8_muladd_91 = muladd_loop (\<lambda>in0 in1 in2 in3 in4 in5 in6 in7.
     let tmp0 = in2 XOR in4; tmp1 = tmp0 XOR in3 XOR in5; out2 = tmp1 XOR in1; out6 = tmp1 XOR in7;
       tmp2 = out2 XOR in5 XOR in7; out3 = tmp2 XOR in4; out5 = tmp2 XOR in6; out1 = tmp1 XOR out5 XOR in2;
       tmp3 = out1 XOR in0; out4 = tmp3 XOR in3; out0 = tmp0 XOR tmp3; out7 = tmp2 XOR tmp3
     in [out0, out1, out2, out3, out4, out5, out6, out7])"

definition gf8_muladd_92 :: "chunk \<Rightarrow> chunk \<Rightarrow> chunk" where
  "gf8_muladd_92 = muladd_loop (\<lambda>in0 in1 in2 in3 in4 in5 in6 in7.
     let out3 = in1; tmp0 = in4 XOR in5; tmp1 = tmp0 XOR in1; out2 = tmp0 XOR in3 XOR in7; out0 = tmp1 XOR in6;
       out7 = out2 XOR in0; out4 = out0 XOR in0 XOR in2; out5 = out4 XOR out7 XOR in5; out6 = tmp1 XOR out5;
       out1 = out6 XOR out7 XOR in7
     in [out0, out1, out2, out3, out4, out5, out6, out7])"

definition gf8_muladd_93 :: "chunk \<Rightarrow> chunk \<Rightarrow> chunk" where
  "gf8_muladd_93 = muladd_loop (\<lambda>in0 in1 in2 in3 in4 in5 in6 in7.
     let out3 = in1 XOR in3; tmp0 = in2 XOR in7; tmp1 = out3 XOR in6; tmp2 = tmp0 XOR in4;
       out5 = tmp0 XOR tmp1; out6 = tmp2 XOR in3; out2 = out6 XOR in5; out0 = out2 XOR out5 XOR in0;
       out7 = tmp1 XOR out0; out1 = tmp2 XOR out0; out4 = out1 XOR in7
     in [out0, out1, out2, out3, out4, out5, out6, out7])"

definition gf8_muladd_94 :: "chunk \<Rightarrow> chunk \<Rightarrow> chunk" where
  "gf8_muladd_94 = muladd_loop (\<lambda>in0 in1 in2 in3 in4 in5 in6 in7.
     let out3 = in2 XOR in6; tmp0 = in1 XOR in4 XOR in5; out1 = out3 XOR in5; out5 = tmp0 XOR out3;
       out0 = tmp0 XOR in7; out4 = tmp0 XOR in0 XOR in3; out6 = out1 XOR in3 XOR in7; out2 = out4 XOR in6;
       out7 = out0 XOR out2 XOR in4
     in [out0, out1, out2, out3, out4, out5, out6, out7])"

definition gf8_muladd_95 :: "chunk \<Rightarrow> chunk \<Rightarrow> chunk" where
  "gf8_muladd_95 = muladd_loop (\<lambda>in0 in1 in2 in3 in4 in5 in6 in7.
     let tmp0 = in2 XOR in3; out3 = tmp0 XOR in6; tmp1 = tmp0 XOR in7; tmp2 = out3 XOR in0;
       out6 = tmp1 XOR in5; tmp3 = tmp2 XOR in4; out7 = tmp3 XOR in2; tmp4 = tmp3 XOR in5; out2 = tmp4 XOR in1;
       tmp5 = out2 XOR in6; out0 = tmp1 XOR tmp5; out1 = tmp5 XOR out7; out4 = tmp2 XOR out1;
       out5 = tmp4 XOR out4
     in [out0, out1, out2, out3, out4, out5, out6, out7])"

definition gf8_muladd_96 :: "chunk \<Rightarrow> chunk \<Rightarrow> chunk" where
  "gf8_muladd_96 = muladd_loop (\<lambda>in0 in1 in2 in3 in4 in5 in6 in7.
     let out3 = in6 XOR in7; tmp0 = in1 XOR in5; tmp1 = in5 XOR in6; out6 = out3 XOR in2 XOR in3;
       out0 = tmp0 XOR in4; tmp2 = tmp1 XOR in2; out4 = out0 XOR in0 XOR in7; out1 = tmp2 XOR in0;
       out5 = tmp2 XOR in1; out7 = tmp0 XOR out4 XOR in3; out2 = tmp1 XOR out7
     in [out0, out1, out2, out3, out4, out5, out6, out7])"

definition gf8_muladd_97 :: "chunk \<Rightarrow> chunk \<Rightarrow> chunk" where
  "gf8_muladd_97 = muladd_loop (\<lambda>in0 in1 in2 in3 in4 in5 in6 in7.
     let tmp0 = in0 XOR in4; tmp1 = in2 XOR in6; out3 = in3 XOR in6 XOR in7; out7 = tmp0 XOR in3;
       tmp2 = tmp0 XOR in5; out5 = tmp1 XOR in1; out6 = tmp1 XOR out3; out0 = tmp2 XOR in1;
       out2 = tmp2 XOR out3 XOR in2; tmp3 = out0 XOR in4; out4 = tmp3 XOR in7; out1 = tmp1 XOR tmp3
     in [out0, out1, out2, out3, out4, out5, out6, out7])"

definition gf8_muladd_98 :: "chunk \<Rightarrow> chunk \<Rightarrow> chunk" where
  "gf8_muladd_98 = muladd_loop (\<lambda>in0 in1 in2 in3 in4 in5 in6 in7.
     let tmp0 = in5 XOR in7; tmp1 = in1 XOR in4 XOR in7; out1 = tmp0 XOR in2; out0 = tmp1 XOR in6;
       out2 = tmp1 XOR in3; out6 = out0 XOR out1 XOR in1; out5 = tmp0 XOR out2; out3 = tmp1 XOR out6 XOR in0;
       out7 = out0 XOR out5 XOR in0; out4 = out6 XOR out7 XOR in7
     in [out0, out1, out2, out3, out4, out5, out6, out7])"

definition gf8_muladd_99 :: "chunk \<Rightarrow> chunk \<Rightarrow> chunk" where
  "gf8_muladd_99 = muladd_loop (\<lambda>in0 in1 in2 in3 in4 in5 in6 in7.
     let tmp0 = in0 XOR in3; out5 = in1 XOR in3 XOR in4; out6 = in2 XOR in4 XOR in5; out4 = tmp0 XOR in2;
       tmp1 = tmp0 XOR in6; tmp2 = out5 XOR in7; out7 = tmp1 XOR in5; out0 = tmp1 XOR tmp2;
       out2 = tmp2 XOR in2; out3 = out0 XOR out6 XOR in3; out1 = tmp1 XOR out3
     in [out0, out1, out2, out3, out4, out5, out6, out7])"

definition gf8_muladd_9A :: "chunk \<Rightarrow> chunk \<Rightarrow> chunk" where
  "gf8_muladd_9A = muladd_loop (\<lambda>in0 in1 in2 in3 in4 in5 in6 in7.
     let out2 = in3 XOR in4; tmp0 = in0 XOR in5; tmp1 = in1 XOR in6; out5 = in1 XOR in3 XOR in5;
       tmp2 = tmp0 XOR in7; out3 = tmp0 XOR tmp1; out0 = tmp1 XOR in4; out7 = tmp2 XOR in3;
       out1 = tmp2 XOR in2; out6 = out0 XOR in1 XOR in2; out4 = out1 XOR in4 XOR in5
     in [out0, out1, out2, out3, out4, out5, out6, out7])"

definition gf8_muladd_9B :: "chunk \<Rightarrow> chunk \<Rightarrow> chunk" where
  "gf8_muladd_9B = muladd_loop (\<lambda>in0 in1 in2 in3 in4 in5 in6 in7.
     let out5 = in1 XOR in3; tmp0 = in3 XOR in5; out6 = in2 XOR in4; out4 = in0 XOR in2 XOR in7;
       out7 = tmp0 XOR in0; out2 = out6 XOR in3; out1 = out4 XOR in1 XOR in5; out3 = out7 XOR in1 XOR in6;
       out0 = tmp0 XOR out3 XOR in4
     in [out0, out1, out2, out3, out4, out5, out6, out7])"

definition gf8_muladd_9C :: "chunk \<Rightarrow> chunk \<Rightarrow> chunk" where
  "gf8_muladd_9C = muladd_loop (\<lambda>in0 in1 in2 in3 in4 in5 in6 in7.
     let out1 = in2 XOR in5; tmp0 = in0 XOR in3 XOR in6; out3 = out1 XOR in0; out6 = out1 XOR in6;
       out7 = tmp0 XOR in7; out4 = out7 XOR in4; out2 = out4 XOR in1; out0 = tmp0 XOR out2; out5 = out0 XOR in5
     in [out0, out1, out2, out3, out4, out5, out6, out7])"

definition gf8_muladd_9D :: "chunk \<Rightarrow> chunk \<Rightarrow> chunk" where
  "gf8_muladd_9D = muladd_loop (\<lambda>in0 in1 in2 in3 in4 in5 in6 in7.
     let out6 = in2 XOR in5; tmp0 = in0 XOR in3; out5 = in1 XOR in4 XOR in7; out1 = out6 XOR in1;
       out3 = tmp0 XOR out6; out7 = tmp0 XOR in6; out0 = out5 XOR in0; out4 = out7 XOR in7;
       out2 = out5 XOR out7 XOR in2
     in [out0, out1, out2, out3, out4, out5, out6, out7])"

definition gf8_muladd_9E :: "chunk \<Rightarrow> chunk \<Rightarrow> chunk" where
  "gf8_muladd_9E = muladd_loop (\<lambda>in0 in1 in2 in3 in4 in5 in6 in7.
     let out0 = in1 XOR in4; tmp0 = in0 XOR in5; out6 = in2 XOR in6; out7 = in0 XOR in3 XOR in7;
       out4 = in0 XOR in4 XOR in6; out5 = in1 XOR in5 XOR in7; out1 = tmp0 XOR in2; out3 = tmp0 XOR in7;
       out2 = out4 XOR in3
     in [out0, out1, out2, out3, out4, out5, out6, out7])"

definition gf8_muladd_9F :: "chunk \<Rightarrow> chunk \<Rightarrow> chunk" where
  "gf8_muladd_9F = muladd_loop (\<lambda>in0 in1 in2 in3 in4 in5 in6 in7.
     let out6 = in2; out7 = in0 XOR in3; tmp0 = in0 XOR in1; out4 = in0 XOR in6; out5 = in1 XOR in7;
       out1 = tmp0 XOR in2 XOR in5; out2 = out7 XOR in2 XOR in4 XOR in6; out3 = out7 XOR in5 XOR in7;
       out0 = tmp0 XOR in4
     in [out0, out1, out2, out3, out4, out5, out6, out7])"

definition gf8_muladd_A0 :: "chunk \<Rightarrow> chunk \<Rightarrow> chunk" where
  "gf8_muladd_A0 = muladd_loop (\<lambda>in0 in1 in2 in3 in4 in5 in6 in7.
     let tmp0 = in1 XOR in6; out2 = tmp0 XOR in7; tmp1 = tmp0 XOR in5; out6 = out2 XOR in3 XOR in4;
       out0 = tmp1 XOR in3; tmp2 = out0 XOR in2; out3 = tmp2 XOR in7; tmp3 = tmp2 XOR in1; out5 = tmp3 XOR in0;
       out4 = tmp3 XOR out6; out7 = out5 XOR out6 XOR in1; out1 = tmp1 XOR out4
     in [out0, out1, out2, out3, out4, out5, out6, out7])"

definition gf8_muladd_A1 :: "chunk \<Rightarrow> chunk \<Rightarrow> chunk" where
  "gf8_muladd_A1 = muladd_loop (\<lambda>in0 in1 in2 in3 in4 in5 in6 in7.
     let tmp0 = in2 XOR in5; tmp1 = tmp0 XOR in1; tmp2 = tmp0 XOR in4; out4 = tmp1 XOR in7;
       out7 = tmp2 XOR in0; out6 = tmp2 XOR out4 XOR in3; out3 = out4 XOR in6; out2 = out3 XOR in5;
       out1 = out2 XOR in4; out5 = out1 XOR out6 XOR in0; out0 = tmp1 XOR out5
     in [out0, out1, out2, out3, out4, out5, out6, out7])"

definition gf8_muladd_A2 :: "chunk \<Rightarrow> chunk \<Rightarrow> chunk" where
  "gf8_muladd_A2 = muladd_loop (\<lambda>in0 in1 in2 in3 in4 in5 in6 in7.
     let out2 = in6; tmp0 = in1 XOR in3 XOR in5; out3 = tmp0 XOR in6; out4 = tmp0 XOR in2 XOR in4;
       out0 = out3 XOR in7; out6 = out0 XOR in4; out1 = out0 XOR out4 XOR in0; out7 = out1 XOR in5;
       out5 = out7 XOR in3 XOR in7
     in [out0, out1, out2, out3, out4, out5, out6, out7])"

definition gf8_muladd_A3 :: "chunk \<Rightarrow> chunk \<Rightarrow> chunk" where
  "gf8_muladd_A3 = muladd_loop (\<lambda>in0 in1 in2 in3 in4 in5 in6 in7.
     let out2 = in2 XOR in6; out3 = in1 XOR in5 XOR in6; tmp0 = out2 XOR in0; out4 = out2 XOR out3 XOR in3;
       tmp1 = tmp0 XOR in4; out0 = tmp0 XOR out4 XOR in7; out5 = tmp1 XOR in3; out7 = tmp1 XOR in5;
       out1 = tmp1 XOR in1 XOR in7; out6 = tmp1 XOR out0 XOR in2
     in [out0, out1, out2, out3, out4, out5, out6, out7])"

definition gf8_muladd_A4 :: "chunk \<Rightarrow> chunk \<Rightarrow> chunk" where
  "gf8_muladd_A4 = muladd_loop (\<lambda>in0 in1 in2 in3 in4 in5 in6 in7.
     let tmp0 = in1 XOR in3; tmp1 = in2 XOR in4; tmp2 = in2 XOR in5; tmp3 = in0 XOR in7; out0 = tmp0 XOR in5;
       out6 = tmp0 XOR in6 XOR in7; out1 = tmp1 XOR in6; out7 = tmp1 XOR tmp3; out3 = tmp2 XOR in3;
       tmp4 = tmp2 XOR out1; out2 = tmp3 XOR in1; out5 = tmp4 XOR out7; out4 = tmp4 XOR in1
     in [out0, out1, out2, out3, out4, out5, out6, out7])"

definition gf8_muladd_A5 :: "chunk \<Rightarrow> chunk \<Rightarrow> chunk" where
  "gf8_muladd_A5 = muladd_loop (\<lambda>in0 in1 in2 in3 in4 in5 in6 in7.
     let out3 = in2 XOR in5; tmp0 = in1 XOR in6; tmp1 = in0 XOR in1; tmp2 = in2 XOR in4;
       out6 = in1 XOR in3 XOR in7; out4 = tmp0 XOR in5; out1 = tmp0 XOR tmp2; out0 = tmp1 XOR in3 XOR in5;
       out2 = tmp1 XOR in2 XOR in7; out7 = tmp2 XOR in0; out5 = tmp0 XOR out2
     in [out0, out1, out2, out3, out4, out5, out6, out7])"

definition gf8_muladd_A6 :: "chunk \<Rightarrow> chunk \<Rightarrow> chunk" where
  "gf8_muladd_A6 = muladd_loop (\<lambda>in0 in1 in2 in3 in4 in5 in6 in7.
     let out2 = in0; out3 = in3 XOR in5 XOR in7; out1 = in0 XOR in2 XOR in4 XOR in6; out0 = out3 XOR in1;
       out7 = out1 XOR in7; out6 = out0 XOR in6; out5 = out7 XOR in5; out4 = out6 XOR in4
     in [out0, out1, out2, out3, out4, out5, out6, out7])"

definition gf8_muladd_A7 :: "chunk \<Rightarrow> chunk \<Rightarrow> chunk" where
  "gf8_muladd_A7 = muladd_loop (\<lambda>in0 in1 in2 in3 in4 in5 in6 in7.
     let out2 = in0 XOR in2; out3 = in5 XOR in7; out7 = out2 XOR in4 XOR in6; out6 = out3 XOR in1 XOR in3;
       out1 = out7 XOR in1; out5 = out7 XOR in7; out0 = out6 XOR in0; out4 = out6 XOR in6
     in [out0, out1, out2, out3, out4, out5, out6, out7])"

definition gf8_muladd_A8 :: "chunk \<Rightarrow> chunk \<Rightarrow> chunk" where
  "gf8_muladd_A8 = muladd_loop (\<lambda>in0 in1 in2 in3 in4 in5 in6 in7.
     let tmp0 = in2 XOR in4; tmp1 = in1 XOR in6; tmp2 = in0 XOR in2 XOR in7; out1 = tmp0 XOR in7;
       out4 = tmp0 XOR in6; out0 = tmp1 XOR in3; out2 = tmp1 XOR in5; out6 = tmp1 XOR in4; out7 = tmp2 XOR in5;
       out3 = tmp2 XOR out0 XOR in6; out5 = out7 XOR in2 XOR in3
     in [out0, out1, out2, out3, out4, out5, out6, out7])"

definition gf8_muladd_A9 :: "chunk \<Rightarrow> chunk \<Rightarrow> chunk" where
  "gf8_muladd_A9 = muladd_loop (\<lambda>in0 in1 in2 in3 in4 in5 in6 in7.
     let out4 = in2 XOR in6; out6 = in1 XOR in4; out7 = in0 XOR in2 XOR in5; out5 = in0 XOR in3 XOR in7;
       out2 = out4 XOR in1 XOR in5; out1 = out6 XOR in2 XOR in7; out0 = out2 XOR out7 XOR in3;
       out3 = out1 XOR in0 XOR in4
     in [out0, out1, out2, out3, out4, out5, out6, out7])"

definition gf8_muladd_AA :: "chunk \<Rightarrow> chunk \<Rightarrow> chunk" where
  "gf8_muladd_AA = muladd_loop (\<lambda>in0 in1 in2 in3 in4 in5 in6 in7.
     let tmp0 = in0 XOR in2; tmp1 = in1 XOR in3; tmp2 = in6 XOR in7; out1 = tmp0 XOR in4 XOR in7;
       out3 = tmp1 XOR in0; out0 = tmp1 XOR tmp2; out2 = tmp2 XOR in5; out7 = tmp0 XOR out2;
       out6 = out1 XOR out7 XOR in1; out5 = out0 XOR out6 XOR in0; out4 = out5 XOR out7 XOR in7
     in [out0, out1, out2, out3, out4, out5, out6, out7])"

definition gf8_muladd_AB :: "chunk \<Rightarrow> chunk \<Rightarrow> chunk" where
  "gf8_muladd_AB = muladd_loop (\<lambda>in0 in1 in2 in3 in4 in5 in6 in7.
     let out3 = in0 XOR in1; tmp0 = in1 XOR in4; tmp1 = in0 XOR in7; out6 = tmp0 XOR in5;
       out1 = tmp0 XOR tmp1 XOR in2; out5 = tmp1 XOR in3 XOR in4; out0 = tmp0 XOR out5 XOR in6;
       out4 = out0 XOR out3 XOR in2; out2 = out4 XOR in3 XOR in5; out7 = tmp1 XOR out2
     in [out0, out1, out2, out3, out4, out5, out6, out7])"

definition gf8_muladd_AC :: "chunk \<Rightarrow> chunk \<Rightarrow> chunk" where
  "gf8_muladd_AC = muladd_loop (\<lambda>in0 in1 in2 in3 in4 in5 in6 in7.
     let out0 = in1 XOR in3; out1 = in2 XOR in4; tmp0 = in0 XOR in2; out4 = in4 XOR in7; out5 = in0 XOR in5;
       out6 = in1 XOR in6; out7 = tmp0 XOR in7; out3 = tmp0 XOR in3 XOR in6; out2 = out5 XOR in1
     in [out0, out1, out2, out3, out4, out5, out6, out7])"

definition gf8_muladd_AD :: "chunk \<Rightarrow> chunk \<Rightarrow> chunk" where
  "gf8_muladd_AD = muladd_loop (\<lambda>in0 in1 in2 in3 in4 in5 in6 in7.
     let out4 = in7; out5 = in0; out6 = in1; out7 = in0 XOR in2; out0 = in0 XOR in1 XOR in3;
       out2 = out7 XOR in1 XOR in5; out1 = in1 XOR in2 XOR in4; out3 = out7 XOR in6
     in [out0, out1, out2, out3, out4, out5, out6, out7])"

definition gf8_muladd_AE :: "chunk \<Rightarrow> chunk \<Rightarrow> chunk" where
  "gf8_muladd_AE = muladd_loop (\<lambda>in0 in1 in2 in3 in4 in5 in6 in7.
     let out4 = in3 XOR in4; tmp0 = in0 XOR in4; tmp1 = in0 XOR in7; out0 = in1 XOR in3 XOR in7;
       out1 = tmp0 XOR in2; out5 = tmp0 XOR in5; tmp2 = tmp1 XOR in6; out2 = tmp1 XOR in5; out3 = tmp2 XOR in3;
       out7 = tmp2 XOR in2; out6 = tmp2 XOR out2 XOR in1
     in [out0, out1, out2, out3, out4, out5, out6, out7])"

definition gf8_muladd_AF :: "chunk \<Rightarrow> chunk \<Rightarrow> chunk" where
  "gf8_muladd_AF = muladd_loop (\<lambda>in0 in1 in2 in3 in4 in5 in6 in7.
     let out4 = in3; tmp0 = in0 XOR in7; out5 = in0 XOR in4; out6 = in1 XOR in5; out7 = in0 XOR in2 XOR in6;
       out0 = tmp0 XOR in1 XOR in3; out3 = tmp0 XOR in6; out2 = tmp0 XOR in2 XOR in5;
       out1 = out5 XOR in1 XOR in2
     in [out0, out1, out2, out3, out4, out5, out6, out7])"

definition gf8_muladd_B0 :: "chunk \<Rightarrow> chunk \<Rightarrow> chunk" where
  "gf8_muladd_B0 = muladd_loop (\<lambda>in0 in1 in2 in3 in4 in5 in6 in7.
     let tmp0 = in1 XOR in4; tmp1 = in3 XOR in6; out2 = tmp0 XOR in7; tmp2 = tmp0 XOR tmp1;
       out0 = tmp2 XOR in5; out3 = tmp2 XOR in2; out6 = out3 XOR in6; tmp3 = out6 XOR in0 XOR in1;
       out7 = tmp3 XOR in5; out5 = tmp3 XOR out2; out1 = out0 XOR out5 XOR in0; out4 = tmp1 XOR out5
     in [out0, out1, out2, out3, out4, out5, out6, out7])"

definition gf8_muladd_B1 :: "chunk \<Rightarrow> chunk \<Rightarrow> chunk" where
  "gf8_muladd_B1 = muladd_loop (\<lambda>in0 in1 in2 in3 in4 in5 in6 in7.
     let tmp0 = in1 XOR in4; out2 = tmp0 XOR in2 XOR in7; tmp1 = out2 XOR in6; out1 = tmp1 XOR in5;
       out3 = tmp1 XOR in7; out4 = tmp1 XOR in0; out6 = out3 XOR in3; out0 = out6 XOR in0 XOR in2 XOR in5;
       out5 = tmp1 XOR out0 XOR in1; out7 = tmp0 XOR out5
     in [out0, out1, out2, out3, out4, out5, out6, out7])"

definition gf8_muladd_B2 :: "chunk \<Rightarrow> chunk \<Rightarrow> chunk" where
  "gf8_muladd_B2 = muladd_loop (\<lambda>in0 in1 in2 in3 in4 in5 in6 in7.
     let out2 = in4; tmp0 = in4 XOR in7; tmp1 = in1 XOR in3 XOR in6; out3 = tmp0 XOR tmp1; tmp2 = tmp1 XOR in0;
       out0 = out3 XOR in5; out4 = tmp2 XOR in2; tmp3 = out4 XOR in6; out5 = tmp0 XOR tmp3;
       out1 = tmp3 XOR out0; tmp4 = out1 XOR in7; out7 = tmp4 XOR in3; out6 = tmp2 XOR tmp4
     in [out0, out1, out2, out3, out4, out5, out6, out7])"

definition gf8_muladd_B3 :: "chunk \<Rightarrow> chunk \<Rightarrow> chunk" where
  "gf8_muladd_B3 = muladd_loop (\<lambda>in0 in1 in2 in3 in4 in5 in6 in7.
     let out2 = in2 XOR in4; tmp0 = in0 XOR in5; tmp1 = in1 XOR in6; out3 = tmp1 XOR in4 XOR in7;
       tmp2 = tmp0 XOR out3; out0 = tmp2 XOR in3; out1 = tmp2 XOR in2; out5 = out0 XOR in2 XOR in6;
       out7 = tmp1 XOR out5; out4 = out7 XOR in1 XOR in5 XOR in7; out6 = tmp0 XOR out4
     in [out0, out1, out2, out3, out4, out5, out6, out7])"

definition gf8_muladd_B4 :: "chunk \<Rightarrow> chunk \<Rightarrow> chunk" where
  "gf8_muladd_B4 = muladd_loop (\<lambda>in0 in1 in2 in3 in4 in5 in6 in7.
     let out4 = in0 XOR in1; out5 = out4 XOR in2; tmp0 = out4 XOR in4; out6 = out5 XOR in0 XOR in3;
       out7 = tmp0 XOR out6; out2 = tmp0 XOR in6 XOR in7; out3 = out7 XOR in0 XOR in7;
       out0 = out5 XOR out7 XOR in5; out1 = out0 XOR out6 XOR in6
     in [out0, out1, out2, out3, out4, out5, out6, out7])"

definition gf8_muladd_B5 :: "chunk \<Rightarrow> chunk \<Rightarrow> chunk" where
  "gf8_muladd_B5 = muladd_loop (\<lambda>in0 in1 in2 in3 in4 in5 in6 in7.
     let tmp0 = in0 XOR in1; tmp1 = in2 XOR in4; out4 = tmp0 XOR in4; out3 = tmp1 XOR in7; tmp2 = out4 XOR in5;
       out7 = out3 XOR in0 XOR in3; out0 = tmp2 XOR in3; out2 = tmp0 XOR out3 XOR in6; out5 = tmp1 XOR tmp2;
       out6 = out2 XOR out7 XOR in2; out1 = tmp0 XOR out0 XOR out6
     in [out0, out1, out2, out3, out4, out5, out6, out7])"

definition gf8_muladd_B6 :: "chunk \<Rightarrow> chunk \<Rightarrow> chunk" where
  "gf8_muladd_B6 = muladd_loop (\<lambda>in0 in1 in2 in3 in4 in5 in6 in7.
     let out3 = in3 XOR in4; tmp0 = in1 XOR in2; tmp1 = in0 XOR in4; tmp2 = in3 XOR in5;
       tmp3 = out3 XOR in1 XOR in7; out5 = tmp0 XOR tmp1; out6 = tmp0 XOR tmp2; out2 = tmp1 XOR in6;
       out4 = tmp1 XOR tmp3; out0 = tmp3 XOR in5; out1 = out2 XOR in2 XOR in5; out7 = tmp2 XOR out1
     in [out0, out1, out2, out3, out4, out5, out6, out7])"

definition gf8_muladd_B7 :: "chunk \<Rightarrow> chunk \<Rightarrow> chunk" where
  "gf8_muladd_B7 = muladd_loop (\<lambda>in0 in1 in2 in3 in4 in5 in6 in7.
     let out3 = in4; tmp0 = in0 XOR in4; out2 = tmp0 XOR in2 XOR in6; tmp1 = out2 XOR in7;
       out1 = out2 XOR in1 XOR in5; out7 = tmp1 XOR in3; out5 = out1 XOR in6; out6 = tmp0 XOR out1 XOR in3;
       out0 = tmp1 XOR out6; out4 = out0 XOR in5
     in [out0, out1, out2, out3, out4, out5, out6, out7])"

definition gf8_muladd_B8 :: "chunk \<Rightarrow> chunk \<Rightarrow> chunk" where
  "gf8_muladd_B8 = muladd_loop (\<lambda>in0 in1 in2 in3 in4 in5 in6 in7.
     let tmp0 = in1 XOR in4; tmp1 = in2 XOR in5; out2 = tmp0 XOR in5; out4 = tmp1 XOR in0; tmp2 = tmp1 XOR in7;
       out6 = tmp2 XOR out2; out7 = out4 XOR in3; out1 = tmp2 XOR in4; out3 = tmp0 XOR out7;
       out0 = out3 XOR out4 XOR in6; out5 = out0 XOR in0 XOR in4
     in [out0, out1, out2, out3, out4, out5, out6, out7])"

definition gf8_muladd_B9 :: "chunk \<Rightarrow> chunk \<Rightarrow> chunk" where
  "gf8_muladd_B9 = muladd_loop (\<lambda>in0 in1 in2 in3 in4 in5 in6 in7.
     let tmp0 = in0 XOR in2; tmp1 = in4 XOR in5; out4 = tmp0 XOR tmp1; tmp2 = tmp0 XOR in3 XOR in7;
       out3 = out4 XOR in1; out7 = tmp2 XOR in5; out2 = out3 XOR in0; out1 = out2 XOR in7;
       out6 = out1 XOR in5 XOR in6; out0 = tmp2 XOR out6; out5 = tmp1 XOR out0
     in [out0, out1, out2, out3, out4, out5, out6, out7])"

definition gf8_muladd_BA :: "chunk \<Rightarrow> chunk \<Rightarrow> chunk" where
  "gf8_muladd_BA = muladd_loop (\<lambda>in0 in1 in2 in3 in4 in5 in6 in7.
     let tmp0 = in5 XOR in7; out2 = tmp0 XOR in4; tmp1 = out2 XOR in2; out1 = tmp1 XOR in0;
       out6 = tmp1 XOR in1; out4 = out1 XOR in3 XOR in4; tmp2 = out4 XOR out6; out7 = out4 XOR in6 XOR in7;
       out5 = tmp2 XOR in6; out3 = tmp0 XOR tmp2; out0 = out6 XOR out7 XOR in0
     in [out0, out1, out2, out3, out4, out5, out6, out7])"

definition gf8_muladd_BB :: "chunk \<Rightarrow> chunk \<Rightarrow> chunk" where
  "gf8_muladd_BB = muladd_loop (\<lambda>in0 in1 in2 in3 in4 in5 in6 in7.
     let out2 = in2 XOR in4 XOR in5 XOR in7; tmp0 = out2 XOR in1; out4 = out2 XOR in0 XOR in3;
       out1 = tmp0 XOR in0; out6 = tmp0 XOR in6; out3 = out1 XOR in2; tmp1 = out4 XOR out6 XOR in4;
       out0 = tmp1 XOR in7; out5 = tmp1 XOR in5; out7 = tmp0 XOR tmp1
     in [out0, out1, out2, out3, out4, out5, out6, out7])"

definition gf8_muladd_BC :: "chunk \<Rightarrow> chunk \<Rightarrow> chunk" where
  "gf8_muladd_BC = muladd_loop (\<lambda>in0 in1 in2 in3 in4 in5 in6 in7.
     let tmp0 = in0 XOR in2; tmp1 = in2 XOR in4; out0 = in1 XOR in3 XOR in4; out6 = in1 XOR in2 XOR in7;
       out7 = tmp0 XOR in3; out5 = tmp0 XOR out6 XOR in6; out1 = tmp1 XOR in5; tmp2 = out1 XOR out5 XOR in1;
       out3 = tmp2 XOR in3; out4 = tmp1 XOR tmp2; out2 = tmp2 XOR out6
     in [out0, out1, out2, out3, out4, out5, out6, out7])"

definition gf8_muladd_BD :: "chunk \<Rightarrow> chunk \<Rightarrow> chunk" where
  "gf8_muladd_BD = muladd_loop (\<lambda>in0 in1 in2 in3 in4 in5 in6 in7.
     let tmp0 = in0 XOR in3; tmp1 = in1 XOR in4; out0 = tmp0 XOR tmp1; out7 = tmp0 XOR in2 XOR in7;
       out1 = tmp1 XOR in2 XOR in5; tmp2 = out1 XOR in0; out2 = tmp2 XOR in6; out3 = out2 XOR in1 XOR in7;
       out4 = out3 XOR in2; out5 = tmp1 XOR out4; out6 = tmp2 XOR out4
     in [out0, out1, out2, out3, out4, out5, out6, out7])"

definition gf8_muladd_BE :: "chunk \<Rightarrow> chunk \<Rightarrow> chunk" where
  "gf8_muladd_BE = muladd_loop (\<lambda>in0 in1 in2 in3 in4 in5 in6 in7.
     let tmp0 = in0 XOR in3 XOR in6; out4 = tmp0 XOR in5; out7 = tmp0 XOR in2; out3 = out4 XOR in4;
       out1 = out3 XOR out7 XOR in0; out2 = out3 XOR in3 XOR in7; out0 = out2 XOR out4 XOR in1;
       out5 = tmp0 XOR out0; out6 = out1 XOR out5 XOR in6
     in [out0, out1, out2, out3, out4, out5, out6, out7])"

definition gf8_muladd_BF :: "chunk \<Rightarrow> chunk \<Rightarrow> chunk" where
  "gf8_muladd_BF = muladd_loop (\<lambda>in0 in1 in2 in3 in4 in5 in6 in7.
     let tmp0 = in0 XOR in4; out3 = tmp0 XOR in5 XOR in6; out4 = out3 XOR in3; tmp1 = out3 XOR in7;
       out2 = tmp1 XOR in2; out5 = tmp1 XOR in1; tmp2 = out2 XOR in5; out7 = tmp2 XOR in3 XOR in4;
       tmp3 = tmp0 XOR out5; out0 = tmp3 XOR out4; out1 = tmp2 XOR tmp3; out6 = tmp3 XOR in2
     in [out0, out1, out2, out3, out4, out5, out6, out7])"

lemma muladd_80_8F:
  "gf8_muladd_80 = muladd_ref 0x80" "gf8_muladd_81 = muladd_ref 0x81" "gf8_muladd_82 = muladd_ref 0x82"
  "gf8_muladd_83 = muladd_ref 0x83" "gf8_muladd_84 = muladd_ref 0x84" "gf8_muladd_85 = muladd_ref 0x85"
  "gf8_muladd_86 = muladd_ref 0x86" "gf8_muladd_87 = muladd_ref 0x87" "gf8_muladd_88 = muladd_ref 0x88"
  "gf8_muladd_89 = muladd_ref 0x89" "gf8_muladd_8A = muladd_ref 0x8a" "gf8_muladd_8B = muladd_ref 0x8b"
  "gf8_muladd_8C = muladd_ref 0x8c" "gf8_muladd_8D = muladd_ref 0x8d" "gf8_muladd_8E = muladd_ref 0x8e"
  "gf8_muladd_8F = muladd_ref 0x8f"
  by (simp_all add: muladd_simps
      gf8_muladd_80_def gf8_muladd_81_def gf8_muladd_82_def gf8_muladd_83_def gf8_muladd_84_def gf8_muladd_85_def
      gf8_muladd_86_def gf8_muladd_87_def gf8_muladd_88_def gf8_muladd_89_def gf8_muladd_8A_def gf8_muladd_8B_def
      gf8_muladd_8C_def gf8_muladd_8D_def gf8_muladd_8E_def gf8_muladd_8F_def)

lemma muladd_90_9F:
  "gf8_muladd_90 = muladd_ref 0x90" "gf8_muladd_91 = muladd_ref 0x91" "gf8_muladd_92 = muladd_ref 0x92"
  "gf8_muladd_93 = muladd_ref 0x93" "gf8_muladd_94 = muladd_ref 0x94" "gf8_muladd_95 = muladd_ref 0x95"
  "gf8_muladd_96 = muladd_ref 0x96" "gf8_muladd_97 = muladd_ref 0x97" "gf8_muladd_98 = muladd_ref 0x98"
  "gf8_muladd_99 = muladd_ref 0x99" "gf8_muladd_9A = muladd_ref 0x9a" "gf8_muladd_9B = muladd_ref 0x9b"
  "gf8_muladd_9C = muladd_ref 0x9c" "gf8_muladd_9D = muladd_ref 0x9d" "gf8_muladd_9E = muladd_ref 0x9e"
  "gf8_muladd_9F = muladd_ref 0x9f"
  by (simp_all add: muladd_simps
      gf8_muladd_90_def gf8_muladd_91_def gf8_muladd_92_def gf8_muladd_93_def gf8_muladd_94_def gf8_muladd_95_def
      gf8_muladd_96_def gf8_muladd_97_def gf8_muladd_98_def gf8_muladd_99_def gf8_muladd_9A_def gf8_muladd_9B_def
      gf8_muladd_9C_def gf8_muladd_9D_def gf8_muladd_9E_def gf8_muladd_9F_def)

lemma muladd_A0_AF:
  "gf8_muladd_A0 = muladd_ref 0xa0" "gf8_muladd_A1 = muladd_ref 0xa1" "gf8_muladd_A2 = muladd_ref 0xa2"
  "gf8_muladd_A3 = muladd_ref 0xa3" "gf8_muladd_A4 = muladd_ref 0xa4" "gf8_muladd_A5 = muladd_ref 0xa5"
  "gf8_muladd_A6 = muladd_ref 0xa6" "gf8_muladd_A7 = muladd_ref 0xa7" "gf8_muladd_A8 = muladd_ref 0xa8"
  "gf8_muladd_A9 = muladd_ref 0xa9" "gf8_muladd_AA = muladd_ref 0xaa" "gf8_muladd_AB = muladd_ref 0xab"
  "gf8_muladd_AC = muladd_ref 0xac" "gf8_muladd_AD = muladd_ref 0xad" "gf8_muladd_AE = muladd_ref 0xae"
  "gf8_muladd_AF = muladd_ref 0xaf"
  by (simp_all add: muladd_simps
      gf8_muladd_A0_def gf8_muladd_A1_def gf8_muladd_A2_def gf8_muladd_A3_def gf8_muladd_A4_def gf8_muladd_A5_def
      gf8_muladd_A6_def gf8_muladd_A7_def gf8_muladd_A8_def gf8_muladd_A9_def gf8_muladd_AA_def gf8_muladd_AB_def
      gf8_muladd_AC_def gf8_muladd_AD_def gf8_muladd_AE_def gf8_muladd_AF_def)

lemma muladd_B0_BF:
  "gf8_muladd_B0 = muladd_ref 0xb0" "gf8_muladd_B1 = muladd_ref 0xb1" "gf8_muladd_B2 = muladd_ref 0xb2"
  "gf8_muladd_B3 = muladd_ref 0xb3" "gf8_muladd_B4 = muladd_ref 0xb4" "gf8_muladd_B5 = muladd_ref 0xb5"
  "gf8_muladd_B6 = muladd_ref 0xb6" "gf8_muladd_B7 = muladd_ref 0xb7" "gf8_muladd_B8 = muladd_ref 0xb8"
  "gf8_muladd_B9 = muladd_ref 0xb9" "gf8_muladd_BA = muladd_ref 0xba" "gf8_muladd_BB = muladd_ref 0xbb"
  "gf8_muladd_BC = muladd_ref 0xbc" "gf8_muladd_BD = muladd_ref 0xbd" "gf8_muladd_BE = muladd_ref 0xbe"
  "gf8_muladd_BF = muladd_ref 0xbf"
  by (simp_all add: muladd_simps
      gf8_muladd_B0_def gf8_muladd_B1_def gf8_muladd_B2_def gf8_muladd_B3_def gf8_muladd_B4_def gf8_muladd_B5_def
      gf8_muladd_B6_def gf8_muladd_B7_def gf8_muladd_B8_def gf8_muladd_B9_def gf8_muladd_BA_def gf8_muladd_BB_def
      gf8_muladd_BC_def gf8_muladd_BD_def gf8_muladd_BE_def gf8_muladd_BF_def)

end
