(* ===== verification/Ec_Muladd3.thy ===== *)
theory Ec_Muladd3
  imports Ec_Muladd
begin

text \<open>
  The routines \<open>gf8_muladd_C0\<close> to \<open>gf8_muladd_FF\<close> of
  \<open>xlators/cluster/ec/src/ec-code-c.c\<close>, and that each multiplies by its constant.
\<close>

unbundle bit_operations_syntax

definition gf8_muladd_C0 :: "chunk \<Rightarrow> chunk \<Rightarrow> chunk" where
  "gf8_muladd_C0 = muladd_loop (\<lambda>in0 in1 in2 in3 in4 in5 in6 in7.
     let out5 = in2 XOR in5; tmp0 = in1 XOR in4; tmp1 = in3 XOR in6; out0 = out5 XOR in1; out4 = tmp0 XOR in7;
       out3 = tmp0 XOR tmp1; out1 = tmp1 XOR in2; out6 = tmp1 XOR in0; out7 = out4 XOR in0;
       out2 = out4 XOR out5 XOR in3
     in [out0, out1, out2, out3, out4, out5, out6, out7])"

definition gf8_muladd_C1 :: "chunk \<Rightarrow> chunk \<Rightarrow> chunk" where
  "gf8_muladd_C1 = muladd_loop (\<lambda>in0 in1 in2 in3 in4 in5 in6 in7.
     let out5 = in2; tmp0 = in0 XOR in1; out4 = in1 XOR in7; out6 = in0 XOR in3; out3 = in1 XOR in4 XOR in6;
       tmp1 = tmp0 XOR in2; out7 = tmp0 XOR in4; out0 = tmp1 XOR in5; out1 = tmp1 XOR out6 XOR in6;
       out2 = out6 XOR out7 XOR in5 XOR in7
     in [out0, out1, out2, out3, out4, out5, out6, out7])"

definition gf8_muladd_C2 :: "chunk \<Rightarrow> chunk \<Rightarrow> chunk" where
  "gf8_muladd_C2 = muladd_loop (\<lambda>in0 in1 in2 in3 in4 in5 in6 in7.
     let out4 = in1 XOR in3 XOR in4; tmp0 = in0 XOR in3 XOR in6; out5 = in2 XOR in4 XOR in5;
       tmp1 = out4 XOR in7; out1 = tmp0 XOR in2; out6 = tmp0 XOR in5; out2 = out5 XOR in3;
       out7 = tmp0 XOR tmp1; out3 = tmp1 XOR in2 XOR in6; out0 = tmp1 XOR out2
     in [out0, out1, out2, out3, out4, out5, out6, out7])"

definition gf8_muladd_C3 :: "chunk \<Rightarrow> chunk \<Rightarrow> chunk" where
  "gf8_muladd_C3 = muladd_loop (\<lambda>in0 in1 in2 in3 in4 in5 in6 in7.
     let out4 = in1 XOR in3; tmp0 = in0 XOR in2; tmp1 = in3 XOR in5; out5 = in2 XOR in4; tmp2 = tmp0 XOR out4;
       out2 = tmp1 XOR in4; out6 = tmp1 XOR in0; out0 = tmp1 XOR tmp2 XOR in7; out1 = tmp2 XOR in6;
       out7 = out1 XOR out5 XOR in3; out3 = tmp0 XOR out7 XOR in7
     in [out0, out1, out2, out3, out4, out5, out6, out7])"

definition gf8_muladd_C4 :: "chunk \<Rightarrow> chunk \<Rightarrow> chunk" where
  "gf8_muladd_C4 = muladd_loop (\<lambda>in0 in1 in2 in3 in4 in5 in6 in7.
     let tmp0 = in3 XOR in7; out3 = tmp0 XOR in4; tmp1 = tmp0 XOR in2; out1 = tmp1 XOR in6;
       out5 = tmp1 XOR in5; out4 = out1 XOR out3 XOR in1; out0 = out4 XOR in4 XOR in5;
       out2 = out0 XOR out3 XOR in0; out7 = out1 XOR out2 XOR in7; out6 = tmp1 XOR out0 XOR out7
     in [out0, out1, out2, out3, out4, out5, out6, out7])"

definition gf8_muladd_C5 :: "chunk \<Rightarrow> chunk \<Rightarrow> chunk" where
  "gf8_muladd_C5 = muladd_loop (\<lambda>in0 in1 in2 in3 in4 in5 in6 in7.
     let out3 = in4 XOR in7; tmp0 = in3 XOR in7; out4 = in1 XOR in2 XOR in6; out6 = in0 XOR in3 XOR in4;
       out5 = tmp0 XOR in2; out1 = tmp0 XOR out4; out0 = out4 XOR in0 XOR in5; out2 = out0 XOR out5 XOR in4;
       out7 = tmp0 XOR out2 XOR in6
     in [out0, out1, out2, out3, out4, out5, out6, out7])"

definition gf8_muladd_C6 :: "chunk \<Rightarrow> chunk \<Rightarrow> chunk" where
  "gf8_muladd_C6 = muladd_loop (\<lambda>in0 in1 in2 in3 in4 in5 in6 in7.
     let tmp0 = in5 XOR in6; tmp1 = in1 XOR in7; tmp2 = tmp0 XOR in0; tmp3 = tmp0 XOR tmp1;
       tmp4 = tmp2 XOR in4; out0 = tmp3 XOR in2; out6 = tmp4 XOR in3; out2 = out6 XOR in2;
       out7 = tmp1 XOR tmp4; out3 = tmp2 XOR out2; tmp5 = out3 XOR in5; out5 = tmp5 XOR in7;
       out4 = tmp3 XOR tmp5; out1 = tmp4 XOR out5
     in [out0, out1, out2, out3, out4, out5, out6, out7])"

definition gf8_muladd_C7 :: "chunk \<Rightarrow> chunk \<Rightarrow> chunk" where
  "gf8_muladd_C7 = muladd_loop (\<lambda>in0 in1 in2 in3 in4 in5 in6 in7.
     let out3 = in2 XOR in4; tmp0 = in3 XOR in5; tmp1 = out3 XOR in7; out6 = tmp0 XOR in0 XOR in4;
       out5 = tmp1 XOR in3; out2 = out6 XOR in6; out7 = out2 XOR in1 XOR in3; out0 = tmp1 XOR out7;
       out1 = tmp0 XOR out0; out4 = out1 XOR in0
     in [out0, out1, out2, out3, out4, out5, out6, out7])"

definition gf8_muladd_C8 :: "chunk \<Rightarrow> chunk \<Rightarrow> chunk" where
  "gf8_muladd_C8 = muladd_loop (\<lambda>in0 in1 in2 in3 in4 in5 in6 in7.
     let out0 = in1 XOR in2; out1 = in2 XOR in3; tmp0 = in5 XOR in6; tmp1 = in0 XOR in7;
       out2 = out1 XOR in1 XOR in4; out4 = tmp0 XOR in4; out5 = tmp0 XOR in7; out6 = tmp1 XOR in6;
       out7 = tmp1 XOR in1; out3 = out2 XOR in0 XOR in2 XOR in5
     in [out0, out1, out2, out3, out4, out5, out6, out7])"

definition gf8_muladd_C9 :: "chunk \<Rightarrow> chunk \<Rightarrow> chunk" where
  "gf8_muladd_C9 = muladd_loop (\<lambda>in0 in1 in2 in3 in4 in5 in6 in7.
     let out4 = in5 XOR in6; out7 = in0 XOR in1; tmp0 = in1 XOR in3; out5 = in6 XOR in7; out6 = in0 XOR in7;
       out0 = out7 XOR in2; out3 = out7 XOR in4 XOR in5; out1 = tmp0 XOR in2; out2 = tmp0 XOR in4
     in [out0, out1, out2, out3, out4, out5, out6, out7])"

definition gf8_muladd_CA :: "chunk \<Rightarrow> chunk \<Rightarrow> chunk" where
  "gf8_muladd_CA = muladd_loop (\<lambda>in0 in1 in2 in3 in4 in5 in6 in7.
     let tmp0 = in0 XOR in7; tmp1 = in2 XOR in7; tmp2 = tmp0 XOR in6; out0 = tmp1 XOR in1; tmp3 = tmp1 XOR in3;
       out6 = tmp2 XOR in5; out7 = tmp2 XOR in1; out2 = tmp3 XOR in4; out5 = out6 XOR in0 XOR in4;
       out4 = out5 XOR in3; out1 = tmp0 XOR tmp3; out3 = tmp3 XOR out5 XOR out7
     in [out0, out1, out2, out3, out4, out5, out6, out7])"

definition gf8_muladd_CB :: "chunk \<Rightarrow> chunk \<Rightarrow> chunk" where
  "gf8_muladd_CB = muladd_loop (\<lambda>in0 in1 in2 in3 in4 in5 in6 in7.
     let tmp0 = in4 XOR in7; tmp1 = in5 XOR in7; out7 = in0 XOR in1 XOR in6; out5 = tmp0 XOR in6;
       out2 = tmp0 XOR in3; out6 = tmp1 XOR in0; out4 = tmp1 XOR in3 XOR in6; tmp2 = out5 XOR out7 XOR in2;
       out1 = tmp2 XOR out2; out0 = tmp2 XOR in4; out3 = tmp2 XOR in5
     in [out0, out1, out2, out3, out4, out5, out6, out7])"

definition gf8_muladd_CC :: "chunk \<Rightarrow> chunk \<Rightarrow> chunk" where
  "gf8_muladd_CC = muladd_loop (\<lambda>in0 in1 in2 in3 in4 in5 in6 in7.
     let tmp0 = in3 XOR in5; tmp1 = in1 XOR in6; out1 = in2 XOR in3 XOR in7; out5 = tmp0 XOR in6;
       out0 = tmp1 XOR in2; tmp2 = out5 XOR in0 XOR in7; out3 = tmp2 XOR in4; out6 = tmp0 XOR out3;
       out7 = tmp1 XOR tmp2 XOR in3; tmp3 = out1 XOR out6; out4 = tmp2 XOR tmp3; out2 = tmp3 XOR in1
     in [out0, out1, out2, out3, out4, out5, out6, out7])"

definition gf8_muladd_CD :: "chunk \<Rightarrow> chunk \<Rightarrow> chunk" where
  "gf8_muladd_CD = muladd_loop (\<lambda>in0 in1 in2 in3 in4 in5 in6 in7.
     let out5 = in3 XOR in6; tmp0 = in0 XOR in1; tmp1 = in2 XOR in7; out6 = in0 XOR in4 XOR in7;
       out2 = tmp0 XOR out5 XOR in4; out7 = tmp0 XOR in5; out0 = tmp0 XOR in2 XOR in6; out4 = tmp1 XOR in5;
       out1 = tmp1 XOR in1 XOR in3; out3 = out6 XOR in5 XOR in6
     in [out0, out1, out2, out3, out4, out5, out6, out7])"

definition gf8_muladd_CE :: "chunk \<Rightarrow> chunk \<Rightarrow> chunk" where
  "gf8_muladd_CE = muladd_loop (\<lambda>in0 in1 in2 in3 in4 in5 in6 in7.
     let tmp0 = in2 XOR in5; tmp1 = tmp0 XOR in3; out4 = tmp1 XOR in4; tmp2 = out4 XOR in6;
       out3 = tmp2 XOR in0; out5 = tmp2 XOR in2; out2 = out3 XOR in5 XOR in7; out6 = tmp1 XOR out2;
       out7 = out2 XOR out4 XOR in1; out1 = tmp2 XOR out6; out0 = tmp0 XOR out7 XOR in0
     in [out0, out1, out2, out3, out4, out5, out6, out7])"

definition gf8_muladd_CF :: "chunk \<Rightarrow> chunk \<Rightarrow> chunk" where
  "gf8_muladd_CF = muladd_loop (\<lambda>in0 in1 in2 in3 in4 in5 in6 in7.
     let tmp0 = in3 XOR in6; tmp1 = in0 XOR in1 XOR in5; out4 = in2 XOR in3 XOR in5; out5 = tmp0 XOR in4;
       out7 = tmp1 XOR in6; out1 = tmp1 XOR out4 XOR in7; tmp2 = out5 XOR in0; out2 = tmp2 XOR in7;
       out3 = tmp2 XOR out4; out6 = tmp0 XOR out2 XOR in5; out0 = tmp0 XOR out1
     in [out0, out1, out2, out3, out4, out5, out6, out7])"

definition gf8_muladd_D0 :: "chunk \<Rightarrow> chunk \<Rightarrow> chunk" where
  "gf8_muladd_D0 = muladd_loop (\<lambda>in0 in1 in2 in3 in4 in5 in6 in7.
     let tmp0 = in0 XOR in3; tmp1 = in1 XOR in4; tmp2 = in2 XOR in5; out7 = tmp0 XOR tmp1;
       out0 = tmp1 XOR tmp2; tmp3 = tmp2 XOR in3; out1 = tmp3 XOR in6; tmp4 = out1 XOR in1;
       out2 = tmp4 XOR in7; out3 = out2 XOR in2; out4 = tmp0 XOR out3; out5 = tmp3 XOR out3;
       out6 = tmp4 XOR out4
     in [out0, out1, out2, out3, out4, out5, out6, out7])"

definition gf8_muladd_D1 :: "chunk \<Rightarrow> chunk \<Rightarrow> chunk" where
  "gf8_muladd_D1 = muladd_loop (\<lambda>in0 in1 in2 in3 in4 in5 in6 in7.
     let tmp0 = in3 XOR in5 XOR in6; tmp1 = tmp0 XOR in1; out1 = tmp1 XOR in2; out2 = tmp1 XOR in7;
       out3 = out2 XOR in3; out5 = out3 XOR in2; tmp2 = out3 XOR in0; out4 = tmp2 XOR in4;
       out7 = tmp0 XOR out4; out6 = tmp2 XOR out1 XOR in6; out0 = out2 XOR out6 XOR in4
     in [out0, out1, out2, out3, out4, out5, out6, out7])"

definition gf8_muladd_D2 :: "chunk \<Rightarrow> chunk \<Rightarrow> chunk" where
  "gf8_muladd_D2 = muladd_loop (\<lambda>in0 in1 in2 in3 in4 in5 in6 in7.
     let tmp0 = in5 XOR in6; out2 = tmp0 XOR in2 XOR in3; out1 = out2 XOR in0; out3 = out2 XOR in1;
       out4 = out1 XOR in1 XOR in2; out6 = out1 XOR in6 XOR in7; out7 = out4 XOR in4 XOR in5;
       out5 = out4 XOR out6 XOR in4; out0 = tmp0 XOR out5
     in [out0, out1, out2, out3, out4, out5, out6, out7])"

definition gf8_muladd_D3 :: "chunk \<Rightarrow> chunk \<Rightarrow> chunk" where
  "gf8_muladd_D3 = muladd_loop (\<lambda>in0 in1 in2 in3 in4 in5 in6 in7.
     let out2 = in3 XOR in5 XOR in6; tmp0 = out2 XOR in2; tmp1 = tmp0 XOR in1; out1 = tmp1 XOR in0;
       out3 = tmp1 XOR in3; out4 = out1 XOR in2 XOR in4; tmp2 = out4 XOR in5; out7 = tmp2 XOR in7;
       out0 = tmp0 XOR out7; tmp3 = out0 XOR in0; out5 = tmp3 XOR in6; out6 = tmp2 XOR tmp3
     in [out0, out1, out2, out3, out4, out5, out6, out7])"

definition gf8_muladd_D4 :: "chunk \<Rightarrow> chunk \<Rightarrow> chunk" where
  "gf8_muladd_D4 = muladd_loop (\<lambda>in0 in1 in2 in3 in4 in5 in6 in7.
     let out3 = in3 XOR in5; tmp0 = in1 XOR in5; tmp1 = tmp0 XOR in2; out4 = tmp1 XOR in0; tmp2 = tmp1 XOR in6;
       out2 = out4 XOR in3 XOR in7; out0 = tmp2 XOR in4; out5 = tmp2 XOR out3; out1 = tmp0 XOR out5 XOR in7;
       out6 = tmp0 XOR out2 XOR in4; out7 = tmp1 XOR out6 XOR in7
     in [out0, out1, out2, out3, out4, out5, out6, out7])"

definition gf8_muladd_D5 :: "chunk \<Rightarrow> chunk \<Rightarrow> chunk" where
  "gf8_muladd_D5 = muladd_loop (\<lambda>in0 in1 in2 in3 in4 in5 in6 in7.
     let out3 = in5; tmp0 = in0 XOR in4; tmp1 = tmp0 XOR in1 XOR in5; out4 = tmp1 XOR in2; out0 = out4 XOR in6;
       tmp2 = tmp0 XOR out0; out5 = tmp2 XOR in3; out1 = out5 XOR in7; out6 = tmp1 XOR out1;
       out7 = tmp2 XOR out6; out2 = out7 XOR in4
     in [out0, out1, out2, out3, out4, out5, out6, out7])"

definition gf8_muladd_D6 :: "chunk \<Rightarrow> chunk \<Rightarrow> chunk" where
  "gf8_muladd_D6 = muladd_loop (\<lambda>in0 in1 in2 in3 in4 in5 in6 in7.
     let tmp0 = in1 XOR in2 XOR in4 XOR in6; out5 = tmp0 XOR in3; out0 = tmp0 XOR in5 XOR in7;
       out3 = out0 XOR out5 XOR in2; tmp1 = out3 XOR in0; out1 = tmp1 XOR in6; out2 = tmp1 XOR in7;
       out4 = tmp1 XOR in1; out6 = tmp1 XOR in4; out7 = tmp0 XOR out2
     in [out0, out1, out2, out3, out4, out5, out6, out7])"

definition gf8_muladd_D7 :: "chunk \<Rightarrow> chunk \<Rightarrow> chunk" where
  "gf8_muladd_D7 = muladd_loop (\<lambda>in0 in1 in2 in3 in4 in5 in6 in7.
     let tmp0 = in0 XOR in3; out3 = in2 XOR in5 XOR in7; out2 = tmp0 XOR in5; tmp1 = tmp0 XOR out3 XOR in1;
       out1 = tmp1 XOR in6; out4 = tmp1 XOR in4; tmp2 = out1 XOR in4; out6 = tmp2 XOR in1; out7 = tmp2 XOR in2;
       out0 = tmp2 XOR in3; out5 = tmp2 XOR in0 XOR in7
     in [out0, out1, out2, out3, out4, out5, out6, out7])"

definition gf8_muladd_D8 :: "chunk \<Rightarrow> chunk \<Rightarrow> chunk" where
  "gf8_muladd_D8 = muladd_loop (\<lambda>in0 in1 in2 in3 in4 in5 in6 in7.
     let out4 = in0; out5 = in1; tmp0 = in1 XOR in2; out6 = in0 XOR in2; out0 = tmp0 XOR in4;
       tmp1 = tmp0 XOR in3; out7 = tmp1 XOR out6; out2 = tmp1 XOR in6; out3 = out7 XOR in7;
       out1 = tmp1 XOR in1 XOR in5
     in [out0, out1, out2, out3, out4, out5, out6, out7])"

definition gf8_muladd_D9 :: "chunk \<Rightarrow> chunk \<Rightarrow> chunk" where
  "gf8_muladd_D9 = muladd_loop (\<lambda>in0 in1 in2 in3 in4 in5 in6 in7.
     let out4 = in0 XOR in4; out5 = in1 XOR in5; out2 = in1 XOR in3 XOR in6; out3 = in0 XOR in1 XOR in7;
       out6 = in0 XOR in2 XOR in6; out0 = out4 XOR in1 XOR in2; out1 = out5 XOR in2 XOR in3; out7 = out3 XOR in3
     in [out0, out1, out2, out3, out4, out5, out6, out7])"

definition gf8_muladd_DA :: "chunk \<Rightarrow> chunk \<Rightarrow> chunk" where
  "gf8_muladd_DA = muladd_loop (\<lambda>in0 in1 in2 in3 in4 in5 in6 in7.
     let out5 = in1 XOR in4; tmp0 = in2 XOR in7; tmp1 = in0 XOR in2 XOR in3; out0 = tmp0 XOR out5;
       out4 = tmp0 XOR tmp1; out2 = tmp0 XOR in3 XOR in6; out1 = tmp1 XOR in5; out3 = tmp1 XOR in1;
       out6 = out1 XOR in3; out7 = out3 XOR in2 XOR in6
     in [out0, out1, out2, out3, out4, out5, out6, out7])"

definition gf8_muladd_DB :: "chunk \<Rightarrow> chunk \<Rightarrow> chunk" where
  "gf8_muladd_DB = muladd_loop (\<lambda>in0 in1 in2 in3 in4 in5 in6 in7.
     let tmp0 = in0 XOR in1; tmp1 = in1 XOR in5; tmp2 = in3 XOR in7; out3 = tmp0 XOR in2; out5 = tmp1 XOR in4;
       out6 = tmp1 XOR out3 XOR in6; out2 = tmp2 XOR in6; tmp3 = tmp2 XOR in4; tmp4 = out3 XOR in3;
       out4 = tmp3 XOR in0; out1 = tmp4 XOR in5; out0 = tmp3 XOR tmp4; out7 = tmp0 XOR out2
     in [out0, out1, out2, out3, out4, out5, out6, out7])"

definition gf8_muladd_DC :: "chunk \<Rightarrow> chunk \<Rightarrow> chunk" where
  "gf8_muladd_DC = muladd_loop (\<lambda>in0 in1 in2 in3 in4 in5 in6 in7.
     let tmp0 = in0 XOR in2; tmp1 = in0 XOR in3; out6 = tmp0 XOR in4; tmp2 = tmp0 XOR in7; out3 = tmp1 XOR in6;
       tmp3 = tmp1 XOR in1; out1 = tmp1 XOR tmp2 XOR in5; out4 = tmp2 XOR in6; out2 = tmp3 XOR in2;
       out7 = tmp3 XOR in5; out5 = tmp2 XOR out2; out0 = out2 XOR out3 XOR in4
     in [out0, out1, out2, out3, out4, out5, out6, out7])"

definition gf8_muladd_DD :: "chunk \<Rightarrow> chunk \<Rightarrow> chunk" where
  "gf8_muladd_DD = muladd_loop (\<lambda>in0 in1 in2 in3 in4 in5 in6 in7.
     let out3 = in0 XOR in6; out2 = in0 XOR in1 XOR in3; out6 = out3 XOR in2 XOR in4;
       out7 = out2 XOR in5 XOR in7; out0 = out6 XOR in1; out4 = out6 XOR in7; out5 = out7 XOR in0;
       out1 = out5 XOR in2
     in [out0, out1, out2, out3, out4, out5, out6, out7])"

definition gf8_muladd_DE :: "chunk \<Rightarrow> chunk \<Rightarrow> chunk" where
  "gf8_muladd_DE = muladd_loop (\<lambda>in0 in1 in2 in3 in4 in5 in6 in7.
     let tmp0 = in2 XOR in3 XOR in6; tmp1 = in3 XOR in4 XOR in7; out4 = tmp0 XOR in0; out5 = tmp1 XOR in1;
       out3 = out4 XOR in7; out2 = out3 XOR in6; out1 = out2 XOR in5; out6 = tmp1 XOR out1;
       out0 = tmp0 XOR out5; out7 = out0 XOR out1 XOR in4
     in [out0, out1, out2, out3, out4, out5, out6, out7])"

definition gf8_muladd_DF :: "chunk \<Rightarrow> chunk \<Rightarrow> chunk" where
  "gf8_muladd_DF = muladd_loop (\<lambda>in0 in1 in2 in3 in4 in5 in6 in7.
     let out2 = in0 XOR in3 XOR in7; tmp0 = out2 XOR in1 XOR in5; out1 = tmp0 XOR in2; out7 = tmp0 XOR in6;
       out5 = tmp0 XOR in0 XOR in4; tmp1 = out1 XOR out5 XOR in6; out4 = tmp1 XOR in3; out6 = tmp1 XOR in5;
       tmp2 = tmp1 XOR in7; out0 = tmp2 XOR in1; out3 = tmp2 XOR in4
     in [out0, out1, out2, out3, out4, out5, out6, out7])"

definition gf8_muladd_E0 :: "chunk \<Rightarrow> chunk \<Rightarrow> chunk" where
  "gf8_muladd_E0 = muladd_loop (\<lambda>in0 in1 in2 in3 in4 in5 in6 in7.
     let out3 = in1 XOR in7; tmp0 = in2 XOR in4; out4 = out3 XOR in3 XOR in5; out2 = tmp0 XOR in1;
       tmp1 = tmp0 XOR in6; out0 = out4 XOR in2; out6 = out4 XOR in0; out1 = tmp1 XOR in3; out5 = tmp1 XOR in0;
       out7 = out5 XOR in1
     in [out0, out1, out2, out3, out4, out5, out6, out7])"

definition gf8_muladd_E1 :: "chunk \<Rightarrow> chunk \<Rightarrow> chunk" where
  "gf8_muladd_E1 = muladd_loop (\<lambda>in0 in1 in2 in3 in4 in5 in6 in7.
     let out2 = in1 XOR in4; tmp0 = in1 XOR in7; out3 = tmp0 XOR in3; tmp1 = out3 XOR in5; out4 = tmp1 XOR in4;
       tmp2 = tmp1 XOR in0; out0 = tmp2 XOR in2; out6 = tmp2 XOR in6; tmp3 = out0 XOR out4 XOR in6;
       out5 = tmp3 XOR in5; out7 = tmp0 XOR tmp3; out1 = tmp2 XOR out5 XOR in7
     in [out0, out1, out2, out3, out4, out5, out6, out7])"

definition gf8_muladd_E2 :: "chunk \<Rightarrow> chunk \<Rightarrow> chunk" where
  "gf8_muladd_E2 = muladd_loop (\<lambda>in0 in1 in2 in3 in4 in5 in6 in7.
     let out3 = in1 XOR in2; out4 = in1 XOR in5; out2 = in2 XOR in4 XOR in7; out5 = in0 XOR in2 XOR in6;
       out0 = out3 XOR in3 XOR in5; out7 = out3 XOR in0 XOR in4; out6 = out2 XOR out7 XOR in3;
       out1 = out5 XOR in3 XOR in4
     in [out0, out1, out2, out3, out4, out5, out6, out7])"

definition gf8_muladd_E3 :: "chunk \<Rightarrow> chunk \<Rightarrow> chunk" where
  "gf8_muladd_E3 = muladd_loop (\<lambda>in0 in1 in2 in3 in4 in5 in6 in7.
     let out2 = in4 XOR in7; tmp0 = in1 XOR in3; out3 = tmp0 XOR in2; tmp1 = out3 XOR in0; out0 = tmp1 XOR in5;
       tmp2 = tmp1 XOR in4; out1 = tmp2 XOR in6; tmp3 = tmp2 XOR in3; out7 = tmp3 XOR in7;
       out6 = out1 XOR out2 XOR in2; tmp4 = tmp0 XOR out0; out5 = tmp4 XOR in6; out4 = tmp3 XOR tmp4
     in [out0, out1, out2, out3, out4, out5, out6, out7])"

definition gf8_muladd_E4 :: "chunk \<Rightarrow> chunk \<Rightarrow> chunk" where
  "gf8_muladd_E4 = muladd_loop (\<lambda>in0 in1 in2 in3 in4 in5 in6 in7.
     let out3 = in6; tmp0 = in0 XOR in4; tmp1 = tmp0 XOR in2 XOR in6; out2 = tmp1 XOR in1; out7 = out2 XOR in5;
       tmp2 = tmp0 XOR out7; out4 = tmp2 XOR in3; out0 = out4 XOR in7; out6 = tmp1 XOR out0;
       out5 = tmp2 XOR out6; out1 = out5 XOR in0
     in [out0, out1, out2, out3, out4, out5, out6, out7])"

definition gf8_muladd_E5 :: "chunk \<Rightarrow> chunk \<Rightarrow> chunk" where
  "gf8_muladd_E5 = muladd_loop (\<lambda>in0 in1 in2 in3 in4 in5 in6 in7.
     let out3 = in3 XOR in6; tmp0 = in0 XOR in1; tmp1 = in5 XOR in7; out2 = tmp0 XOR in4 XOR in6;
       tmp2 = tmp1 XOR out2; out6 = tmp2 XOR in3; out7 = tmp2 XOR in2; out0 = out6 XOR in2 XOR in4;
       out5 = out6 XOR in1 XOR in2; out1 = tmp0 XOR out5 XOR in5; out4 = tmp1 XOR out1
     in [out0, out1, out2, out3, out4, out5, out6, out7])"

definition gf8_muladd_E6 :: "chunk \<Rightarrow> chunk \<Rightarrow> chunk" where
  "gf8_muladd_E6 = muladd_loop (\<lambda>in0 in1 in2 in3 in4 in5 in6 in7.
     let out3 = in2 XOR in6 XOR in7; out2 = out3 XOR in0 XOR in4; out4 = out3 XOR in1 XOR in5;
       out1 = out2 XOR in3; out7 = out2 XOR out4 XOR in2; out0 = out4 XOR in3 XOR in7; out5 = out1 XOR in4;
       out6 = out0 XOR out2 XOR in5
     in [out0, out1, out2, out3, out4, out5, out6, out7])"

definition gf8_muladd_E7 :: "chunk \<Rightarrow> chunk \<Rightarrow> chunk" where
  "gf8_muladd_E7 = muladd_loop (\<lambda>in0 in1 in2 in3 in4 in5 in6 in7.
     let tmp0 = in2 XOR in3; out3 = tmp0 XOR in6 XOR in7; tmp1 = out3 XOR in0; out5 = tmp1 XOR in5;
       tmp2 = tmp1 XOR in4; tmp3 = out5 XOR in7; out1 = tmp2 XOR in1; out0 = tmp3 XOR in1; out6 = out1 XOR in2;
       out2 = tmp0 XOR tmp2; tmp4 = tmp3 XOR out6; out4 = tmp4 XOR in6; out7 = tmp4 XOR in0
     in [out0, out1, out2, out3, out4, out5, out6, out7])"

definition gf8_muladd_E8 :: "chunk \<Rightarrow> chunk \<Rightarrow> chunk" where
  "gf8_muladd_E8 = muladd_loop (\<lambda>in0 in1 in2 in3 in4 in5 in6 in7.
     let out4 = in3 XOR in6; tmp0 = in4 XOR in7; out1 = in2 XOR in3 XOR in4; out5 = tmp0 XOR in0;
       tmp1 = tmp0 XOR in1; tmp2 = tmp1 XOR in5; out0 = tmp1 XOR out1; out2 = tmp2 XOR in2;
       out6 = tmp2 XOR out5; tmp3 = out6 XOR in6; out3 = tmp3 XOR in7; out7 = tmp3 XOR in2 XOR in5
     in [out0, out1, out2, out3, out4, out5, out6, out7])"

definition gf8_muladd_E9 :: "chunk \<Rightarrow> chunk \<Rightarrow> chunk" where
  "gf8_muladd_E9 = muladd_loop (\<lambda>in0 in1 in2 in3 in4 in5 in6 in7.
     let tmp0 = in0 XOR in1; tmp1 = in3 XOR in6; tmp2 = tmp0 XOR in6; out4 = tmp1 XOR in4; out6 = tmp2 XOR in5;
       out7 = tmp2 XOR in2 XOR in7; out3 = out6 XOR in3 XOR in7; out0 = tmp1 XOR out7;
       out2 = out3 XOR out4 XOR in0; out5 = tmp0 XOR out2; out1 = out0 XOR out5 XOR in5
     in [out0, out1, out2, out3, out4, out5, out6, out7])"

definition gf8_muladd_EA :: "chunk \<Rightarrow> chunk \<Rightarrow> chunk" where
  "gf8_muladd_EA = muladd_loop (\<lambda>in0 in1 in2 in3 in4 in5 in6 in7.
     let out4 = in6 XOR in7; out5 = in0 XOR in7; out6 = in0 XOR in1; out0 = in1 XOR in2 XOR in3;
       out2 = in2 XOR in4 XOR in5; out7 = out6 XOR in2; out1 = out0 XOR out6 XOR in4;
       out3 = out7 XOR in5 XOR in6
     in [out0, out1, out2, out3, out4, out5, out6, out7])"

definition gf8_muladd_EB :: "chunk \<Rightarrow> chunk \<Rightarrow> chunk" where
  "gf8_muladd_EB = muladd_loop (\<lambda>in0 in1 in2 in3 in4 in5 in6 in7.
     let out2 = in4 XOR in5; tmp0 = in0 XOR in1; out4 = in4 XOR in6 XOR in7; out5 = in0 XOR in5 XOR in7;
       out6 = tmp0 XOR in6; tmp1 = tmp0 XOR in2; out0 = tmp1 XOR in3; out7 = tmp1 XOR in7; out1 = out0 XOR in4;
       out3 = out0 XOR in5 XOR in6
     in [out0, out1, out2, out3, out4, out5, out6, out7])"

definition gf8_muladd_EC :: "chunk \<Rightarrow> chunk \<Rightarrow> chunk" where
  "gf8_muladd_EC = muladd_loop (\<lambda>in0 in1 in2 in3 in4 in5 in6 in7.
     let out3 = in0 XOR in5; out4 = in2 XOR in3 XOR in7; out5 = in0 XOR in3 XOR in4;
       out6 = out3 XOR in1 XOR in4; out1 = out4 XOR in4; out0 = out4 XOR in1 XOR in6;
       out2 = out0 XOR out5 XOR in5; out7 = out2 XOR in4 XOR in7
     in [out0, out1, out2, out3, out4, out5, out6, out7])"

definition gf8_muladd_ED :: "chunk \<Rightarrow> chunk \<Rightarrow> chunk" where
  "gf8_muladd_ED = muladd_loop (\<lambda>in0 in1 in2 in3 in4 in5 in6 in7.
     let tmp0 = in2 XOR in4; tmp1 = in3 XOR in5; out4 = tmp0 XOR in3 XOR in7; out3 = tmp1 XOR in0;
       out1 = out4 XOR in1; out5 = out3 XOR in4; out7 = out1 XOR out5 XOR in6; out2 = tmp0 XOR out7;
       out0 = tmp1 XOR out7; out6 = out2 XOR in7
     in [out0, out1, out2, out3, out4, out5, out6, out7])"

definition gf8_muladd_EE :: "chunk \<Rightarrow> chunk \<Rightarrow> chunk" where
  "gf8_muladd_EE = muladd_loop (\<lambda>in0 in1 in2 in3 in4 in5 in6 in7.
     let out4 = in2; tmp0 = in0 XOR in1; out5 = in0 XOR in3; tmp1 = tmp0 XOR in2; out6 = tmp0 XOR in4;
       tmp2 = tmp1 XOR out5; out7 = tmp1 XOR in5; out1 = tmp2 XOR out6 XOR in7; out0 = tmp2 XOR in6;
       tmp3 = out7 XOR in1; out3 = tmp3 XOR in7; out2 = tmp3 XOR in4 XOR in6
     in [out0, out1, out2, out3, out4, out5, out6, out7])"

definition gf8_muladd_EF :: "chunk \<Rightarrow> chunk \<Rightarrow> chunk" where
  "gf8_muladd_EF = muladd_loop (\<lambda>in0 in1 in2 in3 in4 in5 in6 in7.
     let out4 = in2 XOR in4; tmp0 = in0 XOR in5; tmp1 = in4 XOR in6; out5 = tmp0 XOR in3; out2 = tmp0 XOR tmp1;
       out6 = tmp1 XOR in0 XOR in1; out3 = out5 XOR in2 XOR in7; out7 = out3 XOR in1 XOR in3;
       out0 = out4 XOR out6 XOR in3; out1 = tmp1 XOR out0 XOR in7
     in [out0, out1, out2, out3, out4, out5, out6, out7])"

definition gf8_muladd_F0 :: "chunk \<Rightarrow> chunk \<Rightarrow> chunk" where
  "gf8_muladd_F0 = muladd_loop (\<lambda>in0 in1 in2 in3 in4 in5 in6 in7.
     let tmp0 = in1 XOR in2; tmp1 = in4 XOR in5; out2 = tmp0 XOR in6; out3 = tmp1 XOR in1; tmp2 = tmp1 XOR in7;
       out1 = out2 XOR out3 XOR in3; tmp3 = tmp0 XOR tmp2; out0 = tmp3 XOR in3; out5 = tmp3 XOR in0;
       out4 = out1 XOR out5 XOR in4; out7 = out4 XOR in2; out6 = tmp2 XOR out7
     in [out0, out1, out2, out3, out4, out5, out6, out7])"

definition gf8_muladd_F1 :: "chunk \<Rightarrow> chunk \<Rightarrow> chunk" where
  "gf8_muladd_F1 = muladd_loop (\<lambda>in0 in1 in2 in3 in4 in5 in6 in7.
     let out2 = in1 XOR in6; tmp0 = in3 XOR in5; out3 = tmp0 XOR in1 XOR in4; tmp1 = out3 XOR in2;
       out1 = tmp1 XOR in6; tmp2 = tmp1 XOR in0; tmp3 = out1 XOR in5; out0 = tmp2 XOR in7; out6 = tmp2 XOR in4;
       out7 = tmp3 XOR in0; out5 = tmp0 XOR out0; out4 = tmp3 XOR out5 XOR in1
     in [out0, out1, out2, out3, out4, out5, out6, out7])"

definition gf8_muladd_F2 :: "chunk \<Rightarrow> chunk \<Rightarrow> chunk" where
  "gf8_muladd_F2 = muladd_loop (\<lambda>in0 in1 in2 in3 in4 in5 in6 in7.
     let tmp0 = in4 XOR in5; out2 = in2 XOR in6 XOR in7; tmp1 = tmp0 XOR in1; tmp2 = tmp1 XOR in2;
       out0 = tmp2 XOR in3; out3 = tmp2 XOR in7; out5 = out3 XOR in0 XOR in4; tmp3 = tmp0 XOR out5;
       out7 = tmp3 XOR in3; out4 = tmp3 XOR out2; out1 = out0 XOR out4 XOR in4; out6 = tmp1 XOR out1
     in [out0, out1, out2, out3, out4, out5, out6, out7])"

definition gf8_muladd_F3 :: "chunk \<Rightarrow> chunk \<Rightarrow> chunk" where
  "gf8_muladd_F3 = muladd_loop (\<lambda>in0 in1 in2 in3 in4 in5 in6 in7.
     let out2 = in6 XOR in7; tmp0 = in0 XOR in1; out4 = tmp0 XOR in6; tmp1 = tmp0 XOR in2; out5 = tmp1 XOR in7;
       out6 = tmp1 XOR in3; out7 = out6 XOR in4; out0 = out7 XOR in5; out1 = out0 XOR in6;
       out3 = out0 XOR in0 XOR in7
     in [out0, out1, out2, out3, out4, out5, out6, out7])"

definition gf8_muladd_F4 :: "chunk \<Rightarrow> chunk \<Rightarrow> chunk" where
  "gf8_muladd_F4 = muladd_loop (\<lambda>in0 in1 in2 in3 in4 in5 in6 in7.
     let out2 = in0 XOR in1 XOR in2; tmp0 = out2 XOR in3; out4 = tmp0 XOR in4; out5 = out4 XOR in5;
       out6 = out5 XOR in6; out7 = out6 XOR in7; out0 = out7 XOR in0; out1 = out0 XOR in1; out3 = tmp0 XOR out7
     in [out0, out1, out2, out3, out4, out5, out6, out7])"

definition gf8_muladd_F5 :: "chunk \<Rightarrow> chunk \<Rightarrow> chunk" where
  "gf8_muladd_F5 = muladd_loop (\<lambda>in0 in1 in2 in3 in4 in5 in6 in7.
     let out2 = in0 XOR in1; tmp0 = out2 XOR in2; out4 = tmp0 XOR in3; out5 = out4 XOR in4;
       out6 = out5 XOR in5; out7 = out6 XOR in6; out0 = out7 XOR in7; out1 = out0 XOR in0; out3 = tmp0 XOR out0
     in [out0, out1, out2, out3, out4, out5, out6, out7])"

definition gf8_muladd_F6 :: "chunk \<Rightarrow> chunk \<Rightarrow> chunk" where
  "gf8_muladd_F6 = muladd_loop (\<lambda>in0 in1 in2 in3 in4 in5 in6 in7.
     let tmp0 = in0 XOR in7; out2 = tmp0 XOR in2; out4 = out2 XOR in1 XOR in4; out7 = out4 XOR in3 XOR in5;
       out5 = out7 XOR in4 XOR in7; out0 = tmp0 XOR out7 XOR in6; tmp1 = out0 XOR in1;
       out6 = out0 XOR in0 XOR in5; out3 = tmp1 XOR in3; out1 = tmp0 XOR tmp1
     in [out0, out1, out2, out3, out4, out5, out6, out7])"

definition gf8_muladd_F7 :: "chunk \<Rightarrow> chunk \<Rightarrow> chunk" where
  "gf8_muladd_F7 = muladd_loop (\<lambda>in0 in1 in2 in3 in4 in5 in6 in7.
     let out2 = in0 XOR in7; tmp0 = out2 XOR in1; out4 = tmp0 XOR in2; out5 = out4 XOR in3 XOR in7;
       out6 = out5 XOR in4; out7 = out6 XOR in5; out0 = out7 XOR in6; out1 = out0 XOR in7; out3 = tmp0 XOR out1
     in [out0, out1, out2, out3, out4, out5, out6, out7])"

definition gf8_muladd_F8 :: "chunk \<Rightarrow> chunk \<Rightarrow> chunk" where
  "gf8_muladd_F8 = muladd_loop (\<lambda>in0 in1 in2 in3 in4 in5 in6 in7.
     let tmp0 = in0 XOR in4; tmp1 = in3 XOR in5; tmp2 = tmp0 XOR in6; out4 = tmp0 XOR tmp1;
       out1 = tmp1 XOR in2 XOR in4; out3 = tmp2 XOR in1; out5 = out3 XOR in5; out7 = out1 XOR out5 XOR in7;
       out6 = tmp1 XOR out7; out0 = tmp2 XOR out7; out2 = out6 XOR in0
     in [out0, out1, out2, out3, out4, out5, out6, out7])"

definition gf8_muladd_F9 :: "chunk \<Rightarrow> chunk \<Rightarrow> chunk" where
  "gf8_muladd_F9 = muladd_loop (\<lambda>in0 in1 in2 in3 in4 in5 in6 in7.
     let tmp0 = in3 XOR in5; tmp1 = in0 XOR in6; out4 = tmp0 XOR in0; tmp2 = tmp1 XOR in4; tmp3 = tmp1 XOR in2;
       out5 = tmp2 XOR in1; out3 = out5 XOR in3; tmp4 = tmp3 XOR out3; out1 = tmp4 XOR in5;
       out0 = tmp4 XOR in0 XOR in7; out6 = tmp0 XOR out0 XOR in4; out7 = tmp2 XOR tmp4; out2 = tmp3 XOR out6
     in [out0, out1, out2, out3, out4, out5, out6, out7])"

definition gf8_muladd_FA :: "chunk \<Rightarrow> chunk \<Rightarrow> chunk" where
  "gf8_muladd_FA = muladd_loop (\<lambda>in0 in1 in2 in3 in4 in5 in6 in7.
     let tmp0 = in0 XOR in1; tmp1 = tmp0 XOR in2; tmp2 = tmp0 XOR in5; tmp3 = tmp1 XOR in7;
       out5 = tmp2 XOR in6; out6 = tmp3 XOR in6; out7 = tmp3 XOR in3; out3 = out6 XOR in4;
       out2 = tmp1 XOR out5; out4 = out2 XOR out3 XOR in1; out0 = out4 XOR out7 XOR in5; out1 = tmp2 XOR out0
     in [out0, out1, out2, out3, out4, out5, out6, out7])"

definition gf8_muladd_FB :: "chunk \<Rightarrow> chunk \<Rightarrow> chunk" where
  "gf8_muladd_FB = muladd_loop (\<lambda>in0 in1 in2 in3 in4 in5 in6 in7.
     let out2 = in5 XOR in6; tmp0 = in0 XOR in1; out4 = in0 XOR in5 XOR in7; out5 = tmp0 XOR in6;
       tmp1 = tmp0 XOR in2; out6 = tmp1 XOR in7; out7 = tmp1 XOR in3; out0 = out7 XOR in4; out1 = out0 XOR in5;
       out3 = out0 XOR in6 XOR in7
     in [out0, out1, out2, out3, out4, out5, out6, out7])"

definition gf8_muladd_FC :: "chunk \<Rightarrow> chunk \<Rightarrow> chunk" where
  "gf8_muladd_FC = muladd_loop (\<lambda>in0 in1 in2 in3 in4 in5 in6 in7.
     let tmp0 = in1 XOR in2; tmp1 = in0 XOR in7; out2 = tmp0 XOR tmp1 XOR in5; out3 = tmp1 XOR in4;
       tmp2 = out2 XOR in6; out6 = tmp2 XOR in4; out7 = tmp2 XOR in3; out4 = out6 XOR in1 XOR in3;
       tmp3 = out4 XOR in0; out1 = tmp3 XOR in6; out0 = tmp3 XOR in1 XOR in5; out5 = tmp0 XOR out4
     in [out0, out1, out2, out3, out4, out5, out6, out7])"

definition gf8_muladd_FD :: "chunk \<Rightarrow> chunk \<Rightarrow> chunk" where
  "gf8_muladd_FD = muladd_loop (\<lambda>in0 in1 in2 in3 in4 in5 in6 in7.
     let tmp0 = in0 XOR in5; tmp1 = in1 XOR in7; out2 = tmp0 XOR tmp1; out6 = out2 XOR in2 XOR in4;
       tmp2 = out6 XOR in0; out1 = tmp2 XOR in3; out0 = tmp0 XOR out1 XOR in6; out5 = out0 XOR in2;
       tmp3 = out5 XOR in1; out3 = tmp3 XOR in6; out7 = tmp2 XOR tmp3; out4 = tmp1 XOR out7
     in [out0, out1, out2, out3, out4, out5, out6, out7])"

definition gf8_muladd_FE :: "chunk \<Rightarrow> chunk \<Rightarrow> chunk" where
  "gf8_muladd_FE = muladd_loop (\<lambda>in0 in1 in2 in3 in4 in5 in6 in7.
     let tmp0 = in0 XOR in2; out2 = tmp0 XOR in5; out3 = tmp0 XOR in4; tmp1 = out3 XOR in6;
       out4 = tmp1 XOR in5; tmp2 = tmp1 XOR in1; out6 = tmp2 XOR in7; tmp3 = tmp2 XOR in0; out0 = tmp3 XOR in3;
       tmp4 = out0 XOR out4 XOR in7; out5 = tmp4 XOR in6; out7 = tmp4 XOR in2; out1 = tmp3 XOR out5
     in [out0, out1, out2, out3, out4, out5, out6, out7])"

definition gf8_muladd_FF :: "chunk \<Rightarrow> chunk \<Rightarrow> chunk" where
  "gf8_muladd_FF = muladd_loop (\<lambda>in0 in1 in2 in3 in4 in5 in6 in7.
     let out2 = in0 XOR in5; tmp0 = in4 XOR in7; tmp1 = out2 XOR in2; out4 = tmp1 XOR in6;
       out7 = tmp1 XOR in1 XOR in3; out1 = tmp0 XOR out7; tmp2 = out1 XOR in5; out6 = tmp2 XOR in3;
       tmp3 = tmp2 XOR in7; out0 = tmp3 XOR in6; out3 = tmp3 XOR in1; out5 = tmp0 XOR out0 XOR in2
     in [out0, out1, out2, out3, out4, out5, out6, out7])"

lemma muladd_C0_CF:
  "gf8_muladd_C0 = muladd_ref 0xc0" "gf8_muladd_C1 = muladd_ref 0xc1" "gf8_muladd_C2 = muladd_ref 0xc2"
  "gf8_muladd_C3 = muladd_ref 0xc3" "gf8_muladd_C4 = muladd_ref 0xc4" "gf8_muladd_C5 = muladd_ref 0xc5"
  "gf8_muladd_C6 = muladd_ref 0xc6" "gf8_muladd_C7 = muladd_ref 0xc7" "gf8_muladd_C8 = muladd_ref 0xc8"
  "gf8_muladd_C9 = muladd_ref 0xc9" "gf8_muladd_CA = muladd_ref 0xca" "gf8_muladd_CB = muladd_ref 0xcb"
  "gf8_muladd_CC = muladd_ref 0xcc" "gf8_muladd_CD = muladd_ref 0xcd" "gf8_muladd_CE = muladd_ref 0xce"
  "gf8_muladd_CF = muladd_ref 0xcf"
  by (simp_all add: muladd_simps
      gf8_muladd_C0_def gf8_muladd_C1_def gf8_muladd_C2_def gf8_muladd_C3_def gf8_muladd_C4_def gf8_muladd_C5_def
      gf8_muladd_C6_def gf8_muladd_C7_def gf8_muladd_C8_def gf8_muladd_C9_def gf8_muladd_CA_def gf8_muladd_CB_def
      gf8_muladd_CC_def gf8_muladd_CD_def gf8_muladd_CE_def gf8_muladd_CF_def)

lemma muladd_D0_DF:
  "gf8_muladd_D0 = muladd_ref 0xd0" "gf8_muladd_D1 = muladd_ref 0xd1" "gf8_muladd_D2 = muladd_ref 0xd2"
  "gf8_muladd_D3 = muladd_ref 0xd3" "gf8_muladd_D4 = muladd_ref 0xd4" "gf8_muladd_D5 = muladd_ref 0xd5"
  "gf8_muladd_D6 = muladd_ref 0xd6" "gf8_muladd_D7 = muladd_ref 0xd7" "gf8_muladd_D8 = muladd_ref 0xd8"
  "gf8_muladd_D9 = muladd_ref 0xd9" "gf8_muladd_DA = muladd_ref 0xda" "gf8_muladd_DB = muladd_ref 0xdb"
  "gf8_muladd_DC = muladd_ref 0xdc" "gf8_muladd_DD = muladd_ref 0xdd" "gf8_muladd_DE = muladd_ref 0xde"
  "gf8_muladd_DF = muladd_ref 0xdf"
  by (simp_all add: muladd_simps
      gf8_muladd_D0_def gf8_muladd_D1_def gf8_muladd_D2_def gf8_muladd_D3_def gf8_muladd_D4_def gf8_muladd_D5_def
      gf8_muladd_D6_def gf8_muladd_D7_def gf8_muladd_D8_def gf8_muladd_D9_def gf8_muladd_DA_def gf8_muladd_DB_def
      gf8_muladd_DC_def gf8_muladd_DD_def gf8_muladd_DE_def gf8_muladd_DF_def)

lemma muladd_E0_EF:
  "gf8_muladd_E0 = muladd_ref 0xe0" "gf8_muladd_E1 = muladd_ref 0xe1" "gf8_muladd_E2 = muladd_ref 0xe2"
  "gf8_muladd_E3 = muladd_ref 0xe3" "gf8_muladd_E4 = muladd_ref 0xe4" "gf8_muladd_E5 = muladd_ref 0xe5"
  "gf8_muladd_E6 = muladd_ref 0xe6" "gf8_muladd_E7 = muladd_ref 0xe7" "gf8_muladd_E8 = muladd_ref 0xe8"
  "gf8_muladd_E9 = muladd_ref 0xe9" "gf8_muladd_EA = muladd_ref 0xea" "gf8_muladd_EB = muladd_ref 0xeb"
  "gf8_muladd_EC = muladd_ref 0xec" "gf8_muladd_ED = muladd_ref 0xed" "gf8_muladd_EE = muladd_ref 0xee"
  "gf8_muladd_EF = muladd_ref 0xef"
  by (simp_all add: muladd_simps
      gf8_muladd_E0_def gf8_muladd_E1_def gf8_muladd_E2_def gf8_muladd_E3_def gf8_muladd_E4_def gf8_muladd_E5_def
      gf8_muladd_E6_def gf8_muladd_E7_def gf8_muladd_E8_def gf8_muladd_E9_def gf8_muladd_EA_def gf8_muladd_EB_def
      gf8_muladd_EC_def gf8_muladd_ED_def gf8_muladd_EE_def gf8_muladd_EF_def)

lemma muladd_F0_FF:
  "gf8_muladd_F0 = muladd_ref 0xf0" "gf8_muladd_F1 = muladd_ref 0xf1" "gf8_muladd_F2 = muladd_ref 0xf2"
  "gf8_muladd_F3 = muladd_ref 0xf3" "gf8_muladd_F4 = muladd_ref 0xf4" "gf8_muladd_F5 = muladd_ref 0xf5"
  "gf8_muladd_F6 = muladd_ref 0xf6" "gf8_muladd_F7 = muladd_ref 0xf7" "gf8_muladd_F8 = muladd_ref 0xf8"
  "gf8_muladd_F9 = muladd_ref 0xf9" "gf8_muladd_FA = muladd_ref 0xfa" "gf8_muladd_FB = muladd_ref 0xfb"
  "gf8_muladd_FC = muladd_ref 0xfc" "gf8_muladd_FD = muladd_ref 0xfd" "gf8_muladd_FE = muladd_ref 0xfe"
  "gf8_muladd_FF = muladd_ref 0xff"
  by (simp_all add: muladd_simps
      gf8_muladd_F0_def gf8_muladd_F1_def gf8_muladd_F2_def gf8_muladd_F3_def gf8_muladd_F4_def gf8_muladd_F5_def
      gf8_muladd_F6_def gf8_muladd_F7_def gf8_muladd_F8_def gf8_muladd_F9_def gf8_muladd_FA_def gf8_muladd_FB_def
      gf8_muladd_FC_def gf8_muladd_FD_def gf8_muladd_FE_def gf8_muladd_FF_def)

end
