(* ===== verification/Ec_Code_C.thy ===== *)
theory Ec_Code_C
  imports Ec_Galois Ec_Muladd0 Ec_Muladd1 Ec_Muladd2 Ec_Muladd3
begin

text \<open>
  The portable code of the erasure code, the end of \<open>xlators/cluster/ec/src/ec-code-c.c\<close>: the table
  of the 256 routines, the preparation of a row of coefficients, and the two functions that combine
  chunks by a row, one for chunks that follow one another in a buffer and one for chunks in separate
  buffers.

  A buffer is its sequence of 64-bit words, offsets are in bytes.  The combination of separate
  buffers reads behind its row where all coefficients are zero; the model returns \<open>None\<close> there.
\<close>

unbundle bit_operations_syntax

section \<open>Operations\<close>

definition gf8_muladd :: "(chunk \<Rightarrow> chunk \<Rightarrow> chunk) list" where
  "gf8_muladd = [
    gf8_muladd_00, gf8_muladd_01, gf8_muladd_02, gf8_muladd_03, gf8_muladd_04, gf8_muladd_05, gf8_muladd_06, gf8_muladd_07,
    gf8_muladd_08, gf8_muladd_09, gf8_muladd_0A, gf8_muladd_0B, gf8_muladd_0C, gf8_muladd_0D, gf8_muladd_0E, gf8_muladd_0F,
    gf8_muladd_10, gf8_muladd_11, gf8_muladd_12, gf8_muladd_13, gf8_muladd_14, gf8_muladd_15, gf8_muladd_16, gf8_muladd_17,
    gf8_muladd_18, gf8_muladd_19, gf8_muladd_1A, gf8_muladd_1B, gf8_muladd_1C, gf8_muladd_1D, gf8_muladd_1E, gf8_muladd_1F,
    gf8_muladd_20, gf8_muladd_21, gf8_muladd_22, gf8_muladd_23, gf8_muladd_24, gf8_muladd_25, gf8_muladd_26, gf8_muladd_27,
    gf8_muladd_28, gf8_muladd_29, gf8_muladd_2A, gf8_muladd_2B, gf8_muladd_2C, gf8_muladd_2D, gf8_muladd_2E, gf8_muladd_2F,
    gf8_muladd_30, gf8_muladd_31, gf8_muladd_32, gf8_muladd_33, gf8_muladd_34, gf8_muladd_35, gf8_muladd_36, gf8_muladd_37,
    gf8_muladd_38, gf8_muladd_39, gf8_muladd_3A, gf8_muladd_3B, gf8_muladd_3C, gf8_muladd_3D, gf8_muladd_3E, gf8_muladd_3F,
    gf8_muladd_40, gf8_muladd_41, gf8_muladd_42, gf8_muladd_43, gf8_muladd_44, gf8_muladd_45, gf8_muladd_46, gf8_muladd_47,
    gf8_muladd_48, gf8_muladd_49, gf8_muladd_4A, gf8_muladd_4B, gf8_muladd_4C, gf8_muladd_4D, gf8_muladd_4E, gf8_muladd_4F,
    gf8_muladd_50, gf8_muladd_51, gf8_muladd_52, gf8_muladd_53, gf8_muladd_54, gf8_muladd_55, gf8_muladd_56, gf8_muladd_57,
    gf8_muladd_58, gf8_muladd_59, gf8_muladd_5A, gf8_muladd_5B, gf8_muladd_5C, gf8_muladd_5D, gf8_muladd_5E, gf8_muladd_5F,
    gf8_muladd_60, gf8_muladd_61, gf8_muladd_62, gf8_muladd_63, gf8_muladd_64, gf8_muladd_65, gf8_muladd_66, gf8_muladd_67,
    gf8_muladd_68, gf8_muladd_69, gf8_muladd_6A, gf8_muladd_6B, gf8_muladd_6C, gf8_muladd_6D, gf8_muladd_6E, gf8_muladd_6F,
    gf8_muladd_70, gf8_muladd_71, gf8_muladd_72, gf8_muladd_73, gf8_muladd_74, gf8_muladd_75, gf8_muladd_76, gf8_muladd_77,
    gf8_muladd_78, gf8_muladd_79, gf8_muladd_7A, gf8_muladd_7B, gf8_muladd_7C, gf8_muladd_7D, gf8_muladd_7E, gf8_muladd_7F,
    gf8_muladd_80, gf8_muladd_81, gf8_muladd_82, gf8_muladd_83, gf8_muladd_84, gf8_muladd_85, gf8_muladd_86, gf8_muladd_87,
    gf8_muladd_88, gf8_muladd_89, gf8_muladd_8A, gf8_muladd_8B, gf8_muladd_8C, gf8_muladd_8D, gf8_muladd_8E, gf8_muladd_8F,
    gf8_muladd_90, gf8_muladd_91, gf8_muladd_92, gf8_muladd_93, gf8_muladd_94, gf8_muladd_95, gf8_muladd_96, gf8_muladd_97,
    gf8_muladd_98, gf8_muladd_99, gf8_muladd_9A, gf8_muladd_9B, gf8_muladd_9C, gf8_muladd_9D, gf8_muladd_9E, gf8_muladd_9F,
    gf8_muladd_A0, gf8_muladd_A1, gf8_muladd_A2, gf8_muladd_A3, gf8_muladd_A4, gf8_muladd_A5, gf8_muladd_A6, gf8_muladd_A7,
    gf8_muladd_A8, gf8_muladd_A9, gf8_muladd_AA, gf8_muladd_AB, gf8_muladd_AC, gf8_muladd_AD, gf8_muladd_AE, gf8_muladd_AF,
    gf8_muladd_B0, gf8_muladd_B1, gf8_muladd_B2, gf8_muladd_B3, gf8_muladd_B4, gf8_muladd_B5, gf8_muladd_B6, gf8_muladd_B7,
    gf8_muladd_B8, gf8_muladd_B9, gf8_muladd_BA, gf8_muladd_BB, gf8_muladd_BC, gf8_muladd_BD, gf8_muladd_BE, gf8_muladd_BF,
    gf8_muladd_C0, gf8_muladd_C1, gf8_muladd_C2, gf8_muladd_C3, gf8_muladd_C4, gf8_muladd_C5, gf8_muladd_C6, gf8_muladd_C7,
    gf8_muladd_C8, gf8_muladd_C9, gf8_muladd_CA, gf8_muladd_CB, gf8_muladd_CC, gf8_muladd_CD, gf8_muladd_CE, gf8_muladd_CF,
    gf8_muladd_D0, gf8_muladd_D1, gf8_muladd_D2, gf8_muladd_D3, gf8_muladd_D4, gf8_muladd_D5, gf8_muladd_D6, gf8_muladd_D7,
    gf8_muladd_D8, gf8_muladd_D9, gf8_muladd_DA, gf8_muladd_DB, gf8_muladd_DC, gf8_muladd_DD, gf8_muladd_DE, gf8_muladd_DF,
    gf8_muladd_E0, gf8_muladd_E1, gf8_muladd_E2, gf8_muladd_E3, gf8_muladd_E4, gf8_muladd_E5, gf8_muladd_E6, gf8_muladd_E7,
    gf8_muladd_E8, gf8_muladd_E9, gf8_muladd_EA, gf8_muladd_EB, gf8_muladd_EC, gf8_muladd_ED, gf8_muladd_EE, gf8_muladd_EF,
    gf8_muladd_F0, gf8_muladd_F1, gf8_muladd_F2, gf8_muladd_F3, gf8_muladd_F4, gf8_muladd_F5, gf8_muladd_F6, gf8_muladd_F7,
    gf8_muladd_F8, gf8_muladd_F9, gf8_muladd_FA, gf8_muladd_FB, gf8_muladd_FC, gf8_muladd_FD, gf8_muladd_FE, gf8_muladd_FF]"

definition zero :: chunk where
  "zero = replicate 64 0"

text \<open>The coefficients are divided from the last to the first by the next one that is not zero.\<close>

fun prepare_loop :: "ec_gf \<Rightarrow> u32 list \<Rightarrow> u32 list \<times> u32" where
  "prepare_loop gf [] = ([], 1)"
| "prepare_loop gf (v # vs) =
     (let (vs, lst) = prepare_loop gf vs
      in if v \<noteq> 0 then (ec_gf_div gf v lst # vs, v) else (v # vs, lst))"

definition ec_code_c_prepare :: "ec_gf \<Rightarrow> u32 list \<Rightarrow> u32 list" where
  "ec_code_c_prepare gf values = fst (prepare_loop gf values)"

definition chunk_at :: "u64 list \<Rightarrow> nat \<Rightarrow> chunk" where
  "chunk_at buf offset = take 64 (drop (offset div 8) buf)"

fun linear_loop :: "nat \<Rightarrow> chunk \<Rightarrow> u64 list \<Rightarrow> nat \<Rightarrow> u32 list \<Rightarrow> chunk" where
  "linear_loop 0 dst src offset values = dst"
| "linear_loop (Suc n) dst src offset values =
     (let offset = offset + EC_METHOD_CHUNK_SIZE
      in linear_loop n ((gf8_muladd ! unat (hd values)) dst (chunk_at src offset)) src offset (tl values))"

definition ec_code_c_linear :: "chunk \<Rightarrow> u64 list \<Rightarrow> nat \<Rightarrow> u32 list \<Rightarrow> u32 \<Rightarrow> chunk" where
  "ec_code_c_linear dst src offset values count =
     linear_loop (unat (count - 1)) (gf8_muladd_00 dst (chunk_at src offset)) src offset values"

fun skip_zeros :: "nat \<Rightarrow> u32 list \<Rightarrow> (nat \<times> u32 \<times> u32 list) option" where
  "skip_zeros i [] = None"
| "skip_zeros i (v # vs) = (if v = 0 then skip_zeros (i + 1) vs else Some (i, v, vs))"

fun interleaved_loop :: "u64 list list \<Rightarrow> nat \<Rightarrow> u32 list \<Rightarrow> nat \<Rightarrow> u32 \<Rightarrow> chunk \<Rightarrow> u32 \<times> chunk" where
  "interleaved_loop src offset [] i lst dst = (lst, dst)"
| "interleaved_loop src offset (v # vs) i lst dst =
     (if v \<noteq> 0 then interleaved_loop src offset vs (i + 1) v ((gf8_muladd ! unat lst) dst (chunk_at (src ! i) offset))
      else interleaved_loop src offset vs (i + 1) lst dst)"

definition ec_code_c_interleaved :: "chunk \<Rightarrow> u64 list list \<Rightarrow> nat \<Rightarrow> u32 list \<Rightarrow> u32 \<Rightarrow> chunk option" where
  "ec_code_c_interleaved dst src offset values count =
     do {
       (i, lst, vs) \<leftarrow> skip_zeros 0 values;
       let dst = gf8_muladd_00 dst (chunk_at (src ! i) offset);
       let (lst, dst) = interleaved_loop src offset (take (unat count - (i + 1)) vs) (i + 1) lst dst;
       Some ((gf8_muladd ! unat lst) dst zero)
     }"

section \<open>The table\<close>

lemma muladd_codes: "map word_of_nat [1..<256] = ([
    0x01, 0x02, 0x03, 0x04, 0x05, 0x06, 0x07, 0x08, 0x09, 0x0a, 0x0b, 0x0c, 0x0d, 0x0e, 0x0f,
    0x10, 0x11, 0x12, 0x13, 0x14, 0x15, 0x16, 0x17, 0x18, 0x19, 0x1a, 0x1b, 0x1c, 0x1d, 0x1e, 0x1f,
    0x20, 0x21, 0x22, 0x23, 0x24, 0x25, 0x26, 0x27, 0x28, 0x29, 0x2a, 0x2b, 0x2c, 0x2d, 0x2e, 0x2f,
    0x30, 0x31, 0x32, 0x33, 0x34, 0x35, 0x36, 0x37, 0x38, 0x39, 0x3a, 0x3b, 0x3c, 0x3d, 0x3e, 0x3f,
    0x40, 0x41, 0x42, 0x43, 0x44, 0x45, 0x46, 0x47, 0x48, 0x49, 0x4a, 0x4b, 0x4c, 0x4d, 0x4e, 0x4f,
    0x50, 0x51, 0x52, 0x53, 0x54, 0x55, 0x56, 0x57, 0x58, 0x59, 0x5a, 0x5b, 0x5c, 0x5d, 0x5e, 0x5f,
    0x60, 0x61, 0x62, 0x63, 0x64, 0x65, 0x66, 0x67, 0x68, 0x69, 0x6a, 0x6b, 0x6c, 0x6d, 0x6e, 0x6f,
    0x70, 0x71, 0x72, 0x73, 0x74, 0x75, 0x76, 0x77, 0x78, 0x79, 0x7a, 0x7b, 0x7c, 0x7d, 0x7e, 0x7f,
    0x80, 0x81, 0x82, 0x83, 0x84, 0x85, 0x86, 0x87, 0x88, 0x89, 0x8a, 0x8b, 0x8c, 0x8d, 0x8e, 0x8f,
    0x90, 0x91, 0x92, 0x93, 0x94, 0x95, 0x96, 0x97, 0x98, 0x99, 0x9a, 0x9b, 0x9c, 0x9d, 0x9e, 0x9f,
    0xa0, 0xa1, 0xa2, 0xa3, 0xa4, 0xa5, 0xa6, 0xa7, 0xa8, 0xa9, 0xaa, 0xab, 0xac, 0xad, 0xae, 0xaf,
    0xb0, 0xb1, 0xb2, 0xb3, 0xb4, 0xb5, 0xb6, 0xb7, 0xb8, 0xb9, 0xba, 0xbb, 0xbc, 0xbd, 0xbe, 0xbf,
    0xc0, 0xc1, 0xc2, 0xc3, 0xc4, 0xc5, 0xc6, 0xc7, 0xc8, 0xc9, 0xca, 0xcb, 0xcc, 0xcd, 0xce, 0xcf,
    0xd0, 0xd1, 0xd2, 0xd3, 0xd4, 0xd5, 0xd6, 0xd7, 0xd8, 0xd9, 0xda, 0xdb, 0xdc, 0xdd, 0xde, 0xdf,
    0xe0, 0xe1, 0xe2, 0xe3, 0xe4, 0xe5, 0xe6, 0xe7, 0xe8, 0xe9, 0xea, 0xeb, 0xec, 0xed, 0xee, 0xef,
    0xf0, 0xf1, 0xf2, 0xf3, 0xf4, 0xf5, 0xf6, 0xf7, 0xf8, 0xf9, 0xfa, 0xfb, 0xfc, 0xfd, 0xfe, 0xff] :: u8 list)"
  by code_simp

lemma muladd_table: "gf8_muladd = gf8_muladd_00 # map (muladd_ref \<circ> word_of_nat) [1..<256]"
  unfolding gf8_muladd_def map_map [symmetric] muladd_codes list.map
    muladd_00_0F muladd_10_1F muladd_20_2F muladd_30_3F muladd_40_4F muladd_50_5F muladd_60_6F muladd_70_7F
    muladd_80_8F muladd_90_9F muladd_A0_AF muladd_B0_BF muladd_C0_CF muladd_D0_DF muladd_E0_EF muladd_F0_FF
  by (rule refl)

lemma gf8_muladd_00_element: "is_chunk out \<Longrightarrow> is_chunk inp \<Longrightarrow> gf8_muladd_00 out inp = inp"
  by (simp add: gf8_muladd_00_def is_chunk_def)

text \<open>Each entry of the table multiplies the elements of the output by its index and adds those of the input.\<close>

lemma gf8_muladd_element:
  assumes "is_chunk out" "is_chunk inp" "j < 512"
  shows "element ((gf8_muladd ! unat (val g)) out inp) j = g * element out j + element inp j"
    "is_chunk ((gf8_muladd ! unat (val g)) out inp)"
proof -
  have "element ((gf8_muladd ! unat (val g)) out inp) j = g * element out j + element inp j \<and> is_chunk ((gf8_muladd ! unat (val g)) out inp)"
  proof (cases "g = 0")
    case True
    then show ?thesis using assms(1,2) by (simp add: muladd_table gf8_muladd_00_element)
  next
    case False
    have "val g = 0 \<longleftrightarrow> g = 0" by (metis val_inject val_zero(1))
    then have n: "0 < unat (val g)" "unat (val g) < 256" using False unat_val [of g] by (simp_all add: unat_gt_0)
    then have "gf8_muladd ! unat (val g) = muladd_ref (word_of_nat (unat (val g)))"
      by (cases "unat (val g)") (simp_all add: muladd_table del: of_nat_unat)
    moreover have "Gf (word_of_nat (unat (val g))) = g"
      by (metis byte_inverse of_nat_unat ucast_id unat_ucast_u8 val_def)
    ultimately show ?thesis using muladd_ref_element [OF assms(1,3)] by simp
  qed
  then show "element ((gf8_muladd ! unat (val g)) out inp) j = g * element out j + element inp j"
    "is_chunk ((gf8_muladd ! unat (val g)) out inp)" by blast+
qed

lemma is_chunk_zero [simp]: "is_chunk zero"
  by (simp add: is_chunk_def zero_def)

lemma element_zero: "j < 512 \<Longrightarrow> element zero j = 0"
proof -
  assume j: "j < 512"
  have "column zero (j div 64) = replicate 8 0"
    by (rule nth_equalityI) (use j in \<open>auto simp: column_def zero_def\<close>)
  then have "plane_byte (column zero (j div 64)) (j mod 64) = 0"
    by (intro byte_eqI) (simp add: bit_plane_byte)
  then show ?thesis by (simp add: element_def zero_gf256_def)
qed

section \<open>Combining chunks\<close>

text \<open>The sum of the elements of several chunks times coefficients.\<close>

definition lin :: "gf256 list \<Rightarrow> gf256 list \<Rightarrow> gf256" where
  "lin vs xs = (\<Sum>(v, x) \<leftarrow> zip vs xs. v * x)"

lemma lin_simps [simp]: "lin [] xs = 0" "lin vs [] = 0" "lin (v # vs) (x # xs) = v * x + lin vs xs"
  by (simp_all add: lin_def)

fun prepared :: "gf256 list \<Rightarrow> gf256 list \<times> gf256" where
  "prepared [] = ([], 1)"
| "prepared (v # vs) = (let (ws, l) = prepared vs in if v \<noteq> 0 then (v / l # ws, v) else (v # ws, l))"

lemma prepared_nonzero: "snd (prepared vs) \<noteq> 0"
  by (induction vs) (auto simp: Let_def split: prod.split if_split)

lemma prepare_loop_val:
  assumes "valid_gf gf"
  shows "prepare_loop gf (map val vs) = (map val (fst (prepared vs)), val (snd (prepared vs)))"
proof (induction vs)
  case (Cons v vs)
  have "val v = 0 \<longleftrightarrow> v = 0" by (metis val_inject val_zero(1))
  then show ?case using Cons gf_div_val [OF assms prepared_nonzero [of vs], of v] by (auto simp: Let_def split: prod.split)
qed simp

lemma interleaved_loop_element:
  assumes "is_chunk dst" "j < 512" "\<And>k. k < length vs \<Longrightarrow> is_chunk (chunk_at (src ! (i + k)) offset)"
  shows "\<exists>l d. interleaved_loop src offset (map val (fst (prepared vs))) i (val (m / snd (prepared vs))) dst = (val l, d) \<and>
     is_chunk d \<and> l * element d j = m * element dst j + lin vs (map (\<lambda>k. element (chunk_at (src ! (i + k)) offset) j) [0..<length vs])"
  using assms
proof (induction vs arbitrary: i m dst)
  case (Cons v vs)
  let ?c = "chunk_at (src ! i) offset"
  have c: "is_chunk ?c" using Cons.prems(3) [of 0] by simp
  have c': "is_chunk (chunk_at (src ! (Suc i + k)) offset)" if "k < length vs" for k
    using Cons.prems(3) [of "Suc k"] that by simp
  have up: "map (\<lambda>k. element (chunk_at (src ! (i + k)) offset) j) [0..<length (v # vs)] =
    element ?c j # map (\<lambda>k. element (chunk_at (src ! (Suc i + k)) offset) j) [0..<length vs]"
    by (simp add: map_upt_Suc del: upt_Suc)
  have v0: "val x = 0 \<longleftrightarrow> x = 0" for x by (metis val_inject val_zero(1))
  let ?l = "snd (prepared vs)"
  show ?case
  proof (cases "v = 0")
    case True
    then show ?thesis using Cons.IH [OF Cons.prems(1,2) c', of m] unfolding up by (auto simp: Let_def v0 split: prod.split)
  next
    case False
    let ?d = "(gf8_muladd ! unat (val (m / v))) dst ?c"
    note e = gf8_muladd_element [OF Cons.prems(1) c Cons.prems(2), of "m / v"]
    have "interleaved_loop src offset (map val (fst (prepared (v # vs)))) i (val (m / snd (prepared (v # vs)))) dst =
      interleaved_loop src offset (map val (fst (prepared vs))) (Suc i) (val (v / ?l)) ?d"
      using False prepared_nonzero [of vs] by (auto simp: Let_def v0 split: prod.split)
    moreover have "v * element ?d j = m * element dst j + v * element ?c j" unfolding e(1) using False by (simp add: algebra_simps)
    ultimately show ?thesis using Cons.IH [OF e(2) Cons.prems(2) c', of v] unfolding up by (auto simp: add.assoc)
  qed
qed auto

lemma split_first_nonzero:
  assumes "\<exists>v \<in> set vs. v \<noteq> (0 :: 'a::zero)"
  obtains z v r where "vs = replicate z 0 @ v # r" "v \<noteq> 0"
proof -
  obtain xs v r where v: "vs = xs @ v # r" "v \<noteq> 0" "\<forall>x \<in> set xs. \<not> x \<noteq> 0" using split_list_first_propE [OF assms] by metis
  then have "xs = replicate (length xs) 0" using replicate_length_same by fastforce
  then show ?thesis using that v by metis
qed

lemma prepared_zeros: "v \<noteq> 0 \<Longrightarrow> prepared (replicate z 0 @ v # r) = (replicate z 0 @ v / snd (prepared r) # fst (prepared r), v)"
  by (induction z) (auto simp: Let_def split: prod.split)

lemma skip_zeros_zeros: "v \<noteq> 0 \<Longrightarrow> skip_zeros i (replicate z 0 @ v # r) = Some (i + z, v, r)"
  by (induction z arbitrary: i) auto

lemma length_prepared [simp]: "length (fst (prepared vs)) = length vs"
  by (induction vs) (auto simp: Let_def split: prod.split)

lemma val_eq_0 [simp]: "val g = 0 \<longleftrightarrow> g = 0"
  by (metis val_inject val_zero(1))

lemma lin_zeros: "lin (replicate z 0 @ v # r) (map f [0..<length (replicate z 0 @ v # r)]) = v * f z + lin r (map (\<lambda>k. f (Suc z + k)) [0..<length r])"
proof (induction z arbitrary: f)
  case 0
  show ?case by (simp add: map_upt_Suc del: upt_Suc)
next
  case (Suc z)
  show ?case using Suc [of "\<lambda>k. f (Suc k)"] by (simp add: map_upt_Suc del: upt_Suc)
qed

lemma c_interleaved_element:
  assumes "valid_gf gf" "\<exists>v \<in> set vs. v \<noteq> 0" "length vs < 2 ^ 32" "is_chunk dst"
    "\<And>k. k < length vs \<Longrightarrow> is_chunk (chunk_at (src ! k) offset)"
  shows "\<exists>d. ec_code_c_interleaved dst src offset (ec_code_c_prepare gf (map val vs)) (of_nat (length vs)) = Some d \<and> is_chunk d \<and>
    (\<forall>j < 512. element d j = lin vs (map (\<lambda>k. element (chunk_at (src ! k) offset) j) [0..<length vs]))"
proof -
  obtain z v r where vs: "vs = replicate z 0 @ v # r" "v \<noteq> 0" using split_first_nonzero [OF assms(2)] .
  let ?c = "chunk_at (src ! z) offset" and ?l = "v / snd (prepared r)"
  have c: "is_chunk ?c" using assms(5) [of z] vs by simp
  have c': "is_chunk (chunk_at (src ! (Suc z + k)) offset)" if "k < length r" for k using assms(5) [of "Suc z + k"] that vs by simp
  have l: "?l \<noteq> 0" using vs(2) prepared_nonzero by simp
  obtain lst d where loop: "interleaved_loop src offset (map val (fst (prepared r))) (Suc z) (val ?l) ?c = (lst, d)" by fastforce
  have e: "is_chunk d \<and> (\<exists>l. lst = val l \<and> l * element d j =
      v * element ?c j + lin r (map (\<lambda>k. element (chunk_at (src ! (Suc z + k)) offset) j) [0..<length r]))" if "j < 512" for j
    using interleaved_loop_element [OF c that c', where vs = r and m = v] loop by auto
  then obtain m where m: "lst = val m" by (metis zero_less_numeral)
  have lin_vs: "lin vs (map f [0..<length vs]) = v * f z + lin r (map (\<lambda>k. f (Suc z + k)) [0..<length r])" for f
    unfolding vs(1) by (rule lin_zeros)
  have n: "unat (of_nat (length vs) :: u32) = length vs" using assms(3) by (simp add: unat_of_nat)
  have "ec_code_c_interleaved dst src offset (ec_code_c_prepare gf (map val vs)) (of_nat (length vs)) = Some ((gf8_muladd ! unat (val m)) d zero)"
    using loop m l unfolding ec_code_c_interleaved_def ec_code_c_prepare_def prepare_loop_val [OF assms(1)] vs(1) prepared_zeros [OF vs(2)] fst_conv
      n [unfolded vs(1)]
    by (simp add: skip_zeros_zeros gf8_muladd_00_element [OF assms(4) c])
  moreover have "element ((gf8_muladd ! unat (val m)) d zero) j = lin vs (map (\<lambda>k. element (chunk_at (src ! k) offset) j) [0..<length vs])"
    if j: "j < 512" for j
    unfolding lin_vs
    using e [OF j] m val_inject gf8_muladd_element(1) [OF _ is_chunk_zero j, of d m] element_zero [OF j] by auto
  ultimately show ?thesis using e [of 0] gf8_muladd_element(2) [OF _ is_chunk_zero, of d 0 m] by auto
qed

lemma linear_loop_element:
  assumes "is_chunk dst" "\<forall>x \<in> set (v # vs). x \<noteq> 0" "\<And>k. k < length vs \<Longrightarrow> is_chunk (chunk_at src (offset + 512 * Suc k))"
  shows "is_chunk (linear_loop (length vs) dst src offset (map val (fst (prepared (v # vs))))) \<and>
    (\<forall>j < 512. last (v # vs) * element (linear_loop (length vs) dst src offset (map val (fst (prepared (v # vs))))) j =
       v * element dst j + lin vs (map (\<lambda>k. element (chunk_at src (offset + 512 * Suc k)) j) [0..<length vs]))"
  using assms
proof (induction vs arbitrary: v dst offset)
  case (Cons w vs)
  let ?c = "chunk_at src (offset + 512)"
  have c: "is_chunk ?c" using Cons.prems(3) [of 0] by simp
  have c': "is_chunk (chunk_at src (offset + 512 + 512 * Suc k))" if "k < length vs" for k
    using Cons.prems(3) [of "Suc k"] that by (simp add: add.assoc)
  let ?d = "(gf8_muladd ! unat (val (v / w))) dst ?c"
  have w: "w \<noteq> 0" using Cons.prems(2) by simp
  have d: "is_chunk ?d" "\<And>j. j < 512 \<Longrightarrow> element ?d j = v / w * element dst j + element ?c j"
    using gf8_muladd_element(1) [OF Cons.prems(1) c] gf8_muladd_element(2) [OF Cons.prems(1) c, of 0] by simp_all
  have "linear_loop (length (w # vs)) dst src offset (map val (fst (prepared (v # w # vs)))) =
    linear_loop (length vs) ?d src (offset + 512) (map val (fst (prepared (w # vs))))"
    using Cons.prems(2) by (auto simp: Let_def split: prod.split)
  moreover have "map (\<lambda>k. element (chunk_at src (offset + 512 * Suc k)) j) [0..<length (w # vs)] =
    element ?c j # map (\<lambda>k. element (chunk_at src (offset + 512 + 512 * Suc k)) j) [0..<length vs]" for j
    by (simp add: map_upt_Suc add.assoc del: upt_Suc)
  moreover have "w * element ?d j = v * element dst j + w * element ?c j" if "j < 512" for j
    unfolding d(2) [OF that] using w by (simp add: algebra_simps)
  ultimately show ?case using Cons.IH [OF d(1) _ c', of w] Cons.prems(2) by (simp add: add.assoc)
qed auto

lemma c_linear_element:
  assumes "valid_gf gf" "vs \<noteq> []" "\<forall>v \<in> set vs. v \<noteq> 0" "last vs = 1" "length vs < 2 ^ 32" "is_chunk dst"
    "\<And>k. k < length vs \<Longrightarrow> is_chunk (chunk_at src (offset + 512 * k))"
  shows "is_chunk (ec_code_c_linear dst src offset (ec_code_c_prepare gf (map val vs)) (of_nat (length vs))) \<and>
    (\<forall>j < 512. element (ec_code_c_linear dst src offset (ec_code_c_prepare gf (map val vs)) (of_nat (length vs))) j =
       lin vs (map (\<lambda>k. element (chunk_at src (offset + 512 * k)) j) [0..<length vs]))"
proof -
  obtain v ws where vs: "vs = v # ws" using assms(2) by (cases vs) auto
  have c: "is_chunk (chunk_at src offset)" using assms(7) [of 0] vs by simp
  have c': "is_chunk (chunk_at src (offset + 512 * Suc k))" if "k < length ws" for k using assms(7) [of "Suc k"] that vs by simp
  have n: "unat (of_nat (length vs) - 1 :: u32) = length ws" using assms(5) vs by (simp add: unat_of_nat)
  have "ec_code_c_linear dst src offset (ec_code_c_prepare gf (map val vs)) (of_nat (length vs)) =
    linear_loop (length ws) (chunk_at src offset) src offset (map val (fst (prepared (v # ws))))"
    unfolding ec_code_c_linear_def ec_code_c_prepare_def prepare_loop_val [OF assms(1)] n gf8_muladd_00_element [OF assms(6) c]
    by (simp add: vs)
  moreover have "map (\<lambda>k. element (chunk_at src (offset + 512 * k)) j) [0..<length vs] =
      element (chunk_at src offset) j # map (\<lambda>k. element (chunk_at src (offset + 512 * Suc k)) j) [0..<length ws]" for j
    by (simp add: vs map_upt_Suc del: upt_Suc)
  ultimately show ?thesis using linear_loop_element [OF c, of v ws src offset, OF _ c'] assms(3,4) vs by (simp add: vs)
qed

section \<open>Properties\<close>

text \<open>C25: each of the 256 portable routines multiplies by its constant.  For every byte \<open>c\<close> and all chunks,
  \<open>gf8_muladd[c]\<close> replaces each of the 512 field elements of the output by \<open>c\<close> times it plus the
  element of the input.\<close>

theorem muladd_routines:
  assumes "is_chunk out" "is_chunk inp" "c < 256" "j < 512"
  shows "is_chunk ((gf8_muladd ! unat c) out inp) \<and>
    element ((gf8_muladd ! unat c) out inp) j = gf_of c * element out j + element inp j"
  using gf8_muladd_element [OF assms(1,2,4), of "gf_of c"] val_gf_of [OF assms(3)] by simp

theorem muladd_routines_witness:
  "element ((gf8_muladd ! unat (0x8e :: u32)) (replicate 64 5) (replicate 64 9)) 100 =
     gf_of 0x8e * element (replicate 64 5) 100 + element (replicate 64 9) 100"
  using muladd_routines [of "replicate 64 5" "replicate 64 9" "0x8e" 100] by (simp add: is_chunk_def)

end
