(* ===== verification/Ec_Code.thy ===== *)
theory Ec_Code
  imports Ec_Code_C
begin

text \<open>
  Code generation of the erasure code, \<open>xlators/cluster/ec/src/ec-code.c\<close>: the builder that turns a
  row of coefficients into a sequence of register operations by means of the tables of
  \<open>ec-gf8.c\<close>, and the choice between generated and portable code.

  A generator provides the operations of the builder as machine instructions on vector registers,
  and a loop that repeats them along the bit planes.  What these instructions do is the meaning of
  their names, written down for one 64-bit lane in \<open>exec_op\<close>: all of them work on each lane alike, so
  that a register of 16 or 32 bytes is two or four lanes.  The bytes of the instructions and the
  memory they are written to are not part of this theory; whether writing them succeeds is an
  argument.
\<close>

unbundle bit_operations_syntax

section \<open>The builder\<close>

abbreviation (input) EC_GF_MAX_REGS :: nat where "EC_GF_MAX_REGS \<equiv> 16"

text \<open>\<open>b_xor3\<close> tells whether the generator has an exclusive or of three operands, \<open>b_alloc\<close> is the
  number of operations the builder has room for.\<close>

record ec_code_builder =
  b_regs :: nat
  b_map :: "nat list"
  b_ops :: "ec_gf_op list"
  b_linear :: bool
  b_width :: nat
  b_xor3 :: bool
  b_alloc :: u32

definition ec_code_op_next :: "ec_gf_op \<Rightarrow> ec_code_builder \<Rightarrow> ec_code_builder" where
  "ec_code_op_next x b = b\<lparr> b_ops := b_ops b @ [x] \<rparr>"

definition ec_code_arg_assign :: "nat \<Rightarrow> ec_code_builder \<Rightarrow> ec_code_builder" where
  "ec_code_arg_assign reg b = (if b_regs b \<le> reg then b\<lparr> b_regs := reg + 1 \<rparr> else b)"

definition ec_code_load :: "nat \<Rightarrow> nat \<Rightarrow> ec_code_builder \<Rightarrow> ec_code_builder" where
  "ec_code_load k offset b =
     ec_code_arg_assign (b_map b ! k) (ec_code_op_next (Op EC_GF_OP_LOAD (b_map b ! k) offset k) b)"

definition ec_code_store :: "nat \<Rightarrow> nat \<Rightarrow> ec_code_builder \<Rightarrow> ec_code_builder" where
  "ec_code_store reg k b = ec_code_op_next (Op EC_GF_OP_STORE (b_map b ! reg) 0 k) b"

definition ec_code_copy :: "nat \<Rightarrow> nat \<Rightarrow> ec_code_builder \<Rightarrow> ec_code_builder" where
  "ec_code_copy dst src b =
     ec_code_arg_assign (b_map b ! dst) (ec_code_op_next (Op EC_GF_OP_COPY (b_map b ! dst) (b_map b ! src) 0) b)"

definition ec_code_xor2 :: "nat \<Rightarrow> nat \<Rightarrow> ec_code_builder \<Rightarrow> ec_code_builder" where
  "ec_code_xor2 dst src b = ec_code_op_next (Op EC_GF_OP_XOR2 (b_map b ! dst) (b_map b ! src) 0) b"

definition ec_code_xor3 :: "nat \<Rightarrow> nat \<Rightarrow> nat \<Rightarrow> ec_code_builder \<Rightarrow> ec_code_builder" where
  "ec_code_xor3 dst src1 src2 b =
     (if \<not> b_xor3 b then ec_code_xor2 dst src2 (ec_code_copy dst src1 b)
      else ec_code_arg_assign (b_map b ! dst)
        (ec_code_op_next (Op EC_GF_OP_XOR3 (b_map b ! dst) (b_map b ! src1) (b_map b ! src2)) b))"

definition ec_code_xorm :: "nat \<Rightarrow> nat \<Rightarrow> ec_code_builder \<Rightarrow> ec_code_builder" where
  "ec_code_xorm k offset b = ec_code_op_next (Op EC_GF_OP_XORM (b_map b ! k) offset k) b"

definition ec_code_dup :: "ec_gf_op \<Rightarrow> ec_code_builder \<Rightarrow> ec_code_builder" where
  "ec_code_dup x b =
     (case op x of
        EC_GF_OP_COPY \<Rightarrow> ec_code_copy (arg1 x) (arg2 x) b
      | EC_GF_OP_XOR2 \<Rightarrow> ec_code_xor2 (arg1 x) (arg2 x) b
      | EC_GF_OP_XOR3 \<Rightarrow> ec_code_xor3 (arg1 x) (arg2 x) (arg3 x) b
      | _ \<Rightarrow> b)"

definition ec_code_gf_load :: "ec_gf \<Rightarrow> nat \<Rightarrow> ec_code_builder \<Rightarrow> ec_code_builder" where
  "ec_code_gf_load gf offset = fold (\<lambda>i. ec_code_load i offset) [0..<unat (gf_bits gf)]"

definition ec_code_gf_load_xor :: "ec_gf \<Rightarrow> nat \<Rightarrow> ec_code_builder \<Rightarrow> ec_code_builder" where
  "ec_code_gf_load_xor gf offset = fold (\<lambda>i. ec_code_xorm i offset) [0..<unat (gf_bits gf)]"

definition ec_code_gf_store :: "ec_gf \<Rightarrow> ec_code_builder \<Rightarrow> ec_code_builder" where
  "ec_code_gf_store gf = fold (\<lambda>i. ec_code_store i i) [0..<unat (gf_bits gf)]"

definition ec_code_gf_clear :: "ec_gf \<Rightarrow> ec_code_builder \<Rightarrow> ec_code_builder" where
  "ec_code_gf_clear gf b = fold (\<lambda>i. ec_code_store 0 i) [0..<unat (gf_bits gf)] (ec_code_xor2 0 0 b)"

definition table_ops :: "ec_gf_mul_t \<Rightarrow> ec_gf_op list" where
  "table_ops t = takeWhile (\<lambda>x. op x \<noteq> EC_GF_OP_END) (ops t)"

definition ec_code_gf_mul :: "ec_gf \<Rightarrow> u32 \<Rightarrow> ec_code_builder \<Rightarrow> ec_code_builder" where
  "ec_code_gf_mul gf v b =
     (let t = gf_table gf ! unat v;
          b = fold ec_code_dup (table_ops t) b
      in b\<lparr> b_map := map (\<lambda>i. b_map b ! (reg_map t ! i)) [0..<regs t] @ drop (regs t) (b_map b) \<rparr>)"

definition ec_code_prepare :: "ec_gf \<Rightarrow> bool \<Rightarrow> u32 \<Rightarrow> nat \<Rightarrow> bool \<Rightarrow> ec_code_builder" where
  "ec_code_prepare gf xor3 count width linear =
     \<lparr> b_regs = 0, b_map = [0..<EC_GF_MAX_REGS], b_ops = [], b_linear = linear, b_width = width, b_xor3 = xor3,
       b_alloc = count * (gf_bits gf + max_ops gf) + gf_bits gf \<rparr>"

text \<open>The next coefficient that is not zero, from place \<open>i\<close> on.\<close>

function ec_code_value_next :: "u32 list \<Rightarrow> nat \<Rightarrow> u32 \<times> nat" where
  "ec_code_value_next values i =
     (if i < length values then if values ! i \<noteq> 0 then (values ! i, i) else ec_code_value_next values (i + 1) else (0, i))"
  by pat_completeness auto
termination by (relation "measure (\<lambda>(values, i). length values - i)") auto

declare ec_code_value_next.simps [simp del]

lemma value_next_place: "ec_code_value_next values i = (v, k) \<Longrightarrow> v \<noteq> 0 \<Longrightarrow> i \<le> k \<and> k < length values"
proof (induction "values" i rule: ec_code_value_next.induct)
  case (1 vs i)
  show ?case using 1 ec_code_value_next.simps [of vs i] by (auto split: if_splits)
qed

function build_loop :: "ec_gf \<Rightarrow> u32 list \<Rightarrow> u32 \<Rightarrow> nat \<Rightarrow> ec_code_builder \<Rightarrow> u32 \<times> ec_code_builder" where
  "build_loop gf values v offset b =
     (case ec_code_value_next values (offset + 1) of (nxt, k) \<Rightarrow>
        if nxt = 0 then (v, b)
        else build_loop gf values nxt k (ec_code_gf_load_xor gf k (ec_code_gf_mul gf (ec_gf_div gf v nxt) b)))"
  by pat_completeness auto
termination
  by (relation "measure (\<lambda>(gf, values, v, offset, b). length values - offset)") (auto dest!: value_next_place [OF sym])

declare build_loop.simps [simp del]

definition ec_code_build_dynamic :: "ec_gf \<Rightarrow> bool \<Rightarrow> nat \<Rightarrow> u32 list \<Rightarrow> bool \<Rightarrow> ec_code_builder" where
  "ec_code_build_dynamic gf xor3 width values linear =
     (let b = ec_code_prepare gf xor3 (of_nat (length values)) width linear
      in case ec_code_value_next values 0 of (nxt, offset) \<Rightarrow>
           if nxt \<noteq> 0 then
             case build_loop gf values nxt offset (ec_code_gf_load gf offset b) of (v, b) \<Rightarrow>
               ec_code_gf_store gf (ec_code_gf_mul gf v b)
           else ec_code_gf_clear gf b)"

section \<open>What the operations do\<close>

type_synonym lane = "(nat \<Rightarrow> u64) \<times> u64 list"

text \<open>\<open>mem offset k\<close> is the word of the lane in plane \<open>k\<close> of chunk \<open>offset\<close>.\<close>

definition exec_op :: "(nat \<Rightarrow> nat \<Rightarrow> u64) \<Rightarrow> ec_gf_op \<Rightarrow> lane \<Rightarrow> lane" where
  "exec_op mem x = (\<lambda>(r, out).
     case op x of
       EC_GF_OP_LOAD \<Rightarrow> (r(arg1 x := mem (arg2 x) (arg3 x)), out)
     | EC_GF_OP_STORE \<Rightarrow> (r, out[arg3 x := r (arg1 x)])
     | EC_GF_OP_COPY \<Rightarrow> (r(arg1 x := r (arg2 x)), out)
     | EC_GF_OP_XOR2 \<Rightarrow> (r(arg1 x := r (arg1 x) XOR r (arg2 x)), out)
     | EC_GF_OP_XOR3 \<Rightarrow> (r(arg1 x := r (arg2 x) XOR r (arg3 x)), out)
     | EC_GF_OP_XORM \<Rightarrow> (r(arg1 x := r (arg1 x) XOR mem (arg2 x) (arg3 x)), out)
     | EC_GF_OP_END \<Rightarrow> (r, out))"

text \<open>\<open>ec_code_write\<close> hands the operations to the generator one after the other.\<close>

definition ec_code_write :: "ec_code_builder \<Rightarrow> (nat \<Rightarrow> nat \<Rightarrow> u64) \<Rightarrow> lane \<Rightarrow> lane" where
  "ec_code_write b mem = fold (exec_op mem) (b_ops b)"

definition run_code :: "ec_code_builder \<Rightarrow> (nat \<Rightarrow> chunk) \<Rightarrow> (nat \<Rightarrow> u64) \<Rightarrow> chunk \<Rightarrow> chunk" where
  "run_code b src regs0 dst =
     fold (\<lambda>i dst.
       let out = snd (ec_code_write b (\<lambda>offset k. src offset ! (i + WIDTH * k)) (regs0, column dst i))
       in fold (\<lambda>k c. c[i + WIDTH * k := out ! k]) [0..<8] dst) [0..<WIDTH] dst"

section \<open>The tables multiply\<close>

text \<open>A register that is a sum of the registers 0 to 7 at the start is described by the summands, eight
  truth values; the empty list stands for any other contents.\<close>

type_synonym mask = "bool list"

definition mask_xor :: "mask \<Rightarrow> mask \<Rightarrow> mask" where
  "mask_xor m n = map2 (\<noteq>) m n"

definition mask_step :: "ec_gf_op \<Rightarrow> mask list \<Rightarrow> mask list" where
  "mask_step x ms =
     (case op x of
        EC_GF_OP_COPY \<Rightarrow> ms[arg1 x := ms ! arg2 x]
      | EC_GF_OP_XOR2 \<Rightarrow> ms[arg1 x := mask_xor (ms ! arg1 x) (ms ! arg2 x)]
      | EC_GF_OP_XOR3 \<Rightarrow> ms[arg1 x := mask_xor (ms ! arg2 x) (ms ! arg3 x)]
      | _ \<Rightarrow> ms)"

definition unit_masks :: "mask list" where
  "unit_masks = map (\<lambda>k. map (\<lambda>j. j = k) [0..<8]) [0..<8]"

definition op_ok :: "ec_gf_op \<Rightarrow> bool" where
  "op_ok x \<longleftrightarrow> arg1 x < 16 \<and> arg2 x < 16 \<and> arg3 x < 16 \<and>
     (op x = EC_GF_OP_COPY \<or> op x = EC_GF_OP_XOR2 \<or> op x = EC_GF_OP_XOR3 \<and> arg1 x \<noteq> arg3 x)"

text \<open>The masks of the products by all bytes of \<open>n\<close> bits.\<close>

fun mask_xtime :: "mask list \<Rightarrow> mask list" where
  "mask_xtime [a, b, c, d, e, f, g, h] = [h, a, mask_xor b h, mask_xor c h, mask_xor d h, e, f, g]"
| "mask_xtime ms = ms"

primrec product_masks :: "mask list \<Rightarrow> nat \<Rightarrow> mask list list" where
  "product_masks u 0 = [replicate 8 (replicate 8 False)]"
| "product_masks u (Suc n) = concat (map (\<lambda>r. let r2 = mask_xtime r in [r2, map2 mask_xor r2 u]) (product_masks u n))"

definition table_ok :: "mask list \<Rightarrow> mask list \<Rightarrow> ec_gf_mul_t \<Rightarrow> bool" where
  "table_ok start goal t \<longleftrightarrow> list_all op_ok (table_ops t) \<and> 8 \<le> regs t \<and> regs t \<le> 16 \<and> length (reg_map t) = regs t \<and>
     distinct (reg_map t) \<and> list_all (\<lambda>i. i < regs t) (reg_map t) \<and>
     (let ms = fold mask_step (table_ops t) start in map (\<lambda>i. ms ! i) (take 8 (reg_map t)) = goal)"

lemma tables_checked: "list_all2 (table_ok (unit_masks @ replicate 8 [])) (tl (product_masks unit_masks 8)) (tl ec_gf8_mul)"
  by code_simp

primrec sum_from :: "nat \<Rightarrow> (nat \<Rightarrow> u64) \<Rightarrow> mask \<Rightarrow> u64" where
  "sum_from i r [] = 0"
| "sum_from i r (x # m) = (if x then r i XOR sum_from (Suc i) r m else sum_from (Suc i) r m)"

definition combine :: "(nat \<Rightarrow> u64) \<Rightarrow> mask \<Rightarrow> u64" where
  "combine r m = sum_from 0 r m"

lemma sum_from_xor: "length m = length n \<Longrightarrow> sum_from i r (mask_xor m n) = sum_from i r m XOR sum_from i r n"
proof (induction m n arbitrary: i rule: list_induct2)
  case (Cons x m y n)
  then have "sum_from (Suc i) r (map2 (\<noteq>) m n) = sum_from (Suc i) r m XOR sum_from (Suc i) r n" by (simp add: mask_xor_def)
  then show ?case by (cases x; cases y) (simp_all add: mask_xor_def xor_ac)
qed (simp add: mask_xor_def)

lemma combine_xor: "length m = length n \<Longrightarrow> combine r (mask_xor m n) = combine r m XOR combine r n"
  by (simp add: combine_def sum_from_xor)

lemma length_mask_xor [simp]: "length (mask_xor m n) = min (length m) (length n)"
  by (simp add: mask_xor_def)

lemma combine_units: "map (combine r) unit_masks = map r [0..<8]"
  by (simp add: combine_def unit_masks_def upt_conv_Cons)

definition masks8 :: "mask list \<Rightarrow> bool" where
  "masks8 ms \<longleftrightarrow> length ms = 8 \<and> (\<forall>m \<in> set ms. length m = 8)"

lemma masks8_units: "masks8 unit_masks"
  by (auto simp: masks8_def unit_masks_def)

lemma masks8_cases: "masks8 ms \<Longrightarrow> \<exists>a b c d e f g h. ms = [a, b, c, d, e, f, g, h]"
  by (auto simp: masks8_def numeral_eq_Suc length_Suc_conv)

lemma combine_xtime:
  assumes "masks8 ms"
  shows "map (combine r) (mask_xtime ms) = xtime_planes (map (combine r) ms)" "masks8 (mask_xtime ms)"
proof -
  obtain a b c d e f g h where ms: "ms = [a, b, c, d, e, f, g, h]" using masks8_cases [OF assms] by blast
  then show "map (combine r) (mask_xtime ms) = xtime_planes (map (combine r) ms)" using assms by (simp add: masks8_def combine_xor)
  show "masks8 (mask_xtime ms)" using assms ms by (simp add: masks8_def)
qed

lemma combine_add:
  assumes "masks8 ms" "masks8 ns"
  shows "map (combine r) (map2 mask_xor ms ns) = xor_planes (map (combine r) ms) (map (combine r) ns)" "masks8 (map2 mask_xor ms ns)"
proof -
  have "length (ms ! k) = 8" "length (ns ! k) = 8" if "k < 8" for k using that assms by (auto simp: masks8_def)
  then show "map (combine r) (map2 mask_xor ms ns) = xor_planes (map (combine r) ms) (map (combine r) ns)"
    using assms by (intro nth_equalityI) (auto simp: masks8_def xor_planes_def combine_xor)
  show "masks8 (map2 mask_xor ms ns)" using assms by (auto simp: masks8_def elim!: in_set_zipE)
qed

lemma concat_pairs:
  "length (concat (map (\<lambda>r. [f r, g r]) xs)) = 2 * length xs"
  "i < length xs \<Longrightarrow> concat (map (\<lambda>r. [f r, g r]) xs) ! (2 * i) = f (xs ! i)"
  "i < length xs \<Longrightarrow> concat (map (\<lambda>r. [f r, g r]) xs) ! (2 * i + 1) = g (xs ! i)"
proof -
  show "length (concat (map (\<lambda>r. [f r, g r]) xs)) = 2 * length xs" by (induction xs) auto
  have "i < length xs \<Longrightarrow> concat (map (\<lambda>r. [f r, g r]) xs) ! (2 * i) = f (xs ! i) \<and> concat (map (\<lambda>r. [f r, g r]) xs) ! (2 * i + 1) = g (xs ! i)"
    for i by (induction xs arbitrary: i) (auto simp: nth_Cons split: nat.split)
  then show "i < length xs \<Longrightarrow> concat (map (\<lambda>r. [f r, g r]) xs) ! (2 * i) = f (xs ! i)"
    "i < length xs \<Longrightarrow> concat (map (\<lambda>r. [f r, g r]) xs) ! (2 * i + 1) = g (xs ! i)" by blast+
qed

lemma double_bytes:
  "list_all (\<lambda>m. word_of_nat (2 * m) = xtime (word_of_nat m) \<and> word_of_nat (2 * m + 1) = xtime (word_of_nat m) XOR (1 :: u8)) [0..<128]"
  by code_simp

lemma mul8_xtime: "mul8 x (xtime y) = xtime (mul8 x y)"
  unfolding mul8_commute [of x] by (simp add: mul8_def mul_bits_xtime)

lemma mul8_xor2: "mul8 x (y XOR z) = mul8 x y XOR mul8 x z"
  unfolding mul8_commute [of x] by (rule mul8_xor)

lemma product_masks_mul:
  assumes "n \<le> 8"
  shows "length (product_masks unit_masks n) = 2 ^ n \<and> (\<forall>m < 2 ^ n. masks8 (product_masks unit_masks n ! m) \<and>
    plane_byte (map (combine r) (product_masks unit_masks n ! m)) b = mul8 (plane_byte (map r [0..<8]) b) (word_of_nat m))"
  using assms
proof (induction n)
  case 0
  have "sum_from i r (replicate n False) = 0" for i n by (induction n arbitrary: i) auto
  then have "plane_byte (map (combine r) (replicate 8 (replicate 8 False))) b = 0"
    by (intro byte_eqI) (simp add: bit_plane_byte combine_def)
  then show ?case by (simp add: masks8_def mul8_def)
next
  case (Suc n)
  let ?P = "product_masks unit_masks" and ?x = "plane_byte (map r [0..<8]) b"
  let ?g = "\<lambda>ms. map2 mask_xor (mask_xtime ms) unit_masks"
  have IH: "length (?P n) = 2 ^ n" "\<And>m. m < 2 ^ n \<Longrightarrow> masks8 (?P n ! m)"
    "\<And>m. m < 2 ^ n \<Longrightarrow> plane_byte (map (combine r) (?P n ! m)) b = mul8 ?x (word_of_nat m)" using Suc by auto
  have P: "?P (Suc n) = concat (map (\<lambda>ms. [mask_xtime ms, ?g ms]) (?P n))" by (simp add: Let_def)
  have "masks8 (?P (Suc n) ! m) \<and> plane_byte (map (combine r) (?P (Suc n) ! m)) b = mul8 ?x (word_of_nat m)" if m: "m < 2 ^ Suc n" for m
  proof -
    define h where "h = m div 2"
    have h: "h < 2 ^ n" using m by (auto simp: h_def)
    have "(2::nat) ^ n \<le> 2 ^ 7" using Suc.prems by (intro power_increasing) auto
    then have "h \<in> set [0..<128]" using h by simp
    then have w: "word_of_nat (2 * h) = xtime (word_of_nat h)" "word_of_nat (2 * h + 1) = xtime (word_of_nat h) XOR (1 :: u8)"
      using double_bytes unfolding list_all_iff by blast+
    note x = combine_xtime(1) [OF IH(2) [OF h], of r] combine_xtime(2) [OF IH(2) [OF h]]
    note a = combine_add(1) [OF x(2) masks8_units, of r] combine_add(2) [OF x(2) masks8_units]
    have lx: "length (map (combine r) (?P n ! h)) = 8" using IH(2) [OF h] by (simp add: masks8_def)
    have px: "plane_byte (map (combine r) (mask_xtime (?P n ! h))) b = mul8 ?x (xtime (word_of_nat h))"
      unfolding x(1) plane_byte_xtime [OF lx] IH(3) [OF h] mul8_xtime ..
    have pa: "plane_byte (map (combine r) (?g (?P n ! h))) b = mul8 ?x (xtime (word_of_nat h) XOR 1)"
    proof -
      have l: "length (map (combine r) (mask_xtime (?P n ! h))) = 8" "length (map r [0..<8]) = 8"
        using x(2) by (simp_all add: masks8_def)
      have "mul8 ?x 1 = ?x" using one_mul8 [of ?x] mul8_commute [of ?x 1] by simp
      then show ?thesis unfolding a(1) combine_units plane_byte_xor [OF l] px mul8_xor2 by simp
    qed
    show ?thesis
    proof (cases "even m")
      case True
      then have m2: "m = 2 * h" by (simp add: h_def)
      have "?P (Suc n) ! m = mask_xtime (?P n ! h)" unfolding P m2 using h IH(1) by (intro concat_pairs(2)) simp
      then show ?thesis using x(2) px w(1) m2 by simp
    next
      case False
      then have m2: "m = 2 * h + 1" by (simp add: h_def)
      have "?P (Suc n) ! m = ?g (?P n ! h)" unfolding P m2 using h IH(1) by (intro concat_pairs(3)) simp
      then show ?thesis using a(2) pa w(2) m2 by (simp only: simp_thms)
    qed
  qed
  moreover have "length (?P (Suc n)) = 2 ^ Suc n" unfolding P concat_pairs(1) using IH(1) by simp
  ultimately show ?case by blast
qed

section \<open>The registers of the builder\<close>

text \<open>The contents of the register the builder calls \<open>k\<close> after the operations so far, and the output.\<close>

definition reg :: "ec_code_builder \<Rightarrow> (nat \<Rightarrow> nat \<Rightarrow> u64) \<Rightarrow> lane \<Rightarrow> nat \<Rightarrow> u64" where
  "reg b mem s k = fst (ec_code_write b mem s) (b_map b ! k)"

definition out_of :: "ec_code_builder \<Rightarrow> (nat \<Rightarrow> nat \<Rightarrow> u64) \<Rightarrow> lane \<Rightarrow> u64 list" where
  "out_of b mem s = snd (ec_code_write b mem s)"

definition wf_map :: "ec_code_builder \<Rightarrow> bool" where
  "wf_map b \<longleftrightarrow> length (b_map b) = 16 \<and> distinct (b_map b)"

lemma write_next: "ec_code_write (ec_code_op_next x b) mem s = exec_op mem x (ec_code_write b mem s)"
  by (simp add: ec_code_write_def ec_code_op_next_def)

lemma write_assign [simp]: "ec_code_write (ec_code_arg_assign k b) mem s = ec_code_write b mem s" "b_map (ec_code_arg_assign k b) = b_map b"
  "b_xor3 (ec_code_arg_assign k b) = b_xor3 b"
  by (simp_all add: ec_code_write_def ec_code_arg_assign_def)

lemma next_keeps [simp]: "b_map (ec_code_op_next x b) = b_map b" "b_xor3 (ec_code_op_next x b) = b_xor3 b"
  by (simp_all add: ec_code_op_next_def)

lemma map_inj: "wf_map b \<Longrightarrow> i < 16 \<Longrightarrow> k < 16 \<Longrightarrow> b_map b ! i = b_map b ! k \<longleftrightarrow> i = k"
  by (simp add: wf_map_def nth_eq_iff_index_eq)

lemmas builder_defs = ec_code_load_def ec_code_store_def ec_code_copy_def ec_code_xor2_def ec_code_xor3_def ec_code_xorm_def

lemma load_reg:
  assumes "wf_map b" "i < 16" "k < 16"
  shows "reg (ec_code_load i offset b) mem s k = (if k = i then mem offset i else reg b mem s k)"
  using map_inj [OF assms(1,3,2)] by (simp add: reg_def ec_code_load_def write_next exec_op_def split: prod.split)

lemma xorm_reg:
  assumes "wf_map b" "i < 16" "k < 16"
  shows "reg (ec_code_xorm i offset b) mem s k = (if k = i then reg b mem s i XOR mem offset i else reg b mem s k)"
  using map_inj [OF assms(1,3,2)] by (simp add: reg_def ec_code_xorm_def write_next exec_op_def split: prod.split)

definition dup_value :: "ec_gf_op \<Rightarrow> (nat \<Rightarrow> u64) \<Rightarrow> u64" where
  "dup_value x r =
     (case op x of EC_GF_OP_COPY \<Rightarrow> r (arg2 x) | EC_GF_OP_XOR2 \<Rightarrow> r (arg1 x) XOR r (arg2 x) | _ \<Rightarrow> r (arg2 x) XOR r (arg3 x))"

lemma dup_reg:
  assumes "wf_map b" "op_ok x" "k < 16"
  shows "reg (ec_code_dup x b) mem s k = (if k = arg1 x then dup_value x (reg b mem s) else reg b mem s k)"
    "out_of (ec_code_dup x b) mem s = out_of b mem s" "b_map (ec_code_dup x b) = b_map b" "b_xor3 (ec_code_dup x b) = b_xor3 b"
proof -
  have a: "arg1 x < 16" "arg3 x < 16" "op x = EC_GF_OP_XOR3 \<longrightarrow> arg1 x \<noteq> arg3 x" using assms(2) by (auto simp: op_ok_def)
  note m = map_inj [OF assms(1,3) a(1)] map_inj [OF assms(1) a(2,1)]
  consider "op x = EC_GF_OP_COPY" | "op x = EC_GF_OP_XOR2" | "op x = EC_GF_OP_XOR3" using assms(2) by (auto simp: op_ok_def)
  note c = this
  show "reg (ec_code_dup x b) mem s k = (if k = arg1 x then dup_value x (reg b mem s) else reg b mem s k)"
    by (cases rule: c) (use m a(3) in \<open>simp_all add: reg_def ec_code_dup_def dup_value_def builder_defs write_next exec_op_def split: prod.split\<close>)
  show "out_of (ec_code_dup x b) mem s = out_of b mem s" "b_map (ec_code_dup x b) = b_map b" "b_xor3 (ec_code_dup x b) = b_xor3 b"
    by (cases rule: c; simp add: out_of_def ec_code_dup_def builder_defs write_next exec_op_def split: prod.split)+
qed

text \<open>The masks describe the registers.\<close>

definition described :: "(nat \<Rightarrow> u64) \<Rightarrow> mask list \<Rightarrow> (nat \<Rightarrow> u64) \<Rightarrow> bool" where
  "described r0 ms r \<longleftrightarrow> length ms = 16 \<and> (\<forall>k < 16. ms ! k = [] \<or> length (ms ! k) = 8 \<and> r k = combine r0 (ms ! k))"

lemma mask_xor_described:
  assumes "m = [] \<or> length m = 8 \<and> x = combine r0 m" "n = [] \<or> length n = 8 \<and> y = combine r0 n"
  shows "mask_xor m n = [] \<or> length (mask_xor m n) = 8 \<and> x XOR y = combine r0 (mask_xor m n)"
  using assms by (auto simp: combine_xor) (simp_all add: mask_xor_def)

lemma described_step:
  assumes "described r0 ms (reg b mem s)" "wf_map b" "op_ok x"
  shows "described r0 (mask_step x ms) (reg (ec_code_dup x b) mem s)"
proof -
  have a: "arg1 x < 16" "arg2 x < 16" "arg3 x < 16" using assms(3) by (auto simp: op_ok_def)
  let ?r = "reg b mem s"
  have d: "length ms = 16" "\<And>k. k < 16 \<Longrightarrow> ms ! k = [] \<or> length (ms ! k) = 8 \<and> ?r k = combine r0 (ms ! k)"
    using assms(1) by (auto simp: described_def)
  have "\<exists>m. mask_step x ms = ms[arg1 x := m] \<and> (m = [] \<or> length m = 8 \<and> dup_value x ?r = combine r0 m)"
    using d(2) [OF a(2)] mask_xor_described [OF d(2) [OF a(1)] d(2) [OF a(2)]] mask_xor_described [OF d(2) [OF a(2)] d(2) [OF a(3)]] assms(3)
    by (auto simp: mask_step_def dup_value_def op_ok_def)
  then obtain m where m: "mask_step x ms = ms[arg1 x := m]" "m = [] \<or> length m = 8 \<and> dup_value x ?r = combine r0 m" by blast
  show ?thesis unfolding described_def m(1) using d m(2) dup_reg(1) [OF assms(2,3)] by (auto simp: nth_list_update)
qed

lemma described_ops:
  assumes "described r0 ms (reg b mem s)" "wf_map b" "list_all op_ok xs"
  shows "described r0 (fold mask_step xs ms) (reg (fold ec_code_dup xs b) mem s) \<and>
    out_of (fold ec_code_dup xs b) mem s = out_of b mem s \<and> b_map (fold ec_code_dup xs b) = b_map b"
  using assms
proof (induction xs arbitrary: ms b)
  case (Cons x xs)
  then have x: "op_ok x" by simp
  have "wf_map (ec_code_dup x b)" using Cons.prems(2) dup_reg(3) [OF Cons.prems(2) x, of 0] by (simp add: wf_map_def)
  then show ?case
    using Cons.IH [OF described_step [OF Cons.prems(1,2) x]] Cons.prems(3) dup_reg(2,3) [OF Cons.prems(2) x, of 0] by simp
qed simp

lemma table_entry:
  assumes "c \<in> {1..<256}"
  shows "table_ok (unit_masks @ replicate 8 []) (product_masks unit_masks 8 ! c) (ec_gf8_mul ! c)"
proof -
  have l: "length (product_masks unit_masks 8) = 256" using product_masks_mul [of 8] by simp
  note t = tables_checked [unfolded list_all2_conv_all_nth]
  have c: "c - 1 < length (tl (product_masks unit_masks 8))" "c - 1 < length (tl ec_gf8_mul)" "Suc (c - 1) = c"
    using assms l t by auto
  with t have "table_ok (unit_masks @ replicate 8 []) (tl (product_masks unit_masks 8) ! (c - 1)) (tl ec_gf8_mul ! (c - 1))" by blast
  then show ?thesis unfolding nth_tl [OF c(1)] nth_tl [OF c(2)] c(3) .
qed

section \<open>The field elements in the registers\<close>

definition elem :: "ec_code_builder \<Rightarrow> (nat \<Rightarrow> nat \<Rightarrow> u64) \<Rightarrow> lane \<Rightarrow> nat \<Rightarrow> gf256" where
  "elem b mem s p = Gf (plane_byte (map (reg b mem s) [0..<8]) p)"

definition mem_elem :: "(nat \<Rightarrow> nat \<Rightarrow> u64) \<Rightarrow> nat \<Rightarrow> nat \<Rightarrow> gf256" where
  "mem_elem mem offset p = Gf (plane_byte (map (mem offset) [0..<8]) p)"

lemma described_start: "described r (unit_masks @ replicate 8 []) r"
proof -
  have "length (unit_masks ! k) = 8 \<and> r k = combine r (unit_masks ! k)" if "k < 8" for k
  proof -
    have "map (combine r) unit_masks ! k = map r [0..<8] ! k" by (simp only: combine_units)
    then show ?thesis using that masks8_units by (auto simp: masks8_def)
  qed
  moreover have "length unit_masks = 8" using masks8_units by (simp add: masks8_def)
  ultimately show ?thesis by (auto simp: described_def nth_append)
qed

lemma byte_val: "ucast (val g) = byte g"
  by (simp add: val_def ucast_u8)

lemma Gf_mul8: "Gf (mul8 x (byte c)) = c * Gf x"
proof -
  have "c * Gf x = Gf (byte c) * Gf x" by (simp only: byte_inverse)
  also have "\<dots> = Gf (mul8 (byte c) x)" by (rule times_gf256.abs_eq)
  finally show ?thesis by (simp only: mul8_commute [of x])
qed

lemma renamed_map:
  assumes "length m = 16" "distinct m" "n \<le> 16" "length p = n" "distinct p" "\<forall>i \<in> set p. i < n"
  shows "distinct (map (\<lambda>i. m ! (p ! i)) [0..<n] @ drop n m)" "length (map (\<lambda>i. m ! (p ! i)) [0..<n] @ drop n m) = 16"
proof -
  have p: "map (\<lambda>i. m ! (p ! i)) [0..<n] = map ((!) m) p" using assms(4) by (auto intro!: nth_equalityI)
  have "inj_on ((!) m) (set p)" using assms by (intro inj_on_nth) auto
  then have "distinct (map ((!) m) p)" using assms(5) by (simp add: distinct_map)
  moreover have "set (map ((!) m) p) \<inter> set (drop n m) = {}"
  proof -
    have "m ! i \<in> set (take n m)" if "i \<in> set p" for i
      using that assms nth_mem [of i "take n m"] by (auto simp: min_absorb2)
    then have "set (map ((!) m) p) \<subseteq> set (take n m)" by auto
    moreover have "set (take n m) \<inter> set (drop n m) = {}" using assms(2) by (metis append_take_drop_id distinct_append)
    ultimately show ?thesis by blast
  qed
  ultimately show "distinct (map (\<lambda>i. m ! (p ! i)) [0..<n] @ drop n m)" unfolding p using assms(2) by simp
  show "length (map (\<lambda>i. m ! (p ! i)) [0..<n] @ drop n m) = 16" using assms by simp
qed

lemma gf_mul_elem:
  assumes "prepared_gf gf" "wf_map b" "c \<noteq> 0"
  shows "elem (ec_code_gf_mul gf (val c) b) mem s p = c * elem b mem s p" "wf_map (ec_code_gf_mul gf (val c) b)"
    "out_of (ec_code_gf_mul gf (val c) b) mem s = out_of b mem s"
proof -
  let ?c = "unat (val c)" and ?r = "reg b mem s"
  have c: "?c \<in> {1..<256}" using assms(3) unat_val [of c] unat_gt_0 [of "val c"] by simp
  define t where "t = ec_gf8_mul ! ?c"
  define b1 where "b1 = fold ec_code_dup (table_ops t) b"
  define ms where "ms = fold mask_step (table_ops t) (unit_masks @ replicate 8 [])"
  let ?goal = "product_masks unit_masks 8 ! ?c"
  have t: "list_all op_ok (table_ops t)" "8 \<le> regs t" "regs t \<le> 16" "length (reg_map t) = regs t" "distinct (reg_map t)"
    "\<forall>i \<in> set (reg_map t). i < regs t" "map (\<lambda>i. ms ! i) (take 8 (reg_map t)) = ?goal"
    using table_entry [OF c] by (auto simp: table_ok_def t_def ms_def Let_def list_all_iff)
  have d: "described ?r ms (reg b1 mem s)" "out_of b1 mem s = out_of b mem s" "b_map b1 = b_map b"
    using described_ops [OF described_start assms(2) t(1)] by (auto simp: b1_def ms_def)
  let ?b = "ec_code_gf_mul gf (val c) b"
  have b: "?b = b1\<lparr> b_map := map (\<lambda>i. b_map b ! (reg_map t ! i)) [0..<regs t] @ drop (regs t) (b_map b) \<rparr>"
    using assms(1) d(3) by (simp add: ec_code_gf_mul_def prepared_gf_def t_def b1_def Let_def)
  have g: "masks8 ?goal" "plane_byte (map (combine ?r) ?goal) p = mul8 (plane_byte (map ?r [0..<8]) p) (byte c)"
    using product_masks_mul [of 8 ?r p] c by (auto simp: byte_val)
  have "reg ?b mem s k = combine ?r (?goal ! k)" if k: "k < 8" for k
  proof -
    have m: "?goal ! k = ms ! (reg_map t ! k)" unfolding t(7) [symmetric] using k t(2,4) by simp
    have i: "reg_map t ! k < 16" using t(2-4,6) k by (metis less_le_trans nth_mem)
    have "reg ?b mem s k = reg b1 mem s (reg_map t ! k)" using k t(2) d(3) by (simp add: reg_def b ec_code_write_def nth_append)
    moreover have "length (?goal ! k) = 8" using g(1) k by (auto simp: masks8_def)
    ultimately show ?thesis using d(1) i unfolding described_def m by fastforce
  qed
  then have "map (reg ?b mem s) [0..<8] = map (combine ?r) ?goal"
    using g(1) by (intro nth_equalityI) (auto simp: masks8_def)
  then show "elem ?b mem s p = c * elem b mem s p"
    unfolding elem_def by (simp only: g(2) Gf_mul8)
  show "wf_map ?b" using renamed_map [OF _ _ t(3-6), of "b_map b"] assms(2) by (simp add: wf_map_def b)
  show "out_of ?b mem s = out_of b mem s" using d(2) by (simp add: out_of_def b ec_code_write_def)
qed

lemma fold_load:
  assumes "wf_map b" "n \<le> 16"
  shows "wf_map (fold (\<lambda>i. ec_code_load i offset) [0..<n] b) \<and> out_of (fold (\<lambda>i. ec_code_load i offset) [0..<n] b) mem s = out_of b mem s \<and>
    (\<forall>k < n. reg (fold (\<lambda>i. ec_code_load i offset) [0..<n] b) mem s k = mem offset k)"
  using assms(2)
proof (induction n)
  case (Suc n)
  let ?b = "fold (\<lambda>i. ec_code_load i offset) [0..<n] b"
  have IH: "wf_map ?b" "out_of ?b mem s = out_of b mem s" "\<And>k. k < n \<Longrightarrow> reg ?b mem s k = mem offset k" using Suc by auto
  have "wf_map (ec_code_load n offset ?b)" using IH(1) by (simp add: wf_map_def ec_code_load_def)
  moreover have "out_of (ec_code_load n offset ?b) mem s = out_of b mem s"
    using IH(2) by (simp add: out_of_def ec_code_load_def write_next exec_op_def split_beta)
  ultimately show ?case using IH(3) load_reg [OF IH(1), of n] Suc.prems by (simp add: less_Suc_eq)
qed (use assms in simp)

lemma gf_load_elem:
  assumes "prepared_gf gf" "wf_map b"
  shows "elem (ec_code_gf_load gf offset b) mem s p = mem_elem mem offset p" "wf_map (ec_code_gf_load gf offset b)"
    "out_of (ec_code_gf_load gf offset b) mem s = out_of b mem s"
proof -
  let ?b = "fold (\<lambda>i. ec_code_load i offset) [0..<8] b"
  have b: "ec_code_gf_load gf offset b = ?b" using assms(1) by (simp add: ec_code_gf_load_def prepared_gf_def)
  note f = fold_load [OF assms(2), of 8 offset mem s]
  have "map (reg ?b mem s) [0..<8] = map (mem offset) [0..<8]" using f by (intro map_cong) auto
  then show "elem (ec_code_gf_load gf offset b) mem s p = mem_elem mem offset p" unfolding b elem_def mem_elem_def by (simp only:)
  show "wf_map (ec_code_gf_load gf offset b)" "out_of (ec_code_gf_load gf offset b) mem s = out_of b mem s" unfolding b using f by auto
qed

lemma fold_xorm:
  assumes "wf_map b" "n \<le> 16"
  shows "wf_map (fold (\<lambda>i. ec_code_xorm i offset) [0..<n] b) \<and> out_of (fold (\<lambda>i. ec_code_xorm i offset) [0..<n] b) mem s = out_of b mem s \<and>
    (\<forall>k < 16. reg (fold (\<lambda>i. ec_code_xorm i offset) [0..<n] b) mem s k = (if k < n then reg b mem s k XOR mem offset k else reg b mem s k))"
  using assms(2)
proof (induction n)
  case (Suc n)
  let ?b = "fold (\<lambda>i. ec_code_xorm i offset) [0..<n] b"
  have IH: "wf_map ?b" "out_of ?b mem s = out_of b mem s"
    "\<And>k. k < 16 \<Longrightarrow> reg ?b mem s k = (if k < n then reg b mem s k XOR mem offset k else reg b mem s k)" using Suc by auto
  have "wf_map (ec_code_xorm n offset ?b)" using IH(1) by (simp add: wf_map_def ec_code_xorm_def)
  moreover have "out_of (ec_code_xorm n offset ?b) mem s = out_of b mem s"
    using IH(2) by (simp add: out_of_def ec_code_xorm_def write_next exec_op_def split_beta)
  ultimately show ?case using IH(3) xorm_reg [OF IH(1), of n] Suc.prems by (auto simp: less_Suc_eq)
qed (use assms in simp)

lemma gf_load_xor_elem:
  assumes "prepared_gf gf" "wf_map b"
  shows "elem (ec_code_gf_load_xor gf offset b) mem s p = elem b mem s p + mem_elem mem offset p"
    "wf_map (ec_code_gf_load_xor gf offset b)" "out_of (ec_code_gf_load_xor gf offset b) mem s = out_of b mem s"
proof -
  let ?b = "fold (\<lambda>i. ec_code_xorm i offset) [0..<8] b"
  have b: "ec_code_gf_load_xor gf offset b = ?b" using assms(1) by (simp add: ec_code_gf_load_xor_def prepared_gf_def)
  note f = fold_xorm [OF assms(2), of 8 offset mem s]
  have "map (reg ?b mem s) [0..<8] = xor_planes (map (reg b mem s) [0..<8]) (map (mem offset) [0..<8])"
    using f by (intro nth_equalityI) (auto simp: xor_planes_def)
  then show "elem (ec_code_gf_load_xor gf offset b) mem s p = elem b mem s p + mem_elem mem offset p"
    unfolding b elem_def mem_elem_def by (simp add: plane_byte_xor plus_gf256.abs_eq)
  show "wf_map (ec_code_gf_load_xor gf offset b)" "out_of (ec_code_gf_load_xor gf offset b) mem s = out_of b mem s" unfolding b using f by auto
qed

lemma store_reg: "reg (ec_code_store i k b) mem s = reg b mem s" "out_of (ec_code_store i k b) mem s = (out_of b mem s)[k := reg b mem s i]"
  by (rule ext) (simp_all add: ec_code_store_def write_next exec_op_def split_beta out_of_def reg_def)

lemma fold_store:
  "reg (fold (\<lambda>i. ec_code_store (f i) i) [0..<n] b) mem s = reg b mem s \<and>
   out_of (fold (\<lambda>i. ec_code_store (f i) i) [0..<n] b) mem s = fold (\<lambda>i xs. xs[i := reg b mem s (f i)]) [0..<n] (out_of b mem s)"
  by (induction n) (simp_all add: store_reg)

lemma fold_update_all: "n \<le> length xs \<Longrightarrow> fold (\<lambda>i xs. xs[i := g i]) [0..<n] xs = map g [0..<n] @ drop n xs"
  by (induction n) (auto simp: list_update_append Cons_nth_drop_Suc [symmetric] list_update_code)

lemma stored:
  assumes "prepared_gf gf" "length (out_of b mem s) = 8"
  shows "out_of (ec_code_gf_store gf b) mem s = map (reg b mem s) [0..<8]"
proof -
  have "ec_code_gf_store gf b = fold (\<lambda>i. ec_code_store i i) [0..<8] b" using assms(1) by (simp add: ec_code_gf_store_def prepared_gf_def)
  then show ?thesis using fold_store [of "\<lambda>i. i" 8 b mem s] fold_update_all [of 8 "out_of b mem s"] assms(2) by simp
qed

lemma cleared:
  assumes "prepared_gf gf" "length (out_of b mem s) = 8" "wf_map b"
  shows "out_of (ec_code_gf_clear gf b) mem s = replicate 8 0"
proof -
  let ?b = "ec_code_xor2 0 0 b"
  have b: "ec_code_gf_clear gf b = fold (\<lambda>i. ec_code_store 0 i) [0..<8] ?b"
    using assms(1) by (simp add: ec_code_gf_clear_def prepared_gf_def)
  have r: "reg ?b mem s 0 = 0" "out_of ?b mem s = out_of b mem s"
    by (simp_all add: reg_def out_of_def ec_code_xor2_def write_next exec_op_def split_beta)
  show ?thesis unfolding b using fold_store [of "\<lambda>i. 0" 8 ?b mem s] fold_update_all [of 8 "out_of b mem s" "\<lambda>i. 0"] assms(2) r
    by (simp add: map_replicate_const)
qed

lemma value_next_spec:
  "ec_code_value_next vs i = (v, k) \<Longrightarrow>
     (v = 0 \<longrightarrow> (\<forall>j. i \<le> j \<and> j < length vs \<longrightarrow> vs ! j = 0)) \<and>
     (v \<noteq> 0 \<longrightarrow> i \<le> k \<and> k < length vs \<and> vs ! k = v \<and> (\<forall>j. i \<le> j \<and> j < k \<longrightarrow> vs ! j = 0))"
proof (induction vs i rule: ec_code_value_next.induct)
  case (1 vs i)
  show ?case
  proof (cases "i < length vs \<and> vs ! i = 0")
    case True
    then have "ec_code_value_next vs (i + 1) = (v, k)" using "1.prems" ec_code_value_next.simps [of vs i] by simp
    note IH = "1.IH" [OF _ _ this]
    have j: "i \<le> j \<longleftrightarrow> j = i \<or> i + 1 \<le> j" for j by auto
    show ?thesis using IH True unfolding j by auto
  next
    case False
    then show ?thesis using "1.prems" ec_code_value_next.simps [of vs i] by (auto split: if_splits)
  qed
qed

text \<open>What the coefficients from place \<open>i\<close> on contribute.\<close>

definition rest_sum :: "gf256 list \<Rightarrow> (nat \<Rightarrow> gf256) \<Rightarrow> nat \<Rightarrow> gf256" where
  "rest_sum vs x i = (\<Sum>k \<in> {i..<length vs}. vs ! k * x k)"

lemma rest_sum_next:
  assumes "ec_code_value_next (map val vs) i = (w, k)"
  shows "w = 0 \<Longrightarrow> rest_sum vs x i = 0"
    "w \<noteq> 0 \<Longrightarrow> k < length vs \<and> i \<le> k \<and> w = val (vs ! k) \<and> vs ! k \<noteq> 0 \<and> rest_sum vs x i = vs ! k * x k + rest_sum vs x (Suc k)"
proof -
  note s = value_next_spec [OF assms]
  show "w = 0 \<Longrightarrow> rest_sum vs x i = 0" using s by (auto simp: rest_sum_def)
  assume w: "w \<noteq> 0"
  then have k: "i \<le> k" "k < length vs" "w = val (vs ! k)" "\<And>j. i \<le> j \<Longrightarrow> j < k \<Longrightarrow> vs ! j = 0" using s by auto
  have "{i..<length vs} = {i..<k} \<union> {k..<length vs}" using k by auto
  then have "rest_sum vs x i = (\<Sum>j \<in> {i..<k}. vs ! j * x j) + (\<Sum>j \<in> {k..<length vs}. vs ! j * x j)"
    unfolding rest_sum_def by (simp add: sum.union_disjoint ivl_disj_int)
  also have "(\<Sum>j \<in> {i..<k}. vs ! j * x j) = 0" using k(4) by (intro sum.neutral) auto
  finally have "rest_sum vs x i = vs ! k * x k + rest_sum vs x (Suc k)" using k(2) by (simp add: rest_sum_def sum.atLeast_Suc_lessThan)
  then show "k < length vs \<and> i \<le> k \<and> w = val (vs ! k) \<and> vs ! k \<noteq> 0 \<and> rest_sum vs x i = vs ! k * x k + rest_sum vs x (Suc k)"
    using k w by auto
qed

lemma rest_sum_lin: "rest_sum vs x 0 = lin vs (map x [0..<length vs])"
proof (induction vs arbitrary: x)
  case (Cons v vs)
  have "rest_sum (v # vs) x 0 = v * x 0 + rest_sum vs (\<lambda>k. x (Suc k)) 0"
    unfolding rest_sum_def length_Cons sum.atLeast0_lessThan_Suc_shift by simp
  then show ?case using Cons by (simp add: map_upt_Suc del: upt_Suc)
qed (simp add: rest_sum_def)

lemma build_loop_elem:
  assumes "prepared_gf gf" "wf_map b" "v \<noteq> 0"
  shows "\<exists>v' b'. build_loop gf (map val vs) (val v) offset b = (val v', b') \<and> v' \<noteq> 0 \<and> wf_map b' \<and>
    (\<forall>mem s. out_of b' mem s = out_of b mem s \<and>
       (\<forall>p. v' * elem b' mem s p = v * elem b mem s p + rest_sum vs (\<lambda>k. mem_elem mem k p) (Suc offset)))"
  using assms(2,3)
proof (induction "length vs - offset" arbitrary: v offset b rule: less_induct)
  case less
  obtain w k where w: "ec_code_value_next (map val vs) (Suc offset) = (w, k)" by fastforce
  show ?case
  proof (cases "w = 0")
    case True
    then have "build_loop gf (map val vs) (val v) offset b = (val v, b)" using w by (simp add: build_loop.simps)
    then show ?thesis using rest_sum_next(1) [OF w True] less.prems by auto
  next
    case False
    note n = rest_sum_next(2) [OF w False]
    let ?u = "vs ! k"
    let ?b = "ec_code_gf_load_xor gf k (ec_code_gf_mul gf (val (v / ?u)) b)"
    have u: "?u \<noteq> 0" "v / ?u \<noteq> 0" using n less.prems(2) by auto
    have gf: "valid_gf gf" using assms(1) by (simp add: prepared_gf_def)
    have step: "build_loop gf (map val vs) (val v) offset b = build_loop gf (map val vs) (val ?u) k ?b"
      using w n False by (subst build_loop.simps) (simp add: gf_div_val [OF gf u(1)])
    note m = gf_mul_elem [OF assms(1) less.prems(1) u(2)]
    note l = gf_load_xor_elem [OF assms(1) m(2)]
    have "k < length vs" "offset < k" using n [of "\<lambda>_. 0"] by simp_all
    then have "length vs - k < length vs - offset" by linarith
    from less.hyps [OF this l(2) u(1), of k] obtain v' b' where r: "build_loop gf (map val vs) (val ?u) k ?b = (val v', b')"
      "v' \<noteq> 0" "wf_map b'" "\<And>mem s. out_of b' mem s = out_of ?b mem s"
      "\<And>mem s p. v' * elem b' mem s p = ?u * elem ?b mem s p + rest_sum vs (\<lambda>k. mem_elem mem k p) (Suc k)" by blast
    have "v' * elem b' mem s p = v * elem b mem s p + rest_sum vs (\<lambda>k. mem_elem mem k p) (Suc offset)" for mem s p
      unfolding r(5) l(1) m(1) using n u(1) by (simp add: algebra_simps)
    then show ?thesis using r step l(3) m(3) by auto
  qed
qed

lemma dynamic_out:
  assumes "prepared_gf gf" "length (snd s) = 8"
  shows "length (out_of (ec_code_build_dynamic gf xor3 width (map val vs) linear) mem s) = 8 \<and>
    Gf (plane_byte (out_of (ec_code_build_dynamic gf xor3 width (map val vs) linear) mem s) p) = rest_sum vs (\<lambda>k. mem_elem mem k p) 0"
proof -
  let ?b0 = "ec_code_prepare gf xor3 (of_nat (length (map val vs))) width linear"
  have b0: "wf_map ?b0" "out_of ?b0 mem s = snd s" by (simp_all add: wf_map_def ec_code_prepare_def out_of_def ec_code_write_def)
  obtain w k where w: "ec_code_value_next (map val vs) 0 = (w, k)" by fastforce
  show ?thesis
  proof (cases "w = 0")
    case True
    have "Gf (plane_byte (replicate 8 0) p) = 0"
      unfolding zero_gf256_def by (intro arg_cong [of _ _ Gf] byte_eqI) (simp add: bit_plane_byte)
    then show ?thesis
      using True w cleared [OF assms(1) _ b0(1), of mem s] b0(2) assms(2) rest_sum_next(1) [OF w True]
      by (simp add: ec_code_build_dynamic_def Let_def)
  next
    case False
    note n = rest_sum_next(2) [OF w False]
    let ?b1 = "ec_code_gf_load gf k ?b0"
    note l = gf_load_elem [OF assms(1) b0(1)]
    have u: "vs ! k \<noteq> 0" using n by blast
    obtain v b2 where r: "build_loop gf (map val vs) (val (vs ! k)) k ?b1 = (val v, b2)" "v \<noteq> 0" "wf_map b2"
      "out_of b2 mem s = out_of ?b1 mem s" "v * elem b2 mem s p = vs ! k * elem ?b1 mem s p + rest_sum vs (\<lambda>k. mem_elem mem k p) (Suc k)"
      using build_loop_elem [OF assms(1) l(2) u, of vs k] by blast
    let ?b3 = "ec_code_gf_mul gf (val v) b2"
    note m = gf_mul_elem [OF assms(1) r(3,2)]
    have d: "ec_code_build_dynamic gf xor3 width (map val vs) linear = ec_code_gf_store gf ?b3"
      using w n r(1) False by (simp add: ec_code_build_dynamic_def Let_def)
    have "length (out_of ?b3 mem s) = 8" using m(3) r(4) l(3) b0(2) assms(2) by simp
    note o = stored [OF assms(1) this]
    have "elem ?b3 mem s p = rest_sum vs (\<lambda>k. mem_elem mem k p) 0" using m(1) r(5) l(1) n by simp
    then show ?thesis unfolding d o by (simp add: elem_def)
  qed
qed

lemma run_code_column:
  assumes "is_chunk dst" "i < WIDTH" and len: "\<And>mem s. length (snd s) = 8 \<Longrightarrow> length (out_of b mem s) = 8"
  shows "column (run_code b src regs0 dst) i = out_of b (\<lambda>offset k. src offset ! (i + WIDTH * k)) (regs0, column dst i)"
    "is_chunk (run_code b src regs0 dst)"
proof -
  let ?o = "\<lambda>i d. out_of b (\<lambda>offset k. src offset ! (i + WIDTH * k)) (regs0, column d i)"
  let ?w = "\<lambda>i d. fold (\<lambda>k c. c[i + WIDTH * k := ?o i d ! k]) [0..<8] d"
  have w: "is_chunk (?w i d)" if "is_chunk d" for i d using that by (simp add: is_chunk_def)
  have c: "column (?w i d) i' = (if i = i' then ?o i d else column d i')" if "is_chunk d" "i < WIDTH" "i' < WIDTH" for i i' d
  proof (rule nth_equalityI)
    have o: "length (?o i d) = 8" by (rule len) simp
    show "length (column (?w i d) i') = length (if i = i' then ?o i d else column d i')" using o by auto
    fix k
    assume "k < length (column (?w i d) i')"
    then have "k < 8" by simp
    then show "column (?w i d) i' ! k = (if i = i' then ?o i d else column d i') ! k"
      using fold_update_nth [OF that(2,3), of k d "\<lambda>k. ?o i d ! k" 8] that(1,3) by (simp add: column_def is_chunk_def)
  qed
  let ?f = "\<lambda>n. fold ?w [0..<n] dst"
  have chunk: "is_chunk (?f n)" for n using assms(1) w by (induction n) auto
  have "n \<le> WIDTH \<Longrightarrow> column (?f n) i = (if i < n then ?o i dst else column dst i)" for n
  proof (induction n)
    case (Suc n)
    have "column (?f (Suc n)) i = (if n = i then ?o n (?f n) else column (?f n) i)" using c [OF chunk, of n i] Suc.prems assms(2) by simp
    then show ?case using Suc by (auto simp: less_Suc_eq)
  qed simp
  from this [of WIDTH] show "column (run_code b src regs0 dst) i = ?o i dst"
    using assms(2) by (simp add: run_code_def out_of_def Let_def)
  show "is_chunk (run_code b src regs0 dst)" using chunk [of WIDTH] by (simp add: run_code_def out_of_def Let_def)
qed

text \<open>What the generated code computes.\<close>

lemma dynamic_element:
  assumes "prepared_gf gf" "is_chunk dst" "j < 512"
  shows "element (run_code (ec_code_build_dynamic gf xor3 width (map val vs) linear) src regs0 dst) j =
      lin vs (map (\<lambda>k. element (src k) j) [0..<length vs])"
    "is_chunk (run_code (ec_code_build_dynamic gf xor3 width (map val vs) linear) src regs0 dst)"
proof -
  let ?b = "ec_code_build_dynamic gf xor3 width (map val vs) linear" and ?i = "j div 64" and ?p = "j mod 64"
  have i: "?i < WIDTH" using assms(3) by simp
  let ?mem = "\<lambda>offset k. src offset ! (?i + WIDTH * k)"
  note r = run_code_column [OF assms(2) i, of ?b src regs0]
  have l: "length (snd s) = 8 \<Longrightarrow> length (out_of ?b mem s) = 8" for mem s using dynamic_out [OF assms(1)] by blast
  have "element (run_code ?b src regs0 dst) j = Gf (plane_byte (out_of ?b ?mem (regs0, column dst ?i)) ?p)"
    unfolding element_def using r(1) l by simp
  also have "\<dots> = rest_sum vs (\<lambda>k. mem_elem ?mem k ?p) 0" using dynamic_out [OF assms(1), of "(regs0, column dst ?i)"] by simp
  also have "(\<lambda>k. mem_elem ?mem k ?p) = (\<lambda>k. element (src k) j)" by (rule ext) (simp add: mem_elem_def element_def column_def)
  finally show "element (run_code ?b src regs0 dst) j = lin vs (map (\<lambda>k. element (src k) j) [0..<length vs])" unfolding rest_sum_lin .
  show "is_chunk (run_code ?b src regs0 dst)" using r(2) l by blast
qed

section \<open>The room for the operations\<close>

definition op_cost :: "bool \<Rightarrow> ec_gf_op \<Rightarrow> nat" where
  "op_cost xor3 x = (if op x = EC_GF_OP_XOR3 \<and> \<not> xor3 then 2 else 1)"

definition mul_cost :: "bool \<Rightarrow> u32 \<Rightarrow> nat" where
  "mul_cost xor3 c = sum_list (map (op_cost xor3) (table_ops (ec_gf8_mul ! unat c)))"

lemma b_ops_next [simp]: "b_ops (ec_code_op_next x b) = b_ops b @ [x]" "b_ops (ec_code_arg_assign k b) = b_ops b"
  by (simp_all add: ec_code_op_next_def ec_code_arg_assign_def)

lemma dup_cost:
  assumes "op_ok x"
  shows "length (b_ops (ec_code_dup x b)) = length (b_ops b) + op_cost (b_xor3 b) x" "b_xor3 (ec_code_dup x b) = b_xor3 b"
  using assms by (auto simp: op_ok_def ec_code_dup_def builder_defs op_cost_def split: if_splits)

lemma dups_cost:
  assumes "list_all op_ok xs"
  shows "length (b_ops (fold ec_code_dup xs b)) = length (b_ops b) + sum_list (map (op_cost (b_xor3 b)) xs) \<and>
    b_xor3 (fold ec_code_dup xs b) = b_xor3 b"
  using assms by (induction xs arbitrary: b) (auto simp: dup_cost)

lemma gf_mul_cost:
  assumes "prepared_gf gf" "c \<noteq> 0"
  shows "length (b_ops (ec_code_gf_mul gf (val c) b)) = length (b_ops b) + mul_cost (b_xor3 b) (val c)"
    "b_xor3 (ec_code_gf_mul gf (val c) b) = b_xor3 b"
proof -
  have c: "unat (val c) \<in> {1..<256}" using assms(2) unat_val [of c] unat_gt_0 [of "val c"] by simp
  have "list_all op_ok (table_ops (ec_gf8_mul ! unat (val c)))" using table_entry [OF c] by (simp add: table_ok_def)
  from dups_cost [OF this, of b] show "length (b_ops (ec_code_gf_mul gf (val c) b)) = length (b_ops b) + mul_cost (b_xor3 b) (val c)"
    "b_xor3 (ec_code_gf_mul gf (val c) b) = b_xor3 b"
    using assms(1) by (simp_all add: ec_code_gf_mul_def prepared_gf_def mul_cost_def Let_def)
qed

lemma fold_cost:
  assumes "\<And>i b. length (b_ops (f i b)) = Suc (length (b_ops b)) \<and> b_xor3 (f i b) = b_xor3 b"
  shows "length (b_ops (fold f is b)) = length (b_ops b) + length is \<and> b_xor3 (fold f is b) = b_xor3 b"
  by (induction "is" arbitrary: b) (auto simp: assms)

lemma transfer_cost:
  assumes "prepared_gf gf"
  shows "length (b_ops (ec_code_gf_load gf k b)) = length (b_ops b) + 8" "b_xor3 (ec_code_gf_load gf k b) = b_xor3 b"
    "length (b_ops (ec_code_gf_load_xor gf k b)) = length (b_ops b) + 8" "b_xor3 (ec_code_gf_load_xor gf k b) = b_xor3 b"
    "length (b_ops (ec_code_gf_store gf b)) = length (b_ops b) + 8"
    "length (b_ops (ec_code_gf_clear gf b)) = length (b_ops b) + 9"
proof -
  have bits: "unat (gf_bits gf) = 8" using assms by (simp add: prepared_gf_def)
  show "length (b_ops (ec_code_gf_load gf k b)) = length (b_ops b) + 8" "b_xor3 (ec_code_gf_load gf k b) = b_xor3 b"
    unfolding ec_code_gf_load_def bits using fold_cost [of "\<lambda>i. ec_code_load i k" "[0..<8]" b] by (simp_all add: ec_code_load_def)
  show "length (b_ops (ec_code_gf_load_xor gf k b)) = length (b_ops b) + 8" "b_xor3 (ec_code_gf_load_xor gf k b) = b_xor3 b"
    unfolding ec_code_gf_load_xor_def bits using fold_cost [of "\<lambda>i. ec_code_xorm i k" "[0..<8]" b] by (simp_all add: ec_code_xorm_def)
  show "length (b_ops (ec_code_gf_store gf b)) = length (b_ops b) + 8"
    unfolding ec_code_gf_store_def bits using fold_cost [of "\<lambda>i. ec_code_store i i" "[0..<8]" b] by (simp add: ec_code_store_def)
  show "length (b_ops (ec_code_gf_clear gf b)) = length (b_ops b) + 9"
    unfolding ec_code_gf_clear_def bits using fold_cost [of "\<lambda>i. ec_code_store 0 i" "[0..<8]" "ec_code_xor2 0 0 b"]
    by (simp add: ec_code_store_def ec_code_xor2_def)
qed

lemma mul_cost_max:
  assumes "prepared_gf gf" "c \<noteq> 0"
  shows "mul_cost True (val c) \<le> unat (max_ops gf)"
proof -
  have c: "unat (val c) \<in> {1..<256}" using assms(2) unat_val [of c] unat_gt_0 [of "val c"] by simp
  have "mul_cost True (val c) = op_count (ec_gf8_mul ! unat (val c))" by (simp add: mul_cost_def op_cost_def [abs_def] op_count_def table_ops_def sum_list_triv)
  moreover have "op_count (ec_gf8_mul ! unat (val c)) \<le> 18" using op_counts c by (auto simp: list_all_length)
  moreover have "of_nat (op_count (ec_gf8_mul ! unat (val c))) \<le> max_ops gf" using assms(1) c by (simp add: prepared_gf_def)
  ultimately show ?thesis by (simp add: word_le_nat_alt unat_of_nat)
qed

lemma build_loop_cost:
  assumes "prepared_gf gf" "v \<noteq> 0" "b_xor3 b"
  shows "\<exists>v' b'. build_loop gf (map val vs) (val v) offset b = (val v', b') \<and> v' \<noteq> 0 \<and> b_xor3 b' \<and>
    length (b_ops b') \<le> length (b_ops b) + (length vs - Suc offset) * (8 + unat (max_ops gf))"
  using assms(2,3)
proof (induction "length vs - offset" arbitrary: v offset b rule: less_induct)
  case less
  obtain w k where w: "ec_code_value_next (map val vs) (Suc offset) = (w, k)" by fastforce
  show ?case
  proof (cases "w = 0")
    case True
    then have "build_loop gf (map val vs) (val v) offset b = (val v, b)" using w by (simp add: build_loop.simps)
    then show ?thesis using less.prems by auto
  next
    case False
    have n: "k < length vs" "offset < k" "w = val (vs ! k)" "vs ! k \<noteq> 0" using rest_sum_next(2) [OF w False, of "\<lambda>_. 0"] by auto
    let ?u = "vs ! k"
    let ?b1 = "ec_code_gf_mul gf (val (v / ?u)) b"
    let ?b = "ec_code_gf_load_xor gf k ?b1"
    have u: "v / ?u \<noteq> 0" using n less.prems(1) by auto
    have gf: "valid_gf gf" using assms(1) by (simp add: prepared_gf_def)
    have step: "build_loop gf (map val vs) (val v) offset b = build_loop gf (map val vs) (val ?u) k ?b"
      using w n False by (subst build_loop.simps) (simp add: gf_div_val [OF gf n(4)])
    have c: "length (b_ops ?b) \<le> length (b_ops b) + (8 + unat (max_ops gf))" "b_xor3 ?b"
      using gf_mul_cost [OF assms(1) u, of b] transfer_cost(3,4) [OF assms(1), of k ?b1] mul_cost_max [OF assms(1) u] less.prems(2) by simp_all
    have "length vs - k < length vs - offset" using n by linarith
    from less.hyps [OF this n(4) c(2)] obtain v' b' where r: "build_loop gf (map val vs) (val ?u) k ?b = (val v', b')" "v' \<noteq> 0" "b_xor3 b'"
      "length (b_ops b') \<le> length (b_ops ?b) + (length vs - Suc k) * (8 + unat (max_ops gf))" by blast
    have "Suc (length vs - Suc k) \<le> length vs - Suc offset" using n by linarith
    then have "Suc (length vs - Suc k) * (8 + unat (max_ops gf)) \<le> (length vs - Suc offset) * (8 + unat (max_ops gf))" by (rule mult_right_mono) simp
    then show ?thesis using r step c(1) by auto
  qed
qed

lemma dynamic_fits:
  assumes "prepared_gf gf" "vs \<noteq> []" "length vs \<le> 2 ^ 20"
  shows "length (b_ops (ec_code_build_dynamic gf True width (map val vs) linear)) \<le> unat (b_alloc (ec_code_prepare gf True (of_nat (length vs)) width linear))"
proof -
  let ?m = "unat (max_ops gf)" and ?n = "length vs"
  let ?b0 = "ec_code_prepare gf True (of_nat ?n) width linear"
  have m: "?m \<le> 18" using assms(1) by (simp add: prepared_gf_def word_le_nat_alt)
  have "?n * (8 + ?m) + 8 < 2 ^ LENGTH(32)" using m assms(3) mult_le_mono [of ?n "2 ^ 20" "8 + ?m" 26] by simp
  moreover have "b_alloc ?b0 = of_nat (?n * (8 + ?m) + 8)" using assms(1) by (simp add: ec_code_prepare_def prepared_gf_def)
  ultimately have alloc: "unat (b_alloc ?b0) = ?n * (8 + ?m) + 8" by (simp only: unat_of_nat) simp
  obtain w k where w: "ec_code_value_next (map val vs) 0 = (w, k)" by fastforce
  have b0: "b_xor3 ?b0" "b_ops ?b0 = []" by (simp_all add: ec_code_prepare_def)
  show ?thesis
  proof (cases "w = 0")
    case True
    have "1 * (8 + ?m) \<le> ?n * (8 + ?m)" using assms(2) by (intro mult_right_mono) (auto simp: Suc_le_eq)
    then show ?thesis unfolding alloc using True w b0 transfer_cost(6) [OF assms(1), of ?b0] by (simp add: ec_code_build_dynamic_def Let_def)
  next
    case False
    have n: "k < ?n" "w = val (vs ! k)" "vs ! k \<noteq> 0" using rest_sum_next(2) [OF w False, of "\<lambda>_. 0"] by auto
    let ?b1 = "ec_code_gf_load gf k ?b0"
    have b1: "length (b_ops ?b1) = 8" "b_xor3 ?b1" using transfer_cost(1,2) [OF assms(1), of k ?b0] b0 by simp_all
    obtain v b2 where r: "build_loop gf (map val vs) (val (vs ! k)) k ?b1 = (val v, b2)" "v \<noteq> 0" "b_xor3 b2"
      "length (b_ops b2) \<le> 8 + (?n - Suc k) * (8 + ?m)" using build_loop_cost [OF assms(1) n(3) b1(2), of vs k] b1(1) by auto
    have "length (b_ops (ec_code_build_dynamic gf True width (map val vs) linear)) \<le> 8 + (?n - Suc k) * (8 + ?m) + ?m + 8"
      using w n r False gf_mul_cost [OF assms(1) r(2), of b2] mul_cost_max [OF assms(1) r(2)] transfer_cost(5) [OF assms(1), of "ec_code_gf_mul gf (val v) b2"]
      by (simp add: ec_code_build_dynamic_def Let_def)
    also have "\<dots> = Suc (?n - Suc k) * (8 + ?m) + 8" by simp
    also have "\<dots> \<le> ?n * (8 + ?m) + 8" using n(1) by (intro add_right_mono mult_right_mono) auto
    finally show ?thesis unfolding alloc .
  qed
qed

section \<open>Properties\<close>

text \<open>C10: generated and portable code agree.  For every row of coefficients that is not zero, the
  operations the builder makes from the row, by means of the tables of \<open>ec-gf8.c\<close> and with or
  without an exclusive or of three operands, compute the chunk the portable routine computes.\<close>

theorem generated_code_agrees:
  assumes "length log0 = 511" "length pow0 = 511" "ec_gf_prepare True (Some log0) (Some pow0) 8 0 = Some (Inr gf)"
    "\<exists>v \<in> set vs. v \<noteq> 0" "length vs < 2 ^ 32" "is_chunk dst" "\<forall>k < length vs. is_chunk (chunk_at (src ! k) offset)"
  shows "ec_code_c_interleaved dst src offset (ec_code_c_prepare gf (map val vs)) (of_nat (length vs)) =
    Some (run_code (ec_code_build_dynamic gf xor3 width (map val vs) False) (\<lambda>k. chunk_at (src ! k) offset) regs0 dst)"
proof -
  have p: "prepared_gf gf" using prepare_valid [OF assms(1,2), of 0] assms(3) by auto
  then have v: "valid_gf gf" by (simp add: prepared_gf_def)
  obtain d where d: "ec_code_c_interleaved dst src offset (ec_code_c_prepare gf (map val vs)) (of_nat (length vs)) = Some d" "is_chunk d"
    "\<And>j. j < 512 \<Longrightarrow> element d j = lin vs (map (\<lambda>k. element (chunk_at (src ! k) offset) j) [0..<length vs])"
    using c_interleaved_element [OF v assms(4-6), of src offset] assms(7) by blast
  note e = dynamic_element [OF p assms(6)]
  have "d = run_code (ec_code_build_dynamic gf xor3 width (map val vs) False) (\<lambda>k. chunk_at (src ! k) offset) regs0 dst"
    by (rule chunk_eqI [OF d(2) e(2) [of 0]]) (simp_all add: d(3) e(1))
  then show ?thesis using d(1) by simp
qed

theorem generated_code_agrees_witness:
  "\<exists>gf. ec_gf_prepare True (Some (replicate 511 0)) (Some (replicate 511 0)) 8 0 = Some (Inr gf) \<and>
     ec_code_c_interleaved zero [replicate 64 1, replicate 64 2, replicate 64 3] 0 (ec_code_c_prepare gf (map val [Gf 7, 0, Gf 9])) 3 =
     Some (run_code (ec_code_build_dynamic gf False 8 (map val [Gf 7, 0, Gf 9]) False)
       (\<lambda>k. chunk_at ([replicate 64 1, replicate 64 2, replicate 64 3] ! k) 0) (\<lambda>_. 0) zero)"
proof -
  obtain gf where gf: "ec_gf_prepare True (Some (replicate 511 0)) (Some (replicate 511 0)) 8 0 = Some (Inr gf)"
    using prepare_valid [of "replicate 511 0" "replicate 511 0" 0] by auto
  have n: "\<exists>v \<in> set [Gf 7, 0, Gf 9]. v \<noteq> 0" by (simp add: zero_gf256_def Gf_inject)
  have c: "\<forall>k < length [Gf 7, 0, Gf 9]. is_chunk (chunk_at ([replicate 64 1, replicate 64 2, replicate 64 3] ! k) 0)"
    by (auto simp: less_Suc_eq chunk_at_def is_chunk_def)
  show ?thesis using generated_code_agrees [OF _ _ gf n _ is_chunk_zero c] gf by simp
qed

text \<open>C26: the builder has room for the operations when the generator has an exclusive or of three
  operands: a row of \<open>n\<close> coefficients never takes more operations than \<open>ec_code_prepare\<close> allocates.\<close>

theorem operations_fit:
  assumes "length log0 = 511" "length pow0 = 511" "ec_gf_prepare True (Some log0) (Some pow0) 8 0 = Some (Inr gf)"
    "vs \<noteq> []" "length vs \<le> 2 ^ 20"
  shows "length (b_ops (ec_code_build_dynamic gf True width (map val vs) linear)) \<le>
    unat (b_alloc (ec_code_prepare gf True (of_nat (length vs)) width linear))"
  using dynamic_fits [OF _ assms(4,5)] prepare_valid [OF assms(1,2), of 0] assms(3) by auto

theorem operations_fit_witness:
  "\<exists>gf. length (b_ops (ec_code_build_dynamic gf True 32 (map val [Gf 1, Gf 2]) True)) \<le> unat (b_alloc (ec_code_prepare gf True 2 32 True))"
proof -
  obtain gf where gf: "ec_gf_prepare True (Some (replicate 511 0)) (Some (replicate 511 0)) 8 0 = Some (Inr gf)"
    using prepare_valid [of "replicate 511 0" "replicate 511 0" 0] by auto
  show ?thesis using operations_fit [OF _ _ gf, of "[Gf 1, Gf 2]" 32 True] by simp blast
qed

text \<open>C38: without an exclusive or of three operands the room does not suffice.  The room is computed from
  the lengths of the tables, where such an operation counts once, but it is then written as two; the
  row with the coefficients 63 * 63 and 63 takes 62 operations where at most 60 are allocated.\<close>

theorem operations_overflow:
  "\<exists>gf vs. ec_gf_prepare True (Some (replicate 511 0)) (Some (replicate 511 0)) 8 0 = Some (Inr gf) \<and> length vs = 2 \<and>
     unat (b_alloc (ec_code_prepare gf False (of_nat (length vs)) 16 False)) <
       length (b_ops (ec_code_build_dynamic gf False 16 (map val vs) False))"
proof -
  obtain gf where gf: "ec_gf_prepare True (Some (replicate 511 0)) (Some (replicate 511 0)) 8 0 = Some (Inr gf)" "prepared_gf gf"
    using prepare_valid [of "replicate 511 0" "replicate 511 0" 0] by auto
  let ?g = "Gf 63" and ?b0 = "ec_code_prepare gf False 2 16 False"
  let ?vs = "[?g * ?g, ?g]"
  have v: "valid_gf gf" using gf(2) by (simp add: prepared_gf_def)
  have g0: "?g \<noteq> 0" by (simp add: zero_gf256_def Gf_inject)
  then have g: "?g \<noteq> 0" "?g * ?g \<noteq> 0" by simp_all
  have "val ?g = 63" by (simp add: val_def Gf_inverse)
  moreover have "mul_cost False 63 = 19" by code_simp
  ultimately have c: "mul_cost False (val ?g) = 19" by simp
  have n: "ec_code_value_next (map val ?vs) 0 = (val (?g * ?g), 0)" "ec_code_value_next (map val ?vs) (Suc 0) = (val ?g, Suc 0)"
    "ec_code_value_next (map val ?vs) (Suc (Suc 0)) = (0, Suc (Suc 0))"
    using g by (simp_all add: ec_code_value_next.simps)
  let ?b1 = "ec_code_gf_load gf 0 ?b0"
  let ?b2 = "ec_code_gf_load_xor gf (Suc 0) (ec_code_gf_mul gf (val ?g) ?b1)"
  have "build_loop gf (map val ?vs) (val (?g * ?g)) 0 ?b1 = build_loop gf (map val ?vs) (val ?g) (Suc 0) ?b2"
    using n(2) g by (subst build_loop.simps) (simp add: gf_div_val [OF v g(1)])
  also have "\<dots> = (val ?g, ?b2)" using n(3) by (subst build_loop.simps) simp
  finally have d: "ec_code_build_dynamic gf False 16 (map val ?vs) False = ec_code_gf_store gf (ec_code_gf_mul gf (val ?g) ?b2)"
    using n(1) g by (simp add: ec_code_build_dynamic_def Let_def)
  have "b_xor3 ?b0 = False" "b_ops ?b0 = []" by (simp_all add: ec_code_prepare_def)
  then have "length (b_ops (ec_code_build_dynamic gf False 16 (map val ?vs) False)) = 62"
    unfolding d using gf_mul_cost [OF gf(2) g(1)] transfer_cost [OF gf(2)] c by simp
  moreover have "unat (b_alloc ?b0) \<le> 60"
  proof -
    have m: "unat (max_ops gf) \<le> 18" using gf(2) by (simp add: prepared_gf_def word_le_nat_alt)
    have "b_alloc ?b0 = of_nat (2 * (8 + unat (max_ops gf)) + 8)" using gf(2) by (simp add: ec_code_prepare_def prepared_gf_def)
    then have "unat (b_alloc ?b0) = (2 * (8 + unat (max_ops gf)) + 8) mod 2 ^ LENGTH(32)" by (simp only: unat_of_nat)
    then show ?thesis using m by simp
  qed
  ultimately show ?thesis using gf(1) by (intro exI [of _ gf] exI [of _ ?vs]) simp
qed

end
