(* ===== verification/Vandermonde.thy ===== *)
theory Vandermonde
  imports Gf256
begin

text \<open>
  Interpolation in the field of 256 elements: the elementary symmetric functions, the inverse of a
  Vandermonde matrix in terms of them, and that it recovers the coefficients of a polynomial from
  its values.  This theory models no code; the matrices of the erasure code are compared with it.
\<close>

section \<open>Elementary symmetric functions\<close>

primrec esym :: "gf256 list \<Rightarrow> nat \<Rightarrow> gf256" where
  "esym [] t = (if t = 0 then 1 else 0)"
| "esym (x # xs) t = (case t of 0 \<Rightarrow> 1 | Suc s \<Rightarrow> esym xs (Suc s) + x * esym xs s)"

lemma esym_0 [simp]: "esym xs 0 = 1"
  by (cases xs) auto

lemma esym_big: "length xs < t \<Longrightarrow> esym xs t = 0"
  by (induction xs arbitrary: t) (auto split: nat.split)

lemma esym_swap: "esym (x # y # xs) = esym (y # x # xs)"
  by (rule ext) (auto simp: algebra_simps split: nat.split)

lemma esym_remove1: "x \<in> set xs \<Longrightarrow> esym xs = esym (x # remove1 x xs)"
proof (induction xs)
  case (Cons y ys)
  show ?case
  proof (cases "x = y")
    case False
    then have "x \<in> set ys" using Cons.prems by simp
    note eq = Cons.IH [OF this]
    have "esym (y # ys) = esym (y # x # remove1 x ys)" by (rule ext) (simp only: esym.simps(2) [of y] eq)
    then show ?thesis using False esym_swap [of y x] by simp
  qed simp
qed simp

lemma esym_prod: "(\<Sum>t\<le>length xs. esym xs t * z ^ (length xs - t)) = (\<Prod>x\<leftarrow>xs. z + x)"
proof (induction xs)
  case (Cons x xs)
  let ?n = "length xs"
  have "(\<Sum>t\<le>Suc ?n. esym (x # xs) t * z ^ (Suc ?n - t)) = z ^ Suc ?n + (\<Sum>s\<le>?n. esym (x # xs) (Suc s) * z ^ (?n - s))"
    unfolding sum.atMost_Suc_shift by simp
  also have "\<dots> = z ^ Suc ?n + (\<Sum>s\<le>?n. esym xs (Suc s) * z ^ (?n - s)) + x * (\<Sum>s\<le>?n. esym xs s * z ^ (?n - s))"
    by (simp add: distrib_right sum.distrib sum_distrib_left mult.assoc)
  also have "z ^ Suc ?n + (\<Sum>s\<le>?n. esym xs (Suc s) * z ^ (?n - s)) = (\<Sum>t\<le>Suc ?n. esym xs t * z ^ (Suc ?n - t))"
    unfolding sum.atMost_Suc_shift by simp
  also have "\<dots> = (\<Sum>t\<le>?n. esym xs t * z ^ (Suc ?n - t))" by (simp add: esym_big)
  also have "\<dots> = z * (\<Sum>t\<le>?n. esym xs t * z ^ (?n - t))"
    unfolding sum_distrib_left by (intro sum.cong refl) (simp add: Suc_diff_le)
  finally show ?case using Cons by (simp add: distrib_right)
qed simp

section \<open>The inverse matrix\<close>

text \<open>Division of a polynomial by \<open>z - a\<close>, coefficients of the highest power first.\<close>

primrec quotient :: "gf256 \<Rightarrow> (nat \<Rightarrow> gf256) \<Rightarrow> nat \<Rightarrow> gf256" where
  "quotient a c 0 = c 0"
| "quotient a c (Suc t) = c (Suc t) + a * quotient a c t"

lemma poly_Suc: "(\<Sum>t < Suc n. c t * z ^ (n - t)) = z * (\<Sum>t < n. c t * z ^ (n - 1 - t)) + c n" for z :: gf256
proof -
  have "(\<Sum>t < n. c t * z ^ (n - t)) = z * (\<Sum>t < n. c t * z ^ (n - 1 - t))"
    unfolding sum_distrib_left
  proof (intro sum.cong refl)
    fix t
    assume "t \<in> {..<n}"
    then have "n - t = Suc (n - 1 - t)" by auto
    then show "c t * z ^ (n - t) = z * (c t * z ^ (n - 1 - t))" by (simp add: mult.left_commute)
  qed
  then show ?thesis by simp
qed

lemma quotient: "(\<Sum>t < Suc n. c t * z ^ (n - t)) = (z - a) * (\<Sum>t < n. quotient a c t * z ^ (n - 1 - t)) + quotient a c n"
proof (induction n)
  case (Suc n)
  let ?q = "\<Sum>t < n. quotient a c t * z ^ (n - 1 - t)"
  have "(\<Sum>t < Suc (Suc n). c t * z ^ (Suc n - t)) = z * ((z - a) * ?q + quotient a c n) + c (Suc n)"
    unfolding poly_Suc [of c z "Suc n"] diff_Suc_1 Suc.IH ..
  also have "\<dots> = (z - a) * (z * ?q + quotient a c n) + (c (Suc n) + a * quotient a c n)" by (simp add: algebra_simps)
  also have "z * ?q + quotient a c n = (\<Sum>t < Suc n. quotient a c t * z ^ (n - t))" unfolding poly_Suc ..
  finally show ?case by simp
qed simp

lemma poly_unique:
  assumes "distinct xs" "\<And>x. x \<in> set xs \<Longrightarrow> (\<Sum>t < length xs. c t * x ^ (length xs - 1 - t)) = 0" "t < length xs"
  shows "c t = (0 :: gf256)"
  using assms
proof (induction xs arbitrary: c t)
  case (Cons a xs)
  let ?n = "length xs" and ?q = "quotient a c"
  have p: "(\<Sum>t < Suc ?n. c t * x ^ (?n - t)) = 0" if "x \<in> set (a # xs)" for x using Cons.prems(2) [OF that] by simp
  have qn: "?q ?n = 0" using p [of a] quotient [of c a ?n a] by simp
  have "(\<Sum>t < ?n. ?q t * x ^ (?n - 1 - t)) = 0" if "x \<in> set xs" for x
  proof -
    have "x \<noteq> a" using that Cons.prems(1) by auto
    then show ?thesis using p [of x] quotient [of c x ?n a] that qn by simp
  qed
  then have "?q t = 0" if "t < ?n" for t using Cons.IH [of ?q, OF _ _ that] Cons.prems(1) by simp
  then have q: "?q t = 0" if "t \<le> ?n" for t using qn that by (cases "t = ?n") auto
  show ?case
  proof (cases t)
    case (Suc s)
    then show ?thesis using q [of t] q [of s] Cons.prems(3) by simp
  qed (use q [of 0] in simp)
qed simp

definition others :: "gf256 list \<Rightarrow> nat \<Rightarrow> gf256 list" where
  "others xs i = remove1 (xs ! i) xs"

definition inv_entry :: "gf256 list \<Rightarrow> nat \<Rightarrow> nat \<Rightarrow> gf256" where
  "inv_entry xs t i = esym (others xs i) t / (\<Prod>y\<leftarrow>others xs i. xs ! i + y)"

lemma gf_add_eq_0: "a + b = 0 \<longleftrightarrow> a = b" for a :: gf256
  by (metis gf_add_self add_left_cancel)

lemma others_set: "distinct xs \<Longrightarrow> i < length xs \<Longrightarrow> set (others xs i) = set xs - {xs ! i}"
  by (simp add: others_def)

lemma length_others [simp]: "i < length xs \<Longrightarrow> length (others xs i) = length xs - 1"
  by (simp add: others_def length_remove1)

lemma others_prod_nonzero:
  assumes "distinct xs" "i < length xs"
  shows "(\<Prod>y\<leftarrow>others xs i. xs ! i + y) \<noteq> 0"
proof -
  have "xs ! i + y \<noteq> 0" if "y \<in> set (others xs i)" for y
    using that others_set [OF assms] gf_add_eq_0 [of "xs ! i" y] by auto
  then have "0 \<notin> (\<lambda>y. xs ! i + y) ` set (others xs i)" by force
  then show ?thesis by (simp only: prod_list_zero_iff set_map not_False_eq_True)
qed

lemma inverse_right:
  assumes "distinct xs" "i < length xs" "k < length xs"
  shows "(\<Sum>t < length xs. (xs ! k) ^ (length xs - 1 - t) * inv_entry xs t i) = (if k = i then 1 else 0)"
proof -
  let ?o = "others xs i" and ?z = "xs ! k"
  have n: "{..<length xs} = {..length ?o}" using assms(2) by (auto simp: others_def length_remove1)
  have "(\<Sum>t < length xs. ?z ^ (length xs - 1 - t) * inv_entry xs t i) =
    (\<Sum>t \<le> length ?o. esym ?o t * ?z ^ (length ?o - t)) / (\<Prod>y\<leftarrow>?o. xs ! i + y)"
    unfolding n sum_divide_distrib inv_entry_def using assms(2) by (intro sum.cong refl) (simp add: mult.commute)
  also have "\<dots> = (\<Prod>y\<leftarrow>?o. ?z + y) / (\<Prod>y\<leftarrow>?o. xs ! i + y)" unfolding esym_prod ..
  also have "\<dots> = (if k = i then 1 else 0)"
  proof (cases "k = i")
    case False
    then have "?z \<in> set ?o" using others_set [OF assms(1,2)] assms nth_eq_iff_index_eq [OF assms(1)] by auto
    then have "(\<Prod>y\<leftarrow>?o. ?z + y) = 0" by (auto simp: prod_list_zero_iff gf_add_eq_0 intro!: image_eqI [of _ _ ?z])
    then show ?thesis using False by simp
  qed (use others_prod_nonzero [OF assms(1,2)] in simp)
  finally show ?thesis .
qed

text \<open>The coefficients of a polynomial are recovered from its values.\<close>

lemma interpolation:
  assumes "distinct xs" "\<And>i. i < length xs \<Longrightarrow> f i = (\<Sum>t < length xs. d t * (xs ! i) ^ (length xs - 1 - t))" "t < length xs"
  shows "(\<Sum>i < length xs. inv_entry xs t i * f i) = d t"
proof -
  let ?n = "length xs"
  define d' where "d' t = (\<Sum>i < ?n. inv_entry xs t i * f i)" for t
  have "d' t - d t = 0"
  proof (rule poly_unique [OF assms(1) _ assms(3), of "\<lambda>t. d' t - d t"])
    fix x
    assume "x \<in> set xs"
    then obtain k where k: "k < ?n" "x = xs ! k" by (auto simp: in_set_conv_nth)
    have "(\<Sum>t < ?n. d' t * x ^ (?n - 1 - t)) = (\<Sum>t < ?n. \<Sum>i < ?n. x ^ (?n - 1 - t) * inv_entry xs t i * f i)"
      unfolding d'_def by (simp add: sum_distrib_left mult_ac)
    also have "\<dots> = (\<Sum>i < ?n. (\<Sum>t < ?n. x ^ (?n - 1 - t) * inv_entry xs t i) * f i)"
      by (subst sum.swap) (simp add: sum_distrib_right)
    also have "\<dots> = (\<Sum>i < ?n. (if k = i then f i else 0))"
      by (intro sum.cong refl) (use inverse_right [OF assms(1) _ k(1)] k in simp)
    also have "\<dots> = f k" using k(1) by simp
    finally show "(\<Sum>t < ?n. (d' t - d t) * x ^ (?n - 1 - t)) = 0"
      using assms(2) [OF k(1)] k by (simp add: left_diff_distrib sum_subtractf)
  qed
  then show ?thesis by (simp add: d'_def)
qed

text \<open>No row of the inverse is zero.\<close>

lemma inv_row_nonzero:
  assumes "distinct xs" "t < length xs"
  shows "\<exists>i < length xs. inv_entry xs t i \<noteq> 0"
proof (rule ccontr)
  assume z: "\<not> (\<exists>i < length xs. inv_entry xs t i \<noteq> 0)"
  let ?d = "\<lambda>s. if s = t then 1 else 0" and ?f = "\<lambda>i. \<Sum>s < length xs. (if s = t then 1 else 0) * (xs ! i) ^ (length xs - 1 - s)"
  have "(\<Sum>i < length xs. inv_entry xs t i * ?f i) = ?d t" by (rule interpolation [OF assms(1) _ assms(2)]) simp
  then show False using z by simp
qed

end
