(* ===== verification/Ec_Matrix.thy ===== *)
theory Ec_Matrix
  imports Ec_Galois Vandermonde
begin

text \<open>
  The matrices of \<open>xlators/cluster/ec/src/ec-method.c\<close>: \<open>ec_method_matrix_normal\<close>, which fills the
  rows of a Vandermonde matrix, and \<open>ec_method_matrix_inverse\<close>, which computes the inverse of one
  from the elementary symmetric functions of its values.

  A matrix is the array of its elements row by row.  The pointer that walks through it is an index;
  the second function writes inside the array when there are at least two columns, which
  \<open>ec_parse_options\<close> makes sure of.
\<close>

unbundle bit_operations_syntax

section \<open>Operations\<close>

fun normal_row :: "ec_gf \<Rightarrow> nat \<Rightarrow> u32 \<Rightarrow> u32 \<Rightarrow> u32 list" where
  "normal_row gf 0 tmp v = []"
| "normal_row gf (Suc n) tmp v = (let tmp = ec_gf_div gf tmp v in tmp # normal_row gf n tmp v)"

definition ec_method_matrix_normal :: "ec_gf \<Rightarrow> u32 \<Rightarrow> u32 list \<Rightarrow> u32 list" where
  "ec_method_matrix_normal gf columns values =
     concat (map (\<lambda>v. let tmp = ec_gf_exp gf v (columns - 1) in tmp # normal_row gf (unat (columns - 1)) tmp v) values)"

text \<open>The array \<open>a\<close> of the inverse: first ones and the first value, then one value after the other is
  taken in, from the last to the second.\<close>

definition symmetric_step :: "ec_gf \<Rightarrow> u32 list \<Rightarrow> nat \<Rightarrow> u32 list \<Rightarrow> u32 list" where
  "symmetric_step gf values i a =
     (let lst = length values - 1;
          a = fold (\<lambda>j a. a[j := a ! (j + 1) XOR ec_gf_mul gf (values ! i) (a ! j)]) [i - 1..<lst] a
      in a[lst := ec_gf_mul gf (values ! i) (a ! lst)])"

definition symmetric :: "ec_gf \<Rightarrow> u32 list \<Rightarrow> u32 list" where
  "symmetric gf values =
     fold (symmetric_step gf values) (rev [1..<length values]) (replicate (length values - 1) 1 @ [values ! 0])"

text \<open>One column of the inverse: down the column the coefficients, with their value \<open>p\<close> at the column's
  point, and back up their division by \<open>p\<close>.\<close>

definition column_down :: "ec_gf \<Rightarrow> u32 list \<Rightarrow> nat \<Rightarrow> u32 \<Rightarrow> nat \<Rightarrow> u32 list \<times> nat \<times> u32 \<times> u32 \<Rightarrow> u32 list \<times> nat \<times> u32 \<times> u32" where
  "column_down gf a count x j = (\<lambda>(matrix, pos, tmp, p).
     let pos = pos + count;
         tmp = a ! j XOR ec_gf_mul gf x tmp;
         matrix = matrix[pos := tmp];
         p = tmp XOR ec_gf_mul gf x p
     in (matrix, pos, tmp, p))"

definition column_up :: "ec_gf \<Rightarrow> nat \<Rightarrow> u32 \<Rightarrow> nat \<Rightarrow> u32 list \<times> nat \<Rightarrow> u32 list \<times> nat" where
  "column_up gf count p j = (\<lambda>(matrix, pos). (matrix[pos := ec_gf_div gf (matrix ! pos) p], pos - count))"

definition inverse_column :: "ec_gf \<Rightarrow> u32 list \<Rightarrow> u32 list \<Rightarrow> nat \<Rightarrow> u32 list \<times> nat \<Rightarrow> u32 list \<times> nat" where
  "inverse_column gf a values i = (\<lambda>(matrix, pos).
     let count = length values;
         lst = count - 1;
         p = a ! 0;
         pos = pos + count;
         tmp = p XOR values ! i;
         matrix = matrix[pos := tmp];
         (matrix, pos, tmp, p) = fold (column_down gf a count (values ! i)) [1..<lst] (matrix, pos, tmp, p);
         (matrix, pos) = fold (column_up gf count p) [0..<lst] (matrix, pos)
     in (matrix[pos := ec_gf_div gf 1 p], pos + 1))"

definition ec_method_matrix_inverse :: "ec_gf \<Rightarrow> u32 list \<Rightarrow> u32 list \<Rightarrow> u32 list" where
  "ec_method_matrix_inverse gf matrix values =
     fst (fold (inverse_column gf (symmetric gf values) values) [0..<length values] (matrix, 0))"

section \<open>The Vandermonde matrix\<close>

lemma normal_row_val:
  assumes "valid_gf gf" "x \<noteq> 0"
  shows "n \<le> m \<Longrightarrow> normal_row gf n (val (x ^ m)) (val x) = map (\<lambda>t. val (x ^ (m - 1 - t))) [0..<n]"
proof (induction n arbitrary: m)
  case (Suc n)
  obtain m' where m: "m = Suc m'" using Suc.prems by (cases m) auto
  have "normal_row gf (Suc n) (val (x ^ m)) (val x) = val (x ^ m') # normal_row gf n (val (x ^ m')) (val x)"
    using assms(2) by (simp add: m gf_div_val [OF assms] Let_def)
  also have "\<dots> = map (\<lambda>t. val (x ^ (m - 1 - t))) [0..<Suc n]"
    using Suc m by (simp add: map_upt_Suc del: upt_Suc)
  finally show ?case .
qed simp

lemma matrix_normal:
  assumes "valid_gf gf" "\<forall>x \<in> set xs. x \<noteq> 0" "0 < n" "n < 2 ^ 32"
  shows "ec_method_matrix_normal gf (of_nat n) (map val xs) = concat (map (\<lambda>x. map (\<lambda>t. val (x ^ (n - 1 - t))) [0..<n]) xs)"
proof -
  have n: "unat (of_nat n - 1 :: u32) = n - 1"
  proof -
    have "of_nat n - 1 = (of_nat (n - 1) :: u32)" using assms(3) by (simp add: of_nat_diff)
    then show ?thesis using assms(4) by (simp only: unat_of_nat) simp
  qed
  have "(let tmp = ec_gf_exp gf (val x) (of_nat n - 1) in tmp # normal_row gf (unat (of_nat n - 1 :: u32)) tmp (val x)) =
    map (\<lambda>t. val (x ^ (n - 1 - t))) [0..<n]" if "x \<in> set xs" for x
  proof -
    have "x \<noteq> 0" using that assms(2) by blast
    then have "ec_gf_exp gf (val x) (of_nat n - 1) = val (x ^ (n - 1))" using gf_exp_val [OF assms(1), of x "of_nat n - 1"] n by simp
    moreover have "[0..<n] = 0 # map Suc [0..<n - 1]" using assms(3) by (simp add: map_Suc_upt upt_conv_Cons)
    ultimately show ?thesis unfolding n using normal_row_val [OF assms(1) \<open>x \<noteq> 0\<close>, of "n - 1" "n - 1"] by simp
  qed
  then show ?thesis unfolding ec_method_matrix_normal_def by (simp add: comp_def cong: map_cong)
qed

section \<open>The symmetric functions\<close>

lemma shift_fold_length: "length (fold (\<lambda>j a. a[j := h j a]) js a) = length a"
  by (induction js arbitrary: a) simp_all

lemma shift_fold:
  assumes "lo \<le> hi" "hi < length a"
  shows "fold (\<lambda>j a. a[j := g (a ! (j + 1)) (a ! j)]) [lo..<hi] a ! k =
    (if lo \<le> k \<and> k < hi then g (a ! (k + 1)) (a ! k) else a ! k)"
  using assms
proof (induction hi arbitrary: k rule: dec_induct)
  case (step hi)
  let ?a = "fold (\<lambda>j a. a[j := g (a ! (j + 1)) (a ! j)]) [lo..<hi] a"
  have IH: "?a ! k = (if lo \<le> k \<and> k < hi then g (a ! (k + 1)) (a ! k) else a ! k)" for k using step by simp
  have "fold (\<lambda>j a. a[j := g (a ! (j + 1)) (a ! j)]) [lo..<Suc hi] a = ?a[hi := g (a ! (hi + 1)) (a ! hi)]"
    using step.hyps IH [of hi] IH [of "hi + 1"] by simp
  moreover have "hi < length ?a" using step by (simp add: shift_fold_length)
  ultimately show ?case using IH [of k] step.hyps by (cases "k = hi") auto
qed auto

text \<open>The array when the values from place \<open>k\<close> on and the first one have been taken in.\<close>

definition partial_symmetric :: "gf256 list \<Rightarrow> nat \<Rightarrow> u32 list" where
  "partial_symmetric xs k = replicate (k - 1) 1 @ map (\<lambda>t. val (esym (drop k xs @ [xs ! 0]) (Suc t))) [0..<Suc (length xs - k)]"

lemma partial_symmetric_nth:
  assumes "1 \<le> k" "k \<le> length xs" "j < length xs"
  shows "partial_symmetric xs k ! j = (if j + 1 < k then 1 else val (esym (drop k xs @ [xs ! 0]) (j + 2 - k)))"
proof (cases "j + 1 < k")
  case False
  obtain k' where k: "k = Suc k'" using assms(1) by (cases k) auto
  with False have "k' \<le> j" by simp
  then obtain d where j: "j = k' + d" by (auto simp: le_iff_add)
  have "d < Suc (length xs - k)" using assms j k by auto
  then show ?thesis by (simp add: partial_symmetric_def nth_append j k del: upt_Suc)
next
  case True
  then have "j < k - 1" by simp
  then show ?thesis using True by (simp add: partial_symmetric_def nth_append)
qed

lemma length_partial_symmetric: "1 \<le> k \<Longrightarrow> k \<le> length xs \<Longrightarrow> length (partial_symmetric xs k) = length xs"
  by (simp add: partial_symmetric_def)

lemma symmetric_step_val:
  assumes "valid_gf gf" "1 \<le> i" "i < length xs"
  shows "symmetric_step gf (map val xs) i (partial_symmetric xs (Suc i)) = partial_symmetric xs i"
proof (rule nth_equalityI)
  let ?a = "partial_symmetric xs (Suc i)" and ?n = "length xs" and ?S = "drop (Suc i) xs @ [xs ! 0]" and ?x = "xs ! i"
  let ?g = "\<lambda>u v. u XOR ec_gf_mul gf (map val xs ! i) v"
  have len: "length ?a = ?n" using assms by (intro length_partial_symmetric) auto
  then show "length (symmetric_step gf (map val xs) i ?a) = length (partial_symmetric xs i)"
    using assms length_partial_symmetric [of i xs] by (simp add: symmetric_step_def Let_def shift_fold_length)
  fix j
  assume "j < length (symmetric_step gf (map val xs) i ?a)"
  then have j: "j < ?n" using len by (simp add: symmetric_step_def Let_def shift_fold_length)
  have S: "drop i xs @ [xs ! 0] = ?x # ?S" using assms(3) by (simp add: Cons_nth_drop_Suc)
  have f: "fold (\<lambda>j a. a[j := ?g (a ! (j + 1)) (a ! j)]) [i - 1..<?n - 1] ?a ! k =
      (if i - 1 \<le> k \<and> k < ?n - 1 then ?g (?a ! (k + 1)) (?a ! k) else ?a ! k)" for k
    using len assms by (intro shift_fold) auto
  have a: "?a ! k = val (esym ?S (k + 1 - i))" if "i - 1 \<le> k" "k < ?n" for k
    using partial_symmetric_nth [of "Suc i" xs k] assms that by (auto simp: less_Suc_eq_le)
  have r: "partial_symmetric xs i ! j = (if j + 1 < i then 1 else val (esym (?x # ?S) (j + 2 - i)))"
    using partial_symmetric_nth [of i xs j] assms j S by simp
  have st: "symmetric_step gf (map val xs) i ?a ! j =
      (if j = ?n - 1 then ec_gf_mul gf (val ?x) (?a ! (?n - 1)) else if i - 1 \<le> j then ?a ! (j + 1) XOR ec_gf_mul gf (val ?x) (?a ! j) else ?a ! j)"
    using f [of j] f [of "?n - 1"] j len assms
    by (auto simp: symmetric_step_def Let_def nth_list_update shift_fold_length)
  show "symmetric_step gf (map val xs) i ?a ! j = partial_symmetric xs i ! j"
  proof (cases "i - 1 \<le> j")
    case False
    then show ?thesis unfolding st r using partial_symmetric_nth [of "Suc i" xs j] assms j by auto
  next
    case True
    then have e: "esym (?x # ?S) (j + 2 - i) = esym ?S (j + 2 - i) + ?x * esym ?S (j + 1 - i)"
      using assms(2) by (simp add: Suc_diff_le numeral_2_eq_2 split: nat.split)
    show ?thesis
    proof (cases "j = ?n - 1")
      case True
      have "esym ?S (j + 2 - i) = 0" using True assms by (intro esym_big) auto
      then show ?thesis unfolding st r using a [of j] True assms e by (auto simp: gf_mul_val [OF assms(1)])
    next
      case False
      then show ?thesis unfolding st r using a [of j] a [of "j + 1"] True assms j e by (auto simp: gf_mul_val [OF assms(1)] val_xor)
    qed
  qed
qed

lemma symmetric_val:
  assumes "valid_gf gf" "distinct xs" "2 \<le> length xs"
  shows "symmetric gf (map val xs) = map (\<lambda>t. val (esym xs (Suc t))) [0..<length xs]"
proof -
  let ?n = "length xs"
  have "k \<le> ?n \<Longrightarrow> 1 \<le> k \<Longrightarrow> fold (symmetric_step gf (map val xs)) (rev [k..<?n]) (partial_symmetric xs ?n) = partial_symmetric xs k" for k
  proof (induction rule: inc_induct)
    case (step k)
    have "rev [k..<?n] = rev [Suc k..<?n] @ [k]" using step.hyps by (simp add: upt_conv_Cons)
    then show ?case using step symmetric_step_val [OF assms(1), of k xs] by simp
  qed simp
  from this [of 1] have f: "fold (symmetric_step gf (map val xs)) (rev [1..<?n]) (partial_symmetric xs ?n) = partial_symmetric xs 1"
    using assms(3) by simp
  have "partial_symmetric xs ?n = replicate (?n - 1) 1 @ [val (xs ! 0)]" by (simp add: partial_symmetric_def)
  moreover have "map val xs ! 0 = val (xs ! 0)" using assms(3) by (intro nth_map) linarith
  ultimately have s: "symmetric gf (map val xs) = partial_symmetric xs 1" using f by (simp add: symmetric_def)
  obtain x ys where xs: "xs = x # ys" using assms(3) by (cases xs) auto
  have "esym (ys @ [x]) = esym (x # remove1 x (ys @ [x]))" by (rule esym_remove1) simp
  moreover have "remove1 x (ys @ [x]) = ys" using assms(2) xs by (simp add: remove1_append)
  ultimately show ?thesis unfolding s unfolding partial_symmetric_def xs by (simp del: upt_Suc)
qed

section \<open>The inverse\<close>

text \<open>A matrix in which column \<open>i\<close> has been given the entries of a map from rows.\<close>

definition put_column :: "nat \<Rightarrow> nat \<Rightarrow> (nat \<rightharpoonup> u32) \<Rightarrow> u32 list \<Rightarrow> u32 list" where
  "put_column n i f m = map (\<lambda>q. case (if q mod n = i then f (q div n) else None) of Some v \<Rightarrow> v | None \<Rightarrow> m ! q) [0..<length m]"

lemma length_put_column [simp]: "length (put_column n i f m) = length m"
  by (simp add: put_column_def)

lemma row_column: "i < n \<Longrightarrow> t * n + i = q \<longleftrightarrow> q mod n = i \<and> q div n = t" for q :: nat
  by (auto simp: div_mult_mod_eq)

lemma put_column_update:
  assumes "i < n"
  shows "(put_column n i f m)[t * n + i := v] = put_column n i (f(t \<mapsto> v)) m"
proof (rule nth_equalityI)
  fix q
  assume "q < length ((put_column n i f m)[t * n + i := v])"
  then show "(put_column n i f m)[t * n + i := v] ! q = put_column n i (f(t \<mapsto> v)) m ! q"
    using row_column [OF assms, of t q] by (cases "t * n + i = q") (auto simp: put_column_def)
qed simp

lemma put_column_nth:
  assumes "i < n" "t * n + i < length m"
  shows "put_column n i f m ! (t * n + i) = (case f t of Some v \<Rightarrow> v | None \<Rightarrow> m ! (t * n + i))"
  using assms by (simp add: put_column_def split: option.split)

lemma put_column_empty [simp]: "put_column n i (\<lambda>_. None) m = m"
  by (rule nth_equalityI) (simp_all add: put_column_def)

lemma esym_others:
  assumes "i < length xs"
  shows "esym (others xs i) (Suc t) = esym xs (Suc t) + xs ! i * esym (others xs i) t"
proof -
  have "esym xs (Suc t) = esym (others xs i) (Suc t) + xs ! i * esym (others xs i) t"
    using esym_remove1 [of "xs ! i" xs] assms by (simp add: others_def)
  then show ?thesis by (simp add: add.assoc gf_add_self)
qed

text \<open>The value of the column's polynomial at the column's point, by Horner's rule.\<close>

definition horner :: "gf256 list \<Rightarrow> nat \<Rightarrow> nat \<Rightarrow> gf256" where
  "horner xs i k = (\<Sum>t\<le>k. esym (others xs i) t * (xs ! i) ^ (k - t))"

lemma horner_Suc: "horner xs i (Suc k) = esym (others xs i) (Suc k) + xs ! i * horner xs i k"
proof -
  have "(\<Sum>t\<le>k. esym (others xs i) t * (xs ! i) ^ (Suc k - t)) = xs ! i * horner xs i k"
    unfolding horner_def sum_distrib_left by (intro sum.cong refl) (simp add: Suc_diff_le)
  then show ?thesis by (simp add: horner_def add.commute)
qed

lemma horner_last: "i < length xs \<Longrightarrow> horner xs i (length xs - 1) = (\<Prod>y\<leftarrow>others xs i. xs ! i + y)"
  using esym_prod [of "others xs i" "xs ! i"] by (simp add: horner_def)

definition entries :: "(nat \<Rightarrow> gf256) \<Rightarrow> nat \<Rightarrow> nat \<Rightarrow> nat \<rightharpoonup> u32" where
  "entries f lo hi t = (if lo \<le> t \<and> t < hi then Some (val (f t)) else None)"

lemma column_down_loop:
  assumes "valid_gf gf" "i < length xs" "length a = length xs" "\<forall>t < length xs. a ! t = val (esym xs (Suc t))"
  shows "1 \<le> k \<Longrightarrow> k < length xs \<Longrightarrow>
    fold (column_down gf a (length xs) (val (xs ! i))) [1..<k]
      (put_column (length xs) i (entries (esym (others xs i)) 1 2) m, 1 * length xs + i, val (esym (others xs i) 1), val (horner xs i 1)) =
    (put_column (length xs) i (entries (esym (others xs i)) 1 (Suc k)) m, k * length xs + i, val (esym (others xs i) k), val (horner xs i k))"
proof (induction k rule: dec_induct)
  case (step k)
  let ?o = "others xs i" and ?n = "length xs"
  have e: "(entries (esym ?o) 1 (Suc k))(Suc k \<mapsto> val (esym ?o (Suc k))) = entries (esym ?o) 1 (Suc (Suc k))"
    using step.hyps by (auto simp: entries_def fun_eq_iff)
  have pos: "k * ?n + i + ?n = Suc k * ?n + i" by simp
  have tmp: "a ! k XOR ec_gf_mul gf (val (xs ! i)) (val (esym ?o k)) = val (esym ?o (Suc k))"
    using step.prems assms(4) esym_others [OF assms(2), of k] by (simp add: gf_mul_val [OF assms(1)] val_xor)
  have p: "val (esym ?o (Suc k)) XOR ec_gf_mul gf (val (xs ! i)) (val (horner xs i k)) = val (horner xs i (Suc k))"
    by (simp add: horner_Suc gf_mul_val [OF assms(1)] val_xor)
  have "column_down gf a ?n (val (xs ! i)) k
      (put_column ?n i (entries (esym ?o) 1 (Suc k)) m, k * ?n + i, val (esym ?o k), val (horner xs i k)) =
    (put_column ?n i (entries (esym ?o) 1 (Suc (Suc k))) m, Suc k * ?n + i, val (esym ?o (Suc k)), val (horner xs i (Suc k)))"
    unfolding column_down_def Let_def prod.case pos tmp p put_column_update [OF assms(2)] e ..
  moreover have "[1..<Suc k] = [1..<k] @ [k]" using step.hyps by simp
  ultimately show ?case using step.IH step.prems by (simp only: fold_append fold_simps comp_def Suc_lessD)
qed (simp add: numeral_2_eq_2)

lemma column_up_loop:
  assumes "valid_gf gf" "i < length xs" "length m = length xs * length xs" "q \<noteq> 0"
  shows "k \<le> length xs - 1 \<Longrightarrow>
    fold (column_up gf (length xs) (val q)) [0..<k]
      (put_column (length xs) i (entries f 1 (length xs)) m, (length xs - 1) * length xs + i) =
    (put_column (length xs) i (entries f 1 (length xs - k) ++ entries (\<lambda>t. f t / q) (length xs - k) (length xs)) m,
      (length xs - 1 - k) * length xs + i)"
proof (induction k)
  case 0
  have "entries f 1 (length xs) ++ entries (\<lambda>t. f t / q) (length xs) (length xs) = entries f 1 (length xs)"
    by (auto simp: entries_def fun_eq_iff map_add_def)
  then show ?case by simp
next
  case (Suc k)
  let ?n = "length xs" and ?g = "\<lambda>t. f t / q"
  define r where "r = ?n - 1 - k"
  have r: "r < ?n" "1 \<le> r" "?n - k = Suc r" "?n - Suc k = r" "?n - 1 - Suc k = r - 1" using Suc.prems by (auto simp: r_def)
  let ?h = "entries f 1 (Suc r) ++ entries ?g (Suc r) ?n"
  have "r * ?n + i < Suc r * ?n" using assms(2) by simp
  also have "\<dots> \<le> ?n * ?n" using r(1) by (intro mult_le_mono1) simp
  finally have "put_column ?n i ?h m ! (r * ?n + i) = val (f r)"
    using put_column_nth [OF assms(2), of r m ?h] assms(3) r by (simp add: entries_def map_add_def)
  moreover have "?h(r \<mapsto> val (f r / q)) = entries f 1 r ++ entries ?g r ?n"
    using r by (auto simp: entries_def map_add_def fun_eq_iff)
  moreover have "r * ?n + i - ?n = (r - 1) * ?n + i" using r(2) by (cases r) auto
  ultimately have "column_up gf ?n (val q) k (put_column ?n i ?h m, r * ?n + i) =
      (put_column ?n i (entries f 1 r ++ entries ?g r ?n) m, (r - 1) * ?n + i)"
    unfolding column_up_def prod.case by (simp only: gf_div_val [OF assms(1,4)] put_column_update [OF assms(2)])
  then show ?case using Suc.IH Suc.prems unfolding r(3-5) r_def [symmetric] by simp
qed

lemma inverse_column_val:
  assumes "valid_gf gf" "distinct xs" "2 \<le> length xs" "i < length xs" "length m = length xs * length xs"
  shows "inverse_column gf (symmetric gf (map val xs)) (map val xs) i (m, i) =
    (put_column (length xs) i (entries (\<lambda>t. inv_entry xs t i) 0 (length xs)) m, Suc i)"
proof -
  let ?n = "length xs" and ?o = "others xs i" and ?a = "symmetric gf (map val xs)" and ?x = "val (xs ! i)"
  let ?q = "\<Prod>y\<leftarrow>?o. xs ! i + y"
  have a: "length ?a = ?n" "\<forall>t < ?n. ?a ! t = val (esym xs (Suc t))" by (simp_all add: symmetric_val [OF assms(1-3)])
  have x: "map val xs ! i = ?x" using assms(4) by simp
  have n: "?n - 1 < ?n" "1 \<le> ?n - 1" "Suc (?n - 1) = ?n" "0 < ?n" using assms(3) by auto
  have e1: "esym ?o 1 = esym xs 1 + xs ! i" using esym_others [OF assms(4), of 0] by simp
  have "horner xs i (Suc 0) = esym ?o (Suc 0) + xs ! i" unfolding horner_Suc by (simp add: horner_def)
  then have h1: "horner xs i 1 = esym xs 1" using e1 by (simp only: One_nat_def add.assoc gf_add_self add_0_right)
  have p: "?a ! 0 = val (horner xs i 1)" using a(2) n(4) h1 by simp
  have tmp: "val (horner xs i 1) XOR ?x = val (esym ?o 1)" unfolding h1 e1 by (rule val_xor)
  have "m[1 * ?n + i := val (esym ?o 1)] = (put_column ?n i (\<lambda>_. None) m)[1 * ?n + i := val (esym ?o 1)]" by (simp add: add.commute)
  also have "\<dots> = put_column ?n i ((\<lambda>_. None)(1 \<mapsto> val (esym ?o 1))) m" by (rule put_column_update [OF assms(4)])
  also have "(\<lambda>_. None)(1 \<mapsto> val (esym ?o 1)) = entries (esym ?o) 1 2" by (auto simp: entries_def fun_eq_iff)
  finally have m1: "m[1 * ?n + i := val (esym ?o 1)] = put_column ?n i (entries (esym ?o) 1 2) m" .
  have i1: "i + ?n = 1 * ?n + i" by simp
  note down = column_down_loop [OF assms(1,4) a n(2,1), of m, unfolded n(3) horner_last [OF assms(4)]]
  note up = column_up_loop [OF assms(1,4,5) others_prod_nonzero [OF assms(2,4)], of "?n - 1" "esym ?o"]
  have up': "fold (column_up gf ?n (val ?q)) [0..<?n - 1] (put_column ?n i (entries (esym ?o) 1 ?n) m, (?n - 1) * ?n + i) =
      (put_column ?n i (entries (\<lambda>t. esym ?o t / ?q) 1 ?n) m, 0 * ?n + i)"
  proof -
    have "?n - (?n - 1) = 1" "?n - 1 - (?n - 1) = 0" using assms(3) by auto
    moreover have "entries (esym ?o) 1 1 ++ g = g" for g by (auto simp: entries_def fun_eq_iff map_add_def split: option.split)
    ultimately show ?thesis using up by simp
  qed
  have "(entries (\<lambda>t. esym ?o t / ?q) 1 ?n)(0 \<mapsto> val (1 / ?q)) = entries (\<lambda>t. inv_entry xs t i) 0 ?n"
    using assms(3) by (auto simp: entries_def fun_eq_iff inv_entry_def)
  then have last: "(put_column ?n i (entries (\<lambda>t. esym ?o t / ?q) 1 ?n) m)[0 * ?n + i := val (1 / ?q)] =
      put_column ?n i (entries (\<lambda>t. inv_entry xs t i) 0 ?n) m"
    unfolding put_column_update [OF assms(4)] by simp
  have one: "ec_gf_div gf 1 (val ?q) = val (1 / ?q)"
    using gf_div_val [OF assms(1) others_prod_nonzero [OF assms(2,4)], of 1] by simp
  show ?thesis
    unfolding inverse_column_def prod.case Let_def length_map x p tmp m1 i1 down up' one last by simp
qed

lemma matrix_inverse:
  assumes "valid_gf gf" "distinct xs" "2 \<le> length xs" "length m = length xs * length xs"
  shows "ec_method_matrix_inverse gf m (map val xs) =
    map (\<lambda>q. val (inv_entry xs (q div length xs) (q mod length xs))) [0..<length xs * length xs]"
proof -
  let ?n = "length xs" and ?f = "\<lambda>q. val (inv_entry xs (q div length xs) (q mod length xs))"
  let ?m = "\<lambda>k. map (\<lambda>q. if q mod ?n < k then ?f q else m ! q) [0..<?n * ?n]"
  have "k \<le> ?n \<Longrightarrow> fold (inverse_column gf (symmetric gf (map val xs)) (map val xs)) [0..<k] (m, 0) = (?m k, k)" for k
  proof (induction k)
    case 0
    then show ?case by (simp add: assms(4) [symmetric] map_nth)
  next
    case (Suc k)
    have "put_column ?n k (entries (\<lambda>t. inv_entry xs t k) 0 ?n) (?m k) = ?m (Suc k)"
      by (rule nth_equalityI) (auto simp: put_column_def entries_def less_mult_imp_div_less)
    then show ?case using Suc inverse_column_val [OF assms(1-3), of k "?m k"] by simp
  qed
  moreover have "q mod ?n < ?n" for q using assms(3) by (intro mod_less_divisor) linarith
  ultimately show ?thesis unfolding ec_method_matrix_inverse_def by simp
qed

lemma concat_nth: "\<forall>r \<in> set rs. length r = n \<Longrightarrow> k < length rs \<Longrightarrow> t < n \<Longrightarrow> concat rs ! (k * n + t) = rs ! k ! t"
proof (induction rs arbitrary: k)
  case (Cons r rs)
  then show ?case by (cases k) (auto simp: nth_append)
qed simp

lemma fold_dot:
  assumes "valid_gf gf"
  shows "fold (\<lambda>t r. ec_gf_add gf r (ec_gf_mul gf (val (f t)) (val (g t)))) [0..<n] 0 = val (\<Sum>t < n. f t * g t)"
  by (induction n) (simp_all add: gf_mul_val [OF assms] gf_add_val [OF assms])

lemma row_place: "t < n \<Longrightarrow> i < n \<Longrightarrow> t * n + i < n * n" for t i n :: nat
  using mult_le_mono1 [of "Suc t" n n] by simp

section \<open>Properties\<close>

text \<open>C12: the two matrices are inverse to each other.  For at least two distinct values other than zero, and whatever the
  array contained, the sums of products of a row of the matrix \<open>ec_method_matrix_normal\<close> writes and a
  column of the one \<open>ec_method_matrix_inverse\<close> writes, computed by the operations of the field, are one
  in the diagonal and zero elsewhere.\<close>

theorem matrices_inverse:
  assumes "length log0 = 511" "length pow0 = 511" "ec_gf_prepare True (Some log0) (Some pow0) 8 0 = Some (Inr gf)"
    "distinct xs" "0 \<notin> set xs" "2 \<le> length xs" "length m = length xs * length xs" "k < length xs" "i < length xs"
  shows "fold (\<lambda>t r. ec_gf_add gf r (ec_gf_mul gf (ec_method_matrix_normal gf (of_nat (length xs)) (map val xs) ! (k * length xs + t))
      (ec_method_matrix_inverse gf m (map val xs) ! (t * length xs + i)))) [0..<length xs] 0 = (if k = i then 1 else 0)"
proof -
  let ?n = "length xs"
  have v: "valid_gf gf" using prepare_valid [OF assms(1,2), of 0] assms(3) by (auto simp: prepared_gf_def)
  have small: "?n < 2 ^ 32"
  proof -
    have "?n = card (set xs)" using assms(4) by (simp add: distinct_card)
    also have "\<dots> \<le> card (range Gf)" by (intro card_mono) (auto intro: range_eqI [of _ _ "byte _"] simp: byte_inverse)
    also have "\<dots> \<le> card (UNIV :: u8 set)" by (intro card_image_le) simp
    finally show ?thesis by (simp add: card_word)
  qed
  have nz: "\<forall>x \<in> set xs. x \<noteq> 0" "0 < ?n" using assms(5,6) by auto
  have N: "ec_method_matrix_normal gf (of_nat ?n) (map val xs) ! (k * ?n + t) = val (xs ! k ^ (?n - 1 - t))" if "t < ?n" for t
    unfolding matrix_normal [OF v nz small] using that assms(8) by (subst concat_nth [of _ ?n]) auto
  have I: "ec_method_matrix_inverse gf m (map val xs) ! (t * ?n + i) = val (inv_entry xs t i)" if "t < ?n" for t
    unfolding matrix_inverse [OF v assms(4,6,7)] using row_place [OF that assms(9)] assms(9) row_column [OF assms(9), of t "t * ?n + i"] by simp
  have "fold (\<lambda>t r. ec_gf_add gf r (ec_gf_mul gf (ec_method_matrix_normal gf (of_nat ?n) (map val xs) ! (k * ?n + t))
      (ec_method_matrix_inverse gf m (map val xs) ! (t * ?n + i)))) [0..<?n] 0 =
    fold (\<lambda>t r. ec_gf_add gf r (ec_gf_mul gf (val (xs ! k ^ (?n - 1 - t))) (val (inv_entry xs t i)))) [0..<?n] 0"
    by (rule fold_cong) (simp_all add: N I)
  also have "\<dots> = val (if k = i then 1 else 0)" unfolding fold_dot [OF v] inverse_right [OF assms(4,9,8)] ..
  finally show ?thesis by simp
qed

theorem matrices_inverse_witness:
  "\<exists>gf. fold (\<lambda>t r. ec_gf_add gf r (ec_gf_mul gf (ec_method_matrix_normal gf 2 (map val [Gf 1, Gf 3]) ! (1 * 2 + t))
     (ec_method_matrix_inverse gf [0, 0, 0, 0] (map val [Gf 1, Gf 3]) ! (t * 2 + 1)))) [0..<2] 0 = 1"
proof -
  obtain gf where gf: "ec_gf_prepare True (Some (replicate 511 0)) (Some (replicate 511 0)) 8 0 = Some (Inr gf)"
    using prepare_valid [of "replicate 511 0" "replicate 511 0" 0] by auto
  have l: "length [Gf 1, Gf 3] = 2" by simp
  show ?thesis using matrices_inverse [OF _ _ gf, of "[Gf 1, Gf 3]" "[0, 0, 0, 0]" 1 1, unfolded l]
    by (intro exI [of _ gf]) (simp add: Gf_inject zero_gf256_def)
qed

end
