(* ===== verification/Ec_Method.thy ===== *)
theory Ec_Method
  imports Ec_Code Ec_Matrix
begin

text \<open>
  Encoding and decoding, \<open>xlators/cluster/ec/src/ec-method.c\<close>, with the choice between generated and
  portable code of \<open>ec-code.c\<close>: the matrix of the encoding, the cache of inverse matrices kept by the
  mask of the fragments they decode from, and the loops over the data.

  Matrices are objects at addresses.  A step on an address that holds no matrix, or a call of a row
  that has no function, is the value None, so that memory safety is part of what the theorems say.
  Each function that takes the lock of the list is one step.  What the outside decides is an argument:
  the address a new matrix gets, if any, whether generating a row's code succeeds, and the contents
  of the vector registers.
\<close>

unbundle bit_operations_syntax

section \<open>Choice of the code\<close>

datatype ec_func = C_linear | C_interleaved | Generated ec_code_builder

text \<open>The generator in use is given by whether it has an exclusive or of three operands.\<close>

record ec_code =
  code_gf :: ec_gf
  code_gen :: "bool option"

definition ec_code_create :: "bool \<Rightarrow> ec_gf \<Rightarrow> bool option \<Rightarrow> int + ec_code" where
  "ec_code_create mem gf generator = (if \<not> mem then Inl ENOMEM else Inr \<lparr> code_gf = gf, code_gen = generator \<rparr>)"

text \<open>The function of a row, the coefficients it is called with, and the code afterwards.\<close>

definition ec_code_build :: "bool \<Rightarrow> u32 list \<Rightarrow> bool \<Rightarrow> ec_code \<Rightarrow> ec_func \<times> u32 list \<times> ec_code" where
  "ec_code_build compiled values linear code =
     (case code_gen code of
        Some xor3 \<Rightarrow>
          if compiled then (Generated (ec_code_build_dynamic (code_gf code) xor3 EC_METHOD_WORD_SIZE values linear), values, code)
          else (if linear then C_linear else C_interleaved, ec_code_c_prepare (code_gf code) values, code\<lparr> code_gen := None \<rparr>)
      | None \<Rightarrow> (if linear then C_linear else C_interleaved, ec_code_c_prepare (code_gf code) values, code))"

section \<open>Matrices\<close>

record ec_matrix_row =
  row_func :: "ec_func option"
  row_values :: "u32 list"

record ec_matrix =
  refs :: nat
  m_columns :: nat
  m_rows :: nat
  m_mask :: u64
  row_data :: "ec_matrix_row list"

text \<open>\<open>l_heap\<close> has the matrices of the pool; \<open>l_objects\<close> and \<open>l_lru\<close> refer to them.\<close>

record ec_matrix_list =
  l_columns :: nat
  l_rows :: nat
  l_max :: nat
  l_count :: nat
  l_stripe :: nat
  l_code :: "ec_code option"
  l_encode :: "ec_matrix option"
  l_objects :: "nat list"
  l_lru :: "nat list"
  l_heap :: "nat \<rightharpoonup> ec_matrix"

text \<open>The decrement of an unsigned counter.\<close>

definition dec32 :: "nat \<Rightarrow> nat" where
  "dec32 n = (if n = 0 then 4294967295 else n - 1)"

definition set_matrix :: "nat \<Rightarrow> ec_matrix \<Rightarrow> ec_matrix_list \<Rightarrow> ec_matrix_list" where
  "set_matrix a m l = l\<lparr> l_heap := (l_heap l)(a \<mapsto> m) \<rparr>"

text \<open>The rows of the array of values, and the loop that gives each row its function.\<close>

definition slices :: "nat \<Rightarrow> nat \<Rightarrow> u32 list \<Rightarrow> u32 list list" where
  "slices rows columns values = map (\<lambda>i. take columns (drop (i * columns) values)) [0..<rows]"

fun build_rows :: "(nat \<Rightarrow> bool) \<Rightarrow> bool \<Rightarrow> nat \<Rightarrow> u32 list list \<Rightarrow> ec_code \<Rightarrow> ec_matrix_row list \<times> ec_code" where
  "build_rows compiled linear i [] code = ([], code)"
| "build_rows compiled linear i (vs # vss) code =
     (case ec_code_build (compiled i) vs linear code of
        (f, vs, code) \<Rightarrow> (case build_rows compiled linear (Suc i) vss code of
          (rs, code) \<Rightarrow> (\<lparr> row_func = Some f, row_values = vs \<rparr> # rs, code)))"

definition ec_method_matrix_init :: "(nat \<Rightarrow> bool) \<Rightarrow> u32 list \<Rightarrow> u64 \<Rightarrow> u32 list \<Rightarrow> bool \<Rightarrow> ec_matrix_list \<Rightarrow> (ec_matrix \<times> ec_matrix_list) option" where
  "ec_method_matrix_init compiled values0 msk rows invert l =
     do {
       code \<leftarrow> l_code l;
       let columns = l_columns l;
       let n = (if invert then columns else l_rows l);
       let values = (if invert then ec_method_matrix_inverse (code_gf code) values0 (take n rows)
                     else ec_method_matrix_normal (code_gf code) (of_nat columns) (take n rows));
       let (rs, code) = build_rows compiled (\<not> invert) 0 (slices n columns values) code;
       Some (\<lparr> refs = 1, m_columns = columns, m_rows = n, m_mask = msk, row_data = rs \<rparr>, l\<lparr> l_code := Some code \<rparr>)
     }"

definition ec_method_matrix_release :: "ec_matrix \<Rightarrow> ec_matrix" where
  "ec_method_matrix_release m = m\<lparr> row_data := map (row_func_update (\<lambda>_. None)) (row_data m) \<rparr>"

definition ec_method_matrix_destroy :: "nat \<Rightarrow> ec_matrix_list \<Rightarrow> ec_matrix_list option" where
  "ec_method_matrix_destroy a l =
     (case l_heap l a of
        None \<Rightarrow> None
      | Some _ \<Rightarrow> Some (l\<lparr> l_lru := remove1 a (l_lru l), l_heap := (l_heap l)(a := None), l_count := dec32 (l_count l) \<rparr>))"

definition ec_method_matrix_unref :: "nat \<Rightarrow> ec_matrix_list \<Rightarrow> ec_matrix_list option" where
  "ec_method_matrix_unref a l =
     do {
       m \<leftarrow> l_heap l a;
       let l = set_matrix a (m\<lparr> refs := dec32 (refs m) \<rparr>) l;
       if dec32 (refs m) = 0 then
         let l = l\<lparr> l_lru := l_lru l @ [a] \<rparr>
         in if l_max l < l_count l then ec_method_matrix_destroy (hd (l_lru l)) l else Some l
       else Some l
     }"

text \<open>The search by halves for a mask among the cached matrices: the address if found, and the place.\<close>

definition object :: "ec_matrix_list \<Rightarrow> nat \<Rightarrow> (nat \<times> ec_matrix) option" where
  "object l k = (if k < length (l_objects l) then map_option (Pair (l_objects l ! k)) (l_heap l (l_objects l ! k)) else None)"

function lookup_loop :: "ec_matrix_list \<Rightarrow> u64 \<Rightarrow> nat \<Rightarrow> nat \<Rightarrow> (nat option \<times> nat) option" where
  "lookup_loop l msk i j =
     (if i < j then
        let k = (i + j) div 2
        in case object l k of
             None \<Rightarrow> None
           | Some (a, m) \<Rightarrow>
               if m_mask m = msk then Some (Some a, k)
               else if m_mask m < msk then lookup_loop l msk (k + 1) j
               else lookup_loop l msk i k
      else Some (None, i))"
  by pat_completeness auto
termination by (relation "measure (\<lambda>(l, msk, i, j). j - i)") auto

declare lookup_loop.simps [simp del]

definition ec_method_matrix_lookup :: "u64 \<Rightarrow> ec_matrix_list \<Rightarrow> (nat option \<times> nat) option" where
  "ec_method_matrix_lookup msk l = lookup_loop l msk 0 (l_count l)"

definition ec_method_matrix_remove :: "u64 \<Rightarrow> ec_matrix_list \<Rightarrow> ec_matrix_list option" where
  "ec_method_matrix_remove msk l =
     do {
       (found, pos) \<leftarrow> ec_method_matrix_lookup msk l;
       if found = None then Some l
       else
         let n = dec32 (l_count l); objs = l_objects l
         in Some (l\<lparr> l_count := n,
              l_objects := (if pos < n then take pos objs @ take (n - pos) (drop (pos + 1) objs) @ drop n objs else objs) \<rparr>)
     }"

definition ec_method_matrix_insert :: "nat \<Rightarrow> ec_matrix_list \<Rightarrow> ec_matrix_list option" where
  "ec_method_matrix_insert a l =
     do {
       m \<leftarrow> l_heap l a;
       (_, pos) \<leftarrow> ec_method_matrix_lookup (m_mask m) l;
       let objs = l_objects l;
       let objs = (if pos < l_count l
                   then take (pos + 1) objs @ take (l_count l - pos) (drop pos objs) @ drop (l_count l + 1) objs else objs);
       objs \<leftarrow> put pos a objs;
       Some (l\<lparr> l_objects := objs, l_count := l_count l + 1 \<rparr>)
     }"

text \<open>The matrix at an address is made for a mask, and cached while there is room.\<close>

definition make_matrix :: "(nat \<Rightarrow> bool) \<Rightarrow> nat \<Rightarrow> u32 list \<Rightarrow> u64 \<Rightarrow> u32 list \<Rightarrow> ec_matrix_list \<Rightarrow> ec_matrix_list option" where
  "make_matrix compiled a values0 msk rows l =
     do {
       (m, l) \<leftarrow> ec_method_matrix_init compiled values0 msk rows True l;
       if l_count l < l_max l then ec_method_matrix_insert a (set_matrix a m l)
       else Some (set_matrix a (m\<lparr> m_mask := 0 \<rparr>) l)
     }"

text \<open>The matrix for a mask: a cached one, one that is not in use made over, or a new one.\<close>

definition ec_method_matrix_get :: "nat option \<Rightarrow> (nat \<Rightarrow> bool) \<Rightarrow> u64 \<Rightarrow> u32 list \<Rightarrow> ec_matrix_list \<Rightarrow> ((int + nat) \<times> ec_matrix_list) option" where
  "ec_method_matrix_get fresh compiled msk rows l =
     do {
       (found, _) \<leftarrow> ec_method_matrix_lookup msk l;
       case found of
         Some a \<Rightarrow>
           do {
             m \<leftarrow> l_heap l a;
             Some (Inr a, set_matrix a (m\<lparr> refs := refs m + 1 \<rparr>) (l\<lparr> l_lru := remove1 a (l_lru l) \<rparr>))
           }
       | None \<Rightarrow>
           do {
             let recycle = (l_max l \<le> l_count l \<and> l_lru l \<noteq> []);
             if \<not> recycle \<and> fresh = None then Some (Inl ENOMEM, l)
             else
               do {
                 (a, values0, l) \<leftarrow>
                   (if recycle then
                      do {
                        let a = hd (l_lru l);
                        m \<leftarrow> l_heap l a;
                        l \<leftarrow> ec_method_matrix_remove (m_mask m) (l\<lparr> l_lru := tl (l_lru l) \<rparr>);
                        Some (a, concat (map row_values (row_data m)), set_matrix a (ec_method_matrix_release m) l)
                      }
                    else Some (the fresh, replicate (l_columns l * l_columns l) 0, l));
                 l \<leftarrow> make_matrix compiled a values0 msk rows l;
                 Some (Inr a, l)
               }
           }
     }"

definition ec_method_matrix_put :: "nat \<Rightarrow> ec_matrix_list \<Rightarrow> ec_matrix_list option" where
  "ec_method_matrix_put a l = ec_method_matrix_unref a l"

section \<open>Start and end\<close>

definition ec_method_setup :: "bool \<Rightarrow> bool \<Rightarrow> ec_gf \<Rightarrow> bool option \<Rightarrow> (nat \<Rightarrow> bool) \<Rightarrow> ec_matrix_list \<Rightarrow> (int \<times> ec_matrix_list) option" where
  "ec_method_setup mem code_mem gf generator compiled l =
     (if \<not> mem then Some (- ENOMEM, l)
      else case ec_code_create code_mem gf generator of
        Inl e \<Rightarrow> Some (- e, l\<lparr> l_code := None \<rparr>)
      | Inr code \<Rightarrow>
          do {
            (m, l) \<leftarrow> ec_method_matrix_init compiled [] 0 (map (\<lambda>i. of_nat i + 1) [0..<l_rows l]) False (l\<lparr> l_code := Some code \<rparr>);
            Some (0, l\<lparr> l_encode := Some m \<rparr>)
          })"

text \<open>The results of the allocations: the pool, the array of the cache, the three of the field, the matrix of
  the encoding and the code.\<close>

record allocations =
  pool_mem :: bool
  objects_mem :: "nat list option"
  gf_mem :: bool
  log_mem :: "u32 list option"
  pow_mem :: "u32 list option"
  matrix_mem :: bool
  code_mem :: bool

definition ec_method_init :: "allocations \<Rightarrow> bool option \<Rightarrow> (nat \<Rightarrow> bool) \<Rightarrow> nat \<Rightarrow> nat \<Rightarrow> nat \<Rightarrow> ec_matrix_list \<Rightarrow> (int \<times> ec_matrix_list) option" where
  "ec_method_init mem generator compiled columns rows mx l =
     (let l = l\<lparr> l_columns := columns, l_rows := rows, l_max := mx, l_stripe := EC_METHOD_CHUNK_SIZE * columns, l_lru := [] \<rparr>
      in if \<not> pool_mem mem then Some (- ENOMEM, l)
         else case objects_mem mem of
           None \<Rightarrow> Some (- ENOMEM, l)
         | Some objs \<Rightarrow>
             do {
               r \<leftarrow> ec_gf_prepare (gf_mem mem) (log_mem mem) (pow_mem mem) 8 0x11d;
               case r of
                 Inl e \<Rightarrow> Some (- e, l)
               | Inr gf \<Rightarrow>
                   do {
                     (err, l) \<leftarrow> ec_method_setup (matrix_mem mem) (code_mem mem) gf generator compiled (l\<lparr> l_objects := objs \<rparr>);
                     Some (err, if err \<noteq> 0 then l\<lparr> l_objects := [] \<rparr> else l)
                   }
             })"

text \<open>The end: the matrices on the list are destroyed, and the count is asserted to be zero.  The second
  component tells whether the assertion holds.\<close>

function fini_loop :: "ec_matrix_list \<Rightarrow> ec_matrix_list option" where
  "fini_loop l =
     (if l_lru l = [] then Some l
      else case ec_method_matrix_destroy (hd (l_lru l)) l of None \<Rightarrow> None | Some l \<Rightarrow> fini_loop l)"
  by pat_completeness auto
termination
  by (relation "measure (\<lambda>l. length (l_lru l))")
    (auto simp: ec_method_matrix_destroy_def length_remove1 split: option.splits)

declare fini_loop.simps [simp del]

definition ec_method_fini :: "ec_matrix_list \<Rightarrow> (ec_matrix_list \<times> bool) option" where
  "ec_method_fini l =
     (case l_encode l of
        None \<Rightarrow> Some (l, True)
      | Some m \<Rightarrow>
          do {
            l \<leftarrow> fini_loop l;
            Some (l\<lparr> l_encode := Some (ec_method_matrix_release m), l_code := None, l_objects := [] \<rparr>, l_count l = 0)
          })"

definition ec_method_update :: "ec_matrix_list \<Rightarrow> int" where
  "ec_method_update l = 0"

section \<open>Encoding and decoding\<close>

text \<open>The call of a row's function.  Generated code reads the chunks of its source one behind the other,
  or each from a source of its own.\<close>

definition call_linear :: "(nat \<Rightarrow> u64) \<Rightarrow> ec_matrix_row \<Rightarrow> chunk \<Rightarrow> u64 list \<Rightarrow> nat \<Rightarrow> nat \<Rightarrow> chunk option" where
  "call_linear vregs r dst src pos columns =
     (case row_func r of
        Some C_linear \<Rightarrow> Some (ec_code_c_linear dst src pos (row_values r) (of_nat columns))
      | Some (Generated b) \<Rightarrow> Some (run_code b (\<lambda>k. chunk_at src (pos + EC_METHOD_CHUNK_SIZE * k)) vregs dst)
      | _ \<Rightarrow> None)"

definition call_interleaved :: "(nat \<Rightarrow> u64) \<Rightarrow> ec_matrix_row \<Rightarrow> chunk \<Rightarrow> u64 list list \<Rightarrow> nat \<Rightarrow> nat \<Rightarrow> chunk option" where
  "call_interleaved vregs r dst src pos columns =
     (case row_func r of
        Some C_interleaved \<Rightarrow> ec_code_c_interleaved dst src pos (row_values r) (of_nat columns)
      | Some (Generated b) \<Rightarrow> Some (run_code b (\<lambda>k. chunk_at (src ! k) pos) vregs dst)
      | _ \<Rightarrow> None)"

text \<open>A pointer into a buffer is the buffer with a byte offset.\<close>

type_synonym pointer = "u64 list \<times> nat"

definition put_chunk :: "chunk \<Rightarrow> pointer \<Rightarrow> pointer" where
  "put_chunk c = (\<lambda>(buf, off). (take (off div 8) buf @ c @ drop (off div 8 + 64) buf, off + EC_METHOD_CHUNK_SIZE))"

fun encode_rows :: "(nat \<Rightarrow> u64) \<Rightarrow> ec_matrix_row list \<Rightarrow> nat \<Rightarrow> u64 list \<Rightarrow> nat \<Rightarrow> pointer list \<Rightarrow> pointer list option" where
  "encode_rows vregs [] columns inp pos out = Some out"
| "encode_rows vregs (r # rs) columns inp pos [] = None"
| "encode_rows vregs (r # rs) columns inp pos (p # out) =
     do {
       c \<leftarrow> call_linear vregs r (chunk_at (fst p) (snd p)) inp pos columns;
       out \<leftarrow> encode_rows vregs rs columns inp pos out;
       Some (put_chunk c p # out)
     }"

partial_function (option) encode_loop :: "(nat \<Rightarrow> u64) \<Rightarrow> ec_matrix_row list \<Rightarrow> nat \<Rightarrow> nat \<Rightarrow> nat \<Rightarrow> u64 list \<Rightarrow> nat \<Rightarrow> pointer list \<Rightarrow> pointer list option" where
  "encode_loop vregs rs columns stripe sz inp pos out =
     (if pos < sz then
        do {
          out \<leftarrow> encode_rows vregs rs columns inp pos out;
          encode_loop vregs rs columns stripe sz inp (pos + stripe) out
        }
      else Some out)"

definition ec_method_encode :: "(nat \<Rightarrow> u64) \<Rightarrow> ec_matrix_list \<Rightarrow> nat \<Rightarrow> u64 list \<Rightarrow> pointer list \<Rightarrow> pointer list option" where
  "ec_method_encode vregs l sz inp out =
     do {
       m \<leftarrow> l_encode l;
       encode_loop vregs (row_data m) (l_columns l) (l_stripe l) sz inp 0 out
     }"

fun decode_rows :: "(nat \<Rightarrow> u64) \<Rightarrow> ec_matrix_row list \<Rightarrow> nat \<Rightarrow> u64 list list \<Rightarrow> nat \<Rightarrow> pointer \<Rightarrow> pointer option" where
  "decode_rows vregs [] columns inp pos p = Some p"
| "decode_rows vregs (r # rs) columns inp pos p =
     do {
       c \<leftarrow> call_interleaved vregs r (chunk_at (fst p) (snd p)) inp pos columns;
       decode_rows vregs rs columns inp pos (put_chunk c p)
     }"

function decode_loop :: "(nat \<Rightarrow> u64) \<Rightarrow> ec_matrix_row list \<Rightarrow> nat \<Rightarrow> nat \<Rightarrow> u64 list list \<Rightarrow> nat \<Rightarrow> pointer \<Rightarrow> pointer option" where
  "decode_loop vregs rs columns sz inp pos p =
     (if pos < sz then
        case decode_rows vregs rs columns inp pos p of
          None \<Rightarrow> None
        | Some p \<Rightarrow> decode_loop vregs rs columns sz inp (pos + EC_METHOD_CHUNK_SIZE) p
      else Some p)"
  by pat_completeness auto
termination by (relation "measure (\<lambda>(vregs, rs, columns, sz, inp, pos, p). sz - pos)") auto

declare decode_loop.simps [simp del]

definition ec_method_decode ::
  "nat option \<Rightarrow> (nat \<Rightarrow> bool) \<Rightarrow> (nat \<Rightarrow> u64) \<Rightarrow> ec_matrix_list \<Rightarrow> nat \<Rightarrow> u64 \<Rightarrow> u32 list \<Rightarrow> u64 list list \<Rightarrow> pointer \<Rightarrow>
   (int \<times> u64 list \<times> ec_matrix_list) option" where
  "ec_method_decode fresh compiled vregs l sz msk rows inp out =
     do {
       (r, l) \<leftarrow> ec_method_matrix_get fresh compiled msk rows l;
       case r of
         Inl e \<Rightarrow> Some (- e, fst out, l)
       | Inr a \<Rightarrow>
           do {
             m \<leftarrow> l_heap l a;
             (buf, _) \<leftarrow> decode_loop vregs (row_data m) (l_columns l) sz inp 0 out;
             l \<leftarrow> ec_method_matrix_put a l;
             Some (0, buf, l)
           }
     }"

section \<open>Rows\<close>

text \<open>A row is right for its coefficients when it has generated code for them, or the portable function
  and the prepared coefficients.\<close>

definition row_ok :: "bool \<Rightarrow> ec_gf \<Rightarrow> gf256 list \<Rightarrow> ec_matrix_row \<Rightarrow> bool" where
  "row_ok linear gf vs r \<longleftrightarrow>
     row_func r = Some (if linear then C_linear else C_interleaved) \<and> row_values r = ec_code_c_prepare gf (map val vs) \<or>
     (\<exists>xor3. row_func r = Some (Generated (ec_code_build_dynamic gf xor3 EC_METHOD_WORD_SIZE (map val vs) linear)) \<and> row_values r = map val vs)"

lemma build_row_ok:
  assumes "ec_code_build c (map val vs) linear code = (f, vs', code')"
  shows "row_ok linear (code_gf code) vs \<lparr> row_func = Some f, row_values = vs' \<rparr> \<and> code_gf code' = code_gf code"
  using assms by (auto simp: ec_code_build_def row_ok_def split: option.splits if_splits)

lemma build_rows_ok:
  "\<exists>rs code'. build_rows compiled linear i (map (map val) vss) code = (rs, code') \<and> list_all2 (row_ok linear (code_gf code)) vss rs \<and>
     code_gf code' = code_gf code"
proof (induction vss arbitrary: i code)
  case (Cons vs vss)
  obtain f vs' c1 where b: "ec_code_build (compiled i) (map val vs) linear code = (f, vs', c1)" by (metis prod_cases3)
  note r = build_row_ok [OF b]
  obtain rs c2 where "build_rows compiled linear (Suc i) (map (map val) vss) c1 = (rs, c2)"
    "list_all2 (row_ok linear (code_gf c1)) vss rs" "code_gf c2 = code_gf c1" using Cons.IH by blast
  then show ?case using b r by simp
qed simp

lemma row_values_length: "row_ok linear gf vs r \<Longrightarrow> valid_gf gf \<Longrightarrow> length (row_values r) = length vs"
  by (auto simp: row_ok_def ec_code_c_prepare_def prepare_loop_val)

lemma linear_row:
  assumes "row_ok True gf vs r" "prepared_gf gf" "vs \<noteq> []" "\<forall>v \<in> set vs. v \<noteq> 0" "last vs = 1" "length vs < 2 ^ 32" "is_chunk dst"
    "\<And>k. k < length vs \<Longrightarrow> is_chunk (chunk_at src (pos + 512 * k))"
  shows "\<exists>c. call_linear vregs r dst src pos (length vs) = Some c \<and> is_chunk c \<and>
    (\<forall>j < 512. element c j = lin vs (map (\<lambda>k. element (chunk_at src (pos + 512 * k)) j) [0..<length vs]))"
proof -
  have v: "valid_gf gf" using assms(2) by (simp add: prepared_gf_def)
  note c = c_linear_element [OF v assms(3-8)] and d = dynamic_element [OF assms(2,7)]
  consider "row_func r = Some C_linear" "row_values r = ec_code_c_prepare gf (map val vs)" |
    xor3 where "row_func r = Some (Generated (ec_code_build_dynamic gf xor3 64 (map val vs) True))"
    using assms(1) by (auto simp: row_ok_def)
  then show ?thesis by cases (use c d(1) d(2) [of 0] in \<open>auto simp: call_linear_def\<close>)
qed

lemma interleaved_row:
  assumes "row_ok False gf vs r" "prepared_gf gf" "\<exists>v \<in> set vs. v \<noteq> 0" "length vs < 2 ^ 32" "is_chunk dst"
    "\<And>k. k < length vs \<Longrightarrow> is_chunk (chunk_at (src ! k) pos)"
  shows "\<exists>c. call_interleaved vregs r dst src pos (length vs) = Some c \<and> is_chunk c \<and>
    (\<forall>j < 512. element c j = lin vs (map (\<lambda>k. element (chunk_at (src ! k) pos) j) [0..<length vs]))"
proof -
  have v: "valid_gf gf" using assms(2) by (simp add: prepared_gf_def)
  note c = c_interleaved_element [OF v assms(3-6)] and d = dynamic_element [OF assms(2,5)]
  consider "row_func r = Some C_interleaved" "row_values r = ec_code_c_prepare gf (map val vs)" |
    xor3 where "row_func r = Some (Generated (ec_code_build_dynamic gf xor3 64 (map val vs) False))"
    using assms(1) by (auto simp: row_ok_def)
  then show ?thesis by cases (use c d(1) d(2) [of 0] in \<open>auto simp: call_interleaved_def\<close>)
qed

lemma lin_sum: "length vs = n \<Longrightarrow> lin vs (map f [0..<n]) = (\<Sum>k < n. vs ! k * f k)"
proof -
  assume n: "length vs = n"
  have "lin vs (map f [0..<n]) = (\<Sum>k\<leftarrow>[0..<n]. vs ! k * f k)"
    unfolding lin_def by (rule arg_cong [where f = sum_list]) (rule nth_equalityI, use n in auto)
  then show ?thesis by (simp add: interv_sum_list_conv_sum_set_nat atLeast0LessThan)
qed

section \<open>The matrices\<close>

definition vandermonde :: "nat \<Rightarrow> gf256 \<Rightarrow> gf256 list" where
  "vandermonde n x = map (\<lambda>t. x ^ (n - 1 - t)) [0..<n]"

definition inverse_rows :: "gf256 list \<Rightarrow> gf256 list list" where
  "inverse_rows xs = map (\<lambda>t. map (inv_entry xs t) [0..<length xs]) [0..<length xs]"

lemma slices_concat: "\<forall>vs \<in> set vss. length vs = n \<Longrightarrow> slices (length vss) n (concat vss) = vss"
proof (induction vss)
  case (Cons vs vss)
  have "drop (n + i * n) (vs @ concat vss) = drop (i * n) (concat vss)" for i using Cons.prems by simp
  then show ?case using Cons by (simp add: slices_def upt_conv_Cons map_Suc_upt [symmetric] comp_def del: upt_Suc)
qed (simp add: slices_def)

lemma slices_table:
  "slices n n (map (\<lambda>q. f (q div n) (q mod n)) [0..<n * n]) = map (\<lambda>t. map (f t) [0..<n]) [0..<n]"
proof (rule nth_equalityI)
  fix t
  assume "t < length (slices n n (map (\<lambda>q. f (q div n) (q mod n)) [0..<n * n]))"
  then have t: "t < n" by (simp add: slices_def)
  then have n: "t * n + n \<le> n * n" using mult_le_mono1 [of "Suc t" n n] by simp
  have "take n (drop (t * n) (map (\<lambda>q. f (q div n) (q mod n)) [0..<n * n])) = map (f t) [0..<n]"
  proof (rule nth_equalityI)
    fix i
    assume "i < length (take n (drop (t * n) (map (\<lambda>q. f (q div n) (q mod n)) [0..<n * n])))"
    then have i: "i < n" by simp
    then have "t * n + i < n * n" using n by linarith
    then show "take n (drop (t * n) (map (\<lambda>q. f (q div n) (q mod n)) [0..<n * n])) ! i = map (f t) [0..<n] ! i"
      using i t by simp
  qed (use n in simp)
  then show "slices n n (map (\<lambda>q. f (q div n) (q mod n)) [0..<n * n]) ! t = map (\<lambda>t. map (f t) [0..<n]) [0..<n] ! t"
    using t by (simp add: slices_def)
qed (simp add: slices_def)

text \<open>A matrix that decodes from the fragments with the values \<open>xs\<close>.\<close>

definition inverse_ok :: "ec_gf \<Rightarrow> gf256 list \<Rightarrow> ec_matrix \<Rightarrow> bool" where
  "inverse_ok gf xs m \<longleftrightarrow> m_columns m = length xs \<and> m_rows m = length xs \<and> list_all2 (row_ok False gf) (inverse_rows xs) (row_data m)"

lemma init_inverse:
  assumes "l_code l = Some code" "prepared_gf (code_gf code)" "distinct xs" "2 \<le> length xs" "l_columns l = length xs"
    "length values0 = length xs * length xs"
  shows "\<exists>m code'. ec_method_matrix_init compiled values0 msk (map val xs) True l = Some (m, l\<lparr> l_code := Some code' \<rparr>) \<and>
    inverse_ok (code_gf code) xs m \<and> refs m = 1 \<and> m_mask m = msk \<and> code_gf code' = code_gf code"
proof -
  have v: "valid_gf (code_gf code)" using assms(2) by (simp add: prepared_gf_def)
  have s: "slices (length xs) (length xs) (ec_method_matrix_inverse (code_gf code) values0 (map val xs)) = map (map val) (inverse_rows xs)"
    unfolding matrix_inverse [OF v assms(3,4,6)] slices_table [of _ "\<lambda>t i. val (inv_entry xs t i)"] by (simp add: inverse_rows_def comp_def)
  obtain rs code' where "build_rows compiled False 0 (map (map val) (inverse_rows xs)) code = (rs, code')"
    "list_all2 (row_ok False (code_gf code)) (inverse_rows xs) rs" "code_gf code' = code_gf code" using build_rows_ok by blast
  then show ?thesis using assms(1,5) s
    by (intro exI [of _ "\<lparr> refs = 1, m_columns = length xs, m_rows = length xs, m_mask = msk, row_data = rs \<rparr>"] exI [of _ code'])
      (simp add: ec_method_matrix_init_def inverse_ok_def Let_def)
qed

lemma init_normal:
  assumes "l_code l = Some code" "prepared_gf (code_gf code)" "l_rows l = length xs" "\<forall>x \<in> set xs. x \<noteq> 0" "0 < l_columns l" "l_columns l < 2 ^ 32"
  shows "\<exists>m code'. ec_method_matrix_init compiled values0 msk (map val xs) False l = Some (m, l\<lparr> l_code := Some code' \<rparr>) \<and>
    list_all2 (row_ok True (code_gf code)) (map (vandermonde (l_columns l)) xs) (row_data m) \<and> code_gf code' = code_gf code"
proof -
  have v: "valid_gf (code_gf code)" using assms(2) by (simp add: prepared_gf_def)
  let ?vss = "map (vandermonde (l_columns l)) xs"
  have c: "ec_method_matrix_normal (code_gf code) (of_nat (l_columns l)) (map val xs) = concat (map (map val) ?vss)"
    unfolding matrix_normal [OF v assms(4-6)] by (simp add: vandermonde_def comp_def)
  have s: "slices (length xs) (l_columns l) (concat (map (map val) ?vss)) = map (map val) ?vss"
    using slices_concat [of "map (map val) ?vss" "l_columns l"] by (simp add: vandermonde_def)
  obtain rs code' where "build_rows compiled True 0 (map (map val) ?vss) code = (rs, code')"
    "list_all2 (row_ok True (code_gf code)) ?vss rs" "code_gf code' = code_gf code" using build_rows_ok by blast
  then show ?thesis using assms(1,3) s c
    by (intro exI [of _ "\<lparr> refs = 1, m_columns = l_columns l, m_rows = length xs, m_mask = msk, row_data = rs \<rparr>"] exI [of _ code'])
      (simp add: ec_method_matrix_init_def Let_def)
qed

section \<open>Chunks in buffers\<close>

lemma is_chunk_at: "64 * Suc a \<le> length b \<Longrightarrow> is_chunk (chunk_at b (512 * a))"
  by (simp add: is_chunk_def chunk_at_def)

lemma put_chunk_at:
  assumes "is_chunk c" "64 * Suc a \<le> length b"
  obtains b' where "put_chunk c (b, 512 * a) = (b', 512 * Suc a)" "length b' = length b"
    "\<And>q. chunk_at b' (512 * q) = (if q = a then c else chunk_at b (512 * q))"
proof -
  let ?b = "take (64 * a) b @ c @ drop (64 * a + 64) b"
  have l: "length c = 64" using assms(1) by (simp add: is_chunk_def)
  have "chunk_at ?b (512 * q) = (if q = a then c else chunk_at b (512 * q))" for q
  proof -
    consider "q = a" | "q < a" | "a < q" by linarith
    then show ?thesis
    proof cases
      case 1
      then show ?thesis using assms(2) l by (simp add: chunk_at_def)
    next
      case 2
      then have "64 * q + 64 \<le> 64 * a" by simp
      then show ?thesis using 2 assms(2) by (simp add: chunk_at_def drop_take)
    next
      case 3
      then obtain d where q: "q = Suc (a + d)" by (auto simp: less_iff_Suc_add)
      then show ?thesis using assms(2) l by (simp add: chunk_at_def ac_simps)
    qed
  qed
  then show ?thesis using that [of ?b] assms(2) l by (simp add: put_chunk_def)
qed

lemma chunks_eqI:
  assumes "length b = 64 * n" "length b' = 64 * n" "\<And>q. q < n \<Longrightarrow> chunk_at b (512 * q) = chunk_at b' (512 * q)"
  shows "b = b'"
proof (rule nth_equalityI)
  fix i
  assume "i < length b"
  then have i: "i div 64 < n" using assms(1) by (simp add: less_mult_imp_div_less mult.commute)
  have c: "d ! i = chunk_at d (512 * (i div 64)) ! (i mod 64)" if "length d = 64 * n" for d :: "u64 list"
    using that i by (simp add: chunk_at_def)
  show "b ! i = b' ! i" using assms(3) [OF i] c [OF assms(1)] c [OF assms(2)] by simp
qed (use assms in simp)

section \<open>Encoding\<close>

text \<open>The first \<open>k\<close> chunks of a fragment are the sums its row of coefficients makes of the stripes.\<close>

definition fragment_ok :: "gf256 list \<Rightarrow> u64 list \<Rightarrow> nat \<Rightarrow> u64 list \<Rightarrow> bool" where
  "fragment_ok vs inp k b \<longleftrightarrow> (\<forall>q < k. \<forall>j < 512.
     element (chunk_at b (512 * q)) j = lin vs (map (\<lambda>t. element (chunk_at inp (512 * (length vs * q + t))) j) [0..<length vs]))"

definition encoded :: "u64 list \<Rightarrow> nat \<Rightarrow> nat \<Rightarrow> gf256 list \<Rightarrow> pointer \<Rightarrow> bool" where
  "encoded inp s k vs = (\<lambda>(b, off). off = 512 * k \<and> length b = 64 * s \<and> fragment_ok vs inp k b)"

definition linear_coeffs :: "nat \<Rightarrow> gf256 list \<Rightarrow> bool" where
  "linear_coeffs n vs \<longleftrightarrow> length vs = n \<and> vs \<noteq> [] \<and> (\<forall>v \<in> set vs. v \<noteq> 0) \<and> last vs = 1"

lemma vandermonde_coeffs: "0 < n \<Longrightarrow> x \<noteq> 0 \<Longrightarrow> linear_coeffs n (vandermonde n x)"
  by (auto simp: linear_coeffs_def vandermonde_def last_map)

lemma encode_row:
  assumes "row_ok True gf vs r" "prepared_gf gf" "linear_coeffs n vs" "n < 2 ^ 32" "length inp = 64 * (n * s)" "k < s" "encoded inp s k vs p"
  shows "\<exists>c. call_linear vregs r (chunk_at (fst p) (snd p)) inp (512 * (n * k)) n = Some c \<and> encoded inp s (Suc k) vs (put_chunk c p)"
proof -
  obtain b where p: "p = (b, 512 * k)" "length b = 64 * s" "fragment_ok vs inp k b" using assms(7) by (auto simp: encoded_def)
  have n: "length vs = n" using assms(3) by (simp add: linear_coeffs_def)
  have pos: "512 * (n * k) + 512 * t = 512 * (n * k + t)" for t by simp
  have "n * k + n \<le> n * s" using assms(6) mult_le_mono2 [of "Suc k" s n] by simp
  then have ch: "is_chunk (chunk_at inp (512 * (n * k) + 512 * t))" if "t < length vs" for t
    unfolding pos using that n assms(5) by (intro is_chunk_at) simp
  have b: "64 * Suc k \<le> length b" using p(2) assms(6) by simp
  obtain c where c: "call_linear vregs r (chunk_at b (512 * k)) inp (512 * (n * k)) n = Some c" "is_chunk c"
    "\<forall>j < 512. element c j = lin vs (map (\<lambda>t. element (chunk_at inp (512 * (n * k) + 512 * t)) j) [0..<n])"
    using linear_row [OF assms(1,2) _ _ _ _ is_chunk_at [OF b] ch, of vregs] assms(3,4) n by (auto simp: linear_coeffs_def)
  obtain b' where b': "put_chunk c (b, 512 * k) = (b', 512 * Suc k)" "length b' = length b"
    "\<And>q. chunk_at b' (512 * q) = (if q = k then c else chunk_at b (512 * q))" using put_chunk_at [OF c(2) b] by blast
  have "fragment_ok vs inp (Suc k) b'" using p(3) c(3) n unfolding fragment_ok_def b'(3) pos by (auto simp: less_Suc_eq)
  then show ?thesis using c(1) p b' by (auto simp: encoded_def)
qed

lemma encode_rows_ok:
  assumes "list_all2 (row_ok True gf) vss rs" "list_all2 (encoded inp s k) vss out" "prepared_gf gf" "\<forall>vs \<in> set vss. linear_coeffs n vs"
    "n < 2 ^ 32" "length inp = 64 * (n * s)" "k < s"
  shows "\<exists>out'. encode_rows vregs rs n inp (512 * (n * k)) out = Some out' \<and> list_all2 (encoded inp s (Suc k)) vss out'"
  using assms(1,2,4)
proof (induction vss arbitrary: rs out)
  case (Cons vs vss)
  obtain r rs' where r: "rs = r # rs'" "row_ok True gf vs r" "list_all2 (row_ok True gf) vss rs'" using Cons.prems(1) by (auto simp: list_all2_Cons1)
  obtain p out' where p: "out = p # out'" "encoded inp s k vs p" "list_all2 (encoded inp s k) vss out'"
    using Cons.prems(2) by (auto simp: list_all2_Cons1)
  obtain c where c: "call_linear vregs r (chunk_at (fst p) (snd p)) inp (512 * (n * k)) n = Some c" "encoded inp s (Suc k) vs (put_chunk c p)"
    using encode_row [OF r(2) assms(3) _ assms(5-7) p(2)] Cons.prems(3) by auto
  obtain out'' where "encode_rows vregs rs' n inp (512 * (n * k)) out' = Some out''" "list_all2 (encoded inp s (Suc k)) vss out''"
    using Cons.IH [OF r(3) p(3)] Cons.prems(3) by auto
  then show ?case using c by (simp add: r(1) p(1))
qed simp

lemma encode_loop_ok:
  assumes "list_all2 (row_ok True gf) vss rs" "prepared_gf gf" "\<forall>vs \<in> set vss. linear_coeffs n vs"
    "0 < n" "n < 2 ^ 32" "length inp = 64 * (n * s)"
  shows "k \<le> s \<Longrightarrow> list_all2 (encoded inp s k) vss out \<Longrightarrow>
    \<exists>out'. encode_loop vregs rs n (512 * n) (512 * (n * s)) inp (512 * (n * k)) out = Some out' \<and> list_all2 (encoded inp s s) vss out'"
proof (induction k arbitrary: out rule: inc_induct)
  case base
  then show ?case by (subst encode_loop.simps) simp
next
  case (step k)
  obtain out' where o: "encode_rows vregs rs n inp (512 * (n * k)) out = Some out'" "list_all2 (encoded inp s (Suc k)) vss out'"
    using encode_rows_ok [OF assms(1) step.prems assms(2,3,5,6) step.hyps(2)] by blast
  then show ?case using step.IH [OF o(2)] step.hyps assms(4) by (subst encode_loop.simps) (simp add: add.commute)
qed

section \<open>Decoding\<close>

lemma decode_rows_ok:
  assumes "prepared_gf gf" "n < 2 ^ 32" "\<And>k. k < n \<Longrightarrow> is_chunk (chunk_at (inp ! k) pos)"
  shows "list_all2 (row_ok False gf) vss rs \<Longrightarrow> \<forall>vs \<in> set vss. length vs = n \<and> (\<exists>v \<in> set vs. v \<noteq> 0) \<Longrightarrow>
    64 * (q + length vss) \<le> length b \<Longrightarrow>
    \<exists>b'. decode_rows vregs rs n inp pos (b, 512 * q) = Some (b', 512 * (q + length vss)) \<and> length b' = length b \<and>
      (\<forall>i < q. chunk_at b' (512 * i) = chunk_at b (512 * i)) \<and>
      (\<forall>t < length vss. \<forall>j < 512. element (chunk_at b' (512 * (q + t))) j = lin (vss ! t) (map (\<lambda>k. element (chunk_at (inp ! k) pos) j) [0..<n]))"
proof (induction vss arbitrary: rs q b)
  case (Cons vs vss)
  obtain r rs' where r: "rs = r # rs'" "row_ok False gf vs r" "list_all2 (row_ok False gf) vss rs'" using Cons.prems(1) by (auto simp: list_all2_Cons1)
  have vs: "length vs = n" "\<exists>v \<in> set vs. v \<noteq> 0" using Cons.prems(2) by auto
  have b: "64 * Suc q \<le> length b" using Cons.prems(3) by simp
  obtain c where c: "call_interleaved vregs r (chunk_at b (512 * q)) inp pos n = Some c" "is_chunk c"
    "\<forall>j < 512. element c j = lin vs (map (\<lambda>k. element (chunk_at (inp ! k) pos) j) [0..<n])"
    using interleaved_row [OF r(2) assms(1) vs(2) _ is_chunk_at [OF b], of inp pos vregs] vs(1) assms(2,3) by auto
  obtain b1 where b1: "put_chunk c (b, 512 * q) = (b1, 512 * Suc q)" "length b1 = length b"
    "\<And>i. chunk_at b1 (512 * i) = (if i = q then c else chunk_at b (512 * i))" using put_chunk_at [OF c(2) b] by blast
  obtain b2 where b2: "decode_rows vregs rs' n inp pos (b1, 512 * Suc q) = Some (b2, 512 * (Suc q + length vss))" "length b2 = length b1"
    "\<forall>i < Suc q. chunk_at b2 (512 * i) = chunk_at b1 (512 * i)"
    "\<forall>t < length vss. \<forall>j < 512. element (chunk_at b2 (512 * (Suc q + t))) j = lin (vss ! t) (map (\<lambda>k. element (chunk_at (inp ! k) pos) j) [0..<n])"
    using Cons.IH [OF r(3), of "Suc q" b1] Cons.prems(2,3) b1(2) by auto
  have "element (chunk_at b2 (512 * (q + t))) j = lin ((vs # vss) ! t) (map (\<lambda>k. element (chunk_at (inp ! k) pos) j) [0..<n])"
    if "t < length (vs # vss)" "j < 512" for t j
  proof (cases t)
    case 0
    have "chunk_at b2 (512 * q) = c" using b2(3) b1(3) [of q] by simp
    then show ?thesis using 0 c(3) that by simp
  next
    case (Suc t')
    then show ?thesis using b2(4) that by simp
  qed
  moreover have "\<forall>i < q. chunk_at b2 (512 * i) = chunk_at b (512 * i)" using b2(3) b1(3) by simp
  moreover have "decode_rows vregs rs n inp pos (b, 512 * q) = Some (b2, 512 * (q + length (vs # vss)))" using c(1) b1(1) b2(1) by (simp add: r(1))
  ultimately show ?case using b2(2) b1(2) by auto
qed simp

text \<open>The chunks of a stripe come back from the fragments of distinct values.\<close>

lemma stripe_decoded:
  assumes "distinct xs" "t < length xs" "q < s" "j < 512" "\<And>k. k < length xs \<Longrightarrow> fragment_ok (vandermonde (length xs) (xs ! k)) dat s (inp ! k)"
  shows "lin (inverse_rows xs ! t) (map (\<lambda>k. element (chunk_at (inp ! k) (512 * q)) j) [0..<length xs]) = element (chunk_at dat (512 * (length xs * q + t))) j"
proof -
  let ?n = "length xs"
  let ?f = "\<lambda>k. element (chunk_at (inp ! k) (512 * q)) j" and ?d = "\<lambda>t. element (chunk_at dat (512 * (?n * q + t))) j"
  have "?f k = (\<Sum>t < ?n. ?d t * (xs ! k) ^ (?n - 1 - t))" if "k < ?n" for k
  proof -
    have "?f k = lin (vandermonde ?n (xs ! k)) (map ?d [0..<?n])"
      using assms(5) [OF that] assms(3,4) by (simp add: fragment_ok_def vandermonde_def)
    also have "\<dots> = (\<Sum>t < ?n. ?d t * (xs ! k) ^ (?n - 1 - t))"
      by (subst lin_sum) (auto simp: vandermonde_def intro!: sum.cong)
    finally show ?thesis .
  qed
  from interpolation [OF assms(1) this assms(2)] show ?thesis
    using assms(2) by (subst lin_sum) (simp_all add: inverse_rows_def)
qed

lemma decode_loop_ok:
  assumes "prepared_gf gf" "distinct xs" "length xs < 2 ^ 32" "list_all2 (row_ok False gf) (inverse_rows xs) rs" "length dat = 64 * (length xs * s)"
    "\<And>k. k < length xs \<Longrightarrow> length (inp ! k) = 64 * s \<and> fragment_ok (vandermonde (length xs) (xs ! k)) dat s (inp ! k)"
  shows "k \<le> s \<Longrightarrow> length b = length dat \<Longrightarrow> \<forall>i < length xs * k. chunk_at b (512 * i) = chunk_at dat (512 * i) \<Longrightarrow>
    decode_loop vregs rs (length xs) (512 * s) inp (512 * k) (b, 512 * (length xs * k)) = Some (dat, 512 * (length xs * s))"
proof (induction k arbitrary: b rule: inc_induct)
  case base
  have "b = dat" by (rule chunks_eqI [of _ "length xs * s"]) (use base assms(5) in simp_all)
  then show ?case by (subst decode_loop.simps) simp
next
  case (step k)
  let ?n = "length xs"
  have nk: "?n * k + ?n \<le> ?n * s" using step.hyps(2) mult_le_mono2 [of "Suc k" s ?n] by simp
  have ch: "is_chunk (chunk_at (inp ! i) (512 * k))" if "i < ?n" for i using assms(6) [OF that] step.hyps(2) by (intro is_chunk_at) simp
  have vss: "\<forall>vs \<in> set (inverse_rows xs). length vs = ?n \<and> (\<exists>v \<in> set vs. v \<noteq> 0)"
    using inv_row_nonzero [OF assms(2)] by (fastforce simp: inverse_rows_def)
  have len: "length (inverse_rows xs) = ?n" by (simp add: inverse_rows_def)
  obtain b' where b': "decode_rows vregs rs ?n inp (512 * k) (b, 512 * (?n * k)) = Some (b', 512 * (?n * k + ?n))" "length b' = length b"
    "\<forall>i < ?n * k. chunk_at b' (512 * i) = chunk_at b (512 * i)"
    "\<And>t j. t < ?n \<Longrightarrow> j < 512 \<Longrightarrow> element (chunk_at b' (512 * (?n * k + t))) j =
       lin (inverse_rows xs ! t) (map (\<lambda>i. element (chunk_at (inp ! i) (512 * k)) j) [0..<?n])"
    using decode_rows_ok [OF assms(1,3) ch assms(4) vss, of "?n * k" b vregs] nk step.prems(1) assms(5) unfolding len by auto
  have "chunk_at b' (512 * i) = chunk_at dat (512 * i)" if i: "i < ?n * Suc k" for i
  proof (cases "i < ?n * k")
    case True
    then show ?thesis using b'(3) step.prems(2) by simp
  next
    case False
    then obtain t where t: "i = ?n * k + t" "t < ?n" using i by (metis add_less_cancel_left le_Suc_ex mult_Suc_right not_less add.commute)
    show ?thesis
    proof (rule chunk_eqI)
      show "is_chunk (chunk_at b' (512 * i))" "is_chunk (chunk_at dat (512 * i))"
        using t nk b'(2) step.prems(1) assms(5) by (intro is_chunk_at; simp)+
      show "element (chunk_at b' (512 * i)) j = element (chunk_at dat (512 * i)) j" if "j < 512" for j
        unfolding t(1) b'(4) [OF t(2) that] using stripe_decoded [OF assms(2) t(2) step.hyps(2) that] assms(6) by simp
    qed
  qed
  then have "decode_loop vregs rs ?n (512 * s) inp (512 * Suc k) (b', 512 * (?n * Suc k)) = Some (dat, 512 * (?n * s))"
    using b'(2) step.prems(1) by (intro step.IH) simp_all
  then show ?case using b'(1) step.hyps(2) by (subst decode_loop.simps) (simp add: add.commute)
qed

end
