(* ===== verification/Ec_Cache.thy ===== *)
theory Ec_Cache
  imports Ec_Method
begin

text \<open>
  The cache of inverse matrices of \<open>ec-method.c\<close> under every sequence of \<open>ec_method_matrix_get\<close> and
  \<open>ec_method_matrix_put\<close>: the array of cached matrices stays sorted by mask, every matrix a decoder
  holds is the inverse for the mask it was asked for, and no matrix is used after it has been freed.

  The decoders at work are a list of the addresses they hold with the masks they asked for.
\<close>

section \<open>Masks\<close>

text \<open>The rows a mask selects, in the order of the bits, and the field elements they stand for.\<close>

definition mask_rows :: "u64 \<Rightarrow> u32 list" where
  "mask_rows msk = map (\<lambda>i. of_nat i + 1) (filter (bit msk) [0..<64])"

definition mask_points :: "u64 \<Rightarrow> gf256 list" where
  "mask_points msk = map gf_of (mask_rows msk)"

lemma row_unat: "i < 255 \<Longrightarrow> unat (of_nat i + 1 :: u32) = Suc i"
proof -
  assume "i < 255"
  then have "unat (of_nat (Suc i) :: u32) = Suc i" by (simp only: unat_of_nat) simp
  then show ?thesis by (simp add: add.commute)
qed

lemma row_val: "i < 255 \<Longrightarrow> val (gf_of (of_nat i + 1)) = of_nat i + 1"
  using row_unat [of i] by (intro val_gf_of) (simp add: word_less_nat_alt)

lemma mask_rows_points: "mask_rows msk = map val (mask_points msk)"
  by (auto simp: mask_points_def mask_rows_def row_val)

lemma length_mask_points [simp]: "length (mask_points msk) = length (mask_rows msk)"
  by (simp add: mask_points_def)

lemma row_inj: "inj_on (\<lambda>i. of_nat i + 1 :: u32) {..<255}"
  by (rule inj_onI) (metis Suc_inject lessThan_iff row_unat)

lemma distinct_mask_points: "distinct (mask_points msk)"
proof -
  have "distinct (mask_rows msk)"
    unfolding mask_rows_def distinct_map by (auto intro: inj_on_subset [OF row_inj])
  then show ?thesis by (simp add: mask_rows_points distinct_map)
qed

section \<open>The search\<close>

definition cached :: "ec_matrix_list \<Rightarrow> nat list" where
  "cached l = take (l_count l) (l_objects l)"

definition mask_at :: "ec_matrix_list \<Rightarrow> nat \<Rightarrow> u64" where
  "mask_at l a = m_mask (the (l_heap l a))"

definition searchable :: "ec_matrix_list \<Rightarrow> bool" where
  "searchable l \<longleftrightarrow> l_count l \<le> length (l_objects l) \<and> (\<forall>a \<in> set (cached l). l_heap l a \<noteq> None) \<and> sorted_wrt (<) (map (mask_at l) (cached l))"

lemma searchable_cached:
  assumes "searchable l"
  shows "length (cached l) = l_count l" "k < l_count l \<Longrightarrow> object l k = Some (cached l ! k, the (l_heap l (cached l ! k)))"
proof -
  show n: "length (cached l) = l_count l" using assms by (simp add: searchable_def cached_def)
  assume k: "k < l_count l"
  then have "l_heap l (cached l ! k) \<noteq> None" using assms n by (simp add: searchable_def)
  then show "object l k = Some (cached l ! k, the (l_heap l (cached l ! k)))"
    using k assms by (auto simp: object_def cached_def searchable_def)
qed

text \<open>The search ends at the matrix with the mask, or at the place it belongs.\<close>

definition search_result :: "ec_matrix_list \<Rightarrow> u64 \<Rightarrow> nat option \<times> nat \<Rightarrow> bool" where
  "search_result l msk = (\<lambda>(r, pos).
     case r of
       Some a \<Rightarrow> pos < l_count l \<and> cached l ! pos = a \<and> mask_at l a = msk
     | None \<Rightarrow> pos \<le> l_count l \<and> (\<forall>k < pos. mask_at l (cached l ! k) < msk) \<and> (\<forall>k < l_count l. pos \<le> k \<longrightarrow> msk < mask_at l (cached l ! k)))"

lemma lookup_loop_ok:
  assumes "searchable l"
  shows "i \<le> j \<Longrightarrow> j \<le> l_count l \<Longrightarrow> \<forall>k < i. mask_at l (cached l ! k) < msk \<Longrightarrow> \<forall>k < l_count l. j \<le> k \<longrightarrow> msk < mask_at l (cached l ! k) \<Longrightarrow>
    \<exists>r. lookup_loop l msk i j = Some r \<and> search_result l msk r"
proof (induction "j - i" arbitrary: i j rule: less_induct)
  case less
  let ?k = "(i + j) div 2" and ?M = "\<lambda>k. mask_at l (cached l ! k)"
  have mono: "?M x < ?M y" if "x < y" "y < l_count l" for x y
    using assms that sorted_wrt_nth_less [of "(<)" "map (mask_at l) (cached l)" x y] searchable_cached(1) [OF assms]
    by (simp add: searchable_def)
  show ?case
  proof (cases "i < j")
    case True
    then have k: "i \<le> ?k" "?k < j" "?k < l_count l" using less.prems(2) by auto
    have step: "lookup_loop l msk i j =
        (if ?M ?k = msk then Some (Some (cached l ! ?k), ?k) else if ?M ?k < msk then lookup_loop l msk (?k + 1) j else lookup_loop l msk i ?k)"
      by (subst lookup_loop.simps) (simp add: True Let_def searchable_cached(2) [OF assms k(3)] mask_at_def)
    consider "?M ?k = msk" | "?M ?k < msk" | "msk < ?M ?k" by (rule linorder_cases)
    then show ?thesis
    proof cases
      case 1
      then show ?thesis using step k(3) by (simp add: search_result_def)
    next
      case 2
      have "\<forall>x < ?k + 1. ?M x < msk" using 2 mono k(3) by (metis Suc_eq_plus1 less_Suc_eq order.strict_trans)
      moreover have "j - (?k + 1) < j - i" "?k + 1 \<le> j" using k by auto
      moreover have "lookup_loop l msk i j = lookup_loop l msk (?k + 1) j" using step 2 less_imp_neq [OF 2] by simp
      ultimately show ?thesis using less.hyps [of j "?k + 1"] less.prems(2,4) by simp
    next
      case 3
      have "\<forall>x < l_count l. ?k \<le> x \<longrightarrow> msk < ?M x" using 3 mono by (metis le_neq_implies_less order.strict_trans)
      moreover have "lookup_loop l msk i j = lookup_loop l msk i ?k" using step 3 by auto
      moreover have "?k - i < j - i" "?k \<le> l_count l" using k by auto
      ultimately show ?thesis using less.hyps [of ?k i] less.prems(3) k(1) by simp
    qed
  next
    case False
    then show ?thesis using less.prems by (subst lookup_loop.simps) (auto simp: search_result_def)
  qed
qed

lemma lookup_ok:
  assumes "searchable l"
  obtains r pos where "ec_method_matrix_lookup msk l = Some (r, pos)" "search_result l msk (r, pos)"
  using lookup_loop_ok [OF assms, of 0 "l_count l" msk] by (auto simp: ec_method_matrix_lookup_def)

lemma search_none:
  assumes "searchable l" "search_result l msk (None, pos)"
  shows "msk \<notin> mask_at l ` set (cached l)"
  using assms searchable_cached(1) [OF assms(1)]
  by (auto simp: search_result_def in_set_conv_nth) (metis linorder_not_less less_irrefl)

lemma search_some:
  assumes "searchable l" "a \<in> set (cached l)" "search_result l (mask_at l a) (r, pos)"
  shows "r = Some a" "pos < l_count l" "cached l ! pos = a"
proof -
  have d: "distinct (map (mask_at l) (cached l))" using assms(1) by (simp add: searchable_def strict_sorted_iff)
  have "r \<noteq> None" using search_none [OF assms(1), of "mask_at l a" pos] assms(2,3) by (cases r) auto
  then obtain b where b: "r = Some b" "pos < l_count l" "cached l ! pos = b" "mask_at l b = mask_at l a" using assms(3) by (auto simp: search_result_def)
  then have "b = a" using d assms(2) searchable_cached(1) [OF assms(1)] by (auto simp: distinct_map dest: inj_onD)
  then show "r = Some a" "pos < l_count l" "cached l ! pos = a" using b by auto
qed

lemma sorted_insert:
  fixes x :: "'a::linorder"
  assumes "sorted_wrt (<) xs" "\<forall>k < p. xs ! k < x" "\<forall>k < length xs. p \<le> k \<longrightarrow> x < xs ! k" "p \<le> length xs"
  shows "sorted_wrt (<) (take p xs @ x # drop p xs)"
proof -
  have t: "y < x" if "y \<in> set (take p xs)" for y using that assms(2,4) by (auto simp: in_set_conv_nth)
  have d: "x < y" if "y \<in> set (drop p xs)" for y using that assms(3) by (auto simp: in_set_conv_nth)
  show ?thesis unfolding sorted_wrt_append
    using t d assms(1) sorted_wrt_take [OF assms(1), of p] sorted_wrt_drop [OF assms(1), of p] by (force intro: order.strict_trans)
qed

lemma sorted_remove:
  assumes "sorted_wrt P xs"
  shows "sorted_wrt P (take p xs @ drop (Suc p) xs)"
proof (cases "p < length xs")
  case True
  then have "sorted_wrt P (take p xs @ xs ! p # drop (Suc p) xs)" using assms by (simp add: id_take_nth_drop [symmetric])
  then show ?thesis by (simp add: sorted_wrt_append)
qed (use assms in simp)

section \<open>The invariant\<close>

text \<open>How many decoders hold a matrix.\<close>

definition holders :: "nat \<Rightarrow> (nat \<times> u64) list \<Rightarrow> nat" where
  "holders a h = length (filter (\<lambda>x. fst x = a) h)"

definition usable :: "ec_matrix_list \<Rightarrow> u64 \<Rightarrow> bool" where
  "usable l msk \<longleftrightarrow> length (mask_rows msk) = l_columns l"

text \<open>What holds of the matrix at an address: a cached one is the inverse for its mask, any other has mask
  zero; the references are the holders, and the ones nobody holds are on the list.\<close>

definition matrix_ok :: "ec_gf \<Rightarrow> ec_matrix_list \<Rightarrow> (nat \<times> u64) list \<Rightarrow> nat \<Rightarrow> ec_matrix \<Rightarrow> bool" where
  "matrix_ok gf l h a m \<longleftrightarrow>
     (if a \<in> set (cached l) then usable l (m_mask m) \<and> inverse_ok gf (mask_points (m_mask m)) m else m_mask m = 0) \<and>
     length (concat (map row_values (row_data m))) = l_columns l * l_columns l \<and>
     refs m = holders a h \<and> (a \<in> set (l_lru l) \<longleftrightarrow> refs m = 0)"

text \<open>The state of the cache with one matrix, if any, being made.\<close>

definition cache_ok :: "ec_gf \<Rightarrow> nat set \<Rightarrow> ec_matrix_list \<Rightarrow> (nat \<times> u64) list \<Rightarrow> bool" where
  "cache_ok gf X l h \<longleftrightarrow>
     (\<exists>code. l_code l = Some code \<and> code_gf code = gf) \<and> prepared_gf gf \<and> 2 \<le> l_columns l \<and>
     l_count l \<le> l_max l \<and> length (l_objects l) = l_max l \<and> searchable l \<and> distinct (l_lru l) \<and>
     X \<inter> (set (cached l) \<union> set (l_lru l)) = {} \<and> set (l_lru l) \<subseteq> dom (l_heap l) \<and>
     (\<forall>a m. a \<notin> X \<longrightarrow> l_heap l a = Some m \<longrightarrow> matrix_ok gf l h a m) \<and>
     (\<forall>(a, msk) \<in> set h. a \<notin> X \<and> (\<exists>m. l_heap l a = Some m \<and> inverse_ok gf (mask_points msk) m))"

lemma cache_okI:
  assumes "l_code l = Some code" "code_gf code = gf" "prepared_gf gf" "2 \<le> l_columns l" "l_count l \<le> l_max l" "length (l_objects l) = l_max l"
    "searchable l" "distinct (l_lru l)" "X \<inter> (set (cached l) \<union> set (l_lru l)) = {}" "set (l_lru l) \<subseteq> dom (l_heap l)"
    "\<And>a m. a \<notin> X \<Longrightarrow> l_heap l a = Some m \<Longrightarrow> matrix_ok gf l h a m"
    "\<And>a msk. (a, msk) \<in> set h \<Longrightarrow> a \<notin> X \<and> (\<exists>m. l_heap l a = Some m \<and> inverse_ok gf (mask_points msk) m)"
  shows "cache_ok gf X l h"
  using assms unfolding cache_ok_def by blast

lemma cache_okD:
  assumes "cache_ok gf X l h"
  shows "\<exists>code. l_code l = Some code \<and> code_gf code = gf" "prepared_gf gf" "2 \<le> l_columns l" "l_count l \<le> l_max l" "length (l_objects l) = l_max l"
    "searchable l" "distinct (l_lru l)" "X \<inter> (set (cached l) \<union> set (l_lru l)) = {}" "set (l_lru l) \<subseteq> dom (l_heap l)"
    "a \<notin> X \<Longrightarrow> l_heap l a = Some m \<Longrightarrow> matrix_ok gf l h a m"
    "(a, msk) \<in> set h \<Longrightarrow> a \<notin> X \<and> (\<exists>m. l_heap l a = Some m \<and> inverse_ok gf (mask_points msk) m)"
  using assms unfolding cache_ok_def by blast+

lemma usable_nonzero: "cache_ok gf X l h \<Longrightarrow> usable l msk \<Longrightarrow> msk \<noteq> 0"
  by (auto simp: cache_ok_def usable_def mask_rows_def)

lemma cache_searchable: "cache_ok gf X l h \<Longrightarrow> searchable l"
  by (simp add: cache_ok_def)

lemma cache_matrix: "cache_ok gf {} l h \<Longrightarrow> l_heap l a = Some m \<Longrightarrow> matrix_ok gf l h a m"
  by (simp add: cache_ok_def)

lemma cached_heap: "searchable l \<Longrightarrow> a \<in> set (cached l) \<Longrightarrow> \<exists>m. l_heap l a = Some m \<and> mask_at l a = m_mask m"
  by (auto simp: searchable_def mask_at_def)

lemma cached_simps [simp]:
  "cached (l\<lparr> l_heap := x \<rparr>) = cached l" "cached (l\<lparr> l_lru := y \<rparr>) = cached l" "cached (l\<lparr> l_code := z \<rparr>) = cached l"
  by (simp_all add: cached_def)

lemma cached_set_matrix [simp]: "cached (set_matrix a m l) = cached l"
  by (simp add: set_matrix_def)

text \<open>Searching depends on the masks of the cached matrices only.\<close>

lemma searchable_cong:
  assumes "l_count l' = l_count l" "l_objects l' = l_objects l"
    "\<And>a. a \<in> set (cached l) \<Longrightarrow> map_option m_mask (l_heap l' a) = map_option m_mask (l_heap l a)"
  shows "searchable l' \<longleftrightarrow> searchable l"
proof -
  have c: "cached l' = cached l" using assms(1,2) by (simp add: cached_def)
  have "map (mask_at l') (cached l) = map (mask_at l) (cached l)" if "\<forall>a \<in> set (cached l). l_heap l a \<noteq> None"
    using that assms(3) by (force simp: mask_at_def)
  moreover have "(\<forall>a \<in> set (cached l). l_heap l' a \<noteq> None) \<longleftrightarrow> (\<forall>a \<in> set (cached l). l_heap l a \<noteq> None)"
    using assms(3) by (metis map_option_is_None)
  ultimately show ?thesis using assms(1,2) unfolding searchable_def c by (metis (no_types, lifting))
qed

text \<open>Removing and inserting move the rest of the array.\<close>

lemma remove_cached:
  assumes "searchable l" "a \<in> set (cached l)"
  shows "\<exists>l'. ec_method_matrix_remove (mask_at l a) l = Some l' \<and> (\<exists>objs. l' = l\<lparr> l_count := l_count l - 1, l_objects := objs \<rparr> \<and>
      length objs = length (l_objects l)) \<and> searchable l' \<and> set (cached l') = set (cached l) - {a}"
proof -
  obtain r pos where r: "ec_method_matrix_lookup (mask_at l a) l = Some (r, pos)" "search_result l (mask_at l a) (r, pos)" using lookup_ok [OF assms(1)] .
  note s = search_some [OF assms r(2)]
  let ?n = "l_count l - 1"
  define objs where "objs = (if pos < ?n then take pos (l_objects l) @ take (?n - pos) (drop (pos + 1) (l_objects l)) @ drop ?n (l_objects l) else l_objects l)"
  let ?l = "l\<lparr> l_count := ?n, l_objects := objs \<rparr>"
  have n: "l_count l \<le> length (l_objects l)" using assms(1) by (simp add: searchable_def)
  have "ec_method_matrix_remove (mask_at l a) l = Some ?l"
    using r(1) s(1,2) by (simp add: ec_method_matrix_remove_def objs_def dec32_def Let_def)
  moreover have len: "length objs = length (l_objects l)" using n s(2) by (auto simp: objs_def)
  moreover have c: "cached ?l = take pos (cached l) @ drop (Suc pos) (cached l)"
  proof (cases "pos < ?n")
    case False
    then have "l_count l = Suc pos" using s(2) by simp
    then show ?thesis using n by (simp add: objs_def cached_def)
  qed (use n s(2) in \<open>auto simp: objs_def cached_def min_def drop_take\<close>)
  moreover have d: "distinct (cached l)" using assms(1) by (simp add: searchable_def strict_sorted_iff distinct_map)
  have "cached l = take pos (cached l) @ a # drop (Suc pos) (cached l)"
    using s(2,3) id_take_nth_drop [of pos "cached l"] searchable_cached(1) [OF assms(1)] by simp
  then have set: "set (cached ?l) = set (cached l) - {a}" using d unfolding c
    by (metis (no_types, lifting) Diff_insert_absorb Un_insert_right distinct.simps(2) distinct_append insert_disjoint(1) list.set(2) set_append UnE disjoint_iff)
  moreover have "searchable ?l"
  proof -
    have m: "mask_at ?l = mask_at l" by (simp add: mask_at_def fun_eq_iff)
    have "sorted_wrt (<) (map (mask_at l) (cached ?l))"
      unfolding c using sorted_remove [of "(<)" "map (mask_at l) (cached l)" pos] assms(1) by (simp add: searchable_def take_map drop_map)
    moreover have "\<forall>a \<in> set (cached ?l). l_heap ?l a \<noteq> None" unfolding set using assms(1) by (simp add: searchable_def)
    ultimately show ?thesis unfolding searchable_def m using len n by simp
  qed
  ultimately show ?thesis by blast
qed

lemma insert_cached:
  assumes "searchable l" "l_count l < length (l_objects l)" "l_heap l a = Some m" "m_mask m \<notin> mask_at l ` set (cached l)"
  shows "\<exists>objs. ec_method_matrix_insert a l = Some (l\<lparr> l_objects := objs, l_count := l_count l + 1 \<rparr>) \<and> length objs = length (l_objects l) \<and>
    searchable (l\<lparr> l_objects := objs, l_count := l_count l + 1 \<rparr>) \<and>
    set (cached (l\<lparr> l_objects := objs, l_count := l_count l + 1 \<rparr>)) = insert a (set (cached l))"
proof -
  let ?n = "l_count l" and ?o = "l_objects l"
  obtain r pos where r: "ec_method_matrix_lookup (m_mask m) l = Some (r, pos)" "search_result l (m_mask m) (r, pos)" using lookup_ok [OF assms(1)] .
  note len = searchable_cached(1) [OF assms(1)]
  have "r = None"
  proof (rule ccontr)
    assume "r \<noteq> None"
    then have "pos < ?n" "mask_at l (cached l ! pos) = m_mask m" using r(2) by (auto simp: search_result_def)
    then show False using assms(4) len by (metis image_eqI nth_mem)
  qed
  then have pos: "pos \<le> ?n" "\<forall>k < pos. mask_at l (cached l ! k) < m_mask m" "\<forall>k < ?n. pos \<le> k \<longrightarrow> m_mask m < mask_at l (cached l ! k)"
    using r(2) by (simp_all add: search_result_def)
  define objs where "objs = (if pos < ?n then take (pos + 1) ?o @ take (?n - pos) (drop pos ?o) @ drop (?n + 1) ?o else ?o)"
  have lo: "length objs = length ?o" using assms(2) by (auto simp: objs_def)
  let ?l = "l\<lparr> l_objects := objs[pos := a], l_count := ?n + 1 \<rparr>"
  have "put pos a objs = Some (objs[pos := a])" using pos(1) assms(2) lo by (simp add: put_def)
  then have i: "ec_method_matrix_insert a l = Some ?l"
    using assms(3) r(1) \<open>r = None\<close> by (simp add: ec_method_matrix_insert_def objs_def Let_def)
  have c: "cached ?l = take pos (cached l) @ a # drop pos (cached l)"
  proof (cases "pos < ?n")
    case True
    have "objs[pos := a] = take pos ?o @ a # take (?n - pos) (drop pos ?o) @ drop (?n + 1) ?o"
      using True assms(2) by (simp add: objs_def list_update_append take_Suc_conv_app_nth)
    then show ?thesis using True assms(2) by (simp add: cached_def drop_take Suc_diff_le)
  next
    case False
    then have "pos = ?n" using pos(1) by simp
    then show ?thesis using assms(2) by (simp add: cached_def objs_def take_Suc_conv_app_nth)
  qed
  have set: "set (cached ?l) = insert a (set (cached l))"
  proof -
    have "set (cached l) = set (take pos (cached l)) \<union> set (drop pos (cached l))" by (metis append_take_drop_id set_append)
    then show ?thesis unfolding c by auto
  qed
  have m: "mask_at ?l = mask_at l" "mask_at l a = m_mask m" using assms(3) by (simp_all add: mask_at_def fun_eq_iff)
  have "sorted_wrt (<) (take pos (map (mask_at l) (cached l)) @ m_mask m # drop pos (map (mask_at l) (cached l)))"
    using assms(1) pos len by (intro sorted_insert) (auto simp: searchable_def)
  then have "sorted_wrt (<) (map (mask_at ?l) (cached ?l))" unfolding m(1) c by (simp add: m(2) take_map drop_map)
  moreover have "\<forall>b \<in> set (cached ?l). l_heap ?l b \<noteq> None" unfolding set using assms(1,3) by (simp add: searchable_def)
  ultimately have "searchable ?l" unfolding searchable_def using lo assms(2) by simp
  then show ?thesis using i lo set by (intro exI [of _ "objs[pos := a]"]) simp
qed

section \<open>Getting and returning a matrix\<close>

lemma holders_simps [simp]: "holders a [] = 0" "holders a ((b, msk) # h) = (if b = a then Suc (holders a h) else holders a h)"
  by (simp_all add: holders_def)

lemma holders_pos: "(b, msk) \<in> set h \<Longrightarrow> 0 < holders b h"
  by (induction h) auto

lemma holders_remove1: "(b, msk) \<in> set h \<Longrightarrow> holders a (remove1 (b, msk) h) = (if b = a then holders a h - 1 else holders a h)"
proof (induction h)
  case (Cons x h)
  then show ?case using holders_pos [of b msk h] by (cases x) auto
qed simp

lemma inverse_ok_simps [simp]:
  "inverse_ok gf xs (m\<lparr> refs := r \<rparr>) = inverse_ok gf xs m" "inverse_ok gf xs (m\<lparr> m_mask := k \<rparr>) = inverse_ok gf xs m"
  by (simp_all add: inverse_ok_def)

lemma set_matrix_simps [simp]:
  "l_heap (set_matrix a m l) = (l_heap l)(a \<mapsto> m)" "l_lru (set_matrix a m l) = l_lru l" "l_count (set_matrix a m l) = l_count l"
  "l_objects (set_matrix a m l) = l_objects l" "l_max (set_matrix a m l) = l_max l" "l_columns (set_matrix a m l) = l_columns l"
  "l_code (set_matrix a m l) = l_code l" "usable (set_matrix a m l) = usable l"
  by (simp_all add: set_matrix_def usable_def fun_eq_iff)

lemma usable_simps [simp]:
  "usable (l\<lparr> l_lru := x \<rparr>) = usable l" "usable (l\<lparr> l_code := y \<rparr>) = usable l" "usable (l\<lparr> l_objects := z, l_count := n \<rparr>) = usable l"
  "usable (l\<lparr> l_count := n, l_objects := z \<rparr>) = usable l"
  by (simp_all add: usable_def fun_eq_iff)

lemma searchable_set_matrix: "a \<notin> set (cached l) \<Longrightarrow> searchable (set_matrix a m l) = searchable l"
  by (rule searchable_cong) auto

text \<open>A cached matrix gets one more holder.\<close>

lemma get_cached:
  assumes "cache_ok gf {} l h" "a \<in> set (cached l)" "l_heap l a = Some m" "m_mask m = msk"
  shows "cache_ok gf {} (set_matrix a (m\<lparr> refs := refs m + 1 \<rparr>) (l\<lparr> l_lru := remove1 a (l_lru l) \<rparr>)) ((a, msk) # h)" (is "cache_ok gf {} ?l ?h")
proof -
  have s: "searchable ?l \<longleftrightarrow> searchable l" by (rule searchable_cong) (use assms(3) in auto)
  have d: "distinct (l_lru l)" using assms(1) by (simp add: cache_ok_def)
  note mo = cache_matrix [OF assms(1,3)]
  have m: "matrix_ok gf ?l ?h b m'" if "l_heap ?l b = Some m'" for b m'
  proof (cases "b = a")
    case True
    then show ?thesis using mo assms(2) d that by (auto simp: matrix_ok_def)
  next
    case False
    then have "matrix_ok gf l h b m'" using cache_matrix [OF assms(1)] that by simp
    then show ?thesis using False by (auto simp: matrix_ok_def)
  qed
  have h: "\<exists>m'. l_heap ?l b = Some m' \<and> inverse_ok gf (mask_points k) m'" if "(b, k) \<in> set ?h" for b k
  proof (cases "(b, k) = (a, msk)")
    case True
    then show ?thesis using mo assms(2,4) by (auto simp: matrix_ok_def)
  next
    case False
    then have "(b, k) \<in> set h" using that by auto
    then obtain m' where "l_heap l b = Some m'" "inverse_ok gf (mask_points k) m'" using assms(1) by (auto simp: cache_ok_def)
    then show ?thesis using assms(3) by auto
  qed
  obtain code where c: "l_code l = Some code" "code_gf code = gf" using cache_okD(1) [OF assms(1)] by blast
  show ?thesis
    by (rule cache_okI [of _ code], goal_cases)
      (use c s m h cache_okD(2-9) [OF assms(1)] in \<open>auto dest: set_mp [OF set_remove1_subset]\<close>)
qed

text \<open>A new address is in no list.\<close>

lemma take_fresh: "cache_ok gf {} l h \<Longrightarrow> l_heap l b = None \<Longrightarrow> cache_ok gf {b} l h"
  by (auto simp: cache_ok_def searchable_def dom_def)

text \<open>The first matrix of the list is taken out of the cache.\<close>

lemma remove_matrix:
  assumes "cache_ok gf {} l h" "l_lru l = a # rest" "l_heap l a = Some m"
  shows "\<exists>c objs. ec_method_matrix_remove (m_mask m) (l\<lparr> l_lru := rest \<rparr>) = Some (l\<lparr> l_lru := rest, l_count := c, l_objects := objs \<rparr>) \<and>
    c \<le> l_count l \<and> length objs = length (l_objects l) \<and> searchable (l\<lparr> l_lru := rest, l_count := c, l_objects := objs \<rparr>) \<and>
    set (cached (l\<lparr> l_lru := rest, l_count := c, l_objects := objs \<rparr>)) = set (cached l) - {a}"
proof -
  let ?l = "l\<lparr> l_lru := rest \<rparr>"
  have s: "searchable ?l" using cache_okD(6) [OF assms(1)] searchable_cong [of ?l l] by simp
  have eq: "?l\<lparr> l_count := l_count l, l_objects := l_objects l \<rparr> = ?l" by simp
  show ?thesis
  proof (cases "a \<in> set (cached l)")
    case True
    have "m_mask m = mask_at ?l a" using assms(3) by (simp add: mask_at_def)
    moreover have "a \<in> set (cached ?l)" using True by simp
    ultimately show ?thesis using remove_cached [OF s, of a] by fastforce
  next
    case False
    then have z: "m_mask m = 0" using cache_matrix [OF assms(1,3)] by (simp add: matrix_ok_def)
    obtain r pos where r: "ec_method_matrix_lookup 0 ?l = Some (r, pos)" "search_result ?l 0 (r, pos)" using lookup_ok [OF s] .
    have "r = None"
    proof (cases r)
      case (Some b)
      then have b: "b \<in> set (cached l)" "mask_at ?l b = 0"
        using r(2) searchable_cached(1) [OF s] by (auto simp: search_result_def intro: nth_mem)
      then obtain m' where m': "l_heap l b = Some m'" "m_mask m' = 0" using cached_heap [OF s, of b] by (auto simp: mask_at_def)
      then have "usable l 0" using b(1) cache_matrix [OF assms(1) m'(1)] by (simp add: matrix_ok_def)
      then show ?thesis using usable_nonzero [OF assms(1)] by blast
    qed simp
    then have "ec_method_matrix_remove (m_mask m) ?l = Some ?l" using r(1) z by (simp add: ec_method_matrix_remove_def)
    then show ?thesis using s False by (intro exI [of _ "l_count l"] exI [of _ "l_objects l"]) (simp add: eq)
  qed
qed

lemma not_held: "cache_ok gf {a} l h \<Longrightarrow> holders a h = 0"
  unfolding holders_def using cache_okD(11) [of gf "{a}" l h a] by (auto simp: filter_empty_conv)

lemma take_recycled:
  assumes "cache_ok gf {} l h" "l_lru l = a # rest" "l_heap l a = Some m"
  shows "\<exists>c objs. ec_method_matrix_remove (m_mask m) (l\<lparr> l_lru := rest \<rparr>) = Some (l\<lparr> l_lru := rest, l_count := c, l_objects := objs \<rparr>) \<and>
    cache_ok gf {a} (set_matrix a m' (l\<lparr> l_lru := rest, l_count := c, l_objects := objs \<rparr>)) h \<and>
    set (cached (l\<lparr> l_lru := rest, l_count := c, l_objects := objs \<rparr>)) = set (cached l) - {a}"
proof -
  obtain c objs where r: "ec_method_matrix_remove (m_mask m) (l\<lparr> l_lru := rest \<rparr>) = Some (l\<lparr> l_lru := rest, l_count := c, l_objects := objs \<rparr>)"
    "c \<le> l_count l" "length objs = length (l_objects l)" "searchable (l\<lparr> l_lru := rest, l_count := c, l_objects := objs \<rparr>)"
    "set (cached (l\<lparr> l_lru := rest, l_count := c, l_objects := objs \<rparr>)) = set (cached l) - {a}"
    using remove_matrix [OF assms] by blast
  let ?l1 = "l\<lparr> l_lru := rest, l_count := c, l_objects := objs \<rparr>" and ?l2 = "set_matrix a m' (l\<lparr> l_lru := rest, l_count := c, l_objects := objs \<rparr>)"
  note D = cache_okD [OF assms(1)]
  obtain code where code: "l_code l = Some code" "code_gf code = gf" using D(1) by blast
  have s: "searchable ?l2 \<longleftrightarrow> searchable ?l1" by (rule searchable_cong) (use r(5) in auto)
  have "refs m = 0" using cache_matrix [OF assms(1,3)] assms(2) by (simp add: matrix_ok_def)
  then have na: "(a, k) \<notin> set h" for k using cache_matrix [OF assms(1,3)] holders_pos [of a k h] by (auto simp: matrix_ok_def)
  have d: "distinct (a # rest)" using D(7) assms(2) by simp
  have m: "matrix_ok gf ?l2 h b mb" if "b \<notin> {a}" "l_heap ?l2 b = Some mb" for b mb
  proof -
    have "b \<in> set (cached ?l1) \<longleftrightarrow> b \<in> set (cached l)" "b \<in> set (l_lru ?l2) \<longleftrightarrow> b \<in> set (l_lru l)" using that r(5) assms(2) by auto
    moreover have "matrix_ok gf l h b mb" using D(10) [of b mb] that by simp
    moreover have "usable ?l2 = usable l" "l_columns ?l2 = l_columns l" by (simp_all add: usable_def fun_eq_iff)
    ultimately show ?thesis unfolding matrix_ok_def cached_set_matrix by simp
  qed
  have h: "b \<notin> {a} \<and> (\<exists>mb. l_heap ?l2 b = Some mb \<and> inverse_ok gf (mask_points k) mb)" if "(b, k) \<in> set h" for b k
    using D(11) [OF that] na that by auto
  have "cache_ok gf {a} ?l2 h"
  proof (rule cache_okI [of _ code])
    show "{a} \<inter> (set (cached ?l2) \<union> set (l_lru ?l2)) = {}" using r(5) d by simp
    show "set (l_lru ?l2) \<subseteq> dom (l_heap ?l2)" using D(9) assms(2) by auto
    show "distinct (l_lru ?l2)" using d by simp
    show "l_count ?l2 \<le> l_max ?l2" "length (l_objects ?l2) = l_max ?l2" using D(4,5) r(2,3) by simp_all
    show "searchable ?l2" using s r(4) by blast
    show "\<And>b k. (b, k) \<in> set h \<Longrightarrow> b \<notin> {a} \<and> (\<exists>mb. l_heap ?l2 b = Some mb \<and> inverse_ok gf (mask_points k) mb)" by (rule h)
  qed (use code D(2,3) m in simp_all)
  then show ?thesis using r by blast
qed

lemma inverse_shape:
  assumes "inverse_ok gf xs m" "valid_gf gf"
  shows "length (concat (map row_values (row_data m))) = length xs * length xs"
proof -
  have a: "list_all2 (row_ok False gf) (inverse_rows xs) (row_data m)" using assms(1) by (simp add: inverse_ok_def)
  have "length (row_values r) = length xs" if "r \<in> set (row_data m)" for r
  proof -
    obtain i where i: "i < length (row_data m)" "r = row_data m ! i" using \<open>r \<in> set (row_data m)\<close> by (auto simp: in_set_conv_nth)
    then have "row_ok False gf (inverse_rows xs ! i) r" "i < length xs" using a by (auto simp: list_all2_conv_all_nth inverse_rows_def)
    then show ?thesis using row_values_length [OF _ assms(2)] by (fastforce simp: inverse_rows_def)
  qed
  then have "map length (map row_values (row_data m)) = replicate (length (row_data m)) (length xs)" by (intro replicate_eqI) auto
  moreover have "length (row_data m) = length xs" using a by (auto simp: inverse_rows_def dest: list_all2_lengthD)
  ultimately show ?thesis by (simp add: length_concat sum_list_replicate)
qed

text \<open>The matrix that has been made is put into the cache, or kept outside with mask zero.\<close>

definition made :: "ec_gf \<Rightarrow> u64 \<Rightarrow> ec_matrix \<Rightarrow> bool" where
  "made gf msk m \<longleftrightarrow> inverse_ok gf (mask_points msk) m \<and> refs m = 1 \<and> m_mask m = msk"

lemma finish_outside:
  assumes "cache_ok gf {a} l h" "usable l msk" "made gf msk m"
  shows "cache_ok gf {} (set_matrix a (m\<lparr> m_mask := 0 \<rparr>) l) ((a, msk) # h)" (is "cache_ok gf {} ?l ?h")
proof -
  note D = cache_okD [OF assms(1)]
  obtain code where code: "l_code l = Some code" "code_gf code = gf" using D(1) by blast
  have a: "a \<notin> set (cached l)" "a \<notin> set (l_lru l)" using D(8) by auto
  have shape: "length (concat (map row_values (row_data m))) = l_columns l * l_columns l"
    using inverse_shape [of gf "mask_points msk" m] assms(2,3) D(2) by (simp add: made_def usable_def prepared_gf_def)
  show ?thesis
  proof (rule cache_okI [of _ code])
    show "searchable ?l" using D(6) a by (simp add: searchable_set_matrix)
    show "set (l_lru ?l) \<subseteq> dom (l_heap ?l)" using D(9) by auto
    show "matrix_ok gf ?l ?h b mb" if "l_heap ?l b = Some mb" for b mb
    proof (cases "b = a")
      case True
      then show ?thesis using that a shape assms(3) not_held [OF assms(1)] by (auto simp: matrix_ok_def made_def)
    next
      case False
      then show ?thesis using that D(10) [of b mb] by (auto simp: matrix_ok_def)
    qed
    show "b \<notin> {} \<and> (\<exists>mb. l_heap ?l b = Some mb \<and> inverse_ok gf (mask_points k) mb)" if "(b, k) \<in> set ?h" for b k
      using that D(11) [of b k] assms(3) by (auto simp: made_def)
  qed (use code D(2-5,7) in auto)
qed

lemma finish_inside:
  assumes "cache_ok gf {a} l h" "usable l msk" "made gf msk m" "msk \<notin> mask_at l ` set (cached l)" "l_count l < l_max l"
  shows "\<exists>l'. ec_method_matrix_insert a (set_matrix a m l) = Some l' \<and> cache_ok gf {} l' ((a, msk) # h) \<and> l_columns l' = l_columns l \<and> l_heap l' a = Some m"
proof -
  note D = cache_okD [OF assms(1)]
  let ?l = "set_matrix a m l"
  obtain code where code: "l_code l = Some code" "code_gf code = gf" using D(1) by blast
  have a: "a \<notin> set (cached l)" "a \<notin> set (l_lru l)" using D(8) by auto
  have s: "searchable ?l" using D(6) a by (simp add: searchable_set_matrix)
  have "mask_at ?l b = mask_at l b" if "b \<in> set (cached l)" for b using that a by (auto simp: mask_at_def)
  then have "m_mask m \<notin> mask_at ?l ` set (cached ?l)" using assms(3,4) by (force simp: made_def)
  then obtain objs where i: "ec_method_matrix_insert a ?l = Some (?l\<lparr> l_objects := objs, l_count := l_count ?l + 1 \<rparr>)"
    "length objs = length (l_objects ?l)" "searchable (?l\<lparr> l_objects := objs, l_count := l_count ?l + 1 \<rparr>)"
    "set (cached (?l\<lparr> l_objects := objs, l_count := l_count ?l + 1 \<rparr>)) = insert a (set (cached ?l))"
    using insert_cached [OF s, of a m] assms(5) D(5) by auto
  let ?l' = "?l\<lparr> l_objects := objs, l_count := l_count ?l + 1 \<rparr>" and ?h = "(a, msk) # h"
  have shape: "length (concat (map row_values (row_data m))) = l_columns l * l_columns l"
    using inverse_shape [of gf "mask_points msk" m] assms(2,3) D(2) by (simp add: made_def usable_def prepared_gf_def)
  have "cache_ok gf {} ?l' ?h"
  proof (rule cache_okI [of _ code])
    show "searchable ?l'" by (rule i(3))
    show "set (l_lru ?l') \<subseteq> dom (l_heap ?l')" using D(9) by auto
    show "matrix_ok gf ?l' ?h b mb" if "l_heap ?l' b = Some mb" for b mb
    proof (cases "b = a")
      case True
      then show ?thesis using that a shape assms(2,3) not_held [OF assms(1)] unfolding matrix_ok_def i(4) by (auto simp: made_def usable_def)
    next
      case False
      then show ?thesis using that D(10) [of b mb] unfolding matrix_ok_def i(4) by (auto simp: usable_def)
    qed
    show "b \<notin> {} \<and> (\<exists>mb. l_heap ?l' b = Some mb \<and> inverse_ok gf (mask_points k) mb)" if "(b, k) \<in> set ?h" for b k
      using that D(11) [of b k] assms(3) by (auto simp: made_def)
  qed (use code D(2-5,7) i(2) assms(5) in auto)
  then show ?thesis using i(1) by auto
qed

lemma cache_ok_code: "cache_ok gf X l h \<Longrightarrow> code_gf code = gf \<Longrightarrow> cache_ok gf X (l\<lparr> l_code := Some code \<rparr>) h"
  using searchable_cong [of "l\<lparr> l_code := Some code \<rparr>" l] by (simp add: cache_ok_def matrix_ok_def)

text \<open>What getting a matrix leaves alone.\<close>

definition same_setup :: "ec_matrix_list \<Rightarrow> ec_matrix_list \<Rightarrow> bool" where
  "same_setup l' l \<longleftrightarrow> l_columns l' = l_columns l \<and> l_rows l' = l_rows l \<and> l_max l' = l_max l \<and> l_stripe l' = l_stripe l \<and> l_encode l' = l_encode l"

lemma insert_same: "ec_method_matrix_insert a l = Some l' \<Longrightarrow> same_setup l' l"
  by (auto simp: ec_method_matrix_insert_def same_setup_def Let_def split: bind_splits)

lemma make_ok:
  assumes "cache_ok gf {a} l h" "usable l msk" "msk \<notin> mask_at l ` set (cached l)" "length values0 = l_columns l * l_columns l"
  shows "\<exists>l'. make_matrix compiled a values0 msk (mask_rows msk) l = Some l' \<and> cache_ok gf {} l' ((a, msk) # h) \<and> same_setup l' l"
proof -
  note D = cache_okD [OF assms(1)]
  obtain code where code: "l_code l = Some code" "code_gf code = gf" using D(1) by blast
  have n: "length (mask_points msk) = l_columns l" using assms(2) by (simp add: usable_def)
  obtain m code' where i: "ec_method_matrix_init compiled values0 msk (mask_rows msk) True l = Some (m, l\<lparr> l_code := Some code' \<rparr>)"
    "made gf msk m" "code_gf code' = gf"
    using init_inverse [OF code(1), of "mask_points msk" values0 compiled msk] code(2) D(2,3) n assms(4) distinct_mask_points
    unfolding mask_rows_points made_def by auto
  let ?l = "l\<lparr> l_code := Some code' \<rparr>"
  have ok: "cache_ok gf {a} ?l h" "usable ?l msk" using cache_ok_code [OF assms(1) i(3)] assms(2) by simp_all
  have "mask_at ?l = mask_at l" by (simp add: mask_at_def fun_eq_iff)
  then have new: "msk \<notin> mask_at ?l ` set (cached ?l)" using assms(3) by simp
  show ?thesis
  proof (cases "l_count l < l_max l")
    case True
    then obtain l' where l': "ec_method_matrix_insert a (set_matrix a m ?l) = Some l'" "cache_ok gf {} l' ((a, msk) # h)"
      using finish_inside [OF ok i(2) new] by auto
    then show ?thesis using i(1) True insert_same [OF l'(1)] by (simp add: make_matrix_def same_setup_def set_matrix_def)
  next
    case False
    then show ?thesis using i(1) finish_outside [OF ok i(2)] by (simp add: make_matrix_def same_setup_def set_matrix_def)
  qed
qed

lemma get_ok:
  assumes "cache_ok gf {} l h" "usable l msk" "\<And>b. fresh = Some b \<Longrightarrow> l_heap l b = None"
  shows "\<exists>r l'. ec_method_matrix_get fresh compiled msk (mask_rows msk) l = Some (r, l') \<and> same_setup l' l \<and>
    (case r of Inl e \<Rightarrow> e = ENOMEM \<and> fresh = None \<and> l' = l | Inr a \<Rightarrow> cache_ok gf {} l' ((a, msk) # h))"
proof -
  note D = cache_okD [OF assms(1)]
  obtain r pos where r: "ec_method_matrix_lookup msk l = Some (r, pos)" "search_result l msk (r, pos)" using lookup_ok [OF D(6)] .
  show ?thesis
  proof (cases r)
    case (Some a)
    then have a: "a \<in> set (cached l)" "mask_at l a = msk"
      using r(2) searchable_cached(1) [OF D(6)] by (auto simp: search_result_def intro: nth_mem)
    then obtain m where "l_heap l a = Some m" "m_mask m = msk" using cached_heap [OF D(6) a(1)] by auto
    then show ?thesis using get_cached [OF assms(1) a(1)] r(1) Some
      by (simp add: ec_method_matrix_get_def same_setup_def set_matrix_def)
  next
    case None
    have new: "msk \<notin> mask_at l ` set (cached l)" using search_none [OF D(6)] r(2) None by blast
    show ?thesis
    proof (cases "l_max l \<le> l_count l \<and> l_lru l \<noteq> []")
      case True
      then obtain a rest where lru: "l_lru l = a # rest" by (cases "l_lru l") auto
      then obtain m where m: "l_heap l a = Some m" using D(9) by auto
      obtain c objs where rc: "ec_method_matrix_remove (m_mask m) (l\<lparr> l_lru := rest \<rparr>) = Some (l\<lparr> l_lru := rest, l_count := c, l_objects := objs \<rparr>)"
        "cache_ok gf {a} (set_matrix a (ec_method_matrix_release m) (l\<lparr> l_lru := rest, l_count := c, l_objects := objs \<rparr>)) h"
        "set (cached (l\<lparr> l_lru := rest, l_count := c, l_objects := objs \<rparr>)) = set (cached l) - {a}"
        using take_recycled [OF assms(1) lru m] by blast
      let ?l = "set_matrix a (ec_method_matrix_release m) (l\<lparr> l_lru := rest, l_count := c, l_objects := objs \<rparr>)"
      have "mask_at ?l b = mask_at l b" if "b \<noteq> a" for b using that by (simp add: mask_at_def)
      then have "mask_at ?l ` set (cached ?l) \<subseteq> mask_at l ` set (cached l)" using rc(3) by auto
      then have "msk \<notin> mask_at ?l ` set (cached ?l)" using new by blast
      moreover have "usable ?l msk" using assms(2) by (simp add: usable_def)
      moreover have "length (concat (map row_values (row_data m))) = l_columns ?l * l_columns ?l"
        using D(10) [OF _ m] by (simp add: matrix_ok_def)
      ultimately obtain l' where "make_matrix compiled a (concat (map row_values (row_data m))) msk (mask_rows msk) ?l = Some l'"
        "cache_ok gf {} l' ((a, msk) # h)" "same_setup l' ?l"
        using make_ok [OF rc(2)] by blast
      then show ?thesis using r(1) None True lru m rc(1)
        by (simp add: ec_method_matrix_get_def Let_def same_setup_def set_matrix_def)
    next
      case False
      show ?thesis
      proof (cases fresh)
        case None
        then show ?thesis using r(1) \<open>r = None\<close> False by (auto simp: ec_method_matrix_get_def Let_def same_setup_def)
      next
        case (Some b)
        have "\<exists>l'. make_matrix compiled b (replicate (l_columns l * l_columns l) 0) msk (mask_rows msk) l = Some l' \<and>
            cache_ok gf {} l' ((b, msk) # h) \<and> same_setup l' l"
          by (rule make_ok [OF take_fresh [OF assms(1) assms(3) [OF Some]] assms(2) new]) simp
        then show ?thesis using r(1) \<open>r = None\<close> False Some by (auto simp: ec_method_matrix_get_def Let_def)
      qed
    qed
  qed
qed

text \<open>A holder returns its matrix.\<close>

lemma put_ok:
  assumes "cache_ok gf {} l h" "(a, msk) \<in> set h"
  shows "\<exists>l'. ec_method_matrix_put a l = Some l' \<and> cache_ok gf {} l' (remove1 (a, msk) h) \<and> same_setup l' l \<and> dom (l_heap l') = dom (l_heap l)"
proof -
  note D = cache_okD [OF assms(1)]
  obtain m where m: "l_heap l a = Some m" "inverse_ok gf (mask_points msk) m" using D(11) [OF assms(2)] by blast
  note mo = cache_matrix [OF assms(1) m(1)]
  have r: "refs m = holders a h" "0 < holders a h" using mo holders_pos [OF assms(2)] by (simp_all add: matrix_ok_def)
  let ?m = "m\<lparr> refs := refs m - 1 \<rparr>" and ?h = "remove1 (a, msk) h"
  let ?l = "set_matrix a ?m l"
  let ?l' = "if refs m = 1 then ?l\<lparr> l_lru := l_lru l @ [a] \<rparr> else ?l"
  have na: "a \<notin> set (l_lru l)" using mo r by (simp add: matrix_ok_def)
  have "ec_method_matrix_put a l = Some ?l'"
    using m(1) r D(4) by (auto simp: ec_method_matrix_put_def ec_method_matrix_unref_def dec32_def Let_def)
  moreover have "cache_ok gf {} ?l' ?h"
  proof -
    obtain code where code: "l_code l = Some code" "code_gf code = gf" using D(1) by blast
    have f: "l_heap ?l' = (l_heap l)(a \<mapsto> ?m)" "cached ?l' = cached l" "usable ?l' = usable l" "l_columns ?l' = l_columns l" "l_code ?l' = l_code l"
      "l_objects ?l' = l_objects l" "l_max ?l' = l_max l" "l_count ?l' = l_count l" "l_lru ?l' = (if refs m = 1 then l_lru l @ [a] else l_lru l)"
      by simp_all
    have s: "searchable ?l' \<longleftrightarrow> searchable l" by (rule searchable_cong) (use m(1) in auto)
    show ?thesis
    proof (rule cache_okI [of _ code])
      show "searchable ?l'" using s D(6) by blast
      show "matrix_ok gf ?l' ?h b mb" if "l_heap ?l' b = Some mb" for b mb
      proof (cases "b = a")
        case True
        then have "mb = ?m" using that unfolding f by simp
        then show ?thesis using mo r na True unfolding matrix_ok_def f by (auto simp: holders_remove1 [OF assms(2)])
      next
        case False
        then have "matrix_ok gf l h b mb" using that D(10) [of b mb] unfolding f by simp
        then show ?thesis using False unfolding matrix_ok_def f by (auto simp: holders_remove1 [OF assms(2)])
      qed
      show "b \<notin> {} \<and> (\<exists>mb. l_heap ?l' b = Some mb \<and> inverse_ok gf (mask_points k) mb)" if "(b, k) \<in> set ?h" for b k
        using m(1) set_mp [OF set_remove1_subset that] D(11) [of b k] unfolding f by auto
    qed (use code D(2-5,7,9) na m(1) in \<open>auto simp: f\<close>)
  qed
  moreover have "same_setup ?l' l" by (simp add: same_setup_def set_matrix_def)
  moreover have "dom (l_heap ?l') = dom (l_heap l)" using m(1) by auto
  ultimately show ?thesis by blast
qed

section \<open>From the start\<close>

definition zero_list :: ec_matrix_list where
  "zero_list = \<lparr> l_columns = 0, l_rows = 0, l_max = 0, l_count = 0, l_stripe = 0, l_code = None, l_encode = None, l_objects = [], l_lru = [], l_heap = Map.empty \<rparr>"

definition enough :: "allocations \<Rightarrow> nat \<Rightarrow> bool" where
  "enough mem mx \<longleftrightarrow> pool_mem mem \<and> gf_mem mem \<and> matrix_mem mem \<and> code_mem mem \<and> map_option length (objects_mem mem) = Some mx \<and>
     map_option length (log_mem mem) = Some 511 \<and> map_option length (pow_mem mem) = Some 511"

definition encode_ok :: "ec_gf \<Rightarrow> ec_matrix_list \<Rightarrow> bool" where
  "encode_ok gf l \<longleftrightarrow> l_stripe l = 512 * l_columns l \<and> l_columns l < 2 ^ 32 \<and>
     (\<exists>m. l_encode l = Some m \<and> list_all2 (row_ok True gf) (map (\<lambda>i. vandermonde (l_columns l) (gf_of (of_nat i + 1))) [0..<l_rows l]) (row_data m))"

lemma init_ok:
  assumes "enough mem mx" "2 \<le> columns" "columns < 2 ^ 32" "rows \<le> 255"
  shows "\<exists>gf l. ec_method_init mem generator compiled columns rows mx zero_list = Some (0, l) \<and> cache_ok gf {} l [] \<and> encode_ok gf l \<and>
    l_columns l = columns \<and> l_rows l = rows \<and> l_max l = mx \<and> l_heap l = Map.empty"
proof -
  obtain objs lg pw where mem: "objects_mem mem = Some objs" "length objs = mx" "log_mem mem = Some lg" "pow_mem mem = Some pw" "length lg = 511" "length pw = 511"
    using assms(1) by (auto simp: enough_def)
  obtain gf where gf: "ec_gf_prepare True (Some lg) (Some pw) 8 0x11d = Some (Inr gf)" "prepared_gf gf" using prepare_valid [OF mem(5,6), of "0x11d"] by auto
  let ?code = "\<lparr> code_gf = gf, code_gen = generator \<rparr>"
  let ?l = "zero_list\<lparr> l_columns := columns, l_rows := rows, l_max := mx, l_stripe := 512 * columns, l_lru := [], l_objects := objs, l_code := Some ?code \<rparr>"
  let ?xs = "map (\<lambda>i. gf_of (of_nat i + 1)) [0..<rows]"
  have v: "map val ?xs = map (\<lambda>i. of_nat i + 1) [0..<rows]" using assms(4) by (auto simp: row_val)
  have nz: "\<forall>x \<in> set ?xs. x \<noteq> 0"
  proof
    fix x
    assume "x \<in> set ?xs"
    then obtain i where i: "x = gf_of (of_nat i + 1)" "i < 255" using assms(4) by auto
    then show "x \<noteq> 0" using row_val [of i] row_unat [of i] by (metis Zero_not_Suc unat_0 val_zero(1))
  qed
  obtain m code' where m: "ec_method_matrix_init compiled [] 0 (map (\<lambda>i. of_nat i + 1) [0..<rows]) False ?l = Some (m, ?l\<lparr> l_code := Some code' \<rparr>)"
    "list_all2 (row_ok True gf) (map (vandermonde columns) ?xs) (row_data m)" "code_gf code' = gf"
    using init_normal [of ?l ?code ?xs compiled "[]" 0] gf(2) nz assms(2,3) unfolding v by auto
  let ?l' = "?l\<lparr> l_code := Some code', l_encode := Some m \<rparr>"
  have "ec_method_init mem generator compiled columns rows mx zero_list = Some (0, ?l')"
    using assms(1) mem gf(1) m(1)
    by (simp add: ec_method_init_def ec_method_setup_def ec_code_create_def enough_def Let_def zero_list_def)
  moreover have "cache_ok gf {} ?l' []"
    by (rule cache_okI [of _ code']) (use m(3) gf(2) assms(2) mem(2) in \<open>simp_all add: zero_list_def searchable_def cached_def\<close>)
  moreover have "encode_ok gf ?l'" using m(2) assms(3) by (simp add: encode_ok_def comp_def)
  ultimately show ?thesis by (intro exI [of _ gf] exI [of _ ?l']) (simp add: zero_list_def)
qed

text \<open>The states the list goes through, with the matrices that are held.\<close>

inductive reachable :: "ec_matrix_list \<Rightarrow> (nat \<times> u64) list \<Rightarrow> bool" where
  start: "enough mem mx \<Longrightarrow> 2 \<le> columns \<Longrightarrow> columns < 2 ^ 32 \<Longrightarrow> rows \<le> 255 \<Longrightarrow>
    ec_method_init mem generator compiled columns rows mx zero_list = Some (0, l) \<Longrightarrow> reachable l []"
| get: "reachable l h \<Longrightarrow> usable l msk \<Longrightarrow> (\<And>b. fresh = Some b \<Longrightarrow> l_heap l b = None) \<Longrightarrow>
    ec_method_matrix_get fresh compiled msk (mask_rows msk) l = Some (Inr a, l') \<Longrightarrow> reachable l' ((a, msk) # h)"
| get_fails: "reachable l h \<Longrightarrow> usable l msk \<Longrightarrow> (\<And>b. fresh = Some b \<Longrightarrow> l_heap l b = None) \<Longrightarrow>
    ec_method_matrix_get fresh compiled msk (mask_rows msk) l = Some (Inl e, l') \<Longrightarrow> reachable l' h"
| put: "reachable l h \<Longrightarrow> (a, msk) \<in> set h \<Longrightarrow> ec_method_matrix_put a l = Some l' \<Longrightarrow> reachable l' (remove1 (a, msk) h)"

lemma encode_ok_same: "encode_ok gf l \<Longrightarrow> same_setup l' l \<Longrightarrow> encode_ok gf l'"
  by (simp add: encode_ok_def same_setup_def)

lemma reachable_ok: "reachable l h \<Longrightarrow> \<exists>gf. cache_ok gf {} l h \<and> encode_ok gf l \<and> l_rows l \<le> 255"
proof (induction rule: reachable.induct)
  case (start mem mx columns rows generator compiled l)
  then show ?case using init_ok [OF start(1-4), of generator compiled] by auto
next
  case (get l h msk fresh compiled a l')
  then obtain gf where ok: "cache_ok gf {} l h" "encode_ok gf l" "l_rows l \<le> 255" by blast
  then show ?case using get_ok [OF ok(1) get.hyps(2), of fresh compiled] get.hyps(3,4) encode_ok_same [OF ok(2), of l'] by (auto simp: same_setup_def)
next
  case (get_fails l h msk fresh compiled e l')
  then obtain gf where ok: "cache_ok gf {} l h" "encode_ok gf l" "l_rows l \<le> 255" by blast
  then show ?case using get_ok [OF ok(1) get_fails.hyps(2), of fresh compiled] get_fails.hyps(3,4) by auto
next
  case (put l h a msk l')
  then obtain gf where ok: "cache_ok gf {} l h" "encode_ok gf l" "l_rows l \<le> 255" by blast
  then show ?case using put_ok [OF ok(1) put.hyps(2)] put.hyps(3) encode_ok_same [OF ok(2), of l'] by (auto simp: same_setup_def)
qed

section \<open>Decoding with the cache\<close>

text \<open>What a client relies on: an object it gets fits the key it asked for, also after others have got and
  returned objects, and it can be returned.  A client that gets an object, uses it and returns it then
  goes through, and leaves the pool in order for the others.\<close>

locale object_pool =
  fixes get :: "'k \<Rightarrow> 's \<Rightarrow> ((int + 'a) \<times> 's) option"
    and put :: "'a \<Rightarrow> 's \<Rightarrow> 's option"
    and deref :: "'s \<Rightarrow> 'a \<Rightarrow> 'o option"
    and ok :: "'s \<Rightarrow> ('a \<times> 'k) list \<Rightarrow> bool"
    and can :: "'s \<Rightarrow> 'k \<Rightarrow> bool"
    and fits :: "'k \<Rightarrow> 'o \<Rightarrow> bool"
  assumes get_right: "ok s h \<Longrightarrow> can s k \<Longrightarrow> \<exists>a s'. get k s = Some (Inr a, s') \<and> ok s' ((a, k) # h)"
    and held_fits: "ok s h \<Longrightarrow> (a, k) \<in> set h \<Longrightarrow> \<exists>x. deref s a = Some x \<and> fits k x"
    and put_right: "ok s h \<Longrightarrow> (a, k) \<in> set h \<Longrightarrow> \<exists>s'. put a s = Some s' \<and> ok s' (remove1 (a, k) h)"
begin

lemma use_object:
  assumes "ok s h" "can s k" "\<And>x. fits k x \<Longrightarrow> f x = Some r"
  shows "\<exists>a s1 x s'. get k s = Some (Inr a, s1) \<and> deref s1 a = Some x \<and> f x = Some r \<and> put a s1 = Some s' \<and> ok s' h"
proof -
  obtain a s1 where g: "get k s = Some (Inr a, s1)" "ok s1 ((a, k) # h)" using get_right [OF assms(1,2)] by blast
  obtain x where x: "deref s1 a = Some x" "fits k x" using held_fits [OF g(2), of a k] by auto
  obtain s' where "put a s1 = Some s'" "ok s' h" using put_right [OF g(2), of a k] by auto
  then show ?thesis using g(1) x assms(3) by blast
qed

text \<open>A held object still fits after another client has come and gone.\<close>

lemma held_meanwhile:
  assumes "ok s h" "can s k" "(b, k') \<in> set h" "get k s = Some (Inr a, s1)" "put a s1 = Some s2"
  shows "\<exists>x y. deref s1 b = Some x \<and> fits k' x \<and> deref s2 b = Some y \<and> fits k' y"
proof -
  have s1: "ok s1 ((a, k) # h)" using get_right [OF assms(1,2)] assms(4) by auto
  then have "ok s2 h" using put_right [OF s1, of a k] assms(5) by auto
  then show ?thesis using held_fits [OF s1, of b k'] held_fits [of s2 h b k'] assms(3) by auto
qed

end

definition pool_ok :: "ec_gf \<Rightarrow> ec_matrix_list \<Rightarrow> ec_matrix_list \<Rightarrow> (nat \<times> u64) list \<Rightarrow> bool" where
  "pool_ok gf l0 l h \<longleftrightarrow> cache_ok gf {} l h \<and> same_setup l l0"

lemma same_setup_trans: "same_setup l2 l1 \<Longrightarrow> same_setup l1 l \<Longrightarrow> same_setup l2 l"
  by (simp add: same_setup_def)

lemma get_succeeds:
  assumes "cache_ok gf {} l h" "usable l msk" "l_heap l b = None"
  shows "\<exists>a l'. ec_method_matrix_get (Some b) compiled msk (mask_rows msk) l = Some (Inr a, l') \<and> cache_ok gf {} l' ((a, msk) # h) \<and> same_setup l' l"
proof -
  obtain r l' where r: "ec_method_matrix_get (Some b) compiled msk (mask_rows msk) l = Some (r, l')" "same_setup l' l"
    "case r of Inl e \<Rightarrow> e = ENOMEM \<and> Some b = None \<and> l' = l | Inr a \<Rightarrow> cache_ok gf {} l' ((a, msk) # h)"
    using get_ok [OF assms(1,2), of "Some b" compiled] assms(3) by auto
  then show ?thesis by (cases r) auto
qed

interpretation matrices: object_pool "\<lambda>msk. ec_method_matrix_get (Some b) compiled msk (mask_rows msk)" ec_method_matrix_put l_heap
  "pool_ok gf l0" "\<lambda>l msk. usable l msk \<and> l_heap l b = None" "\<lambda>msk. inverse_ok gf (mask_points msk)" for b compiled gf l0
proof unfold_locales
  show "\<exists>a l'. ec_method_matrix_get (Some b) compiled msk (mask_rows msk) l = Some (Inr a, l') \<and> pool_ok gf l0 l' ((a, msk) # h)"
    if "pool_ok gf l0 l h" "usable l msk \<and> l_heap l b = None" for l h msk
    using that get_succeeds [of gf l h msk b compiled] same_setup_trans unfolding pool_ok_def by blast
  show "\<exists>m. l_heap l a = Some m \<and> inverse_ok gf (mask_points msk) m" if "pool_ok gf l0 l h" "(a, msk) \<in> set h" for l h a msk
    using that cache_okD(11) unfolding pool_ok_def by blast
  show "\<exists>l'. ec_method_matrix_put a l = Some l' \<and> pool_ok gf l0 l' (remove1 (a, msk) h)" if "pool_ok gf l0 l h" "(a, msk) \<in> set h" for l h a msk
    using that put_ok [of gf l h a msk] same_setup_trans unfolding pool_ok_def by blast
qed

text \<open>Decoding from fragments of the data gives the data, whatever is in the cache.\<close>

lemma decode_ok:
  assumes "cache_ok gf {} l h" "l_columns l < 2 ^ 32" "usable l msk" "l_heap l b = None" "length dat = 64 * (l_columns l * s)" "length buf = length dat"
    "\<And>k. k < l_columns l \<Longrightarrow> length (inp ! k) = 64 * s \<and> fragment_ok (vandermonde (l_columns l) (mask_points msk ! k)) dat s (inp ! k)"
  shows "\<exists>l'. ec_method_decode (Some b) compiled vregs l (512 * s) msk (mask_rows msk) inp (buf, 0) = Some (0, dat, l') \<and> cache_ok gf {} l' h \<and> same_setup l' l"
proof -
  have n: "length (mask_points msk) = l_columns l" using assms(3) by (simp add: usable_def)
  have d: "decode_loop vregs (row_data m) (l_columns l) (512 * s) inp 0 (buf, 0) = Some (dat, 512 * (l_columns l * s))" if "inverse_ok gf (mask_points msk) m" for m
  proof -
    have "decode_loop vregs (row_data m) (length (mask_points msk)) (512 * s) inp (512 * 0) (buf, 512 * (length (mask_points msk) * 0)) =
        Some (dat, 512 * (length (mask_points msk) * s))"
      using that assms(2,5,6,7) n cache_okD(2) [OF assms(1)]
      by (intro decode_loop_ok [OF _ distinct_mask_points]) (auto simp: inverse_ok_def)
    then show ?thesis unfolding n by simp
  qed
  have ok: "pool_ok gf l l h" "usable l msk \<and> l_heap l b = None" using assms(1,3,4) by (simp_all add: pool_ok_def same_setup_def)
  obtain a l1 m l2 where u: "ec_method_matrix_get (Some b) compiled msk (mask_rows msk) l = Some (Inr a, l1)" "l_heap l1 a = Some m"
    "decode_loop vregs (row_data m) (l_columns l) (512 * s) inp 0 (buf, 0) = Some (dat, 512 * (l_columns l * s))"
    "ec_method_matrix_put a l1 = Some l2" "pool_ok gf l l2 h"
    using matrices.use_object [OF ok, where f = "\<lambda>m. decode_loop vregs (row_data m) (l_columns l) (512 * s) inp 0 (buf, 0)", OF d] by blast
  have "l_columns l1 = l_columns l" using get_succeeds [OF assms(1,3,4), of compiled] u(1) by (auto simp: same_setup_def)
  then show ?thesis using u by (auto simp: ec_method_decode_def pool_ok_def)
qed

lemma encode_fragments:
  assumes "cache_ok gf {} l h" "encode_ok gf l" "l_rows l \<le> 255" "length dat = 64 * (l_columns l * s)" "length bufs = l_rows l" "\<forall>b \<in> set bufs. length b = 64 * s"
  shows "\<exists>out. ec_method_encode vregs l (512 * (l_columns l * s)) dat (map (\<lambda>b. (b, 0)) bufs) = Some out \<and> length out = l_rows l \<and>
    (\<forall>i < l_rows l. length (fst (out ! i)) = 64 * s \<and> fragment_ok (vandermonde (l_columns l) (gf_of (of_nat i + 1))) dat s (fst (out ! i)))"
proof -
  let ?n = "l_columns l" and ?vss = "map (\<lambda>i. vandermonde (l_columns l) (gf_of (of_nat i + 1))) [0..<l_rows l]"
  obtain m where m: "l_encode l = Some m" "list_all2 (row_ok True gf) ?vss (row_data m)" "l_stripe l = 512 * ?n" "?n < 2 ^ 32"
    using assms(2) by (auto simp: encode_ok_def)
  have n: "0 < ?n" "prepared_gf gf" using cache_okD(2,3) [OF assms(1)] by auto
  have nz: "gf_of (of_nat i + 1) \<noteq> 0" if "i < 255" for i using row_val [OF that] row_unat [OF that] by (metis Zero_not_Suc unat_0 val_zero(1))
  then have co: "\<forall>vs \<in> set ?vss. linear_coeffs ?n vs" using assms(3) vandermonde_coeffs [OF n(1)] by auto
  have "list_all2 (encoded dat s 0) ?vss (map (\<lambda>b. (b, 0)) bufs)"
    using assms(5,6) by (auto simp: list_all2_conv_all_nth encoded_def fragment_ok_def)
  then obtain out where o: "encode_loop vregs (row_data m) ?n (512 * ?n) (512 * (?n * s)) dat (512 * (?n * 0)) (map (\<lambda>b. (b, 0)) bufs) = Some out"
    "list_all2 (encoded dat s s) ?vss out"
    using encode_loop_ok [OF m(2) n(2) co n(1) m(4) assms(4), of 0] by blast
  have "encoded dat s s (vandermonde ?n (gf_of (of_nat i + 1))) (out ! i)" if "i < l_rows l" for i
    using o(2) that by (simp add: list_all2_conv_all_nth)
  moreover have "ec_method_encode vregs l (512 * (?n * s)) dat (map (\<lambda>b. (b, 0)) bufs) = Some out" using o(1) m(1,3) by (simp add: ec_method_encode_def)
  ultimately show ?thesis using list_all2_lengthD [OF o(2)] by (auto simp: encoded_def split_beta)
qed

section \<open>The end\<close>

lemma dec32_iter: "k \<le> n + 4294967295 \<Longrightarrow> n \<le> 4294967295 \<Longrightarrow> (dec32 ^^ k) n = (if k \<le> n then n - k else 4294967296 + n - k)"
  by (induction k) (auto simp: dec32_def)

lemma fini_loop_all:
  "distinct (l_lru l) \<Longrightarrow> set (l_lru l) \<subseteq> dom (l_heap l) \<Longrightarrow>
    fini_loop l = Some (l\<lparr> l_lru := [], l_heap := (l_heap l) |` (- set (l_lru l)), l_count := (dec32 ^^ length (l_lru l)) (l_count l) \<rparr>)"
proof (induction "l_lru l" arbitrary: l)
  case Nil
  then have "l\<lparr> l_lru := [], l_heap := l_heap l, l_count := l_count l \<rparr> = l" by simp
  then show ?case using Nil by (subst fini_loop.simps) (simp add: restrict_map_def)
next
  case (Cons a as)
  obtain m where m: "l_heap l a = Some m" using Cons.prems(2) Cons.hyps(2) by (metis domD list.set_intros(1) subsetD)
  let ?l = "l\<lparr> l_lru := as, l_heap := (l_heap l)(a := None), l_count := dec32 (l_count l) \<rparr>"
  have d: "ec_method_matrix_destroy a l = Some ?l" using m Cons.hyps(2) [symmetric] by (simp add: ec_method_matrix_destroy_def)
  have "distinct (l_lru ?l)" "set (l_lru ?l) \<subseteq> dom (l_heap ?l)" using Cons.prems Cons.hyps(2) [symmetric] by auto
  then have "fini_loop ?l = Some (?l\<lparr> l_lru := [], l_heap := (l_heap ?l) |` (- set (l_lru ?l)), l_count := (dec32 ^^ length (l_lru ?l)) (l_count ?l) \<rparr>)"
    using Cons.hyps(1) [of ?l] by simp
  moreover have "((l_heap l)(a := None)) |` (- set as) = l_heap l |` (- set (a # as))" by (auto simp: restrict_map_def fun_eq_iff)
  ultimately show ?case using d Cons.hyps(2) [symmetric] by (subst fini_loop.simps) (simp add: funpow_swap1)
qed

text \<open>With no decoder at work, all the matrices of the pool are on the list.\<close>

lemma all_on_list: "cache_ok gf {} l [] \<Longrightarrow> set (l_lru l) = dom (l_heap l)"
  using cache_okD(9) [of gf "{}" l "[]"] cache_matrix [of gf l "[]"] by (auto simp: matrix_ok_def dom_def)

lemma make_heap:
  assumes "make_matrix compiled a values0 msk rows l = Some l'"
  shows "\<exists>m. l_heap l' = (l_heap l)(a \<mapsto> m) \<and> m_mask m \<in> {msk, 0}"
  using assms by (auto simp: make_matrix_def ec_method_matrix_init_def ec_method_matrix_insert_def Let_def split: bind_splits prod.splits if_splits)

text \<open>A new matrix is made when nothing can be made over.\<close>

lemma get_fresh:
  assumes "cache_ok gf {} l h" "usable l msk" "l_heap l b = None" "msk \<notin> mask_at l ` set (cached l)" "l_lru l = []"
  shows "\<exists>l' m. ec_method_matrix_get (Some b) compiled msk (mask_rows msk) l = Some (Inr b, l') \<and> l_heap l' = (l_heap l)(b \<mapsto> m) \<and> m_mask m \<in> {msk, 0} \<and>
    cache_ok gf {} l' ((b, msk) # h) \<and> same_setup l' l"
proof -
  obtain r pos where r: "ec_method_matrix_lookup msk l = Some (r, pos)" "search_result l msk (r, pos)" using lookup_ok [OF cache_okD(6) [OF assms(1)]] .
  have "r = None" using r(2) assms(4) searchable_cached(1) [OF cache_okD(6) [OF assms(1)]]
    by (auto simp: search_result_def split: option.splits intro!: image_eqI)
  obtain l' where l': "make_matrix compiled b (replicate (l_columns l * l_columns l) 0) msk (mask_rows msk) l = Some l'"
    "cache_ok gf {} l' ((b, msk) # h)" "same_setup l' l"
    using make_ok [OF take_fresh [OF assms(1,3)] assms(2,4)] by (metis length_replicate)
  then show ?thesis using r(1) \<open>r = None\<close> make_heap [OF l'(1)] assms(5) by (auto simp: ec_method_matrix_get_def Let_def)
qed

section \<open>Properties\<close>

definition sample_mem :: allocations where
  "sample_mem = \<lparr> pool_mem = True, objects_mem = Some [0], gf_mem = True, log_mem = Some (replicate 511 0), pow_mem = Some (replicate 511 0),
     matrix_mem = True, code_mem = True \<rparr>"

lemma sample_start:
  obtains gf l where "reachable l []" "cache_ok gf {} l []" "encode_ok gf l" "l_columns l = 2" "l_rows l = 3" "l_max l = 1" "l_heap l = Map.empty"
proof -
  have "enough sample_mem 1" by (simp add: enough_def sample_mem_def)
  then show ?thesis using that init_ok [of sample_mem 1 2 3 None "\<lambda>_. True"] reachable.start [of sample_mem 1 2 3 None "\<lambda>_. True"] by auto
qed

lemma sample_rows: "length (mask_rows 3) = 2" "length (mask_rows 5) = 2"
  by code_simp+

text \<open>C5: the cache is safe and right.  In every state reached by getting and returning matrices in any order,
  the cached matrices are in the order of their masks and no more than there is room for, the
  references of each matrix are its holders, each holder's matrix is the inverse for the mask it asked
  for, and both operations go through, with failure only where there is no memory for a new matrix.\<close>

theorem cache_invariant:
  assumes "reachable l h"
  shows "l_count l \<le> l_max l \<and> sorted_wrt (<) (map (mask_at l) (cached l)) \<and> (\<forall>a m. l_heap l a = Some m \<longrightarrow> refs m = holders a h) \<and>
    (\<forall>(a, msk) \<in> set h. (\<exists>m. l_heap l a = Some m \<and> inverse_ok (code_gf (the (l_code l))) (mask_points msk) m) \<and> ec_method_matrix_put a l \<noteq> None) \<and>
    (\<forall>msk b compiled. usable l msk \<and> l_heap l b = None \<longrightarrow>
       (\<exists>a l'. ec_method_matrix_get (Some b) compiled msk (mask_rows msk) l = Some (Inr a, l')) \<and>
       (\<exists>r l'. ec_method_matrix_get None compiled msk (mask_rows msk) l = Some (r, l')))"
proof -
  obtain gf where ok: "cache_ok gf {} l h" using reachable_ok [OF assms] by blast
  note D = cache_okD [OF ok]
  have gf: "code_gf (the (l_code l)) = gf" using D(1) by auto
  have "ec_method_matrix_put a l \<noteq> None" if "(a, msk) \<in> set h" for a msk using put_ok [OF ok that] by auto
  moreover have "\<exists>a l'. ec_method_matrix_get (Some b) compiled msk (mask_rows msk) l = Some (Inr a, l')" if "usable l msk" "l_heap l b = None" for msk b compiled
    using get_succeeds [OF ok that] by blast
  moreover have "\<exists>r l'. ec_method_matrix_get None compiled msk (mask_rows msk) l = Some (r, l')" if "usable l msk" for msk compiled
    using get_ok [OF ok that, of None compiled] by auto
  moreover have "refs m = holders a h" if "l_heap l a = Some m" for a m using cache_matrix [OF ok that] by (simp add: matrix_ok_def)
  moreover have "sorted_wrt (<) (map (mask_at l) (cached l))" using D(6) by (simp add: searchable_def)
  ultimately show ?thesis unfolding gf using D(4,11) by blast
qed

theorem cache_invariant_witness:
  "\<exists>l a. reachable l [(a, 3)] \<and> l_count l \<le> l_max l \<and> sorted_wrt (<) (map (mask_at l) (cached l)) \<and>
     (\<exists>m. l_heap l a = Some m \<and> inverse_ok (code_gf (the (l_code l))) (mask_points 3) m \<and> refs m = 1) \<and> ec_method_matrix_put a l \<noteq> None"
proof -
  obtain gf l where l: "reachable l []" "cache_ok gf {} l []" "l_columns l = 2" "l_heap l = Map.empty" using sample_start by blast
  have u: "usable l 3" using sample_rows(1) l(3) by (simp add: usable_def)
  obtain a l' where g: "ec_method_matrix_get (Some 7) (\<lambda>_. True) 3 (mask_rows 3) l = Some (Inr a, l')"
    using cache_invariant [OF l(1)] u l(4) by (metis (no_types, lifting))
  have r: "reachable l' [(a, 3)]" by (rule reachable.get [OF l(1) u _ g]) (simp add: l(4))
  note i = cache_invariant [OF r]
  then obtain m where "l_heap l' a = Some m" "inverse_ok (code_gf (the (l_code l'))) (mask_points 3) m" by auto
  then show ?thesis using r i by (intro exI [of _ l'] exI [of _ a]) auto
qed

text \<open>C27: the end frees everything.  When no decoder is at work, \<open>ec_method_fini\<close> returns, with all the matrices of the
  pool freed, and its assertion on the count holds exactly when all of them were cached.\<close>

theorem fini_frees:
  assumes "reachable l []" "card (dom (l_heap l)) < 2 ^ 32" "l_max l < 2 ^ 32"
  shows "\<exists>l'. ec_method_fini l = Some (l', l_count l = card (dom (l_heap l))) \<and> l_heap l' = Map.empty \<and> l_lru l' = []"
proof -
  obtain gf where ok: "cache_ok gf {} l []" "encode_ok gf l" using reachable_ok [OF assms(1)] by blast
  note D = cache_okD [OF ok(1)]
  have s: "set (l_lru l) = dom (l_heap l)" by (rule all_on_list [OF ok(1)])
  then have n: "length (l_lru l) = card (dom (l_heap l))" using distinct_card [OF D(7)] by simp
  have "(dec32 ^^ length (l_lru l)) (l_count l) = 0 \<longleftrightarrow> l_count l = length (l_lru l)"
    using dec32_iter [of "length (l_lru l)" "l_count l"] n assms(2,3) D(4) by auto
  moreover obtain m where "l_encode l = Some m" using ok(2) by (auto simp: encode_ok_def)
  moreover have "l_heap l |` (- dom (l_heap l)) = Map.empty" by (auto simp: restrict_map_def fun_eq_iff)
  ultimately show ?thesis using fini_loop_all [OF D(7,9)] n s by (simp add: ec_method_fini_def)
qed

theorem fini_frees_witness:
  "\<exists>l l'. reachable l [] \<and> ec_method_fini l = Some (l', True) \<and> l_heap l' = Map.empty"
proof -
  obtain gf l where l: "reachable l []" "cache_ok gf {} l []" "l_max l = 1" "l_heap l = Map.empty" using sample_start by blast
  have "cached l = []" using cache_okD(6) [OF l(2)] l(4) by (auto simp: searchable_def)
  then have "l_count l = 0" using searchable_cached(1) [OF cache_okD(6) [OF l(2)]] by simp
  then show ?thesis using fini_frees [OF l(1)] l by auto
qed

text \<open>C39: the count of cached matrices can be wrong at the end.  \<open>ec_method_matrix_get\<close> does not count a matrix
  it makes while all the cached ones are in use, but \<open>ec_method_matrix_destroy\<close> takes it off the count;
  after two decoders at work at the same time with room for one matrix, the assertion of
  \<open>ec_method_fini\<close> that the count is zero fails.\<close>

theorem fini_miscounts: "\<exists>l l'. reachable l [] \<and> ec_method_fini l = Some (l', False)"
proof -
  obtain gf l where l: "reachable l []" "cache_ok gf {} l []" "encode_ok gf l" "l_columns l = 2" "l_max l = 1" "l_heap l = Map.empty" using sample_start by blast
  have no: "l_lru l = []" "cached l = []" using all_on_list [OF l(2)] cache_okD(6) [OF l(2)] l(6) by (auto simp: searchable_def)
  obtain l1 m1 where g1: "ec_method_matrix_get (Some 0) (\<lambda>_. True) 3 (mask_rows 3) l = Some (Inr 0, l1)" "l_heap l1 = [0 \<mapsto> m1]" "m_mask m1 \<in> {3, 0}"
    "cache_ok gf {} l1 [(0, 3)]" "same_setup l1 l"
    using get_fresh [OF l(2), of 3 0 "\<lambda>_. True"] sample_rows(1) l(4,6) no by (auto simp: usable_def)
  have r1: "reachable l1 [(0, 3)]" by (rule reachable.get [OF l(1) _ _ g1(1)]) (use sample_rows(1) l(4,6) in \<open>simp_all add: usable_def\<close>)
  have "set (l_lru l1) \<subseteq> {0}" "0 \<notin> set (l_lru l1)"
    using cache_okD(9) [OF g1(4)] cache_matrix [OF g1(4), of 0 m1] g1(2) by (auto simp: matrix_ok_def)
  then have "l_lru l1 = []" by (cases "l_lru l1") auto
  moreover have "5 \<notin> mask_at l1 ` set (cached l1)" using cached_heap [OF cache_okD(6) [OF g1(4)]] g1(2,3) by (fastforce split: if_splits)
  moreover have "usable l1 5" using sample_rows(2) l(4) g1(5) by (simp add: usable_def same_setup_def)
  ultimately obtain l2 m2 where g2: "ec_method_matrix_get (Some 1) (\<lambda>_. True) 5 (mask_rows 5) l1 = Some (Inr 1, l2)" "l_heap l2 = [0 \<mapsto> m1, 1 \<mapsto> m2]"
    "cache_ok gf {} l2 [(1, 5), (0, 3)]" "same_setup l2 l1"
    using get_fresh [OF g1(4), of 5 1 "\<lambda>_. True"] g1(2) by auto
  have r2: "reachable l2 [(1, 5), (0, 3)]" by (rule reachable.get [OF r1 \<open>usable l1 5\<close> _ g2(1)]) (use g1(2) in simp)
  obtain l3 where p3: "ec_method_matrix_put 1 l2 = Some l3" "cache_ok gf {} l3 [(0, 3)]" "same_setup l3 l2" "dom (l_heap l3) = dom (l_heap l2)"
    using put_ok [OF g2(3), of 1 5] by auto
  have r3: "reachable l3 [(0, 3)]" using reachable.put [OF r2 _ p3(1), of 5] by simp
  obtain l4 where p4: "ec_method_matrix_put 0 l3 = Some l4" "cache_ok gf {} l4 []" "same_setup l4 l3" "dom (l_heap l4) = dom (l_heap l3)"
    using put_ok [OF p3(2), of 0 3] by auto
  have r4: "reachable l4 []" using reachable.put [OF r3 _ p4(1), of 3] by simp
  note D = cache_okD [OF p4(2)]
  have s: "set (l_lru l4) = {0, 1}" using all_on_list [OF p4(2)] p4(4) p3(4) g2(2) by auto
  then have n: "length (l_lru l4) = 2" using distinct_card [OF D(7)] by simp
  have c: "l_count l4 \<le> 1" using D(4) p4(3) p3(3) g2(4) g1(5) l(5) by (simp add: same_setup_def)
  obtain l5 where "fini_loop l4 = Some l5" "l_count l5 = (dec32 ^^ 2) (l_count l4)" using fini_loop_all [OF D(7,9)] n by auto
  moreover have "(dec32 ^^ 2) (l_count l4) \<noteq> 0" using c dec32_iter [of 2 "l_count l4"] by simp
  moreover have "l_encode l4 \<noteq> None" using l(3) p4(3) p3(3) g2(4) g1(5) by (auto simp: same_setup_def encode_ok_def)
  ultimately show ?thesis using r4 by (auto simp: ec_method_fini_def)
qed

end
