(* ===== verification/Ec_Read.thy ===== *)
theory Ec_Read
  imports Ec_Cache
begin

text \<open>
  Reading a file of a dispersed volume, \<open>xlators/cluster/ec/src/ec-inode-read.c\<close> with the alignment
  functions of \<open>ec-helpers.h\<close>: the request that is sent to the bricks, and \<open>ec_readv_rebuild\<close>, which
  puts the answers into the order of their bricks, decodes them and cuts out what was asked for.

  An answer is the index of its brick with the contents of its vector; copying a vector that is in
  several pieces or not aligned does not change the contents.
\<close>

unbundle bit_operations_syntax

section \<open>Alignment\<close>

text \<open>The bricks needed to read, and the sizes of a fragment's chunk and of a stripe, as \<open>ec_parse_options\<close> sets them.\<close>

record ec =
  fragments :: u64
  fragment_size :: u64
  stripe_size :: u64

definition ec_sizes :: "u64 \<Rightarrow> ec" where
  "ec_sizes n = \<lparr> fragments = n, fragment_size = 512, stripe_size = 512 * n \<rparr>"

definition ec_parse_options :: "int \<Rightarrow> int \<Rightarrow> int + ec" where
  "ec_parse_options nodes redundancy =
     (let n = nodes - redundancy
      in if redundancy < 1 \<or> n \<le> redundancy \<or> 16 < n then Inl EINVAL else Inr (ec_sizes (of_int n)))"

text \<open>There are at least two and at most sixteen fragments.\<close>

lemma parse_options_bounds:
  assumes "ec_parse_options nodes redundancy = Inr ec"
  shows "\<exists>n. 2 \<le> n \<and> n \<le> 16 \<and> nodes \<le> 31 \<and> ec = ec_sizes (of_nat n)"
proof (intro exI conjI)
  have "\<not> (redundancy < 1 \<or> nodes - redundancy \<le> redundancy \<or> 16 < nodes - redundancy)" "ec = ec_sizes (of_int (nodes - redundancy))"
    using assms by (auto simp: ec_parse_options_def Let_def split: if_splits)
  then show "2 \<le> nat (nodes - redundancy)" "nat (nodes - redundancy) \<le> 16" "nodes \<le> 31" "ec = ec_sizes (of_nat (nat (nodes - redundancy)))"
    by auto
qed

definition ec_adjust_size_down :: "ec \<Rightarrow> u64 \<Rightarrow> bool \<Rightarrow> u64 \<times> u64" where
  "ec_adjust_size_down ec v scale =
     (let head = v mod stripe_size ec;
          tmp = v - head
      in (head, if scale then tmp div fragments ec else tmp))"

text \<open>The tail, negative where the size does not fit, and the adjusted size.\<close>

definition ec_adjust_size_up :: "ec \<Rightarrow> u64 \<Rightarrow> bool \<Rightarrow> int \<times> u64" where
  "ec_adjust_size_up ec v scale =
     (case ec_adjust_size_down ec v scale of (tail, tmp) \<Rightarrow>
        if tail \<noteq> 0 then
          let tail = stripe_size ec - tail
          in if scale then (uint tail, tmp + fragment_size ec)
             else let tmp = tmp + stripe_size ec
                  in if tmp < stripe_size ec then (- uint tail, - 1) else (uint tail, tmp)
        else (0, tmp))"

text \<open>Offsets are not negative, so that the signed operations are those on unsigned numbers.\<close>

definition ec_adjust_offset_down :: "ec \<Rightarrow> u64 \<Rightarrow> bool \<Rightarrow> u64 \<times> u64" where
  "ec_adjust_offset_down ec v scale =
     (let head = v mod stripe_size ec;
          tmp = v - head
      in (head, if scale then tmp div fragments ec else tmp))"

section \<open>The request\<close>

record read_fop =
  f_user_size :: u64
  f_head :: u64
  f_offset :: u64
  f_size :: u64

definition ec_manager_readv_init :: "ec \<Rightarrow> u64 \<Rightarrow> u64 \<Rightarrow> read_fop" where
  "ec_manager_readv_init ec offset sz =
     (case ec_adjust_offset_down ec offset True of (head, offset) \<Rightarrow>
        \<lparr> f_user_size = sz, f_head = head, f_offset = offset, f_size = snd (ec_adjust_size_up ec (sz + head) True) \<rparr>)"

section \<open>The answers\<close>

definition gf_bits_count :: "u64 \<Rightarrow> nat" where
  "gf_bits_count n = length (filter (bit n) [0..<64])"

fun rebuild_slots :: "u64 \<Rightarrow> (nat \<times> u64 list) list \<Rightarrow> u32 list \<Rightarrow> u64 list list \<Rightarrow> (u32 list \<times> u64 list list) option" where
  "rebuild_slots msk [] vs bs = Some (vs, bs)"
| "rebuild_slots msk ((idx, block) # ans) vs bs =
     do {
       let pos = gf_bits_count (msk AND (push_bit idx 1 - 1));
       vs \<leftarrow> put pos (of_nat idx + 1) vs;
       bs \<leftarrow> put pos block bs;
       rebuild_slots msk ans vs bs
     }"

text \<open>What is cut out of the decoded data: its offset and length, in bytes.\<close>

definition read_window :: "ec \<Rightarrow> read_fop \<Rightarrow> u64 \<Rightarrow> u64 \<Rightarrow> u64 \<times> u64" where
  "read_window ec fop fsize ia_size =
     (let sz = fsize * fragments ec;
          iov_len = sz - f_head fop;
          mx = f_offset fop * fragments ec + sz;
          mx = (if ia_size < mx then ia_size else mx);
          mx = mx - (f_offset fop * fragments ec + f_head fop);
          mx = (if f_user_size fop < mx then f_user_size fop else mx);
          sz = sz - f_head fop
      in (f_head fop, if mx < sz then iov_len - (sz - mx) else iov_len))"

record read_cbk =
  c_op_ret :: int
  c_op_errno :: int
  c_mask :: u64
  c_ia_size :: u64
  c_answers :: "(nat \<times> u64 list) list"

text \<open>The result is an error, or the decoded buffer with the part of it that answers the request; no buffer
  where nothing was read.\<close>

definition ec_readv_rebuild :: "nat option \<Rightarrow> (nat \<Rightarrow> bool) \<Rightarrow> (nat \<Rightarrow> u64) \<Rightarrow> u64 list option \<Rightarrow> bool \<Rightarrow> ec \<Rightarrow> read_fop \<Rightarrow> read_cbk \<Rightarrow>
    ec_matrix_list \<Rightarrow> (int \<times> (u64 list \<times> u64 \<times> u64) option \<times> ec_matrix_list) option" where
  "ec_readv_rebuild fresh compiled vregs buffer dup ec fop cbk l =
     (if c_op_ret cbk < 0 then Some (- c_op_errno cbk, None, l)
      else if 0 < c_op_ret cbk then
        do {
          let n = length (c_answers cbk);
          (vs, bs) \<leftarrow> rebuild_slots (c_mask cbk) (c_answers cbk) (replicate n 0) (replicate n []);
          case buffer of
            None \<Rightarrow> Some (- ENOMEM, None, l)
          | Some buf \<Rightarrow>
              do {
                (err, buf, l) \<leftarrow> ec_method_decode fresh compiled vregs l (nat (c_op_ret cbk)) (c_mask cbk) vs bs (buf, 0);
                if err \<noteq> 0 then Some (err, None, l)
                else if \<not> dup then Some (- ENOMEM, None, l)
                else Some (0, Some (buf, read_window ec fop (of_int (c_op_ret cbk)) (c_ia_size cbk)), l)
              }
        }
      else Some (0, None, l))"

section \<open>The order of the answers\<close>

definition set_bits :: "u64 \<Rightarrow> nat list" where
  "set_bits msk = filter (bit msk) [0..<64]"

lemma slot_count:
  assumes "i < 64"
  shows "gf_bits_count (msk AND (push_bit i 1 - 1)) = length (filter (bit msk) [0..<i])"
proof -
  have m: "push_bit i 1 - 1 = (mask i :: u64)" by (simp add: mask_eq_exp_minus_1 push_bit_of_1)
  have b: "bit (msk AND mask i) k \<longleftrightarrow> bit msk k \<and> k < i" for k
    using bit_imp_le_length [of msk k] by (auto simp: bit_and_iff bit_mask_iff)
  have sp: "[0..<64] = [0..<i] @ [i..<64]" using assms upt_add_eq_append [of 0 i "64 - i"] by simp
  have "filter (bit (msk AND mask i)) [0..<i] = filter (bit msk) [0..<i]" by (rule filter_cong) (auto simp: b)
  moreover have "filter (bit (msk AND mask i)) [i..<64] = []" by (auto simp: b filter_empty_conv)
  ultimately show ?thesis unfolding gf_bits_count_def m sp by simp
qed

lemma slot_place:
  assumes "i < 64" "bit msk i"
  shows "gf_bits_count (msk AND (push_bit i 1 - 1)) < length (set_bits msk)" "set_bits msk ! gf_bits_count (msk AND (push_bit i 1 - 1)) = i"
proof -
  have "[0..<64] = [0..<i] @ i # [Suc i..<64]" using assms(1) upt_add_eq_append [of 0 i "64 - i"] by (simp add: upt_conv_Cons)
  then have "set_bits msk = filter (bit msk) [0..<i] @ i # filter (bit msk) [Suc i..<64]" using assms(2) by (simp add: set_bits_def)
  then show "gf_bits_count (msk AND (push_bit i 1 - 1)) < length (set_bits msk)" "set_bits msk ! gf_bits_count (msk AND (push_bit i 1 - 1)) = i"
    unfolding slot_count [OF assms(1)] by simp_all
qed

lemma rebuild_slots_all:
  assumes "distinct (map fst ans)" "\<forall>(i, d) \<in> set ans. i < 64 \<and> bit msk i" "length vs = length (set_bits msk)" "length bs = length (set_bits msk)"
  shows "\<exists>vs' bs'. rebuild_slots msk ans vs bs = Some (vs', bs') \<and> length vs' = length vs \<and> length bs' = length bs \<and>
    (\<forall>p < length (set_bits msk). (vs' ! p, bs' ! p) = (case map_of ans (set_bits msk ! p) of
       None \<Rightarrow> (vs ! p, bs ! p) | Some d \<Rightarrow> (of_nat (set_bits msk ! p) + 1, d)))"
  using assms
proof (induction ans arbitrary: vs bs)
  case (Cons a ans)
  obtain i d where a: "a = (i, d)" by (cases a)
  let ?p = "gf_bits_count (msk AND (push_bit i 1 - 1))" and ?L = "set_bits msk"
  have p: "?p < length ?L" "?L ! ?p = i" using slot_place [of i msk] Cons.prems(2) a by auto
  have ni: "map_of ans i = None" using Cons.prems(1) a by (simp add: map_of_eq_None_iff)
  have di: "distinct ?L" by (simp add: set_bits_def)
  obtain vs' bs' where r: "rebuild_slots msk ans (vs[?p := of_nat i + 1]) (bs[?p := d]) = Some (vs', bs')" "length vs' = length vs" "length bs' = length bs"
    "\<And>q. q < length ?L \<Longrightarrow> (vs' ! q, bs' ! q) = (case map_of ans (?L ! q) of
       None \<Rightarrow> (vs[?p := of_nat i + 1] ! q, bs[?p := d] ! q) | Some d \<Rightarrow> (of_nat (?L ! q) + 1, d))"
    using Cons.IH [of "vs[?p := of_nat i + 1]" "bs[?p := d]"] Cons.prems by auto
  have "(vs' ! q, bs' ! q) = (case map_of (a # ans) (?L ! q) of None \<Rightarrow> (vs ! q, bs ! q) | Some d \<Rightarrow> (of_nat (?L ! q) + 1, d))" if q: "q < length ?L" for q
  proof (cases "q = ?p")
    case True
    then show ?thesis using r(4) [OF q] p ni Cons.prems(3,4) by (simp add: a)
  next
    case False
    then have "?L ! q \<noteq> i" using p q di nth_eq_iff_index_eq by metis
    then show ?thesis using r(4) [OF q] False by (simp add: a split: option.split)
  qed
  moreover have "rebuild_slots msk (a # ans) vs bs = Some (vs', bs')" using r(1) p(1) Cons.prems(3,4) by (simp add: a put_def)
  ultimately show ?case using r(2,3) by auto
qed simp

text \<open>Whatever the order of the answers, the values are the rows of the mask and each block is in its row's place.\<close>

lemma rebuild_slots_ok:
  assumes "distinct (map fst ans)" "\<And>i. bit msk i \<longleftrightarrow> i \<in> fst ` set ans"
  shows "\<exists>bs. rebuild_slots msk ans (replicate (length ans) 0) (replicate (length ans) []) = Some (mask_rows msk, bs) \<and>
    length bs = length ans \<and> length (mask_rows msk) = length ans \<and>
    (\<forall>p < length ans. set_bits msk ! p < 64 \<and> (set_bits msk ! p, bs ! p) \<in> set ans \<and> mask_rows msk ! p = of_nat (set_bits msk ! p) + 1)"
proof -
  have lt: "i < 64" if "bit msk i" for i using bit_imp_le_length [OF that] by simp
  have s: "set (set_bits msk) = fst ` set ans" using assms(2) lt by (auto simp: set_bits_def)
  have n: "length (set_bits msk) = length ans"
    using distinct_card [of "set_bits msk"] distinct_card [OF assms(1)] s by (simp add: set_bits_def)
  have "\<forall>(i, d) \<in> set ans. i < 64 \<and> bit msk i" using assms(2) lt by force
  then obtain vs bs where r: "rebuild_slots msk ans (replicate (length ans) 0) (replicate (length ans) []) = Some (vs, bs)" "length vs = length ans" "length bs = length ans"
    "\<And>p. p < length ans \<Longrightarrow> (vs ! p, bs ! p) = (case map_of ans (set_bits msk ! p) of
       None \<Rightarrow> (replicate (length ans) 0 ! p, replicate (length ans) [] ! p) | Some d \<Rightarrow> (of_nat (set_bits msk ! p) + 1, d))"
    using rebuild_slots_all [OF assms(1), of msk "replicate (length ans) 0" "replicate (length ans) []"] n by auto
  have p: "(set_bits msk ! p, bs ! p) \<in> set ans \<and> vs ! p = of_nat (set_bits msk ! p) + 1" if "p < length ans" for p
  proof -
    have "set_bits msk ! p \<in> fst ` set ans" using s that n by (metis nth_mem)
    then obtain d where "map_of ans (set_bits msk ! p) = Some d" by (metis map_of_eq_None_iff not_None_eq)
    then show ?thesis using r(4) [OF that] map_of_SomeD by auto
  qed
  have m: "mask_rows msk = map (\<lambda>i. of_nat i + 1) (set_bits msk)" by (simp add: mask_rows_def set_bits_def)
  have "vs = mask_rows msk" by (rule nth_equalityI) (use r(2) n p m in simp_all)
  moreover have "set_bits msk ! p < 64" if "p < length ans" for p using that n nth_mem [of p "set_bits msk"] by (simp add: set_bits_def)
  ultimately show ?thesis using r(1,3) p m n by (intro exI [of _ bs]) simp
qed

section \<open>The request covers what is asked for\<close>

lemma up_div:
  fixes v s :: nat
  assumes "0 < s"
  shows "(v + s - 1) div s = (if v mod s = 0 then v div s else Suc (v div s))"
proof -
  define q r where "q = v div s" and "r = v mod s"
  have v: "v = s * q + r" "r < s" using assms by (simp_all add: q_def r_def)
  have "(v + s - 1) div s = (if r = 0 then q else Suc q)"
    by (rule div_nat_eqI) (use v assms in \<open>auto simp: algebra_simps\<close>)
  then show ?thesis by (simp add: q_def r_def)
qed

lemma unat_fragments:
  assumes "N \<le> 65536"
  shows "unat (of_nat N :: u64) = N" "unat (512 * of_nat N :: u64) = 512 * N"
proof -
  show "unat (of_nat N :: u64) = N" using assms by (simp only: unat_of_nat) simp
  have "unat (of_nat (512 * N) :: u64) = 512 * N" using assms by (simp only: unat_of_nat) simp
  then show "unat (512 * of_nat N :: u64) = 512 * N" by simp
qed

lemma adjust_down:
  assumes "0 < N" "N \<le> 65536"
  shows "unat (fst (ec_adjust_size_down (ec_sizes (of_nat N)) v scale)) = unat v mod (512 * N)"
    "unat (snd (ec_adjust_size_down (ec_sizes (of_nat N)) v True)) = 512 * (unat v div (512 * N))"
    "unat (snd (ec_adjust_size_down (ec_sizes (of_nat N)) v False)) = 512 * N * (unat v div (512 * N))"
proof -
  note f = unat_fragments [OF assms(2)]
  have h: "unat (v mod (512 * of_nat N)) = unat v mod (512 * N)" by (simp add: unat_mod f)
  have "v mod (512 * of_nat N) \<le> v" by (simp add: word_le_nat_alt h)
  then have "unat (v - v mod (512 * of_nat N)) = unat v - unat v mod (512 * N)" unfolding h [symmetric] by (rule unat_sub)
  then have d: "unat (v - v mod (512 * of_nat N)) = 512 * N * (unat v div (512 * N))" unfolding minus_mod_eq_mult_div [of "unat v"] .
  show "unat (fst (ec_adjust_size_down (ec_sizes (of_nat N)) v scale)) = unat v mod (512 * N)"
    using h by (simp add: ec_adjust_size_down_def ec_sizes_def Let_def)
  show "unat (snd (ec_adjust_size_down (ec_sizes (of_nat N)) v False)) = 512 * N * (unat v div (512 * N))"
    using d by (simp add: ec_adjust_size_down_def ec_sizes_def Let_def)
  have "512 * N * (unat v div (512 * N)) div N = 512 * (unat v div (512 * N))" using assms(1) by (simp add: mult.commute mult.left_commute)
  then show "unat (snd (ec_adjust_size_down (ec_sizes (of_nat N)) v True)) = 512 * (unat v div (512 * N))"
    using d by (simp add: ec_adjust_size_down_def ec_sizes_def Let_def unat_div f)
qed

lemma offset_down: "ec_adjust_offset_down = ec_adjust_size_down"
  by (simp add: fun_eq_iff ec_adjust_offset_down_def ec_adjust_size_down_def)

lemma size_up_scaled:
  assumes "2 \<le> N" "N \<le> 65536"
  shows "unat (snd (ec_adjust_size_up (ec_sizes (of_nat N)) v True)) = 512 * ((unat v + 512 * N - 1) div (512 * N))"
proof -
  have N: "0 < N" using assms(1) by simp
  note d = adjust_down [OF N assms(2), of v]
  obtain tail tmp where t: "ec_adjust_size_down (ec_sizes (of_nat N)) v True = (tail, tmp)" by fastforce
  have z: "tail = 0 \<longleftrightarrow> unat v mod (512 * N) = 0" using d(1) [of True] t unat_eq_zero [of tail] by simp
  have "unat v div (512 * N) = unat v div N div 512" by (simp add: div_mult2_eq mult.commute)
  then have "unat tmp \<le> unat v div N" using d(2) t by simp
  also have "\<dots> \<le> unat v div 2" using assms(1) by (intro div_le_mono2) auto
  also have "\<dots> < 2 ^ 63" using unsigned_less [of v, where ?'a = nat] by simp
  finally have "unat (tmp + 512) = unat tmp + 512" by (simp add: unat_plus_if_size word_size)
  then show ?thesis using t d(2) z up_div [of "512 * N" "unat v"] N
    by (auto simp: ec_adjust_size_up_def Let_def ec_sizes_def)
qed

lemma read_request:
  assumes "2 \<le> N" "N \<le> 65536" "unat offset + unat sz < 2 ^ 63" "fop = ec_manager_readv_init (ec_sizes (of_nat N)) offset sz"
  shows "f_user_size fop = sz" "unat (f_head fop) = unat offset mod (512 * N)" "unat (f_offset fop) = 512 * (unat offset div (512 * N))"
    "unat (f_size fop) = 512 * ((unat sz + unat offset mod (512 * N) + 512 * N - 1) div (512 * N))"
proof -
  have N: "0 < N" using assms(1) by simp
  note d = adjust_down [OF N assms(2), of offset]
  obtain head off where h: "ec_adjust_offset_down (ec_sizes (of_nat N)) offset True = (head, off)" by fastforce
  have hd: "unat head = unat offset mod (512 * N)" "unat off = 512 * (unat offset div (512 * N))" using d(1) [of True] d(2) h by (simp_all add: offset_down)
  have "unat head \<le> unat offset" unfolding hd(1) by (rule mod_less_eq_dividend)
  then have "unat (sz + head) = unat sz + unat head" using assms(3) by (simp add: unat_plus_if_size word_size)
  then show "f_user_size fop = sz" "unat (f_head fop) = unat offset mod (512 * N)" "unat (f_offset fop) = 512 * (unat offset div (512 * N))"
    "unat (f_size fop) = 512 * ((unat sz + unat offset mod (512 * N) + 512 * N - 1) div (512 * N))"
    using h hd size_up_scaled [OF assms(1,2), of "sz + head"] by (simp_all add: assms(4) ec_manager_readv_init_def)
qed

lemma window_unat:
  assumes "N \<le> 65536" "unat (f_offset fop) = 512 * k" "unat (f_head fop) \<le> 512 * N * s" "unat fsize = 512 * s" "512 * N * (k + s) < 2 ^ 63"
    "512 * N * k + unat (f_head fop) \<le> unat ia_size"
  shows "fst (read_window (ec_sizes (of_nat N)) fop fsize ia_size) = f_head fop"
    "unat (snd (read_window (ec_sizes (of_nat N)) fop fsize ia_size)) =
       min (unat (f_user_size fop)) (min (unat ia_size) (512 * N * (k + s)) - (512 * N * k + unat (f_head fop)))"
proof -
  let ?n = "of_nat N :: u64" and ?o = "f_offset fop" and ?h = "f_head fop"
  note n = unat_fragments(1) [OF assms(1)]
  have e: "512 * N * k = unat ?o * N" "512 * N * s = unat fsize * N" "512 * N * (k + s) = unat ?o * N + unat fsize * N"
    using assms(2,4) by (simp_all add: algebra_simps)
  have lt: "unat ?o * N + unat fsize * N < 2 ^ 63" using assms(5) unfolding e(3) .
  have o: "unat (?o * ?n) = unat ?o * N" "unat (fsize * ?n) = unat fsize * N"
    using lt by (simp_all add: unat_word_ariths(2) n)
  have os: "unat (?o * ?n + fsize * ?n) = unat ?o * N + unat fsize * N" using lt by (simp add: unat_word_ariths(1) o)
  have h: "unat ?h \<le> unat fsize * N" using assms(3) unfolding e(2) .
  have oh: "unat (?o * ?n + ?h) = unat ?o * N + unat ?h" using lt h by (simp add: unat_word_ariths(1) o)
  have sh: "unat (fsize * ?n - ?h) = unat fsize * N - unat ?h" using h o by (simp add: unat_sub word_le_nat_alt)
  define m1 where "m1 = (if ia_size < ?o * ?n + fsize * ?n then ia_size else ?o * ?n + fsize * ?n)"
  have m1: "unat m1 = min (unat ia_size) (unat ?o * N + unat fsize * N)" by (simp add: m1_def word_less_nat_alt os min_def)
  have "unat ?o * N + unat ?h \<le> unat m1" unfolding m1 using assms(6) h unfolding e(1) by simp
  then have m2: "unat (m1 - (?o * ?n + ?h)) = unat m1 - (unat ?o * N + unat ?h)" using oh by (simp add: unat_sub word_le_nat_alt)
  define m3 where "m3 = (if f_user_size fop < m1 - (?o * ?n + ?h) then f_user_size fop else m1 - (?o * ?n + ?h))"
  have m3: "unat m3 = min (unat (f_user_size fop)) (unat m1 - (unat ?o * N + unat ?h))" by (simp add: m3_def word_less_nat_alt m2 min_def)
  have le: "m3 \<le> fsize * ?n - ?h" unfolding word_le_nat_alt sh m3 m1 by simp
  have "read_window (ec_sizes ?n) fop fsize ia_size = (?h, if m3 < fsize * ?n - ?h then fsize * ?n - ?h - (fsize * ?n - ?h - m3) else fsize * ?n - ?h)"
    by (simp add: read_window_def ec_sizes_def Let_def m1_def m3_def)
  then have "read_window (ec_sizes ?n) fop fsize ia_size = (?h, m3)" using le by auto
  then show "fst (read_window (ec_sizes ?n) fop fsize ia_size) = ?h"
    "unat (snd (read_window (ec_sizes ?n) fop fsize ia_size)) =
       min (unat (f_user_size fop)) (min (unat ia_size) (512 * N * (k + s)) - (512 * N * k + unat ?h))"
    unfolding e using m3 m1 by simp_all
qed

section \<open>Bytes\<close>

definition word_bytes :: "u64 \<Rightarrow> u8 list" where
  "word_bytes w = map (\<lambda>i. ucast (drop_bit (8 * i) w)) [0..<8]"

definition bytes :: "u64 list \<Rightarrow> u8 list" where
  "bytes ws = concat (map word_bytes ws)"

lemma length_bytes [simp]: "length (bytes ws) = 8 * length ws"
  by (induction ws) (simp_all add: bytes_def word_bytes_def)

lemma bytes_append [simp]: "bytes (xs @ ys) = bytes xs @ bytes ys"
  by (simp add: bytes_def)

lemma bytes_take: "k \<le> length ws \<Longrightarrow> bytes (take k ws) = take (8 * k) (bytes ws)"
  using bytes_append [of "take k ws" "drop k ws"] by (simp add: append_eq_conv_conj)

lemma bytes_drop: "k \<le> length ws \<Longrightarrow> bytes (drop k ws) = drop (8 * k) (bytes ws)"
  using bytes_append [of "take k ws" "drop k ws"] by (simp add: append_eq_conv_conj)

section \<open>Parts of fragments\<close>

text \<open>What a brick answers: the part of its file that was asked for and exists.\<close>

definition brick_read :: "read_fop \<Rightarrow> u64 list \<Rightarrow> u64 list" where
  "brick_read fop b = take (unat (f_size fop) div 8) (drop (unat (f_offset fop) div 8) b)"

lemma chunk_at_part: "q < m \<Longrightarrow> chunk_at (take (64 * m) (drop (64 * k) b)) (512 * q) = chunk_at b (512 * (k + q))"
proof -
  assume "q < m"
  then have "64 * q + 64 \<le> 64 * m" by simp
  then have "take 64 (drop (64 * q) (take (64 * m) c)) = take 64 (drop (64 * q) c)" for c :: "u64 list" by (simp add: drop_take min_def)
  then show ?thesis by (simp add: chunk_at_def distrib_left add.commute)
qed

lemma fragment_part:
  assumes "fragment_ok vs dat s b" "length vs = n" "0 < n" "k + m \<le> s"
  shows "fragment_ok vs (take (64 * (n * m)) (drop (64 * (n * k)) dat)) m (take (64 * m) (drop (64 * k) b))"
  unfolding fragment_ok_def
proof (intro allI impI)
  fix q j :: nat
  assume q: "q < m" and j: "j < 512"
  then have kq: "k + q < s" using assms(4) by simp
  have i: "n * q + t < n * m" if "t < n" for t using q that mult_le_mono2 [of "Suc q" m n] by simp
  have "element (chunk_at (take (64 * m) (drop (64 * k) b)) (512 * q)) j = lin vs (map (\<lambda>t. element (chunk_at dat (512 * (n * (k + q) + t))) j) [0..<n])"
    unfolding chunk_at_part [OF q] using assms(1) kq j unfolding fragment_ok_def assms(2) by blast
  also have "map (\<lambda>t. element (chunk_at dat (512 * (n * (k + q) + t))) j) [0..<n] =
      map (\<lambda>t. element (chunk_at (take (64 * (n * m)) (drop (64 * (n * k)) dat)) (512 * (n * q + t))) j) [0..<n]"
  proof (rule map_cong [OF refl])
    fix t
    assume "t \<in> set [0..<n]"
    moreover have "n * (k + q) + t = n * k + (n * q + t)" by (simp add: distrib_left)
    ultimately show "element (chunk_at dat (512 * (n * (k + q) + t))) j =
        element (chunk_at (take (64 * (n * m)) (drop (64 * (n * k)) dat)) (512 * (n * q + t))) j"
      using chunk_at_part [OF i, of t "n * k" dat] by (simp add: add.assoc)
  qed
  finally show "element (chunk_at (take (64 * m) (drop (64 * k) b)) (512 * q)) j =
      lin vs (map (\<lambda>t. element (chunk_at (take (64 * (n * m)) (drop (64 * (n * k)) dat)) (512 * (length vs * q + t))) j) [0..<length vs])"
    unfolding assms(2) .
qed

section \<open>Reading what was written\<close>

text \<open>The answers of the bricks to a request: as many bricks as are needed, in any order, each with its part.\<close>

definition answers :: "ec_matrix_list \<Rightarrow> pointer list \<Rightarrow> read_fop \<Rightarrow> u64 \<Rightarrow> read_cbk \<Rightarrow> bool" where
  "answers l out fop ia_size cbk \<longleftrightarrow>
     c_ia_size cbk = ia_size \<and> distinct (map fst (c_answers cbk)) \<and> length (c_answers cbk) = l_columns l \<and>
     (\<forall>i. bit (c_mask cbk) i \<longleftrightarrow> i \<in> fst ` set (c_answers cbk)) \<and>
     (\<forall>(i, b) \<in> set (c_answers cbk). i < l_rows l \<and> b = brick_read fop (fst (out ! i)) \<and> c_op_ret cbk = int (8 * length b))"

lemma brick_read_part:
  assumes "unat (f_offset fop) = 512 * k" "unat (f_size fop) = 512 * m" "length b = 64 * s" "k < s"
  shows "brick_read fop b = take (64 * min m (s - k)) (drop (64 * k) b)"
proof -
  have "512 * x div 8 = 64 * x" for x :: nat by simp
  moreover have "64 * min m (s - k) = min (64 * m) (length (drop (64 * k) b))" using assms(3) by (simp add: min_mult_distrib_left diff_mult_distrib2)
  ultimately show ?thesis using assms(1,2) by (simp add: brick_read_def min_def)
qed

lemma readv_rebuilds:
  assumes "cache_ok gf {} l h" "l_columns l < 2 ^ 32" "length dat = 64 * (l_columns l * s)"
    "\<And>i. i \<in> fst ` set (c_answers cbk) \<Longrightarrow>
       length (fst (out ! i)) = 64 * s \<and> fragment_ok (vandermonde (l_columns l) (gf_of (of_nat i + 1))) dat s (fst (out ! i))"
    "answers l out fop ia_size cbk" "unat (f_offset fop) = 512 * k" "unat (f_size fop) = 512 * m" "k < s" "0 < m"
    "l_heap l b = None" "length buf = 64 * (l_columns l * min m (s - k))"
  shows "\<exists>l'. ec_readv_rebuild (Some b) compiled vregs (Some buf) True ec fop cbk l =
    Some (0, Some (take (64 * (l_columns l * min m (s - k))) (drop (64 * (l_columns l * k)) dat), read_window ec fop (of_nat (512 * min m (s - k))) ia_size), l') \<and>
    cache_ok gf {} l' h \<and> same_setup l' l"
proof -
  let ?n = "l_columns l" and ?m = "min m (s - k)" and ?ans = "c_answers cbk" and ?msk = "c_mask cbk"
  let ?dat = "take (64 * (?n * ?m)) (drop (64 * (?n * k)) dat)"
  have n: "2 \<le> ?n" using cache_okD(3) [OF assms(1)] .
  have km: "k + ?m \<le> s" "0 < ?m" using assms(8,9) by auto
  have a: "c_ia_size cbk = ia_size" "distinct (map fst ?ans)" "length ?ans = ?n" "\<And>i. bit ?msk i \<longleftrightarrow> i \<in> fst ` set ?ans"
    "\<And>i b. (i, b) \<in> set ?ans \<Longrightarrow> i < l_rows l \<and> b = brick_read fop (fst (out ! i)) \<and> c_op_ret cbk = int (8 * length b)"
    using assms(5) by (auto simp: answers_def)
  have blk: "d = take (64 * ?m) (drop (64 * k) (fst (out ! i))) \<and> length d = 64 * ?m" if "(i, d) \<in> set ?ans" for i d
  proof -
    have "length (fst (out ! i)) = 64 * s" using assms(4) that by force
    then show ?thesis using a(5) [OF that] brick_read_part [OF assms(6,7) _ assms(8)] km by simp
  qed
  obtain bs where bs: "rebuild_slots ?msk ?ans (replicate ?n 0) (replicate ?n []) = Some (mask_rows ?msk, bs)" "length (mask_rows ?msk) = ?n"
    "\<And>p. p < ?n \<Longrightarrow> set_bits ?msk ! p < 64 \<and> (set_bits ?msk ! p, bs ! p) \<in> set ?ans \<and> mask_rows ?msk ! p = of_nat (set_bits ?msk ! p) + 1"
    using rebuild_slots_ok [OF a(2,4)] unfolding a(3) by blast
  have f: "length (bs ! p) = 64 * ?m \<and> fragment_ok (vandermonde ?n (mask_points ?msk ! p)) ?dat ?m (bs ! p)" if p: "p < ?n" for p
  proof -
    let ?i = "set_bits ?msk ! p"
    have pt: "mask_points ?msk ! p = gf_of (of_nat ?i + 1)" using bs(2,3) p by (simp add: mask_points_def)
    have i: "fragment_ok (vandermonde ?n (gf_of (of_nat ?i + 1))) dat s (fst (out ! ?i))" using assms(4) bs(3) [OF p] by force
    have "fragment_ok (vandermonde ?n (gf_of (of_nat ?i + 1))) ?dat ?m (take (64 * ?m) (drop (64 * k) (fst (out ! ?i))))"
      by (rule fragment_part [OF i _ _ km(1)]) (use n in \<open>simp_all add: vandermonde_def\<close>)
    moreover have "bs ! p = take (64 * ?m) (drop (64 * k) (fst (out ! ?i)))" "length (bs ! p) = 64 * ?m" using blk bs(3) [OF p] by blast+
    ultimately show ?thesis unfolding pt by metis
  qed
  have dl: "length ?dat = 64 * (?n * ?m)"
  proof -
    have "?n * k + ?n * ?m \<le> ?n * s" using mult_le_mono2 [OF km(1), of ?n] by (simp add: distrib_left)
    then show ?thesis using assms(3) by simp
  qed
  have "usable l ?msk" using bs(2) by (simp add: usable_def)
  from decode_ok [OF assms(1,2) this assms(10) dl _ f, of buf compiled vregs]
  obtain l' where d: "ec_method_decode (Some b) compiled vregs l (512 * ?m) ?msk (mask_rows ?msk) bs (buf, 0) = Some (0, ?dat, l')"
    "cache_ok gf {} l' h" "same_setup l' l"
    using assms(11) dl by auto
  obtain i0 d0 where "(i0, d0) \<in> set ?ans" using a(3) n by (cases ?ans) auto
  then have r: "c_op_ret cbk = int (512 * ?m)" using blk a(5) by fastforce
  have "nat (int (512 * ?m)) = 512 * ?m" "of_int (int (512 * ?m)) = (of_nat (512 * ?m) :: u64)" "0 < int (512 * ?m)" using km(2) by auto
  then show ?thesis using bs(1) d(1) a(1) d(2,3) unfolding ec_readv_rebuild_def r a(3) by (auto simp: Let_def)
qed

lemma readv_decodes:
  assumes "reachable l h" "length dat = 64 * (l_columns l * s)"
    "\<And>i. i < l_rows l \<Longrightarrow> length (fst (out ! i)) = 64 * s \<and> fragment_ok (vandermonde (l_columns l) (gf_of (of_nat i + 1))) dat s (fst (out ! i))"
    "answers l out fop ia_size cbk" "unat (f_offset fop) = 512 * k" "unat (f_size fop) = 512 * m" "k < s" "0 < m"
    "l_heap l b = None" "length buf = 64 * (l_columns l * min m (s - k))"
  shows "\<exists>l'. ec_readv_rebuild (Some b) compiled vregs (Some buf) True ec fop cbk l =
    Some (0, Some (take (64 * (l_columns l * min m (s - k))) (drop (64 * (l_columns l * k)) dat), read_window ec fop (of_nat (512 * min m (s - k))) ia_size), l')"
proof -
  obtain gf where ok: "cache_ok gf {} l h" "encode_ok gf l" using reachable_ok [OF assms(1)] by blast
  have c: "l_columns l < 2 ^ 32" using ok(2) by (simp add: encode_ok_def)
  have f: "length (fst (out ! i)) = 64 * s \<and> fragment_ok (vandermonde (l_columns l) (gf_of (of_nat i + 1))) dat s (fst (out ! i))"
    if "i \<in> fst ` set (c_answers cbk)" for i using assms(3,4) that by (auto simp: answers_def)
  show ?thesis using readv_rebuilds [OF ok(1) c assms(2) f assms(4-10)] by blast
qed

lemma covers:
  fixes S :: nat
  assumes "0 < S"
  shows "v \<le> S * ((v + S - 1) div S)"
proof -
  obtain q r where v: "v div S = q" "v mod S = r" "v = S * q + r" "r < S" using assms by (metis mod_less_divisor mult_div_mod_eq)
  then show ?thesis unfolding up_div [OF assms] v(1,2) using v(3,4) by simp
qed

text \<open>The stripes a request asks for, and the window cut out of them.\<close>

lemma read_part:
  assumes "2 \<le> n" "n \<le> 65536" "unat offset + unat sz < 2 ^ 63" "fop = ec_manager_readv_init (ec_sizes (of_nat n)) offset sz"
    "unat offset < unat ia_size" "unat ia_size \<le> 512 * (n * s)" "512 * (n * s) < 2 ^ 63" "0 < sz"
  obtains k m where "unat (f_offset fop) = 512 * k" "unat (f_size fop) = 512 * m" "k < s" "0 < m"
    "unat (fst (read_window (ec_sizes (of_nat n)) fop (of_nat (512 * min m (s - k))) ia_size)) + 512 * (n * k) = unat offset"
    "unat (snd (read_window (ec_sizes (of_nat n)) fop (of_nat (512 * min m (s - k))) ia_size)) = min (unat sz) (unat ia_size - unat offset)"
    "min (unat ia_size) (unat offset + unat sz) \<le> 512 * (n * (k + min m (s - k)))"
proof -
  let ?S = "512 * n"
  have S: "0 < ?S" using assms(1) by simp
  define k m where "k = unat offset div ?S" and "m = (unat sz + unat offset mod ?S + ?S - 1) div ?S"
  let ?m = "min m (s - k)"
  note rq = read_request [OF assms(1-4)]
  have off: "unat offset = ?S * k + unat (f_head fop)" "unat (f_head fop) < ?S" using rq(2) S by (simp_all add: k_def)
  have "?S * k < ?S * s" using off(1) assms(5,6) by linarith
  then have ks: "k < s" using mult_less_cancel1 by blast
  have "0 < unat sz" using assms(8) by (simp add: word_less_nat_alt)
  moreover have sz: "unat sz + unat (f_head fop) \<le> ?S * m" unfolding m_def rq(2) by (rule covers [OF S])
  ultimately have m0: "0 < m" by (cases m) auto
  have km: "k + ?m \<le> s" "0 < ?m" using ks m0 by auto
  then have "?S * (k + ?m) \<le> ?S * s" using mult_le_mono2 by blast
  then have lt: "?S * (k + ?m) < 2 ^ 63" using assms(7) by linarith
  have "?m \<le> n * (k + ?m)" using assms(1) mult_le_mono [of 1 n ?m "k + ?m"] by simp
  then have "512 * ?m \<le> ?S * (k + ?m)" by (simp add: mult.assoc)
  then have "512 * ?m < 2 ^ 63" using lt by (rule le_less_trans)
  then have "512 * ?m < 2 ^ LENGTH(64)" by simp
  then have fs: "unat (of_nat (512 * ?m) :: u64) = 512 * ?m" by (simp only: unat_of_nat mod_less)
  have hm: "unat (f_head fop) \<le> ?S * ?m" using off(2) km(2) mult_le_mono2 [of 1 ?m ?S] by linarith
  have "?S * k + unat (f_head fop) \<le> unat ia_size" using off assms(5) by simp
  note w = window_unat [OF assms(2) rq(3) [folded k_def] hm fs lt this]
  have e: "min (unat ia_size) (unat offset + unat sz) \<le> ?S * (k + ?m)"
  proof (cases "m \<le> s - k")
    case True
    then have "?S * (k + ?m) = ?S * k + ?S * m" by (simp add: distrib_left)
    then show ?thesis using off(1) sz by linarith
  next
    case False
    then have "k + ?m = s" using ks by simp
    then show ?thesis using assms(6) by simp
  qed
  have "unat (snd (read_window (ec_sizes (of_nat n)) fop (of_nat (512 * ?m)) ia_size)) = min (unat sz) (unat ia_size - unat offset)"
    unfolding w(2) rq(1) off(1) [symmetric] using e by linarith
  moreover have "unat (fst (read_window (ec_sizes (of_nat n)) fop (of_nat (512 * ?m)) ia_size)) + 512 * (n * k) = unat offset"
    unfolding w(1) using off(1) by simp
  moreover have "unat (f_offset fop) = 512 * k" "unat (f_size fop) = 512 * m" using rq(3,4) by (simp_all add: k_def m_def)
  ultimately show ?thesis using that ks m0 e by (simp add: mult.assoc)
qed

lemma bytes_part:
  assumes "start + 8 * x = off" "off + len \<le> 8 * (x + y)" "x + y \<le> length ws"
  shows "take len (drop start (bytes (take y (drop x ws)))) = take len (drop off (bytes ws))"
proof -
  have "bytes (take y (drop x ws)) = take (8 * y) (drop (8 * x) (bytes ws))" using assms(3) by (simp add: bytes_take bytes_drop)
  moreover have "start + len \<le> 8 * y" using assms(1,2) by simp
  ultimately show ?thesis using assms(1) by (simp add: drop_take min_def add.commute)
qed

section \<open>A sample\<close>

abbreviation sample_data :: "u64 list" where
  "sample_data \<equiv> replicate 128 0x1122334455667788"

abbreviation sample_cbk :: "pointer list \<Rightarrow> u64 \<Rightarrow> read_cbk" where
  "sample_cbk out ia_size \<equiv>
     \<lparr> c_op_ret = 512, c_op_errno = 0, c_mask = 6, c_ia_size = ia_size, c_answers = [(2, fst (out ! 2)), (1, fst (out ! 1))] \<rparr>"

lemma sample_encoded:
  obtains l out where "reachable l []" "l_columns l = 2" "l_rows l = 3" "l_heap l = Map.empty"
    "ec_method_encode (\<lambda>_. 0) l 1024 sample_data (replicate 3 (replicate 64 0, 0)) = Some out"
    "\<And>i. i < 3 \<Longrightarrow> length (fst (out ! i)) = 64 * 1 \<and> fragment_ok (vandermonde 2 (gf_of (of_nat i + 1))) sample_data 1 (fst (out ! i))"
    "\<And>fop ia_size. unat (f_offset fop) = 512 * 0 \<Longrightarrow> unat (f_size fop) = 512 * 1 \<Longrightarrow> answers l out fop ia_size (sample_cbk out ia_size)"
proof -
  obtain gf l where l: "reachable l []" "cache_ok gf {} l []" "encode_ok gf l" "l_columns l = 2" "l_rows l = 3" "l_heap l = Map.empty" using sample_start by blast
  obtain out where out: "ec_method_encode (\<lambda>_. 0) l 1024 sample_data (replicate 3 (replicate 64 0, 0)) = Some out"
    "\<And>i. i < 3 \<Longrightarrow> length (fst (out ! i)) = 64 * 1 \<and> fragment_ok (vandermonde 2 (gf_of (of_nat i + 1))) sample_data 1 (fst (out ! i))"
    using encode_fragments [OF l(2,3), of sample_data 1 "replicate 3 (replicate 64 0)" "\<lambda>_. 0"] l(4,5) by (auto simp: map_replicate)
  have "bit (6 :: u64) i \<longleftrightarrow> i = 1 \<or> i = 2" for i
  proof -
    have e: "(6 :: u64) = 2 ^ 1 OR 2 ^ 2" by simp
    show ?thesis unfolding e bit_or_iff bit_exp_iff by auto
  qed
  moreover have "brick_read fop (fst (out ! i)) = fst (out ! i)" if "i < 3" "unat (f_offset fop) = 512 * 0" "unat (f_size fop) = 512 * 1" for fop i
    using brick_read_part [OF that(2,3), of "fst (out ! i)" 1] out(2) [OF that(1)] by simp
  ultimately have "answers l out fop ia_size (sample_cbk out ia_size)" if "unat (f_offset fop) = 512 * 0" "unat (f_size fop) = 512 * 1" for fop ia_size
    using that l(4,5) out(2) by (auto simp: answers_def)
  then show ?thesis using that l out by blast
qed

section \<open>Properties\<close>

text \<open>C1: what was written is read back.  Data is encoded into fragments, in a state of the list reached in any
  way; later, in another state reached in any way, a part of the file is read.  From the answers of any
  bricks of the needed number, in any order, \<open>ec_readv_rebuild\<close> gives the bytes from the offset on,
  as many as asked for or as there are up to the end of the file.\<close>

theorem read_returns_written:
  assumes "reachable l h" "reachable l2 h2" "same_setup l2 l" "l_columns l \<le> 65536" "length dat = 64 * (l_columns l * s)" "512 * (l_columns l * s) < 2 ^ 63"
    "length bufs = l_rows l" "\<forall>b \<in> set bufs. length b = 64 * s"
  shows "\<exists>out. ec_method_encode vregs l (512 * (l_columns l * s)) dat (map (\<lambda>b. (b, 0)) bufs) = Some out \<and>
    (\<forall>offset sz ia_size ec fop cbk a buf compiled.
       unat offset < unat ia_size \<and> unat ia_size \<le> 512 * (l_columns l * s) \<and> 0 < sz \<and> unat offset + unat sz < 2 ^ 63 \<and>
       ec = ec_sizes (of_nat (l_columns l)) \<and> fop = ec_manager_readv_init ec offset sz \<and> answers l2 out fop ia_size cbk \<and>
       l_heap l2 a = None \<and> 8 * length buf = nat (c_op_ret cbk) * l_columns l \<longrightarrow>
       (\<exists>buf' start len l'. ec_readv_rebuild (Some a) compiled vregs (Some buf) True ec fop cbk l2 = Some (0, Some (buf', start, len), l') \<and>
          take (unat len) (drop (unat start) (bytes buf')) = take (min (unat sz) (unat ia_size - unat offset)) (drop (unat offset) (bytes dat))))"
proof -
  let ?n = "l_columns l"
  obtain gf where ok: "cache_ok gf {} l h" "encode_ok gf l" "l_rows l \<le> 255" using reachable_ok [OF assms(1)] by blast
  have n: "2 \<le> ?n" using cache_okD(3) [OF ok(1)] .
  have same: "l_columns l2 = ?n" "l_rows l2 = l_rows l" using assms(3) by (simp_all add: same_setup_def)
  obtain out where out: "ec_method_encode vregs l (512 * (?n * s)) dat (map (\<lambda>b. (b, 0)) bufs) = Some out"
    "\<And>i. i < l_rows l \<Longrightarrow> length (fst (out ! i)) = 64 * s \<and> fragment_ok (vandermonde ?n (gf_of (of_nat i + 1))) dat s (fst (out ! i))"
    using encode_fragments [OF ok assms(5,7,8)] by blast
  have "\<exists>buf' start len l'. ec_readv_rebuild (Some a) compiled vregs (Some buf) True ec fop cbk l2 = Some (0, Some (buf', start, len), l') \<and>
      take (unat len) (drop (unat start) (bytes buf')) = take (min (unat sz) (unat ia_size - unat offset)) (drop (unat offset) (bytes dat))"
    if A: "unat offset < unat ia_size" "unat ia_size \<le> 512 * (?n * s)" "0 < sz" "unat offset + unat sz < 2 ^ 63" "ec = ec_sizes (of_nat ?n)"
      "fop = ec_manager_readv_init ec offset sz" "answers l2 out fop ia_size cbk" "l_heap l2 a = None" "8 * length buf = nat (c_op_ret cbk) * ?n"
    for offset sz ia_size ec fop cbk a buf compiled
  proof -
    obtain k m where km: "unat (f_offset fop) = 512 * k" "unat (f_size fop) = 512 * m" "k < s" "0 < m"
      "unat (fst (read_window ec fop (of_nat (512 * min m (s - k))) ia_size)) + 512 * (?n * k) = unat offset"
      "unat (snd (read_window ec fop (of_nat (512 * min m (s - k))) ia_size)) = min (unat sz) (unat ia_size - unat offset)"
      "min (unat ia_size) (unat offset + unat sz) \<le> 512 * (?n * (k + min m (s - k)))"
      using read_part [OF n assms(4) A(4) A(6) [unfolded A(5)] A(1,2) assms(6) A(3)] unfolding A(5) by metis
    let ?m = "min m (s - k)"
    have buf: "length buf = 64 * (?n * ?m)"
    proof -
      obtain i b where ib: "(i, b) \<in> set (c_answers cbk)" using A(7) n same by (cases "c_answers cbk") (auto simp: answers_def)
      then have i: "i < l_rows l" "b = brick_read fop (fst (out ! i))" "c_op_ret cbk = int (8 * length b)" using A(7) same by (auto simp: answers_def)
      have "length b = 64 * ?m" using brick_read_part [OF km(1,2) _ km(3)] out(2) [OF i(1)] km(3) by (simp add: i(2))
      then have "nat (c_op_ret cbk) = 512 * ?m" unfolding i(3) by simp
      then show ?thesis using A(9) by simp
    qed
    obtain l' where "ec_readv_rebuild (Some a) compiled vregs (Some buf) True ec fop cbk l2 =
        Some (0, Some (take (64 * (?n * ?m)) (drop (64 * (?n * k)) dat), read_window ec fop (of_nat (512 * ?m)) ia_size), l')"
      using readv_decodes [OF assms(2) _ _ A(7) km(1-4) A(8), of dat buf compiled vregs ec] assms(5) out(2) buf same by auto
    moreover have "take (min (unat sz) (unat ia_size - unat offset)) (drop (unat (fst (read_window ec fop (of_nat (512 * ?m)) ia_size)))
        (bytes (take (64 * (?n * ?m)) (drop (64 * (?n * k)) dat)))) = take (min (unat sz) (unat ia_size - unat offset)) (drop (unat offset) (bytes dat))"
    proof (rule bytes_part)
      have "?n * k + ?n * ?m \<le> ?n * s" using mult_le_mono2 [of "k + ?m" s ?n] km(3) by (simp add: distrib_left)
      then show "64 * (?n * k) + 64 * (?n * ?m) \<le> length dat" unfolding assms(5) by linarith
      have "512 * (?n * (k + ?m)) = 8 * (64 * (?n * k) + 64 * (?n * ?m))" by (simp add: distrib_left)
      then show "unat offset + min (unat sz) (unat ia_size - unat offset) \<le> 8 * (64 * (?n * k) + 64 * (?n * ?m))" using km(7) A(1) by linarith
    qed (use km(5) in simp)
    ultimately show ?thesis using km(6) by (metis prod.collapse)
  qed
  then show ?thesis using out(1) by blast
qed

theorem read_returns_written_witness:
  "\<exists>l out buf start len l'. ec_method_encode (\<lambda>_. 0) l 1024 sample_data (replicate 3 (replicate 64 0, 0)) = Some out \<and>
     ec_readv_rebuild (Some 0) (\<lambda>_. False) (\<lambda>_. 0) (Some (replicate 128 0)) True (ec_sizes 2) (ec_manager_readv_init (ec_sizes 2) 100 50)
       (sample_cbk out 700) l = Some (0, Some (buf, start, len), l') \<and>
     take (unat len) (drop (unat start) (bytes buf)) = take 50 (drop 100 (bytes sample_data))"
proof -
  obtain l out where l: "reachable l []" "l_columns l = 2" "l_rows l = 3" "l_heap l = Map.empty"
    "ec_method_encode (\<lambda>_. 0) l 1024 sample_data (replicate 3 (replicate 64 0, 0)) = Some out"
    "\<And>fop ia_size. unat (f_offset fop) = 512 * 0 \<Longrightarrow> unat (f_size fop) = 512 * 1 \<Longrightarrow> answers l out fop ia_size (sample_cbk out ia_size)"
    using sample_encoded by metis
  let ?fop = "ec_manager_readv_init (ec_sizes 2) 100 50"
  have "unat (f_offset ?fop) = 512 * 0" "unat (f_size ?fop) = 512 * 1" using read_request(3,4) [of 2 100 50 ?fop] by simp_all
  then have a: "answers l out ?fop 700 (sample_cbk out 700)" by (rule l(6))
  obtain out' where out: "ec_method_encode (\<lambda>_. 0) l (512 * (l_columns l * 1)) sample_data (map (\<lambda>b. (b, 0)) (replicate 3 (replicate 64 0))) = Some out'"
    "\<And>offset sz ia_size ec fop cbk a buf compiled.
       unat offset < unat ia_size \<and> unat ia_size \<le> 512 * (l_columns l * 1) \<and> 0 < sz \<and> unat offset + unat sz < 2 ^ 63 \<and>
       ec = ec_sizes (of_nat (l_columns l)) \<and> fop = ec_manager_readv_init ec offset sz \<and> answers l out' fop ia_size cbk \<and>
       l_heap l a = None \<and> 8 * length buf = nat (c_op_ret cbk) * l_columns l \<Longrightarrow>
       \<exists>buf' start len l'. ec_readv_rebuild (Some a) compiled (\<lambda>_. 0) (Some buf) True ec fop cbk l = Some (0, Some (buf', start, len), l') \<and>
          take (unat len) (drop (unat start) (bytes buf')) = take (min (unat sz) (unat ia_size - unat offset)) (drop (unat offset) (bytes sample_data))"
    using read_returns_written [OF l(1,1), of sample_data 1 "replicate 3 (replicate 64 0)" "\<lambda>_. 0"] l(2,3) by (auto simp: same_setup_def)
  have "out' = out" using out(1) l(2,5) by (simp add: map_replicate)
  then have "\<exists>buf' start len l'. ec_readv_rebuild (Some 0) (\<lambda>_. False) (\<lambda>_. 0) (Some (replicate 128 0)) True (ec_sizes 2) ?fop (sample_cbk out 700) l =
      Some (0, Some (buf', start, len), l') \<and>
      take (unat len) (drop (unat start) (bytes buf')) =
        take (min (unat (50 :: u64)) (unat (700 :: u64) - unat (100 :: u64))) (drop (unat (100 :: u64)) (bytes sample_data))"
    using l(2,4) a by (intro out(2)) simp
  then show ?thesis using l(5) by (intro exI [of _ l] exI [of _ out]) simp
qed

text \<open>C40: reading behind the end of a file returns data.  The file has 100 bytes in one stripe; 50 bytes from offset
  200 on are asked for.  In \<open>ec_readv_rebuild\<close> the subtraction of the offset from the size wraps, and the
  answer is 50 bytes of the padding of the stripe instead of none.\<close>

theorem read_past_end:
  "\<exists>l out buf l'. ec_method_encode (\<lambda>_. 0) l 1024 sample_data (replicate 3 (replicate 64 0, 0)) = Some out \<and>
     ec_readv_rebuild (Some 0) (\<lambda>_. False) (\<lambda>_. 0) (Some (replicate 128 0)) True (ec_sizes 2) (ec_manager_readv_init (ec_sizes 2) 200 50)
       (sample_cbk out 100) l = Some (0, Some (buf, 200, 50), l')"
proof -
  obtain l out where l: "reachable l []" "l_columns l = 2" "l_rows l = 3" "l_heap l = Map.empty"
    "ec_method_encode (\<lambda>_. 0) l 1024 sample_data (replicate 3 (replicate 64 0, 0)) = Some out"
    "\<And>i. i < 3 \<Longrightarrow> length (fst (out ! i)) = 64 * 1 \<and> fragment_ok (vandermonde 2 (gf_of (of_nat i + 1))) sample_data 1 (fst (out ! i))"
    "\<And>fop ia_size. unat (f_offset fop) = 512 * 0 \<Longrightarrow> unat (f_size fop) = 512 * 1 \<Longrightarrow> answers l out fop ia_size (sample_cbk out ia_size)"
    using sample_encoded by metis
  let ?fop = "ec_manager_readv_init (ec_sizes 2) 200 50"
  have f: "unat (f_offset ?fop) = 512 * 0" "unat (f_size ?fop) = 512 * 1" using read_request(3,4) [of 2 200 50 ?fop] by simp_all
  have w: "read_window (ec_sizes 2) ?fop 512 100 = (200, 50)" by code_simp
  obtain l' where "ec_readv_rebuild (Some 0) (\<lambda>_. False) (\<lambda>_. 0) (Some (replicate 128 0)) True (ec_sizes 2) ?fop (sample_cbk out 100) l =
      Some (0, Some (sample_data, read_window (ec_sizes 2) ?fop 512 100), l')"
    using readv_decodes [OF l(1) _ _ l(7) [OF f, of 100] f, of sample_data 1 0 "replicate 128 0" "\<lambda>_. False" "\<lambda>_. 0" "ec_sizes 2"] l(2-6) by auto
  then show ?thesis using l(5) w by (intro exI [of _ l] exI [of _ out]) auto
qed

end
