(* ===== verification/Ec_Write.thy ===== *)
theory Ec_Write
  imports Ec_Read
begin

text \<open>
  Writing to a file of a dispersed volume, \<open>xlators/cluster/ec/src/ec-inode-write.c\<close>: a write is
  extended to whole stripes, and what it does not cover of the first and the last stripe comes from
  the cache of stripes or is read from the bricks.  The cache is updated when the write is done
  (\<open>ec_update_cached_stripes\<close> of \<open>ec-common.c\<close>).

  The reads of the first and the last stripe, asynchronous calls of \<open>ec_readv\<close> in the code which the write
  waits for, are given as an argument, a function of a state that the reads may change.  The contents of memory that is not initialised
  and the allocations that fail are the fields of \<open>write_env\<close>.  A copy that leaves its buffer is None.
\<close>

section \<open>Memory\<close>

definition read_mem :: "nat \<Rightarrow> nat \<Rightarrow> u8 list \<Rightarrow> u8 list option" where
  "read_mem off n xs = (if off + n \<le> length xs then Some (take n (drop off xs)) else None)"

definition write_mem :: "nat \<Rightarrow> u8 list \<Rightarrow> u8 list \<Rightarrow> u8 list option" where
  "write_mem off src dst =
     (if off + length src \<le> length dst then Some (take off dst @ src @ drop (off + length src) dst) else None)"

text \<open>What \<open>ec_iov_copy_to\<close> copies: the outer loop looks for the vector the offset is in, the inner one copies.\<close>

fun iov_copy_rest :: "u8 list list \<Rightarrow> nat \<Rightarrow> nat \<Rightarrow> u8 list" where
  "iov_copy_rest [] off sz = []"
| "iov_copy_rest (v # vs) off sz =
     (if sz = 0 then []
      else let len = (if length v - off < sz then length v - off else sz)
           in take len (drop off v) @ iov_copy_rest vs 0 (sz - len))"

fun ec_iov_copy_to :: "u8 list list \<Rightarrow> nat \<Rightarrow> nat \<Rightarrow> u8 list" where
  "ec_iov_copy_to [] off sz = []"
| "ec_iov_copy_to (v # vs) off sz =
     (if off < length v then iov_copy_rest (v # vs) off sz else ec_iov_copy_to vs (off - length v) sz)"

section \<open>The write and the cache of stripes\<close>

record write_fop =
  w_vector :: "u8 list list"
  w_offset :: u64
  w_user_size :: u64
  w_head :: u64
  w_size :: u64
  w_first :: u64
  w_last :: u64
  w_buf :: "u8 list"

record ec_stripe =
  frag_offset :: u64
  s_data :: "u8 list"

record ec_stripe_list =
  sc_lru :: "ec_stripe list"
  sc_count :: u32
  sc_max :: u32

record write_env =
  e_fd :: bool
  e_buf :: "(nat \<Rightarrow> u8) option"
  e_iov :: bool
  e_out :: "(nat \<Rightarrow> u64) option"
  e_aligned :: bool
  e_xdata :: bool
  e_stripe :: "ec_stripe option"

definition ec_stripe_cache_init :: "u32 \<Rightarrow> ec_stripe_list \<Rightarrow> ec_stripe_list" where
  "ec_stripe_cache_init limit sc = (if sc_max sc = 0 then sc\<lparr> sc_max := limit \<rparr> else sc)"

text \<open>The place for a stripe is at the tail of the list, taken from its head when the cache is full;
  there is none without memory.\<close>

definition ec_allocate_stripe :: "ec_stripe option \<Rightarrow> ec_stripe_list \<Rightarrow> (bool \<times> ec_stripe_list) option" where
  "ec_allocate_stripe fresh sc =
     (if sc_max sc \<le> sc_count sc then
        (case sc_lru sc of [] \<Rightarrow> None | s # ss \<Rightarrow> Some (True, sc\<lparr> sc_lru := ss @ [s] \<rparr>))
      else case fresh of
             None \<Rightarrow> Some (False, sc)
           | Some s \<Rightarrow> Some (True, sc\<lparr> sc_count := sc_count sc + 1, sc_lru := sc_lru sc @ [s] \<rparr>))"

definition ec_write_stripe_data :: "ec \<Rightarrow> write_fop \<Rightarrow> ec_stripe \<Rightarrow> ec_stripe option" where
  "ec_write_stripe_data ec fop s =
     do {
       let base = w_size fop - stripe_size ec;
       d \<leftarrow> read_mem (unat base) (unat (stripe_size ec)) (w_buf fop);
       Some (s\<lparr> s_data := d, frag_offset := w_last fop - fragment_size ec \<rparr>)
     }"

definition ec_add_stripe_in_cache :: "ec \<Rightarrow> u32 \<Rightarrow> ec_stripe option \<Rightarrow> write_fop \<Rightarrow> ec_stripe_list \<Rightarrow> ec_stripe_list option" where
  "ec_add_stripe_in_cache ec limit fresh fop sc =
     (let sc = ec_stripe_cache_init limit sc
      in if 0 < sc_max sc then
           do {
             (found, sc) \<leftarrow> ec_allocate_stripe fresh sc;
             if found then
               do {
                 s \<leftarrow> ec_write_stripe_data ec fop (last (sc_lru sc));
                 Some (sc\<lparr> sc_lru := butlast (sc_lru sc) @ [s] \<rparr>)
               }
             else Some sc
           }
         else Some sc)"

section \<open>The answers of the reads\<close>

definition ec_writev_merge_tail ::
  "ec \<Rightarrow> u32 \<Rightarrow> ec_stripe option \<Rightarrow> int + u8 list list \<Rightarrow> write_fop \<Rightarrow> ec_stripe_list \<Rightarrow> (write_fop \<times> ec_stripe_list) option" where
  "ec_writev_merge_tail ec limit fresh ans fop sc =
     (case ans of
        Inl e \<Rightarrow> Some (fop, sc)
      | Inr vector \<Rightarrow>
          do {
            let op_ret = of_nat (length (concat vector));
            let sz = w_size fop - w_user_size fop - w_head fop;
            let base = stripe_size ec - sz;
            (sz, buf) \<leftarrow>
              (if base < op_ret then
                 do {
                   let tmp = min (op_ret - base) sz;
                   buf \<leftarrow> write_mem (unat (w_size fop - sz)) (ec_iov_copy_to vector (unat base) (unat tmp)) (w_buf fop);
                   Some (sz - tmp, buf)
                 }
               else Some (sz, w_buf fop));
            buf \<leftarrow> (if 0 < sz then write_mem (unat (w_size fop - sz)) (replicate (unat sz) 0) buf else Some buf);
            let fop = fop\<lparr> w_buf := buf \<rparr>;
            sc \<leftarrow> (if limit \<noteq> 0 then ec_add_stripe_in_cache ec limit fresh fop sc else Some sc);
            Some (fop, sc)
          })"

definition ec_writev_merge_head ::
  "ec \<Rightarrow> u32 \<Rightarrow> ec_stripe option \<Rightarrow> int + u8 list list \<Rightarrow> write_fop \<Rightarrow> ec_stripe_list \<Rightarrow> (write_fop \<times> ec_stripe_list) option" where
  "ec_writev_merge_head ec limit fresh ans fop sc =
     (case ans of
        Inl e \<Rightarrow> Some (fop, sc)
      | Inr vector \<Rightarrow>
          do {
            let op_ret = of_nat (length (concat vector));
            let sz = w_head fop;
            (base, sz, buf) \<leftarrow>
              (if 0 < op_ret then
                 do {
                   let base = min op_ret sz;
                   buf \<leftarrow> write_mem 0 (ec_iov_copy_to vector 0 (unat base)) (w_buf fop);
                   Some (base, sz - base, buf)
                 }
               else Some (0, sz, w_buf fop));
            buf \<leftarrow> (if 0 < sz then write_mem (unat base) (replicate (unat sz) 0) buf else Some buf);
            let fop = fop\<lparr> w_buf := buf \<rparr>;
            if 0 < w_size fop - w_user_size fop - w_head fop \<and> w_size fop = stripe_size ec
            then ec_writev_merge_tail ec limit fresh ans fop sc
            else Some (fop, sc)
          })"

section \<open>The buffers\<close>

text \<open>The answer and the write with its buffer; the memory of the fragments is checked here and used by the encoding.\<close>

definition ec_writev_prepare_buffers :: "write_env \<Rightarrow> ec \<Rightarrow> write_fop \<Rightarrow> (int \<times> write_fop) option" where
  "ec_writev_prepare_buffers env ec fop =
     (let user_size = of_nat (length (concat (w_vector fop)));
          (head, offset) = ec_adjust_offset_down ec (w_offset fop) False;
          first = offset div fragments ec;
          sz = snd (ec_adjust_size_up ec (user_size + head) False);
          fop = fop\<lparr> w_user_size := user_size, w_head := head, w_offset := offset, w_first := first, w_size := sz,
                     w_last := first + sz div fragments ec \<rparr>;
          more = (\<lambda>fop. if length (w_vector fop) \<noteq> 2 \<and> \<not> e_iov env then (- ENOMEM, fop)
                        else if e_out env = None then (- ENOMEM, fop) else (0, fop))
      in if length (w_vector fop) \<noteq> 1 \<or> head \<noteq> 0 \<or> user_size < sz \<or> \<not> e_aligned env then
           (case e_buf env of
              None \<Rightarrow> Some (- ENOMEM, fop)
            | Some f \<Rightarrow>
                do {
                  buf \<leftarrow> write_mem (unat head) (ec_iov_copy_to (w_vector fop) 0 (unat user_size)) (map f [0..<unat sz]);
                  Some (more (fop\<lparr> w_buf := buf \<rparr>))
                })
         else Some (more (fop\<lparr> w_buf := hd (w_vector fop) \<rparr>)))"

section \<open>Stripes from the cache\<close>

definition ec_merge_stripe_head_locked :: "ec \<Rightarrow> write_fop \<Rightarrow> ec_stripe \<Rightarrow> write_fop option" where
  "ec_merge_stripe_head_locked ec fop s =
     do {
       let head = w_head fop;
       d \<leftarrow> read_mem 0 (unat head) (s_data s);
       buf \<leftarrow> write_mem 0 d (w_buf fop);
       let sz = stripe_size ec - head;
       if w_user_size fop < sz then
         do {
           let head = head + w_user_size fop;
           let sz = stripe_size ec - head;
           d \<leftarrow> read_mem (unat head) (unat sz) (s_data s);
           buf \<leftarrow> write_mem (unat head) d buf;
           Some (fop\<lparr> w_buf := buf \<rparr>)
         }
       else Some (fop\<lparr> w_buf := buf \<rparr>)
     }"

definition ec_merge_stripe_tail_locked :: "ec \<Rightarrow> write_fop \<Rightarrow> ec_stripe \<Rightarrow> write_fop option" where
  "ec_merge_stripe_tail_locked ec fop s =
     do {
       let offset = w_user_size fop + w_head fop;
       let tail = w_size fop - offset;
       let head = stripe_size ec - tail;
       d \<leftarrow> read_mem (unat head) (unat tail) (s_data s);
       buf \<leftarrow> write_mem (unat offset) d (w_buf fop);
       Some (fop\<lparr> w_buf := buf \<rparr>)
     }"

definition ec_get_stripe_from_cache_locked :: "u32 \<Rightarrow> u64 \<Rightarrow> ec_stripe_list \<Rightarrow> ec_stripe option \<times> ec_stripe_list" where
  "ec_get_stripe_from_cache_locked limit offset sc =
     (let sc = ec_stripe_cache_init limit sc
      in case find (\<lambda>s. frag_offset s = offset) (sc_lru sc) of
           None \<Rightarrow> (None, sc)
         | Some s \<Rightarrow> (Some s, sc\<lparr> sc_lru := remove1 s (sc_lru sc) @ [s] \<rparr>))"

datatype ec_stripe_part = EC_STRIPE_HEAD | EC_STRIPE_TAIL

definition ec_get_and_merge_stripe ::
  "ec \<Rightarrow> u32 \<Rightarrow> ec_stripe_part \<Rightarrow> write_fop \<Rightarrow> ec_stripe_list \<Rightarrow> (bool \<times> write_fop \<times> ec_stripe_list) option" where
  "ec_get_and_merge_stripe ec limit which fop sc =
     (if limit = 0 then Some (False, fop, sc)
      else
        let offset = (case which of EC_STRIPE_HEAD \<Rightarrow> w_first fop | EC_STRIPE_TAIL \<Rightarrow> w_last fop - fragment_size ec);
            (found, sc) = ec_get_stripe_from_cache_locked limit offset sc
        in case found of
             None \<Rightarrow> Some (False, fop, sc)
           | Some s \<Rightarrow>
               do {
                 fop \<leftarrow> (case which of
                           EC_STRIPE_HEAD \<Rightarrow> ec_merge_stripe_head_locked ec fop s
                         | EC_STRIPE_TAIL \<Rightarrow> ec_merge_stripe_tail_locked ec fop s);
                 Some (True, fop, sc)
               })"

section \<open>The start of a write\<close>

type_synonym 'v stripe_read = "'v \<Rightarrow> u64 \<Rightarrow> u64 \<Rightarrow> ((int + u8 list list) \<times> 'v) option"

text \<open>The first and the last stripe: whether the start ends here, the error, and the states.\<close>

definition writev_head ::
  "'v stripe_read \<Rightarrow> write_env \<Rightarrow> ec \<Rightarrow> u32 \<Rightarrow> write_fop \<Rightarrow> ec_stripe_list \<Rightarrow> 'v \<Rightarrow> (bool \<times> int \<times> write_fop \<times> ec_stripe_list \<times> 'v) option" where
  "writev_head rd env ec limit fop sc v =
     (if w_head fop = 0 then Some (False, 0, fop, sc, v)
      else
        do {
          (found, fop, sc) \<leftarrow> ec_get_and_merge_stripe ec limit EC_STRIPE_HEAD fop sc;
          if found then Some (False, 0, fop, sc, v)
          else if \<not> e_xdata env then Some (True, ENOMEM, fop, sc, v)
          else
            do {
              (ans, v) \<leftarrow> rd v (w_offset fop) (stripe_size ec);
              (fop, sc) \<leftarrow> ec_writev_merge_head ec limit (e_stripe env) ans fop sc;
              Some (False, case ans of Inl e \<Rightarrow> e | Inr _ \<Rightarrow> 0, fop, sc, v)
            }
        })"

definition writev_tail ::
  "'v stripe_read \<Rightarrow> write_env \<Rightarrow> ec \<Rightarrow> u32 \<Rightarrow> u64 \<Rightarrow> write_fop \<Rightarrow> ec_stripe_list \<Rightarrow> 'v \<Rightarrow> (int \<times> write_fop \<times> ec_stripe_list \<times> 'v) option" where
  "writev_tail rd env ec limit current fop sc v =
     (let tail = w_size fop - w_user_size fop - w_head fop
      in if 0 < tail \<and> (w_head fop = 0 \<or> stripe_size ec < w_size fop) then
           if w_offset fop + w_head fop + w_user_size fop < current then
             do {
               (found, fop, sc) \<leftarrow> ec_get_and_merge_stripe ec limit EC_STRIPE_TAIL fop sc;
               if found then Some (0, fop, sc, v)
               else if \<not> e_xdata env then Some (ENOMEM, fop, sc, v)
               else
                 do {
                   (ans, v) \<leftarrow> rd v (w_offset fop + w_size fop - stripe_size ec) (stripe_size ec);
                   (fop, sc) \<leftarrow> ec_writev_merge_tail ec limit (e_stripe env) ans fop sc;
                   Some (case ans of Inl e \<Rightarrow> e | Inr _ \<Rightarrow> 0, fop, sc, v)
                 }
             }
           else
             do {
               buf \<leftarrow> write_mem (unat (w_size fop - tail)) (replicate (unat tail) 0) (w_buf fop);
               let fop = fop\<lparr> w_buf := buf \<rparr>;
               sc \<leftarrow> (if limit \<noteq> 0 then ec_add_stripe_in_cache ec limit (e_stripe env) fop sc else Some sc);
               Some (0, fop, sc, v)
             }
         else Some (0, fop, sc, v))"

definition ec_writev_start ::
  "'v stripe_read \<Rightarrow> write_env \<Rightarrow> ec \<Rightarrow> u32 \<Rightarrow> bool \<Rightarrow> u64 \<Rightarrow> write_fop \<Rightarrow> ec_stripe_list \<Rightarrow> 'v \<Rightarrow> (int \<times> write_fop \<times> ec_stripe_list \<times> 'v) option" where
  "ec_writev_start rd env ec limit appending current fop sc v =
     (if \<not> e_fd env then Some (ENOMEM, fop, sc, v)
      else
        do {
          let fop = (if appending then fop\<lparr> w_offset := current \<rparr> else fop);
          (err, fop) \<leftarrow> ec_writev_prepare_buffers env ec fop;
          if err \<noteq> 0 then Some (- err, fop, sc, v)
          else
            do {
              (stop, e1, fop, sc, v) \<leftarrow> writev_head rd env ec limit fop sc v;
              if stop then Some (e1, fop, sc, v)
              else
                do {
                  (e2, fop, sc, v) \<leftarrow> writev_tail rd env ec limit current fop sc v;
                  Some (if e1 \<noteq> 0 then e1 else e2, fop, sc, v)
                }
            }
        })"

section \<open>The end of a write\<close>

text \<open>What is answered, and the size of the file, which an internal write leaves alone.\<close>

definition writev_answer :: "ec \<Rightarrow> bool \<Rightarrow> write_fop \<Rightarrow> u64 \<Rightarrow> int \<Rightarrow> int \<times> u64" where
  "writev_answer ec internal fop ia_size op_ret =
     (let sz = w_offset fop + w_head fop + w_user_size fop;
          ia_size = (if ia_size < sz \<and> \<not> internal then sz else ia_size);
          op_ret = op_ret * uint (fragments ec);
          op_ret = (if op_ret < uint (w_head fop) then 0 else op_ret - uint (w_head fop));
          op_ret = (if uint (w_user_size fop) < op_ret then uint (w_user_size fop) else op_ret)
      in (op_ret, ia_size))"

text \<open>A stripe in the range of an operation, after a write that succeeded (with its buffer and what it
  answered) or after anything else, and where it goes in the list.\<close>

datatype stripe_place = Tail | Same | Head

definition ec_update_stripe :: "ec \<Rightarrow> (write_fop \<times> int) option \<Rightarrow> u64 \<Rightarrow> ec_stripe \<Rightarrow> (ec_stripe \<times> stripe_place) option" where
  "ec_update_stripe ec written first s =
     (case written of
        Some (fop, op_ret) \<Rightarrow>
          let base = (frag_offset s - first) * fragments ec
          in if uint base < op_ret + uint (w_head fop) then
               do {
                 d \<leftarrow> read_mem (unat base) (unat (stripe_size ec)) (w_buf fop);
                 Some (s\<lparr> s_data := d \<rparr>, Tail)
               }
             else Some (s, Same)
      | None \<Rightarrow> Some (s\<lparr> frag_offset := - 1 \<rparr>, Head))"

text \<open>The loop to the sentinel: what has been moved to the head, what stays, and what has been moved
  behind the sentinel.\<close>

fun update_loop ::
  "ec \<Rightarrow> (write_fop \<times> int) option \<Rightarrow> u64 \<Rightarrow> u64 \<Rightarrow> ec_stripe list \<Rightarrow> ec_stripe list \<Rightarrow> ec_stripe list \<Rightarrow> ec_stripe list \<Rightarrow> ec_stripe list option" where
  "update_loop ec written first lst [] front mid back = Some (front @ mid @ back)"
| "update_loop ec written first lst (s # ss) front mid back =
     (if first \<le> frag_offset s \<and> frag_offset s < lst then
        do {
          (s, place) \<leftarrow> ec_update_stripe ec written first s;
          case place of
            Tail \<Rightarrow> update_loop ec written first lst ss front mid (back @ [s])
          | Same \<Rightarrow> update_loop ec written first lst ss front (mid @ [s]) back
          | Head \<Rightarrow> update_loop ec written first lst ss (s # front) mid back
        }
      else update_loop ec written first lst ss front (mid @ [s]) back)"

definition ec_update_cached_stripes :: "ec \<Rightarrow> u32 \<Rightarrow> (write_fop \<times> int) option \<Rightarrow> u64 \<Rightarrow> u64 \<Rightarrow> ec_stripe_list \<Rightarrow> ec_stripe_list option" where
  "ec_update_cached_stripes ec limit written first lst sc =
     (if lst \<le> first then Some sc
      else
        do {
          let sc = ec_stripe_cache_init limit sc;
          lru \<leftarrow> update_loop ec written first lst (sc_lru sc) [] [] [];
          Some (sc\<lparr> sc_lru := lru \<rparr>)
        })"

definition ec_release_stripe_cache :: "ec_stripe_list \<Rightarrow> ec_stripe_list" where
  "ec_release_stripe_cache sc = sc\<lparr> sc_lru := [], sc_count := 0, sc_max := 0 \<rparr>"

section \<open>Copies\<close>

lemma iov_copy_rest_all: "iov_copy_rest vs 0 sz = take sz (concat vs)"
  by (induction vs arbitrary: sz) (auto simp: Let_def)

lemma iov_copy [simp]: "ec_iov_copy_to vs off sz = take sz (drop off (concat vs))"
proof (induction vs arbitrary: off)
  case (Cons v vs)
  show ?case
  proof (cases "off < length v")
    case True
    then show ?thesis by (auto simp: Let_def iov_copy_rest_all)
  next
    case False
    then show ?thesis using Cons.IH by simp
  qed
qed simp

lemma write_mem_ok:
  assumes "off + length src \<le> length dst"
  obtains dst' where "write_mem off src dst = Some dst'" "length dst' = length dst"
    "\<And>i. i < length dst \<Longrightarrow> dst' ! i = (if off \<le> i \<and> i < off + length src then src ! (i - off) else dst ! i)"
proof
  show "write_mem off src dst = Some (take off dst @ src @ drop (off + length src) dst)" using assms by (simp add: write_mem_def)
  show "length (take off dst @ src @ drop (off + length src) dst) = length dst" using assms by simp
  show "(take off dst @ src @ drop (off + length src) dst) ! i = (if off \<le> i \<and> i < off + length src then src ! (i - off) else dst ! i)"
    if "i < length dst" for i using assms that by (auto simp: nth_append)
qed

section \<open>Contents of files\<close>

definition byte_at :: "u8 list \<Rightarrow> nat \<Rightarrow> u8" where
  "byte_at F i = (if i < length F then F ! i else 0)"

text \<open>What a write and a truncation make of a file.\<close>

definition file_write :: "nat \<Rightarrow> u8 list \<Rightarrow> u8 list \<Rightarrow> u8 list" where
  "file_write off d F = take off (F @ replicate (off - length F) 0) @ d @ drop (off + length d) F"

definition file_truncate :: "nat \<Rightarrow> u8 list \<Rightarrow> u8 list" where
  "file_truncate n F = take n F @ replicate (n - length F) 0"

lemma length_file_write [simp]: "length (file_write off d F) = max (length F) (off + length d)"
  by (auto simp: file_write_def)

lemma length_file_truncate [simp]: "length (file_truncate n F) = n"
  by (auto simp: file_truncate_def)

lemma byte_at_write: "byte_at (file_write off d F) i = (if off \<le> i \<and> i < off + length d then d ! (i - off) else byte_at F i)"
proof -
  have "min (length F) off + (off - length F) = off" by simp
  then show ?thesis by (auto simp: byte_at_def file_write_def nth_append)
qed

lemma byte_at_truncate: "byte_at (file_truncate n F) i = (if i < n then byte_at F i else 0)"
  by (auto simp: byte_at_def file_truncate_def nth_append)

section \<open>The stripes of a write\<close>

text \<open>The number of stripes a write of \<open>n\<close> bytes touches.\<close>

definition covered :: "nat \<Rightarrow> nat \<Rightarrow> nat \<Rightarrow> nat" where
  "covered N off n = (n + off mod (512 * N) + 512 * N - 1) div (512 * N)"

lemma covered_bounds:
  assumes "0 < N" "0 < n"
  shows "off mod (512 * N) + n \<le> 512 * N * covered N off n" "512 * N * covered N off n < off mod (512 * N) + n + 512 * N" "0 < covered N off n"
proof -
  define S where "S = 512 * N"
  have S: "0 < S" using assms(1) by (simp add: S_def)
  define x where "x = n + off mod S + S - 1"
  have c: "covered N off n = x div S" by (simp add: covered_def x_def S_def)
  have x: "x = S * (x div S) + x mod S" "x mod S < S" using S by simp_all
  have "off mod S + n \<le> S * (x div S)" "S * (x div S) < off mod S + n + S" using x assms(2) S unfolding x_def by linarith+
  moreover from this have "0 < x div S" using assms(2) by (cases "x div S") auto
  ultimately show "off mod (512 * N) + n \<le> 512 * N * covered N off n" "512 * N * covered N off n < off mod (512 * N) + n + 512 * N" "0 < covered N off n"
    unfolding c S_def by simp_all
qed

lemma size_up_unscaled:
  assumes "0 < N" "N \<le> 65536" "unat v + 512 * N < 2 ^ 64"
  shows "unat (snd (ec_adjust_size_up (ec_sizes (of_nat N)) v False)) = 512 * N * ((unat v + 512 * N - 1) div (512 * N))"
proof -
  note f = unat_fragments [OF assms(2)] and d = adjust_down [OF assms(1,2), of v]
  obtain tail tmp where t: "ec_adjust_size_down (ec_sizes (of_nat N)) v False = (tail, tmp)" by fastforce
  have z: "tail = 0 \<longleftrightarrow> unat v mod (512 * N) = 0" using d(1) [of False] t unat_eq_zero [of tail] by simp
  have tmp: "unat tmp = 512 * N * (unat v div (512 * N))" using d(3) t by simp
  have "unat tmp \<le> unat v" unfolding tmp by (metis le_add1 mult_div_mod_eq)
  then have p: "unat (tmp + 512 * of_nat N) = unat tmp + 512 * N" using assms(3) f by (simp add: unat_plus_if_size word_size)
  then have "\<not> tmp + 512 * of_nat N < 512 * of_nat N" by (simp add: word_less_nat_alt f)
  then show ?thesis using t tmp z p up_div [of "512 * N" "unat v"] assms(1)
    by (auto simp: ec_adjust_size_up_def Let_def ec_sizes_def)
qed

text \<open>A write of \<open>d\<close> at \<open>off\<close> whose buffer is made: the stripes it touches, with \<open>d\<close> in its place.\<close>

definition prepared :: "nat \<Rightarrow> nat \<Rightarrow> u8 list \<Rightarrow> write_fop \<Rightarrow> bool" where
  "prepared N off d fop \<longleftrightarrow>
     unat (w_offset fop) = 512 * N * (off div (512 * N)) \<and> unat (w_head fop) = off mod (512 * N) \<and> unat (w_user_size fop) = length d \<and>
     unat (w_size fop) = 512 * N * covered N off (length d) \<and> unat (w_first fop) = 512 * (off div (512 * N)) \<and>
     unat (w_last fop) = 512 * (off div (512 * N) + covered N off (length d)) \<and> length (w_buf fop) = 512 * N * covered N off (length d) \<and>
     (\<forall>i < length d. w_buf fop ! (off mod (512 * N) + i) = d ! i)"

lemma preparedD:
  assumes "prepared N off d fop"
  shows "unat (w_offset fop) = 512 * N * (off div (512 * N))" "unat (w_head fop) = off mod (512 * N)" "unat (w_user_size fop) = length d"
    "unat (w_size fop) = 512 * N * covered N off (length d)" "unat (w_first fop) = 512 * (off div (512 * N))"
    "unat (w_last fop) = 512 * (off div (512 * N) + covered N off (length d))" "length (w_buf fop) = 512 * N * covered N off (length d)"
    "\<And>i. i < length d \<Longrightarrow> w_buf fop ! (off mod (512 * N) + i) = d ! i"
  using assms by (simp_all add: prepared_def)

lemma prepared_buf:
  assumes "prepared N off d fop" "length buf = length (w_buf fop)" "\<And>i. i < length d \<Longrightarrow> buf ! (off mod (512 * N) + i) = w_buf fop ! (off mod (512 * N) + i)"
  shows "prepared N off d (fop\<lparr> w_buf := buf \<rparr>)"
  using assms by (simp add: prepared_def)

lemma write_range:
  assumes "2 \<le> N" "N \<le> 65536" "unat (w_offset fop) = off" "off + length d + 512 * N < 2 ^ 63" "0 < length d"
    "ec_adjust_offset_down (ec_sizes (of_nat N)) (w_offset fop) False = (head, offset)"
    "sz = snd (ec_adjust_size_up (ec_sizes (of_nat N)) (of_nat (length d) + head) False)"
  shows "unat offset = 512 * N * (off div (512 * N))" "unat head = off mod (512 * N)" "unat (of_nat (length d) :: u64) = length d"
    "unat sz = 512 * N * covered N off (length d)" "unat (offset div of_nat N) = 512 * (off div (512 * N))"
    "unat (offset div of_nat N + sz div of_nat N) = 512 * (off div (512 * N) + covered N off (length d))"
proof -
  have N: "0 < N" using assms(1) by simp
  note d = adjust_down [OF N assms(2), of "w_offset fop", unfolded assms(3)]
  show h: "unat head = off mod (512 * N)" and o: "unat offset = 512 * N * (off div (512 * N))"
    using d(1) [of False] d(3) assms(6) by (simp_all add: offset_down)
  have "length d < 2 ^ LENGTH(64)" using assms(4) by simp
  then show u: "unat (of_nat (length d) :: u64) = length d" by (simp only: unat_of_nat mod_less)
  have ml: "off mod (512 * N) \<le> off" and pw: "(2 :: nat) ^ 63 < 2 ^ 64" by simp_all
  then have lt: "length d + off mod (512 * N) + 512 * N < 2 ^ 64" using assms(4) by linarith
  then have s: "unat (of_nat (length d) + head) = length d + off mod (512 * N)" using u h by (simp add: unat_plus_if_size word_size)
  then have "unat (of_nat (length d) + head) + 512 * N < 2 ^ 64" using lt by simp
  then show z: "unat sz = 512 * N * covered N off (length d)"
    unfolding assms(7) covered_def using size_up_unscaled [OF N assms(2)] s by simp
  have v: "512 * N * x div N = 512 * x" for x using N by (simp add: mult.commute mult.left_commute)
  show o': "unat (offset div of_nat N) = 512 * (off div (512 * N))" by (simp add: unat_div unat_fragments [OF assms(2)] o v)
  have z': "unat (sz div of_nat N) = 512 * covered N off (length d)" by (simp add: unat_div unat_fragments [OF assms(2)] z v)
  have "512 * N * (off div (512 * N)) + off mod (512 * N) = off" by (rule mult_div_mod_eq)
  then have "512 * N * (off div (512 * N)) + 512 * N * covered N off (length d) < 2 ^ 64"
    using covered_bounds(2) [OF N assms(5), of off] assms(4) pw by linarith
  then have a: "512 * N * (off div (512 * N) + covered N off (length d)) < 2 ^ 64" by (simp only: distrib_left)
  have b: "512 * (off div (512 * N) + covered N off (length d)) \<le> 512 * N * (off div (512 * N) + covered N off (length d))" using N by (intro mult_le_mono) auto
  have "512 * (off div (512 * N) + covered N off (length d)) < 2 ^ 64" by (rule le_less_trans [OF b a])
  then show "unat (offset div of_nat N + sz div of_nat N) = 512 * (off div (512 * N) + covered N off (length d))"
    using o' z' by (simp add: unat_plus_if_size word_size)
qed

lemma prepare_ok:
  assumes "2 \<le> N" "N \<le> 65536" "unat (w_offset fop) = off" "d = concat (w_vector fop)" "off + length d + 512 * N < 2 ^ 63" "0 < length d"
  obtains e fop' where "ec_writev_prepare_buffers env (ec_sizes (of_nat N)) fop = Some (e, fop')"
    "e = 0 \<Longrightarrow> prepared N off d fop' \<and> e_out env \<noteq> None" "e \<noteq> 0 \<Longrightarrow> e = - ENOMEM"
    "e_buf env \<noteq> None \<Longrightarrow> e_iov env \<Longrightarrow> e_out env \<noteq> None \<Longrightarrow> e = 0"
proof -
  let ?us = "of_nat (length d) :: u64"
  obtain head offset where ho: "ec_adjust_offset_down (ec_sizes (of_nat N)) (w_offset fop) False = (head, offset)" by fastforce
  define sz where "sz = snd (ec_adjust_size_up (ec_sizes (of_nat N)) (?us + head) False)"
  have fr: "fragments (ec_sizes (of_nat N)) = of_nat N" by (simp add: ec_sizes_def)
  note w = write_range [OF assms(1,2,3,5,6) ho sz_def]
  define f1 where "f1 = fop\<lparr> w_user_size := ?us, w_head := head, w_offset := offset, w_first := offset div of_nat N, w_size := sz,
    w_last := offset div of_nat N + sz div of_nat N \<rparr>"
  define more where "more = (\<lambda>fop :: write_fop. if length (w_vector fop) \<noteq> 2 \<and> \<not> e_iov env then (- ENOMEM, fop)
    else if e_out env = None then (- ENOMEM, fop) else (0, fop))"
  have pr: "prepared N off d (f1\<lparr> w_buf := buf \<rparr>)"
    if "length buf = 512 * N * covered N off (length d)" "\<And>i. i < length d \<Longrightarrow> buf ! (off mod (512 * N) + i) = d ! i" for buf
    using that w by (simp add: prepared_def f1_def)
  have N: "0 < N" using assms(1) by simp
  note cb = covered_bounds [OF N assms(6), of off]
  have sel: "w_vector f1 = w_vector fop" by (simp add: f1_def)
  have p: "ec_writev_prepare_buffers env (ec_sizes (of_nat N)) fop =
      (if length (w_vector fop) \<noteq> 1 \<or> head \<noteq> 0 \<or> ?us < sz \<or> \<not> e_aligned env then
         case e_buf env of None \<Rightarrow> Some (- ENOMEM, f1)
         | Some f \<Rightarrow> Option.bind (write_mem (unat head) d (map f [0..<unat sz])) (\<lambda>buf. Some (more (f1\<lparr> w_buf := buf \<rparr>)))
       else Some (more (f1\<lparr> w_buf := hd (w_vector fop) \<rparr>)))"
    by (simp only: ec_writev_prepare_buffers_def Let_def assms(4) [symmetric] ho split_conv sz_def [symmetric] fr f1_def [symmetric] sel iov_copy w(3)
      drop_0 take_all [OF le_refl] more_def)
  note result = that
  have fin: ?thesis if "prepared N off d (f1\<lparr> w_buf := buf \<rparr>)" "ec_writev_prepare_buffers env (ec_sizes (of_nat N)) fop = Some (more (f1\<lparr> w_buf := buf \<rparr>))" for buf
  proof (rule result)
    show "ec_writev_prepare_buffers env (ec_sizes (of_nat N)) fop = Some (fst (more (f1\<lparr> w_buf := buf \<rparr>)), snd (more (f1\<lparr> w_buf := buf \<rparr>)))" using that(2) by simp
  qed (use that(1) in \<open>auto simp: more_def split: if_splits\<close>)
  show ?thesis
  proof (cases "length (w_vector fop) \<noteq> 1 \<or> head \<noteq> 0 \<or> ?us < sz \<or> \<not> e_aligned env")
    case True
    note p = p [unfolded if_P [OF True]]
    show ?thesis
    proof (cases "e_buf env")
      case None
      show ?thesis by (rule that [of "- ENOMEM" f1]) (use p None in simp_all)
    next
      case (Some f)
      obtain buf where b: "write_mem (unat head) d (map f [0..<unat sz]) = Some buf" "length buf = unat sz"
        "\<And>i. i < unat sz \<Longrightarrow> buf ! i = (if unat head \<le> i \<and> i < unat head + length d then d ! (i - unat head) else map f [0..<unat sz] ! i)"
        using write_mem_ok [of "unat head" d "map f [0..<unat sz]"] w(2,4) cb(1) by auto
      have "prepared N off d (f1\<lparr> w_buf := buf \<rparr>)" by (rule pr) (use b w(2,4) cb(1) in simp_all)
      then show ?thesis by (rule fin) (simp add: p Some b(1))
    qed
  next
    case False
    then have v: "w_vector fop = [d]" using assms(4) by (cases "w_vector fop") auto
    have "\<not> ?us < sz" "head = 0" using False by auto
    then have e: "off mod (512 * N) = 0" "length d = 512 * N * covered N off (length d)" using w(2,3,4) cb(1) by (auto simp: word_less_nat_alt)
    have "prepared N off d (f1\<lparr> w_buf := d \<rparr>)" by (rule pr) (use e in simp_all)
    then show ?thesis by (rule fin) (simp only: p [unfolded if_not_P [OF False]] v list.sel)
  qed
qed

section \<open>The cache of stripes\<close>

text \<open>The stripes in the cache are those of the file, except for stripes of a set \<open>R\<close>.\<close>

definition right_stripe :: "nat \<Rightarrow> u8 list \<Rightarrow> nat \<Rightarrow> ec_stripe \<Rightarrow> bool" where
  "right_stripe N F k s \<longleftrightarrow> length (s_data s) = 512 * N \<and> (\<forall>i < 512 * N. s_data s ! i = byte_at F (512 * N * k + i))"

definition stripe_ok :: "nat \<Rightarrow> u8 list \<Rightarrow> nat set \<Rightarrow> ec_stripe \<Rightarrow> bool" where
  "stripe_ok N F R s \<longleftrightarrow> frag_offset s = - 1 \<or> (\<exists>k. unat (frag_offset s) = 512 * k \<and> (k \<in> R \<or> right_stripe N F k s))"

definition stripes_ok :: "nat \<Rightarrow> u8 list \<Rightarrow> nat set \<Rightarrow> ec_stripe_list \<Rightarrow> bool" where
  "stripes_ok N F R sc \<longleftrightarrow> unat (sc_count sc) = length (sc_lru sc) \<and> sc_count sc \<le> sc_max sc \<and> (\<forall>s \<in> set (sc_lru sc). stripe_ok N F R s)"

lemma stripe_ok_mono: "stripe_ok N F R s \<Longrightarrow> R \<subseteq> R' \<Longrightarrow> stripe_ok N F R' s"
  by (auto simp: stripe_ok_def)

lemma stripes_ok_mono: "stripes_ok N F R sc \<Longrightarrow> R \<subseteq> R' \<Longrightarrow> stripes_ok N F R' sc"
  by (auto simp: stripes_ok_def intro: stripe_ok_mono)

lemma cache_init_ok: "stripes_ok N F R sc \<Longrightarrow> stripes_ok N F R (ec_stripe_cache_init limit sc)"
  by (auto simp: ec_stripe_cache_init_def stripes_ok_def)

lemma release_ok: "stripes_ok N F R (ec_release_stripe_cache sc)"
  by (simp add: ec_release_stripe_cache_def stripes_ok_def)

text \<open>A place is found, except where there is no memory.\<close>

lemma allocate_ok:
  assumes "stripes_ok N F R sc" "0 < sc_max sc"
  obtains found sc' where "ec_allocate_stripe fresh sc = Some (found, sc')" "unat (sc_count sc') = length (sc_lru sc')" "sc_count sc' \<le> sc_max sc'"
    "\<not> found \<Longrightarrow> sc' = sc" "found \<Longrightarrow> sc_lru sc' \<noteq> []" "found \<Longrightarrow> \<forall>s \<in> set (butlast (sc_lru sc')). stripe_ok N F R s"
proof (cases "sc_max sc \<le> sc_count sc")
  case True
  then have "sc_count sc = sc_max sc" using assms(1) by (auto simp: stripes_ok_def)
  then have "sc_lru sc \<noteq> []" using assms by (auto simp: stripes_ok_def word_less_nat_alt)
  then obtain s ss where "sc_lru sc = s # ss" by (cases "sc_lru sc") auto
  then show ?thesis using that [of True "sc\<lparr> sc_lru := ss @ [s] \<rparr>"] True assms(1) by (auto simp: ec_allocate_stripe_def stripes_ok_def)
next
  case False
  show ?thesis
  proof (cases fresh)
    case None
    then show ?thesis using that [of False sc] False assms(1) by (auto simp: ec_allocate_stripe_def stripes_ok_def)
  next
    case (Some s)
    have "unat (sc_count sc) < unat (sc_max sc)" "unat (sc_max sc) < 2 ^ 32" using False unsigned_less [of "sc_max sc", where ?'a = nat]
      by (simp_all add: word_le_nat_alt)
    then have "unat (sc_count sc + 1) = unat (sc_count sc) + 1" "sc_count sc + 1 \<le> sc_max sc"
      by (simp_all add: unat_plus_if_size word_size word_le_nat_alt)
    then show ?thesis using that [of True "sc\<lparr> sc_count := sc_count sc + 1, sc_lru := sc_lru sc @ [s] \<rparr>"] False Some assms(1)
      by (auto simp: ec_allocate_stripe_def stripes_ok_def)
  qed
qed

lemma sizes [simp]: "stripe_size (ec_sizes n) = 512 * n" "fragment_size (ec_sizes n) = 512" "fragments (ec_sizes n) = n"
  by (simp_all add: ec_sizes_def)

text \<open>The last stripe of a write in the cache.\<close>

lemma add_stripe_ok:
  assumes "2 \<le> N" "N \<le> 65536" "stripes_ok N F R sc" "prepared N off d fop" "0 < length d"
  obtains sc' where "ec_add_stripe_in_cache (ec_sizes (of_nat N)) limit fresh fop sc = Some sc'"
    "stripes_ok N F (insert (off div (512 * N) + covered N off (length d) - 1) R) sc'"
proof -
  let ?S = "512 * N" and ?m = "covered N off (length d)" and ?sc = "ec_stripe_cache_init limit sc" and ?R = "insert (off div (512 * N) + covered N off (length d) - 1) R"
  note p = preparedD [OF assms(4)] and f = unat_fragments [OF assms(2)]
  have N: "0 < N" using assms(1) by simp
  have m: "0 < ?m" using covered_bounds(3) [OF N assms(5)] .
  have i: "stripes_ok N F R ?sc" using assms(3) by (rule cache_init_ok)
  show ?thesis
  proof (cases "0 < sc_max ?sc")
    case False
    then show ?thesis using that [of ?sc] stripes_ok_mono [OF i] by (auto simp: ec_add_stripe_in_cache_def Let_def)
  next
    case True
    obtain found sc1 where a: "ec_allocate_stripe fresh ?sc = Some (found, sc1)" "unat (sc_count sc1) = length (sc_lru sc1)" "sc_count sc1 \<le> sc_max sc1"
      "\<not> found \<Longrightarrow> sc1 = ?sc" "found \<Longrightarrow> sc_lru sc1 \<noteq> []" "found \<Longrightarrow> \<forall>s \<in> set (butlast (sc_lru sc1)). stripe_ok N F R s"
      using allocate_ok [OF i True] by metis
    have le: "?S \<le> ?S * ?m" using m by simp
    have "unat (w_size fop - 512 * of_nat N) = ?S * ?m - ?S" using p(4) le f by (simp add: unat_sub word_le_nat_alt)
    then have "read_mem (unat (w_size fop - 512 * of_nat N)) (unat (512 * of_nat N :: u64)) (w_buf fop) = Some (take ?S (drop (?S * ?m - ?S) (w_buf fop)))"
      using p(7) le f by (simp add: read_mem_def)
    then have w: "ec_write_stripe_data (ec_sizes (of_nat N)) fop s = Some (s\<lparr> s_data := take ?S (drop (?S * ?m - ?S) (w_buf fop)), frag_offset := w_last fop - 512 \<rparr>)" for s
      by (simp add: ec_write_stripe_data_def)
    have l: "unat (w_last fop - 512) = 512 * (off div ?S + ?m - 1)" using p(6) m by (simp add: unat_sub word_le_nat_alt diff_mult_distrib2)
    have n: "stripe_ok N F ?R (s\<lparr> s_data := x, frag_offset := w_last fop - 512 \<rparr>)" for s x using l by (auto simp: stripe_ok_def)
    show ?thesis
    proof (cases found)
      case False
      then show ?thesis using that [of ?sc] stripes_ok_mono [OF i] a True by (auto simp: ec_add_stripe_in_cache_def Let_def)
    next
      case f: True
      let ?s = "(last (sc_lru sc1))\<lparr> s_data := take ?S (drop (?S * ?m - ?S) (w_buf fop)), frag_offset := w_last fop - 512 \<rparr>"
      have "stripes_ok N F ?R (sc1\<lparr> sc_lru := butlast (sc_lru sc1) @ [?s] \<rparr>)"
        using a(2,3) a(5,6) [OF f] n stripe_ok_mono [of N F R _ ?R] by (auto simp: stripes_ok_def)
      moreover have "ec_add_stripe_in_cache (ec_sizes (of_nat N)) limit fresh fop sc = Some (sc1\<lparr> sc_lru := butlast (sc_lru sc1) @ [?s] \<rparr>)"
        using True a(1) f w by (simp add: ec_add_stripe_in_cache_def Let_def)
      ultimately show ?thesis using that by blast
    qed
  qed
qed

text \<open>A stripe that is found is the one of the file.\<close>

lemma get_stripe_ok:
  assumes "stripes_ok N F {} sc" "unat offset = 512 * k" "offset \<noteq> - 1"
  obtains found sc' where "ec_get_stripe_from_cache_locked limit offset sc = (found, sc')" "stripes_ok N F {} sc'" "\<And>s. found = Some s \<Longrightarrow> right_stripe N F k s"
proof -
  let ?sc = "ec_stripe_cache_init limit sc"
  have i: "stripes_ok N F {} ?sc" using assms(1) by (rule cache_init_ok)
  show ?thesis
  proof (cases "find (\<lambda>s. frag_offset s = offset) (sc_lru ?sc)")
    case None
    then show ?thesis using that [of None ?sc] i by (simp add: ec_get_stripe_from_cache_locked_def Let_def)
  next
    case (Some s)
    then have s: "s \<in> set (sc_lru ?sc)" "frag_offset s = offset" using find_Some_set by fastforce+
    then have "right_stripe N F k s" using i assms(2,3) by (auto simp: stripes_ok_def stripe_ok_def)
    moreover have "Suc (length (sc_lru ?sc) - Suc 0) = length (sc_lru ?sc)" using length_pos_if_in_set [OF s(1)] by simp
    then have "stripes_ok N F {} (?sc\<lparr> sc_lru := remove1 s (sc_lru ?sc) @ [s] \<rparr>)"
      using i s(1) set_remove1_subset [of s "sc_lru ?sc"] by (auto simp: stripes_ok_def length_remove1)
    ultimately show ?thesis using that Some by (auto simp: ec_get_stripe_from_cache_locked_def Let_def)
  qed
qed

section \<open>Merging the old contents\<close>

definition from_file :: "nat \<Rightarrow> u8 list \<Rightarrow> nat \<Rightarrow> write_fop \<Rightarrow> nat set \<Rightarrow> bool" where
  "from_file N F off fop I \<longleftrightarrow> (\<forall>i \<in> I. i < length (w_buf fop) \<longrightarrow> w_buf fop ! i = byte_at F (512 * N * (off div (512 * N)) + i))"

text \<open>What a read of the stripe \<open>k\<close> gives: its bytes up to the end of the file.\<close>

abbreviation stripe_bytes :: "nat \<Rightarrow> u8 list \<Rightarrow> nat \<Rightarrow> u8 list" where
  "stripe_bytes N F k \<equiv> map (byte_at F) [512 * N * k..<min (512 * N * k + 512 * N) (length F)]"

lemma stripe_bytes_nth: "j < 512 * N \<Longrightarrow> (if j < length (stripe_bytes N F k) then stripe_bytes N F k ! j else 0) = byte_at F (512 * N * k + j)"
  by (auto simp: byte_at_def)

lemma write_unats:
  assumes "prepared N off d fop" "0 < N" "0 < length d"
  shows "unat (w_size fop - w_user_size fop - w_head fop) = 512 * N * covered N off (length d) - (off mod (512 * N) + length d)"
    "unat (w_user_size fop + w_head fop) = off mod (512 * N) + length d"
proof -
  note p = preparedD [OF assms(1)] and c = covered_bounds [OF assms(2,3), of off]
  show "unat (w_size fop - w_user_size fop - w_head fop) = 512 * N * covered N off (length d) - (off mod (512 * N) + length d)"
    using p(2,3,4) c(1) by (simp add: unat_sub word_le_nat_alt)
  have "off mod (512 * N) + length d < 2 ^ 64" using c(1) p(4) unsigned_less [of "w_size fop", where ?'a = nat] by simp
  then show "unat (w_user_size fop + w_head fop) = off mod (512 * N) + length d" using p(2,3) by (simp add: unat_plus_if_size word_size)
qed

lemma write_mem_nil: "off \<le> length dst \<Longrightarrow> write_mem off [] dst = Some dst"
  by (simp add: write_mem_def)

text \<open>The tail of a buffer is filled with what there is of a stripe, and then with zeros.\<close>

lemma fill_ok:
  assumes "b + T \<le> length buf" "T \<le> S" "length V \<le> S" "t = length V - (S - T)"
  obtains buf1 buf2 where "write_mem b (take t (drop (S - T) V)) buf = Some buf1" "write_mem (b + t) (replicate (T - t) 0) buf1 = Some buf2"
    "length buf1 = length buf" "length buf2 = length buf" "\<And>i. i < length buf \<Longrightarrow> i < b \<or> b + T \<le> i \<Longrightarrow> buf2 ! i = buf ! i"
    "\<And>j. j < T \<Longrightarrow> buf2 ! (b + j) = (if S - T + j < length V then V ! (S - T + j) else 0)"
proof -
  have t: "t \<le> T" using assms(2-4) by simp
  have lv: "length (take t (drop (S - T) V)) = t" by (simp add: assms(4))
  have pre: "b + length (take t (drop (S - T) V)) \<le> length buf" unfolding lv using assms(1) t by simp
  obtain buf1 where b1: "write_mem b (take t (drop (S - T) V)) buf = Some buf1" "length buf1 = length buf"
    "\<And>i. i < length buf \<Longrightarrow> buf1 ! i = (if b \<le> i \<and> i < b + t then take t (drop (S - T) V) ! (i - b) else buf ! i)"
    using write_mem_ok [OF pre] unfolding lv by metis
  have "b + t + length (replicate (T - t) (0 :: u8)) \<le> length buf1" using t assms(1) by (simp add: b1(2))
  from write_mem_ok [OF this] obtain buf2 where b2: "write_mem (b + t) (replicate (T - t) 0) buf1 = Some buf2" "length buf2 = length buf"
    "\<And>i. i < length buf \<Longrightarrow> buf2 ! i = (if b + t \<le> i \<and> i < b + t + (T - t) then replicate (T - t) 0 ! (i - (b + t)) else buf1 ! i)"
    unfolding b1(2) length_replicate by metis
  show ?thesis
  proof (rule that [OF b1(1) b2(1) b1(2) b2(2)])
    show "buf2 ! i = buf ! i" if "i < length buf" "i < b \<or> b + T \<le> i" for i using b2(3) [of i] b1(3) [of i] that t by auto
    show "buf2 ! (b + j) = (if S - T + j < length V then V ! (S - T + j) else 0)" if j: "j < T" for j
    proof (cases "j < t")
      case True
      then have "S - T + j < length V" using assms(4) by simp
      then show ?thesis using b2(3) [of "b + j"] b1(3) [of "b + j"] j assms(1) True by simp
    next
      case False
      then have "j - t < T - t" "\<not> S - T + j < length V" using j assms(2-4) by simp_all
      then show ?thesis using b2(3) [of "b + j"] False j assms(1) by simp
    qed
  qed
qed

lemma fill_head_ok:
  assumes "h \<le> length buf" "t = min (length V) h"
  obtains buf1 buf2 where "write_mem 0 (take t V) buf = Some buf1" "write_mem t (replicate (h - t) 0) buf1 = Some buf2"
    "length buf1 = length buf" "length buf2 = length buf" "\<And>i. i < length buf \<Longrightarrow> h \<le> i \<Longrightarrow> buf2 ! i = buf ! i"
    "\<And>j. j < h \<Longrightarrow> buf2 ! j = (if j < length V then V ! j else 0)"
proof (rule fill_ok [of 0 h buf h "take h V" t])
  fix buf1 buf2
  assume b: "write_mem 0 (take t (drop (h - h) (take h V))) buf = Some buf1" "write_mem (0 + t) (replicate (h - t) 0) buf1 = Some buf2"
    "length buf1 = length buf" "length buf2 = length buf" "\<And>i. i < length buf \<Longrightarrow> i < 0 \<or> 0 + h \<le> i \<Longrightarrow> buf2 ! i = buf ! i"
    "\<And>j. j < h \<Longrightarrow> buf2 ! (0 + j) = (if h - h + j < length (take h V) then take h V ! (h - h + j) else 0)"
  have "take t (drop (h - h) (take h V)) = take t V" using assms(2) by simp
  then show thesis using that [of buf1 buf2] b by simp
qed (use assms in auto)

lemma merge_tail_ok:
  assumes "2 \<le> N" "N \<le> 65536" "stripes_ok N F R sc" "prepared N off d fop" "0 < length d" "off mod (512 * N) + length d < 512 * N * covered N off (length d)"
    "concat vs = stripe_bytes N F (off div (512 * N) + covered N off (length d) - 1)" "from_file N F off fop I" "I \<subseteq> {..<off mod (512 * N)}"
  obtains fop' sc' where "ec_writev_merge_tail (ec_sizes (of_nat N)) limit fresh (Inr vs) fop sc = Some (fop', sc')" "prepared N off d fop'"
    "from_file N F off fop' (I \<union> {off mod (512 * N) + length d..})" "stripes_ok N F (insert (off div (512 * N) + covered N off (length d) - 1) R) sc'"
proof -
  let ?S = "512 * N" and ?m = "covered N off (length d)" and ?k = "off div (512 * N)" and ?b = "off mod (512 * N) + length d"
  let ?V = "stripe_bytes N F (?k + ?m - 1)" and ?sz = "w_size fop - w_user_size fop - w_head fop"
  have N: "0 < N" using assms(1) by simp
  note p = preparedD [OF assms(4)] and f = unat_fragments [OF assms(2)] and c = covered_bounds [OF N assms(5), of off] and u = write_unats [OF assms(4) N assms(5)]
  define T L where "T = ?S * ?m - ?b" and "L = length ?V"
  have T: "unat ?sz = T" "0 < T" "T < ?S" "?S * ?m - T = ?b" using u(1) c assms(6) by (simp_all add: T_def)
  have L: "L \<le> ?S" by (simp add: L_def)
  then have "L < 2 ^ LENGTH(64)" using assms(2) by simp
  then have uL: "unat (of_nat L :: u64) = L" by (simp only: unat_of_nat mod_less)
  have base: "unat (512 * of_nat N - ?sz) = ?S - T" using T f by (simp add: unat_sub word_le_nat_alt)
  define t where "t = L - (?S - T)"
  have bl: "length (w_buf fop) = ?b + T" using p(7) c(1) by (simp add: T_def)
  obtain buf1 buf2 where b: "write_mem ?b (take t (drop (?S - T) ?V)) (w_buf fop) = Some buf1" "write_mem (?b + t) (replicate (T - t) 0) buf1 = Some buf2"
    "length buf1 = length (w_buf fop)" "length buf2 = length (w_buf fop)" "\<And>i. i < length (w_buf fop) \<Longrightarrow> i < ?b \<or> ?b + T \<le> i \<Longrightarrow> buf2 ! i = w_buf fop ! i"
    "\<And>j. j < T \<Longrightarrow> buf2 ! (?b + j) = (if ?S - T + j < length ?V then ?V ! (?S - T + j) else 0)"
    using fill_ok [OF eq_refl [OF bl [symmetric]] less_imp_le [OF T(3)] L [unfolded L_def] t_def [unfolded L_def]] by metis
  have tT: "t \<le> T" using L T(3) by (simp add: t_def)
  have ws: "unat (w_size fop - x) = ?S * ?m - unat x" if "unat x \<le> T" for x
    using that p(4) by (intro trans [OF unat_sub]) (auto simp: word_le_nat_alt T_def)
  have w1: "unat (w_size fop - ?sz) = ?b" using ws [of ?sz] T(1,4) by simp
  let ?base = "512 * of_nat N - ?sz" and ?tmp = "min (of_nat L - (512 * of_nat N - ?sz)) ?sz"
  have "\<exists>sz'. (if ?base < of_nat L
      then Option.bind (write_mem (unat (w_size fop - ?sz)) (take (unat ?tmp) (drop (unat ?base) ?V)) (w_buf fop)) (\<lambda>buf. Some (?sz - ?tmp, buf))
      else Some (?sz, w_buf fop)) = Some (sz', buf1) \<and> unat sz' = T - t"
  proof (cases "?base < of_nat L")
    case True
    then have "unat (of_nat L - ?base) = t" using uL base by (simp add: unat_sub word_less_nat_alt word_le_nat_alt t_def)
    then have "unat ?tmp = t" using tT T(1) by (auto simp: min_def word_le_nat_alt)
    moreover from this have "unat (?sz - ?tmp) = T - t" using tT T(1) by (simp add: unat_sub word_le_nat_alt)
    ultimately show ?thesis using True b(1) w1 base by simp
  next
    case False
    then have "t = 0" using uL base by (simp add: word_less_nat_alt t_def)
    then show ?thesis using False b(1) T(1) bl by (simp add: write_mem_nil)
  qed
  then obtain sz' where s1: "(if ?base < of_nat L
      then Option.bind (write_mem (unat (w_size fop - ?sz)) (take (unat ?tmp) (drop (unat ?base) ?V)) (w_buf fop)) (\<lambda>buf. Some (?sz - ?tmp, buf))
      else Some (?sz, w_buf fop)) = Some (sz', buf1)" and sz': "unat sz' = T - t" by blast
  have "unat (w_size fop - sz') = ?b + t" using ws [of sz'] sz' T(4) tT c(1) by (simp add: T_def)
  then have s2: "(if 0 < sz' then write_mem (unat (w_size fop - sz')) (replicate (unat sz') 0) buf1 else Some buf1) = Some buf2"
    using b(2,3) sz' tT bl by (auto simp: word_less_nat_alt write_mem_nil)
  let ?fop = "fop\<lparr> w_buf := buf2 \<rparr>"
  have pr: "prepared N off d ?fop" using b(4,5) bl by (intro prepared_buf [OF assms(4)]) auto
  have e: "512 * N * (?k + ?m - 1) + (?S - T + j) = ?S * ?k + (?b + j)" if "j < T" for j
  proof -
    have "?S * (?k + ?m - 1) + ?S = ?S * ?k + ?S * ?m" using c(3) by (cases ?m) (simp_all add: distrib_left)
    then show ?thesis using T(3,4) assms(5) by linarith
  qed
  have ff: "from_file N F off ?fop (I \<union> {?b..})" unfolding from_file_def
  proof (intro ballI impI)
    fix i
    assume i: "i \<in> I \<union> {?b..}" "i < length (w_buf ?fop)"
    show "w_buf ?fop ! i = byte_at F (?S * ?k + i)"
    proof (cases "?b \<le> i")
      case True
      then have j: "i - ?b < T" "?b + (i - ?b) = i" using i(2) b(4) bl by auto
      then show ?thesis using b(6) [OF j(1)] stripe_bytes_nth [of "?S - T + (i - ?b)" N F "?k + ?m - 1"] e [OF j(1)] T(3) by simp
    next
      case False
      then show ?thesis using i assms(8) b(4,5) by (auto simp: from_file_def)
    qed
  qed
  obtain sc' where s3: "(if limit \<noteq> 0 then ec_add_stripe_in_cache (ec_sizes (of_nat N)) limit fresh ?fop sc else Some sc) = Some sc'"
    "stripes_ok N F (insert (?k + ?m - 1) R) sc'"
    using add_stripe_ok [OF assms(1-3) pr assms(5), of limit fresh] stripes_ok_mono [OF assms(3)] by (metis subset_insertI)
  have "ec_writev_merge_tail (ec_sizes (of_nat N)) limit fresh (Inr vs) fop sc = Some (?fop, sc')"
    by (simp only: ec_writev_merge_tail_def sum.case Let_def sizes iov_copy assms(7) L_def [symmetric] s1 s2 s3(1) Option.bind.bind_lunit split_conv)
  then show ?thesis using that pr ff s3(2) by blast
qed

text \<open>The head of the first stripe, and its tail where the write ends in it.\<close>

lemma merge_head_ok:
  assumes "2 \<le> N" "N \<le> 65536" "stripes_ok N F R sc" "prepared N off d fop" "0 < length d" "concat vs = stripe_bytes N F (off div (512 * N))"
  obtains fop' sc' where "ec_writev_merge_head (ec_sizes (of_nat N)) limit fresh (Inr vs) fop sc = Some (fop', sc')" "prepared N off d fop'"
    "from_file N F off fop' ({..<off mod (512 * N)} \<union> (if covered N off (length d) = 1 then {off mod (512 * N) + length d..} else {}))"
    "stripes_ok N F (if covered N off (length d) = 1 then insert (off div (512 * N)) R else R) sc'"
proof -
  let ?S = "512 * N" and ?m = "covered N off (length d)" and ?k = "off div (512 * N)" and ?h = "off mod (512 * N)"
  let ?V = "stripe_bytes N F ?k"
  have N: "0 < N" using assms(1) by simp
  note p = preparedD [OF assms(4)] and f = unat_fragments [OF assms(2)] and c = covered_bounds [OF N assms(5), of off] and u = write_unats [OF assms(4) N assms(5)]
  have h: "?h < ?S" using N by simp
  define L where "L = length ?V"
  have L: "L \<le> ?S" by (simp add: L_def)
  then have "L < 2 ^ LENGTH(64)" using assms(2) by simp
  then have uL: "unat (of_nat L :: u64) = L" by (simp only: unat_of_nat mod_less)
  define t where "t = min L ?h"
  have pre: "?h \<le> length (w_buf fop)" using p(7) c(1) by simp
  obtain buf1 buf2 where b: "write_mem 0 (take t ?V) (w_buf fop) = Some buf1" "write_mem t (replicate (?h - t) 0) buf1 = Some buf2"
    "length buf1 = length (w_buf fop)" "length buf2 = length (w_buf fop)" "\<And>i. i < length (w_buf fop) \<Longrightarrow> ?h \<le> i \<Longrightarrow> buf2 ! i = w_buf fop ! i"
    "\<And>j. j < ?h \<Longrightarrow> buf2 ! j = (if j < length ?V then ?V ! j else 0)"
    by (rule fill_head_ok [OF pre t_def [unfolded L_def]]) (rule that)
  have tm: "unat (min (of_nat L) (w_head fop)) = t" using uL p(2) by (auto simp: min_def word_le_nat_alt t_def)
  have "\<exists>base sz. (if 0 < (of_nat L :: u64)
      then Option.bind (write_mem 0 (take (unat (min (of_nat L) (w_head fop))) (drop 0 ?V)) (w_buf fop))
        (\<lambda>buf. Some (min (of_nat L) (w_head fop), w_head fop - min (of_nat L) (w_head fop), buf))
      else Some (0, w_head fop, w_buf fop)) = Some (base, sz, buf1) \<and> unat base = t \<and> unat sz = ?h - t"
  proof (cases "L = 0")
    case True
    then show ?thesis using b(1) p(2) by (simp add: t_def write_mem_nil)
  next
    case False
    then have "0 < (of_nat L :: u64)" using uL by (simp add: word_less_nat_alt)
    moreover have "unat (w_head fop - min (of_nat L) (w_head fop)) = ?h - t" using p(2) tm by (simp add: unat_sub)
    ultimately show ?thesis using b(1) tm by simp
  qed
  then obtain base sz where s1: "(if 0 < (of_nat L :: u64)
      then Option.bind (write_mem 0 (take (unat (min (of_nat L) (w_head fop))) (drop 0 ?V)) (w_buf fop))
        (\<lambda>buf. Some (min (of_nat L) (w_head fop), w_head fop - min (of_nat L) (w_head fop), buf))
      else Some (0, w_head fop, w_buf fop)) = Some (base, sz, buf1)" "unat base = t" "unat sz = ?h - t" by blast
  have tl: "t \<le> length buf1" using b(3) pre by (simp add: t_def)
  then have s2: "(if 0 < sz then write_mem (unat base) (replicate (unat sz) 0) buf1 else Some buf1) = Some buf2"
    using b(2) s1(2,3) by (auto simp: word_less_nat_alt write_mem_nil)
  let ?fop = "fop\<lparr> w_buf := buf2 \<rparr>"
  have pr: "prepared N off d ?fop" using b(4,5) p(7) c(1) by (intro prepared_buf [OF assms(4)]) auto
  have ff: "from_file N F off ?fop {..<?h}" using b(6) stripe_bytes_nth [of _ N F ?k] h by (auto simp: from_file_def)
  have e: "ec_writev_merge_head (ec_sizes (of_nat N)) limit fresh (Inr vs) fop sc =
      (if 0 < w_size ?fop - w_user_size ?fop - w_head ?fop \<and> w_size ?fop = 512 * of_nat N
       then ec_writev_merge_tail (ec_sizes (of_nat N)) limit fresh (Inr vs) ?fop sc else Some (?fop, sc))"
    by (simp only: ec_writev_merge_head_def sum.case Let_def sizes iov_copy assms(6) L_def [symmetric] s1(1) s2 Option.bind.bind_lunit split_conv)
  have one: "w_size fop = 512 * of_nat N \<longleftrightarrow> ?m = 1" using p(4) f(2) N by (auto simp: word_unat_eq_iff)
  have pos: "0 < w_size fop - w_user_size fop - w_head fop \<longleftrightarrow> ?h + length d < ?S * ?m" using u(1) by (simp add: word_less_nat_alt)
  show ?thesis
  proof (cases "?m = 1 \<and> ?h + length d < ?S * ?m")
    case True
    then have v: "concat vs = stripe_bytes N F (?k + ?m - 1)" unfolding assms(6) by simp
    obtain fop' sc' where "ec_writev_merge_tail (ec_sizes (of_nat N)) limit fresh (Inr vs) ?fop sc = Some (fop', sc')" "prepared N off d fop'"
      "from_file N F off fop' ({..<?h} \<union> {?h + length d..})" "stripes_ok N F (insert (?k + ?m - 1) R) sc'"
      using merge_tail_ok [OF assms(1-3) pr assms(5) conjunct2 [OF True] v ff order_refl] by blast
    moreover have "ec_writev_merge_head (ec_sizes (of_nat N)) limit fresh (Inr vs) fop sc = ec_writev_merge_tail (ec_sizes (of_nat N)) limit fresh (Inr vs) ?fop sc"
      unfolding e using conjunct1 [OF True] conjunct2 [OF True] one pos by auto
    ultimately show ?thesis using that [of fop' sc'] conjunct1 [OF True] by simp
  next
    case False
    then have "from_file N F off ?fop ({..<?h} \<union> (if ?m = 1 then {?h + length d..} else {}))" using ff b(4) p(7) by (auto simp: from_file_def)
    moreover have "ec_writev_merge_head (ec_sizes (of_nat N)) limit fresh (Inr vs) fop sc = Some (?fop, sc)" unfolding e using False one pos by auto
    moreover have "stripes_ok N F (if ?m = 1 then insert ?k R else R) sc" using assms(3) stripes_ok_mono [OF assms(3)] by auto
    ultimately show ?thesis using that pr by blast
  qed
qed

end
