(* ===== verification/Spec2Isabelle.thy ===== *)
theory Spec2Isabelle
  imports Clear_Locks Dht_Fix Ec_Write
begin

text \<open>
  A verification library for GlusterFS.  A GlusterFS volume is a graph of translators, each of which
  passes file operations on to the ones below it.  Three of them are modelled, the parts of them that
  decide on data: the \<^bold>\<open>locks\<close> translator on each brick, which grants locks to the clients; the
  \<^bold>\<open>distribution\<close> translator (DHT), which divides the names of a directory among the subvolumes by
  their hash; and the \<^bold>\<open>dispersion\<close> translator (EC), which writes to each brick a fragment of a
  file and rebuilds the file from any sufficient number of them.  They meet in a volume as follows:
  DHT chooses the subvolume of a name, EC (as such a subvolume) takes inode locks on its bricks around
  each operation, and the locks translator of each brick answers.

  \<^bold>\<open>Shared.\<close>  \<open>Prelude\<close>: machine integers, error numbers, lists.  C integers that may wrap are words or
  carry the wrap-around explicitly (\<open>s64\<close>); the others are \<open>int\<close> or \<open>nat\<close>.  A failing or undefined
  operation is None; errors the code answers are numbers, as in the code.

  \<^bold>\<open>Locks\<close> (\<open>xlators/features/locks/src\<close>).
  \<^item> \<open>Lk_Types\<close>: owners and lock descriptions (\<open>libglusterfs/src/lkowner.h\<close>).
  \<^item> \<open>Posix_Locks\<close>: the fcntl locks of \<open>common.c\<close> and \<open>posix.c\<close>: \<open>__insert_and_merge\<close>, the grant loop,
    \<open>pl_setlk\<close>, \<open>pl_getlk\<close>, flush, close and the reads and writes that wait.  Shown: exclusion in every
    reachable table, the exact effect of inserting a range, agreement of F_GETLK with F_SETLK, the range
    check, and that waiting reads and writes are resumed; also two places where fcntl rules are broken.
  \<^item> \<open>Lock_State\<close>, \<open>Lock_Domain\<close>, \<open>Lock_Clients\<close>: what inode and entry locks share.  The locale
    \<open>lock_order\<close> is the contract of granting in one domain, \<open>lock_table\<close> that of the tables of all
    inodes under the disconnect of a client; both are interpreted by both kinds of lock.
  \<^item> \<open>Inodelk\<close> (\<open>inodelk.c\<close>) and \<open>Entrylk\<close> (\<open>entrylk.c\<close>): exclusion, no lost wake-up, disconnect,
    references, for every sequence of requests, unlocks, revocations, clear commands and disconnects.
  \<^item> \<open>Clear_Locks\<close> (\<open>clear.c\<close>): the clear-locks command, its text and its effects.

  \<^bold>\<open>Distribution\<close> (\<open>xlators/cluster/dht/src\<close>).
  \<^item> \<open>Dht_Hash\<close>: the hash of a name (\<open>libglusterfs/src/hashfn.c\<close>, \<open>dht-hashfn.c\<close>).
  \<^item> \<open>Dht_Layout\<close> (\<open>dht-layout.c\<close>): layouts, their disk format, merge, sorting and anomalies.  The locale
    \<open>key_order\<close> is the contract of the exchange sorts.  Shown: normalisation reports no anomaly
    exactly when every hash has one owner, and a name is then found there.
  \<^item> \<open>Dht_Selfheal\<close>, \<open>Dht_Fix\<close> (\<open>dht-selfheal.c\<close>): new layouts, fixing, the exchange that keeps old
    ranges, and writing.  Shown: the ranges divide the hashes, and a fixed layout is what the next
    lookup reads.  C doubles are rationals rounded to 53 bits (\<open>dbl\<close>).

  \<^bold>\<open>Dispersion\<close> (\<open>xlators/cluster/ec/src\<close>).
  \<^item> \<open>Gf256\<close>, \<open>Vandermonde\<close>: the field of 256 elements and interpolation in it; no code.
  \<^item> \<open>Ec_Types\<close>, \<open>Ec_Gf8\<close> (\<open>ec-gf8.c\<close>), \<open>Ec_Galois\<close> (\<open>ec-galois.c\<close>): the tables of the field and of the
    programs that multiply.
  \<^item> \<open>Ec_Muladd\<close>, \<open>Ec_Muladd0\<close> to \<open>Ec_Muladd3\<close>, \<open>Ec_Code_C\<close> (\<open>ec-code-c.c\<close>): the 256 portable routines, one
    definition each, and their use.
  \<^item> \<open>Ec_Code\<close> (\<open>ec-code.c\<close>): the generator of register operations; it agrees with the portable code.
  \<^item> \<open>Ec_Matrix\<close>, \<open>Ec_Method\<close>, \<open>Ec_Cache\<close> (\<open>ec-method.c\<close>): the matrices, encoding and decoding, and the
    cache of inverse matrices.  The locale \<open>object_pool\<close> is the contract of getting and returning a
    matrix.  Shown: the matrices are inverse, the cache holds the right ones in every reachable
    state, and the end frees them.
  \<^item> \<open>Ec_Read\<close> (\<open>ec-inode-read.c\<close>, \<open>ec-helpers.h\<close>): what is encoded is read back from any sufficient set
    of bricks, in any order of their answers.
  \<^item> \<open>Ec_Write\<close> (\<open>ec-inode-write.c\<close>, \<open>ec-common.c\<close>): the extension of a write to whole stripes, the merge
    with the old contents, and the cache of stripes.

  \<^bold>\<open>Bounds and termination.\<close>  Loops are structural or have a termination proof.  The loops that might
  not end are \<open>partial_function\<close>s, and that they return is shown: \<open>insert_and_merge\<close> by the bytes the
  locks span, \<open>encode_loop\<close> by the stripes that remain.  There is no fuel.  Sizes
  are bounded where the code's integers are: files of less than \<open>2 ^ 63\<close> bytes, at most 65536 fragments
  (the code allows 16) and 255 bricks, the number of points of the field.

  \<^bold>\<open>Not modelled.\<close>  Messages between processes, timers and threads: each function that runs under a lock
  is one step, and properties range over all sequences of steps.  Of EC, which bricks are asked and
  which answers agree, versions and self-heal; the machine code of the generators, which would need a
  model of the processor; discard and fallocate.  Of DHT, the file operations and the rebalance; of
  locks, reserve and meta locks.  The other translators, the daemons, the command line and the network
  are not modelled, because they are input and output or protocols of their own size.  What the
  modelled code calls of them is an argument of the definitions: the regular expression matcher, the
  memory allocator, the answers of the bricks.
\<close>

end
